(* ===== verification/Prelude.thy ===== *)
theory Prelude
  imports Main "HOL-Library.Char_ord" "HOL-Library.List_Lexorder"
    "HOL-Library.Code_Target_Nat"
begin

text \<open>
  Shared vocabulary of the development.  Go's \<open>(value, error)\<close> results are sums
  (\<open>Inl\<close> the error), chained by \<open>and_then\<close>; Go byte strings are HOL strings (one
  \<open>char\<close> per byte); a Go \<open>map[K]V\<close> is the key-sorted association list of its
  entries, which is a canonical form: two such lists are equal exactly when the maps are.
\<close>

named_theorems go_simps \<open>unfolding rules for the operations of the model\<close>

type_synonym bytes = string

definition and_then :: "'e + 'a \<Rightarrow> ('a \<Rightarrow> 'e + 'b) \<Rightarrow> 'e + 'b" where
  "and_then r f = (case r of Inl e \<Rightarrow> Inl e | Inr x \<Rightarrow> f x)"

definition require :: "bool \<Rightarrow> 'e \<Rightarrow> 'e + unit" where
  "require b e = (if b then Inr () else Inl e)"

lemma and_then_simps [simp]:
  "and_then (Inl e) f = Inl e" "and_then (Inr x) f = f x"
  by (simp_all add: and_then_def)

lemma and_then_Inr: "and_then r f = Inr y \<longleftrightarrow> (\<exists>x. r = Inr x \<and> f x = Inr y)"
  by (cases r) auto

lemma require_simps [simp]:
  "require b e = Inr u \<longleftrightarrow> b" "require b e = Inl e' \<longleftrightarrow> \<not> b \<and> e = e'"
  "require True e = Inr ()" "require False e = Inl e"
  by (auto simp: require_def)

section \<open>Sorted association lists as Go maps\<close>

fun sm_put :: "'k::linorder \<Rightarrow> 'v \<Rightarrow> ('k \<times> 'v) list \<Rightarrow> ('k \<times> 'v) list" where
  "sm_put k v [] = [(k, v)]"
| "sm_put k v ((k', v') # m) =
     (if k < k' then (k, v) # (k', v') # m
      else if k = k' then (k, v) # m
      else (k', v') # sm_put k v m)"

fun sm_del :: "'k \<Rightarrow> ('k \<times> 'v) list \<Rightarrow> ('k \<times> 'v) list" where
  "sm_del k [] = []"
| "sm_del k ((k', v') # m) = (if k = k' then m else (k', v') # sm_del k m)"

definition sm_ok :: "('k::linorder \<times> 'v) list \<Rightarrow> bool" where
  "sm_ok m \<longleftrightarrow> sorted_wrt (<) (map fst m)"

definition sm_map :: "('v \<Rightarrow> 'w) \<Rightarrow> ('k \<times> 'v) list \<Rightarrow> ('k \<times> 'w) list" where
  "sm_map f m = map (\<lambda>(k, v). (k, f v)) m"

lemma sm_ok_Nil [simp]: "sm_ok []"
  by (simp add: sm_ok_def)

lemma sm_ok_Cons [simp]: "sm_ok ((k, v) # m) \<longleftrightarrow> (\<forall>k' \<in> fst ` set m. k < k') \<and> sm_ok m"
  by (auto simp: sm_ok_def)

lemma sm_keys_put [simp]: "fst ` set (sm_put k v m) = insert k (fst ` set m)"
  by (induction k v m rule: sm_put.induct) auto

lemma sm_values_put: "snd ` set (sm_put k v m) \<subseteq> insert v (snd ` set m)"
  by (induction k v m rule: sm_put.induct) auto

lemma sm_ok_put [simp]: "sm_ok m \<Longrightarrow> sm_ok (sm_put k v m)"
  by (induction k v m rule: sm_put.induct) (auto simp: ball_Un)

lemma sm_get_put [simp]: "sm_ok m \<Longrightarrow> map_of (sm_put k v m) = (map_of m)(k \<mapsto> v)"
  by (induction k v m rule: sm_put.induct) (auto simp: fun_eq_iff)

lemma sm_keys_del: "sm_ok m \<Longrightarrow> fst ` set (sm_del k m) = fst ` set m - {k}"
  by (induction k m rule: sm_del.induct) auto

lemma sm_ok_del [simp]: "sm_ok m \<Longrightarrow> sm_ok (sm_del k m)"
  by (induction k m rule: sm_del.induct) (auto simp: sm_keys_del)

lemma sm_get_del [simp]: "sm_ok m \<Longrightarrow> map_of (sm_del k m) = (map_of m)(k := None)"
proof (induction k m rule: sm_del.induct)
  case (2 k k' v' m)
  then show ?case by (auto simp: fun_eq_iff map_of_eq_None_iff)
qed simp

lemma sm_keys_map [simp]: "map fst (sm_map f m) = map fst m"
  by (induction m) (auto simp: sm_map_def)

lemma sm_ok_map [simp]: "sm_ok (sm_map f m) = sm_ok m"
  by (simp add: sm_ok_def)

lemma sm_get_map [simp]: "map_of (sm_map f m) k = map_option f (map_of m k)"
  by (induction m) (auto simp: sm_map_def)

lemma length_sm_map [simp]: "length (sm_map f m) = length m"
  by (simp add: sm_map_def)

lemma sm_ok_distinct: "sm_ok m \<Longrightarrow> distinct (map fst m)"
  by (simp add: sm_ok_def strict_sorted_iff)

lemma sm_put_Cons_less: "\<forall>k' \<in> fst ` set m. k < k' \<Longrightarrow> sm_put k v m = (k, v) # m"
  by (cases m) auto

lemma sm_put_last: "\<forall>k' \<in> fst ` set m. k' < k \<Longrightarrow> sm_put k v m = m @ [(k, v)]"
  by (induction k v m rule: sm_put.induct) auto

lemma sm_ext: "sm_ok m \<Longrightarrow> sm_ok m' \<Longrightarrow> map_of m = map_of m' \<Longrightarrow> m = m'"
proof -
  assume ok: "sm_ok m" "sm_ok m'" and eq: "map_of m = map_of m'"
  have "set m = set m'"
    using ok eq by (metis map_of_inject_set sm_ok_distinct)
  moreover from this have "map fst m = map fst m'"
    using ok unfolding sm_ok_def by (metis list.set_map strict_sorted_equal)
  ultimately show "m = m'"
    using ok by (metis distinct_map list_eq_iff_nth_eq map_eq_imp_length_eq
        nth_eq_iff_index_eq nth_map nth_mem sm_ok_distinct inj_on_eq_iff)
qed

text \<open>
  The interface a component relies on when it keeps a table: storing, deleting and
  reading back.  The sorted association lists above provide it.
\<close>

locale key_table =
  fixes emp :: "'m" and put :: "'k \<Rightarrow> 'v \<Rightarrow> 'm \<Rightarrow> 'm" and del :: "'k \<Rightarrow> 'm \<Rightarrow> 'm"
    and get :: "'m \<Rightarrow> 'k \<Rightarrow> 'v option" and ok :: "'m \<Rightarrow> bool"
  assumes get_emp: "get emp k = None"
    and get_put: "ok m \<Longrightarrow> get (put k v m) = (get m)(k \<mapsto> v)"
    and get_del: "ok m \<Longrightarrow> get (del k m) = (get m)(k := None)"
    and ok_emp: "ok emp"
    and ok_put: "ok m \<Longrightarrow> ok (put k v m)"
    and ok_del: "ok m \<Longrightarrow> ok (del k m)"
begin

lemma del_put_other: "ok m \<Longrightarrow> k \<noteq> k' \<Longrightarrow> get (del k (put k' v m)) k' = Some v"
  by (simp add: get_put get_del ok_put)

lemma put_del_same: "ok m \<Longrightarrow> get (del k (put k v m)) = get (del k m)"
  by (simp add: get_put get_del ok_put fun_eq_iff)

end

interpretation smap: key_table "[]" sm_put sm_del map_of sm_ok
  by unfold_locales auto

section \<open>Duplicate detection with a seen set\<close>

fun has_duplicate :: "'a list \<Rightarrow> 'a list \<Rightarrow> bool" where
  "has_duplicate seen [] = False"
| "has_duplicate seen (x # xs) = (x \<in> set seen \<or> has_duplicate (x # seen) xs)"

lemma has_duplicate_iff:
  "has_duplicate seen xs \<longleftrightarrow> \<not> (distinct xs \<and> set seen \<inter> set xs = {})"
  by (induction seen xs rule: has_duplicate.induct) auto

lemma has_duplicate_Nil [simp]: "has_duplicate [] xs \<longleftrightarrow> \<not> distinct xs"
  by (simp add: has_duplicate_iff)

section \<open>Searching a list\<close>

lemma find_SomeD: "find P xs = Some x \<Longrightarrow> x \<in> set xs \<and> P x"
  by (auto simp: find_Some_iff)

end
