(* ===== verification/Go_Text.thy ===== *)
theory Go_Text
  imports Prelude
begin

text \<open>
  The parts of Go's standard library that the modelled code calls on strings: \<open>unicode/utf8\<close>
  (ValidString, RuneCountInString), \<open>strings.TrimSpace\<close>, \<open>strconv\<close> (FormatInt, ParseInt),
  \<open>encoding/hex\<close> and \<open>encoding/base64\<close>, on byte strings.  Nothing here is code of
  the repository; the components import it.
\<close>

abbreviation byte :: "char \<Rightarrow> nat" where
  "byte c \<equiv> of_char c"

lemma byte_less_256 [simp]: "byte c < 256"
  by (rule nat_of_char_less_256)

section \<open>UTF-8\<close>

definition cont_byte :: "char \<Rightarrow> bool" where
  "cont_byte c \<longleftrightarrow> 128 \<le> byte c \<and> byte c \<le> 191"

text \<open>The first rune of a byte string and the rest, \<open>None\<close> for the empty string and for an
  invalid encoding (\<open>utf8.DecodeRuneInString\<close>: RuneError).\<close>

fun decode_rune :: "bytes \<Rightarrow> (nat \<times> bytes) option" where
  "decode_rune [] = None"
| "decode_rune (a # s) =
     (let x = byte a in
      if x < 128 then Some (x, s)
      else if x < 194 then None
      else if x < 224 then
        (case s of b # s1 \<Rightarrow>
           if cont_byte b then Some ((x - 192) * 64 + (byte b - 128), s1) else None
         | _ \<Rightarrow> None)
      else if x < 240 then
        (case s of b # c # s1 \<Rightarrow>
           if cont_byte b \<and> cont_byte c \<and> (x = 224 \<longrightarrow> 160 \<le> byte b) \<and> (x = 237 \<longrightarrow> byte b \<le> 159)
           then Some ((x - 224) * 4096 + (byte b - 128) * 64 + (byte c - 128), s1) else None
         | _ \<Rightarrow> None)
      else if x < 245 then
        (case s of b # c # d # s1 \<Rightarrow>
           if cont_byte b \<and> cont_byte c \<and> cont_byte d \<and>
              (x = 240 \<longrightarrow> 144 \<le> byte b) \<and> (x = 244 \<longrightarrow> byte b \<le> 143)
           then Some ((x - 240) * 262144 + (byte b - 128) * 4096 + (byte c - 128) * 64 + (byte d - 128), s1)
           else None
         | _ \<Rightarrow> None)
      else None)"

lemma decode_rune_length:
  "decode_rune s = Some (r, s') \<Longrightarrow> length s' < length s"
  by (induction s rule: decode_rune.induct)
    (auto simp: Let_def split: if_splits list.splits)

lemma decode_rune_Cons_length [termination_simp]:
  "decode_rune (a # s) = Some (r, s') \<Longrightarrow> length s' < Suc (length s)"
  using decode_rune_length [of "a # s"] by simp

lemma decode_rune_ascii: "byte a < 128 \<Longrightarrow> decode_rune (a # s) = Some (byte a, s)"
  by simp

text \<open>The bytes of the first rune: the prefix that \<open>decode_rune\<close> consumes.\<close>

lemma decode_rune_suffix: "decode_rune s = Some (r, s') \<Longrightarrow> \<exists>p. s = p @ s' \<and> p \<noteq> []"
  by (induction s rule: decode_rune.induct)
    (auto simp: Let_def split: if_splits list.splits)

declare decode_rune.simps(2) [simp del]

declare decode_rune_length [termination_simp]

fun utf8_valid :: "bytes \<Rightarrow> bool" where
  "utf8_valid s = (s = [] \<or> (case decode_rune s of None \<Rightarrow> False | Some (r, s') \<Rightarrow> utf8_valid s'))"

declare utf8_valid.simps [simp del]

text \<open>\<open>utf8.RuneCountInString\<close>: an invalid byte counts as one rune.\<close>

fun rune_count :: "bytes \<Rightarrow> nat" where
  "rune_count [] = 0"
| "rune_count (a # s) =
     (case decode_rune (a # s) of None \<Rightarrow> Suc (rune_count s) | Some (r, s') \<Rightarrow> Suc (rune_count s'))"

definition ascii :: "bytes \<Rightarrow> bool" where
  "ascii s \<longleftrightarrow> (\<forall>c \<in> set s. byte c < 128)"

lemma utf8_valid_Nil [simp]: "utf8_valid []"
  by (simp add: utf8_valid.simps)

lemma utf8_valid_Cons_ascii: "byte a < 128 \<Longrightarrow> utf8_valid (a # s) = utf8_valid s"
  by (subst utf8_valid.simps) (simp add: decode_rune_ascii)

lemma utf8_valid_ascii: "ascii s \<Longrightarrow> utf8_valid s"
  by (induction s) (auto simp: ascii_def utf8_valid_Cons_ascii)

section \<open>White space\<close>

text \<open>The runes of \<open>unicode.IsSpace\<close>, by their encodings: one, two or three bytes.\<close>

definition space1 :: "nat \<Rightarrow> bool" where
  "space1 x \<longleftrightarrow> (9 \<le> x \<and> x \<le> 13) \<or> x = 32"

definition space2 :: "nat \<Rightarrow> nat \<Rightarrow> bool" where
  "space2 x y \<longleftrightarrow> x = 194 \<and> (y = 133 \<or> y = 160)"

definition space3 :: "nat \<Rightarrow> nat \<Rightarrow> nat \<Rightarrow> bool" where
  "space3 x y z \<longleftrightarrow>
     (x = 225 \<and> y = 154 \<and> z = 128) \<or>
     (x = 226 \<and> y = 128 \<and> ((128 \<le> z \<and> z \<le> 138) \<or> z = 168 \<or> z = 169 \<or> z = 175)) \<or>
     (x = 226 \<and> y = 129 \<and> z = 159) \<or>
     (x = 227 \<and> y = 128 \<and> z = 128)"

fun trim_left :: "bytes \<Rightarrow> bytes" where
  "trim_left [] = []"
| "trim_left (a # s) =
     (if space1 (byte a) then trim_left s
      else case s of
        [] \<Rightarrow> a # s
      | b # s1 \<Rightarrow>
          if space2 (byte a) (byte b) then trim_left s1
          else (case s1 of
            [] \<Rightarrow> a # s
          | c # s2 \<Rightarrow> if space3 (byte a) (byte b) (byte c) then trim_left s2 else a # s))"

text \<open>The mirror image, on the reversed string.\<close>

fun trim_left_rev :: "bytes \<Rightarrow> bytes" where
  "trim_left_rev [] = []"
| "trim_left_rev (a # s) =
     (if space1 (byte a) then trim_left_rev s
      else case s of
        [] \<Rightarrow> a # s
      | b # s1 \<Rightarrow>
          if space2 (byte b) (byte a) then trim_left_rev s1
          else (case s1 of
            [] \<Rightarrow> a # s
          | c # s2 \<Rightarrow> if space3 (byte c) (byte b) (byte a) then trim_left_rev s2 else a # s))"

definition trim_space :: "bytes \<Rightarrow> bytes" where
  "trim_space s = rev (trim_left_rev (rev (trim_left s)))"

declare trim_left.simps(2) [simp del] trim_left_rev.simps(2) [simp del]

lemma length_trim_left: "length (trim_left s) \<le> length s"
proof (induction s rule: trim_left.induct)
  case (2 a s)
  then show ?case by (subst trim_left.simps(2)) (auto split: list.splits simp: le_SucI)
qed simp

lemma length_trim_left_rev: "length (trim_left_rev s) \<le> length s"
proof (induction s rule: trim_left_rev.induct)
  case (2 a s)
  then show ?case by (subst trim_left_rev.simps(2)) (auto split: list.splits simp: le_SucI)
qed simp

lemma length_trim_space: "length (trim_space s) \<le> length s"
  using length_trim_left [of s] length_trim_left_rev [of "rev (trim_left s)"]
  by (simp add: trim_space_def)

definition graphic :: "char \<Rightarrow> bool" where
  "graphic c \<longleftrightarrow> 33 \<le> byte c \<and> byte c < 128"

lemma graphic_not_space:
  "graphic c \<Longrightarrow> \<not> space1 (byte c)" "graphic c \<Longrightarrow> \<not> space2 (byte c) y"
  "graphic c \<Longrightarrow> \<not> space3 (byte c) y z" "graphic c \<Longrightarrow> \<not> space2 x (byte c)"
  "graphic c \<Longrightarrow> \<not> space3 x y (byte c)"
  by (auto simp: graphic_def space1_def space2_def space3_def)

text \<open>A string that starts and ends with a visible ASCII character is its own trimming.\<close>

lemma trim_space_graphic:
  assumes "s \<noteq> []" "graphic (hd s)" "graphic (last s)"
  shows "trim_space s = s"
proof -
  obtain a t where s: "s = a # t" using assms(1) by (cases s) auto
  then have "trim_left s = s"
    using assms(2) by (auto simp: graphic_not_space trim_left.simps(2) split: list.splits)
  moreover obtain b u where r: "rev s = b # u" using assms(1) by (cases "rev s") auto
  moreover have "graphic b" using r assms(3) by (metis hd_rev list.sel(1))
  then have "trim_left_rev (b # u) = b # u"
    by (auto simp: graphic_not_space trim_left_rev.simps(2) split: list.splits)
  ultimately show ?thesis by (simp add: trim_space_def rev_swap)
qed


section \<open>Decimal integers\<close>

definition is_digit :: "char \<Rightarrow> bool" where
  "is_digit c \<longleftrightarrow> 48 \<le> byte c \<and> byte c \<le> 57"

definition digit_char :: "nat \<Rightarrow> char" where
  "digit_char n = char_of (48 + n)"

fun nat_digits :: "nat \<Rightarrow> bytes" where
  "nat_digits n = (if n < 10 then [digit_char n] else nat_digits (n div 10) @ [digit_char (n mod 10)])"

declare nat_digits.simps [simp del]

text \<open>\<open>strconv.FormatInt(i, 10)\<close>, also what \<open>%d\<close> prints.\<close>

definition format_int :: "int \<Rightarrow> bytes" where
  "format_int i = (if i < 0 then CHR ''-'' # nat_digits (nat (- i)) else nat_digits (nat i))"

fun dec_value :: "nat \<Rightarrow> bytes \<Rightarrow> nat option" where
  "dec_value acc [] = Some acc"
| "dec_value acc (c # s) = (if is_digit c then dec_value (acc * 10 + (byte c - 48)) s else None)"

definition parse_uint :: "bytes \<Rightarrow> nat option" where
  "parse_uint s = (if s = [] then None else dec_value 0 s)"

text \<open>\<open>strconv.ParseInt(s, 10, 64)\<close>: optional sign, decimal digits, 64-bit range.\<close>

definition parse_int64 :: "bytes \<Rightarrow> int option" where
  "parse_int64 s =
     (case s of
        [] \<Rightarrow> None
      | c # t \<Rightarrow>
          if c = CHR ''-'' then
            (case parse_uint t of Some n \<Rightarrow> if n \<le> 2 ^ 63 then Some (- int n) else None | None \<Rightarrow> None)
          else
            (case parse_uint (if c = CHR ''+'' then t else s) of
               Some n \<Rightarrow> if n < 2 ^ 63 then Some (int n) else None | None \<Rightarrow> None))"

lemma byte_digit_char [simp]: "n < 10 \<Longrightarrow> byte (digit_char n) = 48 + n"
  by (simp add: digit_char_def)

lemma is_digit_digit_char [simp]: "n < 10 \<Longrightarrow> is_digit (digit_char n)"
  by (simp add: is_digit_def)

lemma nat_digits_digits: "c \<in> set (nat_digits n) \<Longrightarrow> is_digit c"
proof (induction n rule: nat_digits.induct)
  case (1 n)
  then show ?case by (cases "n < 10") (auto simp: nat_digits.simps [of n])
qed

lemma nat_digits_nonempty [simp]: "nat_digits n \<noteq> []"
  by (subst nat_digits.simps) simp

lemma dec_value_nat_digits: "dec_value 0 (nat_digits n @ s) = dec_value n s"
proof (induction n arbitrary: s rule: nat_digits.induct)
  case (1 n)
  show ?case
  proof (cases "n < 10")
    case True
    then show ?thesis by (subst nat_digits.simps) simp
  next
    case False
    have "nat_digits n @ s = nat_digits (n div 10) @ digit_char (n mod 10) # s"
      using False by (subst nat_digits.simps) simp
    then have "dec_value 0 (nat_digits n @ s) = dec_value (n div 10) (digit_char (n mod 10) # s)"
      using 1 False by simp
    also have "\<dots> = dec_value (n div 10 * 10 + n mod 10) s" by simp
    finally show ?thesis by (simp add: div_mult_mod_eq)
  qed
qed

lemma parse_uint_nat_digits [simp]: "parse_uint (nat_digits n) = Some n"
  using dec_value_nat_digits [of n "[]"] by (simp add: parse_uint_def)

lemma digit_not_sign: "is_digit c \<Longrightarrow> c \<noteq> CHR ''-'' \<and> c \<noteq> CHR ''+''"
  by (auto simp: is_digit_def)

lemma parse_int64_format_int [simp]:
  assumes "- (2 ^ 63) \<le> i" "i < 2 ^ 63"
  shows "parse_int64 (format_int i) = Some i"
proof (cases "i < 0")
  case True
  then show ?thesis using assms by (simp add: format_int_def parse_int64_def nat_le_iff)
next
  case False
  obtain c t where d: "nat_digits (nat i) = c # t" by (cases "nat_digits (nat i)") auto
  then have "is_digit c" using nat_digits_digits [of c "nat i"] by simp
  then have "c \<noteq> CHR ''-''" "c \<noteq> CHR ''+''" by (simp_all add: digit_not_sign)
  moreover have "parse_uint (c # t) = Some (nat i)" using parse_uint_nat_digits [of "nat i"] d by simp
  ultimately show ?thesis using False assms d by (simp add: format_int_def parse_int64_def nat_less_iff)
qed

lemma format_int_ascii: "ascii (format_int i)"
  by (auto simp: ascii_def format_int_def is_digit_def dest!: nat_digits_digits)

lemma format_int_inj: "format_int i = format_int j \<Longrightarrow> - (2 ^ 63) \<le> i \<Longrightarrow> i < 2 ^ 63 \<Longrightarrow>
    - (2 ^ 63) \<le> j \<Longrightarrow> j < 2 ^ 63 \<Longrightarrow> i = j"
  by (metis option.inject parse_int64_format_int)

section \<open>Hexadecimal\<close>

definition hex_char :: "nat \<Rightarrow> char" where
  "hex_char n = char_of (if n < 10 then 48 + n else 87 + n)"

definition is_lower_hex :: "char \<Rightarrow> bool" where
  "is_lower_hex c \<longleftrightarrow> is_digit c \<or> (97 \<le> byte c \<and> byte c \<le> 102)"

fun hex_encode :: "bytes \<Rightarrow> bytes" where
  "hex_encode [] = []"
| "hex_encode (c # s) = hex_char (byte c div 16) # hex_char (byte c mod 16) # hex_encode s"

lemma is_lower_hex_hex_char [simp]: "n < 16 \<Longrightarrow> is_lower_hex (hex_char n)"
  by (auto simp: is_lower_hex_def hex_char_def is_digit_def)

lemma length_hex_encode [simp]: "length (hex_encode s) = 2 * length s"
  by (induction s rule: hex_encode.induct) auto

lemma hex_encode_lower: "c \<in> set (hex_encode s) \<Longrightarrow> is_lower_hex c"
  by (induction s rule: hex_encode.induct) (auto simp: div_less_iff_less_mult)

lemma hex_char_inj: "m < 16 \<Longrightarrow> n < 16 \<Longrightarrow> hex_char m = hex_char n \<longleftrightarrow> m = n"
proof
  assume "m < 16" "n < 16" "hex_char m = hex_char n"
  then have "byte (hex_char m) = byte (hex_char n)" by simp
  with \<open>m < 16\<close> \<open>n < 16\<close> show "m = n" by (auto simp: hex_char_def split: if_splits)
qed simp

lemma hex_encode_inj: "hex_encode s = hex_encode t \<longleftrightarrow> s = t"
proof
  show "hex_encode s = hex_encode t \<Longrightarrow> s = t"
  proof (induction s arbitrary: t rule: hex_encode.induct)
    case 1
    then show ?case by (cases t) auto
  next
    case (2 c s)
    then obtain d u where t: "t = d # u" by (cases t) auto
    have "byte c div 16 = byte d div 16" "byte c mod 16 = byte d mod 16"
      using 2(2) t by (simp_all add: hex_char_inj div_less_iff_less_mult)
    then have "byte c = byte d" by (metis div_mult_mod_eq)
    then show ?case using 2 t by simp
  qed
qed simp

section \<open>Runes\<close>

text \<open>
  Ranging over the runes of a string, and the rune classes of Go's \<open>unicode\<close> package that the
  validators use: control characters (\<open>unicode.IsControl\<close>) and format characters (\<open>unicode.Cf\<close>, by
  the ranges of the Unicode version that Go 1.22 ships).  Nothing here is code of the repository.
\<close>

text \<open>\<open>for _, r := range s\<close>: an invalid byte yields the replacement character.\<close>

fun runes :: "bytes \<Rightarrow> nat list" where
  "runes [] = []"
| "runes (a # s) =
     (case decode_rune (a # s) of None \<Rightarrow> 65533 # runes s | Some (r, s') \<Rightarrow> r # runes s')"

definition is_control :: "nat \<Rightarrow> bool" where
  "is_control r \<longleftrightarrow> r < 32 \<or> (127 \<le> r \<and> r < 160)"

definition format_ranges :: "(nat \<times> nat) list" where
  "format_ranges =
    [(0xAD, 0xAD), (0x600, 0x605), (0x61C, 0x61C), (0x6DD, 0x6DD), (0x70F, 0x70F), (0x890, 0x891), (0x8E2, 0x8E2),
     (0x180E, 0x180E), (0x200B, 0x200F), (0x202A, 0x202E), (0x2060, 0x2064), (0x2066, 0x206F), (0xFEFF, 0xFEFF),
     (0xFFF9, 0xFFFB), (0x110BD, 0x110BD), (0x110CD, 0x110CD), (0x13430, 0x1343F), (0x1BCA0, 0x1BCA3),
     (0x1D173, 0x1D17A), (0xE0001, 0xE0001), (0xE0020, 0xE007F)]"

definition is_format :: "nat \<Rightarrow> bool" where
  "is_format r \<longleftrightarrow> list_ex (\<lambda>(lo, hi). lo \<le> r \<and> r \<le> hi) format_ranges"

end
