(* ===== verification/Json.thy ===== *)
theory Json
  imports Go_Text
begin

text \<open>
  Go's \<open>encoding/json\<close> as the modelled code uses it: the compact text that \<open>json.Marshal\<close>
  writes (HTML-safe escapes, invalid UTF-8 replaced) and the values the decoder reads, with the
  members of an object in source order and duplicates kept, so that the callers' own duplicate
  checks can be stated.  Numbers stay literals, as with \<open>UseNumber\<close>.  The reader is a lexer
  followed by a push-down machine over tokens, so both are structural recursions.
\<close>

datatype json =
    JNull
  | JBool bool
  | JNum bytes
  | JStr bytes
  | JArr "json list"
  | JObj "(bytes \<times> json) list"

section \<open>String escapes\<close>

definition hex4 :: "nat \<Rightarrow> bytes" where
  "hex4 n = [hex_char (n div 4096 mod 16), hex_char (n div 256 mod 16), hex_char (n div 16 mod 16), hex_char (n mod 16)]"

definition escape_ascii :: "char \<Rightarrow> bytes" where
  "escape_ascii c =
     (if c = CHR 0x5C \<or> c = CHR 0x22 then [CHR 0x5C, c]
      else if c = CHR 0x08 then [CHR 0x5C, CHR ''b'']
      else if c = CHR 0x0C then [CHR 0x5C, CHR ''f'']
      else if c = CHR 0x0A then [CHR 0x5C, CHR ''n'']
      else if c = CHR 0x0D then [CHR 0x5C, CHR ''r'']
      else if c = CHR 0x09 then [CHR 0x5C, CHR ''t'']
      else if byte c < 32 \<or> c = CHR ''<'' \<or> c = CHR ''>'' \<or> c = CHR ''&''
        then CHR 0x5C # CHR ''u'' # hex4 (byte c)
      else [c])"

text \<open>The bytes a string is written with; \<open>take (length s - length s') s\<close> is the
  encoding of the rune that \<open>decode_rune\<close> consumed.\<close>

fun escape :: "bytes \<Rightarrow> bytes" where
  "escape [] = []"
| "escape (c # s) =
     (if byte c < 128 then escape_ascii c @ escape s
      else case decode_rune (c # s) of
        None \<Rightarrow> CHR 0x5C # CHR ''u'' # hex4 65533 @ escape s
      | Some (r, s') \<Rightarrow>
          (if r = 8232 \<or> r = 8233 then CHR 0x5C # CHR ''u'' # hex4 r
           else take (length (c # s) - length s') (c # s)) @ escape s')"

definition hex_digit :: "char \<Rightarrow> nat option" where
  "hex_digit c =
     (if is_digit c then Some (byte c - 48)
      else if 97 \<le> byte c \<and> byte c \<le> 102 then Some (byte c - 87)
      else if 65 \<le> byte c \<and> byte c \<le> 70 then Some (byte c - 55)
      else None)"

definition hex4_value :: "char \<Rightarrow> char \<Rightarrow> char \<Rightarrow> char \<Rightarrow> nat option" where
  "hex4_value a b c d =
     (case (hex_digit a, hex_digit b, hex_digit c, hex_digit d) of
        (Some w, Some x, Some y, Some z) \<Rightarrow> Some (w * 4096 + x * 256 + y * 16 + z)
      | _ \<Rightarrow> None)"

text \<open>\<open>utf8.AppendRune\<close> for a rune that is not a surrogate.\<close>

definition encode_rune :: "nat \<Rightarrow> bytes" where
  "encode_rune r =
     (if r < 128 then [char_of r]
      else if r < 2048 then [char_of (192 + r div 64), char_of (128 + r mod 64)]
      else if r < 65536 then
        [char_of (224 + r div 4096), char_of (128 + r div 64 mod 64), char_of (128 + r mod 64)]
      else [char_of (240 + r div 262144), char_of (128 + r div 4096 mod 64),
            char_of (128 + r div 64 mod 64), char_of (128 + r mod 64)])"

definition surrogate :: "nat \<Rightarrow> bool" where
  "surrogate r \<longleftrightarrow> 55296 \<le> r \<and> r \<le> 57343"

definition surrogate_pair :: "nat \<Rightarrow> nat \<Rightarrow> nat option" where
  "surrogate_pair r1 r2 =
     (if 55296 \<le> r1 \<and> r1 < 56320 \<and> 56320 \<le> r2 \<and> r2 \<le> 57343
      then Some ((r1 - 55296) * 1024 + (r2 - 56320) + 65536) else None)"

definition simple_escape :: "char \<Rightarrow> char option" where
  "simple_escape c =
     (if c = CHR 0x22 \<or> c = CHR 0x5C \<or> c = CHR ''/'' then Some c
      else if c = CHR ''b'' then Some CHR 0x08 else if c = CHR ''f'' then Some CHR 0x0C
      else if c = CHR ''n'' then Some CHR 0x0A else if c = CHR ''r'' then Some CHR 0x0D
      else if c = CHR ''t'' then Some CHR 0x09 else None)"

definition replacement :: bytes where
  "replacement = [CHR 0xEF, CHR 0xBF, CHR 0xBD]"

text \<open>The decoded contents of a string literal (between its quotes): \<open>unquoteBytes\<close>.\<close>

fun unquote :: "bytes \<Rightarrow> bytes option" where
  "unquote [] = Some []"
| "unquote (c # s) =
     (if c = CHR 0x5C then
        (case s of
           [] \<Rightarrow> None
         | e # t \<Rightarrow>
             if e = CHR ''u'' then
               (case t of
                  h1 # h2 # h3 # h4 # t1 \<Rightarrow>
                    (case hex4_value h1 h2 h3 h4 of
                       None \<Rightarrow> None
                     | Some r \<Rightarrow>
                         if surrogate r then
                           (case t1 of
                              b # u # g1 # g2 # g3 # g4 # t2 \<Rightarrow>
                                (case (if b = CHR 0x5C \<and> u = CHR ''u''
                                       then Option.bind (hex4_value g1 g2 g3 g4) (surrogate_pair r)
                                       else None) of
                                   Some p \<Rightarrow> map_option ((@) (encode_rune p)) (unquote t2)
                                 | None \<Rightarrow> map_option ((@) replacement) (unquote t1))
                            | _ \<Rightarrow> map_option ((@) replacement) (unquote t1))
                         else map_option ((@) (encode_rune r)) (unquote t1))
                | _ \<Rightarrow> None)
             else
               (case simple_escape e of
                  None \<Rightarrow> None
                | Some x \<Rightarrow> map_option ((#) x) (unquote t)))
      else if c = CHR 0x22 \<or> byte c < 32 then None
      else if byte c < 128 then map_option ((#) c) (unquote s)
      else (case decode_rune (c # s) of
              None \<Rightarrow> map_option ((@) replacement) (unquote s)
            | Some (r, s') \<Rightarrow> map_option ((@) (encode_rune r)) (unquote s')))"


section \<open>A written string reads back as itself\<close>

lemma decode_rune_cases:
  assumes "decode_rune (c # s) = Some (r, s')"
  obtains (one) "byte c < 128" "r = byte c" "s = s'"
  | (two) b where "194 \<le> byte c" "byte c < 224" "cont_byte b" "s = b # s'"
      "r = (byte c - 192) * 64 + (byte b - 128)"
  | (three) b d where "224 \<le> byte c" "byte c < 240" "cont_byte b" "cont_byte d"
      "byte c = 224 \<longrightarrow> 160 \<le> byte b" "byte c = 237 \<longrightarrow> byte b \<le> 159" "s = b # d # s'"
      "r = (byte c - 224) * 4096 + (byte b - 128) * 64 + (byte d - 128)"
  | (four) b d e where "240 \<le> byte c" "byte c < 245" "cont_byte b" "cont_byte d" "cont_byte e"
      "byte c = 240 \<longrightarrow> 144 \<le> byte b" "byte c = 244 \<longrightarrow> byte b \<le> 143" "s = b # d # e # s'"
      "r = (byte c - 240) * 262144 + (byte b - 128) * 4096 + (byte d - 128) * 64 + (byte e - 128)"
proof -
  consider "byte c < 128" | "128 \<le> byte c" "byte c < 194" | "194 \<le> byte c" "byte c < 224"
    | "224 \<le> byte c" "byte c < 240" | "240 \<le> byte c" "byte c < 245" | "245 \<le> byte c"
    by linarith
  then show ?thesis
  proof cases
    case 1
    then have "r = byte c" "s = s'" using assms by (simp_all add: decode_rune_ascii)
    then show ?thesis using one 1 by blast
  next
    case 3
    then show ?thesis using assms two
      by (auto simp: decode_rune.simps Let_def split: list.splits if_splits)
  next
    case 4
    then show ?thesis using assms three
      by (auto simp: decode_rune.simps Let_def split: list.splits if_splits)
  next
    case 5
    then show ?thesis using assms four
      by (auto simp: decode_rune.simps Let_def split: list.splits if_splits)
  qed (use assms in \<open>simp_all add: decode_rune.simps\<close>)
qed

lemma decode_rune_prefix:
  assumes "decode_rune (c # s) = Some (r, s')"
  obtains p where "c # s = (c # p) @ s'" "\<And>t. decode_rune ((c # p) @ t) = Some (r, t)"
  using assms
proof (cases rule: decode_rune_cases)
  case one
  then show ?thesis using that [of "[]"] by (simp add: decode_rune.simps)
next
  case (two b)
  then show ?thesis using that [of "[b]"] by (simp add: decode_rune.simps)
next
  case (three b d)
  then show ?thesis using that [of "[b, d]"] by (simp add: decode_rune.simps)
next
  case (four b d e)
  then show ?thesis using that [of "[b, d, e]"] by (simp add: decode_rune.simps)
qed

lemma split64: "z < 64 \<Longrightarrow> (m * 64 + z) div 64 = m" "z < 64 \<Longrightarrow> (m * 64 + z) mod 64 = (z::nat)"
  by simp_all

lemma char_eq_byte: "n = byte c \<Longrightarrow> char_of n = c"
  by simp

lemma encode_decode_rune:
  assumes "decode_rune (c # s) = Some (r, s')"
  shows "c # s = encode_rune r @ s'"
  using assms
proof (cases rule: decode_rune_cases)
  case one
  then show ?thesis by (simp add: encode_rune_def)
next
  case (two b)
  define x y where "x = byte c - 192" and "y = byte b - 128"
  have xy: "2 \<le> x" "x < 32" "y < 64" "byte c = 192 + x" "byte b = 128 + y"
    using two by (auto simp: x_def y_def cont_byte_def)
  then have r: "r = x * 64 + y" "\<not> r < 128" "r < 2048" using two by simp_all
  have "192 + r div 64 = byte c" "128 + r mod 64 = byte b" using xy r(1) by simp_all
  then show ?thesis using two r by (simp add: encode_rune_def char_eq_byte)
next
  case (three b d)
  define x y z where "x = byte c - 224" and "y = byte b - 128" and "z = byte d - 128"
  have xy: "x < 16" "y < 64" "z < 64" "x = 0 \<longrightarrow> 32 \<le> y" "byte c = 224 + x" "byte b = 128 + y" "byte d = 128 + z"
    using three by (auto simp: x_def y_def z_def cont_byte_def)
  have r: "r = x * 4096 + y * 64 + z" using three xy by simp
  have big: "\<not> r < 2048" "r < 65536" using xy r by (cases "x = 0"; simp)+
  have "r = (x * 64 + y) * 64 + z" using r by simp
  then have d: "r div 64 = x * 64 + y" "r mod 64 = z" using split64 [of z "x * 64 + y"] xy by simp_all
  then have "r div 4096 = x" "r div 64 mod 64 = y"
    using xy by (simp_all add: div_mult2_eq [of r 64 64, simplified])
  then have "encode_rune r = [char_of (224 + x), char_of (128 + y), char_of (128 + z)]"
    using big d(2) by (simp add: encode_rune_def)
  moreover have "char_of (224 + x) = c" "char_of (128 + y) = b" "char_of (128 + z) = d"
    by (simp_all flip: xy(5-7))
  ultimately show ?thesis using three(7) by simp
next
  case (four b d e)
  define w x y z where "w = byte c - 240" and "x = byte b - 128" and "y = byte d - 128" and "z = byte e - 128"
  have xy: "w < 5" "x < 64" "y < 64" "z < 64" "w = 0 \<longrightarrow> 16 \<le> x"
     "byte c = 240 + w" "byte b = 128 + x" "byte d = 128 + y" "byte e = 128 + z"
    using four by (auto simp: w_def x_def y_def z_def cont_byte_def)
  have r: "r = w * 262144 + x * 4096 + y * 64 + z" using four xy by simp
  have big: "\<not> r < 65536" using xy r by (cases "w = 0"; simp)
  have "r = ((w * 64 + x) * 64 + y) * 64 + z" using r by simp
  then have d: "r div 64 = (w * 64 + x) * 64 + y" "r mod 64 = z"
    using split64 [of z "(w * 64 + x) * 64 + y"] xy by simp_all
  then have d': "r div 4096 = w * 64 + x" "r div 64 mod 64 = y"
    using split64 [of y "w * 64 + x"] xy by (simp_all add: div_mult2_eq [of r 64 64, simplified])
  then have "r div 262144 = w" "r div 4096 mod 64 = x"
    using xy by (simp_all add: div_mult2_eq [of r 4096 64, simplified])
  then have "encode_rune r = [char_of (240 + w), char_of (128 + x), char_of (128 + y), char_of (128 + z)]"
    using big d(2) d'(2) by (simp add: encode_rune_def)
  moreover have "char_of (240 + w) = c" "char_of (128 + x) = b" "char_of (128 + y) = d" "char_of (128 + z) = e"
    by (simp_all flip: xy(6-9))
  ultimately show ?thesis using four(8) by simp
qed

lemma utf8_valid_step:
  "utf8_valid (c # s) \<Longrightarrow> \<exists>r s'. decode_rune (c # s) = Some (r, s') \<and> utf8_valid s'"
  by (subst (asm) utf8_valid.simps) (auto split: option.splits)

lemma hex_digit_char [simp]: "n < 16 \<Longrightarrow> hex_digit (hex_char n) = Some n"
  by (auto simp: hex_digit_def hex_char_def is_digit_def)

lemma hex4_value_hex4:
  "n < 65536 \<Longrightarrow> hex4_value (hex_char (n div 4096 mod 16)) (hex_char (n div 256 mod 16))
     (hex_char (n div 16 mod 16)) (hex_char (n mod 16)) = Some n"
proof -
  assume n: "n < 65536"
  define a b c where "a = n div 16" and "b = a div 16" and "c = b div 16"
  have "n div 256 = b" "n div 4096 = c"
    by (simp_all add: a_def b_def c_def div_mult2_eq [of n 16 16, simplified] div_mult2_eq [of n 256 16, simplified])
  moreover have "c < 16" using n calculation by simp
  moreover have "n = a * 16 + n mod 16" "a = b * 16 + a mod 16" "b = c * 16 + b mod 16"
    unfolding a_def b_def c_def by (simp_all only: div_mult_mod_eq)
  ultimately have "n div 4096 mod 16 * 4096 + n div 256 mod 16 * 256 + n div 16 mod 16 * 16 + n mod 16 = n"
    unfolding a_def [symmetric] by simp
  moreover have h: "hex_digit (hex_char (k mod 16)) = Some (k mod 16)" for k by simp
  ultimately show ?thesis unfolding hex4_value_def h by (simp only: prod.case option.case)
qed

lemma append_single_fun [simp]: "(@) [c] = (#) c"
  by (simp add: fun_eq_iff)

declare unquote.simps(2) [simp del]

lemma unquote_escape_ascii:
  assumes "byte c < 128"
  shows "unquote (escape_ascii c @ t) = map_option ((#) c) (unquote t)"
proof -
  have c: "encode_rune (byte c) = [c]" "\<not> surrogate (byte c)" using assms by (simp_all add: encode_rune_def surrogate_def)
  have u: "unquote (CHR 0x5C # CHR ''u'' # hex4 (byte c) @ t) = map_option ((#) c) (unquote t)"
    using hex4_value_hex4 [of "byte c"] assms c by (simp add: unquote.simps(2) hex4_def)
  show ?thesis using assms u
    by (auto simp: escape_ascii_def unquote.simps(2) simple_escape_def)
qed

lemma unquote_hex4:
  "n < 65536 \<Longrightarrow> \<not> surrogate n \<Longrightarrow>
   unquote (CHR 0x5C # CHR ''u'' # hex4 n @ t) = map_option ((@) (encode_rune n)) (unquote t)"
  using hex4_value_hex4 [of n] by (simp add: unquote.simps(2) hex4_def)

text \<open>What is read of a string that was written: every invalid byte has become U+FFFD.\<close>

fun coerced :: "bytes \<Rightarrow> bytes" where
  "coerced [] = []"
| "coerced (c # s) =
     (if byte c < 128 then c # coerced s
      else case decode_rune (c # s) of
        None \<Rightarrow> replacement @ coerced s
      | Some (r, s') \<Rightarrow> encode_rune r @ coerced s')"

lemma coerced_valid: "utf8_valid s \<Longrightarrow> coerced s = s"
proof (induction s rule: coerced.induct)
  case (2 c s)
  show ?case
  proof (cases "byte c < 128")
    case True
    then show ?thesis using 2 by (simp add: utf8_valid_Cons_ascii)
  next
    case False
    obtain r s' where d: "decode_rune (c # s) = Some (r, s')" "utf8_valid s'"
      using utf8_valid_step 2(4) by blast
    then have "coerced (c # s) = encode_rune r @ s'" using 2(3) False by simp
    then show ?thesis using encode_decode_rune d by metis
  qed
qed simp

theorem unquote_escape: "unquote (escape s) = Some (coerced s)"
proof (induction s rule: escape.induct)
  case (2 c s)
  show ?case
  proof (cases "byte c < 128")
    case True
    then show ?thesis using 2 by (simp add: unquote_escape_ascii)
  next
    case high: False
    show ?thesis
    proof (cases "decode_rune (c # s)")
      case None
      have "\<not> surrogate 65533" "encode_rune 65533 = replacement"
        by (simp_all add: surrogate_def encode_rune_def replacement_def) code_simp
      then show ?thesis using 2(2) high None unquote_hex4 [of 65533 "escape s"] by simp
    next
      case (Some q)
      then obtain r s' where d: "decode_rune (c # s) = Some (r, s')" by (cases q) auto
      then have IH: "unquote (escape s') = Some (coerced s')" using 2(3) high by simp
      have read: "coerced (c # s) = encode_rune r @ coerced s'" using high d by simp
      show ?thesis
      proof (cases "r = 8232 \<or> r = 8233")
        case True
        then have "r < 65536" "\<not> surrogate r" by (auto simp: surrogate_def)
        moreover have "escape (c # s) = CHR 0x5C # CHR ''u'' # hex4 r @ escape s'"
          using high d True by simp
        ultimately show ?thesis using IH unquote_hex4 [of r "escape s'"] read by simp
      next
        case other: False
        obtain p where p: "c # s = (c # p) @ s'" "\<And>t. decode_rune ((c # p) @ t) = Some (r, t)"
          using decode_rune_prefix d by blast
        have "escape (c # s) = c # p @ escape s'" using high d p(1) other by simp
        moreover have "unquote (c # p @ escape s') = map_option ((@) (encode_rune r)) (unquote (escape s'))"
        proof -
          have "c \<noteq> CHR 0x5C" "c \<noteq> CHR 0x22" using high by auto
          then show ?thesis using high p(2) [of "escape s'"] by (simp add: unquote.simps(2))
        qed
        ultimately show ?thesis using IH read by simp
      qed
    qed
  qed
qed simp

section \<open>Writing values\<close>

definition quote :: "bytes \<Rightarrow> bytes" where
  "quote s = CHR 0x22 # escape s @ [CHR 0x22]"

fun commas :: "bytes list \<Rightarrow> bytes" where
  "commas [] = []"
| "commas [x] = x"
| "commas (x # y # xs) = x @ CHR '','' # commas (y # xs)"

fun render :: "json \<Rightarrow> bytes" where
  "render JNull = ''null''"
| "render (JBool b) = (if b then ''true'' else ''false'')"
| "render (JNum n) = n"
| "render (JStr s) = quote s"
| "render (JArr vs) = CHR ''['' # commas (map render vs) @ '']''"
| "render (JObj ms) = CHR ''{'' # commas (map (\<lambda>(k, v). quote k @ CHR '':'' # render v) ms) @ ''}''"

section \<open>Reading: tokens\<close>

datatype token =
    TLBrace | TRBrace | TLBracket | TRBracket | TColon | TComma
  | TStr bytes | TNum bytes | TBool bool | TNull

datatype lex_state = LDefault | LString bytes | LEscape bytes | LNum bytes | LWord bytes

definition num_char :: "char \<Rightarrow> bool" where
  "num_char c \<longleftrightarrow> is_digit c \<or> c \<in> {CHR ''-'', CHR ''+'', CHR ''.'', CHR ''e'', CHR ''E''}"

definition letter :: "char \<Rightarrow> bool" where
  "letter c \<longleftrightarrow> 97 \<le> byte c \<and> byte c \<le> 122"

definition json_space :: "char \<Rightarrow> bool" where
  "json_space c \<longleftrightarrow> c \<in> {CHR '' '', CHR 0x09, CHR 0x0A, CHR 0x0D}"

definition number_exp :: "bytes \<Rightarrow> bool" where
  "number_exp s = (case s of
      [] \<Rightarrow> True
    | c # t \<Rightarrow> (c = CHR ''e'' \<or> c = CHR ''E'') \<and>
        (case (case t of d # u \<Rightarrow> if d = CHR ''+'' \<or> d = CHR ''-'' then u else t | [] \<Rightarrow> []) of
           [] \<Rightarrow> False | v \<Rightarrow> list_all is_digit v))"

definition number_frac :: "bytes \<Rightarrow> bool" where
  "number_frac s = (case s of
      c # d # t \<Rightarrow> if c = CHR ''.'' then is_digit d \<and> number_exp (dropWhile is_digit t) else number_exp s
    | _ \<Rightarrow> number_exp s)"

text \<open>The number grammar: optional minus, no leading zeros, fraction, exponent.\<close>

definition number_ok :: "bytes \<Rightarrow> bool" where
  "number_ok s =
     (case (case s of c # t \<Rightarrow> if c = CHR ''-'' then t else s | [] \<Rightarrow> []) of
        [] \<Rightarrow> False
      | d # t \<Rightarrow> if d = CHR ''0'' then number_frac t
                 else is_digit d \<and> number_frac (dropWhile is_digit t))"

definition word_token :: "bytes \<Rightarrow> token option" where
  "word_token w = (if w = ''null'' then Some TNull else if w = ''true'' then Some (TBool True)
     else if w = ''false'' then Some (TBool False) else None)"

definition punctuation :: "char \<Rightarrow> token option" where
  "punctuation c = (if c = CHR ''{'' then Some TLBrace else if c = CHR ''}'' then Some TRBrace
     else if c = CHR ''['' then Some TLBracket else if c = CHR '']'' then Some TRBracket
     else if c = CHR '':'' then Some TColon else if c = CHR '','' then Some TComma else None)"

function json_lex :: "lex_state \<Rightarrow> bytes \<Rightarrow> token list option" where
  "json_lex LDefault [] = Some []"
| "json_lex LDefault (c # s) =
     (if json_space c then json_lex LDefault s
      else if c = CHR 0x22 then json_lex (LString []) s
      else if c = CHR ''-'' \<or> is_digit c then json_lex (LNum [c]) s
      else if letter c then json_lex (LWord [c]) s
      else case punctuation c of
        None \<Rightarrow> None
      | Some t \<Rightarrow> map_option ((#) t) (json_lex LDefault s))"
| "json_lex (LString a) [] = None"
| "json_lex (LString a) (c # s) =
     (if c = CHR 0x22 then
        (case unquote (rev a) of None \<Rightarrow> None | Some x \<Rightarrow> map_option ((#) (TStr x)) (json_lex LDefault s))
      else if c = CHR 0x5C then json_lex (LEscape (c # a)) s
      else json_lex (LString (c # a)) s)"
| "json_lex (LEscape a) [] = None"
| "json_lex (LEscape a) (c # s) = json_lex (LString (c # a)) s"
| "json_lex (LNum a) [] = (if number_ok (rev a) then Some [TNum (rev a)] else None)"
| "json_lex (LNum a) (c # s) =
     (if num_char c then json_lex (LNum (c # a)) s
      else if number_ok (rev a) then map_option ((#) (TNum (rev a))) (json_lex LDefault (c # s)) else None)"
| "json_lex (LWord a) [] = map_option (\<lambda>t. [t]) (word_token (rev a))"
| "json_lex (LWord a) (c # s) =
     (if letter c then json_lex (LWord (c # a)) s
      else case word_token (rev a) of None \<Rightarrow> None | Some t \<Rightarrow> map_option ((#) t) (json_lex LDefault (c # s)))"
  by pat_completeness auto
termination
  by (relation "measure (\<lambda>(st, s). 2 * length s + (case st of LDefault \<Rightarrow> 0 | _ \<Rightarrow> 1))") auto

section \<open>Reading: the token machine\<close>

datatype frame = SArr "json list" | SObj "(bytes \<times> json) list" | SMember "(bytes \<times> json) list" bytes

datatype phase = PValue | PFirstElem | PFirstKey | PKey | PColon bytes | PAfter | PDone json

fun deliver :: "json \<Rightarrow> frame list \<Rightarrow> (phase \<times> frame list) option" where
  "deliver v [] = Some (PDone v, [])"
| "deliver v (SArr vs # st) = Some (PAfter, SArr (v # vs) # st)"
| "deliver v (SMember ms k # st) = Some (PAfter, SObj ((k, v) # ms) # st)"
| "deliver v (SObj ms # st) = None"

fun begin_value :: "token \<Rightarrow> frame list \<Rightarrow> (phase \<times> frame list) option" where
  "begin_value (TStr s) st = deliver (JStr s) st"
| "begin_value (TNum n) st = deliver (JNum n) st"
| "begin_value (TBool b) st = deliver (JBool b) st"
| "begin_value TNull st = deliver JNull st"
| "begin_value TLBrace st = Some (PFirstKey, SObj [] # st)"
| "begin_value TLBracket st = Some (PFirstElem, SArr [] # st)"
| "begin_value _ st = None"

fun token_step :: "token \<Rightarrow> phase \<times> frame list \<Rightarrow> (phase \<times> frame list) option" where
  "token_step t (PValue, st) = begin_value t st"
| "token_step TRBracket (PFirstElem, SArr vs # st) = deliver (JArr (rev vs)) st"
| "token_step t (PFirstElem, st) = begin_value t st"
| "token_step TRBrace (PFirstKey, SObj ms # st) = deliver (JObj (rev ms)) st"
| "token_step (TStr k) (PFirstKey, st) = Some (PColon k, st)"
| "token_step (TStr k) (PKey, st) = Some (PColon k, st)"
| "token_step TColon (PColon k, SObj ms # st) = Some (PValue, SMember ms k # st)"
| "token_step TComma (PAfter, SArr vs # st) = Some (PValue, SArr vs # st)"
| "token_step TComma (PAfter, SObj ms # st) = Some (PKey, SObj ms # st)"
| "token_step TRBracket (PAfter, SArr vs # st) = deliver (JArr (rev vs)) st"
| "token_step TRBrace (PAfter, SObj ms # st) = deliver (JObj (rev ms)) st"
| "token_step _ _ = None"

fun run_tokens :: "token list \<Rightarrow> phase \<times> frame list \<Rightarrow> (phase \<times> frame list) option" where
  "run_tokens [] s = Some s"
| "run_tokens (t # ts) s = Option.bind (token_step t s) (run_tokens ts)"

text \<open>The value of a complete text: leading and trailing white space allowed, nothing else.\<close>

definition json_parse :: "bytes \<Rightarrow> json option" where
  "json_parse s =
     (case Option.bind (json_lex LDefault s) (\<lambda>ts. run_tokens ts (PValue, [])) of
        Some (PDone v, []) \<Rightarrow> Some v
      | _ \<Rightarrow> None)"

end
