(* ===== verification/Platform_Text.thy ===== *)
theory Platform_Text
  imports Go_Text
begin

text \<open>
  The validators of \<open>internal/service/platform_sse_v2.go\<close> that the whole generation subsystem
  shares: canonical UUIDs, trimmed identifiers, integers a JavaScript client can hold exactly,
  request identifiers and the closed set of public error codes.
\<close>

definition platformSSEV2MaxModels :: nat where "platformSSEV2MaxModels = 3"
definition platformSSEV2MaxIdentifierBytes :: nat where "platformSSEV2MaxIdentifierBytes = 255"
definition platformSSEV2MaxModelIdentifierBytes :: nat where "platformSSEV2MaxModelIdentifierBytes = 128"
definition platformSSEV2MaxDeltaBytes :: nat where "platformSSEV2MaxDeltaBytes = 1048576"
definition platformSSEV2MaxFrameBytes :: nat where "platformSSEV2MaxFrameBytes = 2097152"
definition platformSSEV2MaxSafeInteger :: int where "platformSSEV2MaxSafeInteger = 9007199254740991"

definition platformSSEV2StableCodes :: "bytes list" where
  "platformSSEV2StableCodes =
     [''gateway_upstream_error'', ''invalid_request'', ''rate_limited'', ''cancelled'',
      ''timeout'', ''internal_error'', ''upstream_error'']"

fun uuid_chars :: "nat \<Rightarrow> bytes \<Rightarrow> bool" where
  "uuid_chars i [] = True"
| "uuid_chars i (c # s) =
     ((if i \<in> {8, 13, 18, 23} then c = CHR ''-'' else is_lower_hex c) \<and> uuid_chars (Suc i) s)"

definition platformSSEV2CanonicalUUID :: "bytes \<Rightarrow> bool" where
  "platformSSEV2CanonicalUUID value \<longleftrightarrow> length value = 36 \<and> uuid_chars 0 value"

definition platformSSEV2Identifier :: "bytes \<Rightarrow> bool" where
  "platformSSEV2Identifier value \<longleftrightarrow>
     value \<noteq> [] \<and> utf8_valid value \<and> value = trim_space value \<and>
     length value \<le> platformSSEV2MaxIdentifierBytes"

definition platformSSEV2ModelIdentifier :: "bytes \<Rightarrow> bool" where
  "platformSSEV2ModelIdentifier value \<longleftrightarrow>
     platformSSEV2Identifier value \<and> length value \<le> platformSSEV2MaxModelIdentifierBytes"

definition platformSSEV2SafeInteger :: "int \<Rightarrow> bool" where
  "platformSSEV2SafeInteger value \<longleftrightarrow> 0 \<le> value \<and> value \<le> platformSSEV2MaxSafeInteger"

definition request_id_char :: "char \<Rightarrow> bool" where
  "request_id_char c \<longleftrightarrow>
     (97 \<le> byte c \<and> byte c \<le> 122) \<or> (65 \<le> byte c \<and> byte c \<le> 90) \<or> is_digit c \<or>
     c = CHR ''.'' \<or> c = CHR ''_'' \<or> c = CHR ''-''"

definition platformSSEV2RequestID :: "bytes \<Rightarrow> bytes" where
  "platformSSEV2RequestID value =
     (if value = [] \<or> 128 < length value then []
      else if list_all request_id_char value then value else [])"

definition platformSSEV2Code :: "bytes \<Rightarrow> bytes" where
  "platformSSEV2Code code =
     (if code \<in> set platformSSEV2StableCodes then code else ''upstream_error'')"

definition platformGenerationStableCode :: "bytes \<Rightarrow> bool" where
  "platformGenerationStableCode code \<longleftrightarrow> code \<in> set platformSSEV2StableCodes"

lemma uuid_chars_ascii: "uuid_chars i s \<Longrightarrow> ascii s"
  by (induction i s rule: uuid_chars.induct)
    (auto simp: ascii_def is_lower_hex_def is_digit_def split: if_splits)

lemma canonical_uuid_ascii: "platformSSEV2CanonicalUUID s \<Longrightarrow> ascii s"
  by (auto simp: platformSSEV2CanonicalUUID_def intro: uuid_chars_ascii)

lemma canonical_uuid_valid: "platformSSEV2CanonicalUUID s \<Longrightarrow> utf8_valid s"
  by (simp add: canonical_uuid_ascii utf8_valid_ascii)

lemma canonical_uuid_nonempty: "platformSSEV2CanonicalUUID s \<Longrightarrow> s \<noteq> []"
  by (auto simp: platformSSEV2CanonicalUUID_def)

lemma uuid_chars_no_colon: "uuid_chars i s \<Longrightarrow> CHR '':'' \<notin> set s"
  by (induction i s rule: uuid_chars.induct) (auto simp: is_lower_hex_def is_digit_def split: if_splits)

lemma identifier_valid: "platformSSEV2ModelIdentifier m \<Longrightarrow> utf8_valid m"
  by (simp add: platformSSEV2ModelIdentifier_def platformSSEV2Identifier_def)

lemma stable_code_ascii: "platformGenerationStableCode c \<Longrightarrow> ascii c"
  by (auto simp: platformGenerationStableCode_def platformSSEV2StableCodes_def ascii_def)

lemma stable_code_nonempty: "platformGenerationStableCode c \<Longrightarrow> c \<noteq> []"
  by (auto simp: platformGenerationStableCode_def platformSSEV2StableCodes_def)

lemma platformSSEV2Code_stable: "platformGenerationStableCode (platformSSEV2Code c)"
  by (simp add: platformSSEV2Code_def platformGenerationStableCode_def platformSSEV2StableCodes_def)

text \<open>Safe integers are far inside the 64-bit range, so sums of two of them do not wrap.\<close>

lemma safe_integer_int64: "platformSSEV2SafeInteger i \<Longrightarrow> - (2 ^ 63) \<le> i \<and> i < 2 ^ 63"
  by (simp add: platformSSEV2SafeInteger_def platformSSEV2MaxSafeInteger_def)

end
