(* ===== verification/Sse_Encoder.thy ===== *)
theory Sse_Encoder
  imports Json Platform_Text
begin

text \<open>
  \<open>PlatformSSEV2Encoder\<close> of \<open>internal/service/platform_sse_v2.go\<close>: protocol framing and ordering
  for one generation stream.  Each method is a function from the encoder to the frame it returns
  (\<open>None\<close> for a nil slice) and the encoder afterwards; the mutex makes each call atomic, so a
  history of calls is a list of operations.  The pointers in \<open>states\<close> are not shared between keys
  (the constructor refuses duplicate models), so the map holds the records themselves.
\<close>

datatype sse_error = MetaRequired | InvalidSequence | InvalidEvent | ModelsRunning | StreamTerminal

record sse_model =
  nextSeq :: int
  modelTerminal :: bool
  modelFailed :: bool
  modelCode :: bytes

record sse_encoder =
  generationID :: bytes
  encModels :: "bytes list"
  encStates :: "(bytes \<times> sse_model) list"
  metaSent :: bool
  encTerminal :: bool
  encErr :: "sse_error option"

definition fresh_model :: sse_model where
  "fresh_model = \<lparr>nextSeq = 1, modelTerminal = False, modelFailed = False, modelCode = []\<rparr>"

fun new_states :: "bytes list \<Rightarrow> (bytes \<times> sse_model) list \<Rightarrow> (bytes \<times> sse_model) list option" where
  "new_states [] st = Some st"
| "new_states (m # ms) st =
     (if \<not> platformSSEV2ModelIdentifier m then None
      else if map_of st m \<noteq> None then None
      else new_states ms (sm_put m fresh_model st))"

definition NewPlatformSSEV2Encoder :: "bytes \<Rightarrow> bytes list \<Rightarrow> sse_error + sse_encoder" where
  "NewPlatformSSEV2Encoder gid models =
     (if \<not> platformSSEV2CanonicalUUID gid \<or> models = [] \<or> platformSSEV2MaxModels < length models
      then Inl InvalidEvent
      else case new_states models [] of
        None \<Rightarrow> Inl InvalidEvent
      | Some st \<Rightarrow> Inr \<lparr>generationID = gid, encModels = models, encStates = st,
                       metaSent = False, encTerminal = False, encErr = None\<rparr>)"

definition sse_fail :: "sse_error \<Rightarrow> sse_encoder \<Rightarrow> bytes option \<times> sse_encoder" where
  "sse_fail er e =
     (None, e\<lparr>encErr := (if encErr e = None then Some er else encErr e), encTerminal := True\<rparr>)"

definition newline :: bytes where "newline = [CHR 0x0A]"

definition sse_text :: "bytes \<Rightarrow> json \<Rightarrow> bytes" where
  "sse_text event payload =
     ''event: '' @ event @ newline @ ''data: '' @ render payload @ newline @ newline"

definition sse_frame :: "bytes \<Rightarrow> json \<Rightarrow> sse_encoder \<Rightarrow> bytes option \<times> sse_encoder" where
  "sse_frame event payload e =
     (if encErr e \<noteq> None then (None, e)
      else if platformSSEV2MaxFrameBytes < length (sse_text event payload) then sse_fail InvalidEvent e
      else (Some (sse_text event payload), e))"

text \<open>\<open>readyModel\<close>: the model's state, or the failure the method returns with.\<close>

definition readyModel :: "bytes \<Rightarrow> sse_encoder \<Rightarrow> sse_error + sse_model" where
  "readyModel m e =
     (if encErr e \<noteq> None \<or> encTerminal e then Inl StreamTerminal
      else if \<not> metaSent e then Inl MetaRequired
      else case map_of (encStates e) m of
        None \<Rightarrow> Inl InvalidEvent
      | Some s \<Rightarrow> if modelTerminal s then Inl InvalidEvent else Inr s)"

definition put_model :: "bytes \<Rightarrow> sse_model \<Rightarrow> sse_encoder \<Rightarrow> sse_encoder" where
  "put_model m s e = e\<lparr>encStates := sm_put m s (encStates e)\<rparr>"

definition jint :: "int \<Rightarrow> json" where "jint i = JNum (format_int i)"

definition optional_member :: "bytes \<Rightarrow> bytes \<Rightarrow> (bytes \<times> json) list" where
  "optional_member k v = (if v = [] then [] else [(k, JStr v)])"

section \<open>The methods\<close>

definition sse_Meta :: "bytes \<Rightarrow> sse_encoder \<Rightarrow> bytes option \<times> sse_encoder" where
  "sse_Meta conversation e =
     (if \<not> platformSSEV2Identifier conversation \<or> metaSent e then sse_fail InvalidEvent e
      else sse_frame ''meta''
        (JObj [(''schema'', JStr ''platform-chat-sse.v2''), (''generation_id'', JStr (generationID e)),
               (''conversation_guid'', JStr conversation), (''models'', JArr (map JStr (encModels e)))])
        (e\<lparr>metaSent := True\<rparr>))"

definition sse_Delta :: "bytes \<Rightarrow> int \<Rightarrow> bytes \<Rightarrow> sse_encoder \<Rightarrow> bytes option \<times> sse_encoder" where
  "sse_Delta m sq delta e =
     (case readyModel m e of
        Inl er \<Rightarrow> sse_fail er e
      | Inr s \<Rightarrow>
          if delta = [] \<or> platformSSEV2MaxDeltaBytes < length delta \<or> \<not> platformSSEV2SafeInteger sq
          then sse_fail InvalidEvent e
          else if sq \<noteq> nextSeq s then sse_fail InvalidSequence e
          else sse_frame ''delta''
            (JObj [(''generation_id'', JStr (generationID e)), (''model'', JStr m),
                   (''seq'', jint sq), (''delta'', JStr delta)])
            (put_model m (s\<lparr>nextSeq := nextSeq s + 1\<rparr>) e))"

definition sse_ModelDone :: "bytes \<Rightarrow> int \<Rightarrow> sse_encoder \<Rightarrow> bytes option \<times> sse_encoder" where
  "sse_ModelDone m lastSeq e =
     (case readyModel m e of
        Inl er \<Rightarrow> sse_fail er e
      | Inr s \<Rightarrow>
          if \<not> platformSSEV2SafeInteger lastSeq \<or> lastSeq \<noteq> nextSeq s - 1 then sse_fail InvalidSequence e
          else sse_frame ''model_done''
            (JObj [(''generation_id'', JStr (generationID e)), (''model'', JStr m), (''last_seq'', jint lastSeq)])
            (put_model m (s\<lparr>modelTerminal := True\<rparr>) e))"

definition sse_ModelError :: "bytes \<Rightarrow> bytes \<Rightarrow> bytes \<Rightarrow> sse_encoder \<Rightarrow> bytes option \<times> sse_encoder" where
  "sse_ModelError m code requestID e =
     (case readyModel m e of
        Inl er \<Rightarrow> sse_fail er e
      | Inr s \<Rightarrow>
          sse_frame ''model_error''
            (JObj ([(''generation_id'', JStr (generationID e)), (''model'', JStr m),
                    (''code'', JStr (platformSSEV2Code code))] @
                   optional_member ''request_id'' (platformSSEV2RequestID requestID)))
            (put_model m (s\<lparr>modelTerminal := True, modelFailed := True, modelCode := platformSSEV2Code code\<rparr>) e))"

definition model_terminal :: "sse_encoder \<Rightarrow> bytes \<Rightarrow> bool" where
  "model_terminal e m = (case map_of (encStates e) m of Some s \<Rightarrow> modelTerminal s | None \<Rightarrow> False)"

definition model_failed :: "sse_encoder \<Rightarrow> bytes \<Rightarrow> bool" where
  "model_failed e m = (case map_of (encStates e) m of Some s \<Rightarrow> modelFailed s | None \<Rightarrow> False)"

definition canComplete :: "bytes \<Rightarrow> sse_encoder \<Rightarrow> bool" where
  "canComplete conversation e \<longleftrightarrow>
     encErr e = None \<and> \<not> encTerminal e \<and> metaSent e \<and> platformSSEV2Identifier conversation \<and>
     list_all (model_terminal e) (encModels e)"

definition sse_DoneSingle :: "bytes \<Rightarrow> int \<Rightarrow> int \<Rightarrow> sse_encoder \<Rightarrow> bytes option \<times> sse_encoder" where
  "sse_DoneSingle conversation tokens used e =
     (if encErr e \<noteq> None \<or> encTerminal e then sse_fail StreamTerminal e
      else if \<not> platformSSEV2SafeInteger tokens \<or> \<not> platformSSEV2SafeInteger used then sse_fail InvalidEvent e
      else if length (encModels e) \<noteq> 1 \<or> \<not> canComplete conversation e \<or> model_failed e (hd (encModels e))
      then sse_fail ModelsRunning e
      else sse_frame ''done''
        (JObj [(''generation_id'', JStr (generationID e)), (''status'', JStr ''completed''),
               (''conversation_guid'', JStr conversation), (''tokens'', jint tokens), (''total_tokens_used'', jint used)])
        (e\<lparr>encTerminal := True\<rparr>))"

text \<open>The per-model results of \<open>DoneCompare\<close>: \<open>None\<close> is the early return with an invalid event.\<close>

fun done_models :: "sse_encoder \<Rightarrow> (bytes \<times> int) list \<Rightarrow> bytes list \<Rightarrow> (bytes \<times> json) list \<Rightarrow> (bytes \<times> json) list option" where
  "done_models e toks [] out = Some out"
| "done_models e toks (m # ms) out =
     (if model_failed e m then
        done_models e toks ms
          (sm_put m (JObj [(''status'', JStr ''failed''),
             (''code'', JStr (case map_of (encStates e) m of Some s \<Rightarrow> modelCode s | None \<Rightarrow> []))]) out)
      else case map_of toks m of
        None \<Rightarrow> None
      | Some t \<Rightarrow>
          if platformSSEV2SafeInteger t then
            done_models e toks ms (sm_put m (JObj [(''status'', JStr ''completed''), (''tokens'', jint t)]) out)
          else None)"

definition done_tokens_ok :: "sse_encoder \<Rightarrow> (bytes \<times> int) list \<Rightarrow> bool" where
  "done_tokens_ok e toks \<longleftrightarrow>
     list_all (\<lambda>(m, t). map_of (encStates e) m \<noteq> None \<and> \<not> model_failed e m \<and> platformSSEV2SafeInteger t) toks"

definition sse_DoneCompare :: "bytes \<Rightarrow> int \<Rightarrow> (bytes \<times> int) list \<Rightarrow> sse_encoder \<Rightarrow> bytes option \<times> sse_encoder" where
  "sse_DoneCompare conversation used toks e =
     (if encErr e \<noteq> None \<or> encTerminal e then sse_fail StreamTerminal e
      else if \<not> platformSSEV2SafeInteger used then sse_fail InvalidEvent e
      else if length (encModels e) < 2 \<or> \<not> canComplete conversation e then sse_fail ModelsRunning e
      else if \<not> done_tokens_ok e toks then sse_fail InvalidEvent e
      else case done_models e toks (encModels e) [] of
        None \<Rightarrow> sse_fail InvalidEvent e
      | Some ms \<Rightarrow> sse_frame ''done''
          (JObj [(''generation_id'', JStr (generationID e)), (''status'', JStr ''completed''),
                 (''conversation_guid'', JStr conversation), (''total_tokens_used'', jint used), (''models'', JObj ms)])
          (e\<lparr>encTerminal := True\<rparr>))"

definition sse_Error :: "bytes \<Rightarrow> bytes \<Rightarrow> sse_encoder \<Rightarrow> bytes option \<times> sse_encoder" where
  "sse_Error code requestID e =
     (if encErr e \<noteq> None \<or> encTerminal e \<or> \<not> metaSent e then sse_fail StreamTerminal e
      else sse_frame ''error''
        (JObj ([(''generation_id'', JStr (generationID e)), (''code'', JStr (platformSSEV2Code code))] @
               optional_member ''request_id'' (platformSSEV2RequestID requestID)))
        (e\<lparr>encTerminal := True\<rparr>))"

end
