(* ===== verification/Json_Roundtrip.thy ===== *)
theory Json_Roundtrip
  imports Json
begin

text \<open>
  Reading what was written: for every value whose strings are valid UTF-8 and whose numbers are
  number literals, \<open>json_parse (render v) = Some v\<close>.  The lexer half splits the text at token
  boundaries; the machine half runs the token list of a value on an arbitrary stack.
\<close>

definition num_lit :: "bytes \<Rightarrow> bool" where
  "num_lit n \<longleftrightarrow> n \<noteq> [] \<and> (hd n = CHR ''-'' \<or> is_digit (hd n)) \<and> list_all num_char n \<and> number_ok n"

fun json_ok :: "json \<Rightarrow> bool" where
  "json_ok JNull = True"
| "json_ok (JBool b) = True"
| "json_ok (JNum n) = num_lit n"
| "json_ok (JStr s) = utf8_valid s"
| "json_ok (JArr vs) = list_all json_ok vs"
| "json_ok (JObj ms) = list_all (\<lambda>(k, v). utf8_valid k \<and> json_ok v) ms"

text \<open>Any strings may be written: what is read has U+FFFD for the bytes that are not UTF-8.\<close>

fun json_lits :: "json \<Rightarrow> bool" where
  "json_lits (JNum n) = num_lit n"
| "json_lits (JArr vs) = list_all json_lits vs"
| "json_lits (JObj ms) = list_all (\<lambda>(k, v). json_lits v) ms"
| "json_lits v = True"

fun read_back :: "json \<Rightarrow> json" where
  "read_back (JStr s) = JStr (coerced s)"
| "read_back (JArr vs) = JArr (map read_back vs)"
| "read_back (JObj ms) = JObj (map (\<lambda>(k, v). (coerced k, read_back v)) ms)"
| "read_back v = v"

lemma json_ok_lits: "json_ok v \<Longrightarrow> json_lits v \<and> read_back v = v"
proof (induction v rule: json_ok.induct)
  case (6 ms)
  then show ?case by (fastforce simp: list_all_iff coerced_valid intro!: map_idI)
qed (auto simp: list_all_iff coerced_valid intro!: map_idI)

definition delimited :: "bytes \<Rightarrow> bool" where
  "delimited s \<longleftrightarrow> s = [] \<or> (\<not> num_char (hd s) \<and> \<not> letter (hd s))"

fun sep_tokens :: "token list list \<Rightarrow> token list" where
  "sep_tokens [] = []"
| "sep_tokens [x] = x"
| "sep_tokens (x # y # xs) = x @ TComma # sep_tokens (y # xs)"

fun json_tokens :: "json \<Rightarrow> token list" where
  "json_tokens JNull = [TNull]"
| "json_tokens (JBool b) = [TBool b]"
| "json_tokens (JNum n) = [TNum n]"
| "json_tokens (JStr s) = [TStr s]"
| "json_tokens (JArr vs) = TLBracket # sep_tokens (map json_tokens vs) @ [TRBracket]"
| "json_tokens (JObj ms) =
     TLBrace # sep_tokens (map (\<lambda>(k, v). TStr k # TColon # json_tokens v) ms) @ [TRBrace]"

section \<open>String literals\<close>

fun scan_ok :: "bytes \<Rightarrow> bool" where
  "scan_ok [] = True"
| "scan_ok (c # s) =
     (if c = CHR 0x5C then (case s of [] \<Rightarrow> False | e # t \<Rightarrow> scan_ok t)
      else c \<noteq> CHR 0x22 \<and> scan_ok s)"

lemma scan_ok_append: "scan_ok s \<Longrightarrow> scan_ok t \<Longrightarrow> scan_ok (s @ t)"
  by (induction s rule: scan_ok.induct) (auto split: list.splits)

lemma scan_ok_plain: "\<forall>c \<in> set s. c \<noteq> CHR 0x5C \<and> c \<noteq> CHR 0x22 \<Longrightarrow> scan_ok s"
  by (induction s) auto

lemma lex_string:
  "scan_ok u \<Longrightarrow> json_lex (LString a) (u @ CHR 0x22 # rest) =
     (case unquote (rev a @ u) of None \<Rightarrow> None | Some x \<Rightarrow> map_option ((#) (TStr x)) (json_lex LDefault rest))"
  by (induction u arbitrary: a rule: scan_ok.induct) (auto split: list.splits if_splits)

lemma hex_char_plain: "n < 16 \<Longrightarrow> hex_char n \<noteq> CHR 0x5C \<and> hex_char n \<noteq> CHR 0x22"
proof -
  assume n: "n < 16"
  then have "hex_digit (hex_char n) \<noteq> None" by simp
  moreover have "hex_digit (CHR 0x5C) = None" "hex_digit (CHR 0x22) = None"
    by (simp_all add: hex_digit_def is_digit_def)
  ultimately show ?thesis by metis
qed

lemma scan_ok_hex4: "scan_ok (hex4 n)" "scan_ok (CHR 0x5C # CHR ''u'' # hex4 n)"
  by (simp_all add: hex4_def hex_char_plain)

lemma scan_ok_escape_ascii: "scan_ok (escape_ascii c)"
  by (simp add: escape_ascii_def scan_ok_hex4)

lemma decode_rune_high:
  assumes "decode_rune (c # s) = Some (r, s')" "\<not> byte c < 128"
  shows "scan_ok (take (length (c # s) - length s') (c # s))"
proof -
  have ne: "128 \<le> byte x \<Longrightarrow> x \<noteq> CHR 0x5C \<and> x \<noteq> CHR 0x22" for x by auto
  show ?thesis
    using assms(1)
    by (cases rule: decode_rune_cases) (use assms(2) ne in \<open>auto simp: cont_byte_def intro!: scan_ok_plain\<close>)
qed

lemma scan_ok_escape: "scan_ok (escape s)"
proof (induction s rule: escape.induct)
  case (2 c s)
  then show ?case
    using decode_rune_high [of c s] scan_ok_append [OF scan_ok_hex4(2)]
    by (cases "byte c < 128"; cases "decode_rune (c # s)")
      (auto intro!: scan_ok_append scan_ok_escape_ascii simp: scan_ok_hex4)
qed simp

lemma lex_quote:
  "json_lex LDefault (quote s @ rest) = map_option ((#) (TStr (coerced s))) (json_lex LDefault rest)"
  using lex_string [OF scan_ok_escape, of "[]" s rest] unquote_escape [of s]
  by (simp add: quote_def json_space_def)

section \<open>Numbers and words\<close>

lemma lex_num:
  "list_all num_char u \<Longrightarrow> delimited rest \<Longrightarrow> number_ok (rev a @ u) \<Longrightarrow>
   json_lex (LNum a) (u @ rest) = map_option ((#) (TNum (rev a @ u))) (json_lex LDefault rest)"
proof (induction u arbitrary: a)
  case Nil
  then show ?case by (cases rest) (auto simp: delimited_def)
qed auto

lemma lex_word:
  "list_all letter u \<Longrightarrow> delimited rest \<Longrightarrow> word_token (rev a @ u) = Some t \<Longrightarrow>
   json_lex (LWord a) (u @ rest) = map_option ((#) t) (json_lex LDefault rest)"
proof (induction u arbitrary: a)
  case Nil
  then show ?case by (cases rest) (auto simp: delimited_def)
qed auto

lemma num_lit_lex:
  assumes "num_lit n" "delimited rest"
  shows "json_lex LDefault (n @ rest) = map_option ((#) (TNum n)) (json_lex LDefault rest)"
proof -
  obtain c u where n: "n = c # u" using assms(1) by (cases n) (auto simp: num_lit_def)
  then have c: "c = CHR ''-'' \<or> is_digit c" "list_all num_char u" "number_ok (c # u)"
    using assms(1) by (auto simp: num_lit_def)
  then have "\<not> json_space c" "c \<noteq> CHR 0x22" by (auto simp: json_space_def is_digit_def)
  then show ?thesis using n c lex_num [of u rest "[c]"] assms(2) by simp
qed

section \<open>Values\<close>

lemma lex_commas:
  assumes "\<forall>x \<in> set xs. \<forall>r. delimited r \<longrightarrow> json_lex LDefault (f x @ r) = map_option ((@) (g x)) (json_lex LDefault r)"
    and "delimited rest"
  shows "json_lex LDefault (commas (map f xs) @ rest) = map_option ((@) (sep_tokens (map g xs))) (json_lex LDefault rest)"
  using assms(1)
proof (induction xs rule: induct_list012)
  case 1
  then show ?case by (simp add: option.map_ident_strong)
next
  case (2 x)
  then show ?case using assms(2) by simp
next
  case (3 x y zs)
  have "delimited (CHR '','' # r)" for r
    by (simp add: delimited_def num_char_def letter_def is_digit_def)
  then have "json_lex LDefault (f x @ CHR '','' # commas (map f (y # zs)) @ rest) =
      map_option ((@) (g x)) (json_lex LDefault (CHR '','' # commas (map f (y # zs)) @ rest))"
    using 3(3) by simp
  moreover have "json_lex LDefault (CHR '','' # t) = map_option ((#) TComma) (json_lex LDefault t)" for t
    by (simp add: json_space_def is_digit_def letter_def punctuation_def)
  ultimately show ?case using 3(2,3) by (simp add: option.map_comp comp_def)
qed

lemma lex_punctuation:
  "json_lex LDefault (CHR ''['' # t) = map_option ((#) TLBracket) (json_lex LDefault t)"
  "json_lex LDefault (CHR '']'' # t) = map_option ((#) TRBracket) (json_lex LDefault t)"
  "json_lex LDefault (CHR ''{'' # t) = map_option ((#) TLBrace) (json_lex LDefault t)"
  "json_lex LDefault (CHR ''}'' # t) = map_option ((#) TRBrace) (json_lex LDefault t)"
  "json_lex LDefault (CHR '':'' # t) = map_option ((#) TColon) (json_lex LDefault t)"
  by (simp_all add: json_space_def is_digit_def letter_def punctuation_def)

lemma delimited_punctuation [simp]:
  "delimited (CHR '']'' # t)" "delimited (CHR ''}'' # t)"
  by (simp_all add: delimited_def num_char_def letter_def is_digit_def)

lemma lex_letter: "letter c \<Longrightarrow> json_lex LDefault (c # s) = json_lex (LWord [c]) s"
proof -
  assume "letter c"
  then have "\<not> json_space c" "c \<noteq> CHR 0x22" "c \<noteq> CHR ''-''" "\<not> is_digit c"
    by (auto simp: letter_def json_space_def is_digit_def)
  then show ?thesis using \<open>letter c\<close> by simp
qed

lemma lex_word_default:
  assumes "letter c" "list_all letter u" "delimited rest" "word_token (c # u) = Some t"
  shows "json_lex LDefault (c # u @ rest) = map_option ((#) t) (json_lex LDefault rest)"
  using lex_word [of u rest "[c]" t] assms by (simp add: lex_letter del: json_lex.simps)

lemma lex_render:
  "json_lits v \<Longrightarrow> delimited rest \<Longrightarrow>
   json_lex LDefault (render v @ rest) = map_option ((@) (json_tokens (read_back v))) (json_lex LDefault rest)"
proof (induction v arbitrary: rest rule: render.induct)
  case 1
  then show ?case using lex_word_default [of "CHR ''n''" "''ull''" rest TNull]
    by (simp add: letter_def word_token_def del: json_lex.simps)
next
  case (2 b)
  then show ?case
    using lex_word_default [of "CHR ''t''" "''rue''" rest "TBool True"]
      lex_word_default [of "CHR ''f''" "''alse''" rest "TBool False"]
    by (simp add: letter_def word_token_def del: json_lex.simps)
next
  case (3 n)
  then show ?case by (simp add: num_lit_lex)
next
  case (4 s)
  then show ?case by (simp add: lex_quote)
next
  case (5 vs)
  have "\<forall>x \<in> set vs. \<forall>r. delimited r \<longrightarrow>
      json_lex LDefault (render x @ r) = map_option ((@) (json_tokens (read_back x))) (json_lex LDefault r)"
    using 5 by (auto simp: list_all_iff)
  from lex_commas [OF this, of "CHR '']'' # rest"] show ?case
    by (simp add: lex_punctuation option.map_comp comp_def del: json_lex.simps)
next
  case (6 ms)
  let ?f = "\<lambda>(k, v). quote k @ CHR '':'' # render v"
  let ?g = "\<lambda>(k, v). TStr (coerced k) # TColon # json_tokens (read_back v)"
  have "\<forall>x \<in> set ms. \<forall>r. delimited r \<longrightarrow> json_lex LDefault (?f x @ r) = map_option ((@) (?g x)) (json_lex LDefault r)"
  proof (intro ballI allI impI)
    fix x r
    assume x: "x \<in> set ms" and r: "delimited r"
    obtain k v where kv: "x = (k, v)" by (cases x)
    then have "json_lits v" using 6(2) x by (auto simp: list_all_iff)
    moreover have "json_lex LDefault (render v @ r) = map_option ((@) (json_tokens (read_back v))) (json_lex LDefault r)"
      using 6(1) x kv r \<open>json_lits v\<close> by auto
    ultimately show "json_lex LDefault (?f x @ r) = map_option ((@) (?g x)) (json_lex LDefault r)"
      using kv by (cases "json_lex LDefault r")
        (simp_all add: lex_quote lex_punctuation option.map_comp comp_def del: json_lex.simps)
  qed
  from lex_commas [OF this, of "CHR ''}'' # rest"]
  have "json_lex LDefault (commas (map ?f ms) @ CHR ''}'' # rest) =
      map_option ((@) (sep_tokens (map ?g ms))) (json_lex LDefault (CHR ''}'' # rest))" by simp
  moreover have "map (\<lambda>(k, v). TStr k # TColon # json_tokens v) (map (\<lambda>(k, v). (coerced k, read_back v)) ms) = map ?g ms"
    by auto
  ultimately show ?case
    by (simp add: lex_punctuation option.map_comp comp_def del: json_lex.simps map_map)
qed

section \<open>The machine on the tokens of a value\<close>

lemma run_tokens_append:
  "run_tokens (ts @ us) s = Option.bind (run_tokens ts s) (run_tokens us)"
  by (induction ts arbitrary: s) (auto simp: Option.bind_eq_Some_conv split: Option.bind_splits)

lemma run_first_elem:
  "ts \<noteq> [] \<Longrightarrow> hd ts \<noteq> TRBracket \<Longrightarrow> run_tokens ts (PFirstElem, st) = run_tokens ts (PValue, st)"
proof -
  assume "ts \<noteq> []" "hd ts \<noteq> TRBracket"
  then obtain t us where ts: "ts = t # us" "t \<noteq> TRBracket" by (cases ts) auto
  then have "token_step t (PFirstElem, st) = token_step t (PValue, st)" by (cases t) auto
  then show ?thesis using ts by simp
qed

lemma json_tokens_hd: "json_tokens v \<noteq> [] \<and> hd (json_tokens v) \<noteq> TRBracket"
  by (cases v) auto

lemma run_elements:
  assumes "\<forall>v \<in> set vs. \<forall>ts st. run_tokens (json_tokens v @ ts) (PValue, st) = Option.bind (deliver v st) (run_tokens ts)"
    and "vs \<noteq> []"
  shows "run_tokens (sep_tokens (map json_tokens vs) @ TRBracket # ts) (PValue, SArr acc # st) =
    Option.bind (deliver (JArr (rev acc @ vs)) st) (run_tokens ts)"
  using assms
  by (induction vs arbitrary: acc rule: induct_list012) simp_all

lemma run_members:
  assumes "\<forall>v \<in> snd ` set ms. \<forall>ts st. run_tokens (json_tokens v @ ts) (PValue, st) = Option.bind (deliver v st) (run_tokens ts)"
    and "ms \<noteq> []"
  shows "run_tokens (sep_tokens (map (\<lambda>(k, v). TStr k # TColon # json_tokens v) ms) @ TRBrace # ts) (PKey, SObj acc # st) =
    Option.bind (deliver (JObj (rev acc @ ms)) st) (run_tokens ts)"
  using assms
  by (induction ms arbitrary: acc rule: induct_list012) (auto split: prod.splits)

lemma sep_tokens_hd:
  "xs \<noteq> [] \<Longrightarrow> hd xs \<noteq> [] \<Longrightarrow> sep_tokens xs \<noteq> [] \<and> hd (sep_tokens xs) = hd (hd xs)"
  by (cases xs rule: sep_tokens.cases) auto

lemma run_first_key: "run_tokens (TStr k # ts) (PFirstKey, st) = run_tokens (TStr k # ts) (PKey, st)"
  by simp

lemma run_value:
  "run_tokens (json_tokens v @ ts) (PValue, st) = Option.bind (deliver v st) (run_tokens ts)"
proof (induction v arbitrary: ts st rule: json_tokens.induct)
  case (5 vs)
  show ?case
  proof (cases "vs = []")
    case False
    let ?us = "sep_tokens (map json_tokens vs) @ TRBracket # ts"
    have "?us \<noteq> [] \<and> hd ?us \<noteq> TRBracket"
      using False sep_tokens_hd [of "map json_tokens vs"] json_tokens_hd [of "hd vs"] by (simp add: hd_map)
    then have "run_tokens ?us (PFirstElem, SArr [] # st) = run_tokens ?us (PValue, SArr [] # st)"
      by (simp add: run_first_elem)
    then show ?thesis using run_elements [of vs ts "[]" st] 5 False by simp
  qed simp
next
  case (6 ms)
  show ?case
  proof (cases "ms = []")
    case False
    let ?us = "sep_tokens (map (\<lambda>(k, v). TStr k # TColon # json_tokens v) ms) @ TRBrace # ts"
    obtain k v us where "?us = TStr k # us"
      using False by (cases ms; cases "tl ms") (auto split: prod.splits)
    then have "run_tokens ?us (PFirstKey, SObj [] # st) = run_tokens ?us (PKey, SObj [] # st)"
      by simp
    moreover have "\<forall>v \<in> snd ` set ms. \<forall>ts st. run_tokens (json_tokens v @ ts) (PValue, st) = Option.bind (deliver v st) (run_tokens ts)"
      using 6 by auto
    ultimately show ?thesis using run_members [of ms ts "[]" st] False by simp
  qed simp
qed simp_all

theorem json_parse_written: "json_lits v \<Longrightarrow> json_parse (render v) = Some (read_back v)"
  using lex_render [of v "[]"] run_value [of "read_back v" "[]" "[]"]
  by (simp add: json_parse_def delimited_def)

corollary json_parse_render: "json_ok v \<Longrightarrow> json_parse (render v) = Some v"
  using json_parse_written json_ok_lits by metis

section \<open>Rendered text has no control characters\<close>

definition printable :: "bytes \<Rightarrow> bool" where
  "printable s \<longleftrightarrow> list_all (\<lambda>c. 32 \<le> byte c) s"

lemma printable_append [simp]: "printable (s @ t) \<longleftrightarrow> printable s \<and> printable t"
  by (simp add: printable_def)

lemma printable_Nil [simp]: "printable []"
  by (simp add: printable_def)

lemma printable_Cons [simp]: "printable (c # s) \<longleftrightarrow> 32 \<le> byte c \<and> printable s"
  by (simp add: printable_def)

lemma printable_hex4: "printable (hex4 n)"
  by (simp add: hex4_def hex_char_def)

lemma printable_escape_ascii: "printable (escape_ascii c)"
  by (simp add: escape_ascii_def printable_hex4)

lemma printable_rune:
  assumes "decode_rune (c # s) = Some (r, s')" "\<not> byte c < 128"
  shows "printable (take (length (c # s) - length s') (c # s))"
  using assms(1)
  by (cases rule: decode_rune_cases) (use assms(2) in \<open>auto simp: cont_byte_def\<close>)

lemma printable_escape: "printable (escape s)"
proof (induction s rule: escape.induct)
  case (2 c s)
  then show ?case
    using printable_rune [of c s]
    by (cases "byte c < 128"; cases "decode_rune (c # s)")
      (auto simp: printable_escape_ascii printable_hex4)
qed simp

lemma printable_commas: "\<forall>x \<in> set xs. printable x \<Longrightarrow> printable (commas xs)"
  by (induction xs rule: commas.induct) auto

lemma num_char_printable: "num_char c \<Longrightarrow> 32 \<le> byte c"
  by (auto simp: num_char_def is_digit_def)

lemma printable_num: "num_lit n \<Longrightarrow> printable n"
  using num_char_printable by (auto simp: num_lit_def printable_def list_all_iff)

lemma printable_written: "json_lits v \<Longrightarrow> printable (render v)"
proof (induction v rule: render.induct)
  case (6 ms)
  then have "\<forall>(k, v) \<in> set ms. printable (quote k @ CHR '':'' # render v)"
    by (fastforce simp: quote_def printable_escape list_all_iff)
  then show ?case by (fastforce intro!: printable_commas)
qed (auto simp: quote_def printable_escape printable_num list_all_iff intro!: printable_commas)

lemma printable_render: "json_ok v \<Longrightarrow> printable (render v)"
  using printable_written json_ok_lits by blast

lemma printable_no_newline: "printable s \<Longrightarrow> CHR 0x0A \<notin> set s"
  by (auto simp: printable_def list_all_iff)

section \<open>Integers are number literals\<close>

lemma nat_digits_leading: "hd (nat_digits n) = CHR ''0'' \<Longrightarrow> n = 0"
proof (induction n rule: nat_digits.induct)
  case (1 n)
  show ?case
  proof (cases "n < 10")
    case True
    then have "48 + n = byte (hd (nat_digits n))" by (subst nat_digits.simps) simp
    then show ?thesis using 1(2) by simp
  next
    case False
    then have "hd (nat_digits n) = hd (nat_digits (n div 10))"
      by (subst nat_digits.simps) simp
    then show ?thesis using 1 False by simp
  qed
qed

lemma dropWhile_nat_digits: "\<forall>c \<in> set s. is_digit c \<Longrightarrow> dropWhile is_digit s = []"
  by simp

lemma number_ok_digits:
  assumes "\<forall>c \<in> set s. is_digit c" "s \<noteq> []" "hd s = CHR ''0'' \<longrightarrow> s = [CHR ''0'']"
  shows "number_ok s \<and> number_ok (CHR ''-'' # s)"
proof -
  obtain c t where s: "s = c # t" using assms(2) by (cases s) auto
  then have c: "is_digit c" "c \<noteq> CHR ''-''" "dropWhile is_digit t = []"
    using assms(1) digit_not_sign by auto
  have "number_frac (dropWhile is_digit t)" "number_frac []"
    unfolding c(3) by (simp_all add: number_frac_def number_exp_def)
  moreover have "c = CHR ''0'' \<Longrightarrow> t = []" using s assms(3) by simp
  ultimately show ?thesis
    using s c(1,2) by (auto simp: number_ok_def)
qed

lemma nat_digits_zero: "nat_digits 0 = [CHR ''0'']"
  by (subst nat_digits.simps) (simp add: digit_char_def char_of_eq_iff)

lemma number_ok_nat_digits: "number_ok (nat_digits n)" "number_ok (CHR ''-'' # nat_digits n)"
proof -
  have "hd (nat_digits n) = CHR ''0'' \<longrightarrow> nat_digits n = [CHR ''0'']"
    using nat_digits_leading [of n] nat_digits_zero by auto
  then show "number_ok (nat_digits n)" "number_ok (CHR ''-'' # nat_digits n)"
    using number_ok_digits [of "nat_digits n"] nat_digits_digits by auto
qed

lemma num_lit_format_int [simp]: "num_lit (format_int i)"
proof -
  have "\<forall>c \<in> set (nat_digits n). num_char c" for n
    using nat_digits_digits by (auto simp: num_char_def)
  moreover have "is_digit (hd (nat_digits n))" for n
    using nat_digits_digits [of "hd (nat_digits n)" n] by simp
  ultimately show ?thesis
    by (auto simp: num_lit_def format_int_def number_ok_nat_digits list_all_iff num_char_def)
qed

end
