(* ===== verification/Sse_Protocol.thy ===== *)
theory Sse_Protocol
  imports Sse_Encoder Json_Roundtrip
begin

text \<open>
  Histories of encoder calls and the contract with the reader of the stream.  The reader is an
  automaton of its own (one channel per model); the refinement lemma says that every frame the
  encoder returns is a step the reader accepts, in the reader's state that abstracts the encoder.
\<close>

section \<open>Calls and histories\<close>

datatype sse_call =
    CMeta bytes
  | CDelta bytes int bytes
  | CModelDone bytes int
  | CModelError bytes bytes bytes
  | CDoneSingle bytes int int
  | CDoneCompare bytes int "(bytes \<times> int) list"
  | CError bytes bytes

fun sse_step :: "sse_call \<Rightarrow> sse_encoder \<Rightarrow> bytes option \<times> sse_encoder" where
  "sse_step (CMeta c) e = sse_Meta c e"
| "sse_step (CDelta m n d) e = sse_Delta m n d e"
| "sse_step (CModelDone m n) e = sse_ModelDone m n e"
| "sse_step (CModelError m c r) e = sse_ModelError m c r e"
| "sse_step (CDoneSingle c t u) e = sse_DoneSingle c t u e"
| "sse_step (CDoneCompare c u ts) e = sse_DoneCompare c u ts e"
| "sse_step (CError c r) e = sse_Error c r e"

text \<open>The calls that returned a frame, with their frames, in order.\<close>

fun sse_run :: "sse_call list \<Rightarrow> sse_encoder \<Rightarrow> (sse_call \<times> bytes) list \<times> sse_encoder" where
  "sse_run [] e = ([], e)"
| "sse_run (c # cs) e =
     (let (r, e') = sse_step c e; (out, e'') = sse_run cs e'
      in ((case r of None \<Rightarrow> out | Some f \<Rightarrow> (c, f) # out), e''))"

definition sse_emitted :: "sse_call list \<Rightarrow> sse_encoder \<Rightarrow> sse_call list" where
  "sse_emitted cs e = map fst (fst (sse_run cs e))"

section \<open>The reader\<close>

datatype channel = Absent | Receiving int | Complete | Broken

record sse_reader =
  opened :: bool
  ended :: bool
  channels :: "bytes \<Rightarrow> channel"

definition settled :: "channel \<Rightarrow> bool" where
  "settled c \<longleftrightarrow> c = Complete \<or> c = Broken"

fun reader_accepts :: "bytes list \<Rightarrow> sse_call \<Rightarrow> sse_reader \<Rightarrow> bool" where
  "reader_accepts ms (CMeta c) r \<longleftrightarrow> \<not> opened r \<and> \<not> ended r"
| "reader_accepts ms (CDelta m n d) r \<longleftrightarrow> opened r \<and> \<not> ended r \<and> channels r m = Receiving n \<and> d \<noteq> []"
| "reader_accepts ms (CModelDone m n) r \<longleftrightarrow> opened r \<and> \<not> ended r \<and> channels r m = Receiving (n + 1)"
| "reader_accepts ms (CModelError m c i) r \<longleftrightarrow> opened r \<and> \<not> ended r \<and> (\<exists>n. channels r m = Receiving n)"
| "reader_accepts ms (CDoneSingle c t u) r \<longleftrightarrow>
     opened r \<and> \<not> ended r \<and> (\<exists>m. ms = [m] \<and> channels r m = Complete)"
| "reader_accepts ms (CDoneCompare c u ts) r \<longleftrightarrow>
     opened r \<and> \<not> ended r \<and> 2 \<le> length ms \<and> (\<forall>m \<in> set ms. settled (channels r m)) \<and>
     fst ` set ts = {m. channels r m = Complete}"
| "reader_accepts ms (CError c i) r \<longleftrightarrow> opened r \<and> \<not> ended r"

fun reader_update :: "sse_call \<Rightarrow> sse_reader \<Rightarrow> sse_reader" where
  "reader_update (CMeta c) r = r\<lparr>opened := True\<rparr>"
| "reader_update (CDelta m n d) r = r\<lparr>channels := (channels r)(m := Receiving (n + 1))\<rparr>"
| "reader_update (CModelDone m n) r = r\<lparr>channels := (channels r)(m := Complete)\<rparr>"
| "reader_update (CModelError m c i) r = r\<lparr>channels := (channels r)(m := Broken)\<rparr>"
| "reader_update (CDoneSingle c t u) r = r\<lparr>ended := True\<rparr>"
| "reader_update (CDoneCompare c u ts) r = r\<lparr>ended := True\<rparr>"
| "reader_update (CError c i) r = r\<lparr>ended := True\<rparr>"

fun reader_run :: "bytes list \<Rightarrow> sse_call list \<Rightarrow> sse_reader \<Rightarrow> sse_reader option" where
  "reader_run ms [] r = Some r"
| "reader_run ms (c # cs) r =
     (if reader_accepts ms c r then reader_run ms cs (reader_update c r) else None)"

definition reader_start :: "bytes list \<Rightarrow> sse_reader" where
  "reader_start ms = \<lparr>opened = False, ended = False,
     channels = (\<lambda>m. if m \<in> set ms then Receiving 1 else Absent)\<rparr>"

section \<open>Invariant and abstraction\<close>

definition sse_inv :: "sse_encoder \<Rightarrow> bool" where
  "sse_inv e \<longleftrightarrow>
     sm_ok (encStates e) \<and> distinct (encModels e) \<and>
     fst ` set (encStates e) = set (encModels e) \<and>
     (encErr e \<noteq> None \<longrightarrow> encTerminal e) \<and>
     (encErr e = None \<and> encTerminal e \<longrightarrow> metaSent e)"

definition channel_of :: "sse_model \<Rightarrow> channel" where
  "channel_of s = (if \<not> modelTerminal s then Receiving (nextSeq s) else if modelFailed s then Broken else Complete)"

definition reader_of :: "sse_encoder \<Rightarrow> sse_reader" where
  "reader_of e = \<lparr>opened = metaSent e, ended = encTerminal e,
     channels = (\<lambda>m. case map_of (encStates e) m of None \<Rightarrow> Absent | Some s \<Rightarrow> channel_of s)\<rparr>"

text \<open>A failed model is terminal: the flag is only ever set together with \<open>terminal\<close>.\<close>

definition failed_terminal :: "sse_encoder \<Rightarrow> bool" where
  "failed_terminal e \<longleftrightarrow> (\<forall>s \<in> snd ` set (encStates e). modelFailed s \<longrightarrow> modelTerminal s)"

lemma sse_inv_keys: "sse_inv e \<Longrightarrow> map_of (encStates e) m = None \<longleftrightarrow> m \<notin> set (encModels e)"
  by (simp add: sse_inv_def map_of_eq_None_iff)

lemma sse_inv_ok: "sse_inv e \<Longrightarrow> sm_ok (encStates e)"
  by (simp add: sse_inv_def)

lemma sse_fail_fst [simp]: "fst (sse_fail er e) = None"
  by (simp add: sse_fail_def)

lemma sse_fail_inv: "sse_inv e \<Longrightarrow> sse_inv (snd (sse_fail er e))"
  by (auto simp: sse_fail_def sse_inv_def)

lemma sse_fail_terminal: "encTerminal (snd (sse_fail er e)) \<and> encErr (snd (sse_fail er e)) \<noteq> None"
  by (auto simp: sse_fail_def)

lemma put_model_simps [simp]:
  "encModels (put_model m s e) = encModels e" "encErr (put_model m s e) = encErr e"
  "encTerminal (put_model m s e) = encTerminal e" "metaSent (put_model m s e) = metaSent e"
  "generationID (put_model m s e) = generationID e"
  "encStates (put_model m s e) = sm_put m s (encStates e)"
  by (simp_all add: put_model_def)

lemma put_model_inv: "sse_inv e \<Longrightarrow> m \<in> set (encModels e) \<Longrightarrow> sse_inv (put_model m s e)"
  by (auto simp: sse_inv_def)

lemma reader_put_model:
  "sse_inv e \<Longrightarrow> reader_of (put_model m s e) =
     (reader_of e)\<lparr>channels := (channels (reader_of e))(m := channel_of s)\<rparr>"
  by (auto simp: reader_of_def sse_inv_ok fun_eq_iff)

lemma readyModel_Inr:
  "readyModel m e = Inr s \<longleftrightarrow> encErr e = None \<and> \<not> encTerminal e \<and> metaSent e \<and>
     map_of (encStates e) m = Some s \<and> \<not> modelTerminal s"
  by (auto simp: readyModel_def split: option.splits)

lemma readyModel_member: "sse_inv e \<Longrightarrow> readyModel m e = Inr s \<Longrightarrow> m \<in> set (encModels e)"
  using sse_inv_keys[of e m] by (auto simp: readyModel_Inr)

lemma readyModel_reader:
  "readyModel m e = Inr s \<Longrightarrow>
     opened (reader_of e) \<and> \<not> ended (reader_of e) \<and> channels (reader_of e) m = Receiving (nextSeq s)"
  by (simp add: readyModel_Inr reader_of_def channel_of_def)

text \<open>
  What one call does: it returns the frame's text and moves the reader, or it returns nothing and
  the encoder is (and stays) terminal.
\<close>

definition sse_outcome :: "bytes list \<Rightarrow> sse_call \<Rightarrow> sse_encoder \<Rightarrow> bytes option \<times> sse_encoder \<Rightarrow> bool" where
  "sse_outcome ms c e res \<longleftrightarrow>
     sse_inv (snd res) \<and> failed_terminal (snd res) \<and> encModels (snd res) = ms \<and>
     (if fst res = None then encTerminal (snd res) \<and> encErr (snd res) \<noteq> None
      else reader_accepts ms c (reader_of e) \<and> reader_of (snd res) = reader_update c (reader_of e))"

lemma sse_fail_outcome:
  "sse_inv e \<Longrightarrow> failed_terminal e \<Longrightarrow> encModels e = ms \<Longrightarrow> sse_outcome ms c e (sse_fail er e)"
  using sse_fail_terminal[of er e] sse_fail_inv[of e er]
  by (auto simp: sse_outcome_def failed_terminal_def) (auto simp: sse_fail_def)

lemma sse_frame_outcome:
  assumes "sse_inv e'" "failed_terminal e'" "encModels e' = ms"
    and "encErr e' = None \<Longrightarrow> reader_accepts ms c (reader_of e) \<and> reader_of e' = reader_update c (reader_of e)"
  shows "sse_outcome ms c e (sse_frame ev p e')"
proof (cases "encErr e' \<noteq> None \<or> platformSSEV2MaxFrameBytes < length (sse_text ev p)")
  case True
  then show ?thesis
    using assms sse_fail_outcome[OF assms(1-3)]
    by (auto simp: sse_frame_def sse_outcome_def sse_inv_def split: if_splits)
next
  case False
  then show ?thesis using assms by (auto simp: sse_frame_def sse_outcome_def)
qed

lemma put_model_failed_terminal:
  "failed_terminal e \<Longrightarrow> (modelFailed s \<longrightarrow> modelTerminal s) \<Longrightarrow> failed_terminal (put_model m s e)"
  using sm_values_put[of m s "encStates e"] unfolding failed_terminal_def put_model_simps by blast

lemma readyModel_not_failed: "failed_terminal e \<Longrightarrow> readyModel m e = Inr s \<Longrightarrow> \<not> modelFailed s"
  by (force simp: readyModel_Inr failed_terminal_def dest: map_of_SomeD)

lemma Meta_outcome:
  assumes "sse_inv e" "failed_terminal e"
  shows "sse_outcome (encModels e) (CMeta c) e (sse_Meta c e)"
proof (cases "\<not> platformSSEV2Identifier c \<or> metaSent e")
  case True
  then show ?thesis using assms by (simp add: sse_Meta_def sse_fail_outcome)
next
  case False
  then show ?thesis
    using assms unfolding sse_Meta_def
    by simp (rule sse_frame_outcome; auto simp: sse_inv_def failed_terminal_def reader_of_def)
qed

lemma Delta_outcome:
  assumes "sse_inv e" "failed_terminal e"
  shows "sse_outcome (encModels e) (CDelta m n d) e (sse_Delta m n d e)"
proof (cases "readyModel m e")
  case (Inl er)
  then show ?thesis using assms by (simp add: sse_Delta_def sse_fail_outcome)
next
  case (Inr s)
  note member = readyModel_member[OF assms(1) Inr] and reader = readyModel_reader[OF Inr]
  have "sse_outcome (encModels e) (CDelta m n d) e
      (sse_frame ev p (put_model m (s\<lparr>nextSeq := nextSeq s + 1\<rparr>) e))" if "d \<noteq> []" "n = nextSeq s" for ev p
    using that assms member reader Inr readyModel_not_failed[OF assms(2) Inr]
    by (intro sse_frame_outcome)
      (auto simp: put_model_inv put_model_failed_terminal reader_put_model channel_of_def readyModel_Inr)
  then show ?thesis
    using assms Inr by (auto simp: sse_Delta_def sse_fail_outcome)
qed

lemma ModelDone_outcome:
  assumes "sse_inv e" "failed_terminal e"
  shows "sse_outcome (encModels e) (CModelDone m n) e (sse_ModelDone m n e)"
proof (cases "readyModel m e")
  case (Inl er)
  then show ?thesis using assms by (simp add: sse_ModelDone_def sse_fail_outcome)
next
  case (Inr s)
  note member = readyModel_member[OF assms(1) Inr] and reader = readyModel_reader[OF Inr]
  have "sse_outcome (encModels e) (CModelDone m n) e
      (sse_frame ev p (put_model m (s\<lparr>modelTerminal := True\<rparr>) e))" if "n = nextSeq s - 1" for ev p
    using that assms member reader Inr readyModel_not_failed[OF assms(2) Inr]
    by (intro sse_frame_outcome)
      (auto simp: put_model_inv put_model_failed_terminal reader_put_model channel_of_def readyModel_Inr)
  then show ?thesis
    using assms Inr by (auto simp: sse_ModelDone_def sse_fail_outcome)
qed

lemma ModelError_outcome:
  assumes "sse_inv e" "failed_terminal e"
  shows "sse_outcome (encModels e) (CModelError m c r) e (sse_ModelError m c r e)"
proof (cases "readyModel m e")
  case (Inl er)
  then show ?thesis using assms by (simp add: sse_ModelError_def sse_fail_outcome)
next
  case (Inr s)
  note member = readyModel_member[OF assms(1) Inr] and reader = readyModel_reader[OF Inr]
  show ?thesis
    unfolding sse_ModelError_def Inr sum.case
    using assms member reader Inr
    by (intro sse_frame_outcome)
      (auto simp: put_model_inv put_model_failed_terminal reader_put_model channel_of_def readyModel_Inr)
qed

lemma model_terminal_settled: "model_terminal e m \<Longrightarrow> settled (channels (reader_of e) m)"
  by (auto simp: model_terminal_def reader_of_def settled_def channel_of_def split: option.splits)

lemma channel_complete_iff:
  "model_terminal e m \<Longrightarrow> channels (reader_of e) m = Complete \<longleftrightarrow> \<not> model_failed e m"
  by (auto simp: model_terminal_def model_failed_def reader_of_def channel_of_def split: option.splits)

lemma DoneSingle_outcome:
  assumes "sse_inv e" "failed_terminal e"
  shows "sse_outcome (encModels e) (CDoneSingle c t u) e (sse_DoneSingle c t u e)"
proof -
  have "sse_outcome (encModels e) (CDoneSingle c t u) e (sse_frame ev p (e\<lparr>encTerminal := True\<rparr>))"
    if len: "length (encModels e) = 1" and can: "canComplete c e" and "\<not> model_failed e (hd (encModels e))" for ev p
  proof -
    obtain m where m: "encModels e = [m]" using len by (auto simp: length_Suc_conv)
    then have "channels (reader_of e) m = Complete"
      using that channel_complete_iff[of e m] by (simp add: canComplete_def)
    then show ?thesis
      using assms m can
      by (intro sse_frame_outcome)
        (auto simp: sse_inv_def failed_terminal_def canComplete_def reader_of_def)
  qed
  then show ?thesis
    using assms by (auto simp: sse_DoneSingle_def sse_fail_outcome)
qed

lemma done_models_tokens:
  "done_models e toks ms out = Some out' \<Longrightarrow> m \<in> set ms \<Longrightarrow> model_failed e m \<or> m \<in> fst ` set toks"
  by (induction e toks ms out rule: done_models.induct)
    (auto split: if_splits option.splits dest!: map_of_SomeD intro: rev_image_eqI)

lemma DoneCompare_outcome:
  assumes "sse_inv e" "failed_terminal e"
  shows "sse_outcome (encModels e) (CDoneCompare c u ts) e (sse_DoneCompare c u ts e)"
proof -
  have "sse_outcome (encModels e) (CDoneCompare c u ts) e (sse_frame ev p (e\<lparr>encTerminal := True\<rparr>))"
    if len: "2 \<le> length (encModels e)" and can: "canComplete c e" and toks: "done_tokens_ok e ts"
      and out: "done_models e ts (encModels e) [] = Some out" for ev p out
  proof -
    have terminal: "m \<in> set (encModels e) \<Longrightarrow> model_terminal e m" for m
      using can by (auto simp: canComplete_def list_all_iff)
    have known: "channels (reader_of e) m = Complete \<Longrightarrow> m \<in> set (encModels e)" for m
      using sse_inv_keys[OF assms(1), of m] by (auto simp: reader_of_def split: option.splits)
    have "m \<in> fst ` set ts \<Longrightarrow> m \<in> set (encModels e) \<and> \<not> model_failed e m" for m
      using toks sse_inv_keys[OF assms(1), of m] by (fastforce simp: done_tokens_ok_def list_all_iff)
    then have "fst ` set ts = {m. channels (reader_of e) m = Complete}"
      using terminal known channel_complete_iff[of e] done_models_tokens[OF out] by blast
    moreover have "\<forall>m \<in> set (encModels e). settled (channels (reader_of e) m)"
      using terminal model_terminal_settled by blast
    ultimately show ?thesis
      using assms can len
      by (intro sse_frame_outcome)
        (auto simp: sse_inv_def failed_terminal_def canComplete_def reader_of_def)
  qed
  then show ?thesis
    using assms by (auto simp: sse_DoneCompare_def sse_fail_outcome split: option.splits)
qed

lemma Error_outcome:
  assumes "sse_inv e" "failed_terminal e"
  shows "sse_outcome (encModels e) (CError c r) e (sse_Error c r e)"
proof (cases "encErr e \<noteq> None \<or> encTerminal e \<or> \<not> metaSent e")
  case True
  then show ?thesis using assms by (simp add: sse_Error_def sse_fail_outcome)
next
  case False
  then show ?thesis
    using assms unfolding sse_Error_def
    by simp (rule sse_frame_outcome; auto simp: sse_inv_def failed_terminal_def reader_of_def)
qed

lemma sse_step_outcome:
  "sse_inv e \<Longrightarrow> failed_terminal e \<Longrightarrow> sse_outcome (encModels e) c e (sse_step c e)"
  by (cases c) (simp_all add: Meta_outcome Delta_outcome ModelDone_outcome ModelError_outcome
      DoneSingle_outcome DoneCompare_outcome Error_outcome)

section \<open>Frames as the reader sees them\<close>

text \<open>
  The reader's half of the framing: an \<open>event\<close> line, a \<open>data\<close> line holding one JSON value and
  the empty line that dispatches the event.
\<close>

fun split_line :: "bytes \<Rightarrow> (bytes \<times> bytes) option" where
  "split_line [] = None"
| "split_line (c # s) =
     (if c = CHR 0x0A then Some ([], s) else map_option (\<lambda>(l, r). (c # l, r)) (split_line s))"

definition field_of :: "bytes \<Rightarrow> bytes \<Rightarrow> bytes option" where
  "field_of name line =
     (if take (length name) line = name then Some (drop (length name) line) else None)"

definition parse_frame :: "bytes \<Rightarrow> (bytes \<times> json) option" where
  "parse_frame f =
     (case split_line f of
        None \<Rightarrow> None
      | Some (l1, r1) \<Rightarrow>
          (case split_line r1 of
             None \<Rightarrow> None
           | Some (l2, r2) \<Rightarrow>
               (case (field_of ''event: '' l1, field_of ''data: '' l2) of
                  (Some ev, Some d) \<Rightarrow> if r2 = newline then map_option (Pair ev) (json_parse d) else None
                | _ \<Rightarrow> None)))"

lemma split_line_append: "CHR 0x0A \<notin> set s \<Longrightarrow> split_line (s @ CHR 0x0A # r) = Some (s, r)"
  by (induction s) auto

lemma field_of_append [simp]: "field_of name (name @ s) = Some s"
  by (simp add: field_of_def)

lemma parse_sse_text:
  assumes "json_lits v" "CHR 0x0A \<notin> set ev"
  shows "parse_frame (sse_text ev v) = Some (ev, read_back v)"
proof -
  have "CHR 0x0A \<notin> set (''data: '' @ render v)" "CHR 0x0A \<notin> set (''event: '' @ ev)"
    using assms printable_written printable_no_newline by auto
  then have "split_line (sse_text ev v) = Some (''event: '' @ ev, ''data: '' @ render v @ newline @ newline)"
    "split_line (''data: '' @ render v @ newline @ newline) = Some (''data: '' @ render v, newline)"
    using split_line_append [of "''event: '' @ ev" "''data: '' @ render v @ newline @ newline"]
      split_line_append [of "''data: '' @ render v" newline]
    by (simp_all add: sse_text_def newline_def)
  then show ?thesis
    using json_parse_written [OF assms(1)] field_of_append [of "''event: ''" ev]
      field_of_append [of "''data: ''" "render v"]
    unfolding parse_frame_def by (simp only: option.case prod.case) simp
qed

text \<open>The texts an encoder holds are valid UTF-8; the constructor and every call keep that.\<close>

definition sse_text_ok :: "sse_encoder \<Rightarrow> bool" where
  "sse_text_ok e \<longleftrightarrow> utf8_valid (generationID e) \<and> (\<forall>m \<in> set (encModels e). utf8_valid m) \<and>
     (\<forall>s \<in> snd ` set (encStates e). utf8_valid (modelCode s))"

fun event_name :: "sse_call \<Rightarrow> bytes" where
  "event_name (CMeta c) = ''meta''"
| "event_name (CDelta m n d) = ''delta''"
| "event_name (CModelDone m n) = ''model_done''"
| "event_name (CModelError m c r) = ''model_error''"
| "event_name (CDoneSingle c t u) = ''done''"
| "event_name (CDoneCompare c u ts) = ''done''"
| "event_name (CError c r) = ''error''"

lemma event_name_line: "CHR 0x0A \<notin> set (event_name c)"
  by (cases c) auto

lemma jint_ok [simp]: "json_ok (jint i)"
  by (simp add: jint_def)

lemma code_text: "utf8_valid (platformSSEV2Code c)"
  using platformSSEV2Code_stable stable_code_ascii utf8_valid_ascii by blast

lemma request_id_text: "utf8_valid (platformSSEV2RequestID r)"
proof -
  have "list_all request_id_char s \<Longrightarrow> ascii s" for s
    by (auto simp: ascii_def list_all_iff request_id_char_def is_digit_def)
  then show ?thesis by (auto simp: platformSSEV2RequestID_def intro: utf8_valid_ascii)
qed

lemma optional_member_ok:
  "utf8_valid k \<Longrightarrow> utf8_valid v \<Longrightarrow> list_all (\<lambda>(k, v). utf8_valid k \<and> json_ok v) (optional_member k v)"
  by (simp add: optional_member_def)

lemma literal_text [simp]: "ascii s \<Longrightarrow> utf8_valid s"
  by (rule utf8_valid_ascii)

lemma sse_fail_Some [simp]: "sse_fail er e \<noteq> (Some f, e')" "(Some f, e') \<noteq> sse_fail er e"
  by (simp_all add: sse_fail_def)

lemma sse_frame_Some: "sse_frame ev v e = (Some f, e') \<longleftrightarrow>
    encErr e = None \<and> length f \<le> platformSSEV2MaxFrameBytes \<and> f = sse_text ev v \<and> e' = e"
  by (auto simp: sse_frame_def)

lemma readyModel_text:
  "sse_inv e \<Longrightarrow> sse_text_ok e \<Longrightarrow> readyModel m e = Inr s \<Longrightarrow> utf8_valid m"
  using readyModel_member by (simp add: sse_text_ok_def)

lemma json_ok_put:
  "list_all (\<lambda>(k, v). utf8_valid k \<and> json_ok v) ms \<Longrightarrow> utf8_valid k \<Longrightarrow> json_ok v \<Longrightarrow>
   list_all (\<lambda>(k, v). utf8_valid k \<and> json_ok v) (sm_put k v ms)"
  by (induction k v ms rule: sm_put.induct) auto

lemma model_code_text:
  "sse_text_ok e \<Longrightarrow> utf8_valid (case map_of (encStates e) m of Some s \<Rightarrow> modelCode s | None \<Rightarrow> [])"
  by (force simp: sse_text_ok_def split: option.splits dest: map_of_SomeD)

lemma done_models_ok:
  assumes "sse_text_ok e" "done_models e toks ms out = Some out'" "\<forall>m \<in> set ms. utf8_valid m" "json_ok (JObj out)"
  shows "json_ok (JObj out')"
  using assms(2-4)
proof (induction ms arbitrary: out)
  case (Cons m ms)
  obtain v where v: "done_models e toks ms (sm_put m v out) = Some out'" "json_ok v"
    using Cons(2) model_code_text[OF assms(1), of m]
    by (auto simp: ascii_def split: if_splits option.splits)
  then have "json_ok (JObj (sm_put m v out))" using Cons(3,4) by (simp add: json_ok_put)
  then show ?case using Cons(1)[OF v(1)] Cons(3) by simp
qed simp

text \<open>A frame whose data line holds one value that reads back.\<close>

definition frame_ok :: "bytes \<Rightarrow> bytes \<Rightarrow> bool" where
  "frame_ok ev f \<longleftrightarrow> (\<exists>v. json_lits v \<and> f = sse_text ev v)"

lemma frame_ok_text [intro!]: "json_lits v \<Longrightarrow> frame_ok ev (sse_text ev v)"
  by (auto simp: frame_ok_def)

lemmas sse_methods = sse_Meta_def sse_Delta_def sse_ModelDone_def sse_ModelError_def
  sse_DoneSingle_def sse_DoneCompare_def sse_Error_def

lemma sse_step_payload:
  assumes "sse_inv e" "sse_text_ok e" "sse_step c e = (Some f, e')"
  shows "frame_ok (event_name c) f"
proof (cases c)
  case (CDoneCompare x u ts)
  have "json_lits (JObj out)" if "done_models e ts (encModels e) [] = Some out" for out
  proof -
    have "json_ok (JObj out)" using done_models_ok[OF assms(2) that] assms(2) by (auto simp: sse_text_ok_def)
    then show ?thesis using json_ok_lits by blast
  qed
  then show ?thesis
    using assms CDoneCompare
    by (auto simp: sse_DoneCompare_def sse_frame_Some jint_def split: if_splits option.splits)
qed (use assms in \<open>auto simp: sse_methods sse_frame_Some jint_def optional_member_def list_all_iff split: if_splits sum.splits\<close>)

definition sse_sound :: "sse_encoder \<Rightarrow> bool" where
  "sse_sound e \<longleftrightarrow> sse_inv e \<and> failed_terminal e \<and> sse_text_ok e"

lemma sse_fail_text_ok: "sse_text_ok e \<Longrightarrow> sse_text_ok (snd (sse_fail er e))"
  by (simp add: sse_fail_def sse_text_ok_def)

lemma sse_frame_text_ok: "sse_text_ok e \<Longrightarrow> sse_text_ok (snd (sse_frame ev v e))"
  by (simp add: sse_frame_def sse_fail_text_ok)

lemma put_model_text_ok: "sse_text_ok e \<Longrightarrow> utf8_valid (modelCode s) \<Longrightarrow> sse_text_ok (put_model m s e)"
  using sm_values_put[of m s "encStates e"] unfolding sse_text_ok_def put_model_simps by blast

lemma readyModel_code_text: "sse_text_ok e \<Longrightarrow> readyModel m e = Inr s \<Longrightarrow> utf8_valid (modelCode s)"
  by (force simp: readyModel_Inr sse_text_ok_def dest: map_of_SomeD)

lemma sse_text_ok_flags [simp]:
  "sse_text_ok (e\<lparr>metaSent := b\<rparr>) = sse_text_ok e" "sse_text_ok (e\<lparr>encTerminal := b\<rparr>) = sse_text_ok e"
  by (simp_all add: sse_text_ok_def)

lemma sse_step_text_ok: "sse_text_ok e \<Longrightarrow> sse_text_ok (snd (sse_step c e))"
  by (cases c)
    (auto simp: sse_methods sse_fail_text_ok code_text readyModel_code_text
      intro!: sse_frame_text_ok put_model_text_ok split: sum.splits option.splits)

lemma sse_step_sound:
  "sse_sound e \<Longrightarrow> sse_sound (snd (sse_step c e)) \<and> encModels (snd (sse_step c e)) = encModels e"
  using sse_step_outcome[of e c] sse_step_text_ok[of e c] by (simp add: sse_sound_def sse_outcome_def)

lemma new_states_keys:
  "new_states ms st = Some st' \<Longrightarrow> sm_ok st \<Longrightarrow>
   sm_ok st' \<and> fst ` set st' = set ms \<union> fst ` set st \<and> distinct ms \<and> set ms \<inter> fst ` set st = {} \<and>
   list_all platformSSEV2ModelIdentifier ms \<and> snd ` set st' \<subseteq> insert fresh_model (snd ` set st) \<and>
   (\<forall>m \<in> set ms. map_of st' m = Some fresh_model) \<and> (\<forall>m. m \<notin> set ms \<longrightarrow> map_of st' m = map_of st m)"
proof (induction ms arbitrary: st)
  case (Cons m ms)
  then have "platformSSEV2ModelIdentifier m" "m \<notin> fst ` set st"
    and rest: "new_states ms (sm_put m fresh_model st) = Some st'"
    by (auto split: if_splits simp: map_of_eq_None_iff)
  moreover have "sm_ok (sm_put m fresh_model st)" using Cons.prems by simp
  note IH = Cons.IH[OF rest this]
  moreover have "snd ` set st' \<subseteq> insert fresh_model (snd ` set st)"
    using IH sm_values_put[of m fresh_model st] by blast
  ultimately show ?case
    using Cons.prems(2) by auto
qed auto

lemma new_encoder_start:
  assumes "NewPlatformSSEV2Encoder gid ms = Inr e"
  shows "sse_sound e \<and> encModels e = ms \<and> reader_of e = reader_start ms"
proof -
  obtain st where st: "new_states ms [] = Some st" "platformSSEV2CanonicalUUID gid"
    and e: "e = \<lparr>generationID = gid, encModels = ms, encStates = st, metaSent = False, encTerminal = False, encErr = None\<rparr>"
    using assms by (auto simp: NewPlatformSSEV2Encoder_def split: if_splits option.splits)
  note keys = new_states_keys[OF st(1) sm_ok_Nil]
  have "\<forall>m \<in> set ms. utf8_valid m" using keys identifier_valid by (auto simp: list_all_iff)
  moreover have "\<forall>s \<in> snd ` set st. s = fresh_model" using keys by auto
  ultimately have "sse_sound e"
    using keys e canonical_uuid_valid[OF st(2)]
    by (auto simp: sse_sound_def sse_inv_def failed_terminal_def sse_text_ok_def fresh_model_def)
  moreover have "reader_of e = reader_start ms"
    using keys e by (auto simp: reader_of_def reader_start_def fun_eq_iff channel_of_def fresh_model_def)
  ultimately show ?thesis using e by simp
qed

text \<open>Once terminal, an encoder returns nothing more.\<close>

lemma terminal_step: "sse_sound e \<Longrightarrow> encTerminal e \<Longrightarrow> fst (sse_step c e) = None"
proof -
  assume "sse_sound e" "encTerminal e"
  then have "ended (reader_of e)" "sse_outcome (encModels e) c e (sse_step c e)"
    using sse_step_outcome by (auto simp: sse_sound_def reader_of_def)
  then show ?thesis by (cases c) (auto simp: sse_outcome_def split: if_splits)
qed

lemma refused_step: "sse_sound e \<Longrightarrow> fst (sse_step c e) = None \<Longrightarrow> encTerminal (snd (sse_step c e))"
  using sse_step_outcome[of e c] by (simp add: sse_sound_def sse_outcome_def)

lemma sse_run_Cons:
  "sse_step c e = (r, e') \<Longrightarrow> fst (sse_run (c # cs) e) =
     (case r of None \<Rightarrow> fst (sse_run cs e') | Some f \<Rightarrow> (c, f) # fst (sse_run cs e'))"
  by (simp add: split_beta)

lemma sse_emitted_Cons:
  "sse_step c e = (r, e') \<Longrightarrow> sse_emitted (c # cs) e =
     (case r of None \<Rightarrow> sse_emitted cs e' | Some f \<Rightarrow> c # sse_emitted cs e')"
  by (simp add: sse_emitted_def sse_run_Cons split: option.splits del: sse_run.simps)

lemma terminal_run: "sse_sound e \<Longrightarrow> encTerminal e \<Longrightarrow> fst (sse_run cs e) = []"
proof (induction cs arbitrary: e)
  case (Cons c cs)
  obtain r e' where step: "sse_step c e = (r, e')" by (cases "sse_step c e")
  then have "sse_sound e'" "encTerminal e'" "r = None"
    using Cons.prems sse_step_sound[of e c] terminal_step[of e c] refused_step[of e c] by auto
  then show ?case using Cons.IH sse_run_Cons[OF step] by (simp del: sse_run.simps)
qed simp

lemma sse_run_reader:
  "sse_sound e \<Longrightarrow>
   reader_run (encModels e) (sse_emitted cs e) (reader_of e) \<noteq> None"
proof (induction cs arbitrary: e)
  case Nil
  then show ?case by (simp add: sse_emitted_def)
next
  case (Cons c cs)
  obtain r e' where step: "sse_step c e = (r, e')" by (cases "sse_step c e")
  have sound: "sse_sound e'" "encModels e' = encModels e"
    using sse_step_sound[OF Cons.prems, of c] step by auto
  show ?case
  proof (cases r)
    case None
    then have "encTerminal e'" using refused_step[OF Cons.prems, of c] step by simp
    then have "fst (sse_run cs e') = []" using terminal_run sound(1) by blast
    then have "sse_emitted (c # cs) e = []"
      using sse_emitted_Cons[OF step] None by (simp add: sse_emitted_def)
    then show ?thesis by simp
  next
    case (Some f)
    then have "reader_accepts (encModels e) c (reader_of e) \<and> reader_of e' = reader_update c (reader_of e)"
      using sse_step_outcome[of e c] Cons.prems step by (simp add: sse_sound_def sse_outcome_def)
    moreover have "sse_emitted (c # cs) e = c # sse_emitted cs e'"
      using sse_emitted_Cons[OF step] Some by simp
    ultimately show ?thesis using Cons.IH[OF sound(1)] sound(2) by simp
  qed
qed

lemma sse_run_prefix: "sse_sound e \<Longrightarrow> \<exists>k. sse_emitted cs e = take k cs"
proof (induction cs arbitrary: e)
  case Nil
  then show ?case by (simp add: sse_emitted_def)
next
  case (Cons c cs)
  obtain r e' where step: "sse_step c e = (r, e')" by (cases "sse_step c e")
  have sound: "sse_sound e'" using sse_step_sound[OF Cons.prems, of c] step by auto
  show ?case
  proof (cases r)
    case None
    then have "fst (sse_run cs e') = []"
      using terminal_run refused_step[OF Cons.prems, of c] sound step by simp
    then have "sse_emitted (c # cs) e = take 0 (c # cs)"
      using sse_emitted_Cons[OF step] None by (simp add: sse_emitted_def)
    then show ?thesis by blast
  next
    case (Some f)
    obtain k where "sse_emitted cs e' = take k cs" using Cons.IH[OF sound] by blast
    then have "sse_emitted (c # cs) e = take (Suc k) (c # cs)"
      using sse_emitted_Cons[OF step] Some by simp
    then show ?thesis by blast
  qed
qed

lemma sse_fail_gid [simp]: "generationID (snd (sse_fail er e)) = generationID e"
  by (simp add: sse_fail_def)

lemma sse_frame_gid [simp]: "generationID (snd (sse_frame ev v e)) = generationID e"
  by (simp add: sse_frame_def)

lemma sse_step_gid: "generationID (snd (sse_step c e)) = generationID e"
  by (cases c) (auto simp: sse_methods split: sum.splits option.splits)

lemma sse_run_frames:
  "sse_sound e \<Longrightarrow> (c, f) \<in> set (fst (sse_run cs e)) \<Longrightarrow>
   \<exists>e1 e2. sse_sound e1 \<and> generationID e1 = generationID e \<and> sse_step c e1 = (Some f, e2)"
proof (induction cs arbitrary: e)
  case (Cons a cs)
  obtain r e' where step: "sse_step a e = (r, e')" by (cases "sse_step a e")
  show ?case
  proof (cases "r = Some f \<and> a = c")
    case True
    then show ?thesis using step Cons.prems by auto
  next
    case False
    then have "(c, f) \<in> set (fst (sse_run cs e'))"
      using Cons.prems(2) unfolding sse_run_Cons[OF step] by (auto split: option.splits)
    then show ?thesis
      using Cons.IH[of e'] Cons.prems(1) step sse_step_sound[of e a] sse_step_gid[of a e] by auto
  qed
qed simp

lemma sse_frame_length: "sse_frame ev v e = (Some f, e') \<Longrightarrow> length f \<le> platformSSEV2MaxFrameBytes"
  unfolding sse_frame_Some by blast

lemma sse_step_length: "sse_step c e = (Some f, e') \<Longrightarrow> length f \<le> platformSSEV2MaxFrameBytes"
  by (cases c) (auto simp: sse_methods dest: sse_frame_length split: sum.splits option.splits if_splits)

section \<open>Properties\<close>

definition sample_id :: bytes where "sample_id = ''0123abcd-0000-4000-8000-00000000beef''"

definition sample_encoder :: "bytes list \<Rightarrow> sse_encoder" where
  "sample_encoder ms = projr (NewPlatformSSEV2Encoder sample_id ms)"

lemma sample_encoder_new:
  "\<not> isl (NewPlatformSSEV2Encoder sample_id ms) \<Longrightarrow> NewPlatformSSEV2Encoder sample_id ms = Inr (sample_encoder ms)"
  by (simp add: sample_encoder_def sum.expand)

text \<open>C1: Refinement of the stream protocol.  Whatever the calls, the frames a fresh encoder returns
  form a stream that the reader automaton accepts: \<open>meta\<close> first and once, per model the deltas
  1, 2, 3, ... without gap or repetition and then one \<open>model_done\<close> (naming the last sequence number)
  or \<open>model_error\<close>, a \<open>done\<close> only when every model is settled (listing exactly the completed
  models in a comparison), and nothing after \<open>done\<close> or \<open>error\<close>.\<close>

theorem sse_refines_reader:
  assumes "NewPlatformSSEV2Encoder gid ms = Inr e"
  shows "reader_run ms (sse_emitted cs e) (reader_start ms) \<noteq> None"
  using sse_run_reader[of e cs] new_encoder_start[OF assms] by simp

theorem sse_refines_reader_witness:
  "reader_run [''a'', ''b''] (sse_emitted [CMeta ''c'', CDelta ''a'' 1 ''x'', CDelta ''a'' 3 ''y''] (sample_encoder [''a'', ''b'']))
     (reader_start [''a'', ''b'']) \<noteq> None"
  by (rule sse_refines_reader[OF sample_encoder_new]) code_simp

text \<open>Failing is final.  The calls that return a frame are a prefix of the calls made: the first
  refused call ends the stream, and no later call, whatever it is, writes anything.\<close>

theorem sse_emits_prefix:
  assumes "NewPlatformSSEV2Encoder gid ms = Inr e"
  shows "\<exists>k. sse_emitted cs e = take k cs"
  using sse_run_prefix new_encoder_start[OF assms] by blast

theorem sse_emits_prefix_witness:
  "\<exists>k. sse_emitted [CMeta ''c'', CDelta ''a'' 2 ''x'', CDelta ''a'' 1 ''y''] (sample_encoder [''a'']) =
     take k [CMeta ''c'', CDelta ''a'' 2 ''x'', CDelta ''a'' 1 ''y'']"
  by (rule sse_emits_prefix[OF sample_encoder_new]) code_simp

lemma delta_frame:
  assumes "sse_sound e" "sse_Delta m n d e = (Some f, e')"
  shows "f = sse_text ''delta'' (JObj [(''generation_id'', JStr (generationID e)), (''model'', JStr m), (''seq'', JNum (format_int n)),
      (''delta'', JStr d)])" "utf8_valid m" "utf8_valid (generationID e)"
  using assms readyModel_text[of e m]
  by (auto simp: sse_Delta_def sse_frame_Some sse_sound_def sse_text_ok_def jint_def split: sum.splits if_splits)

text \<open>C2: Every frame of a stream is readable, whatever bytes the calls carry: it is at most 2 MiB, and the reader's
  line and JSON parsers recover from it exactly one event, with the name of the call and one JSON value.  From the
  frame of a delta they recover the generation, the model, the sequence number and the text of the delta, byte for byte
  where it is UTF-8 and with U+FFFD for every other byte.\<close>

theorem sse_frames_readable:
  assumes "NewPlatformSSEV2Encoder gid ms = Inr e" "(c, f) \<in> set (fst (sse_run cs e))"
  shows "length f \<le> platformSSEV2MaxFrameBytes \<and>
    (\<exists>v. parse_frame f = Some (event_name c, v) \<and>
       (case c of CDelta m n d \<Rightarrow>
            v = JObj [(''generation_id'', JStr gid), (''model'', JStr m), (''seq'', JNum (format_int n)), (''delta'', JStr (coerced d))]
        | _ \<Rightarrow> True))"
proof -
  have gid: "generationID e = gid"
    using assms(1) by (auto simp: NewPlatformSSEV2Encoder_def split: if_splits option.splits)
  obtain e1 e2 where e1: "sse_sound e1" "generationID e1 = gid" "sse_step c e1 = (Some f, e2)"
    using sse_run_frames[OF _ assms(2)] new_encoder_start[OF assms(1)] gid by blast
  then obtain v where v: "json_lits v" "f = sse_text (event_name c) v"
    using sse_step_payload unfolding sse_sound_def frame_ok_def by blast
  have parsed: "parse_frame f = Some (event_name c, read_back v)"
    using parse_sse_text[OF v(1) event_name_line] v(2) by simp
  have size: "length f \<le> platformSSEV2MaxFrameBytes" by (rule sse_step_length[OF e1(3)])
  show ?thesis
  proof (cases c)
    case (CDelta m n d)
    then have "sse_Delta m n d e1 = (Some f, e2)" using e1(3) by simp
    note f = delta_frame[OF e1(1) this]
    have "parse_frame f = Some (''delta'', JObj [(''generation_id'', JStr gid), (''model'', JStr m), (''seq'', JNum (format_int n)),
        (''delta'', JStr (coerced d))])"
      unfolding f(1) using f(2,3) e1(2) by (subst parse_sse_text) (simp_all add: coerced_valid ascii_def)
    then show ?thesis using size CDelta by simp
  qed (use parsed size in simp_all)
qed

definition sample_delta :: bytes where
  "sample_delta = snd (last (fst (sse_run [CMeta ''c'', CDelta ''a'' 1 [CHR 0x0A, CHR 0xFF]] (sample_encoder [''a'']))))"

theorem sse_frames_readable_witness:
  "parse_frame sample_delta = Some (''delta'', JObj [(''generation_id'', JStr sample_id), (''model'', JStr ''a''),
     (''seq'', JNum (format_int 1)), (''delta'', JStr [CHR 0x0A, CHR 0xEF, CHR 0xBF, CHR 0xBD])])"
proof -
  have "(CDelta ''a'' 1 [CHR 0x0A, CHR 0xFF], sample_delta)
      \<in> set (fst (sse_run [CMeta ''c'', CDelta ''a'' 1 [CHR 0x0A, CHR 0xFF]] (sample_encoder [''a''])))"
    by code_simp
  moreover have "\<not> isl (NewPlatformSSEV2Encoder sample_id [''a''])" by code_simp
  moreover have "coerced [CHR 0x0A, CHR 0xFF] = [CHR 0x0A, CHR 0xEF, CHR 0xBF, CHR 0xBD]" by code_simp
  ultimately show ?thesis using sse_frames_readable[OF sample_encoder_new] by fastforce
qed

end
