(* ===== verification/Base64.thy ===== *)
theory Base64
  imports Go_Text
begin

text \<open>
  \<open>base64.RawURLEncoding\<close> of Go's standard library (no padding, \<open>-\<close> and \<open>_\<close>), with and
  without \<open>Strict()\<close>.  The decoder skips carriage returns and newlines; only the strict one
  insists that the unused trailing bits are zero.
\<close>

definition b64_char :: "nat \<Rightarrow> char" where
  "b64_char n = char_of (if n < 26 then 65 + n else if n < 52 then 71 + n
     else if n < 62 then n - 4 else if n = 62 then 45 else 95)"

definition b64_value :: "char \<Rightarrow> nat option" where
  "b64_value c =
     (let x = byte c in
      if 65 \<le> x \<and> x \<le> 90 then Some (x - 65)
      else if 97 \<le> x \<and> x \<le> 122 then Some (x - 71)
      else if 48 \<le> x \<and> x \<le> 57 then Some (x + 4)
      else if x = 45 then Some 62
      else if x = 95 then Some 63
      else None)"

fun b64_encode :: "bytes \<Rightarrow> bytes" where
  "b64_encode [] = []"
| "b64_encode [a] = [b64_char (byte a div 4), b64_char (byte a mod 4 * 16)]"
| "b64_encode [a, b] =
     [b64_char (byte a div 4), b64_char (byte a mod 4 * 16 + byte b div 16),
      b64_char (byte b mod 16 * 4)]"
| "b64_encode (a # b # c # s) =
     b64_char (byte a div 4) # b64_char (byte a mod 4 * 16 + byte b div 16) #
     b64_char (byte b mod 16 * 4 + byte c div 64) # b64_char (byte c mod 64) # b64_encode s"

fun b64_groups :: "bool \<Rightarrow> nat list \<Rightarrow> bytes option" where
  "b64_groups strict [] = Some []"
| "b64_groups strict [u] = None"
| "b64_groups strict [u, v] =
     (if strict \<and> v mod 16 \<noteq> 0 then None else Some [char_of (u * 4 + v div 16)])"
| "b64_groups strict [u, v, w] =
     (if strict \<and> w mod 4 \<noteq> 0 then None
      else Some [char_of (u * 4 + v div 16), char_of (v mod 16 * 16 + w div 4)])"
| "b64_groups strict (u # v # w # x # s) =
     (case b64_groups strict s of None \<Rightarrow> None
      | Some r \<Rightarrow> Some (char_of (u * 4 + v div 16) # char_of (v mod 16 * 16 + w div 4) #
                        char_of (w mod 4 * 64 + x) # r))"

fun b64_values :: "bytes \<Rightarrow> nat list option" where
  "b64_values [] = Some []"
| "b64_values (c # s) =
     (if c = CHR 0x0A \<or> c = CHR 0x0D then b64_values s
      else case b64_value c of None \<Rightarrow> None | Some v \<Rightarrow> map_option ((#) v) (b64_values s))"

definition b64_decode :: "bool \<Rightarrow> bytes \<Rightarrow> bytes option" where
  "b64_decode strict s = Option.bind (b64_values s) (b64_groups strict)"

section \<open>Encoding and decoding are inverse\<close>

lemma b64_value_char [simp]: "n < 64 \<Longrightarrow> b64_value (b64_char n) = Some n"
  by (auto simp: b64_value_def b64_char_def Let_def)

lemma b64_char_not_newline [simp]:
  assumes "n < 64"
  shows "b64_char n \<noteq> CHR 0x0A" "b64_char n \<noteq> CHR 0x0D"
proof -
  have "b64_value (b64_char n) \<noteq> None" using assms by simp
  moreover have "b64_value (CHR 0x0A) = None" "b64_value (CHR 0x0D) = None"
    by (simp_all add: b64_value_def)
  ultimately show "b64_char n \<noteq> CHR 0x0A" "b64_char n \<noteq> CHR 0x0D" by metis+
qed

lemma b64_char_value: "b64_value c = Some n \<Longrightarrow> b64_char n = c \<and> n < 64"
proof -
  assume "b64_value c = Some n"
  then have "byte (b64_char n) = byte c \<and> n < 64"
    by (auto simp: b64_value_def b64_char_def Let_def split: if_splits)
  then show ?thesis by simp
qed

lemma b64_bytes [simp]:
  "byte a div 4 < 64" "byte a mod 4 * 16 + byte b div 16 < 64"
  "byte b mod 16 * 4 + byte c div 64 < 64" "byte b mod 16 * 4 < 64" "byte a mod 4 * 16 < 64"
proof -
  have ab: "byte a < 256" "byte b < 256" "byte c < 256" by simp_all
  show "byte a div 4 < 64" using ab by linarith
  have "byte b div 16 < 16" using ab by linarith
  moreover have "byte a mod 4 < 4" by simp
  ultimately show "byte a mod 4 * 16 + byte b div 16 < 64" by linarith
  have "byte c div 64 < 4" using ab by linarith
  moreover have m: "byte b mod 16 < 16" by simp
  ultimately show "byte b mod 16 * 4 + byte c div 64 < 64" by linarith
  show "byte b mod 16 * 4 < 64" using m by linarith
  show "byte a mod 4 * 16 < 64" by simp
qed

lemma b64_join:
  "byte a div 4 * 4 + (byte a mod 4 * 16 + byte b div 16) div 16 = byte a"
  "(byte a mod 4 * 16 + byte b div 16) mod 16 * 16 + (byte b mod 16 * 4 + byte c div 64) div 4 = byte b"
  "(byte b mod 16 * 4 + byte c div 64) mod 4 * 64 + byte c mod 64 = byte c"
proof -
  have b: "byte b div 16 < 16" and c: "byte c div 64 < 4"
    using byte_less_256 [of b] byte_less_256 [of c] by linarith+
  show "byte a div 4 * 4 + (byte a mod 4 * 16 + byte b div 16) div 16 = byte a"
    using b by simp
  show "(byte a mod 4 * 16 + byte b div 16) mod 16 * 16 + (byte b mod 16 * 4 + byte c div 64) div 4 = byte b"
    using b c by simp
  show "(byte b mod 16 * 4 + byte c div 64) mod 4 * 64 + byte c mod 64 = byte c"
    using c by simp
qed

lemma b64_tail:
  "byte a div 4 * 4 + byte a mod 4 * 16 div 16 = byte a"
  "(byte a mod 4 * 16 + byte b div 16) mod 16 * 16 + byte b mod 16 * 4 div 4 = byte b"
  using byte_less_256 [of b] by (simp_all add: less_mult_imp_div_less)

theorem b64_decode_encode: "b64_decode strict (b64_encode s) = Some s"
proof -
  have "\<exists>vs. b64_values (b64_encode s) = Some vs \<and> b64_groups strict vs = Some s"
  proof (induction s rule: b64_encode.induct)
    case (3 a b)
    then show ?case using b64_join(1) [of a b] b64_tail(2) [of a b] by simp
  next
    case (4 a b c s)
    then obtain vs where "b64_values (b64_encode s) = Some vs" "b64_groups strict vs = Some s" by auto
    then show ?case using b64_join(1) [of a b] b64_join(2) [of a b c] b64_join(3) [of b c] by simp
  qed (simp_all add: b64_tail)
  then show ?thesis by (auto simp: b64_decode_def)
qed

lemma length_b64_encode:
  "length (b64_encode s) = 4 * (length s div 3) + (if length s mod 3 = 0 then 0 else length s mod 3 + 1)"
proof (induction s rule: b64_encode.induct)
  case (4 a b c s)
  have "length (a # b # c # s) div 3 = Suc (length s div 3)"
    "length (a # b # c # s) mod 3 = length s mod 3" by simp_all
  then show ?case using 4 by simp
qed simp_all

text \<open>A string without line breaks that the strict decoder accepts is the encoding of the result:
  the external form of a value is unique.\<close>

lemma b64_values_bound: "b64_values s = Some vs \<Longrightarrow> v \<in> set vs \<Longrightarrow> v < 64"
  by (induction s arbitrary: vs)
    (auto split: if_splits option.splits dest: b64_char_value)

lemma b64_values_chars:
  "b64_values s = Some vs \<Longrightarrow> length vs = length s \<Longrightarrow> map b64_char vs = s"
proof (induction s arbitrary: vs)
  case (Cons c s)
  have len: "b64_values t = Some us \<Longrightarrow> length us \<le> length t" for t us
    by (induction t arbitrary: us) (fastforce split: if_splits option.splits)+
  show ?case using Cons len [of s]
    by (fastforce split: if_splits option.splits dest: b64_char_value)
qed simp

lemma b64_groups_encode:
  "b64_groups True vs = Some r \<Longrightarrow> \<forall>v \<in> set vs. v < 64 \<Longrightarrow> b64_encode r = map b64_char vs"
proof (induction "True" vs arbitrary: r rule: b64_groups.induct)
  case (3 u v)
  then have "u * 4 + v div 16 < 256" by auto
  then show ?case using 3 by (auto split: if_splits)
next
  case (4 u v w)
  then have "u * 4 + v div 16 < 256" "v mod 16 * 16 + w div 4 < 256" by auto
  then show ?case using 4 by (auto split: if_splits)
next
  case (5 u v w x s)
  then obtain r' where r': "b64_groups True s = Some r'"
    "r = char_of (u * 4 + v div 16) # char_of (v mod 16 * 16 + w div 4) # char_of (w mod 4 * 64 + x) # r'"
    by (auto split: option.splits)
  have "u * 4 + v div 16 < 256" "v mod 16 * 16 + w div 4 < 256" "w mod 4 * 64 + x < 256"
    using 5(3) by auto
  moreover have "b64_encode r' = map b64_char s" using 5 r' by simp
  moreover have "x < 64" "v < 64" "w < 64" using 5(3) by auto
  ultimately show ?case using r' by simp
qed auto

end
