(* ===== verification/Sha256.thy ===== *)
theory Sha256
  imports Go_Text "HOL-Library.Word"
begin

text \<open>
  SHA-256 as \<open>crypto/sha256\<close> computes it (FIPS 180-4), on 32-bit words: padding, message schedule
  and compression.  The generation leases and the action-security digests use it.
\<close>

unbundle bit_operations_syntax

type_synonym w32 = "32 word"

text \<open>
  The round constants are the first 32 bits of the fractional parts of the cube roots of the first 64
  primes, the initial state those of the square roots of the first eight: \<open>root_bits e p\<close> is the integer
  part of \<open>2 ^ 32\<close> times the \<open>e\<close>-th root of \<open>p\<close>, built bit by bit.
\<close>

fun root_from :: "nat \<Rightarrow> nat \<Rightarrow> int \<Rightarrow> int \<Rightarrow> int" where
  "root_from 0 e x r = r"
| "root_from (Suc i) e x r = root_from i e x (if (r + 2 ^ i) ^ e \<le> x then r + 2 ^ i else r)"

definition root_bits :: "nat \<Rightarrow> int \<Rightarrow> w32" where
  "root_bits e p = word_of_int (root_from 40 e (p * 2 ^ (32 * e)) 0)"

definition sha_primes :: "int list" where
  "sha_primes =
    [2, 3, 5, 7, 11, 13, 17, 19, 23, 29, 31, 37, 41, 43, 47, 53,
     59, 61, 67, 71, 73, 79, 83, 89, 97, 101, 103, 107, 109, 113, 127, 131,
     137, 139, 149, 151, 157, 163, 167, 173, 179, 181, 191, 193, 197, 199, 211, 223,
     227, 229, 233, 239, 241, 251, 257, 263, 269, 271, 277, 281, 283, 293, 307, 311]"

definition sha_k :: "w32 list" where
  "sha_k = map (root_bits 3) sha_primes"

datatype sha_state = ShaState w32 w32 w32 w32 w32 w32 w32 w32

definition sha_init :: sha_state where
  "sha_init =
     ShaState (root_bits 2 2) (root_bits 2 3) (root_bits 2 5) (root_bits 2 7) (root_bits 2 11) (root_bits 2 13) (root_bits 2 17)
       (root_bits 2 19)"

definition rotr :: "nat \<Rightarrow> w32 \<Rightarrow> w32" where
  "rotr n x = (drop_bit n x OR push_bit (32 - n) x)"

definition big_endian :: "nat \<Rightarrow> nat \<Rightarrow> bytes" where
  "big_endian k n = map (\<lambda>i. char_of (n div 256 ^ (k - 1 - i) mod 256)) [0..<k]"

fun words_of :: "bytes \<Rightarrow> w32 list" where
  "words_of (a # b # c # d # s) =
     of_nat (((byte a * 256 + byte b) * 256 + byte c) * 256 + byte d) # words_of s"
| "words_of _ = []"

definition sha_pad :: "bytes \<Rightarrow> bytes" where
  "sha_pad s = s @ CHR 0x80 # replicate ((119 - length s mod 64) mod 64) CHR 0x00 @ big_endian 8 (8 * length s)"

text \<open>The schedule is built in reverse, newest word first.\<close>

definition schedule_next :: "w32 list \<Rightarrow> w32" where
  "schedule_next w =
     (let x = w ! 1; y = w ! 14;
          s1 = (rotr 17 x XOR rotr 19 x XOR drop_bit 10 x);
          s0 = (rotr 7 y XOR rotr 18 y XOR drop_bit 3 y)
      in s1 + w ! 6 + s0 + w ! 15)"

fun schedule :: "nat \<Rightarrow> w32 list \<Rightarrow> w32 list" where
  "schedule 0 w = w"
| "schedule (Suc n) w = schedule n (schedule_next w # w)"

fun sha_round :: "w32 \<times> w32 \<Rightarrow> sha_state \<Rightarrow> sha_state" where
  "sha_round (k, w) (ShaState a b c d e f g h) =
     (let t1 = h + (rotr 6 e XOR rotr 11 e XOR rotr 25 e) + ((e AND f) XOR (NOT e AND g)) + k + w;
          t2 = (rotr 2 a XOR rotr 13 a XOR rotr 22 a) + ((a AND b) XOR (a AND c) XOR (b AND c))
      in ShaState (t1 + t2) a b c (d + t1) e f g)"

fun sha_add :: "sha_state \<Rightarrow> sha_state \<Rightarrow> sha_state" where
  "sha_add (ShaState a b c d e f g h) (ShaState a' b' c' d' e' f' g' h') =
     ShaState (a + a') (b + b') (c + c') (d + d') (e + e') (f + f') (g + g') (h + h')"

definition sha_block :: "w32 list \<Rightarrow> sha_state \<Rightarrow> sha_state" where
  "sha_block blk st = sha_add st (fold sha_round (zip sha_k (rev (schedule 48 (rev blk)))) st)"

function sha_blocks :: "w32 list \<Rightarrow> sha_state \<Rightarrow> sha_state" where
  "sha_blocks ws st = (if length ws < 16 then st else sha_blocks (drop 16 ws) (sha_block (take 16 ws) st))"
  by pat_completeness auto
termination
  by (relation "measure (\<lambda>(ws, st). length ws)") auto

declare sha_blocks.simps [simp del]

fun sha_bytes :: "sha_state \<Rightarrow> bytes" where
  "sha_bytes (ShaState a b c d e f g h) =
     concat (map (\<lambda>w. big_endian 4 (unat w)) [a, b, c, d, e, f, g, h])"

definition sha256 :: "bytes \<Rightarrow> bytes" where
  "sha256 s = sha_bytes (sha_blocks (words_of (sha_pad s)) sha_init)"


text \<open>The first and the last round constant and the first initial word, as the standard prints them.\<close>

lemma sha_constants:
  "root_from 40 3 (2 * 2 ^ 96) 0 mod 2 ^ 32 = 0x428a2f98" "root_from 40 3 (311 * 2 ^ 96) 0 mod 2 ^ 32 = 0xc67178f2"
  "root_from 40 2 (2 * 2 ^ 64) 0 mod 2 ^ 32 = 0x6a09e667" "length sha_primes = 64"
  by code_simp+

lemma length_big_endian [simp]: "length (big_endian k n) = k"
  by (simp add: big_endian_def)

lemma length_sha256 [simp]: "length (sha256 s) = 32"
  by (cases "sha_blocks (words_of (sha_pad s)) sha_init") (simp add: sha256_def)

end
