(* ===== verification/Generation_Record.thy ===== *)
theory Generation_Record
  imports Platform_Text Base64 Sha256
begin

text \<open>
  The lifecycle record of a chat generation (\<open>platform_generation_store.go\<close>): its fields, the
  closed sets of states and modes, and the validity predicate that every record written to or read
  from Redis satisfies.  A Go slice or map that may be nil is an option; the map from model to
  model state is a key-sorted association list.
\<close>

section \<open>Types\<close>

abbreviation PlatformGenerationModeSingle :: int where "PlatformGenerationModeSingle \<equiv> 1"
abbreviation PlatformGenerationModeCompare :: int where "PlatformGenerationModeCompare \<equiv> 2"

abbreviation Running :: int where "Running \<equiv> 1"
abbreviation Cancelling :: int where "Cancelling \<equiv> 2"
abbreviation Cancelled :: int where "Cancelled \<equiv> 3"
abbreviation Committing :: int where "Committing \<equiv> 4"
abbreviation Completed :: int where "Completed \<equiv> 5"
abbreviation Failed :: int where "Failed \<equiv> 6"

datatype gen_error = GInvalid | GConflict | GNotFound | GUnavailable | GReadFailed | GTransitionFailed

record gen_model =
  mSeq :: int
  mState :: int
  mError :: bytes
  mGUID :: bytes

record snapshot =
  gID :: bytes
  gMode :: int
  gModels :: "bytes list option"
  gState :: int
  gModelStates :: "(bytes \<times> gen_model) list option"
  gCreated :: int
  gUpdated :: int
  gError :: bytes
  gLeaseOwner :: bytes
  gLeaseUntil :: int

record claim_input =
  inUser :: int
  inID :: bytes
  inMode :: int
  inModels :: "bytes list"
  inNow :: int

definition zero_model :: gen_model where
  "zero_model = \<lparr>mSeq = 0, mState = 0, mError = [], mGUID = []\<rparr>"

definition zero_snapshot :: snapshot where
  "zero_snapshot = \<lparr>gID = [], gMode = 0, gModels = None, gState = 0, gModelStates = None, gCreated = 0,
     gUpdated = 0, gError = [], gLeaseOwner = [], gLeaseUntil = 0\<rparr>"

definition platformGenerationTTL :: int where "platformGenerationTTL = 86400000"
definition platformGenerationMaxRecordBytes :: nat where "platformGenerationMaxRecordBytes = 32768"
definition platformGenerationConvergenceWindow :: int where "platformGenerationConvergenceWindow = 30000"
definition platformGenerationLeaseDuration :: int where "platformGenerationLeaseDuration = 30000"
definition platformGenerationLeaseBytes :: nat where "platformGenerationLeaseBytes = 32"

definition nil_list :: "'a list option \<Rightarrow> 'a list" where
  "nil_list xs = (case xs of None \<Rightarrow> [] | Some l \<Rightarrow> l)"

abbreviation models_of :: "snapshot \<Rightarrow> bytes list" where "models_of s \<equiv> nil_list (gModels s)"
abbreviation states_of :: "snapshot \<Rightarrow> (bytes \<times> gen_model) list" where "states_of s \<equiv> nil_list (gModelStates s)"

lemma nil_list_simps [simp]: "nil_list None = []" "nil_list (Some l) = l"
  by (simp_all add: nil_list_def)

text \<open>\<open>snapshot.ModelStates[model]\<close> without the comma-ok form: the zero value when absent.\<close>

definition state_at :: "snapshot \<Rightarrow> bytes \<Rightarrow> gen_model" where
  "state_at s m = (case map_of (states_of s) m of None \<Rightarrow> zero_model | Some x \<Rightarrow> x)"

definition put_state :: "bytes \<Rightarrow> gen_model \<Rightarrow> snapshot \<Rightarrow> snapshot" where
  "put_state m x s = s\<lparr>gModelStates := Some (sm_put m x (states_of s))\<rparr>"

section \<open>Validity\<close>

definition validatePlatformGenerationIdentity :: "int \<Rightarrow> bytes \<Rightarrow> bool" where
  "validatePlatformGenerationIdentity uid gid \<longleftrightarrow> 0 < uid \<and> platformSSEV2CanonicalUUID gid"

definition validatePlatformGenerationInput :: "claim_input \<Rightarrow> bool" where
  "validatePlatformGenerationInput i \<longleftrightarrow>
     validatePlatformGenerationIdentity (inUser i) (inID i) \<and> platformSSEV2SafeInteger (inNow i) \<and>
     inModels i \<noteq> [] \<and> length (inModels i) \<le> platformSSEV2MaxModels \<and>
     \<not> (inMode i = PlatformGenerationModeSingle \<and> length (inModels i) \<noteq> 1) \<and>
     \<not> (inMode i = PlatformGenerationModeCompare \<and> length (inModels i) < 2) \<and>
     (inMode i = PlatformGenerationModeSingle \<or> inMode i = PlatformGenerationModeCompare) \<and>
     list_all platformSSEV2ModelIdentifier (inModels i) \<and> \<not> has_duplicate [] (inModels i)"

definition platformGenerationMessageGUID :: "bytes \<Rightarrow> bool" where
  "platformGenerationMessageGUID v =
     (case parse_int64 v of None \<Rightarrow> False | Some g \<Rightarrow> 0 < g \<and> format_int g = v)"

definition validPlatformGenerationLeaseDigest :: "bytes \<Rightarrow> bool" where
  "validPlatformGenerationLeaseDigest v \<longleftrightarrow> length v = 64 \<and> list_all is_lower_hex v"

definition validPlatformGenerationLease :: "snapshot \<Rightarrow> bool" where
  "validPlatformGenerationLease s \<longleftrightarrow>
     (if gState s = Running then
        validPlatformGenerationLeaseDigest (gLeaseOwner s) \<and> platformSSEV2SafeInteger (gLeaseUntil s) \<and> 0 < gLeaseUntil s
      else if gState s = Cancelling then
        validPlatformGenerationLeaseDigest (gLeaseOwner s) \<and> gLeaseUntil s = 0
      else gLeaseOwner s = [] \<and> gLeaseUntil s = 0)"

definition validPlatformGenerationTombstone :: "snapshot \<Rightarrow> bool" where
  "validPlatformGenerationTombstone s \<longleftrightarrow>
     gModels s = Some [] \<and> gModelStates s = Some [] \<and> gError s = [] \<and> gLeaseOwner s = [] \<and>
     gLeaseUntil s = 0 \<and> platformSSEV2CanonicalUUID (gID s) \<and> 0 < gCreated s \<and>
     platformSSEV2SafeInteger (gCreated s) \<and> gUpdated s = gCreated s"

text \<open>The body of the loop over the models in \<open>validPlatformGenerationSnapshot\<close>.\<close>

definition valid_model_state :: "snapshot \<Rightarrow> gen_model \<Rightarrow> bool" where
  "valid_model_state s x \<longleftrightarrow>
     platformSSEV2SafeInteger (mSeq x) \<and>
     (if mState x = Running then mError x = [] \<and> mGUID x = []
      else if mState x = Completed then
        mError x = [] \<and>
        (if gState s = Completed then platformGenerationMessageGUID (mGUID x) else mGUID x = [])
      else if mState x = Failed then platformGenerationStableCode (mError x) \<and> mGUID x = []
      else if mState x = Cancelled then mError x = [] \<and> mGUID x = []
      else False)"

definition valid_model_entry :: "snapshot \<Rightarrow> bytes \<Rightarrow> bool" where
  "valid_model_entry s m =
     (case map_of (states_of s) m of None \<Rightarrow> False | Some x \<Rightarrow> valid_model_state s x)"

definition terminalModels :: "snapshot \<Rightarrow> nat" where
  "terminalModels s = length (filter (\<lambda>m. mState (state_at s m) \<in> {Completed, Failed, Cancelled}) (models_of s))"

definition successfulModels :: "snapshot \<Rightarrow> nat" where
  "successfulModels s = length (filter (\<lambda>m. mState (state_at s m) = Completed) (models_of s))"

definition snapshot_input :: "snapshot \<Rightarrow> claim_input" where
  "snapshot_input s = \<lparr>inUser = 1, inID = gID s, inMode = gMode s, inModels = models_of s, inNow = gCreated s\<rparr>"

definition validPlatformGenerationSnapshot :: "snapshot \<Rightarrow> bool" where
  "validPlatformGenerationSnapshot s \<longleftrightarrow>
     (if gState s = Cancelled \<and> gMode s = 0 then validPlatformGenerationTombstone s
      else validatePlatformGenerationInput (snapshot_input s) \<and> platformSSEV2SafeInteger (gUpdated s) \<and>
        gCreated s \<le> gUpdated s \<and> length (states_of s) = length (models_of s) \<and>
        validPlatformGenerationLease s \<and> Running \<le> gState s \<and> gState s \<le> Failed \<and>
        (if gState s = Failed then platformGenerationStableCode (gError s) else gError s = []) \<and>
        list_all (valid_model_entry s) (models_of s) \<and>
        (if gState s = Committing \<or> gState s = Completed
         then terminalModels s = length (models_of s) \<and> 0 < successfulModels s
         else if gState s = Cancelled \<or> gState s = Failed then terminalModels s = length (models_of s)
         else True))"

text \<open>The validator of a Go value also relies on the map being a map.\<close>

definition snapshot_wf :: "snapshot \<Rightarrow> bool" where
  "snapshot_wf s \<longleftrightarrow> sm_ok (states_of s)"

section \<open>Copies and leases\<close>

definition clonePlatformGeneration :: "snapshot \<Rightarrow> snapshot" where
  "clonePlatformGeneration s =
     s\<lparr>gModels := (if models_of s = [] then None else Some (models_of s)), gModelStates := Some (states_of s)\<rparr>"

definition platformGenerationLeaseDigest :: "bytes \<Rightarrow> bytes" where
  "platformGenerationLeaseDigest token = hex_encode (sha256 token)"

text \<open>\<open>newPlatformGenerationLeaseFrom\<close> on the bytes the reader delivers (fewer than 32 is a read error).\<close>

definition newPlatformGenerationLeaseFrom :: "bytes \<Rightarrow> gen_error + (bytes \<times> bytes)" where
  "newPlatformGenerationLeaseFrom stream =
     (if length stream < platformGenerationLeaseBytes then Inl GUnavailable
      else let token = b64_encode (take platformGenerationLeaseBytes stream)
           in Inr (token, platformGenerationLeaseDigest token))"

definition validPlatformGenerationLeaseToken :: "bytes \<Rightarrow> bool" where
  "validPlatformGenerationLeaseToken token =
     (case b64_decode False token of
        None \<Rightarrow> False
      | Some raw \<Rightarrow> length raw = platformGenerationLeaseBytes \<and> b64_encode raw = token)"

definition platformGenerationLeaseMatches :: "snapshot \<Rightarrow> bytes \<Rightarrow> bool" where
  "platformGenerationLeaseMatches s digest \<longleftrightarrow>
     length (gLeaseOwner s) = 64 \<and> length digest = 64 \<and> gLeaseOwner s = digest"

definition platformGenerationRunningLeaseAuthorized :: "snapshot \<Rightarrow> bytes \<Rightarrow> int \<Rightarrow> bool" where
  "platformGenerationRunningLeaseAuthorized s digest now \<longleftrightarrow>
     gState s = Running \<and> platformGenerationLeaseMatches s digest \<and> now < gLeaseUntil s"

definition platformGenerationOwnedMutationAuthorized :: "snapshot \<Rightarrow> bytes \<Rightarrow> int \<Rightarrow> bool" where
  "platformGenerationOwnedMutationAuthorized s digest now =
     (if gState s = Running then platformGenerationRunningLeaseAuthorized s digest now
      else platformGenerationLeaseMatches s digest)"

definition platformGenerationLatestRunningActivity :: "snapshot \<Rightarrow> int" where
  "platformGenerationLatestRunningActivity s =
     (if gLeaseUntil s \<noteq> 0 \<and> gUpdated s < gLeaseUntil s - platformGenerationLeaseDuration
      then gLeaseUntil s - platformGenerationLeaseDuration else gUpdated s)"

section \<open>Facts about valid records\<close>

lemma valid_tombstoneD:
  "validPlatformGenerationSnapshot s \<Longrightarrow> gMode s = 0 \<Longrightarrow> gState s = Cancelled \<and> validPlatformGenerationTombstone s"
  by (auto simp: validPlatformGenerationSnapshot_def validatePlatformGenerationInput_def snapshot_input_def
      split: if_splits)

lemma valid_snapshot_cases:
  assumes "validPlatformGenerationSnapshot s"
  obtains (tombstone) "gState s = Cancelled" "gMode s = 0" "validPlatformGenerationTombstone s"
  | (live) "gMode s \<noteq> 0" "validatePlatformGenerationInput (snapshot_input s)" "platformSSEV2SafeInteger (gUpdated s)"
      "gCreated s \<le> gUpdated s" "length (states_of s) = length (models_of s)" "validPlatformGenerationLease s"
      "1 \<le> gState s" "gState s \<le> 6"
      "if gState s = Failed then platformGenerationStableCode (gError s) else gError s = []"
      "list_all (valid_model_entry s) (models_of s)"
proof (cases "gState s = Cancelled \<and> gMode s = 0")
  case True
  then show thesis using tombstone assms by (simp add: validPlatformGenerationSnapshot_def)
next
  case False
  then have "gMode s \<noteq> 0"
    using assms by (auto simp: validPlatformGenerationSnapshot_def validatePlatformGenerationInput_def snapshot_input_def)
  then show thesis using assms by (intro live) (simp_all add: validPlatformGenerationSnapshot_def)
qed

lemma valid_snapshot_models:
  assumes "validPlatformGenerationSnapshot s" "snapshot_wf s"
  shows "fst ` set (states_of s) = set (models_of s)"
    and "\<forall>x \<in> snd ` set (states_of s). valid_model_state s x"
    and "\<forall>m \<in> set (models_of s). platformSSEV2ModelIdentifier m"
proof -
  have *: "fst ` set (states_of s) = set (models_of s) \<and> (\<forall>x \<in> snd ` set (states_of s). valid_model_state s x)
      \<and> (\<forall>m \<in> set (models_of s). platformSSEV2ModelIdentifier m)"
  proof (cases "gState s = Cancelled \<and> gMode s = 0")
    case True
    then show ?thesis using assms(1) by (simp add: validPlatformGenerationSnapshot_def validPlatformGenerationTombstone_def)
  next
    case False
    then have v: "distinct (models_of s)" "list_all platformSSEV2ModelIdentifier (models_of s)"
      "length (states_of s) = length (models_of s)" "list_all (valid_model_entry s) (models_of s)"
      using assms(1) by (auto simp: validPlatformGenerationSnapshot_def validatePlatformGenerationInput_def snapshot_input_def)
    have d: "distinct (map fst (states_of s))" using assms(2) by (simp add: snapshot_wf_def sm_ok_distinct)
    have sub: "set (models_of s) \<subseteq> fst ` set (states_of s)"
      using v(4) by (auto simp: list_all_iff valid_model_entry_def split: option.splits
          dest!: map_of_SomeD bspec intro: rev_image_eqI)
    have "card (fst ` set (states_of s)) = card (set (models_of s))"
      using v(1,3) distinct_card[OF d] by (simp add: distinct_card)
    then have keys: "fst ` set (states_of s) = set (models_of s)"
      using card_subset_eq[OF _ sub] by simp
    have "valid_model_state s x" if "(k, x) \<in> set (states_of s)" for k x
    proof -
      have "map_of (states_of s) k = Some x" "k \<in> set (models_of s)"
        using that d keys by force+
      then show ?thesis using v(4) by (auto simp: list_all_iff valid_model_entry_def)
    qed
    then show ?thesis using keys v(2) by (auto simp: list_all_iff)
  qed
  show "fst ` set (states_of s) = set (models_of s)" "\<forall>x \<in> snd ` set (states_of s). valid_model_state s x"
    "\<forall>m \<in> set (models_of s). platformSSEV2ModelIdentifier m"
    using * by blast+
qed

lemma message_guid_text: "platformGenerationMessageGUID v \<Longrightarrow> utf8_valid v"
  by (auto simp: platformGenerationMessageGUID_def split: option.splits)
    (metis format_int_ascii utf8_valid_ascii)

lemma stable_code_text: "platformGenerationStableCode c \<Longrightarrow> utf8_valid c"
  by (simp add: stable_code_ascii utf8_valid_ascii)

lemma digest_text: "validPlatformGenerationLeaseDigest d \<Longrightarrow> utf8_valid d"
  by (rule utf8_valid_ascii)
    (auto simp: validPlatformGenerationLeaseDigest_def list_all_iff ascii_def is_lower_hex_def is_digit_def)

lemma valid_model_state_text: "valid_model_state s x \<Longrightarrow> utf8_valid (mError x) \<and> utf8_valid (mGUID x)"
  by (auto simp: valid_model_state_def message_guid_text stable_code_text split: if_splits)

lemma valid_snapshot_text:
  assumes "validPlatformGenerationSnapshot s" "snapshot_wf s"
  shows "utf8_valid (gID s)" "utf8_valid (gError s)" "utf8_valid (gLeaseOwner s)"
    "\<forall>m \<in> set (models_of s). utf8_valid m"
    "\<forall>(k, x) \<in> set (states_of s). utf8_valid k \<and> utf8_valid (mError x) \<and> utf8_valid (mGUID x)"
proof -
  note m = valid_snapshot_models[OF assms]
  show keys: "\<forall>m \<in> set (models_of s). utf8_valid m" using m(3) identifier_valid by blast
  have "utf8_valid k \<and> utf8_valid (mError x) \<and> utf8_valid (mGUID x)" if "(k, x) \<in> set (states_of s)" for k x
  proof -
    have "k \<in> fst ` set (states_of s)" "x \<in> snd ` set (states_of s)" using that by force+
    then show ?thesis using keys m(1,2) valid_model_state_text by blast
  qed
  then show "\<forall>(k, x) \<in> set (states_of s). utf8_valid k \<and> utf8_valid (mError x) \<and> utf8_valid (mGUID x)"
    by blast
  have "platformSSEV2CanonicalUUID (gID s) \<and> (gError s = [] \<or> platformGenerationStableCode (gError s)) \<and>
    (gLeaseOwner s = [] \<or> validPlatformGenerationLeaseDigest (gLeaseOwner s))"
    using assms(1)
  proof (cases rule: valid_snapshot_cases)
    case tombstone
    then show ?thesis by (simp add: validPlatformGenerationTombstone_def)
  next
    case live
    then show ?thesis
      by (simp add: validatePlatformGenerationInput_def validatePlatformGenerationIdentity_def snapshot_input_def
          validPlatformGenerationLease_def split: if_splits)
  qed
  then show "utf8_valid (gID s)" "utf8_valid (gError s)" "utf8_valid (gLeaseOwner s)"
    using canonical_uuid_valid stable_code_text digest_text by auto
qed

text \<open>Every integer of a valid record fits 64 bits.\<close>

lemma valid_snapshot_ints:
  assumes "validPlatformGenerationSnapshot s"
  shows "platformSSEV2SafeInteger (gCreated s)" "platformSSEV2SafeInteger (gUpdated s)"
    "platformSSEV2SafeInteger (gLeaseUntil s)" "1 \<le> gState s \<and> gState s \<le> 6" "0 \<le> gMode s \<and> gMode s \<le> 2"
proof -
  have zero: "platformSSEV2SafeInteger 0" by (simp add: platformSSEV2SafeInteger_def platformSSEV2MaxSafeInteger_def)
  have "platformSSEV2SafeInteger (gCreated s) \<and> platformSSEV2SafeInteger (gUpdated s) \<and>
    platformSSEV2SafeInteger (gLeaseUntil s) \<and> (1 \<le> gState s \<and> gState s \<le> 6) \<and> (0 \<le> gMode s \<and> gMode s \<le> 2)"
    using assms
  proof (cases rule: valid_snapshot_cases)
    case tombstone
    then show ?thesis using zero by (simp add: validPlatformGenerationTombstone_def)
  next
    case live
    then show ?thesis using zero
      by (auto simp: validatePlatformGenerationInput_def snapshot_input_def validPlatformGenerationLease_def split: if_splits)
  qed
  then show "platformSSEV2SafeInteger (gCreated s)" "platformSSEV2SafeInteger (gUpdated s)"
    "platformSSEV2SafeInteger (gLeaseUntil s)" "1 \<le> gState s \<and> gState s \<le> 6" "0 \<le> gMode s \<and> gMode s \<le> 2"
    by blast+
qed

lemma lease_digest_valid: "validPlatformGenerationLeaseDigest (platformGenerationLeaseDigest t)"
  by (auto simp: validPlatformGenerationLeaseDigest_def platformGenerationLeaseDigest_def list_all_iff
      dest: hex_encode_lower)

lemma new_lease_token_valid:
  "newPlatformGenerationLeaseFrom stream = Inr (token, digest) \<Longrightarrow>
   validPlatformGenerationLeaseToken token \<and> digest = platformGenerationLeaseDigest token"
  by (auto simp: newPlatformGenerationLeaseFrom_def validPlatformGenerationLeaseToken_def Let_def
      b64_decode_encode split: if_splits)

lemma clone_simps [simp]:
  "gState (clonePlatformGeneration s) = gState s" "gID (clonePlatformGeneration s) = gID s"
  "gMode (clonePlatformGeneration s) = gMode s" "gCreated (clonePlatformGeneration s) = gCreated s"
  "gUpdated (clonePlatformGeneration s) = gUpdated s" "gError (clonePlatformGeneration s) = gError s"
  "gLeaseOwner (clonePlatformGeneration s) = gLeaseOwner s" "gLeaseUntil (clonePlatformGeneration s) = gLeaseUntil s"
  "models_of (clonePlatformGeneration s) = models_of s" "states_of (clonePlatformGeneration s) = states_of s"
  by (simp_all add: clonePlatformGeneration_def)

end
