(* ===== verification/Generation_Codec.thy ===== *)
theory Generation_Codec
  imports Generation_Record Json_Roundtrip
begin

text \<open>
  \<open>encodePlatformGeneration\<close> and \<open>decodePlatformGeneration\<close>.  The encoder is \<open>json.Marshal\<close> of the
  struct with its tags; the decoder is the duplicate-member walk, the strict struct decoding of
  \<open>encoding/json\<close> (exact member names first, then case folding; null leaves a scalar alone), the
  wire-presence check and the validity check.
\<close>

section \<open>Writing\<close>

definition member :: "bytes \<Rightarrow> json \<Rightarrow> (bytes \<times> json) list" where
  "member k v = [(k, v)]"

definition omit_string :: "bytes \<Rightarrow> bytes \<Rightarrow> (bytes \<times> json) list" where
  "omit_string k v = (if v = [] then [] else [(k, JStr v)])"

definition omit_int :: "bytes \<Rightarrow> int \<Rightarrow> (bytes \<times> json) list" where
  "omit_int k i = (if i = 0 then [] else [(k, JNum (format_int i))])"

definition json_of_model :: "gen_model \<Rightarrow> json" where
  "json_of_model x =
     JObj (member ''seq'' (JNum (format_int (mSeq x))) @ member ''state'' (JNum (format_int (mState x))) @
           omit_string ''error_code'' (mError x) @ omit_string ''assistant_message_guid'' (mGUID x))"

definition json_of_snapshot :: "snapshot \<Rightarrow> json" where
  "json_of_snapshot s =
     JObj (member ''generation_id'' (JStr (gID s)) @ omit_int ''mode'' (gMode s) @
           member ''models'' (case gModels s of None \<Rightarrow> JNull | Some ms \<Rightarrow> JArr (map JStr ms)) @
           member ''state'' (JNum (format_int (gState s))) @
           member ''model_states'' (case gModelStates s of None \<Rightarrow> JNull | Some st \<Rightarrow> JObj (sm_map json_of_model st)) @
           member ''created_at_ms'' (JNum (format_int (gCreated s))) @
           member ''updated_at_ms'' (JNum (format_int (gUpdated s))) @
           omit_string ''error_code'' (gError s) @ omit_string ''lease_owner_sha256'' (gLeaseOwner s) @
           omit_int ''lease_until_ms'' (gLeaseUntil s))"

definition encodePlatformGeneration :: "snapshot \<Rightarrow> bytes option" where
  "encodePlatformGeneration s =
     (if \<not> validPlatformGenerationSnapshot s then None
      else if platformGenerationMaxRecordBytes < length (render (json_of_snapshot s)) then None
      else Some (render (json_of_snapshot s)))"

section \<open>Duplicate members\<close>

fun members_distinct :: "json \<Rightarrow> bool" where
  "members_distinct (JArr vs) = list_all members_distinct vs"
| "members_distinct (JObj ms) = (\<not> has_duplicate [] (map fst ms) \<and> list_all (\<lambda>(k, v). members_distinct v) ms)"
| "members_distinct _ = True"

section \<open>Strict struct decoding\<close>

definition fold_char :: "char \<Rightarrow> char" where
  "fold_char c = (if 97 \<le> byte c \<and> byte c \<le> 122 then char_of (byte c - 32) else c)"

text \<open>
  \<open>foldName\<close> as far as ASCII member names can tell: ASCII letters in upper case, the two runes whose
  fold set reaches ASCII (the long s and the Kelvin sign) to S and K, other bytes unchanged.
\<close>

fun fold_name :: "bytes \<Rightarrow> bytes" where
  "fold_name [] = []"
| "fold_name (a # s) =
     (case s of
        b # t \<Rightarrow>
          if a = CHR 0xC5 \<and> b = CHR 0xBF then CHR ''S'' # fold_name t
          else (case t of
                  c # u \<Rightarrow> if a = CHR 0xE2 \<and> b = CHR 0x84 \<and> c = CHR 0xAA then CHR ''K'' # fold_name u
                          else fold_char a # fold_name s
                | [] \<Rightarrow> fold_char a # fold_name s)
      | [] \<Rightarrow> [fold_char a])"

definition lookup_field :: "bytes list \<Rightarrow> bytes \<Rightarrow> bytes option" where
  "lookup_field names k =
     (if k \<in> set names then Some k else find (\<lambda>n. fold_name n = fold_name k) names)"

definition dec_string :: "json \<Rightarrow> bytes \<Rightarrow> bytes option" where
  "dec_string v old = (case v of JNull \<Rightarrow> Some old | JStr s \<Rightarrow> Some s | _ \<Rightarrow> None)"

definition dec_int :: "json \<Rightarrow> int \<Rightarrow> int option" where
  "dec_int v old = (case v of JNull \<Rightarrow> Some old | JNum n \<Rightarrow> parse_int64 n | _ \<Rightarrow> None)"

text \<open>A slice is decoded over its old backing array, whose slots a null element leaves as they are.\<close>

fun dec_elems :: "json list \<Rightarrow> bytes list \<Rightarrow> (bytes list \<times> bytes list) option" where
  "dec_elems [] slots = Some ([], slots)"
| "dec_elems (v # vs) slots =
     (case dec_string v (case slots of [] \<Rightarrow> [] | x # xs \<Rightarrow> x) of
        None \<Rightarrow> None
      | Some y \<Rightarrow> map_option (\<lambda>(ys, rest). (y # ys, rest)) (dec_elems vs (tl slots)))"

definition dec_strings :: "json \<Rightarrow> bytes list option \<times> bytes list \<Rightarrow> (bytes list option \<times> bytes list) option" where
  "dec_strings v = (\<lambda>(old, spare).
     (case v of
        JNull \<Rightarrow> Some (None, [])
      | JArr [] \<Rightarrow> Some (Some [], [])
      | JArr vs \<Rightarrow> map_option (\<lambda>(ys, rest). (Some ys, rest)) (dec_elems vs (nil_list old @ spare))
      | _ \<Rightarrow> None))"

definition model_fields :: "bytes list" where
  "model_fields = [''seq'', ''state'', ''error_code'', ''assistant_message_guid'']"

definition dec_model_field :: "bytes \<Rightarrow> json \<Rightarrow> gen_model \<Rightarrow> gen_model option" where
  "dec_model_field k v x =
     (case lookup_field model_fields k of
        None \<Rightarrow> None
      | Some n \<Rightarrow>
          if n = ''seq'' then map_option (\<lambda>i. x\<lparr>mSeq := i\<rparr>) (dec_int v (mSeq x))
          else if n = ''state'' then map_option (\<lambda>i. x\<lparr>mState := i\<rparr>) (dec_int v (mState x))
          else if n = ''error_code'' then map_option (\<lambda>t. x\<lparr>mError := t\<rparr>) (dec_string v (mError x))
          else map_option (\<lambda>t. x\<lparr>mGUID := t\<rparr>) (dec_string v (mGUID x)))"

fun dec_members :: "(bytes \<Rightarrow> json \<Rightarrow> 'a \<Rightarrow> 'a option) \<Rightarrow> (bytes \<times> json) list \<Rightarrow> 'a \<Rightarrow> 'a option" where
  "dec_members f [] x = Some x"
| "dec_members f ((k, v) # ms) x = Option.bind (f k v x) (dec_members f ms)"

definition dec_struct :: "(bytes \<Rightarrow> json \<Rightarrow> 'a \<Rightarrow> 'a option) \<Rightarrow> json \<Rightarrow> 'a \<Rightarrow> 'a option" where
  "dec_struct f v x = (case v of JNull \<Rightarrow> Some x | JObj ms \<Rightarrow> dec_members f ms x | _ \<Rightarrow> None)"

definition dec_map_entry :: "bytes \<Rightarrow> json \<Rightarrow> (bytes \<times> gen_model) list \<Rightarrow> (bytes \<times> gen_model) list option" where
  "dec_map_entry k v st = map_option (\<lambda>x. sm_put k x st) (dec_struct dec_model_field v zero_model)"

definition dec_states :: "json \<Rightarrow> (bytes \<times> gen_model) list option \<Rightarrow> (bytes \<times> gen_model) list option option" where
  "dec_states v old =
     (case v of JNull \<Rightarrow> Some None
      | JObj ms \<Rightarrow> map_option Some (dec_members dec_map_entry ms (nil_list old))
      | _ \<Rightarrow> None)"

definition snapshot_fields :: "bytes list" where
  "snapshot_fields =
     [''generation_id'', ''mode'', ''models'', ''state'', ''model_states'', ''created_at_ms'', ''updated_at_ms'',
      ''error_code'', ''lease_owner_sha256'', ''lease_until_ms'']"

text \<open>The decoder's target: the struct and the slots behind the length of its slice.\<close>

definition dec_snapshot_field :: "bytes \<Rightarrow> json \<Rightarrow> snapshot \<times> bytes list \<Rightarrow> (snapshot \<times> bytes list) option" where
  "dec_snapshot_field k v = (\<lambda>(s, spare).
     (case lookup_field snapshot_fields k of
        None \<Rightarrow> None
      | Some n \<Rightarrow>
          if n = ''generation_id'' then map_option (\<lambda>t. (s\<lparr>gID := t\<rparr>, spare)) (dec_string v (gID s))
          else if n = ''mode'' then map_option (\<lambda>i. (s\<lparr>gMode := i\<rparr>, spare)) (dec_int v (gMode s))
          else if n = ''models'' then map_option (\<lambda>(ms, spare'). (s\<lparr>gModels := ms\<rparr>, spare')) (dec_strings v (gModels s, spare))
          else if n = ''state'' then map_option (\<lambda>i. (s\<lparr>gState := i\<rparr>, spare)) (dec_int v (gState s))
          else if n = ''model_states'' then map_option (\<lambda>st. (s\<lparr>gModelStates := st\<rparr>, spare)) (dec_states v (gModelStates s))
          else if n = ''created_at_ms'' then map_option (\<lambda>i. (s\<lparr>gCreated := i\<rparr>, spare)) (dec_int v (gCreated s))
          else if n = ''updated_at_ms'' then map_option (\<lambda>i. (s\<lparr>gUpdated := i\<rparr>, spare)) (dec_int v (gUpdated s))
          else if n = ''error_code'' then map_option (\<lambda>t. (s\<lparr>gError := t\<rparr>, spare)) (dec_string v (gError s))
          else if n = ''lease_owner_sha256'' then map_option (\<lambda>t. (s\<lparr>gLeaseOwner := t\<rparr>, spare)) (dec_string v (gLeaseOwner s))
          else map_option (\<lambda>i. (s\<lparr>gLeaseUntil := i\<rparr>, spare)) (dec_int v (gLeaseUntil s))))"

definition dec_snapshot :: "json \<Rightarrow> snapshot option" where
  "dec_snapshot v = map_option fst (dec_struct dec_snapshot_field v (zero_snapshot, []))"

section \<open>The wire check\<close>

definition object_members :: "json \<Rightarrow> (bytes \<times> json) list option" where
  "object_members v = (case v of JNull \<Rightarrow> Some [] | JObj ms \<Rightarrow> Some ms | _ \<Rightarrow> None)"

definition platformGenerationWireRequired :: "(bytes \<times> json) list \<Rightarrow> bytes list \<Rightarrow> bool" where
  "platformGenerationWireRequired f names \<longleftrightarrow>
     list_all (\<lambda>n. case map_of f n of None \<Rightarrow> False | Some v \<Rightarrow> v \<noteq> JNull) names"

definition platformGenerationWirePresent :: "(bytes \<times> json) list \<Rightarrow> bytes \<Rightarrow> bool" where
  "platformGenerationWirePresent f n \<longleftrightarrow> map_of f n \<noteq> None"

definition wire_model_ok :: "snapshot \<Rightarrow> (bytes \<times> json) list \<Rightarrow> gen_model \<Rightarrow> bool" where
  "wire_model_ok s f x \<longleftrightarrow>
     platformGenerationWireRequired f [''seq'', ''state''] \<and>
     (if mState x = Failed then platformGenerationWireRequired f [''error_code''] \<and> mError x \<noteq> []
      else \<not> platformGenerationWirePresent f ''error_code'') \<and>
     (if mState x = Completed \<and> gState s = Completed
      then platformGenerationWireRequired f [''assistant_message_guid''] \<and> mGUID x \<noteq> []
      else \<not> platformGenerationWirePresent f ''assistant_message_guid'')"

definition wire_models_ok :: "json \<Rightarrow> snapshot \<Rightarrow> bool" where
  "wire_models_ok v s =
     (case object_members v of
        None \<Rightarrow> False
      | Some ms \<Rightarrow>
          list_all (\<lambda>(k, w). object_members w \<noteq> None) ms \<and> length ms = length (states_of s) \<and>
          list_all (\<lambda>(k, x).
            case map_of ms k of
              None \<Rightarrow> False
            | Some w \<Rightarrow> (case object_members w of None \<Rightarrow> False | Some f \<Rightarrow> wire_model_ok s f x)) (states_of s))"

definition wire_lease_ok :: "(bytes \<times> json) list \<Rightarrow> snapshot \<Rightarrow> bool" where
  "wire_lease_ok f s =
     (if gState s = Running then
        platformGenerationWirePresent f ''lease_owner_sha256'' \<and> platformGenerationWirePresent f ''lease_until_ms'' \<and>
        platformGenerationWireRequired f [''lease_owner_sha256'', ''lease_until_ms''] \<and>
        gLeaseOwner s \<noteq> [] \<and> 0 < gLeaseUntil s
      else if gState s = Cancelling then
        platformGenerationWirePresent f ''lease_owner_sha256'' \<and> \<not> platformGenerationWirePresent f ''lease_until_ms'' \<and>
        platformGenerationWireRequired f [''lease_owner_sha256''] \<and> gLeaseOwner s \<noteq> []
      else \<not> platformGenerationWirePresent f ''lease_owner_sha256'' \<and> \<not> platformGenerationWirePresent f ''lease_until_ms'')"

definition validPlatformGenerationWire :: "json \<Rightarrow> snapshot \<Rightarrow> bool" where
  "validPlatformGenerationWire v s =
     (case object_members v of
        None \<Rightarrow> False
      | Some f \<Rightarrow>
          platformGenerationWireRequired f
            [''generation_id'', ''models'', ''state'', ''model_states'', ''created_at_ms'', ''updated_at_ms''] \<and>
          (if gState s = Cancelled \<and> gMode s = 0 then
             \<not> platformGenerationWirePresent f ''mode'' \<and> \<not> platformGenerationWirePresent f ''error_code'' \<and>
             \<not> platformGenerationWirePresent f ''lease_owner_sha256'' \<and> \<not> platformGenerationWirePresent f ''lease_until_ms''
           else
             platformGenerationWireRequired f [''mode''] \<and>
             (if gState s = Failed then platformGenerationWireRequired f [''error_code''] \<and> gError s \<noteq> []
              else \<not> platformGenerationWirePresent f ''error_code'') \<and>
             wire_lease_ok f s \<and>
             (case map_of f ''model_states'' of None \<Rightarrow> False | Some w \<Rightarrow> wire_models_ok w s)))"

definition decodePlatformGeneration :: "bytes \<Rightarrow> snapshot option" where
  "decodePlatformGeneration raw =
     (if raw = [] \<or> platformGenerationMaxRecordBytes < length raw then None
      else case json_parse raw of
        None \<Rightarrow> None
      | Some v \<Rightarrow>
          if \<not> members_distinct v then None
          else case dec_snapshot v of
            None \<Rightarrow> None
          | Some s \<Rightarrow> if validPlatformGenerationWire v s \<and> validPlatformGenerationSnapshot s then Some s else None)"

section \<open>Reading what was written\<close>

lemma decode_valid: "decodePlatformGeneration raw = Some s \<Longrightarrow> validPlatformGenerationSnapshot s"
  by (auto simp: decodePlatformGeneration_def split: if_splits option.splits)

lemma encode_valid: "encodePlatformGeneration s = Some raw \<Longrightarrow> validPlatformGenerationSnapshot s"
  by (auto simp: encodePlatformGeneration_def split: if_splits)

lemma format_int_text [simp]: "utf8_valid (format_int i)"
  by (simp add: format_int_ascii utf8_valid_ascii)

lemma omit_string_ok: "utf8_valid k \<Longrightarrow> utf8_valid v \<Longrightarrow> list_all (\<lambda>(k, v). utf8_valid k \<and> json_ok v) (omit_string k v)"
  by (simp add: omit_string_def)

lemma json_ok_model:
  "utf8_valid (mError x) \<Longrightarrow> utf8_valid (mGUID x) \<Longrightarrow> json_ok (json_of_model x)"
  by (simp add: json_of_model_def member_def omit_string_def ascii_def utf8_valid_ascii)

lemma json_ok_states:
  "\<forall>(k, x) \<in> set st. utf8_valid k \<and> utf8_valid (mError x) \<and> utf8_valid (mGUID x) \<Longrightarrow>
   list_all (\<lambda>(k, v). utf8_valid k \<and> json_ok v) (sm_map json_of_model st)"
  by (auto simp: sm_map_def list_all_iff json_ok_model)

lemma json_ok_snapshot:
  assumes "validPlatformGenerationSnapshot s" "snapshot_wf s"
  shows "json_ok (json_of_snapshot s)"
proof -
  note texts = valid_snapshot_text[OF assms]
  have "list_all json_ok (map JStr (models_of s))" using texts by (simp add: list_all_iff)
  moreover have "list_all (\<lambda>(k, v). utf8_valid k \<and> json_ok v) (sm_map json_of_model (states_of s))"
    using texts by (intro json_ok_states) blast
  ultimately show ?thesis
    using texts by (cases "gModels s"; cases "gModelStates s")
      (simp_all add: json_of_snapshot_def member_def omit_string_def omit_int_def ascii_def utf8_valid_ascii)
qed

lemma distinct_model: "members_distinct (json_of_model x)"
  by (simp add: json_of_model_def member_def omit_string_def)

lemma distinct_snapshot: "snapshot_wf s \<Longrightarrow> members_distinct (json_of_snapshot s)"
proof -
  assume "snapshot_wf s"
  then have "distinct (map fst (states_of s))" by (simp add: snapshot_wf_def sm_ok_distinct)
  moreover have "list_all (\<lambda>(k, v). members_distinct v) (sm_map json_of_model (states_of s))"
    by (auto simp: list_all_iff distinct_model sm_map_def)
  ultimately have "members_distinct (JObj (sm_map json_of_model (states_of s)))" by simp
  then show ?thesis
    by (cases "gModels s"; cases "gModelStates s")
      (auto simp: json_of_snapshot_def member_def omit_string_def omit_int_def list_all_iff)
qed

lemma dec_members_append:
  "dec_members f (ms @ ns) x = Option.bind (dec_members f ms x) (dec_members f ns)"
proof (induction ms arbitrary: x)
  case (Cons p ms)
  then show ?case by (cases p; cases "f (fst p) (snd p) x") auto
qed simp

lemma dec_int_format [simp]:
  "- (2 ^ 63) \<le> i \<Longrightarrow> i < 2 ^ 63 \<Longrightarrow> dec_int (JNum (format_int i)) old = Some i"
  by (simp add: dec_int_def)

lemma dec_string_simp [simp]: "dec_string (JStr t) old = Some t"
  by (simp add: dec_string_def)

lemma lookup_field_exact: "k \<in> set names \<Longrightarrow> lookup_field names k = Some k"
  by (simp add: lookup_field_def)

lemma dec_model_json:
  assumes "- (2 ^ 63) \<le> mSeq x" "mSeq x < 2 ^ 63" "- (2 ^ 63) \<le> mState x" "mState x < 2 ^ 63"
  shows "dec_struct dec_model_field (json_of_model x) zero_model = Some x"
  using assms
  by (simp add: dec_struct_def json_of_model_def member_def omit_string_def dec_model_field_def
      lookup_field_exact model_fields_def zero_model_def)

lemma dec_elems_JStr: "\<exists>rest. dec_elems (map JStr ms) slots = Some (ms, rest)"
proof (induction ms arbitrary: slots)
  case (Cons m ms)
  obtain rest where "dec_elems (map JStr ms) (tl slots) = Some (ms, rest)" using Cons by blast
  then show ?case by simp
qed simp

lemma dec_map_entry_model:
  "dec_struct dec_model_field (json_of_model x) zero_model = Some x \<Longrightarrow>
   dec_map_entry k (json_of_model x) st = Some (sm_put k x st)"
  by (simp add: dec_map_entry_def)

lemma dec_states_json:
  assumes "\<forall>x \<in> snd ` set st. dec_struct dec_model_field (json_of_model x) zero_model = Some x"
    and "sm_ok (acc @ st)"
  shows "dec_members dec_map_entry (sm_map json_of_model st) acc = Some (acc @ st)"
  using assms
proof (induction st arbitrary: acc)
  case (Cons p st)
  obtain k x where p: "p = (k, x)" by (cases p)
  have "sm_put k x acc = acc @ [(k, x)]"
    using Cons.prems(2) unfolding p by (intro sm_put_last) (auto simp: sm_ok_def sorted_wrt_append)
  moreover have "dec_members dec_map_entry (sm_map json_of_model st) (acc @ [(k, x)]) = Some ((acc @ [(k, x)]) @ st)"
    using Cons.prems p by (intro Cons.IH) auto
  ultimately show ?case
    using Cons.prems(1) p by (simp add: sm_map_def dec_map_entry_model)
qed (simp add: sm_map_def)

lemma dec_snapshot_json:
  assumes "validPlatformGenerationSnapshot s" "snapshot_wf s" "gModelStates s \<noteq> None" "gModels s \<noteq> None"
  shows "dec_snapshot (json_of_snapshot s) = Some s"
proof -
  note ints = valid_snapshot_ints[OF assms(1)]
  have int64: "platformSSEV2SafeInteger i \<Longrightarrow> - (2 ^ 63) \<le> i \<and> i < 2 ^ 63" for i
    by (rule safe_integer_int64)
  have "dec_struct dec_model_field (json_of_model x) zero_model = Some x" if "x \<in> snd ` set (states_of s)" for x
  proof -
    have "valid_model_state s x" using that valid_snapshot_models(2)[OF assms(1,2)] by blast
    then show ?thesis
      using int64[of "mSeq x"] by (intro dec_model_json) (auto simp: valid_model_state_def split: if_splits)
  qed
  then have states: "dec_members dec_map_entry (sm_map json_of_model (states_of s)) [] = Some (states_of s)"
    using dec_states_json[of "states_of s" "[]"] assms(2) by (simp add: snapshot_wf_def)
  obtain ms st where s: "gModels s = Some ms" "gModelStates s = Some st" using assms(3,4) by auto
  obtain rest where "dec_elems (map JStr ms) [] = Some (ms, rest)" using dec_elems_JStr by blast
  then have strings: "\<exists>rest. dec_strings (JArr (map JStr ms)) (None, []) = Some (Some ms, rest)"
    by (cases ms) (auto simp: dec_strings_def)
  then show ?thesis
    using states s ints int64[OF ints(1)] int64[OF ints(2)] int64[OF ints(3)]
    by (auto simp: dec_snapshot_def dec_struct_def json_of_snapshot_def member_def omit_int_def omit_string_def
        dec_snapshot_field_def lookup_field_exact snapshot_fields_def zero_snapshot_def dec_states_def)
qed

lemma map_of_omit_string: "map_of (omit_string k v) n = (if k = n \<and> v \<noteq> [] then Some (JStr v) else None)"
  by (simp add: omit_string_def)

lemma map_of_omit_int: "map_of (omit_int k i) n = (if k = n \<and> i \<noteq> 0 then Some (JNum (format_int i)) else None)"
  by (simp add: omit_int_def)

lemma map_of_member: "map_of (member k v) n = (if k = n then Some v else None)"
  by (simp add: member_def)

lemmas map_of_fields = map_of_append map_add_def map_of_omit_string map_of_omit_int map_of_member

definition fields_of :: "json \<Rightarrow> (bytes \<times> json) list" where
  "fields_of v = (case v of JObj ms \<Rightarrow> ms | _ \<Rightarrow> [])"

lemma object_members_JObj: "object_members (JObj ms) = Some ms"
  by (simp add: object_members_def)

lemma snapshot_object: "json_of_snapshot s = JObj (fields_of (json_of_snapshot s))"
  by (simp add: json_of_snapshot_def fields_of_def)

lemma snapshot_field_values:
  assumes "gModels s = Some ms" "gModelStates s = Some st"
  shows "map_of (fields_of (json_of_snapshot s)) ''generation_id'' = Some (JStr (gID s))"
    "map_of (fields_of (json_of_snapshot s)) ''mode'' = (if gMode s = 0 then None else Some (JNum (format_int (gMode s))))"
    "map_of (fields_of (json_of_snapshot s)) ''models'' = Some (JArr (map JStr ms))"
    "map_of (fields_of (json_of_snapshot s)) ''state'' = Some (JNum (format_int (gState s)))"
    "map_of (fields_of (json_of_snapshot s)) ''model_states'' = Some (JObj (sm_map json_of_model st))"
    "map_of (fields_of (json_of_snapshot s)) ''created_at_ms'' = Some (JNum (format_int (gCreated s)))"
    "map_of (fields_of (json_of_snapshot s)) ''updated_at_ms'' = Some (JNum (format_int (gUpdated s)))"
    "map_of (fields_of (json_of_snapshot s)) ''error_code'' = (if gError s = [] then None else Some (JStr (gError s)))"
    "map_of (fields_of (json_of_snapshot s)) ''lease_owner_sha256'' = (if gLeaseOwner s = [] then None else Some (JStr (gLeaseOwner s)))"
    "map_of (fields_of (json_of_snapshot s)) ''lease_until_ms'' = (if gLeaseUntil s = 0 then None else Some (JNum (format_int (gLeaseUntil s))))"
  using assms by (simp_all add: json_of_snapshot_def fields_of_def map_of_fields)

lemma model_field_values:
  "map_of (fields_of (json_of_model x)) ''seq'' = Some (JNum (format_int (mSeq x)))"
  "map_of (fields_of (json_of_model x)) ''state'' = Some (JNum (format_int (mState x)))"
  "map_of (fields_of (json_of_model x)) ''error_code'' = (if mError x = [] then None else Some (JStr (mError x)))"
  "map_of (fields_of (json_of_model x)) ''assistant_message_guid'' = (if mGUID x = [] then None else Some (JStr (mGUID x)))"
  by (simp_all add: json_of_model_def fields_of_def map_of_fields)

lemma message_guid_nonempty: "platformGenerationMessageGUID v \<Longrightarrow> v \<noteq> []"
  by (auto simp: platformGenerationMessageGUID_def parse_int64_def)

lemma wire_model_json: "valid_model_state s x \<Longrightarrow> wire_model_ok s (fields_of (json_of_model x)) x"
  using message_guid_nonempty[of "mGUID x"] stable_code_nonempty[of "mError x"]
  by (auto simp: wire_model_ok_def platformGenerationWireRequired_def platformGenerationWirePresent_def
      model_field_values valid_model_state_def split: if_splits)

lemma wire_models_json:
  assumes "snapshot_wf s" "\<forall>x \<in> snd ` set (states_of s). valid_model_state s x"
  shows "wire_models_ok (JObj (sm_map json_of_model (states_of s))) s"
proof -
  have obj: "object_members (json_of_model x) = Some (fields_of (json_of_model x))" for x
    by (simp add: json_of_model_def fields_of_def object_members_def)
  have "distinct (map fst (states_of s))" using assms(1) by (simp add: snapshot_wf_def sm_ok_distinct)
  then have get: "map_of (states_of s) k = Some x" if "(k, x) \<in> set (states_of s)" for k x
    using that by simp
  have "list_all (\<lambda>(k, w). object_members w \<noteq> None) (sm_map json_of_model (states_of s))"
    by (auto simp: list_all_iff sm_map_def obj)
  moreover have "wire_model_ok s (fields_of (json_of_model x)) x" if "(k, x) \<in> set (states_of s)" for k x
    using that assms(2) by (force intro: wire_model_json)
  ultimately show ?thesis
    using get by (fastforce simp: wire_models_ok_def object_members_JObj list_all_iff obj)
qed

lemma wire_snapshot:
  assumes v: "validPlatformGenerationSnapshot s" and wf: "snapshot_wf s"
    and some: "gModelStates s \<noteq> None" "gModels s \<noteq> None"
  shows "validPlatformGenerationWire (json_of_snapshot s) s"
proof -
  obtain ms st where s: "gModels s = Some ms" "gModelStates s = Some st" using some by auto
  note get = snapshot_field_values[OF s]
  have obj: "object_members (json_of_snapshot s) = Some (fields_of (json_of_snapshot s))"
    by (subst snapshot_object) (rule object_members_JObj)
  have models: "wire_models_ok (JObj (sm_map json_of_model st)) s"
    using wire_models_json[OF wf valid_snapshot_models(2)[OF v wf]] s by simp
  show ?thesis
    using v
  proof (cases rule: valid_snapshot_cases)
    case tombstone
    then show ?thesis
      by (simp add: validPlatformGenerationWire_def obj platformGenerationWireRequired_def
          platformGenerationWirePresent_def get validPlatformGenerationTombstone_def)
  next
    case live
    have "wire_lease_ok (fields_of (json_of_snapshot s)) s"
      using live(6) by (auto simp: wire_lease_ok_def platformGenerationWireRequired_def
          platformGenerationWirePresent_def get validPlatformGenerationLease_def validPlatformGenerationLeaseDigest_def
          split: if_splits)
    then show ?thesis
      using live(1,9) models stable_code_nonempty[of "gError s"]
      by (auto simp: validPlatformGenerationWire_def obj platformGenerationWireRequired_def
          platformGenerationWirePresent_def get split: if_splits)
  qed
qed

text \<open>A valid record has models and states; only a cleared model list can be nil.\<close>

lemma valid_states_some:
  assumes "validPlatformGenerationSnapshot s"
  shows "gModels s \<noteq> None \<and> gModelStates s \<noteq> None"
  using assms
proof (cases rule: valid_snapshot_cases)
  case live
  then have "models_of s \<noteq> []" "length (states_of s) = length (models_of s)"
    by (simp_all add: validatePlatformGenerationInput_def snapshot_input_def)
  then show ?thesis by (cases "gModels s"; cases "gModelStates s") auto
qed (auto simp: validPlatformGenerationTombstone_def)

lemma render_nonempty: "render (json_of_snapshot s) \<noteq> []"
  by (simp add: json_of_snapshot_def)

lemma decode_render:
  assumes "validPlatformGenerationSnapshot s" "snapshot_wf s"
    and "length (render (json_of_snapshot s)) \<le> platformGenerationMaxRecordBytes"
  shows "decodePlatformGeneration (render (json_of_snapshot s)) = Some s"
  using assms valid_states_some[OF assms(1)] render_nonempty
  by (simp add: decodePlatformGeneration_def json_parse_render[OF json_ok_snapshot] distinct_snapshot
      dec_snapshot_json wire_snapshot)

lemma decode_encode:
  "encodePlatformGeneration s = Some raw \<Longrightarrow> snapshot_wf s \<Longrightarrow> decodePlatformGeneration raw = Some s"
  using decode_render[of s] by (auto simp: encodePlatformGeneration_def split: if_splits)

end
