(* ===== verification/Redis_Scripts.thy ===== *)
theory Redis_Scripts
  imports Generation_Codec
begin

text \<open>
  The Redis side of the generation store: a keyed store with deadlines, and the three Lua scripts
  of \<open>platform_generation_store.go\<close> and \<open>platform_generation_store_control.go\<close>, each one atomic
  step of the server.  \<open>cjson.decode\<close> is not under \<open>src/\<close>: it is the parameter \<open>cjson\<close>, with what the
  scripts rely on as the hypothesis \<open>cjson_reads\<close>.
\<close>

section \<open>The keyed store\<close>

record redis =
  rStore :: "bytes \<Rightarrow> (bytes \<times> int option) option"
  rClock :: int

definition live :: "redis \<Rightarrow> int option \<Rightarrow> bool" where
  "live r dl = (case dl of None \<Rightarrow> True | Some d \<Rightarrow> rClock r < d)"

definition redis_get :: "redis \<Rightarrow> bytes \<Rightarrow> bytes option" where
  "redis_get r k =
     (case rStore r k of None \<Rightarrow> None | Some (v, dl) \<Rightarrow> if live r dl then Some v else None)"

definition redis_deadline :: "redis \<Rightarrow> bytes \<Rightarrow> int option" where
  "redis_deadline r k =
     (case rStore r k of None \<Rightarrow> None | Some (v, dl) \<Rightarrow> if live r dl then dl else None)"

text \<open>\<open>SET key value PX ttl\<close> and \<open>SET key value KEEPTTL\<close>.\<close>

definition redis_set_px :: "bytes \<Rightarrow> bytes \<Rightarrow> int \<Rightarrow> redis \<Rightarrow> redis" where
  "redis_set_px k v ttl r = r\<lparr>rStore := (rStore r)(k \<mapsto> (v, Some (rClock r + ttl)))\<rparr>"

definition redis_set_keepttl :: "bytes \<Rightarrow> bytes \<Rightarrow> redis \<Rightarrow> redis" where
  "redis_set_keepttl k v r = r\<lparr>rStore := (rStore r)(k \<mapsto> (v, redis_deadline r k))\<rparr>"

definition tick :: "int \<Rightarrow> redis \<Rightarrow> redis" where
  "tick d r = r\<lparr>rClock := rClock r + d\<rparr>"

lemma live_store [simp]: "live (r\<lparr>rStore := st\<rparr>) dl = live r dl"
  by (simp add: live_def split: option.split)

lemma live_fresh [simp]: "0 < ttl \<Longrightarrow> live r (Some (rClock r + ttl))"
  by (simp add: live_def)

lemma redis_get_px [simp]:
  "0 < ttl \<Longrightarrow> redis_get (redis_set_px k v ttl r) k' = (if k' = k then Some v else redis_get r k')"
  by (auto simp: redis_get_def redis_set_px_def split: option.split)

lemma redis_get_keepttl [simp]:
  "redis_get (redis_set_keepttl k v r) k' = (if k' = k then Some v else redis_get r k')"
  by (auto simp: redis_get_def redis_set_keepttl_def redis_deadline_def live_def split: option.splits if_splits)

lemma redis_deadline_keepttl [simp]:
  "redis_deadline (redis_set_keepttl k v r) k' = redis_deadline r k'"
  by (auto simp: redis_set_keepttl_def redis_deadline_def live_def split: option.splits)

lemma redis_deadline_px [simp]:
  "0 < ttl \<Longrightarrow> redis_deadline (redis_set_px k v ttl r) k' = (if k' = k then Some (rClock r + ttl) else redis_deadline r k')"
  by (auto simp: redis_set_px_def redis_deadline_def split: option.split)

section \<open>Replies\<close>

datatype redis_value = RInt int | RBulk bytes | RNil | RArray "redis_value list"

definition reply :: "int \<Rightarrow> bytes \<Rightarrow> redis_value" where
  "reply code stored = RArray [RInt code, RBulk stored]"

section \<open>The compare-and-set script\<close>

definition platformGenerationCASScript :: "bytes \<Rightarrow> bytes \<Rightarrow> bytes \<Rightarrow> redis \<Rightarrow> redis_value \<times> redis" where
  "platformGenerationCASScript key expected next r =
     (case redis_get r key of
        None \<Rightarrow> (reply 0 [], r)
      | Some old \<Rightarrow>
          if old \<noteq> expected then (reply 0 old, r)
          else (reply 1 next, redis_set_keepttl key next r))"

section \<open>Values of \<open>cjson.decode\<close>\<close>

datatype lua =
    LuaNil | LuaNull | LuaBool bool | LuaInt int | LuaFloat bytes | LuaString bytes
  | LuaTable "(bytes \<times> lua) list" | LuaArray "lua list"

type_synonym cjson = "bytes \<Rightarrow> lua option"

fun lua_is_table :: "lua \<Rightarrow> bool" where
  "lua_is_table (LuaTable ms) = True"
| "lua_is_table (LuaArray vs) = True"
| "lua_is_table _ = False"

fun lua_is_number :: "lua \<Rightarrow> bool" where
  "lua_is_number (LuaInt i) = True"
| "lua_is_number (LuaFloat x) = True"
| "lua_is_number _ = False"

fun lua_field :: "lua \<Rightarrow> bytes \<Rightarrow> lua" where
  "lua_field (LuaTable ms) k = (case map_of ms k of None \<Rightarrow> LuaNil | Some v \<Rightarrow> v)"
| "lua_field _ k = LuaNil"

text \<open>What the decoder returns for a JSON value: exact integers up to 2 ^ 53, JSON null as a sentinel.\<close>

fun lua_of_json :: "json \<Rightarrow> lua" where
  "lua_of_json JNull = LuaNull"
| "lua_of_json (JBool b) = LuaBool b"
| "lua_of_json (JNum n) =
     (case parse_int64 n of
        Some i \<Rightarrow> if \<bar>i\<bar> \<le> platformSSEV2MaxSafeInteger then LuaInt i else LuaFloat n
      | None \<Rightarrow> LuaFloat n)"
| "lua_of_json (JStr s) = LuaString s"
| "lua_of_json (JArr vs) = LuaArray (map lua_of_json vs)"
| "lua_of_json (JObj ms) = LuaTable (map (\<lambda>(k, v). (k, lua_of_json v)) ms)"

text \<open>The documented behaviour the scripts rely on: a text that Go wrote decodes to its value.\<close>

definition cjson_reads :: "cjson \<Rightarrow> bool" where
  "cjson_reads cjson \<longleftrightarrow> (\<forall>v. json_ok v \<and> members_distinct v \<longrightarrow> cjson (render v) = Some (lua_of_json v))"

definition sample_cjson :: cjson where
  "sample_cjson s = map_option lua_of_json (json_parse s)"

lemma sample_cjson_reads: "cjson_reads sample_cjson"
  by (simp add: cjson_reads_def sample_cjson_def json_parse_render)

section \<open>The cancel-or-create script\<close>

definition platformGenerationCancelOrCreateScript ::
  "cjson \<Rightarrow> bytes \<Rightarrow> bytes \<Rightarrow> int \<Rightarrow> bytes \<Rightarrow> bytes \<Rightarrow> int \<Rightarrow> int \<Rightarrow> redis \<Rightarrow> redis_value \<times> redis" where
  "platformGenerationCancelOrCreateScript cjson key tombstone ttl expected transitioned expectedState running r =
     (case redis_get r key of
        None \<Rightarrow> (reply 1 tombstone, redis_set_px key tombstone ttl r)
      | Some old \<Rightarrow>
          if old = expected then
            (if expectedState < 0 then (reply (-1) old, r)
             else if expectedState = running then
               (if transitioned = [] then (reply (-2) old, r)
                else (reply 2 transitioned, redis_set_keepttl key transitioned r))
             else (reply 0 old, r))
          else (case cjson old of
              None \<Rightarrow> (reply (-1) old, r)
            | Some current \<Rightarrow>
                if \<not> lua_is_table current \<or> \<not> lua_is_number (lua_field current ''state'') then (reply (-1) old, r)
                else if lua_field current ''state'' = LuaInt running then (reply (-2) old, r)
                else (reply 0 old, r)))"

section \<open>The claim script\<close>

definition strip_prefix :: "bytes \<Rightarrow> bytes \<Rightarrow> bytes option" where
  "strip_prefix p s = (if take (length p) s = p then Some (drop (length p) s) else None)"

text \<open>\<open>[0-9]+\<close>: the longest digits and the rest; no digit, no match.\<close>

definition match_digits :: "bytes \<Rightarrow> (bytes \<times> bytes) option" where
  "match_digits s = (if takeWhile is_digit s = [] then None else Some (takeWhile is_digit s, dropWhile is_digit s))"

definition match_positive :: "bytes \<Rightarrow> (bytes \<times> bytes) option" where
  "match_positive s =
     Option.bind (match_digits s) (\<lambda>(d, rest). if hd d = CHR ''0'' then None else Some (d, rest))"

text \<open>\<open>string.match(tail, '^([1-9][0-9]*),"updated_at_ms":([1-9][0-9]*)}$')\<close>\<close>

definition match_tail :: "bytes \<Rightarrow> (bytes \<times> bytes) option" where
  "match_tail s =
     Option.bind (match_positive s) (\<lambda>(created, s1).
     Option.bind (strip_prefix '',\"updated_at_ms\":'' s1) (\<lambda>s2.
     Option.bind (match_positive s2) (\<lambda>(updated, s3).
       if s3 = ''}'' then Some (created, updated) else None)))"

definition match_times :: "bytes \<Rightarrow> bytes option" where
  "match_times s =
     Option.bind (strip_prefix ''\"created_at_ms\":'' s) (\<lambda>s1.
     Option.bind (match_digits s1) (\<lambda>(d1, s2).
     Option.bind (strip_prefix '',\"updated_at_ms\":'' s2) (\<lambda>s3.
     Option.bind (match_digits s3) (\<lambda>(d2, s4). strip_prefix ''}'' s4))))"

lemma strip_prefix_length: "strip_prefix p s = Some t \<Longrightarrow> length s = length p + length t"
proof -
  assume "strip_prefix p s = Some t"
  then have "take (length p) s = p" "t = drop (length p) s" by (auto simp: strip_prefix_def split: if_splits)
  moreover from this have "length p \<le> length s" by (metis length_take min.cobounded1)
  ultimately show ?thesis by simp
qed

lemma match_digits_length: "match_digits s = Some (d, t) \<Longrightarrow> length t < length s"
proof -
  assume "match_digits s = Some (d, t)"
  then have "takeWhile is_digit s \<noteq> []" "t = dropWhile is_digit s" by (auto simp: match_digits_def split: if_splits)
  moreover have "length s = length (takeWhile is_digit s) + length (dropWhile is_digit s)"
    by (metis length_append takeWhile_dropWhile_id)
  ultimately show ?thesis by simp
qed

lemma match_times_length: "match_times s = Some t \<Longrightarrow> length t < length s"
  by (auto simp: match_times_def Option.bind_eq_Some_conv dest!: strip_prefix_length match_digits_length)

text \<open>\<open>string.gsub\<close> of that pattern: the text with every match replaced, and the number of matches.\<close>

function gsub_times :: "bytes \<Rightarrow> bytes \<Rightarrow> bytes \<times> nat" where
  "gsub_times repl s =
     (case match_times s of
        Some t \<Rightarrow> (let (out, n) = gsub_times repl t in (repl @ out, Suc n))
      | None \<Rightarrow> (case s of [] \<Rightarrow> ([], 0) | c # t \<Rightarrow> (let (out, n) = gsub_times repl t in (c # out, n))))"
  by pat_completeness auto
termination
  by (relation "measure (\<lambda>(repl, s). length s)") (auto dest: match_times_length)

declare gsub_times.simps [simp del]

definition tombstone_prefix :: "bytes \<Rightarrow> int \<Rightarrow> bytes" where
  "tombstone_prefix gid cancelled =
     ''{\"generation_id\":\"'' @ gid @ ''\",\"models\":[],\"state\":'' @ format_int cancelled @
     '',\"model_states\":{},\"created_at_ms\":''"

definition times_text :: "bytes \<Rightarrow> bytes \<Rightarrow> bytes" where
  "times_text created updated =
     ''\"created_at_ms\":'' @ created @ '',\"updated_at_ms\":'' @ updated @ ''}''"

text \<open>The record the script enriches a bare tombstone with, if the stored text is one.\<close>

definition claim_enrich :: "cjson \<Rightarrow> bytes \<Rightarrow> bytes \<Rightarrow> int \<Rightarrow> int \<Rightarrow> bytes \<Rightarrow> bytes option" where
  "claim_enrich cjson enriched gid cancelled maxSafe old =
     (case cjson old of
        None \<Rightarrow> None
      | Some existing \<Rightarrow>
          if \<not> (lua_is_table existing \<and> lua_field existing ''generation_id'' = LuaString gid \<and>
                 lua_field existing ''state'' = LuaInt cancelled \<and> lua_field existing ''mode'' = LuaNil \<and>
                 lua_field existing ''error_code'' = LuaNil \<and> lua_field existing ''lease_owner_sha256'' = LuaNil \<and>
                 lua_field existing ''lease_until_ms'' = LuaNil)
          then None
          else Option.bind (strip_prefix (tombstone_prefix gid cancelled) old) (\<lambda>tail.
               Option.bind (match_tail tail) (\<lambda>(created, updated).
                 (case parse_uint created of
                    None \<Rightarrow> None
                  | Some n \<Rightarrow>
                      if created = updated \<and> int n \<le> maxSafe then
                        (let (next, k) = gsub_times (times_text created updated) enriched
                         in if k = 1 then Some next else None)
                      else None))))"

definition platformGenerationClaimScript ::
  "cjson \<Rightarrow> bytes \<Rightarrow> bytes \<Rightarrow> bytes \<Rightarrow> int \<Rightarrow> bytes \<Rightarrow> int \<Rightarrow> int \<Rightarrow> redis \<Rightarrow> redis_value \<times> redis" where
  "platformGenerationClaimScript cjson key encoded enriched ttl gid cancelled maxSafe r =
     (case redis_get r key of
        None \<Rightarrow> (reply 1 encoded, redis_set_px key encoded ttl r)
      | Some old \<Rightarrow>
          (case claim_enrich cjson enriched gid cancelled maxSafe old of
             Some next \<Rightarrow> (reply 2 next, redis_set_keepttl key next r)
           | None \<Rightarrow> (reply 0 old, r)))"

end
