(* ===== verification/Generation_Codec_Bounds.thy ===== *)
theory Generation_Codec_Bounds
  imports Generation_Codec
begin

text \<open>
  Every valid record fits the 32 KiB limit of the store, so encoding a valid record never fails:
  a JSON string takes at most six bytes per byte, and the identifiers, codes and digests of a valid
  record are bounded.
\<close>

lemma length_escape_ascii: "length (escape_ascii c) \<le> 6"
  by (simp add: escape_ascii_def hex4_def)

lemma length_decode_rune: "decode_rune (c # s) = Some (r, s') \<Longrightarrow> length s' < length (c # s)"
proof -
  assume "decode_rune (c # s) = Some (r, s')"
  then obtain p where p: "c # s = p @ s'" "p \<noteq> []" using decode_rune_suffix by blast
  show ?thesis unfolding p(1) using p(2) by simp
qed

lemma length_escape: "length (escape s) \<le> 6 * length s"
proof (induction s rule: escape.induct)
  case (2 c s)
  show ?case
  proof (cases "byte c < 128")
    case True
    then show ?thesis using 2(1) length_escape_ascii[of c] by simp
  next
    case high: False
    show ?thesis
    proof (cases "decode_rune (c # s)")
      case None
      then show ?thesis using 2(2) high by (simp add: hex4_def)
    next
      case (Some p)
      obtain r s' where p: "p = (r, s')" by (cases p)
      have "length (escape s') \<le> 6 * length s'" using 2(3) high Some p by simp
      moreover have "length s' < length (c # s)" using Some p length_decode_rune by blast
      ultimately show ?thesis using high Some p by (simp add: hex4_def) arith
    qed
  qed
qed simp

lemma length_quote: "length (quote s) \<le> 6 * length s + 2"
  using length_escape[of s] by (simp add: quote_def)

lemma length_commas: "length (commas xs) \<le> sum_list (map (\<lambda>x. length x + 1) xs)"
  by (induction xs rule: commas.induct) auto

lemma sum_list_bound: "\<forall>x \<in> set xs. f x \<le> (b::nat) \<Longrightarrow> sum_list (map f xs) \<le> length xs * b"
  by (induction xs) auto

text \<open>Bytes an object needs: its members, six bytes a key byte, quotes, colon and comma.\<close>

definition member_bytes :: "(bytes \<times> json) list \<Rightarrow> nat" where
  "member_bytes ms = sum_list (map (\<lambda>(k, v). 6 * length k + 4 + length (render v)) ms)"

lemma length_render_obj: "length (render (JObj ms)) \<le> member_bytes ms + 2"
proof -
  have "length (quote k @ CHR '':'' # render v) + 1 \<le> 6 * length k + 4 + length (render v)" for k v
    using length_quote[of k] by simp
  then have "sum_list (map (\<lambda>x. length x + 1) (map (\<lambda>(k, v). quote k @ CHR '':'' # render v) ms)) \<le> member_bytes ms"
    unfolding member_bytes_def map_map comp_def by (intro sum_list_mono) auto
  then show ?thesis
    using length_commas[of "map (\<lambda>(k, v). quote k @ CHR '':'' # render v) ms"] by simp
qed

lemma member_bytes_append [simp]: "member_bytes (ms @ ns) = member_bytes ms + member_bytes ns"
  by (simp add: member_bytes_def)

lemma member_bytes_member [simp]: "member_bytes (member k v) = 6 * length k + 4 + length (render v)"
  by (simp add: member_bytes_def member_def)

lemma member_bytes_string: "member_bytes (omit_string k v) \<le> 6 * length k + 6 * length v + 6"
  using length_quote[of v] by (simp add: member_bytes_def omit_string_def)

lemma member_bytes_int: "member_bytes (omit_int k i) \<le> 6 * length k + 4 + length (format_int i)"
  by (simp add: member_bytes_def omit_int_def)

lemma length_nat_digits: "n < 10 ^ k \<Longrightarrow> 0 < k \<Longrightarrow> length (nat_digits n) \<le> k"
proof (induction n arbitrary: k rule: nat_digits.induct)
  case (1 n)
  show ?case
  proof (cases "n < 10")
    case True
    then show ?thesis using 1(3) by (subst nat_digits.simps) simp
  next
    case False
    obtain j where k: "k = Suc j" using 1(3) by (cases k) auto
    then have j: "k = Suc j" "0 < j" using 1(2) False by (cases j; simp)+
    then have "n div 10 < 10 ^ j" using 1(2) by (simp add: less_mult_imp_div_less mult.commute)
    then have "length (nat_digits (n div 10)) \<le> j" using 1(1) False j by blast
    then show ?thesis using False j by (subst nat_digits.simps) simp
  qed
qed

lemma length_format_int: "0 \<le> i \<Longrightarrow> i < 10 ^ k \<Longrightarrow> 0 < k \<Longrightarrow> length (format_int i) \<le> k"
  using length_nat_digits[of "nat i" k] by (simp add: format_int_def nat_less_iff)

lemma length_safe_int: "platformSSEV2SafeInteger i \<Longrightarrow> length (format_int i) \<le> 16"
  by (rule length_format_int) (simp_all add: platformSSEV2SafeInteger_def platformSSEV2MaxSafeInteger_def)

lemma length_small_int: "0 \<le> i \<Longrightarrow> i < 10 \<Longrightarrow> length (format_int i) \<le> 1"
  by (rule length_format_int) simp_all

lemma length_stable_code: "platformGenerationStableCode c \<Longrightarrow> length c \<le> 22"
  by (auto simp: platformGenerationStableCode_def platformSSEV2StableCodes_def)

lemma length_message_guid: "platformGenerationMessageGUID v \<Longrightarrow> length v \<le> 19"
proof -
  assume "platformGenerationMessageGUID v"
  then obtain g where g: "parse_int64 v = Some g" "0 < g" "format_int g = v"
    by (auto simp: platformGenerationMessageGUID_def split: option.splits)
  then have "g < 2 ^ 63" by (auto simp: parse_int64_def split: list.splits option.splits if_splits)
  then show ?thesis using g length_format_int[of g 19] by simp
qed

lemma length_model_json: "valid_model_state s x \<Longrightarrow> length (render (json_of_model x)) \<le> 600"
proof -
  assume v: "valid_model_state s x"
  have "length (mError x) \<le> 22" "length (mGUID x) \<le> 19" "0 \<le> mState x" "mState x < 10"
    using v length_stable_code length_message_guid by (auto simp: valid_model_state_def split: if_splits)
  moreover have "length (format_int (mSeq x)) \<le> 16"
    using v length_safe_int by (simp add: valid_model_state_def)
  ultimately show ?thesis
    using member_bytes_string[of "''error_code''" "mError x"] member_bytes_string[of "''assistant_message_guid''" "mGUID x"]
      length_small_int[of "mState x"]
      length_render_obj[of "member ''seq'' (JNum (format_int (mSeq x))) @ member ''state'' (JNum (format_int (mState x))) @
           omit_string ''error_code'' (mError x) @ omit_string ''assistant_message_guid'' (mGUID x)"]
    unfolding json_of_model_def by simp
qed

lemma length_models_json:
  assumes "length ms \<le> 3" "\<forall>m \<in> set ms. length m \<le> 128"
  shows "length (render (JArr (map JStr ms))) \<le> 2400"
proof -
  have "\<forall>x \<in> set (map quote ms). length x + 1 \<le> 771"
  proof
    fix x assume "x \<in> set (map quote ms)"
    then obtain m where "x = quote m" "length m \<le> 128" using assms(2) by auto
    then show "length x + 1 \<le> 771" using length_quote[of m] by simp
  qed
  then have "sum_list (map (\<lambda>x. length x + 1) (map quote ms)) \<le> length (map quote ms) * 771"
    by (rule sum_list_bound)
  also have "\<dots> \<le> 3 * 771" using assms(1) by simp
  finally show ?thesis
    using length_commas[of "map quote ms"] by (simp add: comp_def)
qed

lemma length_states_json:
  assumes "length st \<le> 3" "\<forall>k \<in> fst ` set st. length k \<le> 128" "\<forall>x \<in> snd ` set st. valid_model_state s x"
  shows "length (render (JObj (sm_map json_of_model st))) \<le> 4200"
proof -
  have "(case x of (k, y) \<Rightarrow> 6 * length k + 4 + length (render (json_of_model y))) \<le> 1372" if "x \<in> set st" for x
  proof -
    obtain k y where x: "x = (k, y)" by (cases x)
    then have "length k \<le> 128" "valid_model_state s y" using that assms(2,3) by force+
    then show ?thesis using x length_model_json[of s y] by simp
  qed
  then have "sum_list (map (\<lambda>(k, y). 6 * length k + 4 + length (render (json_of_model y))) st) \<le> length st * 1372"
    by (intro sum_list_bound) auto
  also have "\<dots> \<le> 3 * 1372" using assms(1) by simp
  finally have "member_bytes (sm_map json_of_model st) \<le> 4116"
    by (simp add: member_bytes_def sm_map_def comp_def case_prod_unfold)
  then show ?thesis using length_render_obj[of "sm_map json_of_model st"] by simp
qed

lemma valid_snapshot_sizes:
  assumes "validPlatformGenerationSnapshot s" "snapshot_wf s"
  shows "length (models_of s) \<le> 3" "length (states_of s) \<le> 3" "length (gID s) = 36"
    "length (gError s) \<le> 22" "length (gLeaseOwner s) \<le> 64"
    "\<forall>m \<in> set (models_of s). length m \<le> 128"
proof -
  have "length (models_of s) \<le> 3 \<and> length (states_of s) \<le> 3 \<and> length (gID s) = 36 \<and>
    length (gError s) \<le> 22 \<and> length (gLeaseOwner s) \<le> 64"
    using assms(1)
  proof (cases rule: valid_snapshot_cases)
    case tombstone
    then show ?thesis by (simp add: validPlatformGenerationTombstone_def platformSSEV2CanonicalUUID_def)
  next
    case live
    have "length (gError s) \<le> 22" using live(9) length_stable_code by (auto split: if_splits)
    moreover have "length (gLeaseOwner s) \<le> 64"
      using live(6) by (auto simp: validPlatformGenerationLease_def validPlatformGenerationLeaseDigest_def split: if_splits)
    ultimately show ?thesis
      using live(2,5) by (simp add: validatePlatformGenerationInput_def validatePlatformGenerationIdentity_def
          snapshot_input_def platformSSEV2CanonicalUUID_def platformSSEV2MaxModels_def)
  qed
  then show "length (models_of s) \<le> 3" "length (states_of s) \<le> 3" "length (gID s) = 36"
    "length (gError s) \<le> 22" "length (gLeaseOwner s) \<le> 64" by blast+
  show "\<forall>m \<in> set (models_of s). length m \<le> 128"
    using valid_snapshot_models(3)[OF assms]
    by (auto simp: platformSSEV2ModelIdentifier_def platformSSEV2MaxModelIdentifierBytes_def)
qed

lemma length_snapshot_json:
  assumes "validPlatformGenerationSnapshot s" "snapshot_wf s"
  shows "length (render (json_of_snapshot s)) \<le> 10000"
proof -
  obtain ms st where s: "gModels s = Some ms" "gModelStates s = Some st"
    using valid_states_some[OF assms(1)] by auto
  note sizes = valid_snapshot_sizes[OF assms] and ints = valid_snapshot_ints[OF assms(1)]
  have keys: "\<forall>k \<in> fst ` set st. length k \<le> 128"
    using valid_snapshot_models(1)[OF assms] sizes(6) s by simp
  have ms: "length (render (JArr (map JStr ms))) \<le> 2400"
    using length_models_json[of ms] sizes s by simp
  have st: "length (render (JObj (sm_map json_of_model st))) \<le> 4200"
    using length_states_json[OF _ keys, of s] valid_snapshot_models(2)[OF assms] sizes s by simp
  have jid: "length (render (JStr (gID s))) \<le> 218" using length_quote[of "gID s"] sizes by simp
  note small = length_small_int[of "gMode s"] length_small_int[of "gState s"]
    length_safe_int[OF ints(1)] length_safe_int[OF ints(2)] length_safe_int[OF ints(3)]
  have "member_bytes (fields_of (json_of_snapshot s)) \<le> 9998"
    using ms st jid small ints(4,5) sizes(4,5)
      member_bytes_int[of "''mode''" "gMode s"] member_bytes_int[of "''lease_until_ms''" "gLeaseUntil s"]
      member_bytes_string[of "''error_code''" "gError s"] member_bytes_string[of "''lease_owner_sha256''" "gLeaseOwner s"]
    by (simp add: json_of_snapshot_def fields_of_def s del: render.simps) simp
  then show ?thesis
    using length_render_obj[of "fields_of (json_of_snapshot s)"] snapshot_object[of s] by simp
qed

lemma encode_total:
  "validPlatformGenerationSnapshot s \<Longrightarrow> snapshot_wf s \<Longrightarrow>
   encodePlatformGeneration s = Some (render (json_of_snapshot s))"
  using length_snapshot_json[of s] by (simp add: encodePlatformGeneration_def platformGenerationMaxRecordBytes_def)

lemma encode_iff:
  "snapshot_wf s \<Longrightarrow> encodePlatformGeneration s =
     (if validPlatformGenerationSnapshot s then Some (render (json_of_snapshot s)) else None)"
  using encode_total by (simp add: encodePlatformGeneration_def)

end
