(* ===== verification/Generation_Store.thy ===== *)
theory Generation_Store
  imports Redis_Scripts Generation_Codec_Bounds
begin

text \<open>
  The operations of \<open>PlatformGenerationStore\<close>.  A mutation reads the record, computes the next one
  and writes it with the compare-and-set script; other clients may act in between, so it takes the
  Redis state at the read and the Redis state at the script.  What the network does is an input
  (\<open>io\<close>): a failed read, a lost request (the script did not run) or a lost reply (it did).
  A Go \<open>(snapshot, error)\<close> pair is a snapshot and an error option.
\<close>

datatype net = NetOk | NetLostRequest | NetLostReply

record io =
  ioContext :: bool
  ioClient :: bool
  ioRead :: bool
  ioEval :: net

type_synonym gen_result = "snapshot \<times> gen_error option"

type_synonym change = "snapshot \<Rightarrow> gen_error + snapshot"

definition failed :: "gen_error \<Rightarrow> gen_result" where
  "failed er = (zero_snapshot, Some er)"

definition platformGenerationPrefix :: bytes where
  "platformGenerationPrefix = ''porsche:platform:generation:v2:''"

definition gen_key :: "int \<Rightarrow> bytes \<Rightarrow> bytes" where
  "gen_key uid gid = platformGenerationPrefix @ format_int uid @ CHR '':'' # gid"

section \<open>Talking to Redis\<close>

text \<open>\<open>client.Eval\<close>: no reply on a network error; with a lost reply the script has run.\<close>

definition redis_eval :: "net \<Rightarrow> (redis \<Rightarrow> redis_value \<times> redis) \<Rightarrow> redis \<Rightarrow> redis_value option \<times> redis" where
  "redis_eval n script r =
     (case n of
        NetOk \<Rightarrow> (let (v, r') = script r in (Some v, r'))
      | NetLostRequest \<Rightarrow> (None, r)
      | NetLostReply \<Rightarrow> (None, snd (script r)))"

definition platformGenerationEvalResult :: "redis_value \<Rightarrow> gen_error + (bool \<times> bytes)" where
  "platformGenerationEvalResult v =
     (case v of
        RArray [RInt changed, RBulk stored] \<Rightarrow>
          if changed \<noteq> 0 \<and> changed \<noteq> 1 then Inl GInvalid
          else if stored = [] then Inl GConflict
          else Inr (changed = 1, stored)
      | RArray [RInt changed, other] \<Rightarrow> if changed \<noteq> 0 \<and> changed \<noteq> 1 then Inl GInvalid else Inl GConflict
      | _ \<Rightarrow> Inl GInvalid)"

definition platformGenerationDecisionResult :: "redis_value \<Rightarrow> gen_error + (int \<times> bytes)" where
  "platformGenerationDecisionResult v =
     (case v of
        RArray [RInt code, RBulk stored] \<Rightarrow>
          if code < - 2 \<or> 2 < code then Inl GInvalid
          else if stored = [] then Inl GInvalid
          else Inr (code, stored)
      | _ \<Rightarrow> Inl GInvalid)"

lemma eval_result_reply [simp]:
  "platformGenerationEvalResult (reply c stored) =
     (if c \<noteq> 0 \<and> c \<noteq> 1 then Inl GInvalid else if stored = [] then Inl GConflict else Inr (c = 1, stored))"
  by (simp add: platformGenerationEvalResult_def reply_def)

lemma decision_result_reply [simp]:
  "platformGenerationDecisionResult (reply c stored) =
     (if c < - 2 \<or> 2 < c then Inl GInvalid else if stored = [] then Inl GInvalid else Inr (c, stored))"
  by (simp add: platformGenerationDecisionResult_def reply_def)

section \<open>Reading\<close>

text \<open>The stored text and its record, or the pair the caller returns.\<close>

definition read_record :: "io \<Rightarrow> int \<Rightarrow> bytes \<Rightarrow> redis \<Rightarrow> gen_error + (bytes \<times> snapshot)" where
  "read_record net uid gid r =
     (if \<not> ioRead net then Inl GReadFailed
      else case redis_get r (gen_key uid gid) of
        None \<Rightarrow> Inl GNotFound
      | Some raw \<Rightarrow>
          (case decodePlatformGeneration raw of
             None \<Rightarrow> Inl GInvalid
           | Some s \<Rightarrow> if gID s \<noteq> gid then Inl GInvalid else Inr (raw, s)))"

definition store_Get :: "io \<Rightarrow> int \<Rightarrow> bytes \<Rightarrow> redis \<Rightarrow> gen_result" where
  "store_Get net uid gid r =
     (if \<not> validatePlatformGenerationIdentity uid gid then failed GInvalid
      else if \<not> ioClient net then failed GUnavailable
      else case read_record net uid gid r of Inl er \<Rightarrow> failed er | Inr (raw, s) \<Rightarrow> (s, None))"

section \<open>Mutations\<close>

text \<open>What every mutation does to the record its change returns.\<close>

definition settle_lease :: "int \<Rightarrow> snapshot \<Rightarrow> snapshot" where
  "settle_lease now s =
     (if gState s = Cancelling then s\<lparr>gUpdated := now, gLeaseUntil := 0\<rparr>
      else if gState s \<noteq> Running then s\<lparr>gUpdated := now, gLeaseOwner := [], gLeaseUntil := 0\<rparr>
      else s\<lparr>gUpdated := now\<rparr>)"

text \<open>Up to the script: the pair it returns early, or the text it read and the text it writes.\<close>

definition mutate_prepare :: "io \<Rightarrow> int \<Rightarrow> bytes \<Rightarrow> int \<Rightarrow> change \<Rightarrow> redis \<Rightarrow> gen_result + (bytes \<times> bytes)" where
  "mutate_prepare net uid gid now change r =
     (if \<not> validatePlatformGenerationIdentity uid gid \<or> \<not> platformSSEV2SafeInteger now then Inl (failed GInvalid)
      else if \<not> ioClient net then Inl (failed GUnavailable)
      else case read_record net uid gid r of
        Inl er \<Rightarrow> Inl (failed er)
      | Inr (raw, current) \<Rightarrow>
          if now < gUpdated current then Inl (current, Some GConflict)
          else case change (clonePlatformGeneration current) of
            Inl er \<Rightarrow> Inl (current, Some er)
          | Inr next \<Rightarrow>
              (case encodePlatformGeneration (settle_lease now next) of
                 None \<Rightarrow> Inl (current, Some GInvalid)
               | Some nextRaw \<Rightarrow> Inr (raw, nextRaw)))"

definition mutate_finish :: "redis_value option \<Rightarrow> gen_result" where
  "mutate_finish rep =
     (case rep of
        None \<Rightarrow> failed GTransitionFailed
      | Some v \<Rightarrow>
          (case platformGenerationEvalResult v of
             Inl er \<Rightarrow> failed er
           | Inr (changed, stored) \<Rightarrow>
               (case decodePlatformGeneration stored of
                  None \<Rightarrow> failed GInvalid
                | Some s \<Rightarrow> if changed then (s, None) else (s, Some GConflict))))"

definition mutate :: "io \<Rightarrow> int \<Rightarrow> bytes \<Rightarrow> int \<Rightarrow> change \<Rightarrow> redis \<Rightarrow> redis \<Rightarrow> gen_result \<times> redis" where
  "mutate net uid gid now change r1 r2 =
     (case mutate_prepare net uid gid now change r1 of
        Inl res \<Rightarrow> (res, r2)
      | Inr (raw, nextRaw) \<Rightarrow>
          let (rep, r3) = redis_eval (ioEval net) (platformGenerationCASScript (gen_key uid gid) raw nextRaw) r2
          in (mutate_finish rep, r3))"

definition owned_change :: "bytes \<Rightarrow> int \<Rightarrow> change \<Rightarrow> change" where
  "owned_change digest now change s =
     (if platformGenerationOwnedMutationAuthorized s digest now then change s else Inl GConflict)"

definition mutateOwned :: "io \<Rightarrow> int \<Rightarrow> bytes \<Rightarrow> bytes \<Rightarrow> int \<Rightarrow> change \<Rightarrow> redis \<Rightarrow> redis \<Rightarrow> gen_result \<times> redis" where
  "mutateOwned net uid gid token now change r1 r2 =
     (if \<not> ioContext net \<or> \<not> validPlatformGenerationLeaseToken token then (failed GInvalid, r2)
      else mutate net uid gid now (owned_change (platformGenerationLeaseDigest token) now change) r1 r2)"

section \<open>The changes\<close>

definition running_model :: "snapshot \<Rightarrow> bytes \<Rightarrow> gen_model option" where
  "running_model s m =
     (case map_of (states_of s) m of
        None \<Rightarrow> None
      | Some x \<Rightarrow> if gState s = Running \<and> mState x = Running then Some x else None)"

definition change_delta :: "bytes \<Rightarrow> int \<Rightarrow> change" where
  "change_delta m sq s =
     (case running_model s m of
        None \<Rightarrow> Inl GConflict
      | Some x \<Rightarrow> if sq \<noteq> mSeq x + 1 then Inl GConflict else Inr (put_state m (x\<lparr>mSeq := sq\<rparr>) s))"

definition change_done :: "bytes \<Rightarrow> int \<Rightarrow> change" where
  "change_done m lastSeq s =
     (case running_model s m of
        None \<Rightarrow> Inl GConflict
      | Some x \<Rightarrow> if mSeq x \<noteq> lastSeq then Inl GConflict else Inr (put_state m (x\<lparr>mState := Completed\<rparr>) s))"

definition change_model_failed :: "bytes \<Rightarrow> bytes \<Rightarrow> change" where
  "change_model_failed m code s =
     (case running_model s m of
        None \<Rightarrow> Inl GConflict
      | Some x \<Rightarrow> Inr (put_state m (x\<lparr>mState := Failed, mError := code\<rparr>) s))"

definition change_request_cancel :: change where
  "change_request_cancel s = (if gState s \<noteq> Running then Inl GConflict else Inr (s\<lparr>gState := Cancelling\<rparr>))"

definition cancel_running :: "gen_model \<Rightarrow> gen_model" where
  "cancel_running x = (if mState x = Running then x\<lparr>mState := Cancelled\<rparr> else x)"

definition fail_running :: "bytes \<Rightarrow> gen_model \<Rightarrow> gen_model" where
  "fail_running code x = (if mState x = Running then x\<lparr>mState := Failed, mError := code\<rparr> else x)"

definition map_states :: "(gen_model \<Rightarrow> gen_model) \<Rightarrow> snapshot \<Rightarrow> snapshot" where
  "map_states f s = s\<lparr>gModelStates := Some (sm_map f (states_of s))\<rparr>"

definition acknowledgeCancelledOwnedSnapshot :: change where
  "acknowledgeCancelledOwnedSnapshot s =
     (if gState s \<noteq> Cancelling then Inl GConflict
      else Inr ((map_states cancel_running s)\<lparr>gState := Cancelled\<rparr>))"

definition change_begin_commit :: change where
  "change_begin_commit s =
     (if gState s \<noteq> Running then Inl GConflict
      else if \<not> list_all (\<lambda>m. mState (state_at s m) = Completed \<or> mState (state_at s m) = Failed) (models_of s)
        then Inl GConflict
      else if successfulModels s = 0 then Inl GConflict
      else Inr (s\<lparr>gState := Committing\<rparr>))"

fun complete_loop :: "(bytes \<times> bytes) list \<Rightarrow> bytes list \<Rightarrow> bytes list \<Rightarrow> nat \<Rightarrow> snapshot \<Rightarrow> gen_error + (nat \<times> snapshot)" where
  "complete_loop guids [] seen n s = Inr (n, s)"
| "complete_loop guids (m # ms) seen n s =
     (if mState (state_at s m) \<noteq> Completed then complete_loop guids ms seen n s
      else case map_of guids m of
        None \<Rightarrow> Inl GInvalid
      | Some g \<Rightarrow>
          if \<not> platformGenerationMessageGUID g then Inl GInvalid
          else if g \<in> set seen then Inl GInvalid
          else complete_loop guids ms (g # seen) (Suc n) (put_state m ((state_at s m)\<lparr>mGUID := g\<rparr>) s))"

definition change_complete :: "(bytes \<times> bytes) list \<Rightarrow> change" where
  "change_complete guids s =
     (if gState s \<noteq> Committing then Inl GConflict
      else case complete_loop guids (models_of s) [] 0 s of
        Inl er \<Rightarrow> Inl er
      | Inr (n, s') \<Rightarrow> if length guids \<noteq> n then Inl GInvalid else Inr (s'\<lparr>gState := Completed\<rparr>))"

definition change_fail_stale :: "bytes \<Rightarrow> int \<Rightarrow> change" where
  "change_fail_stale code now s =
     (if gState s \<noteq> Committing \<or> now - gUpdated s < platformGenerationConvergenceWindow then Inl GConflict
      else Inr (s\<lparr>gState := Failed, gError := code\<rparr>))"

definition failOwnedSnapshot :: "bytes \<Rightarrow> change" where
  "failOwnedSnapshot code s =
     (if gState s \<noteq> Running then Inl GConflict
      else Inr ((map_states (fail_running code) s)\<lparr>gState := Failed, gError := code\<rparr>))"

section \<open>The mutating operations\<close>

definition delta_ok :: "bytes \<Rightarrow> int \<Rightarrow> bool" where
  "delta_ok m sq \<longleftrightarrow> platformSSEV2ModelIdentifier m \<and> platformSSEV2SafeInteger sq \<and> sq \<noteq> 0"

definition RecordDelta where
  "RecordDelta net uid gid m sq now r1 r2 =
     (if \<not> delta_ok m sq then (failed GInvalid, r2) else mutate net uid gid now (change_delta m sq) r1 r2)"

definition RecordDeltaOwned where
  "RecordDeltaOwned net uid gid token m sq now r1 r2 =
     (if \<not> delta_ok m sq then (failed GInvalid, r2) else mutateOwned net uid gid token now (change_delta m sq) r1 r2)"

definition MarkModelDone where
  "MarkModelDone net uid gid m lastSeq now r1 r2 =
     (if \<not> platformSSEV2ModelIdentifier m \<or> \<not> platformSSEV2SafeInteger lastSeq then (failed GInvalid, r2)
      else mutate net uid gid now (change_done m lastSeq) r1 r2)"

definition MarkModelDoneOwned where
  "MarkModelDoneOwned net uid gid token m lastSeq now r1 r2 =
     (if \<not> platformSSEV2ModelIdentifier m \<or> \<not> platformSSEV2SafeInteger lastSeq then (failed GInvalid, r2)
      else mutateOwned net uid gid token now (change_done m lastSeq) r1 r2)"

definition MarkModelFailed where
  "MarkModelFailed net uid gid m code now r1 r2 =
     (if \<not> platformSSEV2ModelIdentifier m \<or> \<not> platformGenerationStableCode code then (failed GInvalid, r2)
      else mutate net uid gid now (change_model_failed m code) r1 r2)"

definition MarkModelFailedOwned where
  "MarkModelFailedOwned net uid gid token m code now r1 r2 =
     (if \<not> platformSSEV2ModelIdentifier m \<or> \<not> platformGenerationStableCode code then (failed GInvalid, r2)
      else mutateOwned net uid gid token now (change_model_failed m code) r1 r2)"

definition RequestCancel where
  "RequestCancel net uid gid now r1 r2 = mutate net uid gid now change_request_cancel r1 r2"

definition MarkCancelled where
  "MarkCancelled net uid gid now r1 r2 = mutate net uid gid now acknowledgeCancelledOwnedSnapshot r1 r2"

definition AcknowledgeCancelledOwned where
  "AcknowledgeCancelledOwned net uid gid token now r1 r2 =
     mutateOwned net uid gid token now acknowledgeCancelledOwnedSnapshot r1 r2"

definition BeginCommit where
  "BeginCommit net uid gid now r1 r2 = mutate net uid gid now change_begin_commit r1 r2"

definition BeginCommitOwned where
  "BeginCommitOwned net uid gid token now r1 r2 = mutateOwned net uid gid token now change_begin_commit r1 r2"

definition Complete_op where
  "Complete_op net uid gid guids now r1 r2 = mutate net uid gid now (change_complete guids) r1 r2"

definition Fail_op where
  "Fail_op net uid gid code now r1 r2 =
     (if \<not> platformGenerationStableCode code then (failed GInvalid, r2)
      else mutate net uid gid now (failOwnedSnapshot code) r1 r2)"

definition FailRunningOwned where
  "FailRunningOwned net uid gid token code now r1 r2 =
     (if \<not> platformGenerationStableCode code then (failed GInvalid, r2)
      else mutateOwned net uid gid token now (failOwnedSnapshot code) r1 r2)"

definition validatePlatformGenerationReconciliationRequest :: "io \<Rightarrow> int \<Rightarrow> bytes \<Rightarrow> int \<Rightarrow> bool" where
  "validatePlatformGenerationReconciliationRequest net uid gid now \<longleftrightarrow>
     ioContext net \<and> validatePlatformGenerationIdentity uid gid \<and> platformSSEV2SafeInteger now \<and> 0 < now"

definition FailStaleCommit where
  "FailStaleCommit net uid gid code now r1 r2 =
     (if \<not> validatePlatformGenerationReconciliationRequest net uid gid now \<or> \<not> platformGenerationStableCode code
      then (failed GInvalid, r2)
      else mutate net uid gid now (change_fail_stale code now) r1 r2)"

text \<open>\<open>expected[model]\<close> reads the empty string for a missing key.\<close>

definition platformGenerationGUIDMapMatches :: "snapshot \<Rightarrow> (bytes \<times> bytes) list \<Rightarrow> bool" where
  "platformGenerationGUIDMapMatches s expected \<longleftrightarrow>
     list_all (\<lambda>m. mState (state_at s m) = Completed \<longrightarrow>
       (case map_of expected m of None \<Rightarrow> [] | Some g \<Rightarrow> g) = mGUID (state_at s m)) (models_of s) \<and>
     successfulModels s = length expected"

text \<open>\<open>ReconcileComplete\<close> reads once more before its \<open>Complete\<close>: three Redis states.\<close>

definition ReconcileComplete where
  "ReconcileComplete net net' uid gid guids now r0 r1 r2 =
     (if \<not> validatePlatformGenerationReconciliationRequest net uid gid now then (failed GInvalid, r2)
      else case store_Get net uid gid r0 of
        (s, Some er) \<Rightarrow> (failed er, r2)
      | (s, None) \<Rightarrow>
          if gState s = Completed then
            (if platformGenerationGUIDMapMatches s guids then ((s, None), r2) else ((s, Some GConflict), r2))
          else case Complete_op net' uid gid guids now r1 r2 of
            ((done, er), r3) \<Rightarrow>
              if er = Some GConflict \<and> gState done = Completed \<and> platformGenerationGUIDMapMatches done guids
              then ((done, None), r3) else ((done, er), r3))"

end
