(* ===== verification/Generation_Store_Control.thy ===== *)
theory Generation_Store_Control
  imports Generation_Store
begin

text \<open>
  Claims, cancellation tombstones, lease renewal, expiry and the key scan
  (\<open>Claim\<close> of \<open>platform_generation_store.go\<close>, \<open>platform_generation_store_control.go\<close>).
\<close>

section \<open>Claim\<close>

record claim_result =
  clSnapshot :: snapshot
  clDuplicate :: bool
  clToken :: bytes

definition no_claim :: claim_result where
  "no_claim = \<lparr>clSnapshot = zero_snapshot, clDuplicate = False, clToken = []\<rparr>"

definition all_models :: "gen_model \<Rightarrow> bytes list \<Rightarrow> (bytes \<times> gen_model) list" where
  "all_models x ms = fold (\<lambda>m. sm_put m x) ms []"

definition copy_models :: "bytes list \<Rightarrow> bytes list option" where
  "copy_models ms = (if ms = [] then None else Some ms)"

definition claim_snapshot :: "claim_input \<Rightarrow> bytes \<Rightarrow> snapshot" where
  "claim_snapshot i digest =
     \<lparr>gID = inID i, gMode = inMode i, gModels = copy_models (inModels i), gState = Running,
      gModelStates = Some (all_models (zero_model\<lparr>mState := Running\<rparr>) (inModels i)),
      gCreated = inNow i, gUpdated = inNow i, gError = [], gLeaseOwner = digest,
      gLeaseUntil = inNow i + platformGenerationLeaseDuration\<rparr>"

definition claim_cancelled :: "claim_input \<Rightarrow> snapshot" where
  "claim_cancelled i =
     \<lparr>gID = inID i, gMode = inMode i, gModels = copy_models (inModels i), gState = Cancelled,
      gModelStates = Some (all_models (zero_model\<lparr>mState := Cancelled\<rparr>) (inModels i)),
      gCreated = inNow i, gUpdated = inNow i, gError = [], gLeaseOwner = [], gLeaseUntil = 0\<rparr>"

definition claim_finish :: "claim_input \<Rightarrow> bytes \<Rightarrow> redis_value option \<Rightarrow> claim_result \<times> gen_error option" where
  "claim_finish i token rep =
     (case rep of
        None \<Rightarrow> (no_claim, Some GUnavailable)
      | Some v \<Rightarrow>
          (case platformGenerationDecisionResult v of
             Inl er \<Rightarrow> (no_claim, Some er)
           | Inr (decision, stored) \<Rightarrow>
               (case decodePlatformGeneration stored of
                  None \<Rightarrow> (no_claim, Some GInvalid)
                | Some s \<Rightarrow>
                    if gID s \<noteq> inID i then (no_claim\<lparr>clSnapshot := s, clDuplicate := decision \<noteq> 1\<rparr>, Some GInvalid)
                    else if decision \<noteq> 1 then (no_claim\<lparr>clSnapshot := s, clDuplicate := True\<rparr>, Some GConflict)
                    else (no_claim\<lparr>clSnapshot := s, clToken := token\<rparr>, None))))"

definition Claim :: "cjson \<Rightarrow> io \<Rightarrow> bytes \<Rightarrow> claim_input \<Rightarrow> redis \<Rightarrow> (claim_result \<times> gen_error option) \<times> redis" where
  "Claim cjson net random i r =
     (if \<not> validatePlatformGenerationInput i then ((no_claim, Some GInvalid), r)
      else if platformSSEV2MaxSafeInteger - platformGenerationLeaseDuration < inNow i then ((no_claim, Some GInvalid), r)
      else if \<not> ioClient net then ((no_claim, Some GUnavailable), r)
      else case newPlatformGenerationLeaseFrom random of
        Inl er \<Rightarrow> ((no_claim, Some er), r)
      | Inr (token, digest) \<Rightarrow>
          (case encodePlatformGeneration (claim_snapshot i digest) of
             None \<Rightarrow> ((no_claim, Some GInvalid), r)
           | Some encoded \<Rightarrow>
               (case encodePlatformGeneration (claim_cancelled i) of
                  None \<Rightarrow> ((no_claim, Some GInvalid), r)
                | Some enriched \<Rightarrow>
                    let (rep, r') = redis_eval (ioEval net)
                          (platformGenerationClaimScript cjson (gen_key (inUser i) (inID i)) encoded enriched
                             platformGenerationTTL (inID i) Cancelled platformSSEV2MaxSafeInteger) r
                    in (claim_finish i token rep, r'))))"

section \<open>CancelOrCreate\<close>

record cancel_decision =
  cdSnapshot :: snapshot
  cdCreated :: bool
  cdTransitioned :: bool

definition no_decision :: cancel_decision where
  "no_decision = \<lparr>cdSnapshot = zero_snapshot, cdCreated = False, cdTransitioned = False\<rparr>"

definition tombstone :: "bytes \<Rightarrow> int \<Rightarrow> snapshot" where
  "tombstone gid now =
     \<lparr>gID = gid, gMode = 0, gModels = Some [], gState = Cancelled, gModelStates = Some [], gCreated = now,
      gUpdated = now, gError = [], gLeaseOwner = [], gLeaseUntil = 0\<rparr>"

text \<open>What the first read tells the script: expected text, transition to write, observed state.\<close>

definition cancel_prepare :: "bytes \<Rightarrow> int \<Rightarrow> bytes option \<Rightarrow> (bytes \<times> bytes \<times> int) option" where
  "cancel_prepare gid now found =
     (case found of
        None \<Rightarrow> Some ([], [], - 1)
      | Some raw \<Rightarrow>
          (case decodePlatformGeneration raw of
             None \<Rightarrow> Some (raw, [], - 1)
           | Some current \<Rightarrow>
               if gID current \<noteq> gid then Some (raw, [], - 1)
               else if gState current = Running \<and> platformGenerationLatestRunningActivity current \<le> now then
                 map_option (\<lambda>nextRaw. (raw, nextRaw, gState current))
                   (encodePlatformGeneration
                      ((clonePlatformGeneration current)\<lparr>gState := Cancelling, gUpdated := now, gLeaseUntil := 0\<rparr>))
               else Some (raw, [], gState current)))"

definition cancel_finish :: "bytes \<Rightarrow> redis_value option \<Rightarrow> cancel_decision \<times> gen_error option" where
  "cancel_finish gid rep =
     (case rep of
        None \<Rightarrow> (no_decision, Some GUnavailable)
      | Some v \<Rightarrow>
          (case platformGenerationDecisionResult v of
             Inl er \<Rightarrow> (no_decision, Some er)
           | Inr (code, stored) \<Rightarrow>
               (case decodePlatformGeneration stored of
                  None \<Rightarrow> (no_decision, Some GInvalid)
                | Some s \<Rightarrow>
                    if gID s \<noteq> gid then (no_decision, Some GInvalid)
                    else let d = no_decision\<lparr>cdSnapshot := s\<rparr> in
                      if code = 0 then (d, None)
                      else if code = 1 then (d\<lparr>cdCreated := True\<rparr>, None)
                      else if code = 2 then (d\<lparr>cdTransitioned := True\<rparr>, None)
                      else if code = - 2 then (d, Some GConflict)
                      else (no_decision, Some GInvalid))))"

definition CancelOrCreate ::
  "cjson \<Rightarrow> io \<Rightarrow> int \<Rightarrow> bytes \<Rightarrow> int \<Rightarrow> redis \<Rightarrow> redis \<Rightarrow> (cancel_decision \<times> gen_error option) \<times> redis" where
  "CancelOrCreate cjson net uid gid now r1 r2 =
     (if \<not> ioContext net \<or> \<not> validatePlatformGenerationIdentity uid gid \<or> \<not> platformSSEV2SafeInteger now \<or> now \<le> 0
      then ((no_decision, Some GInvalid), r2)
      else if \<not> ioClient net then ((no_decision, Some GUnavailable), r2)
      else case encodePlatformGeneration (tombstone gid now) of
        None \<Rightarrow> ((no_decision, Some GInvalid), r2)
      | Some raw \<Rightarrow>
          if \<not> ioRead net then ((no_decision, Some GUnavailable), r2)
          else case cancel_prepare gid now (redis_get r1 (gen_key uid gid)) of
            None \<Rightarrow> ((no_decision, Some GInvalid), r2)
          | Some (expected, transitioned, state) \<Rightarrow>
              let (rep, r3) = redis_eval (ioEval net)
                    (platformGenerationCancelOrCreateScript cjson (gen_key uid gid) raw platformGenerationTTL
                       expected transitioned state Running) r2
              in (cancel_finish gid rep, r3))"

section \<open>Lease renewal and convergence\<close>

text \<open>\<open>loadPlatformGenerationForControl\<close> reports a failed read as an unavailable store.\<close>

definition loadPlatformGenerationForControl :: "io \<Rightarrow> int \<Rightarrow> bytes \<Rightarrow> redis \<Rightarrow> gen_error + (bytes \<times> snapshot)" where
  "loadPlatformGenerationForControl net uid gid r =
     (if \<not> ioRead net then Inl GUnavailable
      else case redis_get r (gen_key uid gid) of
        None \<Rightarrow> Inl GNotFound
      | Some raw \<Rightarrow>
          (case decodePlatformGeneration raw of
             None \<Rightarrow> Inl GInvalid
           | Some s \<Rightarrow> if gID s \<noteq> gid then Inl GInvalid else Inr (raw, s)))"

definition control_finish :: "bytes \<Rightarrow> redis_value option \<Rightarrow> gen_result" where
  "control_finish gid rep =
     (case rep of
        None \<Rightarrow> failed GUnavailable
      | Some v \<Rightarrow>
          (case platformGenerationEvalResult v of
             Inl er \<Rightarrow> failed (if er = GConflict then GNotFound else GInvalid)
           | Inr (changed, raw) \<Rightarrow>
               (case decodePlatformGeneration raw of
                  None \<Rightarrow> failed GInvalid
                | Some s \<Rightarrow>
                    if gID s \<noteq> gid then failed GInvalid
                    else if changed then (s, None) else (s, Some GConflict))))"

definition writePlatformGenerationControlCAS ::
  "io \<Rightarrow> int \<Rightarrow> bytes \<Rightarrow> bytes \<Rightarrow> snapshot \<Rightarrow> redis \<Rightarrow> gen_result \<times> redis" where
  "writePlatformGenerationControlCAS net uid gid expectedRaw next r =
     (case encodePlatformGeneration next of
        None \<Rightarrow> (failed GInvalid, r)
      | Some nextRaw \<Rightarrow>
          let (rep, r') = redis_eval (ioEval net) (platformGenerationCASScript (gen_key uid gid) expectedRaw nextRaw) r
          in (control_finish gid rep, r'))"

definition renewPlatformGenerationLeaseSnapshot :: "int \<Rightarrow> snapshot \<Rightarrow> snapshot" where
  "renewPlatformGenerationLeaseSnapshot now s =
     s\<lparr>gUpdated := now, gLeaseUntil := now + platformGenerationLeaseDuration\<rparr>"

definition control_ok :: "io \<Rightarrow> int \<Rightarrow> bytes \<Rightarrow> int \<Rightarrow> bool" where
  "control_ok net uid gid now \<longleftrightarrow>
     ioContext net \<and> validatePlatformGenerationIdentity uid gid \<and> platformSSEV2SafeInteger now \<and> 0 < now"

definition RenewLease :: "io \<Rightarrow> int \<Rightarrow> bytes \<Rightarrow> bytes \<Rightarrow> int \<Rightarrow> redis \<Rightarrow> redis \<Rightarrow> gen_result \<times> redis" where
  "RenewLease net uid gid token now r1 r2 =
     (if \<not> control_ok net uid gid now \<or> \<not> validPlatformGenerationLeaseToken token \<or>
         platformSSEV2MaxSafeInteger - platformGenerationLeaseDuration < now
      then (failed GInvalid, r2)
      else if \<not> ioClient net then (failed GUnavailable, r2)
      else case loadPlatformGenerationForControl net uid gid r1 of
        Inl er \<Rightarrow> (failed er, r2)
      | Inr (raw, current) \<Rightarrow>
          if \<not> platformGenerationRunningLeaseAuthorized current (platformGenerationLeaseDigest token) now \<or>
             now < platformGenerationLatestRunningActivity current
          then ((current, Some GConflict), r2)
          else writePlatformGenerationControlCAS net uid gid raw
                 (renewPlatformGenerationLeaseSnapshot now (clonePlatformGeneration current)) r2)"

definition expired_snapshot :: "int \<Rightarrow> snapshot \<Rightarrow> snapshot" where
  "expired_snapshot now s =
     (map_states (fail_running ''internal_error'') s)\<lparr>gState := Failed, gError := ''internal_error'', gUpdated := now,
        gLeaseOwner := [], gLeaseUntil := 0\<rparr>"

definition FailExpiredRunning :: "io \<Rightarrow> int \<Rightarrow> bytes \<Rightarrow> int \<Rightarrow> redis \<Rightarrow> redis \<Rightarrow> gen_result \<times> redis" where
  "FailExpiredRunning net uid gid now r1 r2 =
     (if \<not> control_ok net uid gid now then (failed GInvalid, r2)
      else if \<not> ioClient net then (failed GUnavailable, r2)
      else case loadPlatformGenerationForControl net uid gid r1 of
        Inl er \<Rightarrow> (failed er, r2)
      | Inr (raw, current) \<Rightarrow>
          if gState current \<noteq> Running \<or> now < gUpdated current \<or>
             (gLeaseUntil current \<noteq> 0 \<and> now < gLeaseUntil current)
          then ((current, Some GConflict), r2)
          else writePlatformGenerationControlCAS net uid gid raw
                 (expired_snapshot now (clonePlatformGeneration current)) r2)"

definition converged_snapshot :: "int \<Rightarrow> snapshot \<Rightarrow> snapshot" where
  "converged_snapshot now s =
     (map_states cancel_running s)\<lparr>gState := Cancelled, gUpdated := now, gLeaseOwner := [], gLeaseUntil := 0\<rparr>"

definition ConvergeStaleCancelling :: "io \<Rightarrow> int \<Rightarrow> bytes \<Rightarrow> int \<Rightarrow> redis \<Rightarrow> redis \<Rightarrow> gen_result \<times> redis" where
  "ConvergeStaleCancelling net uid gid now r1 r2 =
     (if \<not> control_ok net uid gid now then (failed GInvalid, r2)
      else if \<not> ioClient net then (failed GUnavailable, r2)
      else case loadPlatformGenerationForControl net uid gid r1 of
        Inl er \<Rightarrow> (failed er, r2)
      | Inr (raw, current) \<Rightarrow>
          if gState current \<noteq> Cancelling \<or> now < gUpdated current \<or>
             now - gUpdated current < platformGenerationConvergenceWindow
          then ((current, Some GConflict), r2)
          else writePlatformGenerationControlCAS net uid gid raw
                 (converged_snapshot now (clonePlatformGeneration current)) r2)"

section \<open>Scanning keys\<close>

definition allPlatformGenerationDecimal :: "bytes \<Rightarrow> bool" where
  "allPlatformGenerationDecimal v \<longleftrightarrow> list_all is_digit v \<and> v \<noteq> []"

definition count_char :: "char \<Rightarrow> bytes \<Rightarrow> nat" where
  "count_char c s = length (filter (\<lambda>x. x = c) s)"

text \<open>The identity a key names; \<open>None\<close> where the loop goes on to the next key.\<close>

definition scan_key :: "bytes \<Rightarrow> (int \<times> bytes) option" where
  "scan_key key =
     (case strip_prefix platformGenerationPrefix key of
        None \<Rightarrow> None
      | Some suffix \<Rightarrow>
          if count_char CHR '':'' suffix \<noteq> 1 then None
          else let userText = takeWhile (\<lambda>c. c \<noteq> CHR '':'') suffix;
                   gid = tl (dropWhile (\<lambda>c. c \<noteq> CHR '':'') suffix)
               in if userText = [] \<or> hd userText = CHR ''0'' \<or> \<not> allPlatformGenerationDecimal userText \<or>
                     \<not> platformSSEV2CanonicalUUID gid
                  then None
                  else case parse_int64 userText of
                    None \<Rightarrow> None
                  | Some uid \<Rightarrow> if uid \<le> 0 \<or> format_int uid \<noteq> userText then None else Some (uid, gid))"

text \<open>\<open>ScanGenerationKeys\<close> on the page of keys and the cursor that \<open>SCAN\<close> returns.\<close>

definition ScanGenerationKeys ::
  "io \<Rightarrow> nat \<Rightarrow> int \<Rightarrow> bytes list \<Rightarrow> nat \<Rightarrow> ((int \<times> bytes) list \<times> nat) \<times> gen_error option" where
  "ScanGenerationKeys net cursor cnt page next =
     (if \<not> ioContext net \<or> cnt \<le> 0 \<or> 1000 < cnt then (([], cursor), Some GInvalid)
      else if \<not> ioClient net then (([], cursor), Some GUnavailable)
      else if \<not> ioRead net then (([], cursor), Some GUnavailable)
      else ((List.map_filter scan_key page, next), None))"

lemma span_char:
  "c \<notin> set d \<Longrightarrow> takeWhile (\<lambda>x. x \<noteq> c) (d @ c # g) = d \<and> dropWhile (\<lambda>x. x \<noteq> c) (d @ c # g) = c # g"
  by (induction d) auto

lemma count_char_member: "count_char c s \<noteq> 0 \<Longrightarrow> c \<in> set s"
  by (induction s) (auto simp: count_char_def split: if_splits)

lemma scan_gen_key:
  assumes "0 < uid" "uid < 2 ^ 63" "platformSSEV2CanonicalUUID gid"
  shows "scan_key (gen_key uid gid) = Some (uid, gid)"
proof -
  let ?d = "format_int uid"
  have digits: "\<forall>c \<in> set ?d. is_digit c" using assms nat_digits_digits by (simp add: format_int_def)
  have colon: "CHR '':'' \<notin> set ?d" using digits by (auto simp: is_digit_def)
  have gid: "CHR '':'' \<notin> set gid"
    using assms(3) uuid_chars_no_colon by (auto simp: platformSSEV2CanonicalUUID_def)
  have ne: "?d \<noteq> []" using assms by (simp add: format_int_def)
  have lead: "hd ?d \<noteq> CHR ''0''"
    using assms nat_digits_leading[of "nat uid"] by (auto simp: format_int_def)
  have strip: "strip_prefix platformGenerationPrefix (gen_key uid gid) = Some (?d @ CHR '':'' # gid)"
    by (simp add: strip_prefix_def gen_key_def)
  have cnt: "count_char CHR '':'' (?d @ CHR '':'' # gid) = 1"
    using colon gid by (simp add: count_char_def filter_empty_conv) (metis (mono_tags, lifting) filter_False)
  have split: "takeWhile (\<lambda>c. c \<noteq> CHR '':'') (?d @ CHR '':'' # gid) = ?d"
    "dropWhile (\<lambda>c. c \<noteq> CHR '':'') (?d @ CHR '':'' # gid) = CHR '':'' # gid"
    using span_char[OF colon] by auto
  have "parse_int64 ?d = Some uid" using assms by simp
  then show ?thesis
    using digits ne lead assms(1,3)
    by (simp add: scan_key_def strip cnt split allPlatformGenerationDecimal_def list_all_iff)
qed

lemma scan_key_gen_key: "scan_key key = Some (uid, gid) \<Longrightarrow> key = gen_key uid gid \<and> validatePlatformGenerationIdentity uid gid"
proof -
  assume scan: "scan_key key = Some (uid, gid)"
  obtain suffix where suffix: "strip_prefix platformGenerationPrefix key = Some suffix"
    using scan by (auto simp: scan_key_def split: option.splits)
  let ?u = "takeWhile (\<lambda>c. c \<noteq> CHR '':'') suffix" and ?rest = "dropWhile (\<lambda>c. c \<noteq> CHR '':'') suffix"
  have facts: "count_char CHR '':'' suffix = 1" "gid = tl ?rest" "platformSSEV2CanonicalUUID gid" "0 < uid" "format_int uid = ?u"
    using scan suffix by (auto simp: scan_key_def Let_def split: if_splits option.splits)
  have "?rest \<noteq> []"
    using count_char_member[of "CHR '':''" suffix] facts(1) by (auto simp: dropWhile_eq_Nil_conv)
  then have rest: "?rest = CHR '':'' # gid" using facts(2) hd_dropWhile[of "\<lambda>c. c \<noteq> CHR '':''" suffix]
    by (metis list.collapse)
  have "suffix = ?u @ ?rest" by simp
  then have "suffix = format_int uid @ CHR '':'' # gid" using facts(5) rest by simp
  moreover have "key = platformGenerationPrefix @ suffix"
    using suffix by (auto simp: strip_prefix_def split: if_splits) (metis append_take_drop_id)
  ultimately show ?thesis
    using facts(3,4) by (simp add: gen_key_def validatePlatformGenerationIdentity_def)
qed

end
