(* ===== verification/Generation_Changes.thy ===== *)
theory Generation_Changes
  imports Generation_Store_Control
begin

text \<open>
  The lifecycle contract of the store's changes.  The locale \<open>store_change\<close> is the interface between
  a change and the compare-and-set machinery: a change keeps the record a proper map and moves it
  along an edge of the lifecycle.  Each change of the store is an interpretation.
\<close>

section \<open>The lifecycle\<close>

definition lifecycle_edge :: "int \<Rightarrow> int \<Rightarrow> bool" where
  "lifecycle_edge a b \<longleftrightarrow>
     (a, b) \<in> {(Running, Running), (Running, Cancelling), (Running, Committing), (Running, Failed),
               (Cancelling, Cancelled), (Committing, Completed), (Committing, Failed)}"

text \<open>A model counts its deltas while it runs, settles once, and learns its message on completion.\<close>

definition model_step :: "gen_model \<Rightarrow> gen_model \<Rightarrow> bool" where
  "model_step x y \<longleftrightarrow>
     y = x \<or>
     (mState x = Running \<and> mState y = Running \<and> mSeq y = mSeq x + 1) \<or>
     (mState x = Running \<and> mState y \<in> {Completed, Failed, Cancelled} \<and> mSeq y = mSeq x) \<or>
     (mState x = Completed \<and> mState y = Completed \<and> mSeq y = mSeq x \<and> mError y = mError x)"

definition same_identity :: "snapshot \<Rightarrow> snapshot \<Rightarrow> bool" where
  "same_identity s s' \<longleftrightarrow> gID s' = gID s \<and> gMode s' = gMode s \<and> models_of s' = models_of s \<and> gCreated s' = gCreated s"

definition lifecycle_ok :: "snapshot \<Rightarrow> snapshot \<Rightarrow> bool" where
  "lifecycle_ok s s' \<longleftrightarrow> same_identity s s' \<and> lifecycle_edge (gState s) (gState s') \<and>
     (\<forall>m. model_step (state_at s m) (state_at s' m))"

lemma model_step_refl [simp]: "model_step x x"
  by (simp add: model_step_def)

lemma state_at_put:
  "snapshot_wf s \<Longrightarrow> state_at (put_state m x s) k = (if k = m then x else state_at s k)"
  by (simp add: state_at_def put_state_def snapshot_wf_def)

lemma put_state_simps [simp]:
  "gID (put_state m x s) = gID s" "gMode (put_state m x s) = gMode s" "gModels (put_state m x s) = gModels s"
  "gState (put_state m x s) = gState s" "gCreated (put_state m x s) = gCreated s" "gUpdated (put_state m x s) = gUpdated s"
  "gError (put_state m x s) = gError s" "gLeaseOwner (put_state m x s) = gLeaseOwner s"
  "gLeaseUntil (put_state m x s) = gLeaseUntil s" "states_of (put_state m x s) = sm_put m x (states_of s)"
  by (simp_all add: put_state_def)

lemma map_states_simps [simp]:
  "gID (map_states f s) = gID s" "gMode (map_states f s) = gMode s" "gModels (map_states f s) = gModels s"
  "gState (map_states f s) = gState s" "gCreated (map_states f s) = gCreated s" "gUpdated (map_states f s) = gUpdated s"
  "gError (map_states f s) = gError s" "gLeaseOwner (map_states f s) = gLeaseOwner s"
  "gLeaseUntil (map_states f s) = gLeaseUntil s" "states_of (map_states f s) = sm_map f (states_of s)"
  by (simp_all add: map_states_def)

lemma put_state_wf: "snapshot_wf s \<Longrightarrow> snapshot_wf (put_state m x s)"
  by (simp add: snapshot_wf_def)

lemma map_states_wf: "snapshot_wf s \<Longrightarrow> snapshot_wf (map_states f s)"
  by (simp add: snapshot_wf_def)

lemma state_at_map_states:
  "state_at (map_states f s) m = (case map_of (states_of s) m of None \<Rightarrow> zero_model | Some x \<Rightarrow> f x)"
  by (simp add: state_at_def split: option.split)

lemma state_at_cong: "gModelStates s' = gModelStates s \<Longrightarrow> state_at s' = state_at s"
  by (simp add: state_at_def fun_eq_iff)

lemma running_modelD:
  "running_model s m = Some x \<Longrightarrow> map_of (states_of s) m = Some x \<and> gState s = Running \<and> mState x = Running \<and> state_at s m = x"
  by (auto simp: running_model_def state_at_def split: option.splits if_splits)

section \<open>The interface\<close>

locale store_change =
  fixes change :: change
  assumes keeps_wf: "snapshot_wf s \<Longrightarrow> change s = Inr s' \<Longrightarrow> snapshot_wf s'"
    and lawful: "snapshot_wf s \<Longrightarrow> change s = Inr s' \<Longrightarrow> lifecycle_ok s s'"
begin

lemma settled_wf: "snapshot_wf s \<Longrightarrow> change (clonePlatformGeneration s) = Inr s' \<Longrightarrow> snapshot_wf (settle_lease now s')"
  using keeps_wf[of "clonePlatformGeneration s" s'] by (simp add: snapshot_wf_def settle_lease_def)

lemma clone_lawful:
  "snapshot_wf s \<Longrightarrow> change (clonePlatformGeneration s) = Inr s' \<Longrightarrow> lifecycle_ok s s'"
  using lawful[of "clonePlatformGeneration s" s']
  by (simp add: snapshot_wf_def lifecycle_ok_def same_identity_def state_at_def)

lemma settled_lawful:
  "snapshot_wf s \<Longrightarrow> change (clonePlatformGeneration s) = Inr s' \<Longrightarrow> lifecycle_ok s (settle_lease now s')"
proof -
  assume "snapshot_wf s" "change (clonePlatformGeneration s) = Inr s'"
  then have "lifecycle_ok s s'" by (rule clone_lawful)
  moreover have "state_at (settle_lease now s') = state_at s'"
    by (rule state_at_cong) (simp add: settle_lease_def)
  moreover have "gState (settle_lease now s') = gState s'"
    "same_identity s (settle_lease now s') = same_identity s s'"
    by (simp_all add: settle_lease_def same_identity_def)
  ultimately show ?thesis by (simp add: lifecycle_ok_def)
qed

text \<open>Nothing leaves a settled record: the change refuses it.\<close>

lemma terminal_refused:
  "snapshot_wf s \<Longrightarrow> gState s \<in> {Cancelled, Completed, Failed} \<Longrightarrow> \<exists>er. change s = Inl er"
  using lawful[of s] by (cases "change s") (auto simp: lifecycle_ok_def lifecycle_edge_def)

end

section \<open>The changes of the store\<close>

lemma put_running_lawful:
  assumes "snapshot_wf s" "running_model s m = Some x" "model_step x y"
  shows "lifecycle_ok s (put_state m y s)"
  using assms running_modelD[OF assms(2)]
  by (simp add: lifecycle_ok_def same_identity_def lifecycle_edge_def state_at_put)

lemma change_deltaD:
  "change_delta m sq s = Inr s' \<Longrightarrow> \<exists>x. running_model s m = Some x \<and> sq = mSeq x + 1 \<and> s' = put_state m (x\<lparr>mSeq := sq\<rparr>) s"
  by (auto simp: change_delta_def split: option.splits if_splits)

lemma change_doneD:
  "change_done m n s = Inr s' \<Longrightarrow> \<exists>x. running_model s m = Some x \<and> mSeq x = n \<and> s' = put_state m (x\<lparr>mState := Completed\<rparr>) s"
  by (auto simp: change_done_def split: option.splits if_splits)

lemma change_model_failedD:
  "change_model_failed m c s = Inr s' \<Longrightarrow>
   \<exists>x. running_model s m = Some x \<and> s' = put_state m (x\<lparr>mState := Failed, mError := c\<rparr>) s"
  by (auto simp: change_model_failed_def split: option.splits if_splits)

interpretation delta: store_change "change_delta m sq" for m sq
proof
  show "snapshot_wf s \<Longrightarrow> change_delta m sq s = Inr s' \<Longrightarrow> snapshot_wf s'" for s s'
    using put_state_wf by (auto dest!: change_deltaD)
  show "snapshot_wf s \<Longrightarrow> change_delta m sq s = Inr s' \<Longrightarrow> lifecycle_ok s s'" for s s'
    by (auto dest!: change_deltaD intro!: put_running_lawful simp: model_step_def dest: running_modelD)
qed

interpretation model_done: store_change "change_done m n" for m n
proof
  show "snapshot_wf s \<Longrightarrow> change_done m n s = Inr s' \<Longrightarrow> snapshot_wf s'" for s s'
    using put_state_wf by (auto dest!: change_doneD)
  show "snapshot_wf s \<Longrightarrow> change_done m n s = Inr s' \<Longrightarrow> lifecycle_ok s s'" for s s'
    by (auto dest!: change_doneD intro!: put_running_lawful simp: model_step_def dest: running_modelD)
qed

interpretation model_failed: store_change "change_model_failed m c" for m c
proof
  show "snapshot_wf s \<Longrightarrow> change_model_failed m c s = Inr s' \<Longrightarrow> snapshot_wf s'" for s s'
    using put_state_wf by (auto dest!: change_model_failedD)
  show "snapshot_wf s \<Longrightarrow> change_model_failed m c s = Inr s' \<Longrightarrow> lifecycle_ok s s'" for s s'
    by (auto dest!: change_model_failedD intro!: put_running_lawful simp: model_step_def dest: running_modelD)
qed

interpretation request_cancel: store_change change_request_cancel
  by unfold_locales
    (auto simp: change_request_cancel_def snapshot_wf_def lifecycle_ok_def same_identity_def lifecycle_edge_def
      state_at_def split: if_splits)

lemma map_states_lawful:
  assumes "\<And>x. model_step x (f x)" "s' = (map_states f s)\<lparr>gState := st, gError := er\<rparr>" "lifecycle_edge (gState s) st"
  shows "lifecycle_ok s s'"
proof -
  have "state_at s' = state_at (map_states f s)" using assms(2) by (intro state_at_cong) simp
  then have "model_step (state_at s m) (state_at s' m)" for m
    using assms(1) by (simp add: state_at_map_states) (simp add: state_at_def split: option.split)
  then show ?thesis using assms by (simp add: lifecycle_ok_def same_identity_def)
qed

lemma cancel_running_step: "model_step x (cancel_running x)"
  by (simp add: cancel_running_def model_step_def)

lemma fail_running_step: "model_step x (fail_running c x)"
  by (simp add: fail_running_def model_step_def)

interpretation acknowledge: store_change acknowledgeCancelledOwnedSnapshot
proof
  show "snapshot_wf s \<Longrightarrow> acknowledgeCancelledOwnedSnapshot s = Inr s' \<Longrightarrow> snapshot_wf s'" for s s'
    by (auto simp: acknowledgeCancelledOwnedSnapshot_def snapshot_wf_def split: if_splits)
  show "snapshot_wf s \<Longrightarrow> acknowledgeCancelledOwnedSnapshot s = Inr s' \<Longrightarrow> lifecycle_ok s s'" for s s'
    by (rule map_states_lawful[where f = cancel_running and st = Cancelled and er = "gError s", OF cancel_running_step])
      (auto simp: acknowledgeCancelledOwnedSnapshot_def lifecycle_edge_def split: if_splits)
qed

interpretation fail_owned: store_change "failOwnedSnapshot code" for code
proof
  show "snapshot_wf s \<Longrightarrow> failOwnedSnapshot code s = Inr s' \<Longrightarrow> snapshot_wf s'" for s s'
    by (auto simp: failOwnedSnapshot_def snapshot_wf_def split: if_splits)
  show "snapshot_wf s \<Longrightarrow> failOwnedSnapshot code s = Inr s' \<Longrightarrow> lifecycle_ok s s'" for s s'
    by (rule map_states_lawful[where f = "fail_running code" and st = Failed and er = code, OF fail_running_step])
      (auto simp: failOwnedSnapshot_def lifecycle_edge_def split: if_splits)
qed

interpretation begin_commit: store_change change_begin_commit
  by unfold_locales
    (auto simp: change_begin_commit_def snapshot_wf_def lifecycle_ok_def same_identity_def lifecycle_edge_def
      state_at_def split: if_splits)

interpretation fail_stale: store_change "change_fail_stale code now" for code now
  by unfold_locales
    (auto simp: change_fail_stale_def snapshot_wf_def lifecycle_ok_def same_identity_def lifecycle_edge_def
      state_at_def split: if_splits)

text \<open>The completion loop only fills in message identifiers of completed models.\<close>

definition guids_filled :: "snapshot \<Rightarrow> snapshot \<Rightarrow> bool" where
  "guids_filled s s' \<longleftrightarrow> (\<exists>st. s' = s\<lparr>gModelStates := st\<rparr>) \<and>
     (\<forall>m. state_at s' m = state_at s m \<or>
          (mState (state_at s m) = Completed \<and> (\<exists>g. state_at s' m = (state_at s m)\<lparr>mGUID := g\<rparr>)))"

lemma guids_filled_refl [simp]: "guids_filled s s"
  by (auto simp: guids_filled_def intro: exI[of _ "gModelStates s"])

lemma complete_loop_filled:
  "complete_loop guids ms seen n s = Inr (n', s') \<Longrightarrow> snapshot_wf s \<Longrightarrow> snapshot_wf s' \<and> guids_filled s s'"
proof (induction guids ms seen n s rule: complete_loop.induct)
  case (2 guids m ms seen n s)
  show ?case
  proof (cases "mState (state_at s m) \<noteq> Completed")
    case True
    then show ?thesis using 2 by simp
  next
    case False
    then obtain g where g: "map_of guids m = Some g" "platformGenerationMessageGUID g" "g \<notin> set seen"
      and rest: "complete_loop guids ms (g # seen) (Suc n) (put_state m ((state_at s m)\<lparr>mGUID := g\<rparr>) s) = Inr (n', s')"
      using 2(3) by (auto split: option.splits if_splits)
    let ?t = "put_state m ((state_at s m)\<lparr>mGUID := g\<rparr>) s"
    have IH: "snapshot_wf s' \<and> guids_filled ?t s'"
      using 2(2)[OF _ g(1)] False g rest put_state_wf[OF 2(4)] by simp
    obtain st where st: "s' = ?t\<lparr>gModelStates := st\<rparr>" using IH by (auto simp: guids_filled_def)
    then have "s' = s\<lparr>gModelStates := st\<rparr>" by (simp add: put_state_def)
    moreover have "state_at s' k = state_at s k \<or>
        (mState (state_at s k) = Completed \<and> (\<exists>g. state_at s' k = (state_at s k)\<lparr>mGUID := g\<rparr>))" for k
    proof -
      have "state_at s' k = state_at ?t k \<or>
          (mState (state_at ?t k) = Completed \<and> (\<exists>g. state_at s' k = (state_at ?t k)\<lparr>mGUID := g\<rparr>))"
        using IH by (auto simp: guids_filled_def)
      then show ?thesis using False 2(4) by (cases "k = m") (auto simp: state_at_put)
    qed
    ultimately show ?thesis using IH by (auto simp: guids_filled_def)
  qed
qed auto

lemma change_completeD:
  "change_complete guids s = Inr s' \<Longrightarrow> gState s = Committing \<and>
     (\<exists>n t. complete_loop guids (models_of s) [] 0 s = Inr (n, t) \<and> length guids = n \<and> s' = t\<lparr>gState := Completed\<rparr>)"
  by (auto simp: change_complete_def split: if_splits sum.splits)

interpretation complete: store_change "change_complete guids" for guids
proof
  fix s s' assume wf: "snapshot_wf s" and ok: "change_complete guids s = Inr s'"
  obtain n t where t: "complete_loop guids (models_of s) [] 0 s = Inr (n, t)" "s' = t\<lparr>gState := Completed\<rparr>" "gState s = Committing"
    using change_completeD[OF ok] by blast
  have filled: "snapshot_wf t" "guids_filled s t" using complete_loop_filled[OF t(1) wf] by blast+
  show "snapshot_wf s'" using filled(1) t(2) by (simp add: snapshot_wf_def)
  have at: "state_at s' = state_at t" using t(2) by (intro state_at_cong) simp
  have "model_step (state_at s m) (state_at s' m)" for m
    using filled(2) unfolding at by (auto simp: guids_filled_def model_step_def)
  moreover have "same_identity s s'" using filled(2) t(2) by (auto simp: guids_filled_def same_identity_def)
  ultimately show "lifecycle_ok s s'"
    using t by (simp add: lifecycle_ok_def lifecycle_edge_def)
qed

text \<open>Ownership only restricts a change.\<close>

lemma owned_changeD:
  "owned_change d now change s = Inr s' \<Longrightarrow> change s = Inr s' \<and> platformGenerationOwnedMutationAuthorized s d now"
  by (simp add: owned_change_def split: if_splits)

lemma owned_store_change: "store_change change \<Longrightarrow> store_change (owned_change d now change)"
  unfolding store_change_def by (blast dest: owned_changeD)

end
