(* ===== verification/Generation_Effects.thy ===== *)
theory Generation_Effects
  imports Generation_Changes
begin

text \<open>
  What an operation of the store may do to Redis, proved once for every operation: nothing, the
  creation of a missing record, or the replacement of the record that is there by a lawful successor
  that keeps the deadline.
\<close>

section \<open>Decoded records are proper maps\<close>

lemma dec_members_invariant:
  assumes "\<And>k v x y. f k v x = Some y \<Longrightarrow> P x \<Longrightarrow> P y"
  shows "dec_members f ms x = Some y \<Longrightarrow> P x \<Longrightarrow> P y"
proof (induction ms arbitrary: x)
  case (Cons p ms)
  then show ?case using assms by (cases p) (auto simp: Option.bind_eq_Some_conv)
qed simp

lemma dec_states_wf: "dec_states v old = Some st \<Longrightarrow> sm_ok (nil_list old) \<Longrightarrow> sm_ok (nil_list st)"
proof -
  assume dec: "dec_states v old = Some st" and ok: "sm_ok (nil_list old)"
  have entry: "dec_map_entry k w x = Some y \<Longrightarrow> sm_ok x \<Longrightarrow> sm_ok y" for k w x y
    by (auto simp: dec_map_entry_def)
  show ?thesis
    using dec ok dec_members_invariant[of dec_map_entry sm_ok, OF entry]
    by (auto simp: dec_states_def split: json.splits)
qed

lemma dec_field_wf:
  "dec_snapshot_field k v p = Some q \<Longrightarrow> snapshot_wf (fst p) \<Longrightarrow> snapshot_wf (fst q)"
  by (cases p) (auto simp: dec_snapshot_field_def snapshot_wf_def dest: dec_states_wf
      split: option.splits if_splits)

lemma decode_wf: "decodePlatformGeneration raw = Some s \<Longrightarrow> snapshot_wf s"
proof -
  assume "decodePlatformGeneration raw = Some s"
  then obtain v where "dec_snapshot v = Some s"
    by (auto simp: decodePlatformGeneration_def split: if_splits option.splits)
  then obtain p where p: "dec_struct dec_snapshot_field v (zero_snapshot, []) = Some p" "s = fst p"
    by (auto simp: dec_snapshot_def)
  have zero: "snapshot_wf (fst (zero_snapshot, [] :: bytes list))" by (simp add: zero_snapshot_def snapshot_wf_def)
  show ?thesis
  proof (cases v)
    case (JObj ms)
    then have "dec_members dec_snapshot_field ms (zero_snapshot, []) = Some p" using p by (simp add: dec_struct_def)
    then have "snapshot_wf (fst p)"
      by (rule dec_members_invariant[where P = "\<lambda>p. snapshot_wf (fst p)", rotated]) (use zero dec_field_wf in blast)+
    then show ?thesis using p(2) by simp
  qed (use p zero in \<open>auto simp: dec_struct_def\<close>)
qed

section \<open>Records under a key\<close>

definition record_at :: "redis \<Rightarrow> int \<Rightarrow> bytes \<Rightarrow> snapshot option" where
  "record_at r uid gid = Option.bind (redis_get r (gen_key uid gid)) decodePlatformGeneration"

text \<open>A successor of a stored record: a lifecycle step, or a bare tombstone learning what it cancelled.\<close>

definition enriches :: "snapshot \<Rightarrow> snapshot \<Rightarrow> bool" where
  "enriches s s' \<longleftrightarrow> gMode s = 0 \<and> gState s = Cancelled \<and> gState s' = Cancelled \<and> gMode s' \<noteq> 0 \<and>
     gID s' = gID s \<and> gCreated s' = gCreated s \<and> gUpdated s' = gUpdated s"

definition advances :: "snapshot \<Rightarrow> snapshot \<Rightarrow> bool" where
  "advances s s' \<longleftrightarrow> (lifecycle_ok s s' \<and> gUpdated s \<le> gUpdated s') \<or> enriches s s'"

definition fresh_record :: "bytes \<Rightarrow> snapshot \<Rightarrow> bool" where
  "fresh_record gid s \<longleftrightarrow> gID s = gid \<and> gCreated s = gUpdated s \<and>
     (gState s = Running \<and> (\<forall>m \<in> set (models_of s). state_at s m = zero_model\<lparr>mState := Running\<rparr>) \<or>
      gState s = Cancelled \<and> gMode s = 0)"

inductive store_effect :: "int \<Rightarrow> bytes \<Rightarrow> redis \<Rightarrow> redis \<Rightarrow> bool" for uid gid r where
  unchanged: "store_effect uid gid r r"
| created: "redis_get r (gen_key uid gid) = None \<Longrightarrow> decodePlatformGeneration raw = Some s \<Longrightarrow> fresh_record gid s \<Longrightarrow>
     store_effect uid gid r (redis_set_px (gen_key uid gid) raw platformGenerationTTL r)"
| replaced: "redis_get r (gen_key uid gid) = Some raw \<Longrightarrow> decodePlatformGeneration raw = Some s \<Longrightarrow> gID s = gid \<Longrightarrow>
     decodePlatformGeneration raw' = Some s' \<Longrightarrow> advances s s' \<Longrightarrow>
     store_effect uid gid r (redis_set_keepttl (gen_key uid gid) raw' r)"

inductive_cases store_effectE: "store_effect uid gid r r'"

lemma ttl_positive [simp]: "0 < platformGenerationTTL"
  by (simp add: platformGenerationTTL_def)

lemma effect_other_key:
  "store_effect uid gid r r' \<Longrightarrow> k \<noteq> gen_key uid gid \<Longrightarrow> redis_get r' k = redis_get r k \<and> redis_deadline r' k = redis_deadline r k"
  by (erule store_effectE) simp_all

lemma effect_keeps_deadline:
  "store_effect uid gid r r' \<Longrightarrow> redis_get r k \<noteq> None \<Longrightarrow> redis_deadline r' k = redis_deadline r k"
  by (erule store_effectE) auto

lemma effect_keeps_record:
  "store_effect uid gid r r' \<Longrightarrow> record_at r uid gid = Some s \<Longrightarrow>
   \<exists>s'. record_at r' uid gid = Some s' \<and> (s' = s \<or> advances s s')"
  by (erule store_effectE) (auto simp: record_at_def)

section \<open>The compare-and-set script\<close>

lemma cas_effect:
  assumes "decodePlatformGeneration raw = Some s" "gID s = gid" "decodePlatformGeneration nxt = Some s'" "advances s s'"
  shows "store_effect uid gid r (snd (platformGenerationCASScript (gen_key uid gid) raw nxt r))"
  using assms by (auto simp: platformGenerationCASScript_def split: option.split intro: store_effect.intros)

lemma eval_effect:
  "store_effect uid gid r (snd (script r)) \<Longrightarrow> store_effect uid gid r (snd (redis_eval n script r))"
  by (cases n) (auto simp: redis_eval_def split: prod.split intro: store_effect.unchanged)

lemma read_recordD:
  "read_record net uid gid r = Inr (raw, s) \<Longrightarrow>
   redis_get r (gen_key uid gid) = Some raw \<and> decodePlatformGeneration raw = Some s \<and> gID s = gid"
  by (auto simp: read_record_def split: if_splits option.splits)

lemma loadD:
  "loadPlatformGenerationForControl net uid gid r = Inr (raw, s) \<Longrightarrow>
   redis_get r (gen_key uid gid) = Some raw \<and> decodePlatformGeneration raw = Some s \<and> gID s = gid"
  by (auto simp: loadPlatformGenerationForControl_def split: if_splits option.splits)

lemma mutate_prepareD:
  assumes "mutate_prepare net uid gid now change r = Inr (raw, nextRaw)"
  obtains s nxt where "redis_get r (gen_key uid gid) = Some raw" "decodePlatformGeneration raw = Some s" "gID s = gid"
    "gUpdated s \<le> now" "change (clonePlatformGeneration s) = Inr nxt"
    "encodePlatformGeneration (settle_lease now nxt) = Some nextRaw"
  using assms read_recordD
  by (auto simp: mutate_prepare_def failed_def split: if_splits sum.splits option.splits)

context store_change
begin

lemma mutate_effect: "store_effect uid gid r2 (snd (mutate net uid gid now change r1 r2))"
proof (cases "mutate_prepare net uid gid now change r1")
  case (Inl res)
  then show ?thesis by (simp add: mutate_def store_effect.unchanged)
next
  case (Inr p)
  obtain raw nextRaw where p: "p = (raw, nextRaw)" by (cases p)
  obtain s s' where s: "decodePlatformGeneration raw = Some s" "gID s = gid" "gUpdated s \<le> now"
    "change (clonePlatformGeneration s) = Inr s'" "encodePlatformGeneration (settle_lease now s') = Some nextRaw"
    using mutate_prepareD Inr p by metis
  have wf: "snapshot_wf s" using decode_wf s(1) .
  have "decodePlatformGeneration nextRaw = Some (settle_lease now s')"
    using decode_encode s(5) settled_wf[OF wf s(4)] by blast
  moreover have "advances s (settle_lease now s')"
    using settled_lawful[OF wf s(4)] s(3) by (simp add: advances_def settle_lease_def)
  ultimately have "store_effect uid gid r2
      (snd (redis_eval (ioEval net) (platformGenerationCASScript (gen_key uid gid) raw nextRaw) r2))"
    using s(1,2) by (intro eval_effect cas_effect)
  then show ?thesis using Inr p by (simp add: mutate_def split_beta)
qed

end

end
