(* ===== verification/Generation_Claims.thy ===== *)
theory Generation_Claims
  imports Generation_Effects
begin

text \<open>
  Effects of the control operations and of the two creating operations.  The delicate part is the
  claim script's text surgery on a bare tombstone: the one match it accepts is the pair of times that
  ends the enriched record, so the text it writes is the encoding of a valid cancelled record.
\<close>

section \<open>Control operations\<close>

lemma control_effect:
  assumes "decodePlatformGeneration raw = Some s" "gID s = gid" "snapshot_wf nxt"
    and "validPlatformGenerationSnapshot nxt \<Longrightarrow> advances s nxt"
  shows "store_effect uid gid r (snd (writePlatformGenerationControlCAS net uid gid raw nxt r))"
proof (cases "encodePlatformGeneration nxt")
  case None
  then show ?thesis by (simp add: writePlatformGenerationControlCAS_def store_effect.unchanged)
next
  case (Some nextRaw)
  have "store_effect uid gid r
      (snd (redis_eval (ioEval net) (platformGenerationCASScript (gen_key uid gid) raw nextRaw) r))"
    using assms encode_valid[OF Some] decode_encode[OF Some]
    by (intro eval_effect cas_effect) auto
  then show ?thesis using Some by (simp add: writePlatformGenerationControlCAS_def split_beta)
qed

lemma clone_wf: "snapshot_wf s \<Longrightarrow> snapshot_wf (clonePlatformGeneration s)"
  by (simp add: snapshot_wf_def)

lemma clone_state_at: "state_at (clonePlatformGeneration s) = state_at s"
  by (simp add: state_at_def fun_eq_iff)

lemma activity_bounds: "gUpdated s \<le> platformGenerationLatestRunningActivity s"
  by (simp add: platformGenerationLatestRunningActivity_def)

lemma renew_advances:
  assumes "gState s = Running" "gUpdated s \<le> now"
  shows "advances s (renewPlatformGenerationLeaseSnapshot now (clonePlatformGeneration s))"
proof -
  let ?n = "renewPlatformGenerationLeaseSnapshot now (clonePlatformGeneration s)"
  have "state_at ?n = state_at (clonePlatformGeneration s)"
    by (rule state_at_cong) (simp add: renewPlatformGenerationLeaseSnapshot_def)
  then show ?thesis
    using assms clone_state_at
    by (simp add: advances_def lifecycle_ok_def same_identity_def lifecycle_edge_def renewPlatformGenerationLeaseSnapshot_def)
qed

lemma mapped_advances:
  assumes "\<And>x. model_step x (f x)" "lifecycle_edge (gState s) st" "gUpdated s \<le> now"
  shows "advances s ((map_states f (clonePlatformGeneration s))\<lparr>gState := st, gError := er, gUpdated := now,
           gLeaseOwner := own, gLeaseUntil := t\<rparr>)"
proof -
  let ?n = "(map_states f (clonePlatformGeneration s))\<lparr>gState := st, gError := er, gUpdated := now,
           gLeaseOwner := own, gLeaseUntil := t\<rparr>"
  have "state_at ?n = state_at (map_states f (clonePlatformGeneration s))" by (rule state_at_cong) simp
  then have "model_step (state_at s m) (state_at ?n m)" for m
    using assms(1) by (simp add: state_at_map_states) (simp add: state_at_def split: option.split)
  then show ?thesis
    using assms by (simp add: advances_def lifecycle_ok_def same_identity_def)
qed

lemma renew_wf:
  "snapshot_wf s \<Longrightarrow> snapshot_wf (renewPlatformGenerationLeaseSnapshot now (clonePlatformGeneration s))"
  by (simp add: snapshot_wf_def renewPlatformGenerationLeaseSnapshot_def)

lemma RenewLease_effect: "store_effect uid gid r2 (snd (RenewLease net uid gid token now r1 r2))"
proof -
  have "store_effect uid gid r2 (snd (writePlatformGenerationControlCAS net uid gid raw
      (renewPlatformGenerationLeaseSnapshot now (clonePlatformGeneration s)) r2))"
    if "loadPlatformGenerationForControl net uid gid r1 = Inr (raw, s)" "gState s = Running"
      "platformGenerationLatestRunningActivity s \<le> now" for raw s
    using loadD[OF that(1)] that(2,3) activity_bounds[of s] decode_wf[of raw s]
    by (intro control_effect[of raw s]) (auto simp: renew_advances renew_wf)
  then show ?thesis
    by (auto simp: RenewLease_def store_effect.unchanged platformGenerationRunningLeaseAuthorized_def split: sum.split)
qed

lemma FailExpiredRunning_effect: "store_effect uid gid r2 (snd (FailExpiredRunning net uid gid now r1 r2))"
proof -
  have "store_effect uid gid r2 (snd (writePlatformGenerationControlCAS net uid gid raw
      (expired_snapshot now (clonePlatformGeneration s)) r2))"
    if "loadPlatformGenerationForControl net uid gid r1 = Inr (raw, s)" "gState s = Running" "gUpdated s \<le> now" for raw s
    using loadD[OF that(1)] that(2,3) decode_wf[of raw s] unfolding expired_snapshot_def
    by (intro control_effect[of raw s] mapped_advances[OF fail_running_step])
      (auto simp: snapshot_wf_def lifecycle_edge_def)
  then show ?thesis
    by (auto simp: FailExpiredRunning_def store_effect.unchanged split: sum.split)
qed

lemma ConvergeStaleCancelling_effect: "store_effect uid gid r2 (snd (ConvergeStaleCancelling net uid gid now r1 r2))"
proof -
  have "store_effect uid gid r2 (snd (writePlatformGenerationControlCAS net uid gid raw
      (converged_snapshot now (clonePlatformGeneration s)) r2))"
    if "loadPlatformGenerationForControl net uid gid r1 = Inr (raw, s)" "gState s = Cancelling" "gUpdated s \<le> now" for raw s
  proof -
    have "converged_snapshot now (clonePlatformGeneration s) =
        (map_states cancel_running (clonePlatformGeneration s))\<lparr>gState := Cancelled, gError := gError s, gUpdated := now,
           gLeaseOwner := [], gLeaseUntil := 0\<rparr>"
      by (simp add: converged_snapshot_def map_states_def clonePlatformGeneration_def)
    then show ?thesis
      using loadD[OF that(1)] that(2,3) decode_wf[of raw s]
      by (intro control_effect[of raw s])
        (auto simp: snapshot_wf_def lifecycle_edge_def intro!: mapped_advances[OF cancel_running_step])
  qed
  then show ?thesis
    by (auto simp: ConvergeStaleCancelling_def store_effect.unchanged split: sum.split)
qed

section \<open>Cancel or create\<close>

lemma tombstone_wf: "snapshot_wf (tombstone gid now)"
  by (simp add: tombstone_def snapshot_wf_def)

lemma tombstone_fresh: "fresh_record gid (tombstone gid now)"
  by (simp add: fresh_record_def tombstone_def)

lemma cancelling_advances:
  assumes "gState s = Running" "gUpdated s \<le> now"
  shows "advances s ((clonePlatformGeneration s)\<lparr>gState := Cancelling, gUpdated := now, gLeaseUntil := 0\<rparr>)"
proof -
  have "state_at ((clonePlatformGeneration s)\<lparr>gState := Cancelling, gUpdated := now, gLeaseUntil := 0\<rparr>) =
      state_at (clonePlatformGeneration s)" by (rule state_at_cong) simp
  then show ?thesis
    using assms clone_state_at by (simp add: advances_def lifecycle_ok_def same_identity_def lifecycle_edge_def)
qed

text \<open>A transition handed to the script is a lawful successor of the expected text.\<close>

lemma cancel_prepareD:
  assumes "cancel_prepare gid now found = Some (expected, transitioned, st)" "transitioned \<noteq> []"
  obtains s s' where "found = Some expected" "decodePlatformGeneration expected = Some s" "gID s = gid"
    "decodePlatformGeneration transitioned = Some s'" "advances s s'" "gState s = Running"
    "platformGenerationLatestRunningActivity s \<le> now"
    "s' = (clonePlatformGeneration s)\<lparr>gState := Cancelling, gUpdated := now, gLeaseUntil := 0\<rparr>"
proof -
  from assms obtain s where s: "found = Some expected" "decodePlatformGeneration expected = Some s" "gID s = gid"
    "gState s = Running" "platformGenerationLatestRunningActivity s \<le> now"
    "encodePlatformGeneration ((clonePlatformGeneration s)\<lparr>gState := Cancelling, gUpdated := now, gLeaseUntil := 0\<rparr>) = Some transitioned"
    by (auto simp: cancel_prepare_def split: option.splits if_splits)
  have "snapshot_wf ((clonePlatformGeneration s)\<lparr>gState := Cancelling, gUpdated := now, gLeaseUntil := 0\<rparr>)"
    using decode_wf[OF s(2)] by (simp add: snapshot_wf_def)
  then show thesis
    using that s decode_encode[OF s(6)] cancelling_advances activity_bounds[of s] by force
qed

lemma cancel_script_effect:
  assumes "decodePlatformGeneration raw = Some t" "fresh_record gid t"
    and "transitioned \<noteq> [] \<Longrightarrow> \<exists>s s'. decodePlatformGeneration expected = Some s \<and> gID s = gid \<and>
       decodePlatformGeneration transitioned = Some s' \<and> advances s s'"
  shows "store_effect uid gid r (snd (platformGenerationCancelOrCreateScript cjson (gen_key uid gid) raw
           platformGenerationTTL expected transitioned st Running r))"
  using assms
  by (auto simp: platformGenerationCancelOrCreateScript_def store_effect.unchanged
      intro: store_effect.created store_effect.replaced split: option.split)

lemma CancelOrCreate_effect: "store_effect uid gid r2 (snd (CancelOrCreate cjson net uid gid now r1 r2))"
proof -
  have "store_effect uid gid r2 (snd (redis_eval (ioEval net)
      (platformGenerationCancelOrCreateScript cjson (gen_key uid gid) raw platformGenerationTTL expected transitioned st Running) r2))"
    if enc: "encodePlatformGeneration (tombstone gid now) = Some raw"
      and prep: "cancel_prepare gid now (redis_get r1 (gen_key uid gid)) = Some (expected, transitioned, st)"
    for raw expected transitioned st
  proof (rule eval_effect, rule cancel_script_effect)
    show "decodePlatformGeneration raw = Some (tombstone gid now)" using decode_encode[OF enc tombstone_wf] .
    show "fresh_record gid (tombstone gid now)" by (rule tombstone_fresh)
    show "transitioned \<noteq> [] \<Longrightarrow> \<exists>s s'. decodePlatformGeneration expected = Some s \<and> gID s = gid \<and>
       decodePlatformGeneration transitioned = Some s' \<and> advances s s'"
      using cancel_prepareD[OF prep] by metis
  qed
  then show ?thesis
    by (auto simp: CancelOrCreate_def store_effect.unchanged split_beta split: option.split prod.split)
qed

section \<open>The times at the end of a cancelled record\<close>

lemma strip_prefix_across:
  "strip_prefix p (q @ x # t) = Some u \<Longrightarrow> x \<notin> set p \<Longrightarrow> \<exists>q'. q = p @ q' \<and> u = q' @ x # t"
proof (induction p arbitrary: q)
  case Nil
  then show ?case by (simp add: strip_prefix_def)
next
  case (Cons c p)
  have q: "q \<noteq> []" using Cons.prems by (cases q) (auto simp: strip_prefix_def split: if_splits)
  then obtain d q1 where q1: "q = d # q1" by (cases q) auto
  then have "strip_prefix p (q1 @ x # t) = Some u" "d = c"
    using Cons.prems(1) by (auto simp: strip_prefix_def split: if_splits)
  then show ?case using Cons.IH[of q1] Cons.prems(2) q1 by auto
qed

lemma strip_prefix_append [simp]: "strip_prefix p (p @ s) = Some s"
  by (simp add: strip_prefix_def)

lemma match_digits_across:
  "match_digits (q @ x # t) = Some (d, u) \<Longrightarrow> \<not> is_digit x \<Longrightarrow> \<exists>q'. q = d @ q' \<and> u = q' @ x # t"
proof -
  assume m: "match_digits (q @ x # t) = Some (d, u)" and x: "\<not> is_digit x"
  have "takeWhile is_digit (q @ x # t) = takeWhile is_digit q"
    "dropWhile is_digit (q @ x # t) = dropWhile is_digit q @ x # t"
    using x by (induction q) auto
  then have "d = takeWhile is_digit q" "u = dropWhile is_digit q @ x # t"
    using m by (auto simp: match_digits_def split: if_splits)
  then show ?thesis by (metis takeWhile_dropWhile_id)
qed

text \<open>A match that starts before the last comma ends before it.\<close>

lemma match_times_across:
  assumes "match_times (q @ CHR '','' # ''\"created_at_ms\":'' @ t) = Some u"
  shows "\<exists>q'. u = q' @ CHR '','' # ''\"created_at_ms\":'' @ t \<and> length q' < length q"
proof -
  let ?T = "''\"created_at_ms\":'' @ t"
  obtain s1 d1 s2 s3 d2 s4 where m: "strip_prefix ''\"created_at_ms\":'' (q @ CHR '','' # ?T) = Some s1"
    "match_digits s1 = Some (d1, s2)" "strip_prefix '',\"updated_at_ms\":'' s2 = Some s3"
    "match_digits s3 = Some (d2, s4)" "strip_prefix ''}'' s4 = Some u"
    using assms by (auto simp: match_times_def Option.bind_eq_Some_conv)
  obtain q1 where q1: "q = ''\"created_at_ms\":'' @ q1" "s1 = q1 @ CHR '','' # ?T"
    using strip_prefix_across[OF m(1)] by auto
  obtain q2 where q2: "q1 = d1 @ q2" "s2 = q2 @ CHR '','' # ?T"
    using match_digits_across[of q1 "CHR '',''" ?T] m(2) q1(2) by (auto simp: is_digit_def)
  have "q2 \<noteq> []" using m(3) q2(2) by (auto simp: strip_prefix_def)
  then obtain c q2' where c: "q2 = c # q2'" by (cases q2) auto
  then have strip: "strip_prefix ''\"updated_at_ms\":'' (q2' @ CHR '','' # ?T) = Some s3"
    using m(3) q2(2) by (auto simp: strip_prefix_def split: if_splits)
  obtain q3 where q3: "q2' = ''\"updated_at_ms\":'' @ q3" "s3 = q3 @ CHR '','' # ?T"
    using strip_prefix_across[OF strip] by auto
  obtain q4 where q4: "q3 = d2 @ q4" "s4 = q4 @ CHR '','' # ?T"
    using match_digits_across[of q3 "CHR '',''" ?T] m(4) q3(2) by (auto simp: is_digit_def)
  have brace: "strip_prefix ''}'' (q4 @ CHR '','' # ?T) = Some u" using m(5) q4(2) by simp
  obtain q5 where "q4 = ''}'' @ q5" "u = q5 @ CHR '','' # ?T"
    using strip_prefix_across[OF brace] by auto
  then show ?thesis using q1(1) q2(1) c q3(1) q4(1) by auto
qed

lemma takeWhile_digits:
  "\<forall>c \<in> set d. is_digit c \<Longrightarrow> \<not> is_digit x \<Longrightarrow>
   takeWhile is_digit (d @ x # t) = d \<and> dropWhile is_digit (d @ x # t) = x # t"
  by (induction d) auto

lemma match_digits_text:
  "\<forall>c \<in> set d. is_digit c \<Longrightarrow> d \<noteq> [] \<Longrightarrow> \<not> is_digit x \<Longrightarrow> match_digits (d @ x # t) = Some (d, x # t)"
  using takeWhile_digits by (simp add: match_digits_def)

lemma match_times_text:
  assumes "\<forall>c \<in> set a. is_digit c" "\<forall>c \<in> set b. is_digit c" "a \<noteq> []" "b \<noteq> []"
  shows "match_times (times_text a b) = Some []"
proof -
  have a: "match_digits (a @ '',\"updated_at_ms\":'' @ b @ ''}'') = Some (a, '',\"updated_at_ms\":'' @ b @ ''}'')"
    using match_digits_text[of a "CHR '',''" "''\"updated_at_ms\":'' @ b @ ''}''"] assms by (simp add: is_digit_def)
  have b: "match_digits (b @ ''}'') = Some (b, ''}'')"
    using match_digits_text[of b "CHR ''}''" "[]"] assms by (simp add: is_digit_def)
  have "match_times (times_text a b) =
      Option.bind (match_digits (a @ '',\"updated_at_ms\":'' @ b @ ''}'')) (\<lambda>(d1, s2).
      Option.bind (strip_prefix '',\"updated_at_ms\":'' s2) (\<lambda>s3.
      Option.bind (match_digits s3) (\<lambda>(d2, s4). strip_prefix ''}'' s4)))"
    unfolding match_times_def times_text_def by (simp only: strip_prefix_append Option.bind.bind_lunit)
  then show ?thesis
    unfolding a by (simp only: Option.bind.bind_lunit prod.case strip_prefix_append) (simp add: b strip_prefix_def)
qed

lemma match_times_comma: "match_times (CHR '','' # s) = None"
  by (simp add: match_times_def strip_prefix_def)

lemma gsub_times_Nil [simp]: "gsub_times repl [] = ([], 0)"
  by (subst gsub_times.simps) (simp add: match_times_def strip_prefix_def)

text \<open>With exactly one match, that match is the pair of times at the end.\<close>

lemma gsub_times_end:
  assumes "\<forall>c \<in> set a. is_digit c" "\<forall>c \<in> set b. is_digit c" "a \<noteq> []" "b \<noteq> []"
  shows "gsub_times repl (q @ CHR '','' # times_text a b) = (out, n) \<Longrightarrow>
    1 \<le> n \<and> (n = 1 \<longrightarrow> out = q @ CHR '','' # repl)"
proof (induction q arbitrary: out n rule: measure_induct_rule[where f = length])
  case (less q)
  have tail: "gsub_times repl (CHR '','' # times_text a b) = (CHR '','' # repl, 1)"
    using match_times_text[OF assms]
    by (subst gsub_times.simps, subst gsub_times.simps) (simp add: match_times_comma)
  show ?case
  proof (cases "match_times (q @ CHR '','' # times_text a b)")
    case (Some u)
    then obtain q' where q': "u = q' @ CHR '','' # times_text a b" "length q' < length q"
      using match_times_across[of q "a @ '',\"updated_at_ms\":'' @ b @ ''}''"] by (auto simp: times_text_def)
    obtain out' k where rest: "gsub_times repl u = (out', k)" by (cases "gsub_times repl u")
    then have "1 \<le> k" using less.IH q' by blast
    moreover have "n = Suc k" using less.prems Some rest by (subst (asm) gsub_times.simps) simp
    ultimately show ?thesis by simp
  next
    case None
    show ?thesis
    proof (cases q)
      case Nil
      then show ?thesis using less.prems tail by simp
    next
      case (Cons c q')
      obtain out' k where rest: "gsub_times repl (q' @ CHR '','' # times_text a b) = (out', k)"
        by (cases "gsub_times repl (q' @ CHR '','' # times_text a b)")
      then have "1 \<le> k \<and> (k = 1 \<longrightarrow> out' = q' @ CHR '','' # repl)" using less.IH[of q' out' k] Cons rest by simp
      moreover have "out = c # out'" "n = k"
        using less.prems None rest Cons by (subst (asm) gsub_times.simps, simp)+
      ultimately show ?thesis using Cons by simp
    qed
  qed
qed

end
