(* ===== verification/Generation_Enrich.thy ===== *)
theory Generation_Enrich
  imports Generation_Claims
begin

text \<open>
  The effect of \<open>Claim\<close>.  A stored text that the claim script takes for a bare tombstone is one, and
  the text it puts in its place is the encoding of the cancelled record with the tombstone's times.
\<close>

section \<open>Decimal texts\<close>

lemma dec_value_append:
  "dec_value acc (s @ t) = Option.bind (dec_value acc s) (\<lambda>v. dec_value v t)"
  by (induction s arbitrary: acc) auto

lemma dec_value_mono: "dec_value acc s = Some v \<Longrightarrow> acc \<le> v"
proof (induction s arbitrary: acc)
  case (Cons c s)
  then have "dec_value (acc * 10 + (byte c - 48)) s = Some v" by (simp split: if_splits)
  then show ?case using Cons.IH by fastforce
qed simp

lemma digit_char_byte: "is_digit c \<Longrightarrow> digit_char (byte c - 48) = c"
proof -
  assume "is_digit c"
  then have "48 + (byte c - 48) = byte c" by (simp add: is_digit_def)
  then show ?thesis by (simp add: digit_char_def)
qed

text \<open>Digits without a leading zero are the digits of their value.\<close>

lemma nat_digits_dec_value:
  "\<forall>c \<in> set d. is_digit c \<Longrightarrow> d \<noteq> [] \<Longrightarrow> hd d \<noteq> CHR ''0'' \<Longrightarrow> dec_value 0 d = Some n \<Longrightarrow> 0 < n \<and> nat_digits n = d"
proof (induction d arbitrary: n rule: rev_induct)
  case (snoc c d)
  have c: "is_digit c" using snoc.prems(1) by simp
  then have k: "byte c - 48 < 10" by (simp add: is_digit_def) arith
  show ?case
  proof (cases "d = []")
    case True
    then have n: "n = byte c - 48" using snoc.prems(4) c by simp
    have "byte c \<noteq> 48"
    proof
      assume "byte c = 48"
      then have "char_of (48::nat) = c" by (intro char_eq_byte) simp
      moreover have "char_of (48::nat) = CHR ''0''" by (simp add: char_of_eq_iff)
      ultimately show False using snoc.prems(3) True by simp
    qed
    then show ?thesis
      using n True c k by (subst nat_digits.simps) (auto simp: digit_char_byte is_digit_def)
  next
    case False
    obtain v where v: "dec_value 0 d = Some v" "n = v * 10 + (byte c - 48)"
      using snoc.prems(4) c by (auto simp: dec_value_append Option.bind_eq_Some_conv)
    have IH: "0 < v \<and> nat_digits v = d" using snoc.IH[of v] snoc.prems False v by simp
    have "n div 10 = v" "n mod 10 = byte c - 48" "\<not> n < 10" using v(2) k IH by simp_all
    then have "nat_digits n = nat_digits v @ [digit_char (byte c - 48)]" by (subst nat_digits.simps) simp
    then show ?thesis using IH c \<open>\<not> n < 10\<close> by (simp add: digit_char_byte)
  qed
qed simp

lemma match_digitsD:
  "match_digits s = Some (d, t) \<Longrightarrow> s = d @ t \<and> d \<noteq> [] \<and> (\<forall>c \<in> set d. is_digit c)"
  by (auto simp: match_digits_def dest: set_takeWhileD split: if_splits)

lemma match_positiveD:
  "match_positive s = Some (d, t) \<Longrightarrow> s = d @ t \<and> d \<noteq> [] \<and> (\<forall>c \<in> set d. is_digit c) \<and> hd d \<noteq> CHR ''0''"
  by (auto simp: match_positive_def Option.bind_eq_Some_conv dest: match_digitsD split: if_splits)

lemma strip_prefixD: "strip_prefix p s = Some t \<Longrightarrow> s = p @ t"
  by (auto simp: strip_prefix_def split: if_splits) (metis append_take_drop_id)

lemma match_tailD:
  "match_tail s = Some (a, b) \<Longrightarrow> s = a @ '',\"updated_at_ms\":'' @ b @ ''}'' \<and>
     a \<noteq> [] \<and> (\<forall>c \<in> set a. is_digit c) \<and> hd a \<noteq> CHR ''0''"
  by (auto simp: match_tail_def Option.bind_eq_Some_conv dest!: match_positiveD strip_prefixD split: if_splits)

section \<open>The text of a settled record\<close>

definition member_text :: "bytes \<times> json \<Rightarrow> bytes" where
  "member_text = (\<lambda>(k, v). quote k @ CHR '':'' # render v)"

definition record_head :: "snapshot \<Rightarrow> bytes" where
  "record_head s = CHR ''{'' # commas (map member_text
     (member ''generation_id'' (JStr (gID s)) @ omit_int ''mode'' (gMode s) @
      member ''models'' (case gModels s of None \<Rightarrow> JNull | Some ms \<Rightarrow> JArr (map JStr ms)) @
      member ''state'' (JNum (format_int (gState s))) @
      member ''model_states'' (case gModelStates s of None \<Rightarrow> JNull | Some st \<Rightarrow> JObj (sm_map json_of_model st))))"

lemma commas_append: "xs \<noteq> [] \<Longrightarrow> ys \<noteq> [] \<Longrightarrow> commas (xs @ ys) = commas xs @ CHR '','' # commas ys"
proof (induction xs rule: commas.induct)
  case (2 x)
  then show ?case by (cases ys) auto
qed auto

lemma render_settled:
  assumes "gError s = []" "gLeaseOwner s = []" "gLeaseUntil s = 0"
  shows "render (json_of_snapshot s) =
    record_head s @ CHR '','' # times_text (format_int (gCreated s)) (format_int (gUpdated s))"
proof -
  let ?hd = "member ''generation_id'' (JStr (gID s)) @ omit_int ''mode'' (gMode s) @
      member ''models'' (case gModels s of None \<Rightarrow> JNull | Some ms \<Rightarrow> JArr (map JStr ms)) @
      member ''state'' (JNum (format_int (gState s))) @
      member ''model_states'' (case gModelStates s of None \<Rightarrow> JNull | Some st \<Rightarrow> JObj (sm_map json_of_model st))"
  let ?tl = "[(''created_at_ms'', JNum (format_int (gCreated s))), (''updated_at_ms'', JNum (format_int (gUpdated s)))]"
  have "json_of_snapshot s = JObj (?hd @ ?tl)"
    using assms by (simp add: json_of_snapshot_def omit_string_def omit_int_def member_def)
  then have "render (json_of_snapshot s) = CHR ''{'' # commas (map member_text ?hd @ map member_text ?tl) @ ''}''"
    by (simp add: member_text_def)
  also have "commas (map member_text ?hd @ map member_text ?tl) =
      commas (map member_text ?hd) @ CHR '','' # commas (map member_text ?tl)"
    by (rule commas_append) (simp_all add: member_def)
  finally show ?thesis
    by (simp add: record_head_def times_text_def member_text_def quote_def escape_ascii_def)
qed

lemma escape_ascii_plain: "32 \<le> byte c \<Longrightarrow> byte c \<notin> {34, 38, 60, 62, 92} \<Longrightarrow> escape_ascii c = [c]"
proof -
  assume c: "32 \<le> byte c" "byte c \<notin> {34, 38, 60, 62, 92}"
  have ne: "byte c \<noteq> byte d \<Longrightarrow> c \<noteq> d" for d by blast
  have "c \<noteq> CHR 0x5C" "c \<noteq> CHR 0x22" "c \<noteq> CHR 0x08" "c \<noteq> CHR 0x0C" "c \<noteq> CHR 0x0A" "c \<noteq> CHR 0x0D"
    "c \<noteq> CHR 0x09" "c \<noteq> CHR ''<''" "c \<noteq> CHR ''>''" "c \<noteq> CHR ''&''"
    by (rule ne, use c in simp)+
  then show ?thesis using c by (simp add: escape_ascii_def)
qed

lemma plain_byte: "is_lower_hex c \<or> c = CHR ''-'' \<Longrightarrow> 32 \<le> byte c \<and> byte c < 128 \<and> byte c \<notin> {34, 38, 60, 62, 92}"
  unfolding is_lower_hex_def is_digit_def by (elim disjE) auto

lemma escape_plain: "\<forall>c \<in> set s. is_lower_hex c \<or> c = CHR ''-'' \<Longrightarrow> escape s = s"
proof (induction s)
  case (Cons c s)
  then have "byte c < 128" "escape_ascii c = [c]"
    using plain_byte[of c] by (simp_all add: escape_ascii_plain)
  then show ?case using Cons by simp
qed simp

lemma uuid_chars_plain: "uuid_chars i s \<Longrightarrow> c \<in> set s \<Longrightarrow> is_lower_hex c \<or> c = CHR ''-''"
  by (induction i s rule: uuid_chars.induct) (auto split: if_splits)

lemma canonical_quote: "platformSSEV2CanonicalUUID g \<Longrightarrow> quote g = CHR 0x22 # g @ [CHR 0x22]"
  using escape_plain[of g] uuid_chars_plain[of 0 g]
  by (auto simp: quote_def platformSSEV2CanonicalUUID_def)

lemma tombstone_head:
  assumes "platformSSEV2CanonicalUUID g"
  shows "record_head (tombstone g now) @ '',\"created_at_ms\":'' = tombstone_prefix g Cancelled"
proof -
  have keys: "quote ''generation_id'' = ''\"generation_id\"''" "quote ''models'' = ''\"models\"''"
    "quote ''state'' = ''\"state\"''" "quote ''model_states'' = ''\"model_states\"''"
    by (simp_all add: quote_def escape_ascii_def)
  show ?thesis
    by (simp add: record_head_def tombstone_def tombstone_prefix_def member_def omit_int_def member_text_def keys
        canonical_quote[OF assms] sm_map_def)
qed

lemma tombstone_valid:
  "platformSSEV2CanonicalUUID g \<Longrightarrow> 0 < now \<Longrightarrow> platformSSEV2SafeInteger now \<Longrightarrow>
   validPlatformGenerationSnapshot (tombstone g now)"
  by (simp add: validPlatformGenerationSnapshot_def validPlatformGenerationTombstone_def tombstone_def)

lemma decode_valid_render:
  "validPlatformGenerationSnapshot s \<Longrightarrow> snapshot_wf s \<Longrightarrow> decodePlatformGeneration (render (json_of_snapshot s)) = Some s"
  using decode_encode encode_total by blast

section \<open>Enriching a tombstone\<close>

lemma fold_put:
  "sm_ok acc \<Longrightarrow> sm_ok (fold (\<lambda>m. sm_put m x) ms acc) \<and>
   map_of (fold (\<lambda>m. sm_put m x) ms acc) = (\<lambda>m. if m \<in> set ms then Some x else map_of acc m)"
  by (induction ms arbitrary: acc) (auto simp: fun_eq_iff)

lemma all_models_ok [simp]: "sm_ok (all_models x ms)"
  using fold_put[of "[]" x ms] by (simp add: all_models_def)

lemma all_models_get [simp]: "map_of (all_models x ms) m = (if m \<in> set ms then Some x else None)"
  using fold_put[of "[]" x ms] by (simp add: all_models_def)

lemma claim_snapshots_wf: "snapshot_wf (claim_snapshot i d)" "snapshot_wf (claim_cancelled i)"
  by (simp_all add: snapshot_wf_def claim_snapshot_def claim_cancelled_def)

lemma models_of_copy [simp]: "nil_list (copy_models ms) = ms"
  by (simp add: copy_models_def)

text \<open>The cancelled record at the times of a tombstone.\<close>

definition cancelled_at :: "claim_input \<Rightarrow> int \<Rightarrow> snapshot" where
  "cancelled_at i now = (claim_cancelled i)\<lparr>gCreated := now, gUpdated := now\<rparr>"

lemma cancelled_at_valid:
  assumes "validatePlatformGenerationInput i" "validPlatformGenerationSnapshot (claim_cancelled i)"
    and "0 < n" "platformSSEV2SafeInteger n"
  shows "validPlatformGenerationSnapshot (cancelled_at i n)"
proof -
  let ?c = "claim_cancelled i" and ?n = "cancelled_at i n"
  have mode: "gMode ?c \<noteq> 0"
    using assms(1) by (auto simp: validatePlatformGenerationInput_def claim_cancelled_def)
  have same: "gMode ?n = gMode ?c" "gState ?n = gState ?c" "gID ?n = gID ?c" "gModels ?n = gModels ?c"
    "gModelStates ?n = gModelStates ?c" "gError ?n = gError ?c" "gLeaseOwner ?n = gLeaseOwner ?c"
    "gLeaseUntil ?n = gLeaseUntil ?c" "gCreated ?n = n" "gUpdated ?n = n"
    by (simp_all add: cancelled_at_def)
  have "state_at ?n = state_at ?c" by (rule state_at_cong) (rule same(5))
  then have counts: "terminalModels ?n = terminalModels ?c" "successfulModels ?n = successfulModels ?c"
    by (simp_all add: terminalModels_def successfulModels_def same(4))
  have state: "valid_model_state ?n = valid_model_state ?c"
    by (rule ext) (simp add: valid_model_state_def same(2))
  have entry: "valid_model_entry ?n = valid_model_entry ?c"
    by (rule ext) (simp add: valid_model_entry_def same(5) state split: option.split)
  have input: "validatePlatformGenerationInput (snapshot_input ?n)"
    using assms(2,4) mode
    by (simp add: validPlatformGenerationSnapshot_def validatePlatformGenerationInput_def snapshot_input_def same)
  have lease: "validPlatformGenerationLease ?n = validPlatformGenerationLease ?c"
    by (simp add: validPlatformGenerationLease_def same)
  show ?thesis
    using assms(2,4) mode input lease counts entry
    by (simp add: validPlatformGenerationSnapshot_def same)
qed

lemma claim_enrichD:
  assumes valid: "validatePlatformGenerationInput i"
    and enc: "encodePlatformGeneration (claim_cancelled i) = Some enriched"
    and some: "claim_enrich cjson enriched (inID i) Cancelled platformSSEV2MaxSafeInteger old = Some nxt"
  obtains n where "decodePlatformGeneration old = Some (tombstone (inID i) n)"
    "decodePlatformGeneration nxt = Some (cancelled_at i n)" "0 < n" "platformSSEV2SafeInteger n"
proof -
  have gid: "platformSSEV2CanonicalUUID (inID i)"
    using valid by (simp add: validatePlatformGenerationInput_def validatePlatformGenerationIdentity_def)
  obtain tail created k where m: "strip_prefix (tombstone_prefix (inID i) Cancelled) old = Some tail"
    "match_tail tail = Some (created, created)" "parse_uint created = Some k" "int k \<le> platformSSEV2MaxSafeInteger"
    "gsub_times (times_text created created) enriched = (nxt, 1)"
    using some
    by (auto simp: claim_enrich_def Option.bind_eq_Some_conv Let_def split: option.splits if_splits prod.splits)
  have digits: "\<forall>c \<in> set created. is_digit c" "created \<noteq> []" "hd created \<noteq> CHR ''0''"
    and tail: "tail = created @ '',\"updated_at_ms\":'' @ created @ ''}''"
    using match_tailD[OF m(2)] by auto
  have k: "0 < k" "nat_digits k = created"
    using nat_digits_dec_value[OF digits] m(3) digits(2) by (simp_all add: parse_uint_def)
  define n where "n = int k"
  have n: "0 < n" "platformSSEV2SafeInteger n" "format_int n = created"
    using k m(4) by (simp_all add: n_def platformSSEV2SafeInteger_def format_int_def)
  have "render (json_of_snapshot (tombstone (inID i) n)) = old"
  proof -
    have "render (json_of_snapshot (tombstone (inID i) n)) =
        record_head (tombstone (inID i) n) @ CHR '','' # times_text created created"
      using render_settled[of "tombstone (inID i) n"] n(3) by (simp add: tombstone_def)
    also have "\<dots> = (record_head (tombstone (inID i) n) @ '',\"created_at_ms\":'') @ tail"
      unfolding tail times_text_def by simp
    also have "\<dots> = old" unfolding tombstone_head[OF gid] using strip_prefixD[OF m(1)] by simp
    finally show ?thesis .
  qed
  then have "decodePlatformGeneration old = Some (tombstone (inID i) n)"
    using decode_valid_render[OF tombstone_valid[OF gid n(1,2)] tombstone_wf] by simp
  moreover have "decodePlatformGeneration nxt = Some (cancelled_at i n)"
  proof -
    have shape: "enriched = record_head (claim_cancelled i) @ CHR '','' # times_text (format_int (inNow i)) (format_int (inNow i))"
      using enc render_settled[of "claim_cancelled i"]
      by (auto simp: encodePlatformGeneration_def claim_cancelled_def split: if_splits)
    have "0 \<le> inNow i" using valid by (simp add: validatePlatformGenerationInput_def platformSSEV2SafeInteger_def)
    then have "\<forall>c \<in> set (format_int (inNow i)). is_digit c" "format_int (inNow i) \<noteq> []"
      using nat_digits_digits by (simp_all add: format_int_def)
    then have "nxt = record_head (claim_cancelled i) @ CHR '','' # times_text created created"
      using gsub_times_end[of "format_int (inNow i)" "format_int (inNow i)"] m(5) shape by blast
    moreover have "record_head (cancelled_at i n) = record_head (claim_cancelled i)"
      by (simp add: record_head_def cancelled_at_def)
    ultimately have "nxt = render (json_of_snapshot (cancelled_at i n))"
      using render_settled[of "cancelled_at i n"] n(3) by (simp add: cancelled_at_def claim_cancelled_def)
    moreover have "validPlatformGenerationSnapshot (cancelled_at i n)"
      using cancelled_at_valid[OF valid encode_valid[OF enc] n(1,2)] .
    moreover have "snapshot_wf (cancelled_at i n)"
      using claim_snapshots_wf(2)[of i] by (simp add: cancelled_at_def snapshot_wf_def)
    ultimately show ?thesis using decode_valid_render by simp
  qed
  ultimately show thesis using that n(1,2) by blast
qed

lemma claim_script_effect:
  assumes "validatePlatformGenerationInput i"
    and "encodePlatformGeneration (claim_snapshot i d) = Some encoded"
    and "encodePlatformGeneration (claim_cancelled i) = Some enriched"
  shows "store_effect (inUser i) (inID i) r (snd (platformGenerationClaimScript cjson (gen_key (inUser i) (inID i))
           encoded enriched platformGenerationTTL (inID i) Cancelled platformSSEV2MaxSafeInteger r))"
proof (cases "redis_get r (gen_key (inUser i) (inID i))")
  case None
  have dec: "decodePlatformGeneration encoded = Some (claim_snapshot i d)"
    using decode_encode[OF assms(2) claim_snapshots_wf(1)] .
  have "fresh_record (inID i) (claim_snapshot i d)"
    by (simp add: fresh_record_def claim_snapshot_def state_at_def)
  then show ?thesis
    using None store_effect.created[OF None dec] by (simp add: platformGenerationClaimScript_def)
next
  case (Some old)
  show ?thesis
  proof (cases "claim_enrich cjson enriched (inID i) Cancelled platformSSEV2MaxSafeInteger old")
    case None
    then show ?thesis using Some by (simp add: platformGenerationClaimScript_def store_effect.unchanged)
  next
    case enrich: (Some nxt)
    then obtain n where n: "decodePlatformGeneration old = Some (tombstone (inID i) n)"
      "decodePlatformGeneration nxt = Some (cancelled_at i n)"
      using claim_enrichD[OF assms(1,3)] by metis
    have "inMode i \<noteq> 0" using assms(1) by (auto simp: validatePlatformGenerationInput_def)
    then have "advances (tombstone (inID i) n) (cancelled_at i n)"
      by (simp add: advances_def enriches_def tombstone_def cancelled_at_def claim_cancelled_def)
    then show ?thesis
      using store_effect.replaced[OF Some n(1) _ n(2)] enrich Some
      by (simp add: platformGenerationClaimScript_def) (simp add: tombstone_def)
  qed
qed

lemma Claim_effect: "store_effect (inUser i) (inID i) r (snd (Claim cjson net random i r))"
proof -
  have "store_effect (inUser i) (inID i) r (snd (redis_eval (ioEval net)
      (platformGenerationClaimScript cjson (gen_key (inUser i) (inID i)) encoded enriched platformGenerationTTL
        (inID i) Cancelled platformSSEV2MaxSafeInteger) r))"
    if "validatePlatformGenerationInput i" "encodePlatformGeneration (claim_snapshot i d) = Some encoded"
      "encodePlatformGeneration (claim_cancelled i) = Some enriched" for d encoded enriched
    using that by (intro eval_effect claim_script_effect)
  then show ?thesis
    by (auto simp: Claim_def store_effect.unchanged split_beta split: sum.split option.split)
qed

end
