(* ===== verification/Generation_Lifecycle.thy ===== *)
theory Generation_Lifecycle
  imports Generation_Enrich
begin

text \<open>
  Histories of the generation store: any calls of its operations by any clients, interleaved in any
  order with the passing of time and with any network failures.  A call's early reads see arbitrary
  Redis states (other clients run in between); its script runs on the current one.
\<close>

section \<open>Calls\<close>

datatype gen_call =
    QClaim bytes int "bytes list"
  | QCancelOrCreate
  | QDelta bytes int | QDeltaOwned bytes bytes int
  | QDone bytes int | QDoneOwned bytes bytes int
  | QFailed bytes bytes | QFailedOwned bytes bytes bytes
  | QRequestCancel | QMarkCancelled | QAcknowledge bytes
  | QBeginCommit | QBeginCommitOwned bytes
  | QComplete "(bytes \<times> bytes) list" | QReconcile "(bytes \<times> bytes) list"
  | QFail bytes | QFailRunning bytes bytes | QFailStale bytes
  | QRenew bytes | QFailExpired | QConverge

record call_env =
  ceIo :: io
  ceIo2 :: io
  ceUser :: int
  ceID :: bytes
  ceNow :: int
  ceRead0 :: redis
  ceRead1 :: redis

text \<open>The Redis state after a call whose script ran on \<open>r\<close>.\<close>

fun gen_exec :: "cjson \<Rightarrow> call_env \<Rightarrow> gen_call \<Rightarrow> redis \<Rightarrow> redis" where
  "gen_exec cj e (QClaim random mode ms) r =
     snd (Claim cj (ceIo e) random \<lparr>inUser = ceUser e, inID = ceID e, inMode = mode, inModels = ms, inNow = ceNow e\<rparr> r)"
| "gen_exec cj e QCancelOrCreate r = snd (CancelOrCreate cj (ceIo e) (ceUser e) (ceID e) (ceNow e) (ceRead1 e) r)"
| "gen_exec cj e (QDelta m n) r = snd (RecordDelta (ceIo e) (ceUser e) (ceID e) m n (ceNow e) (ceRead1 e) r)"
| "gen_exec cj e (QDeltaOwned t m n) r = snd (RecordDeltaOwned (ceIo e) (ceUser e) (ceID e) t m n (ceNow e) (ceRead1 e) r)"
| "gen_exec cj e (QDone m n) r = snd (MarkModelDone (ceIo e) (ceUser e) (ceID e) m n (ceNow e) (ceRead1 e) r)"
| "gen_exec cj e (QDoneOwned t m n) r = snd (MarkModelDoneOwned (ceIo e) (ceUser e) (ceID e) t m n (ceNow e) (ceRead1 e) r)"
| "gen_exec cj e (QFailed m c) r = snd (MarkModelFailed (ceIo e) (ceUser e) (ceID e) m c (ceNow e) (ceRead1 e) r)"
| "gen_exec cj e (QFailedOwned t m c) r = snd (MarkModelFailedOwned (ceIo e) (ceUser e) (ceID e) t m c (ceNow e) (ceRead1 e) r)"
| "gen_exec cj e QRequestCancel r = snd (RequestCancel (ceIo e) (ceUser e) (ceID e) (ceNow e) (ceRead1 e) r)"
| "gen_exec cj e QMarkCancelled r = snd (MarkCancelled (ceIo e) (ceUser e) (ceID e) (ceNow e) (ceRead1 e) r)"
| "gen_exec cj e (QAcknowledge t) r = snd (AcknowledgeCancelledOwned (ceIo e) (ceUser e) (ceID e) t (ceNow e) (ceRead1 e) r)"
| "gen_exec cj e QBeginCommit r = snd (BeginCommit (ceIo e) (ceUser e) (ceID e) (ceNow e) (ceRead1 e) r)"
| "gen_exec cj e (QBeginCommitOwned t) r = snd (BeginCommitOwned (ceIo e) (ceUser e) (ceID e) t (ceNow e) (ceRead1 e) r)"
| "gen_exec cj e (QComplete g) r = snd (Complete_op (ceIo e) (ceUser e) (ceID e) g (ceNow e) (ceRead1 e) r)"
| "gen_exec cj e (QReconcile g) r =
     snd (ReconcileComplete (ceIo e) (ceIo2 e) (ceUser e) (ceID e) g (ceNow e) (ceRead0 e) (ceRead1 e) r)"
| "gen_exec cj e (QFail c) r = snd (Fail_op (ceIo e) (ceUser e) (ceID e) c (ceNow e) (ceRead1 e) r)"
| "gen_exec cj e (QFailRunning t c) r = snd (FailRunningOwned (ceIo e) (ceUser e) (ceID e) t c (ceNow e) (ceRead1 e) r)"
| "gen_exec cj e (QFailStale c) r = snd (FailStaleCommit (ceIo e) (ceUser e) (ceID e) c (ceNow e) (ceRead1 e) r)"
| "gen_exec cj e (QRenew t) r = snd (RenewLease (ceIo e) (ceUser e) (ceID e) t (ceNow e) (ceRead1 e) r)"
| "gen_exec cj e QFailExpired r = snd (FailExpiredRunning (ceIo e) (ceUser e) (ceID e) (ceNow e) (ceRead1 e) r)"
| "gen_exec cj e QConverge r = snd (ConvergeStaleCancelling (ceIo e) (ceUser e) (ceID e) (ceNow e) (ceRead1 e) r)"

inductive store_step :: "cjson \<Rightarrow> redis \<Rightarrow> redis \<Rightarrow> bool" for cj where
  call: "store_step cj r (gen_exec cj e c r)"
| clock: "0 \<le> d \<Longrightarrow> store_step cj r (tick d r)"

inductive store_run :: "cjson \<Rightarrow> redis \<Rightarrow> redis \<Rightarrow> bool" for cj r where
  here: "store_run cj r r"
| step: "store_run cj r r1 \<Longrightarrow> store_step cj r1 r2 \<Longrightarrow> store_run cj r r2"

inductive_cases store_stepE: "store_step cj r r'"

lemma store_step_cases:
  assumes "store_step cj r r'"
  obtains (call) e c where "r' = gen_exec cj e c r" | (clock) d where "0 \<le> d" "r' = tick d r"
  using assms by (auto elim: store_stepE)

section \<open>Every call is an effect on its key\<close>

lemma mutateOwned_effect:
  assumes "store_change change"
  shows "store_effect uid gid r2 (snd (mutateOwned net uid gid token now change r1 r2))"
  using store_change.mutate_effect[OF owned_store_change[OF assms]]
  by (simp add: mutateOwned_def store_effect.unchanged)

lemmas store_mutations = RecordDelta_def RecordDeltaOwned_def MarkModelDone_def MarkModelDoneOwned_def
  MarkModelFailed_def MarkModelFailedOwned_def RequestCancel_def MarkCancelled_def AcknowledgeCancelledOwned_def
  BeginCommit_def BeginCommitOwned_def Complete_op_def Fail_op_def FailRunningOwned_def FailStaleCommit_def

lemmas store_changes = delta.store_change_axioms model_done.store_change_axioms model_failed.store_change_axioms
  request_cancel.store_change_axioms acknowledge.store_change_axioms begin_commit.store_change_axioms
  complete.store_change_axioms fail_owned.store_change_axioms fail_stale.store_change_axioms

lemmas change_effects = delta.mutate_effect model_done.mutate_effect model_failed.mutate_effect
  request_cancel.mutate_effect acknowledge.mutate_effect begin_commit.mutate_effect
  complete.mutate_effect fail_owned.mutate_effect fail_stale.mutate_effect

lemma ReconcileComplete_effect:
  "store_effect uid gid r2 (snd (ReconcileComplete net net' uid gid guids now r0 r1 r2))"
proof -
  have "store_effect uid gid r2 (snd (Complete_op net' uid gid guids now r1 r2))"
    by (simp add: Complete_op_def change_effects)
  then show ?thesis
    by (cases "Complete_op net' uid gid guids now r1 r2"; cases "store_Get net uid gid r0")
      (auto simp: ReconcileComplete_def store_effect.unchanged split: option.split)
qed

lemma gen_exec_effect: "store_effect (ceUser e) (ceID e) r (gen_exec cj e c r)"
proof (cases c)
  case (QClaim random mode ms)
  then show ?thesis
    using Claim_effect[of "\<lparr>inUser = ceUser e, inID = ceID e, inMode = mode, inModels = ms, inNow = ceNow e\<rparr>"] by simp
qed (simp_all add: store_mutations change_effects mutateOwned_effect store_changes store_effect.unchanged
    CancelOrCreate_effect ReconcileComplete_effect RenewLease_effect FailExpiredRunning_effect
    ConvergeStaleCancelling_effect)

section \<open>Keys\<close>

lemma format_int_no_colon: "CHR '':'' \<notin> set (format_int i)"
proof -
  have "\<forall>c \<in> set (nat_digits n). is_digit c" for n using nat_digits_digits by blast
  moreover have "\<not> is_digit CHR '':''" by (simp add: is_digit_def)
  ultimately show ?thesis by (auto simp: format_int_def)
qed

lemma gen_key_eq: "gen_key u g = gen_key u' g' \<Longrightarrow> g = g'"
proof -
  assume "gen_key u g = gen_key u' g'"
  then have "format_int u @ CHR '':'' # g = format_int u' @ CHR '':'' # g'" by (simp add: gen_key_def)
  then have "CHR '':'' # g = CHR '':'' # g'"
    using span_char[OF format_int_no_colon[of u], of g] span_char[OF format_int_no_colon[of u'], of g'] by metis
  then show ?thesis by simp
qed

section \<open>The store holds only valid records\<close>

definition store_ok :: "redis \<Rightarrow> bool" where
  "store_ok r \<longleftrightarrow> (\<forall>uid gid raw. redis_get r (gen_key uid gid) = Some raw \<longrightarrow>
     (\<exists>s. decodePlatformGeneration raw = Some s \<and> gID s = gid))"

lemma effect_store_ok: "store_effect u g r r' \<Longrightarrow> store_ok r \<Longrightarrow> store_ok r'"
proof (erule store_effectE)
  assume ok: "store_ok r"
  { fix raw s s0 assume dec: "decodePlatformGeneration raw = Some s" and id: "gID s = g"
    have "\<exists>s. decodePlatformGeneration x = Some s \<and> gID s = gid"
      if "(if gen_key uid gid = gen_key u g then Some raw else redis_get r (gen_key uid gid)) = Some x" for uid gid x
    proof (cases "gen_key uid gid = gen_key u g")
      case True
      then have "gid = g" using gen_key_eq by blast
      then show ?thesis using that True dec id by auto
    qed (use that ok in \<open>auto simp: store_ok_def\<close>) }
  note put = this
  show "store_ok r'" if "r' = r" using ok that by simp
  show "store_ok r'" if "r' = redis_set_px (gen_key u g) raw platformGenerationTTL r"
    "decodePlatformGeneration raw = Some s" "fresh_record g s" for raw s
    using put[OF that(2)] that(3) by (simp add: store_ok_def that(1) fresh_record_def)
  show "store_ok r'" if "r' = redis_set_keepttl (gen_key u g) raw' r" "gID s = g"
    "decodePlatformGeneration raw' = Some s'" "advances s s'" for s raw' s'
  proof -
    have "gID s' = g" using that(2,4) by (auto simp: advances_def lifecycle_ok_def same_identity_def enriches_def)
    then show ?thesis using put[OF that(3)] by (simp add: store_ok_def that(1))
  qed
qed

lemma tick_get: "0 \<le> d \<Longrightarrow> redis_get (tick d r) k = Some v \<Longrightarrow> redis_get r k = Some v"
  by (auto simp: redis_get_def tick_def live_def split: option.splits if_splits)

lemma store_run_ok: "store_run cj r r' \<Longrightarrow> store_ok r \<Longrightarrow> store_ok r'"
proof (induction rule: store_run.induct)
  case (step r1 r2)
  from step.hyps(2) have "store_ok r1 \<Longrightarrow> store_ok r2"
  proof (cases rule: store_step_cases)
    case (call e c)
    then show "store_ok r1 \<Longrightarrow> store_ok r2" using effect_store_ok[OF gen_exec_effect] by simp
  next
    case (clock d)
    then show "store_ok r1 \<Longrightarrow> store_ok r2" unfolding store_ok_def using tick_get by metis
  qed
  then show ?case using step by blast
qed

section \<open>A live key along a history\<close>

lemma effect_clock: "store_effect u g r r' \<Longrightarrow> rClock r' = rClock r"
  by (erule store_effectE) (simp_all add: redis_set_px_def redis_set_keepttl_def)

lemma effect_get: "store_effect u g r r' \<Longrightarrow> redis_get r k \<noteq> None \<Longrightarrow> redis_get r' k \<noteq> None"
  by (erule store_effectE) auto

lemma effect_deadline: "store_effect u g r r' \<Longrightarrow> redis_get r k \<noteq> None \<Longrightarrow> redis_deadline r' k = redis_deadline r k"
  by (erule store_effectE) auto

lemma tick_live:
  "redis_get r k = Some v \<Longrightarrow> live (tick d r) (redis_deadline r k) \<Longrightarrow>
   redis_get (tick d r) k = Some v \<and> redis_deadline (tick d r) k = redis_deadline r k"
  by (auto simp: redis_get_def redis_deadline_def tick_def split: option.splits if_splits)

lemma step_clock: "store_step cj r r' \<Longrightarrow> rClock r \<le> rClock r'"
  by (erule store_stepE) (auto simp: tick_def effect_clock[OF gen_exec_effect])

lemma live_earlier: "rClock r \<le> rClock r' \<Longrightarrow> live r' dl \<Longrightarrow> live r dl"
  by (auto simp: live_def split: option.splits)

text \<open>Induction along a history while a key is live, for any property of the stored text.\<close>

lemma store_run_live:
  assumes run: "store_run cj r r'" and some: "redis_get r k = Some raw" and alive: "live r' (redis_deadline r k)"
    and start: "P raw"
    and keep: "\<And>u g r1 r2 raw1. store_effect u g r1 r2 \<Longrightarrow> redis_get r1 k = Some raw1 \<Longrightarrow> P raw1 \<Longrightarrow>
                \<exists>raw2. redis_get r2 k = Some raw2 \<and> P raw2"
  shows "\<exists>raw'. redis_get r' k = Some raw' \<and> P raw' \<and> redis_deadline r' k = redis_deadline r k"
  using run alive
proof (induction rule: store_run.induct)
  case here
  then show ?case using some start by blast
next
  case (step r1 r2)
  have "live r1 (redis_deadline r k)" using live_earlier[OF step_clock[OF step.hyps(2)] step.prems] .
  then obtain raw1 where raw1: "redis_get r1 k = Some raw1" "P raw1" "redis_deadline r1 k = redis_deadline r k"
    using step.IH by blast
  from step.hyps(2) show ?case
  proof (cases rule: store_step_cases)
    case (call e c)
    have eff: "store_effect (ceUser e) (ceID e) r1 r2" using gen_exec_effect call by simp
    then show ?thesis using keep[OF eff raw1(1,2)] effect_deadline[OF eff, of k] raw1 by auto
  next
    case (clock d)
    then show ?thesis using tick_live[of r1 k raw1 d] raw1 step.prems by auto
  qed
qed

end
