(* ===== verification/Generation_Properties.thy ===== *)
theory Generation_Properties
  imports Generation_Lifecycle
begin

text \<open>
  The properties of the generation store, each a few steps over the effect lemmas, with a sample
  record and Redis state for the witnesses.
\<close>

section \<open>Samples\<close>

definition sample_gid :: bytes where "sample_gid = ''0123abcd-0000-4000-8000-00000000beef''"

definition sample_record :: snapshot where
  "sample_record =
     \<lparr>gID = sample_gid, gMode = 1, gModels = Some [''a''], gState = Running,
      gModelStates = Some [(''a'', \<lparr>mSeq = 4, mState = Running, mError = [], mGUID = []\<rparr>)],
      gCreated = 1000, gUpdated = 2000, gError = [], gLeaseOwner = replicate 64 CHR ''a'', gLeaseUntil = 32000\<rparr>"

definition redis_with :: "snapshot \<Rightarrow> redis" where
  "redis_with s = \<lparr>rStore = [gen_key 7 (gID s) \<mapsto> (render (json_of_snapshot s), Some 90000000)], rClock = 0\<rparr>"

definition good_io :: io where
  "good_io = \<lparr>ioContext = True, ioClient = True, ioRead = True, ioEval = NetOk\<rparr>"

definition empty_redis :: redis where "empty_redis = \<lparr>rStore = (\<lambda>_. None), rClock = 0\<rparr>"

lemma sample_record_valid: "validPlatformGenerationSnapshot sample_record"
  by code_simp

lemma sample_record_wf: "snapshot_wf sample_record"
  by code_simp

lemma redis_with_get:
  "redis_get (redis_with s) (gen_key 7 (gID s)) = Some (render (json_of_snapshot s))"
  "redis_deadline (redis_with s) (gen_key 7 (gID s)) = Some 90000000"
  by (simp_all add: redis_with_def redis_get_def redis_deadline_def live_def)

lemma redis_with_record:
  "validPlatformGenerationSnapshot s \<Longrightarrow> snapshot_wf s \<Longrightarrow> record_at (redis_with s) 7 (gID s) = Some s"
  by (simp add: record_at_def redis_with_get decode_valid_render)

lemma sample_at: "record_at (redis_with sample_record) 7 sample_gid = Some sample_record"
  using redis_with_record[OF sample_record_valid sample_record_wf] by (simp add: sample_record_def)

lemma sample_identity: "validatePlatformGenerationIdentity 7 sample_gid"
  by code_simp

section \<open>The codec\<close>

text \<open>C3: A valid record always encodes (it fits the 32 KiB limit) and reads back as itself.\<close>

theorem generation_roundtrip:
  assumes "validPlatformGenerationSnapshot s" "snapshot_wf s"
  shows "\<exists>raw. encodePlatformGeneration s = Some raw \<and> length raw \<le> platformGenerationMaxRecordBytes \<and>
           decodePlatformGeneration raw = Some s"
proof -
  have "encodePlatformGeneration s = Some (render (json_of_snapshot s))" using encode_total[OF assms] .
  moreover have "length (render (json_of_snapshot s)) \<le> platformGenerationMaxRecordBytes"
    using length_snapshot_json[OF assms] by (simp add: platformGenerationMaxRecordBytes_def)
  ultimately show ?thesis using decode_encode assms(2) by blast
qed

theorem generation_roundtrip_witness:
  "\<exists>raw. encodePlatformGeneration sample_record = Some raw \<and> length raw \<le> platformGenerationMaxRecordBytes \<and>
     decodePlatformGeneration raw = Some sample_record"
  by (rule generation_roundtrip[OF sample_record_valid sample_record_wf])

text \<open>The decoder is fail-closed: whatever bytes Redis returns, a record it accepts is valid, its
  map of model states is keyed exactly by its models, and writing it again gives a text that reads
  back as the same record.\<close>

theorem decode_fail_closed:
  assumes "decodePlatformGeneration raw = Some s"
  shows "validPlatformGenerationSnapshot s \<and> fst ` set (states_of s) = set (models_of s) \<and>
         (\<exists>raw'. encodePlatformGeneration s = Some raw' \<and> decodePlatformGeneration raw' = Some s)"
  using decode_valid[OF assms] decode_wf[OF assms] valid_snapshot_models(1) encode_total decode_encode by blast

theorem decode_fail_closed_witness:
  "validPlatformGenerationSnapshot sample_record \<and> fst ` set (states_of sample_record) = set (models_of sample_record) \<and>
   (\<exists>raw'. encodePlatformGeneration sample_record = Some raw' \<and> decodePlatformGeneration raw' = Some sample_record)"
  by (rule decode_fail_closed[OF decode_valid_render[OF sample_record_valid sample_record_wf]])

section \<open>Histories\<close>

text \<open>C4: Every history of calls keeps the store valid: starting from an empty store, whatever text is
  under a generation key decodes to a valid record of that generation.\<close>

theorem reachable_store_valid:
  assumes "store_run cj empty_redis r" "redis_get r (gen_key uid gid) = Some raw"
  shows "\<exists>s. decodePlatformGeneration raw = Some s \<and> gID s = gid"
proof -
  have "store_ok empty_redis" by (simp add: store_ok_def empty_redis_def redis_get_def)
  then have "store_ok r" using store_run_ok[OF assms(1)] by blast
  then show ?thesis using assms(2) by (simp add: store_ok_def)
qed

lemma effect_at_text:
  assumes "store_effect u g r r'" "redis_get r (gen_key uid gid) = Some raw" "decodePlatformGeneration raw = Some s"
  shows "\<exists>raw' s'. redis_get r' (gen_key uid gid) = Some raw' \<and> decodePlatformGeneration raw' = Some s' \<and>
           (raw' = raw \<or> advances s s')"
  using assms(1)
proof cases
  case (replaced raw0 s0 raw' s')
  then show ?thesis using assms(2,3) by (cases "gen_key uid gid = gen_key u g") auto
qed (use assms(2,3) in auto)

lemma run_record:
  assumes "store_run cj r r'" "record_at r uid gid = Some s" "live r' (redis_deadline r (gen_key uid gid))"
    and "P s" "\<And>x y. P x \<Longrightarrow> advances x y \<Longrightarrow> P y"
  shows "\<exists>s'. record_at r' uid gid = Some s' \<and> P s'"
proof -
  obtain raw where raw: "redis_get r (gen_key uid gid) = Some raw" "decodePlatformGeneration raw = Some s"
    using assms(2) by (auto simp: record_at_def Option.bind_eq_Some_conv)
  have "\<exists>raw'. redis_get r' (gen_key uid gid) = Some raw' \<and>
      (\<exists>x. decodePlatformGeneration raw' = Some x \<and> P x) \<and> redis_deadline r' (gen_key uid gid) = redis_deadline r (gen_key uid gid)"
  proof (rule store_run_live[OF assms(1) raw(1) assms(3)])
    show "\<exists>x. decodePlatformGeneration raw = Some x \<and> P x" using raw(2) assms(4) by blast
    fix u g r1 r2 raw1
    assume eff: "store_effect u g r1 r2" and get: "redis_get r1 (gen_key uid gid) = Some raw1"
      and "\<exists>x. decodePlatformGeneration raw1 = Some x \<and> P x"
    then obtain x where x: "decodePlatformGeneration raw1 = Some x" "P x" by blast
    then show "\<exists>raw2. redis_get r2 (gen_key uid gid) = Some raw2 \<and> (\<exists>x. decodePlatformGeneration raw2 = Some x \<and> P x)"
      using effect_at_text[OF eff get x(1)] assms(5) by fastforce
  qed
  then show ?thesis by (auto simp: record_at_def)
qed

text \<open>The two ways a stored record changes: a lifecycle step, which keeps identity, mode and models, and a
  bare cancellation tombstone (no mode, no models yet) learning from a claim what it cancelled.\<close>

definition lifecycle_step :: "snapshot \<Rightarrow> snapshot \<Rightarrow> bool" where
  "lifecycle_step s s' \<longleftrightarrow> lifecycle_ok s s' \<and> gUpdated s \<le> gUpdated s'"

lemma known_advances: "advances s s' \<Longrightarrow> gMode s \<noteq> 0 \<Longrightarrow> lifecycle_step s s' \<and> gMode s' = gMode s"
  by (auto simp: advances_def enriches_def lifecycle_step_def lifecycle_ok_def same_identity_def)

lemma cancelled_advances: "advances s s' \<Longrightarrow> gState s = Cancelled \<Longrightarrow> enriches s s'"
  by (auto simp: advances_def lifecycle_ok_def lifecycle_edge_def)

lemma lifecycle_steps_fixed:
  "lifecycle_step\<^sup>*\<^sup>* s s' \<Longrightarrow> gID s' = gID s \<and> gMode s' = gMode s \<and> models_of s' = models_of s \<and>
     gCreated s' = gCreated s \<and> gUpdated s \<le> gUpdated s'"
  by (induction rule: rtranclp_induct) (auto simp: lifecycle_step_def lifecycle_ok_def same_identity_def)

text \<open>C5: Lifecycle.  Along every history, as long as the key's deadline has not passed, a generation's
  record is still there, with the same identity and creation time and its time not going back.  A record
  that knows its mode has only moved along the lifecycle with mode and models fixed: states running to
  cancelling or committing or failed, cancelling to cancelled, committing to completed or failed, each
  model settling once with its sequence number only counting up by one.  A bare cancellation tombstone
  (mode 0) is still the same tombstone, or a claim has given it mode and models, once, and it stays cancelled.\<close>

theorem record_lifecycle:
  assumes "store_run cj r r'" "record_at r uid gid = Some s" "live r' (redis_deadline r (gen_key uid gid))"
  shows "\<exists>s'. record_at r' uid gid = Some s' \<and> gID s' = gID s \<and> gCreated s' = gCreated s \<and> gUpdated s \<le> gUpdated s' \<and>
    (if gMode s \<noteq> 0 then lifecycle_step\<^sup>*\<^sup>* s s' \<and> gMode s' = gMode s \<and> models_of s' = models_of s
     else gState s' = Cancelled \<and> (s' = s \<or> enriches s s'))"
proof (cases "gMode s = 0")
  case False
  have "\<exists>s'. record_at r' uid gid = Some s' \<and> lifecycle_step\<^sup>*\<^sup>* s s' \<and> gMode s' \<noteq> 0"
    using run_record[OF assms, of "\<lambda>x. lifecycle_step\<^sup>*\<^sup>* s x \<and> gMode x \<noteq> 0"] False known_advances
    by (metis rtranclp.rtrancl_into_rtrancl rtranclp.rtrancl_refl)
  then show ?thesis using False lifecycle_steps_fixed by auto
next
  case True
  have "validPlatformGenerationSnapshot s"
    using assms(2) decode_valid by (auto simp: record_at_def Option.bind_eq_Some_conv)
  then have tomb: "gState s = Cancelled" using True valid_tombstoneD by blast
  have stay: "gState y = Cancelled \<and> (y = s \<or> enriches s y)"
    if "gState x = Cancelled \<and> (x = s \<or> enriches s x)" "advances x y" for x y
    using that cancelled_advances[of x y] by (auto simp: enriches_def)
  have "\<exists>s'. record_at r' uid gid = Some s' \<and> gState s' = Cancelled \<and> (s' = s \<or> enriches s s')"
    using run_record[OF assms, of "\<lambda>x. gState x = Cancelled \<and> (x = s \<or> enriches s x)"] tomb stay by blast
  then show ?thesis using True by (auto simp: enriches_def)
qed

definition settled_record :: "snapshot \<Rightarrow> bool" where
  "settled_record s \<longleftrightarrow> gState s = Completed \<or> gState s = Failed \<or> (gState s = Cancelled \<and> gMode s \<noteq> 0)"

lemma settled_stuck: "settled_record s \<Longrightarrow> \<not> advances s s'"
  by (auto simp: settled_record_def advances_def enriches_def lifecycle_ok_def lifecycle_edge_def)

text \<open>Settled generations are final: once completed, failed or cancelled (with its models known), a
  record is returned unchanged by every later history until its key expires.\<close>

theorem settled_is_final:
  assumes "store_run cj r r'" "record_at r uid gid = Some s" "live r' (redis_deadline r (gen_key uid gid))"
    and "settled_record s"
  shows "record_at r' uid gid = Some s"
  using run_record[OF assms(1-3), of "\<lambda>x. x = s"] settled_stuck[OF assms(4)] by blast

text \<open>Nothing extends a record's life: along every history the deadline set when the record was
  created stays the same, and at that deadline the key is gone unless a new record was created.\<close>

theorem deadline_is_fixed:
  assumes "store_run cj r r'" "redis_get r k = Some raw" "live r' (redis_deadline r k)"
  shows "redis_get r' k \<noteq> None \<and> redis_deadline r' k = redis_deadline r k"
  using store_run_live[OF assms, of "\<lambda>_. True"] effect_get by fastforce

section \<open>Atomic mutations\<close>

lemma mutate_success:
  assumes "store_change change" "mutate net uid gid now change r1 r2 = ((s, None), r3)"
  obtains cur nxt raw where "record_at r2 uid gid = Some cur" "redis_get r2 (gen_key uid gid) = Some raw"
    "gID cur = gid" "gUpdated cur \<le> now" "change (clonePlatformGeneration cur) = Inr nxt"
    "s = settle_lease now nxt" "record_at r3 uid gid = Some s"
    "r3 = redis_set_keepttl (gen_key uid gid) (render (json_of_snapshot s)) r2"
proof -
  obtain raw nextRaw where prep: "mutate_prepare net uid gid now change r1 = Inr (raw, nextRaw)"
    using assms(2) by (auto simp: mutate_def mutate_prepare_def failed_def split: sum.splits if_splits option.splits)
  then obtain cur nxt where cur: "decodePlatformGeneration raw = Some cur" "gID cur = gid" "gUpdated cur \<le> now"
    "change (clonePlatformGeneration cur) = Inr nxt" "encodePlatformGeneration (settle_lease now nxt) = Some nextRaw"
    using mutate_prepareD by metis
  have wf: "snapshot_wf (settle_lease now nxt)"
    using store_change.settled_wf[OF assms(1) decode_wf[OF cur(1)] cur(4)] .
  have dec: "decodePlatformGeneration nextRaw = Some (settle_lease now nxt)" using decode_encode[OF cur(5) wf] .
  have raw_ne: "nextRaw = render (json_of_snapshot (settle_lease now nxt))"
    using cur(5) by (auto simp: encodePlatformGeneration_def split: if_splits)
  have old: "redis_get r2 (gen_key uid gid) = Some raw"
    and eqs: "s = settle_lease now nxt" "r3 = redis_set_keepttl (gen_key uid gid) nextRaw r2"
    using assms(2) prep dec
    by (auto simp: mutate_def redis_eval_def platformGenerationCASScript_def mutate_finish_def failed_def
        split: net.splits option.splits if_splits)
  show thesis
    by (rule that[of cur raw nxt]) (use old eqs cur dec raw_ne in \<open>auto simp: record_at_def\<close>)
qed

lemma mutation_facts:
  assumes "RecordDelta net uid gid m sq now r1 r2 = ((s, None), r3)"
  obtains cur x where "record_at r2 uid gid = Some cur" "gState cur = Running" "gUpdated cur \<le> now"
    "map_of (states_of cur) m = Some x" "mState x = Running" "sq = mSeq x + 1" "snapshot_wf cur" "gState s = Running"
    "s = (put_state m (x\<lparr>mSeq := sq\<rparr>) (clonePlatformGeneration cur))\<lparr>gUpdated := now\<rparr>"
    "record_at r3 uid gid = Some s" "r3 = redis_set_keepttl (gen_key uid gid) (render (json_of_snapshot s)) r2"
proof -
  have "mutate net uid gid now (change_delta m sq) r1 r2 = ((s, None), r3)"
    using assms by (auto simp: RecordDelta_def failed_def split: if_splits)
  from mutate_success[OF delta.store_change_axioms this] obtain cur nxt raw where
    c: "record_at r2 uid gid = Some cur" "gUpdated cur \<le> now" "change_delta m sq (clonePlatformGeneration cur) = Inr nxt"
    "s = settle_lease now nxt" "record_at r3 uid gid = Some s"
    "r3 = redis_set_keepttl (gen_key uid gid) (render (json_of_snapshot s)) r2" by metis
  obtain x where x: "running_model (clonePlatformGeneration cur) m = Some x" "sq = mSeq x + 1"
    "nxt = put_state m (x\<lparr>mSeq := sq\<rparr>) (clonePlatformGeneration cur)"
    using change_deltaD[OF c(3)] by blast
  have "map_of (states_of cur) m = Some x" "gState cur = Running" "mState x = Running"
    using running_modelD[OF x(1)] by simp_all
  moreover have "snapshot_wf cur" using c(1) decode_wf by (auto simp: record_at_def Option.bind_eq_Some_conv)
  ultimately show thesis using that[of cur x] c x by (auto simp: settle_lease_def)
qed

lemma record_at_valid: "record_at r uid gid = Some s \<Longrightarrow> validPlatformGenerationSnapshot s \<and> snapshot_wf s"
  using decode_valid decode_wf by (auto simp: record_at_def Option.bind_eq_Some_conv)

text \<open>A successful mutation is atomic.  Although the record was read earlier and other clients ran
  in between, the record at the moment of the script is the one the change was computed from, the
  stored record becomes exactly the change's result (stamped with the new time), and only this key is
  touched.\<close>

theorem mutation_is_atomic:
  assumes "RecordDelta net uid gid m sq now r1 r2 = ((s, None), r3)"
  shows "\<exists>cur x. record_at r2 uid gid = Some cur \<and> gState cur = Running \<and> gUpdated cur \<le> now \<and>
           map_of (states_of cur) m = Some x \<and> mState x = Running \<and> sq = mSeq x + 1 \<and>
           s = (put_state m (x\<lparr>mSeq := sq\<rparr>) (clonePlatformGeneration cur))\<lparr>gUpdated := now\<rparr> \<and>
           record_at r3 uid gid = Some s \<and>
           (\<forall>k. k \<noteq> gen_key uid gid \<longrightarrow> redis_get r3 k = redis_get r2 k) \<and>
           redis_deadline r3 (gen_key uid gid) = redis_deadline r2 (gen_key uid gid)"
  using mutation_facts[OF assms] by (metis redis_deadline_keepttl redis_get_keepttl)

section \<open>What a mutation does without interference\<close>

definition io_ok :: "io \<Rightarrow> bool" where
  "io_ok net \<longleftrightarrow> ioContext net \<and> ioClient net \<and> ioRead net \<and> ioEval net = NetOk"

lemma good_io_ok [simp]: "io_ok good_io"
  by (simp add: io_ok_def good_io_def)

lemma render_decode_nonempty: "render (json_of_snapshot s) = [] \<longleftrightarrow> False"
  using render_nonempty by blast

lemma mutate_alone:
  assumes "io_ok net" "validatePlatformGenerationIdentity uid gid" "platformSSEV2SafeInteger now"
    and "record_at r uid gid = Some cur" "gID cur = gid" "gUpdated cur \<le> now"
    and "change (clonePlatformGeneration cur) = Inr nxt" "snapshot_wf (settle_lease now nxt)"
    and "validPlatformGenerationSnapshot (settle_lease now nxt)"
  shows "mutate net uid gid now change r r =
    ((settle_lease now nxt, None),
     redis_set_keepttl (gen_key uid gid) (render (json_of_snapshot (settle_lease now nxt))) r)"
proof -
  obtain raw where raw: "redis_get r (gen_key uid gid) = Some raw" "decodePlatformGeneration raw = Some cur"
    using assms(4) by (auto simp: record_at_def Option.bind_eq_Some_conv)
  have "mutate_prepare net uid gid now change r = Inr (raw, render (json_of_snapshot (settle_lease now nxt)))"
    using assms raw encode_total[OF assms(9,8)]
    by (simp add: mutate_prepare_def read_record_def io_ok_def)
  then show ?thesis
    using assms(1) raw decode_valid_render[OF assms(9,8)]
    by (simp add: mutate_def redis_eval_def io_ok_def platformGenerationCASScript_def mutate_finish_def
        render_decode_nonempty)
qed

section \<open>Failures and ownership\<close>

text \<open>A refused mutation has no effect.  If the owned mutation returns any error other than a lost
  transition (the network failed around the script), Redis is exactly as it was.\<close>

theorem refusal_has_no_effect:
  assumes "RecordDeltaOwned net uid gid token m sq now r1 r2 = ((s, Some er), r3)" "er \<noteq> GTransitionFailed"
    and "store_ok r2"
  shows "r3 = r2"
proof -
  have "mutate net uid gid now change r1 r2 = ((s, Some er), r3) \<Longrightarrow> r3 = r2"
    if "store_change change" for change
  proof (cases "mutate_prepare net uid gid now change r1")
    case (Inr p)
    obtain raw nextRaw where p: "p = (raw, nextRaw)" by (cases p)
    obtain cur nxt where cur: "decodePlatformGeneration raw = Some cur" "change (clonePlatformGeneration cur) = Inr nxt"
      "encodePlatformGeneration (settle_lease now nxt) = Some nextRaw"
      using mutate_prepareD Inr p by metis
    have dec: "decodePlatformGeneration nextRaw = Some (settle_lease now nxt)"
      using decode_encode[OF cur(3)] store_change.settled_wf[OF that decode_wf[OF cur(1)] cur(2)] by blast
    then have "nextRaw \<noteq> []" by (auto simp: decodePlatformGeneration_def)
    moreover assume "mutate net uid gid now change r1 r2 = ((s, Some er), r3)"
    ultimately show ?thesis
      using Inr p dec assms(2)
      by (auto simp: mutate_def redis_eval_def platformGenerationCASScript_def mutate_finish_def failed_def
          split: net.splits option.splits if_splits)
  qed (simp add: mutate_def)
  note alone = this[OF owned_store_change[OF delta.store_change_axioms]]
  show ?thesis
    using assms(1) alone
    by (auto simp: RecordDeltaOwned_def mutateOwned_def failed_def split: if_splits)
qed

text \<open>C6: Only the lease owner moves an owned record.  A successful owned commit shows that at the moment
  of the write the stored record was running, its owner digest was the SHA-256 of the caller's token,
  its lease had not run out, and every model was settled with at least one success.\<close>

theorem only_owner_commits:
  assumes "BeginCommitOwned net uid gid token now r1 r2 = ((s, None), r3)"
  shows "validPlatformGenerationLeaseToken token \<and>
    (\<exists>cur. record_at r2 uid gid = Some cur \<and> gState cur = Running \<and>
       gLeaseOwner cur = hex_encode (sha256 token) \<and> now < gLeaseUntil cur \<and>
       (\<forall>m \<in> set (models_of cur). mState (state_at cur m) \<in> {Completed, Failed}) \<and>
       (\<exists>m \<in> set (models_of cur). mState (state_at cur m) = Completed) \<and>
       gState s = Committing \<and> record_at r3 uid gid = Some s)"
proof -
  let ?d = "platformGenerationLeaseDigest token"
  have tok: "validPlatformGenerationLeaseToken token"
    and mut: "mutate net uid gid now (owned_change ?d now change_begin_commit) r1 r2 = ((s, None), r3)"
    using assms by (auto simp: BeginCommitOwned_def mutateOwned_def failed_def split: if_splits)
  obtain cur nxt where c: "record_at r2 uid gid = Some cur"
    "owned_change ?d now change_begin_commit (clonePlatformGeneration cur) = Inr nxt"
    "s = settle_lease now nxt" "record_at r3 uid gid = Some s"
    using mutate_success[OF owned_store_change[OF begin_commit.store_change_axioms] mut] by metis
  have own: "platformGenerationOwnedMutationAuthorized (clonePlatformGeneration cur) ?d now"
    and chg: "change_begin_commit (clonePlatformGeneration cur) = Inr nxt"
    using owned_changeD[OF c(2)] by blast+
  have st: "gState cur = Running" "list_all (\<lambda>m. mState (state_at cur m) = Completed \<or> mState (state_at cur m) = Failed) (models_of cur)"
    "successfulModels (clonePlatformGeneration cur) \<noteq> 0" "gState nxt = Committing"
    using chg by (auto simp: change_begin_commit_def clone_state_at split: if_splits)
  then have "\<exists>m \<in> set (models_of cur). mState (state_at cur m) = Completed"
    by (auto simp: successfulModels_def clone_state_at filter_empty_conv)
  moreover have "gLeaseOwner cur = hex_encode (sha256 token)" "now < gLeaseUntil cur"
    using own st(1) by (auto simp: platformGenerationOwnedMutationAuthorized_def platformGenerationRunningLeaseAuthorized_def
        platformGenerationLeaseMatches_def platformGenerationLeaseDigest_def)
  ultimately show ?thesis
    using tok c(1,3,4) st by (auto simp: list_all_iff settle_lease_def)
qed

text \<open>Who records a delta: the plain operation, or the owner of the lease with its token.\<close>

datatype recorder = AnyClient | LeaseOwner bytes

fun record_by :: "recorder \<Rightarrow> io \<Rightarrow> int \<Rightarrow> bytes \<Rightarrow> bytes \<Rightarrow> int \<Rightarrow> int \<Rightarrow> redis \<Rightarrow> redis \<Rightarrow>
    (snapshot \<times> gen_error option) \<times> redis" where
  "record_by AnyClient net uid gid m sq now r0 r1 = RecordDelta net uid gid m sq now r0 r1"
| "record_by (LeaseOwner token) net uid gid m sq now r0 r1 = RecordDeltaOwned net uid gid token m sq now r0 r1"

lemma recorded_facts:
  assumes "record_by w net uid gid m sq now r1 r2 = ((s, None), r3)"
  obtains cur x where "record_at r2 uid gid = Some cur" "gUpdated cur \<le> now"
    "map_of (states_of cur) m = Some x" "sq = mSeq x + 1" "snapshot_wf cur" "gState s = Running"
    "s = (put_state m (x\<lparr>mSeq := sq\<rparr>) (clonePlatformGeneration cur))\<lparr>gUpdated := now\<rparr>" "record_at r3 uid gid = Some s"
proof (cases w)
  case AnyClient
  then show thesis using assms mutation_facts[of net uid gid m sq now r1 r2 s r3] that by (metis record_by.simps(1))
next
  case (LeaseOwner token)
  have "mutate net uid gid now (owned_change (platformGenerationLeaseDigest token) now (change_delta m sq)) r1 r2 = ((s, None), r3)"
    using assms LeaseOwner by (auto simp: RecordDeltaOwned_def mutateOwned_def failed_def split: if_splits)
  from mutate_success[OF owned_store_change[OF delta.store_change_axioms] this] obtain cur nxt where
    c: "record_at r2 uid gid = Some cur" "gUpdated cur \<le> now" "s = settle_lease now nxt" "record_at r3 uid gid = Some s"
    "owned_change (platformGenerationLeaseDigest token) now (change_delta m sq) (clonePlatformGeneration cur) = Inr nxt" by metis
  have "change_delta m sq (clonePlatformGeneration cur) = Inr nxt" using owned_changeD[OF c(5)] by blast
  then obtain x where x: "running_model (clonePlatformGeneration cur) m = Some x" "sq = mSeq x + 1"
    "nxt = put_state m (x\<lparr>mSeq := sq\<rparr>) (clonePlatformGeneration cur)"
    using change_deltaD by blast
  have "snapshot_wf cur" using record_at_valid[OF c(1)] by blast
  then show thesis using that[of cur x] c x running_modelD[OF x(1)] by (auto simp: settle_lease_def)
qed

text \<open>C7: No delta is counted twice.  Once a delta of a model is recorded, by the plain operation or by the
  lease owner, no later call of either operation by any client can record the same sequence number of that
  model while the key lives, whatever other calls run in between.\<close>

theorem delta_recorded_once:
  assumes "record_by w net uid gid m sq now r0 r1 = ((s, None), r2)"
    and "store_run cj r2 r4" "live r4 (redis_deadline r2 (gen_key uid gid))"
    and "record_by w' net' uid gid m sq now' r3 r4 = ((s', er), r5)"
  shows "er \<noteq> None"
proof
  assume er: "er = None"
  obtain cur x where first: "record_at r2 uid gid = Some s" "snapshot_wf cur" "gState s = Running"
    "s = (put_state m (x\<lparr>mSeq := sq\<rparr>) (clonePlatformGeneration cur))\<lparr>gUpdated := now\<rparr>"
    using recorded_facts[OF assms(1)] by metis
  have "state_at s m = x\<lparr>mSeq := sq\<rparr>"
    using first(2,4) clone_wf state_at_put state_at_cong[of s "put_state m (x\<lparr>mSeq := sq\<rparr>) (clonePlatformGeneration cur)"]
    by simp
  then have start: "gMode s \<noteq> 0 \<and> sq \<le> mSeq (state_at s m)"
    using record_at_valid[OF first(1)] first(3) valid_tombstoneD by fastforce
  have keep: "gMode b \<noteq> 0 \<and> sq \<le> mSeq (state_at b m)"
    if "gMode a \<noteq> 0 \<and> sq \<le> mSeq (state_at a m)" "advances a b" for a b
  proof -
    have "lifecycle_ok a b" using that by (auto simp: advances_def enriches_def)
    then have "gMode b = gMode a" "model_step (state_at a m) (state_at b m)"
      by (simp_all add: lifecycle_ok_def same_identity_def)
    then show ?thesis using that(1) by (auto simp: model_step_def)
  qed
  have "\<exists>s4. record_at r4 uid gid = Some s4 \<and> gMode s4 \<noteq> 0 \<and> sq \<le> mSeq (state_at s4 m)"
    by (rule run_record[where P = "\<lambda>y. gMode y \<noteq> 0 \<and> sq \<le> mSeq (state_at y m)",
          OF assms(2) first(1) assms(3) start]) (erule (1) keep)
  then obtain s4 where s4: "record_at r4 uid gid = Some s4" "sq \<le> mSeq (state_at s4 m)" by blast
  obtain cur' x' where second: "record_at r4 uid gid = Some cur'" "map_of (states_of cur') m = Some x'" "sq = mSeq x' + 1"
    using recorded_facts[OF assms(4)[unfolded er]] by metis
  then show False using s4 by (simp add: state_at_def)
qed

section \<open>Claims and tombstones\<close>

lemma claim_script_created:
  "platformGenerationClaimScript cj key enc enr ttl gid c ms r = (reply 1 x, r') \<Longrightarrow>
   redis_get r key = None \<and> x = enc \<and> r' = redis_set_px key enc ttl r"
  by (auto simp: platformGenerationClaimScript_def reply_def split: option.splits)

lemma claim_script_reply:
  "\<exists>k x r'. platformGenerationClaimScript cj key enc enr ttl gid c ms r = (reply k x, r')"
  by (auto simp: platformGenerationClaimScript_def split: option.splits)

lemma claim_finish_success:
  assumes "claim_finish i token rep = (res, None)"
  obtains v stored s where "rep = Some v" "platformGenerationDecisionResult v = Inr (1, stored)"
    "decodePlatformGeneration stored = Some s" "res = \<lparr>clSnapshot = s, clDuplicate = False, clToken = token\<rparr>"
  using assms by (auto simp: claim_finish_def no_claim_def split: option.splits sum.splits if_splits)

lemma Claim_success:
  assumes "Claim cj net random i r = ((res, None), r')"
  obtains token digest encoded where "validatePlatformGenerationInput i"
    "newPlatformGenerationLeaseFrom random = Inr (token, digest)" "redis_get r (gen_key (inUser i) (inID i)) = None"
    "encodePlatformGeneration (claim_snapshot i digest) = Some encoded"
    "r' = redis_set_px (gen_key (inUser i) (inID i)) encoded platformGenerationTTL r"
    "res = \<lparr>clSnapshot = claim_snapshot i digest, clDuplicate = False, clToken = token\<rparr>"
proof -
  obtain token digest encoded enriched rep where c: "validatePlatformGenerationInput i"
    "newPlatformGenerationLeaseFrom random = Inr (token, digest)"
    "encodePlatformGeneration (claim_snapshot i digest) = Some encoded"
    "redis_eval (ioEval net) (platformGenerationClaimScript cj (gen_key (inUser i) (inID i)) encoded enriched
        platformGenerationTTL (inID i) Cancelled platformSSEV2MaxSafeInteger) r = (rep, r')"
    "claim_finish i token rep = (res, None)"
    using assms by (auto simp: Claim_def split: if_splits sum.splits option.splits prod.splits)
  obtain v stored s where fin: "rep = Some v" "platformGenerationDecisionResult v = Inr (1, stored)"
    "decodePlatformGeneration stored = Some s" "res = \<lparr>clSnapshot = s, clDuplicate = False, clToken = token\<rparr>"
    using claim_finish_success[OF c(5)] by metis
  have "platformGenerationClaimScript cj (gen_key (inUser i) (inID i)) encoded enriched
        platformGenerationTTL (inID i) Cancelled platformSSEV2MaxSafeInteger r = (v, r')"
    using c(4) fin(1) by (auto simp: redis_eval_def split: net.splits prod.splits)
  moreover obtain k x r1 where "platformGenerationClaimScript cj (gen_key (inUser i) (inID i)) encoded enriched
        platformGenerationTTL (inID i) Cancelled platformSSEV2MaxSafeInteger r = (reply k x, r1)"
    using claim_script_reply by metis
  ultimately have v: "v = reply k x" "r1 = r'" and script: "platformGenerationClaimScript cj (gen_key (inUser i) (inID i)) encoded enriched
        platformGenerationTTL (inID i) Cancelled platformSSEV2MaxSafeInteger r = (reply k x, r')" by simp_all
  have "k = 1" "x = stored" using fin(2) v by (auto split: if_splits)
  then have made: "redis_get r (gen_key (inUser i) (inID i)) = None" "stored = encoded"
    "r' = redis_set_px (gen_key (inUser i) (inID i)) encoded platformGenerationTTL r"
    using claim_script_created script by blast+
  have "s = claim_snapshot i digest"
    using fin(3) made(2) decode_encode[OF c(3) claim_snapshots_wf(1)] by simp
  then show thesis using that c made fin(4) by blast
qed

lemma claim_outcome:
  assumes "Claim cj net random i r = ((res, er), r')"
  shows "if er = None then
           redis_get r (gen_key (inUser i) (inID i)) = None \<and>
           validPlatformGenerationLeaseToken (clToken res) \<and> \<not> clDuplicate res \<and>
           clSnapshot res = claim_snapshot i (platformGenerationLeaseDigest (clToken res)) \<and>
           record_at r' (inUser i) (inID i) = Some (clSnapshot res) \<and>
           redis_deadline r' (gen_key (inUser i) (inID i)) = Some (rClock r + platformGenerationTTL)
         else clToken res = []"
proof (cases "er = None")
  case False
  then show ?thesis
    using assms
    by (auto simp: Claim_def no_claim_def claim_finish_def split_beta split: if_splits sum.splits option.splits prod.splits)
next
  case True
  then have "Claim cj net random i r = ((res, None), r')" using assms by simp
  from Claim_success[OF this] obtain token digest encoded where c: "newPlatformGenerationLeaseFrom random = Inr (token, digest)"
    "redis_get r (gen_key (inUser i) (inID i)) = None" "encodePlatformGeneration (claim_snapshot i digest) = Some encoded"
    "r' = redis_set_px (gen_key (inUser i) (inID i)) encoded platformGenerationTTL r"
    "res = \<lparr>clSnapshot = claim_snapshot i digest, clDuplicate = False, clToken = token\<rparr>" by metis
  have "record_at r' (inUser i) (inID i) = Some (claim_snapshot i digest)"
    using c(4) decode_encode[OF c(3) claim_snapshots_wf(1)] by (simp add: record_at_def)
  then show ?thesis using True c new_lease_token_valid[OF c(1)] by simp
qed

text \<open>C8: A lease is given out once per record.  A claim that returns without error found no record; it
  leaves exactly the fresh running record owned by the SHA-256 of the returned token, with the
  store's time to live; and after any history of calls, as long as that key's deadline has not passed, every
  later claim of the same generation of the user fails and leaves its caller without a token.  A claim that
  returns an error returns no token.\<close>

theorem claim_is_exclusive:
  assumes "Claim cj net random i r = ((res, er), r')"
    and "store_run cj r' r3" "live r3 (redis_deadline r' (gen_key (inUser i) (inID i)))"
    and "inUser j = inUser i" "inID j = inID i" "Claim cj net' random' j r3 = ((res', er'), r4)"
  shows "if er = None then
           redis_get r (gen_key (inUser i) (inID i)) = None \<and>
           validPlatformGenerationLeaseToken (clToken res) \<and> \<not> clDuplicate res \<and>
           clSnapshot res = claim_snapshot i (platformGenerationLeaseDigest (clToken res)) \<and>
           record_at r' (inUser i) (inID i) = Some (clSnapshot res) \<and>
           redis_deadline r' (gen_key (inUser i) (inID i)) = Some (rClock r + platformGenerationTTL) \<and>
           er' \<noteq> None \<and> clToken res' = []
         else clToken res = []"
proof (cases "er = None")
  case True
  then have "record_at r' (inUser i) (inID i) = Some (clSnapshot res)" using claim_outcome[OF assms(1)] by simp
  then have "\<exists>s. record_at r3 (inUser i) (inID i) = Some s" using run_record[OF assms(2) _ assms(3), of _ "\<lambda>_. True"] by blast
  then have "redis_get r3 (gen_key (inUser j) (inID j)) \<noteq> None" using assms(4,5) by (auto simp: record_at_def Option.bind_eq_Some_conv)
  then have "er' \<noteq> None" "clToken res' = []" using claim_outcome[OF assms(6)] by (auto split: if_splits)
  then show ?thesis using True claim_outcome[OF assms(1)] by simp
qed (use claim_outcome[OF assms(1)] in auto)

lemma cancel_script_cases:
  obtains (created) "redis_get r key = None"
      "platformGenerationCancelOrCreateScript cj key tomb ttl expected moved st run r = (reply 1 tomb, redis_set_px key tomb ttl r)"
  | (transitioned) "redis_get r key = Some expected" "moved \<noteq> []"
      "platformGenerationCancelOrCreateScript cj key tomb ttl expected moved st run r = (reply 2 moved, redis_set_keepttl key moved r)"
  | (same) code old where "redis_get r key = Some old" "code \<in> {0, - 1, - 2}"
      "platformGenerationCancelOrCreateScript cj key tomb ttl expected moved st run r = (reply code old, r)"
proof (cases "redis_get r key")
  case None
  then show thesis using created by (simp add: platformGenerationCancelOrCreateScript_def)
next
  case (Some old)
  show thesis
  proof (cases "old = expected \<and> \<not> st < 0 \<and> st = run \<and> moved \<noteq> []")
    case True
    then show thesis using transitioned Some by (simp add: platformGenerationCancelOrCreateScript_def)
  next
    case False
    then have "\<exists>code \<in> {0, - 1, - 2}.
        platformGenerationCancelOrCreateScript cj key tomb ttl expected moved st run r = (reply code old, r)"
      using Some by (auto simp: platformGenerationCancelOrCreateScript_def split: option.split)
    then show thesis using same Some by blast
  qed
qed

lemma cancel_finish_success:
  assumes "cancel_finish gid rep = (d, None)"
  obtains v code stored s where "rep = Some v" "platformGenerationDecisionResult v = Inr (code, stored)"
    "decodePlatformGeneration stored = Some s"
    "d = \<lparr>cdSnapshot = s, cdCreated = (code = 1), cdTransitioned = (code = 2)\<rparr>"
  using assms by (auto simp: cancel_finish_def no_decision_def Let_def split: option.splits sum.splits if_splits)

text \<open>What a cancellation reports is what it did.  A created tombstone was written where there was
  no record; a reported transition moved a running record, last active no later than now, to
  cancelling and nothing else; otherwise nothing was written.  The returned snapshot is the stored one.\<close>

theorem cancel_reports_effect:
  assumes "CancelOrCreate cj net uid gid now r0 r1 = ((d, None), r2)"
  shows "record_at r2 uid gid = Some (cdSnapshot d) \<and>
    (if cdCreated d then redis_get r1 (gen_key uid gid) = None \<and> cdSnapshot d = tombstone gid now
     else if cdTransitioned d then
       (\<exists>cur. record_at r1 uid gid = Some cur \<and> gState cur = Running \<and>
          platformGenerationLatestRunningActivity cur \<le> now \<and>
          cdSnapshot d = (clonePlatformGeneration cur)\<lparr>gState := Cancelling, gUpdated := now, gLeaseUntil := 0\<rparr>)
     else r2 = r1)"
proof -
  let ?key = "gen_key uid gid"
  obtain raw expected moved st rep where c: "encodePlatformGeneration (tombstone gid now) = Some raw"
    "cancel_prepare gid now (redis_get r0 ?key) = Some (expected, moved, st)"
    "redis_eval (ioEval net) (platformGenerationCancelOrCreateScript cj ?key raw platformGenerationTTL expected moved st Running) r1 = (rep, r2)"
    "cancel_finish gid rep = (d, None)"
    using assms by (auto simp: CancelOrCreate_def split: if_splits option.splits prod.splits)
  obtain v code stored s where fin: "rep = Some v" "platformGenerationDecisionResult v = Inr (code, stored)"
    "decodePlatformGeneration stored = Some s"
    "d = \<lparr>cdSnapshot = s, cdCreated = (code = 1), cdTransitioned = (code = 2)\<rparr>"
    using cancel_finish_success[OF c(4)] by metis
  have script: "platformGenerationCancelOrCreateScript cj ?key raw platformGenerationTTL expected moved st Running r1 = (v, r2)"
    using c(3) fin(1) by (auto simp: redis_eval_def split: net.splits prod.splits)
  show ?thesis
  proof (cases rule: cancel_script_cases[of r1 ?key cj raw platformGenerationTTL expected moved st Running])
    case created
    then have "v = reply 1 raw" "r2 = redis_set_px ?key raw platformGenerationTTL r1" using script by simp_all
    moreover have "decodePlatformGeneration raw = Some (tombstone gid now)" using decode_encode[OF c(1) tombstone_wf] .
    ultimately show ?thesis
      using fin created(1) by (auto simp: record_at_def split: if_splits)
  next
    case transitioned
    then have v: "v = reply 2 moved" "r2 = redis_set_keepttl ?key moved r1" using script by simp_all
    obtain cur nxt where cur: "decodePlatformGeneration expected = Some cur"
      "decodePlatformGeneration moved = Some nxt" "gState cur = Running"
      "platformGenerationLatestRunningActivity cur \<le> now"
      "nxt = (clonePlatformGeneration cur)\<lparr>gState := Cancelling, gUpdated := now, gLeaseUntil := 0\<rparr>"
      using cancel_prepareD[OF c(2) transitioned(2)] by metis
    then show ?thesis
      using fin v transitioned(1) by (auto simp: record_at_def split: if_splits)
  next
    case (same k old)
    then have "v = reply k old" "r2 = r1" using script by simp_all
    then show ?thesis
      using fin same(1,2) by (auto simp: record_at_def split: if_splits)
  qed
qed

text \<open>A cancellation that arrives first wins.  Once \<open>CancelOrCreate\<close> has left its tombstone, no claim
  of that generation succeeds while the tombstone's key lives, whatever happened in between.\<close>

theorem tombstone_blocks_claim:
  assumes "CancelOrCreate cj net uid gid now r0 r1 = ((d, None), r2)" "cdCreated d"
    and "store_run cj r2 r3" "live r3 (redis_deadline r2 (gen_key uid gid))"
    and "inUser i = uid" "inID i = gid" "Claim cj net' random i r3 = ((res, er), r4)"
  shows "er \<noteq> None \<and> clToken res = [] \<and> (\<exists>s. record_at r3 uid gid = Some s \<and> gState s = Cancelled)"
proof -
  have tomb: "record_at r2 uid gid = Some (tombstone gid now)"
    using cancel_reports_effect[OF assms(1)] assms(2) by simp
  obtain s where s: "record_at r3 uid gid = Some s" "gState s = Cancelled"
    using run_record[OF assms(3) tomb assms(4), of "\<lambda>x. gState x = Cancelled"]
    by (auto simp: tombstone_def advances_def enriches_def lifecycle_ok_def lifecycle_edge_def)
  then have "redis_get r3 (gen_key (inUser i) (inID i)) \<noteq> None"
    using assms(5,6) by (cases "redis_get r3 (gen_key uid gid)") (auto simp: record_at_def)
  then show ?thesis using claim_outcome[OF assms(7)] s by (auto split: if_splits)
qed

end
