(* ===== verification/Generation_Convergence.thy ===== *)
theory Generation_Convergence
  imports Generation_Properties
begin

text \<open>
  Completion, reconciliation and convergence: what a completed record says, that reconciling twice is
  harmless, and that a generation whose owner vanished is always settled by the converging operations
  once its lease or its window has passed.
\<close>

section \<open>Completion\<close>

lemma complete_loop_facts:
  "complete_loop guids ms seen n s = Inr (n', s') \<Longrightarrow> snapshot_wf s \<Longrightarrow> distinct ms \<Longrightarrow>
   (\<forall>m \<in> set ms. mState (state_at s m) = Completed \<longrightarrow>
      (\<exists>g. map_of guids m = Some g \<and> platformGenerationMessageGUID g \<and> g \<notin> set seen \<and> mGUID (state_at s' m) = g)) \<and>
   (\<forall>k. k \<notin> set ms \<longrightarrow> state_at s' k = state_at s k) \<and>
   n' = n + length (filter (\<lambda>m. mState (state_at s m) = Completed) ms) \<and>
   inj_on (\<lambda>m. mGUID (state_at s' m)) {m \<in> set ms. mState (state_at s m) = Completed}"
proof (induction guids ms seen n s rule: complete_loop.induct)
  case (2 guids m ms seen n s)
  show ?case
  proof (cases "mState (state_at s m) \<noteq> Completed")
    case True
    have "complete_loop guids ms seen n s = Inr (n', s')" using 2(3) True by simp
    note IH = 2(1)[OF True this 2(4)]
    have sub: "{x \<in> set (m # ms). mState (state_at s x) = Completed} = {x \<in> set ms. mState (state_at s x) = Completed}"
      using True by auto
    show ?thesis unfolding sub using IH 2(5) True by auto
  next
    case False
    then obtain g where g: "map_of guids m = Some g" "platformGenerationMessageGUID g" "g \<notin> set seen"
      and rest: "complete_loop guids ms (g # seen) (Suc n) (put_state m ((state_at s m)\<lparr>mGUID := g\<rparr>) s) = Inr (n', s')"
      using 2(3) by (auto split: option.splits if_splits)
    let ?t = "put_state m ((state_at s m)\<lparr>mGUID := g\<rparr>) s"
    note at = state_at_put[OF 2(4)]
    have m: "m \<notin> set ms" using 2(5) by simp
    have same: "x \<in> set ms \<Longrightarrow> state_at ?t x = state_at s x" for x using m by (auto simp: at)
    have IH: "(\<forall>x \<in> set ms. mState (state_at s x) = Completed \<longrightarrow>
        (\<exists>h. map_of guids x = Some h \<and> platformGenerationMessageGUID h \<and> h \<notin> set (g # seen) \<and> mGUID (state_at s' x) = h))"
      "\<forall>k. k \<notin> set ms \<longrightarrow> state_at s' k = state_at ?t k"
      "n' = Suc n + length (filter (\<lambda>x. mState (state_at s x) = Completed) ms)"
      "inj_on (\<lambda>x. mGUID (state_at s' x)) {x \<in> set ms. mState (state_at s x) = Completed}"
      using 2(2)[OF _ g(1) _ _ rest put_state_wf[OF 2(4)]] 2(5) False g(2,3) same
      by (auto cong: filter_cong conj_cong)
    have mine: "mGUID (state_at s' m) = g" using IH(2) m by (simp add: at)
    have set_eq: "{x \<in> set (m # ms). mState (state_at s x) = Completed} =
        insert m {x \<in> set ms. mState (state_at s x) = Completed}" using False by auto
    have inj: "inj_on (\<lambda>x. mGUID (state_at s' x)) {x \<in> set (m # ms). mState (state_at s x) = Completed}"
      unfolding set_eq using IH(1,4) mine m by (auto simp: inj_on_insert)
    show ?thesis
      using IH(1-3) mine g inj False m by (auto simp: at)
  qed
qed auto

lemma change_complete_facts:
  assumes "snapshot_wf s" "distinct (models_of s)" "change_complete guids s = Inr s'"
  shows "gState s' = Completed \<and> models_of s' = models_of s \<and>
    (\<forall>m \<in> set (models_of s). mState (state_at s' m) = Completed \<longrightarrow>
       (\<exists>g. map_of guids m = Some g \<and> platformGenerationMessageGUID g \<and> mGUID (state_at s' m) = g)) \<and>
    length guids = successfulModels s' \<and>
    inj_on (\<lambda>m. mGUID (state_at s' m)) {m \<in> set (models_of s). mState (state_at s' m) = Completed}"
proof -
  obtain n t where t: "complete_loop guids (models_of s) [] 0 s = Inr (n, t)" "length guids = n" "s' = t\<lparr>gState := Completed\<rparr>"
    using change_completeD[OF assms(3)] by blast
  note facts = complete_loop_facts[OF t(1) assms(1,2)]
  have filled: "guids_filled s t" using complete_loop_filled[OF t(1) assms(1)] by blast
  have at: "state_at s' = state_at t" using t(3) by (intro state_at_cong) simp
  have same: "mState (state_at t m) = mState (state_at s m)" for m
    using filled by (auto simp: guids_filled_def) (metis gen_model.select_convs(2) gen_model.surjective gen_model.update_convs(4))
  have models: "models_of s' = models_of s" using filled t(3) by (auto simp: guids_filled_def)
  have "length guids = successfulModels s'"
    using facts t(2) by (simp add: successfulModels_def models at same)
  moreover have "gState s' = Completed" using t(3) by simp
  ultimately show ?thesis using facts models by (simp add: at same)
qed

lemma valid_models_distinct: "validPlatformGenerationSnapshot s \<Longrightarrow> distinct (models_of s)"
  by (erule valid_snapshot_cases)
    (auto simp: validPlatformGenerationTombstone_def validatePlatformGenerationInput_def snapshot_input_def)

text \<open>A completed generation names its messages.  After a successful completion every completed model
  carries the message identifier the caller gave for it, the identifiers are valid and pairwise
  different, and no identifier was given for any other model.\<close>

theorem completion_names_messages:
  assumes "Complete_op net uid gid guids now r1 r2 = ((s, None), r3)"
  shows "gState s = Completed \<and> record_at r3 uid gid = Some s \<and>
    (\<forall>m \<in> set (models_of s). mState (state_at s m) = Completed \<longrightarrow>
       (\<exists>g. map_of guids m = Some g \<and> platformGenerationMessageGUID g \<and> mGUID (state_at s m) = g)) \<and>
    length guids = successfulModels s \<and>
    inj_on (\<lambda>m. mGUID (state_at s m)) {m \<in> set (models_of s). mState (state_at s m) = Completed}"
proof -
  obtain cur nxt where c: "record_at r2 uid gid = Some cur" "change_complete guids (clonePlatformGeneration cur) = Inr nxt"
    "s = settle_lease now nxt" "record_at r3 uid gid = Some s"
    using mutate_success[OF complete.store_change_axioms assms[unfolded Complete_op_def]] by metis
  have cur: "snapshot_wf cur" "distinct (models_of cur)"
    using record_at_valid[OF c(1)] valid_models_distinct by blast+
  note facts = change_complete_facts[OF clone_wf[OF cur(1)] _ c(2)]
  have at: "state_at s = state_at nxt" "models_of s = models_of nxt" "gState s = gState nxt"
    using c(3) by (auto simp: settle_lease_def intro: state_at_cong)
  show ?thesis
    using facts cur(2) c(4) by (simp add: at successfulModels_def)
qed

lemma completion_matches:
  assumes "Complete_op net uid gid guids now r1 r2 = ((s, None), r3)"
  shows "gState s = Completed \<and> platformGenerationGUIDMapMatches s guids"
proof -
  obtain cur nxt where c: "record_at r2 uid gid = Some cur" "change_complete guids (clonePlatformGeneration cur) = Inr nxt"
    "s = settle_lease now nxt"
    using mutate_success[OF complete.store_change_axioms assms[unfolded Complete_op_def]] by metis
  have cur: "snapshot_wf cur" "distinct (models_of cur)"
    using record_at_valid[OF c(1)] valid_models_distinct by blast+
  note facts = change_complete_facts[OF clone_wf[OF cur(1)] _ c(2)]
  have at: "state_at s = state_at nxt" "models_of s = models_of nxt" "gState s = gState nxt"
    using c(3) by (auto simp: settle_lease_def intro: state_at_cong)
  show ?thesis
    using facts cur(2) by (auto simp: platformGenerationGUIDMapMatches_def successfulModels_def at list_all_iff)
qed

lemma reconcile_result:
  assumes "ReconcileComplete net net' uid gid guids now r0 r1 r2 = ((s, None), r3)"
  shows "gState s = Completed \<and> platformGenerationGUIDMapMatches s guids"
proof -
  obtain s0 where get: "store_Get net uid gid r0 = (s0, None)"
    using assms by (cases "store_Get net uid gid r0")
      (auto simp: ReconcileComplete_def failed_def split: if_splits option.splits)
  show ?thesis
  proof (cases "gState s0 = Completed")
    case True
    then show ?thesis using assms get by (auto simp: ReconcileComplete_def failed_def split: if_splits)
  next
    case False
    obtain t er r' where run: "Complete_op net' uid gid guids now r1 r2 = ((t, er), r')"
      by (metis prod.exhaust)
    then show ?thesis
      using assms get False completion_matches[of net' uid gid guids now r1 r2 t r']
      by (auto simp: ReconcileComplete_def failed_def split: if_splits)
  qed
qed

text \<open>Reconciliation is idempotent.  After a successful reconciliation with some message identifiers,
  reconciling again with the same identifiers, from any client that sees the record, succeeds with the
  same record and writes nothing.\<close>

theorem reconcile_idempotent:
  assumes "ReconcileComplete net net' uid gid guids now r0 r1 r2 = ((s, None), r3)"
    and "record_at r4 uid gid = Some s" "store_ok r4" "io_ok io"
    and "validatePlatformGenerationIdentity uid gid" "platformSSEV2SafeInteger now'" "0 < now'"
  shows "ReconcileComplete io io' uid gid guids now' r4 r5 r6 = ((s, None), r6)"
proof -
  obtain raw where raw: "redis_get r4 (gen_key uid gid) = Some raw" "decodePlatformGeneration raw = Some s"
    using assms(2) by (auto simp: record_at_def Option.bind_eq_Some_conv)
  then have "gID s = gid" using assms(3) by (force simp: store_ok_def)
  then have "store_Get io uid gid r4 = (s, None)"
    using raw assms(4,5) by (simp add: store_Get_def read_record_def io_ok_def)
  then show ?thesis
    using reconcile_result[OF assms(1)] assms(4-7)
    by (simp add: ReconcileComplete_def validatePlatformGenerationReconciliationRequest_def io_ok_def)
qed

section \<open>Settling an abandoned generation\<close>

lemma mapped_valid:
  assumes "validPlatformGenerationSnapshot s" "snapshot_wf s" "gState s = Running \<or> gState s = Cancelling"
    and "\<And>x. valid_model_state s x \<Longrightarrow> valid_model_state s (f x) \<and> mState (f x) \<in> {Completed, Failed, Cancelled}"
    and "st = Failed \<and> platformGenerationStableCode er \<or> st = Cancelled \<and> er = []"
    and "gUpdated s \<le> now" "platformSSEV2SafeInteger now"
    and s': "s' = (map_states f (clonePlatformGeneration s))\<lparr>gState := st, gError := er, gUpdated := now,
                   gLeaseOwner := [], gLeaseUntil := 0\<rparr>"
  shows "validPlatformGenerationSnapshot s'"
  using assms(1)
proof (cases rule: valid_snapshot_cases)
  case tombstone
  then show ?thesis using assms(3) by simp
next
  case live
  have vm: "valid_model_state s' x = valid_model_state s x" for x
    using assms(3,5) s' by (auto simp: valid_model_state_def)
  have states: "states_of s' = sm_map f (states_of s)" "models_of s' = models_of s" using s' by simp_all
  have entry: "valid_model_entry s' m \<and> mState (state_at s' m) \<in> {Completed, Failed, Cancelled}"
    if "m \<in> set (models_of s)" for m
  proof -
    have "valid_model_entry s m" using that live(10) by (simp add: list_all_iff)
    then obtain x where x: "map_of (states_of s) m = Some x" "valid_model_state s x"
      by (auto simp: valid_model_entry_def split: option.splits)
    then show ?thesis using assms(4)[OF x(2)] by (simp add: valid_model_entry_def state_at_def states vm)
  qed
  then have "terminalModels s' = length (models_of s')"
    by (simp add: terminalModels_def states(2) filter_id_conv)
  moreover have "list_all (valid_model_entry s') (models_of s')" using entry states(2) by (simp add: list_all_iff)
  moreover have "validatePlatformGenerationInput (snapshot_input s')"
    using live(2) s' by (simp add: snapshot_input_def)
  moreover have "length (states_of s') = length (models_of s')" using live(5) states by simp
  moreover have "validPlatformGenerationLease s'" using assms(5) s' by (auto simp: validPlatformGenerationLease_def)
  moreover have "gMode s' \<noteq> 0" "gCreated s' \<le> gUpdated s'" "gUpdated s' = now" "gState s' = st" "gError s' = er"
    using live(1,4) assms(6) s' by simp_all
  ultimately show ?thesis
    using assms(5,7) by (auto simp: validPlatformGenerationSnapshot_def)
qed

lemma control_alone:
  assumes "io_ok net" "redis_get r (gen_key uid gid) = Some raw" "validPlatformGenerationSnapshot s" "snapshot_wf s" "gID s = gid"
  shows "writePlatformGenerationControlCAS net uid gid raw s r =
    ((s, None), redis_set_keepttl (gen_key uid gid) (render (json_of_snapshot s)) r)"
  using assms decode_valid_render[OF assms(3,4)] encode_total[OF assms(3,4)]
  by (simp add: writePlatformGenerationControlCAS_def redis_eval_def io_ok_def platformGenerationCASScript_def
      control_finish_def render_decode_nonempty)

lemma load_alone:
  assumes "io_ok net" "record_at r uid gid = Some s" "gID s = gid"
  obtains raw where "redis_get r (gen_key uid gid) = Some raw" "loadPlatformGenerationForControl net uid gid r = Inr (raw, s)"
  using assms by (auto simp: record_at_def Option.bind_eq_Some_conv loadPlatformGenerationForControl_def io_ok_def)

lemma fail_running_valid:
  "gState s \<noteq> Completed \<Longrightarrow> valid_model_state s x \<Longrightarrow>
   valid_model_state s (fail_running ''internal_error'' x) \<and> mState (fail_running ''internal_error'' x) \<in> {Completed, Failed, Cancelled}"
  by (auto simp: valid_model_state_def fail_running_def platformGenerationStableCode_def platformSSEV2StableCodes_def
      split: if_splits)

lemma cancel_running_valid:
  "gState s \<noteq> Completed \<Longrightarrow> valid_model_state s x \<Longrightarrow>
   valid_model_state s (cancel_running x) \<and> mState (cancel_running x) \<in> {Completed, Failed, Cancelled}"
  by (auto simp: valid_model_state_def cancel_running_def split: if_splits)

text \<open>An abandoned generation is always failed.  Once the lease of a running generation has run out,
  \<open>FailExpiredRunning\<close> run without interference succeeds: the stored record becomes failed with no
  owner, and every model that was still running is failed.\<close>

theorem expired_generation_fails:
  assumes "io_ok net" "control_ok net uid gid now"
    and "record_at r uid gid = Some s" "gID s = gid" "gState s = Running" "gUpdated s \<le> now" "gLeaseUntil s \<le> now"
  shows "\<exists>s' r'. FailExpiredRunning net uid gid now r r = ((s', None), r') \<and> record_at r' uid gid = Some s' \<and>
           gState s' = Failed \<and> gLeaseOwner s' = [] \<and>
           (\<forall>m. state_at s' m = fail_running ''internal_error'' (state_at s m) \<or> m \<notin> set (models_of s))"
proof -
  let ?s' = "expired_snapshot now (clonePlatformGeneration s)"
  obtain raw where raw: "redis_get r (gen_key uid gid) = Some raw"
    "loadPlatformGenerationForControl net uid gid r = Inr (raw, s)"
    using load_alone[OF assms(1,3,4)] by blast
  have s: "validPlatformGenerationSnapshot s" "snapshot_wf s" using record_at_valid[OF assms(3)] by blast+
  have valid: "validPlatformGenerationSnapshot ?s'"
    by (rule mapped_valid[OF s, where f = "fail_running ''internal_error''" and st = Failed and er = "''internal_error''" and now = now])
      (use assms fail_running_valid[of s] in \<open>simp_all add: expired_snapshot_def control_ok_def
         platformGenerationStableCode_def platformSSEV2StableCodes_def\<close>)
  have wf: "snapshot_wf ?s'" using s(2) by (simp add: snapshot_wf_def expired_snapshot_def)
  have id: "gID ?s' = gid" using assms(4) by (simp add: expired_snapshot_def)
  have run: "FailExpiredRunning net uid gid now r r =
      ((?s', None), redis_set_keepttl (gen_key uid gid) (render (json_of_snapshot ?s')) r)"
    using assms raw(2) control_alone[OF assms(1) raw(1) valid wf id]
    by (simp add: FailExpiredRunning_def io_ok_def)
  have "state_at ?s' = state_at (map_states (fail_running ''internal_error'') (clonePlatformGeneration s))"
    by (rule state_at_cong) (simp add: expired_snapshot_def)
  then have at: "state_at ?s' m = fail_running ''internal_error'' (state_at s m) \<or> m \<notin> set (models_of s)" for m
    using valid_snapshot_models(1)[OF s]
    by (auto simp: state_at_map_states state_at_def map_of_eq_None_iff split: option.split)
  show ?thesis
    using run at decode_valid_render[OF valid wf]
    by (intro exI[of _ ?s'] exI) (auto simp: record_at_def expired_snapshot_def)
qed

text \<open>C9: A stuck cancellation always ends.  Thirty seconds after a cancellation was requested,
  \<open>ConvergeStaleCancelling\<close> run without interference succeeds: the stored record becomes cancelled and
  no model is left running.\<close>

theorem stale_cancellation_converges:
  assumes "io_ok net" "control_ok net uid gid now"
    and "record_at r uid gid = Some s" "gID s = gid" "gState s = Cancelling" "gUpdated s + 30000 \<le> now"
  shows "\<exists>s' r'. ConvergeStaleCancelling net uid gid now r r = ((s', None), r') \<and> record_at r' uid gid = Some s' \<and>
           gState s' = Cancelled \<and> (\<forall>m \<in> set (models_of s'). mState (state_at s' m) \<noteq> Running)"
proof -
  let ?s' = "converged_snapshot now (clonePlatformGeneration s)"
  obtain raw where raw: "redis_get r (gen_key uid gid) = Some raw"
    "loadPlatformGenerationForControl net uid gid r = Inr (raw, s)"
    using load_alone[OF assms(1,3,4)] by blast
  have s: "validPlatformGenerationSnapshot s" "snapshot_wf s" using record_at_valid[OF assms(3)] by blast+
  have "gMode s \<noteq> 0" using valid_tombstoneD[OF s(1)] assms(5) by auto
  then have err: "gError s = []" using s(1) assms(5) by (simp add: validPlatformGenerationSnapshot_def)
  have valid: "validPlatformGenerationSnapshot ?s'"
    by (rule mapped_valid[OF s, where f = cancel_running and st = Cancelled and er = "[]" and now = now])
      (use assms cancel_running_valid[of s] err in \<open>simp_all add: converged_snapshot_def control_ok_def map_states_def
         clonePlatformGeneration_def\<close>)
  have wf: "snapshot_wf ?s'" using s(2) by (simp add: snapshot_wf_def converged_snapshot_def)
  have id: "gID ?s' = gid" using assms(4) by (simp add: converged_snapshot_def)
  have run: "ConvergeStaleCancelling net uid gid now r r =
      ((?s', None), redis_set_keepttl (gen_key uid gid) (render (json_of_snapshot ?s')) r)"
    using assms raw(2) control_alone[OF assms(1) raw(1) valid wf id]
    by (simp add: ConvergeStaleCancelling_def io_ok_def platformGenerationConvergenceWindow_def)
  have "state_at ?s' = state_at (map_states cancel_running (clonePlatformGeneration s))"
    by (rule state_at_cong) (simp add: converged_snapshot_def)
  then have "mState (state_at ?s' m) \<noteq> Running" for m
    by (auto simp: state_at_map_states cancel_running_def zero_model_def split: option.split)
  then show ?thesis
    using run decode_valid_render[OF valid wf]
    by (intro exI[of _ ?s'] exI) (auto simp: record_at_def converged_snapshot_def)
qed

section \<open>Keys\<close>

text \<open>The key scan is exact: of the keys Redis returns, precisely those of valid identities are
  listed, each with the user and generation its key was made from.\<close>

theorem scan_is_exact:
  "scan_key key = Some (uid, gid) \<longleftrightarrow>
     key = gen_key uid gid \<and> validatePlatformGenerationIdentity uid gid \<and> uid < 2 ^ 63"
proof
  assume scan: "scan_key key = Some (uid, gid)"
  then have "uid < 2 ^ 63"
    by (auto simp: scan_key_def Let_def parse_int64_def split: option.splits if_splits list.splits)
  then show "key = gen_key uid gid \<and> validatePlatformGenerationIdentity uid gid \<and> uid < 2 ^ 63"
    using scan_key_gen_key[OF scan] by simp
next
  assume "key = gen_key uid gid \<and> validatePlatformGenerationIdentity uid gid \<and> uid < 2 ^ 63"
  then show "scan_key key = Some (uid, gid)"
    using scan_gen_key by (simp add: validatePlatformGenerationIdentity_def)
qed

end
