(* ===== verification/Generation_Witnesses.thy ===== *)
theory Generation_Witnesses
  imports Generation_Convergence
begin

text \<open>
  The properties of the generation store at concrete records: one user, one generation, its record in
  each state it can be in, and the calls of a small scenario.  Digests stay symbolic.
\<close>

section \<open>Records in every state\<close>

definition sample_model :: "int \<Rightarrow> int \<Rightarrow> gen_model" where
  "sample_model n st = \<lparr>mSeq = n, mState = st, mError = [], mGUID = []\<rparr>"

definition sample_state :: "int \<Rightarrow> int \<Rightarrow> snapshot" where
  "sample_state st mst = sample_record\<lparr>gState := st, gModelStates := Some [(''a'', sample_model 4 mst)],
     gLeaseOwner := (if st = 1 \<or> st = 2 then replicate 64 CHR ''a'' else []),
     gLeaseUntil := (if st = 1 then 32000 else 0)\<rparr>"

definition sample_completed :: snapshot where
  "sample_completed = (sample_state 5 5)\<lparr>gModelStates := Some [(''a'', (sample_model 4 5)\<lparr>mGUID := ''77''\<rparr>)]\<rparr>"

definition sample_token :: bytes where "sample_token = b64_encode (replicate 32 CHR ''r'')"

definition sample_owned :: snapshot where
  "sample_owned = (sample_state 1 5)\<lparr>gLeaseOwner := platformGenerationLeaseDigest sample_token\<rparr>"

definition sample_env :: "int \<Rightarrow> redis \<Rightarrow> call_env" where
  "sample_env now r = \<lparr>ceIo = good_io, ceIo2 = good_io, ceUser = 7, ceID = sample_gid, ceNow = now, ceRead0 = r, ceRead1 = r\<rparr>"

lemma sample_states_valid:
  "validPlatformGenerationSnapshot (sample_state 1 5)" "validPlatformGenerationSnapshot (sample_state 2 1)"
  "validPlatformGenerationSnapshot (sample_state 4 5)" "validPlatformGenerationSnapshot sample_completed"
  by code_simp+

lemma sample_states_wf:
  "snapshot_wf (sample_state 1 5)" "snapshot_wf (sample_state 2 1)"
  "snapshot_wf (sample_state 4 5)" "snapshot_wf sample_completed"
  by code_simp+

lemma sample_state_gid [simp]: "gID (sample_state a b) = sample_gid" "gID sample_completed = sample_gid" "gID sample_owned = sample_gid"
  "gID sample_record = sample_gid"
  by (simp_all add: sample_state_def sample_completed_def sample_owned_def sample_record_def)

lemma valid_other_owner:
  assumes "validPlatformGenerationSnapshot s" "gState s = Running" "validPlatformGenerationLeaseDigest d"
  shows "validPlatformGenerationSnapshot (s\<lparr>gLeaseOwner := d\<rparr>)"
proof -
  have at: "state_at (s\<lparr>gLeaseOwner := d\<rparr>) = state_at s" by (rule state_at_cong) simp
  have state: "valid_model_state (s\<lparr>gLeaseOwner := d\<rparr>) = valid_model_state s"
    by (rule ext) (simp add: valid_model_state_def)
  have "valid_model_entry (s\<lparr>gLeaseOwner := d\<rparr>) = valid_model_entry s"
    by (rule ext) (simp add: valid_model_entry_def state split: option.split)
  then show ?thesis
    using assms by (simp add: validPlatformGenerationSnapshot_def snapshot_input_def validPlatformGenerationLease_def)
qed

lemma sample_owned_valid: "validPlatformGenerationSnapshot sample_owned" "snapshot_wf sample_owned"
proof -
  have "gState (sample_state 1 5) = Running" by code_simp
  then show "validPlatformGenerationSnapshot sample_owned"
    unfolding sample_owned_def using valid_other_owner sample_states_valid(1) lease_digest_valid by blast
  show "snapshot_wf sample_owned" using sample_states_wf(1) by (simp add: sample_owned_def snapshot_wf_def)
qed

lemma at_sample:
  "validPlatformGenerationSnapshot s \<Longrightarrow> snapshot_wf s \<Longrightarrow> gID s = sample_gid \<Longrightarrow> record_at (redis_with s) 7 sample_gid = Some s"
  using redis_with_record[of s] by simp

lemma store_ok_with:
  assumes "validPlatformGenerationSnapshot s" "snapshot_wf s"
  shows "store_ok (redis_with s)"
  unfolding store_ok_def
proof (intro allI impI)
  fix uid gid raw assume get: "redis_get (redis_with s) (gen_key uid gid) = Some raw"
  then have "gen_key uid gid = gen_key 7 (gID s)" "raw = render (json_of_snapshot s)"
    by (auto simp: redis_with_def redis_get_def split: if_splits option.splits)
  then show "\<exists>s. decodePlatformGeneration raw = Some s \<and> gID s = gid"
    using gen_key_eq decode_valid_render[OF assms] by auto
qed

lemma live_sample:
  "store_effect u g (redis_with s) r \<Longrightarrow> live r (redis_deadline (redis_with s) (gen_key 7 (gID s)))"
  using effect_clock[of u g "redis_with s" r] by (simp add: redis_with_get live_def) (simp add: redis_with_def)

text \<open>The history of one call.\<close>

lemma one_call: "store_run sample_cjson r (gen_exec sample_cjson e c r)"
  by (rule store_run.step[OF store_run.here store_step.call])

lemma live_one_call:
  "gID s = sample_gid \<Longrightarrow> live (gen_exec sample_cjson e c (redis_with s)) (redis_deadline (redis_with s) (gen_key 7 sample_gid))"
  using live_sample[where s = s, OF gen_exec_effect] by simp

section \<open>A recorded delta\<close>

definition sample_next :: snapshot where
  "sample_next = settle_lease 3000 (put_state ''a'' (sample_model 5 1) (clonePlatformGeneration sample_record))"

lemma sample_delta_alone:
  "RecordDelta good_io 7 sample_gid ''a'' 5 3000 (redis_with sample_record) (redis_with sample_record) =
     ((sample_next, None), redis_set_keepttl (gen_key 7 sample_gid) (render (json_of_snapshot sample_next)) (redis_with sample_record))"
proof -
  have "delta_ok ''a'' 5" "platformSSEV2SafeInteger 3000" "gUpdated sample_record \<le> 3000"
    "validPlatformGenerationSnapshot sample_next" "snapshot_wf sample_next" by code_simp+
  moreover have "change_delta ''a'' 5 (clonePlatformGeneration sample_record) =
      Inr (put_state ''a'' (sample_model 5 1) (clonePlatformGeneration sample_record))"
    by (simp add: change_delta_def running_model_def sample_record_def sample_model_def clonePlatformGeneration_def)
  ultimately show ?thesis
    using mutate_alone[OF good_io_ok sample_identity _ sample_at] sample_state_gid(4)
    by (simp add: RecordDelta_def sample_next_def)
qed

definition after_delta :: redis where
  "after_delta = redis_set_keepttl (gen_key 7 sample_gid) (render (json_of_snapshot sample_next)) (redis_with sample_record)"

theorem mutation_is_atomic_witness:
  "\<exists>cur x. record_at (redis_with sample_record) 7 sample_gid = Some cur \<and> gState cur = Running \<and> gUpdated cur \<le> 3000 \<and>
     map_of (states_of cur) ''a'' = Some x \<and> mState x = Running \<and> 5 = mSeq x + 1 \<and>
     sample_next = (put_state ''a'' (x\<lparr>mSeq := 5\<rparr>) (clonePlatformGeneration cur))\<lparr>gUpdated := 3000\<rparr> \<and>
     record_at after_delta 7 sample_gid = Some sample_next \<and>
     (\<forall>k. k \<noteq> gen_key 7 sample_gid \<longrightarrow> redis_get after_delta k = redis_get (redis_with sample_record) k) \<and>
     redis_deadline after_delta (gen_key 7 sample_gid) = redis_deadline (redis_with sample_record) (gen_key 7 sample_gid)"
  by (rule mutation_is_atomic[OF sample_delta_alone[folded after_delta_def]])

lemma after_delta_live: "live after_delta (redis_deadline after_delta (gen_key 7 sample_gid))"
proof -
  have "redis_deadline after_delta (gen_key 7 sample_gid) = Some 90000000"
    using redis_with_get(2)[of sample_record] by (simp add: after_delta_def)
  moreover have "rClock after_delta = 0" by (simp add: after_delta_def redis_set_keepttl_def redis_with_def)
  ultimately show ?thesis by (simp add: live_def)
qed

theorem delta_recorded_once_witness:
  "snd (fst (RecordDeltaOwned good_io 7 sample_gid sample_token ''a'' 5 4000 after_delta after_delta)) \<noteq> None"
proof -
  let ?x = "RecordDeltaOwned good_io 7 sample_gid sample_token ''a'' 5 4000 after_delta after_delta"
  have first: "record_by AnyClient good_io 7 sample_gid ''a'' 5 3000 (redis_with sample_record) (redis_with sample_record) =
      ((sample_next, None), after_delta)"
    using sample_delta_alone by (simp add: after_delta_def)
  have "record_by (LeaseOwner sample_token) good_io 7 sample_gid ''a'' 5 4000 after_delta after_delta =
      ((fst (fst ?x), snd (fst ?x)), snd ?x)" by simp
  from delta_recorded_once[OF first store_run.here after_delta_live this] show ?thesis .
qed

theorem refusal_has_no_effect_witness:
  "snd (RecordDeltaOwned good_io 7 sample_gid sample_token ''a'' 9 2500 (redis_with sample_record) (redis_with sample_record))
     = redis_with sample_record"
proof -
  let ?r = "redis_with sample_record"
  obtain raw where raw: "redis_get ?r (gen_key 7 sample_gid) = Some raw" "decodePlatformGeneration raw = Some sample_record"
    using sample_at by (auto simp: record_at_def Option.bind_eq_Some_conv)
  have "change_delta ''a'' 9 (clonePlatformGeneration sample_record) = Inl GConflict"
    by (simp add: change_delta_def running_model_def sample_record_def clonePlatformGeneration_def)
  then have own: "owned_change d now (change_delta ''a'' 9) (clonePlatformGeneration sample_record) = Inl GConflict" for d now
    by (simp add: owned_change_def)
  have ok: "delta_ok ''a'' 9" "platformSSEV2SafeInteger 2500" "gUpdated sample_record \<le> 2500"
    "validPlatformGenerationLeaseToken sample_token" by code_simp+
  have run: "RecordDeltaOwned good_io 7 sample_gid sample_token ''a'' 9 2500 ?r ?r = ((sample_record, Some GConflict), ?r)"
    using ok raw own sample_identity sample_state_gid(4)
    by (simp add: RecordDeltaOwned_def mutateOwned_def mutate_def mutate_prepare_def read_record_def good_io_def)
  then have "RecordDeltaOwned good_io 7 sample_gid sample_token ''a'' 9 2500 ?r ?r =
      ((sample_record, Some GConflict), snd (RecordDeltaOwned good_io 7 sample_gid sample_token ''a'' 9 2500 ?r ?r))"
    by simp
  from refusal_has_no_effect[OF this _ store_ok_with[OF sample_record_valid sample_record_wf]] show ?thesis
    by simp
qed

section \<open>Histories\<close>

theorem reachable_store_valid_witness:
  "redis_get (gen_exec sample_cjson (sample_env 1000 empty_redis) QCancelOrCreate empty_redis) (gen_key 7 sample_gid) \<noteq> None \<and>
   (\<exists>s. record_at (gen_exec sample_cjson (sample_env 1000 empty_redis) QCancelOrCreate empty_redis) 7 sample_gid = Some s \<and> gID s = sample_gid)"
proof -
  let ?r = "gen_exec sample_cjson (sample_env 1000 empty_redis) QCancelOrCreate empty_redis"
  have ok: "platformSSEV2CanonicalUUID sample_gid" "platformSSEV2SafeInteger 1000" by code_simp+
  have enc: "encodePlatformGeneration (tombstone sample_gid 1000) = Some (render (json_of_snapshot (tombstone sample_gid 1000)))"
    by (rule encode_total[OF tombstone_valid tombstone_wf]) (use ok in simp_all)
  have "?r = redis_set_px (gen_key 7 sample_gid) (render (json_of_snapshot (tombstone sample_gid 1000))) platformGenerationTTL empty_redis"
    using ok sample_identity
    by (simp add: sample_env_def CancelOrCreate_def good_io_def enc cancel_prepare_def redis_eval_def
        empty_redis_def redis_get_def platformGenerationCancelOrCreateScript_def)
  then obtain raw where raw: "redis_get ?r (gen_key 7 sample_gid) = Some raw" by simp
  from reachable_store_valid[OF one_call raw] show ?thesis using raw by (auto simp: record_at_def)
qed

theorem record_lifecycle_witness:
  "\<exists>s'. record_at (gen_exec sample_cjson (sample_env 3000 (redis_with sample_record)) (QDelta ''a'' 5) (redis_with sample_record)) 7 sample_gid = Some s' \<and>
     lifecycle_step\<^sup>*\<^sup>* sample_record s' \<and> models_of s' = [''a'']"
proof -
  have "gMode sample_record \<noteq> 0" "models_of sample_record = [''a'']" by code_simp+
  then show ?thesis
    using record_lifecycle[OF one_call sample_at live_one_call[OF sample_state_gid(4)]] by fastforce
qed

theorem settled_is_final_witness:
  "record_at (gen_exec sample_cjson (sample_env 3000 (redis_with sample_completed)) (QFail ''timeout'') (redis_with sample_completed)) 7 sample_gid
     = Some sample_completed"
  by (rule settled_is_final[OF one_call at_sample[OF sample_states_valid(4) sample_states_wf(4)]])
    (simp, rule live_one_call, simp, simp add: settled_record_def sample_completed_def sample_state_def)

theorem deadline_is_fixed_witness:
  "redis_get (gen_exec sample_cjson (sample_env 3000 (redis_with sample_record)) (QDelta ''a'' 5) (redis_with sample_record)) (gen_key 7 sample_gid) \<noteq> None \<and>
   redis_deadline (gen_exec sample_cjson (sample_env 3000 (redis_with sample_record)) (QDelta ''a'' 5) (redis_with sample_record)) (gen_key 7 sample_gid)
     = redis_deadline (redis_with sample_record) (gen_key 7 sample_gid)"
  by (rule deadline_is_fixed[OF one_call redis_with_get(1)[of sample_record, unfolded sample_state_gid]])
    (rule live_one_call, simp)

section \<open>Owners, claims and cancellations\<close>

theorem only_owner_commits_witness:
  "gLeaseOwner sample_owned = hex_encode (sha256 sample_token) \<and>
   snd (fst (BeginCommitOwned good_io 7 sample_gid sample_token 3000 (redis_with sample_owned) (redis_with sample_owned))) = None"
proof -
  let ?r = "redis_with sample_owned"
  let ?n = "(clonePlatformGeneration sample_owned)\<lparr>gState := Committing\<rparr>"
  have tok: "validPlatformGenerationLeaseToken sample_token" "platformSSEV2SafeInteger 3000" by code_simp+
  have own: "gState sample_owned = Running" "gLeaseUntil sample_owned = 32000" "gUpdated sample_owned = 2000"
    "gLeaseOwner sample_owned = platformGenerationLeaseDigest sample_token"
    by (simp_all add: sample_owned_def sample_state_def sample_record_def)
  have chg: "change_begin_commit (clonePlatformGeneration sample_owned) = Inr ?n"
    by (simp add: change_begin_commit_def successfulModels_def state_at_def sample_owned_def sample_state_def
        sample_record_def sample_model_def)
  have "owned_change (platformGenerationLeaseDigest sample_token) 3000 change_begin_commit (clonePlatformGeneration sample_owned) = Inr ?n"
    using own chg by (simp add: owned_change_def platformGenerationOwnedMutationAuthorized_def
        platformGenerationRunningLeaseAuthorized_def platformGenerationLeaseMatches_def platformGenerationLeaseDigest_def)
  moreover have "settle_lease 3000 ?n = (sample_state 4 5)\<lparr>gUpdated := 3000\<rparr>"
    by (simp add: settle_lease_def sample_owned_def sample_state_def clonePlatformGeneration_def sample_record_def)
  moreover have "validPlatformGenerationSnapshot ((sample_state 4 5)\<lparr>gUpdated := 3000\<rparr>)"
    "snapshot_wf ((sample_state 4 5)\<lparr>gUpdated := 3000\<rparr>)" by code_simp+
  ultimately have run: "BeginCommitOwned good_io 7 sample_gid sample_token 3000 ?r ?r =
      (((sample_state 4 5)\<lparr>gUpdated := 3000\<rparr>, None),
       redis_set_keepttl (gen_key 7 sample_gid) (render (json_of_snapshot ((sample_state 4 5)\<lparr>gUpdated := 3000\<rparr>))) ?r)"
    using tok own(3) sample_owned_valid mutate_alone[OF good_io_ok sample_identity _ at_sample[OF sample_owned_valid]]
    by (simp add: BeginCommitOwned_def mutateOwned_def good_io_def)
  from only_owner_commits[OF this] show ?thesis
    using run at_sample[OF sample_owned_valid] by simp
qed

definition sample_input :: claim_input where
  "sample_input = \<lparr>inUser = 7, inID = sample_gid, inMode = 1, inModels = [''a''], inNow = 1000\<rparr>"

lemma sample_claim:
  "Claim sample_cjson good_io (replicate 32 CHR ''r'') sample_input empty_redis =
     (let c = claim_snapshot sample_input (platformGenerationLeaseDigest sample_token)
      in ((no_claim\<lparr>clSnapshot := c, clToken := sample_token\<rparr>, None),
          redis_set_px (gen_key 7 sample_gid) (render (json_of_snapshot c)) platformGenerationTTL empty_redis))"
proof -
  let ?d = "platformGenerationLeaseDigest sample_token"
  let ?c = "claim_snapshot sample_input ?d" and ?b = "claim_snapshot sample_input (replicate 64 CHR ''a'')"
  have ok: "validatePlatformGenerationInput sample_input" "inNow sample_input = 1000" "inUser sample_input = 7"
    "inID sample_input = sample_gid" "validPlatformGenerationSnapshot ?b" "gState ?b = Running"
    "validPlatformGenerationSnapshot (claim_cancelled sample_input)" by code_simp+
  have owner: "?c = ?b\<lparr>gLeaseOwner := ?d\<rparr>" "gID ?c = sample_gid" using ok(4) by (simp_all add: claim_snapshot_def)
  have valid: "validPlatformGenerationSnapshot ?c"
    unfolding owner(1) by (rule valid_other_owner[OF ok(5,6) lease_digest_valid])
  note c = decode_valid_render[OF valid claim_snapshots_wf(1)] encode_total[OF valid claim_snapshots_wf(1)]
    encode_total[OF ok(7) claim_snapshots_wf(2)]
  show ?thesis
    using ok owner(2) c
    by (simp add: Claim_def good_io_def newPlatformGenerationLeaseFrom_def sample_token_def[symmetric]
        platformSSEV2MaxSafeInteger_def platformGenerationLeaseDuration_def platformGenerationLeaseBytes_def
        platformGenerationClaimScript_def redis_eval_def empty_redis_def redis_get_def claim_finish_def render_decode_nonempty Let_def)
qed

theorem claim_is_exclusive_witness:
  "snd (fst (Claim sample_cjson good_io (replicate 32 CHR ''r'') sample_input empty_redis)) = None \<and>
   snd (fst (Claim sample_cjson good_io (replicate 32 CHR ''s'') sample_input
     (snd (Claim sample_cjson good_io (replicate 32 CHR ''r'') sample_input empty_redis)))) \<noteq> None"
proof -
  let ?x = "Claim sample_cjson good_io (replicate 32 CHR ''r'') sample_input empty_redis"
  let ?y = "Claim sample_cjson good_io (replicate 32 CHR ''s'') sample_input (snd ?x)"
  have win: "snd (fst ?x) = None" by (simp add: sample_claim Let_def)
  have "gen_key (inUser sample_input) (inID sample_input) = gen_key 7 sample_gid" by (simp add: sample_input_def)
  then have live: "live (snd ?x) (redis_deadline (snd ?x) (gen_key (inUser sample_input) (inID sample_input)))"
    by (simp add: sample_claim Let_def) (simp add: live_def redis_set_px_def empty_redis_def)
  have "?x = ((fst (fst ?x), snd (fst ?x)), snd ?x)" "?y = ((fst (fst ?y), snd (fst ?y)), snd ?y)" by simp_all
  from claim_is_exclusive[OF this(1) store_run.here live refl refl this(2)] win show ?thesis by simp
qed

definition tombstone_redis :: redis where
  "tombstone_redis = redis_set_px (gen_key 7 sample_gid) (render (json_of_snapshot (tombstone sample_gid 1000)))
     platformGenerationTTL empty_redis"

lemma sample_cancel:
  "CancelOrCreate sample_cjson good_io 7 sample_gid 1000 empty_redis empty_redis =
     ((\<lparr>cdSnapshot = tombstone sample_gid 1000, cdCreated = True, cdTransitioned = False\<rparr>, None), tombstone_redis)"
proof -
  have ok: "platformSSEV2CanonicalUUID sample_gid" "platformSSEV2SafeInteger 1000" by code_simp+
  then have valid: "validPlatformGenerationSnapshot (tombstone sample_gid 1000)" by (intro tombstone_valid) simp_all
  show ?thesis
    using ok sample_identity decode_valid_render[OF valid tombstone_wf] encode_total[OF valid tombstone_wf]
    by (simp add: CancelOrCreate_def good_io_def cancel_prepare_def redis_eval_def render_decode_nonempty
        empty_redis_def redis_get_def platformGenerationCancelOrCreateScript_def cancel_finish_def
        no_decision_def tombstone_redis_def) (simp add: tombstone_def)
qed

theorem cancel_reports_effect_witness:
  "record_at tombstone_redis 7 sample_gid = Some (tombstone sample_gid 1000) \<and>
   redis_get empty_redis (gen_key 7 sample_gid) = None"
  using cancel_reports_effect[OF sample_cancel] by simp

theorem tombstone_blocks_claim_witness:
  "snd (fst (Claim sample_cjson good_io (replicate 32 CHR ''r'') sample_input tombstone_redis)) \<noteq> None"
proof -
  let ?x = "Claim sample_cjson good_io (replicate 32 CHR ''r'') sample_input tombstone_redis"
  have x: "?x = ((fst (fst ?x), snd (fst ?x)), snd ?x)" by simp
  have "live tombstone_redis (redis_deadline tombstone_redis (gen_key 7 sample_gid))"
    by (simp add: tombstone_redis_def) (simp add: live_def empty_redis_def redis_set_px_def)
  from tombstone_blocks_claim[OF sample_cancel _ store_run.here this _ _ x] show ?thesis
    by (simp add: sample_input_def)
qed

section \<open>Completion and convergence\<close>

theorem completion_names_messages_witness:
  "gState (fst (fst (Complete_op good_io 7 sample_gid [(''a'', ''77'')] 3000 (redis_with (sample_state 4 5)) (redis_with (sample_state 4 5))))) = Completed"
proof -
  let ?s = "sample_completed\<lparr>gUpdated := 3000\<rparr>"
  have "change_complete [(''a'', ''77'')] (clonePlatformGeneration (sample_state 4 5)) =
      Inr ((put_state ''a'' ((sample_model 4 5)\<lparr>mGUID := ''77''\<rparr>) (clonePlatformGeneration (sample_state 4 5)))\<lparr>gState := Completed\<rparr>)"
  proof -
    have "platformGenerationMessageGUID ''77''" by code_simp
    then show ?thesis
      by (simp add: change_complete_def state_at_def sample_state_def sample_record_def sample_model_def)
  qed
  moreover have "settle_lease 3000 ((put_state ''a'' ((sample_model 4 5)\<lparr>mGUID := ''77''\<rparr>) (clonePlatformGeneration (sample_state 4 5)))\<lparr>gState := Completed\<rparr>) = ?s"
    by (simp add: settle_lease_def sample_completed_def sample_state_def sample_record_def put_state_def clonePlatformGeneration_def)
  moreover have "validPlatformGenerationSnapshot ?s" "snapshot_wf ?s" "platformSSEV2SafeInteger 3000" "gUpdated (sample_state 4 5) \<le> 3000"
    by code_simp+
  ultimately have "Complete_op good_io 7 sample_gid [(''a'', ''77'')] 3000 (redis_with (sample_state 4 5)) (redis_with (sample_state 4 5)) =
      ((?s, None), redis_set_keepttl (gen_key 7 sample_gid) (render (json_of_snapshot ?s)) (redis_with (sample_state 4 5)))"
    using mutate_alone[OF good_io_ok sample_identity _ at_sample[OF sample_states_valid(3) sample_states_wf(3)]]
    by (simp add: Complete_op_def)
  from completion_names_messages[OF this] this show ?thesis by simp
qed

theorem reconcile_idempotent_witness:
  "ReconcileComplete good_io good_io 7 sample_gid [(''a'', ''77'')] 4000
     (redis_with sample_completed) empty_redis empty_redis = ((sample_completed, None), empty_redis)"
proof -
  let ?r = "redis_with sample_completed"
  note at = at_sample[OF sample_states_valid(4) sample_states_wf(4) sample_state_gid(2)]
  obtain raw where raw: "redis_get ?r (gen_key 7 sample_gid) = Some raw" "decodePlatformGeneration raw = Some sample_completed"
    using at by (auto simp: record_at_def Option.bind_eq_Some_conv)
  have ok: "platformSSEV2SafeInteger 3000" "platformSSEV2SafeInteger 4000" "gState sample_completed = Completed"
    "platformGenerationGUIDMapMatches sample_completed [(''a'', ''77'')]" by code_simp+
  have "ReconcileComplete good_io good_io 7 sample_gid [(''a'', ''77'')] 3000 ?r ?r ?r = ((sample_completed, None), ?r)"
    using raw ok sample_identity
    by (simp add: ReconcileComplete_def validatePlatformGenerationReconciliationRequest_def good_io_def store_Get_def read_record_def)
  from reconcile_idempotent[OF this at store_ok_with[OF sample_states_valid(4) sample_states_wf(4)] good_io_ok
      sample_identity ok(2)] show ?thesis by simp
qed

theorem expired_generation_fails_witness:
  "\<exists>s' r'. FailExpiredRunning good_io 7 sample_gid 40000 (redis_with sample_record) (redis_with sample_record) = ((s', None), r') \<and>
     record_at r' 7 sample_gid = Some s' \<and> gState s' = Failed \<and> gLeaseOwner s' = [] \<and>
     (\<forall>m. state_at s' m = fail_running ''internal_error'' (state_at sample_record m) \<or> m \<notin> set (models_of sample_record))"
proof (rule expired_generation_fails[OF good_io_ok _ sample_at sample_state_gid(4)])
  show "control_ok good_io 7 sample_gid 40000" by code_simp
qed (simp_all add: sample_record_def)

theorem stale_cancellation_converges_witness:
  "\<exists>s' r'. ConvergeStaleCancelling good_io 7 sample_gid 40000 (redis_with (sample_state 2 1)) (redis_with (sample_state 2 1)) = ((s', None), r') \<and>
     record_at r' 7 sample_gid = Some s' \<and> gState s' = Cancelled \<and>
     (\<forall>m \<in> set (models_of s'). mState (state_at s' m) \<noteq> Running)"
proof (rule stale_cancellation_converges[OF good_io_ok _ at_sample[OF sample_states_valid(2) sample_states_wf(2)]])
  show "control_ok good_io 7 sample_gid 40000" by code_simp
qed (simp_all add: sample_state_def sample_record_def)

end
