(* ===== verification/Authz.thy ===== *)
theory Authz
  imports Prelude "HOL-Library.Word"
begin

unbundle bit_operations_syntax

text \<open>
  The authorization core (\<open>internal/authz\<close>): the fixed capability catalog, the evaluator of an
  actor's decisions (\<open>evaluator.go\<close>) and the projection that the administration pages display
  (\<open>admin_display.go\<close>).  An effect is a string in the code and stays one here; a role, a status
  and a deletion flag are the stored integers of \<open>models.go\<close>.  A nil \<open>*Evaluator\<close> is \<open>None\<close>.
\<close>

section \<open>Data\<close>

abbreviation UserRoleUser :: int where "UserRoleUser \<equiv> 1"
abbreviation UserRoleAdmin :: int where "UserRoleAdmin \<equiv> 10"
abbreviation UserRoleRoot :: int where "UserRoleRoot \<equiv> 100"

abbreviation UserStatusActive :: int where "UserStatusActive \<equiv> 1"
abbreviation UserStatusDisabled :: int where "UserStatusDisabled \<equiv> 2"

abbreviation Inherit :: bytes where "Inherit \<equiv> ''inherit''"
abbreviation Allow :: bytes where "Allow \<equiv> ''allow''"
abbreviation Deny :: bytes where "Deny \<equiv> ''deny''"

datatype decision = Denied | Allowed | Hidden

datatype authz_error = ErrInvalidActor | ErrInvalidOverrides

record account =
  aID :: int
  aGUID :: int
  aRole :: int
  aStatus :: int
  aDeleted :: int

record override =
  oCapability :: bytes
  oEffect :: bytes

record evaluator =
  eActor :: account
  eOverrides :: "(bytes \<times> bytes) list"

record capability =
  dName :: bytes
  dAdminDefault :: bool
  dGrantable :: bool
  dRootOnly :: bool
  dUnavailable :: bool
  dScopes :: "8 word"

section \<open>The catalog\<close>

abbreviation userScope :: "8 word" where "userScope \<equiv> 1"
abbreviation createScope :: "8 word" where "createScope \<equiv> 2"
abbreviation collectionScope :: "8 word" where "collectionScope \<equiv> 4"
abbreviation resourceScope :: "8 word" where "resourceScope \<equiv> 8"

definition cap :: "bytes \<Rightarrow> bool \<Rightarrow> bool \<Rightarrow> bool \<Rightarrow> bool \<Rightarrow> 8 word \<Rightarrow> capability" where
  "cap n ad gr ro un sc = \<lparr>dName = n, dAdminDefault = ad, dGrantable = gr, dRootOnly = ro, dUnavailable = un, dScopes = sc\<rparr>"

definition definitions :: "capability list" where
  "definitions =
    [cap ''users.read'' True True False False (userScope OR collectionScope),
     cap ''users.create'' True True False False createScope,
     cap ''users.edit'' True True False False userScope,
     cap ''users.enable'' True True False False userScope,
     cap ''users.disable'' True True False False userScope,
     cap ''users.reset_password'' False True False False userScope,
     cap ''users.sessions.read'' False True False False userScope,
     cap ''users.sessions.revoke'' False True False False userScope,
     cap ''users.plan.change'' False True False False userScope,
     cap ''users.group.change'' False True False False userScope,
     cap ''users.quota.adjust'' False False False True userScope,
     cap ''users.delete'' False True False False userScope,
     cap ''users.deleted.read'' False True False False (userScope OR collectionScope),
     cap ''users.promote'' False False True False userScope,
     cap ''users.demote'' False False True False userScope,
     cap ''users.permissions.write'' False False True False userScope,
     cap ''users.audit.read'' True True False False (userScope OR collectionScope),
     cap ''groups.read'' True True False False resourceScope,
     cap ''groups.write'' False False True False resourceScope,
     cap ''public_content.read'' False True False False resourceScope,
     cap ''public_content.edit'' False True False False resourceScope,
     cap ''public_content.preview'' False True False False resourceScope,
     cap ''public_content.publish'' False True False False resourceScope,
     cap ''public_content.rollback'' False True False False resourceScope]"

definition Catalog :: "capability list" where
  "Catalog = definitions"

definition lookup :: "bytes \<Rightarrow> capability option" where
  "lookup name = find (\<lambda>d. dName d = name) definitions"

section \<open>Overrides and accounts\<close>

fun validate_rules :: "override list \<Rightarrow> (bytes \<times> bytes) list \<Rightarrow> authz_error + (bytes \<times> bytes) list" where
  "validate_rules [] copied = Inr copied"
| "validate_rules (rule # rules) copied =
     (case lookup (oCapability rule) of
        None \<Rightarrow> Inl ErrInvalidOverrides
      | Some d \<Rightarrow>
          if \<not> dGrantable d \<or> dRootOnly d \<or> dUnavailable d then Inl ErrInvalidOverrides
          else if oEffect rule \<noteq> Inherit \<and> oEffect rule \<noteq> Allow \<and> oEffect rule \<noteq> Deny then Inl ErrInvalidOverrides
          else if map_of copied (oCapability rule) \<noteq> None then Inl ErrInvalidOverrides
          else validate_rules rules (sm_put (oCapability rule) (oEffect rule) copied))"

definition validateOverrides :: "override list \<Rightarrow> authz_error + (bytes \<times> bytes) list" where
  "validateOverrides rules = validate_rules rules []"

definition knownRole :: "int \<Rightarrow> bool" where
  "knownRole r \<longleftrightarrow> r = UserRoleUser \<or> r = UserRoleAdmin \<or> r = UserRoleRoot"

definition validAccount :: "account \<Rightarrow> bool" where
  "validAccount a \<longleftrightarrow>
     0 < aID a \<and> 0 < aGUID a \<and> knownRole (aRole a) \<and>
     (aStatus a = UserStatusActive \<or> aStatus a = UserStatusDisabled) \<and> (aDeleted a = 0 \<or> aDeleted a = 1)"

definition NewEvaluator :: "account \<Rightarrow> override list \<Rightarrow> authz_error + evaluator" where
  "NewEvaluator actor rules =
     (if \<not> validAccount actor \<or> aDeleted actor \<noteq> 0 \<or> aStatus actor \<noteq> UserStatusActive then Inl ErrInvalidActor
      else if rules \<noteq> [] \<and> aRole actor \<noteq> UserRoleAdmin then Inl ErrInvalidOverrides
      else case validateOverrides rules of
        Inl er \<Rightarrow> Inl er
      | Inr copied \<Rightarrow> Inr \<lparr>eActor = actor, eOverrides = copied\<rparr>)"

section \<open>Decisions\<close>

definition manager :: "evaluator option \<Rightarrow> bool" where
  "manager ev =
     (case ev of
        None \<Rightarrow> False
      | Some e \<Rightarrow>
          validAccount (eActor e) \<and> aDeleted (eActor e) = 0 \<and> aStatus (eActor e) = UserStatusActive \<and>
          (aRole (eActor e) = UserRoleAdmin \<or> aRole (eActor e) = UserRoleRoot))"

text \<open>\<open>e.overrides[name]\<close>: the empty string where the map has no entry.\<close>

definition effect_of :: "evaluator \<Rightarrow> bytes \<Rightarrow> bytes" where
  "effect_of e name = (case map_of (eOverrides e) name of None \<Rightarrow> [] | Some x \<Rightarrow> x)"

definition Evaluator_capability :: "evaluator option \<Rightarrow> bytes \<Rightarrow> decision" where
  "Evaluator_capability ev name =
     (if \<not> manager ev then Denied
      else case (ev, lookup name) of
        (Some e, Some d) \<Rightarrow>
          if dUnavailable d then Denied
          else if aRole (eActor e) = UserRoleRoot then Allowed
          else if dRootOnly d then Denied
          else if effect_of e name = Deny then Denied
          else if effect_of e name = Allow then (if dGrantable d then Allowed else Denied)
          else if effect_of e name = Inherit \<or> effect_of e name = [] then (if dAdminDefault d then Allowed else Denied)
          else Denied
      | _ \<Rightarrow> Denied)"

definition Evaluator_User :: "evaluator option \<Rightarrow> bytes \<Rightarrow> account \<Rightarrow> decision" where
  "Evaluator_User ev name target =
     (if \<not> manager ev then Denied
      else case (ev, lookup name) of
        (Some e, Some d) \<Rightarrow>
          if dScopes d AND userScope = 0 \<or> dUnavailable d then Denied
          else if \<not> validAccount target \<or> aID target = aID (eActor e) \<or> aGUID target = aGUID (eActor e) \<or>
                  aRole target = UserRoleRoot \<or> aRole target \<ge> aRole (eActor e) then Hidden
          else if aDeleted target \<noteq> 0 \<and> Evaluator_capability ev ''users.deleted.read'' \<noteq> Allowed then Hidden
          else if aDeleted target \<noteq> 0 \<and> name \<notin> {''users.read'', ''users.deleted.read'', ''users.audit.read''} then Denied
          else if aDeleted target = 0 \<and> name = ''users.deleted.read'' then Hidden
          else if name = ''users.promote'' \<and> aRole target \<noteq> UserRoleUser then Denied
          else if (name = ''users.demote'' \<or> name = ''users.permissions.write'') \<and> aRole target \<noteq> UserRoleAdmin then Denied
          else Evaluator_capability ev name
      | _ \<Rightarrow> Denied)"

definition Evaluator_Create :: "evaluator option \<Rightarrow> int \<Rightarrow> decision" where
  "Evaluator_Create ev role =
     (case ev of
        None \<Rightarrow> Denied
      | Some e \<Rightarrow>
          if \<not> manager ev \<or> (role \<noteq> UserRoleUser \<and> role \<noteq> UserRoleAdmin) \<or> role \<ge> aRole (eActor e) then Denied
          else Evaluator_capability ev ''users.create'')"

definition Evaluator_Collection :: "evaluator option \<Rightarrow> bytes \<Rightarrow> bool \<Rightarrow> decision" where
  "Evaluator_Collection ev name includeDeleted =
     (case lookup name of
        None \<Rightarrow> Denied
      | Some d \<Rightarrow>
          if dScopes d AND collectionScope = 0 then Denied
          else if includeDeleted \<and> Evaluator_capability ev ''users.deleted.read'' \<noteq> Allowed then Denied
          else Evaluator_capability ev name)"

definition Evaluator_Resource :: "evaluator option \<Rightarrow> bytes \<Rightarrow> decision" where
  "Evaluator_Resource ev name =
     (case lookup name of
        None \<Rightarrow> Denied
      | Some d \<Rightarrow> if dScopes d AND resourceScope = 0 then Denied else Evaluator_capability ev name)"

definition CapabilityNames :: "evaluator option \<Rightarrow> bytes list" where
  "CapabilityNames ev = map dName (filter (\<lambda>d. Evaluator_capability ev (dName d) = Allowed) definitions)"

section \<open>The displayed policy\<close>

record display_capability =
  cName :: bytes
  cBaseline :: bool
  cOverride :: bytes
  cPolicyEffective :: bool
  cEffective :: bool

definition display_of :: "account \<Rightarrow> (bytes \<times> bytes) list \<Rightarrow> capability \<Rightarrow> display_capability" where
  "display_of target overrides d =
     (let found = (case map_of overrides (dName d) of None \<Rightarrow> [] | Some x \<Rightarrow> x);
          effect = (if found = [] then Inherit else found);
          policy = (if effect = Deny then False else if effect = Allow then dGrantable d else dAdminDefault d);
          policy = (if dRootOnly d \<or> dUnavailable d then False else policy)
      in \<lparr>cName = dName d, cBaseline = dAdminDefault d, cOverride = effect, cPolicyEffective = policy,
          cEffective = (aStatus target = UserStatusActive \<and> policy)\<rparr>)"

definition ProjectAdminPolicy :: "account \<Rightarrow> override list \<Rightarrow> authz_error + display_capability list" where
  "ProjectAdminPolicy target rules =
     (if \<not> validAccount target \<or> aDeleted target \<noteq> 0 \<or> aRole target \<noteq> UserRoleAdmin then Inl ErrInvalidActor
      else case validateOverrides rules of
        Inl er \<Rightarrow> Inl er
      | Inr overrides \<Rightarrow> Inr (map (display_of target overrides) definitions))"

end
