(* ===== verification/Authz_Policy.thy ===== *)
theory Authz_Policy
  imports Authz
begin

text \<open>
  What the authorization core promises: a declarative policy (\<open>admin_permits\<close>, \<open>permits\<close>), the
  interface \<open>admin_policy\<close> through which an administrator's rights are read, its two providers (the
  evaluator and the displayed projection), and the safety of the decisions on user accounts.
\<close>

section \<open>The catalog\<close>

lemma catalog_names: "distinct (map dName definitions)"
  by code_simp

lemma catalog_grantable: "d \<in> set definitions \<Longrightarrow> dGrantable d \<Longrightarrow> \<not> dRootOnly d \<and> \<not> dUnavailable d"
proof -
  have "list_all (\<lambda>d. dGrantable d \<longrightarrow> \<not> dRootOnly d \<and> \<not> dUnavailable d) definitions" by code_simp
  then show "d \<in> set definitions \<Longrightarrow> dGrantable d \<Longrightarrow> \<not> dRootOnly d \<and> \<not> dUnavailable d"
    by (simp add: list_all_iff)
qed

lemma lookupD: "lookup n = Some d \<Longrightarrow> d \<in> set definitions \<and> dName d = n"
  by (auto simp: lookup_def find_Some_iff)

lemma lookup_self: "d \<in> set definitions \<Longrightarrow> lookup (dName d) = Some d"
proof -
  assume d: "d \<in> set definitions"
  then obtain d' where d': "lookup (dName d) = Some d'"
    by (cases "lookup (dName d)") (auto simp: lookup_def find_None_iff)
  then show ?thesis using lookupD[OF d'] d catalog_names by (auto simp: distinct_map inj_on_def)
qed

section \<open>Overrides\<close>

definition rule_ok :: "override \<Rightarrow> bool" where
  "rule_ok r \<longleftrightarrow>
     (case lookup (oCapability r) of None \<Rightarrow> False | Some d \<Rightarrow> dGrantable d \<and> \<not> dRootOnly d \<and> \<not> dUnavailable d) \<and>
     oEffect r \<in> {Inherit, Allow, Deny}"

definition rule_pairs :: "override list \<Rightarrow> (bytes \<times> bytes) list" where
  "rule_pairs rules = map (\<lambda>r. (oCapability r, oEffect r)) rules"

lemma validate_rules_Inr:
  assumes "sm_ok copied"
  shows "validate_rules rules copied = Inr m \<Longrightarrow>
    list_all rule_ok rules \<and> distinct (map oCapability rules) \<and>
    fst ` set copied \<inter> oCapability ` set rules = {} \<and> sm_ok m \<and>
    map_of m = map_of copied ++ map_of (rule_pairs rules)"
  using assms
proof (induction rules copied rule: validate_rules.induct)
  case (1 copied)
  then show ?case by (simp add: rule_pairs_def)
next
  case (2 r rules copied)
  from 2(2) obtain d where d: "lookup (oCapability r) = Some d" "dGrantable d" "\<not> dRootOnly d" "\<not> dUnavailable d"
    "oEffect r \<in> {Inherit, Allow, Deny}" "map_of copied (oCapability r) = None"
    and rest: "validate_rules rules (sm_put (oCapability r) (oEffect r) copied) = Inr m"
    by (auto split: option.splits if_splits)
  have new: "oCapability r \<notin> fst ` set copied" using d(6) by (simp add: map_of_eq_None_iff)
  have "oEffect r \<noteq> Inherit \<and> oEffect r \<noteq> Allow \<and> oEffect r \<noteq> Deny \<longleftrightarrow> False" using d(5) by auto
  note step = 2(1)[OF d(1) _ _ _ rest, unfolded this sm_get_put[OF 2(3)]]
  have IH: "list_all rule_ok rules" "distinct (map oCapability rules)"
    "insert (oCapability r) (fst ` set copied) \<inter> oCapability ` set rules = {}" "sm_ok m"
    "map_of m = (map_of copied)(oCapability r \<mapsto> oEffect r) ++ map_of (rule_pairs rules)"
    using step d(2-4,6) 2(3) by (simp_all add: fun_upd_def)
  have fresh: "oCapability r \<notin> dom (map_of (rule_pairs rules))"
    using IH(3) by (auto simp: dom_map_of_conv_image_fst rule_pairs_def)
  have "map_of m = map_of copied ++ map_of (rule_pairs (r # rules))"
    by (simp add: IH(5) map_add_upd_left[OF fresh]) (simp add: rule_pairs_def)
  moreover have "rule_ok r" using d by (simp add: rule_ok_def)
  ultimately show ?case using IH new by auto
qed

lemma validate_rules_error: "validate_rules rules copied = Inl er \<Longrightarrow> er = ErrInvalidOverrides"
  by (induction rules copied rule: validate_rules.induct) (auto split: option.splits if_splits)

lemma validate_rules_total:
  assumes "list_all rule_ok rules" "distinct (map oCapability rules)" "fst ` set copied \<inter> oCapability ` set rules = {}"
    and "sm_ok copied"
  shows "\<exists>m. validate_rules rules copied = Inr m"
  using assms
proof (induction rules arbitrary: copied)
  case (Cons r rules)
  then have none: "map_of copied (oCapability r) = None" by (auto simp: map_of_eq_None_iff)
  have "fst ` set (sm_put (oCapability r) (oEffect r) copied) \<inter> oCapability ` set rules = {}"
    using Cons.prems(2,3) by auto
  from Cons.IH[OF _ _ this] Cons.prems none show ?case
    by (auto simp: rule_ok_def split: option.splits)
qed simp

lemma validateOverrides_Inr:
  "validateOverrides rules = Inr m \<Longrightarrow>
   list_all rule_ok rules \<and> distinct (map oCapability rules) \<and> sm_ok m \<and> map_of m = map_of (rule_pairs rules)"
  using validate_rules_Inr[of "[]" rules m] by (simp add: validateOverrides_def)

lemma validateOverrides_ok:
  "(\<exists>m. validateOverrides rules = Inr m) \<longleftrightarrow> list_all rule_ok rules \<and> distinct (map oCapability rules)"
  using validateOverrides_Inr validate_rules_total[of rules "[]"] by (auto simp: validateOverrides_def)

lemma validateOverrides_effects:
  "validateOverrides rules = Inr m \<Longrightarrow> map_of m n = Some x \<Longrightarrow> x \<in> {Inherit, Allow, Deny}"
  using validateOverrides_Inr[of rules m]
  by (auto simp: list_all_iff rule_ok_def rule_pairs_def dest!: map_of_SomeD)

lemma NewEvaluator_Inr:
  "NewEvaluator a rules = Inr e \<longleftrightarrow>
     validAccount a \<and> aDeleted a = 0 \<and> aStatus a = UserStatusActive \<and> (rules \<noteq> [] \<longrightarrow> aRole a = UserRoleAdmin) \<and>
     validateOverrides rules = Inr (eOverrides e) \<and> eActor e = a"
  by (cases e) (auto simp: NewEvaluator_def split: sum.splits)

section \<open>The declarative policy\<close>

text \<open>What an administrator with the given override may do, and what any manager may do.\<close>

definition admin_permits :: "bytes \<Rightarrow> capability \<Rightarrow> bool" where
  "admin_permits eff d \<longleftrightarrow>
     \<not> dUnavailable d \<and> \<not> dRootOnly d \<and> eff \<noteq> Deny \<and> (if eff = Allow then dGrantable d else dAdminDefault d)"

definition permits :: "account \<Rightarrow> bytes \<Rightarrow> capability \<Rightarrow> bool" where
  "permits a eff d \<longleftrightarrow> \<not> dUnavailable d \<and> (aRole a = UserRoleRoot \<or> aRole a = UserRoleAdmin \<and> admin_permits eff d)"

definition evaluator_ok :: "evaluator \<Rightarrow> bool" where
  "evaluator_ok e \<longleftrightarrow>
     validAccount (eActor e) \<and> aDeleted (eActor e) = 0 \<and> aStatus (eActor e) = UserStatusActive \<and>
     (\<forall>n. effect_of e n \<in> {[], Inherit, Allow, Deny})"

lemma NewEvaluator_evaluator_ok: "NewEvaluator a rules = Inr e \<Longrightarrow> evaluator_ok e"
  using validateOverrides_effects[of rules "eOverrides e"]
  by (auto simp: NewEvaluator_Inr evaluator_ok_def effect_of_def split: option.split)

lemma manager_ok: "evaluator_ok e \<Longrightarrow> manager (Some e) \<longleftrightarrow> aRole (eActor e) \<noteq> UserRoleUser"
  by (auto simp: manager_def evaluator_ok_def validAccount_def knownRole_def)

lemma capability_permits:
  assumes "evaluator_ok e"
  shows "Evaluator_capability (Some e) n = Allowed \<longleftrightarrow> (\<exists>d. lookup n = Some d \<and> permits (eActor e) (effect_of e n) d)"
proof -
  have "effect_of e n \<in> {[], Inherit, Allow, Deny}" "knownRole (aRole (eActor e))"
    using assms by (auto simp: evaluator_ok_def validAccount_def)
  then show ?thesis
    by (auto simp: Evaluator_capability_def manager_ok[OF assms] permits_def admin_permits_def knownRole_def
        split: option.split)
qed

lemma capability_not_hidden: "Evaluator_capability ev n \<noteq> Hidden"
  by (auto simp: Evaluator_capability_def split: option.split)

section \<open>The interface: reading an administrator's rights\<close>

text \<open>
  \<open>grants\<close> reads a right from a source, \<open>eff\<close> the override it applies.  The laws are the documented
  rules of an override; two sources with the same overrides agree on every right.
\<close>

locale admin_policy =
  fixes grants :: "'s \<Rightarrow> bytes \<Rightarrow> bool" and eff :: "'s \<Rightarrow> bytes \<Rightarrow> bytes" and wf :: "'s \<Rightarrow> bool"
  assumes known: "wf s \<Longrightarrow> grants s n \<Longrightarrow> \<exists>d. lookup n = Some d \<and> \<not> dUnavailable d \<and> \<not> dRootOnly d"
    and deny: "wf s \<Longrightarrow> eff s n = Deny \<Longrightarrow> \<not> grants s n"
    and allow: "wf s \<Longrightarrow> eff s n = Allow \<Longrightarrow> lookup n = Some d \<Longrightarrow> \<not> dUnavailable d \<Longrightarrow> \<not> dRootOnly d \<Longrightarrow>
      grants s n = dGrantable d"
    and default: "wf s \<Longrightarrow> eff s n \<noteq> Deny \<Longrightarrow> eff s n \<noteq> Allow \<Longrightarrow> lookup n = Some d \<Longrightarrow> \<not> dUnavailable d \<Longrightarrow>
      \<not> dRootOnly d \<Longrightarrow> grants s n = dAdminDefault d"
begin

lemma grants_iff: "wf s \<Longrightarrow> grants s n \<longleftrightarrow> (\<exists>d. lookup n = Some d \<and> admin_permits (eff s n) d)"
  using known[of s n] deny[of s n] allow[of s n] default[of s n] by (auto simp: admin_permits_def)

lemma never_root_only: "wf s \<Longrightarrow> lookup n = Some d \<Longrightarrow> dRootOnly d \<Longrightarrow> \<not> grants s n"
  using known by fastforce

end

text \<open>First provider: the evaluator of an administrator.\<close>

definition admin_evaluator :: "evaluator \<Rightarrow> bool" where
  "admin_evaluator e \<longleftrightarrow> evaluator_ok e \<and> aRole (eActor e) = UserRoleAdmin"

interpretation evaluated: admin_policy "\<lambda>e n. Evaluator_capability (Some e) n = Allowed" effect_of admin_evaluator
  by unfold_locales
    (auto simp: admin_evaluator_def capability_permits permits_def admin_permits_def)

text \<open>Second provider: the projection, a target and its validated overrides.\<close>

definition shown :: "account \<times> (bytes \<times> bytes) list \<Rightarrow> bytes \<Rightarrow> bool" where
  "shown s n \<longleftrightarrow> (\<exists>d \<in> set definitions. dName d = n \<and> cPolicyEffective (display_of (fst s) (snd s) d))"

definition shown_effect :: "account \<times> (bytes \<times> bytes) list \<Rightarrow> bytes \<Rightarrow> bytes" where
  "shown_effect s n = (case map_of (snd s) n of None \<Rightarrow> [] | Some x \<Rightarrow> x)"

lemma shown_iff: "lookup n = Some d \<Longrightarrow> shown s n \<longleftrightarrow> cPolicyEffective (display_of (fst s) (snd s) d)"
  using lookupD[of n d] lookup_self by (auto simp: shown_def) (metis option.inject)

lemma shown_known: "shown s n \<Longrightarrow> \<exists>d. lookup n = Some d \<and> \<not> dUnavailable d \<and> \<not> dRootOnly d"
  using lookup_self by (fastforce simp: shown_def display_of_def Let_def split: if_splits)

interpretation displayed: admin_policy shown shown_effect "\<lambda>s. True"
proof unfold_locales
  fix s n d
  show "shown s n \<Longrightarrow> \<exists>d. lookup n = Some d \<and> \<not> dUnavailable d \<and> \<not> dRootOnly d" by (rule shown_known)
  show "\<not> shown s n" if "shown_effect s n = Deny"
  proof
    assume "shown s n"
    with shown_known obtain d' where "lookup n = Some d'" by blast
    with that \<open>shown s n\<close> lookupD[of n d'] show False
      by (auto simp: shown_iff display_of_def shown_effect_def Let_def split: option.splits if_splits)
  qed
  show "lookup n = Some d \<Longrightarrow> shown_effect s n = Allow \<Longrightarrow> \<not> dUnavailable d \<Longrightarrow> \<not> dRootOnly d \<Longrightarrow> shown s n = dGrantable d"
    using lookupD[of n d] by (auto simp: shown_iff display_of_def shown_effect_def Let_def split: option.splits)
  show "lookup n = Some d \<Longrightarrow> shown_effect s n \<noteq> Deny \<Longrightarrow> shown_effect s n \<noteq> Allow \<Longrightarrow> \<not> dUnavailable d \<Longrightarrow>
      \<not> dRootOnly d \<Longrightarrow> shown s n = dAdminDefault d"
    using lookupD[of n d] by (auto simp: shown_iff display_of_def shown_effect_def Let_def split: option.splits if_splits)
qed

text \<open>Both providers agree wherever they read the same overrides.\<close>

lemma display_effective:
  assumes "NewEvaluator t rules = Inr e" "aRole t = UserRoleAdmin" "d \<in> set definitions"
  shows "cPolicyEffective (display_of t (eOverrides e) d) \<longleftrightarrow> Evaluator_capability (Some e) (dName d) = Allowed"
proof -
  have e: "admin_evaluator e" "eActor e = t"
    using assms NewEvaluator_evaluator_ok by (auto simp: admin_evaluator_def NewEvaluator_Inr)
  have "shown_effect (t, eOverrides e) (dName d) = effect_of e (dName d)"
    by (simp add: shown_effect_def effect_of_def)
  then have "shown (t, eOverrides e) (dName d) \<longleftrightarrow> Evaluator_capability (Some e) (dName d) = Allowed"
    by (simp add: displayed.grants_iff evaluated.grants_iff[OF e(1)])
  then show ?thesis using shown_iff[OF lookup_self[OF assms(3)], of "(t, eOverrides e)"] by simp
qed

section \<open>Decisions on user accounts\<close>

lemma user_allowedD:
  assumes "Evaluator_User (Some e) n t = Allowed"
  shows "Evaluator_capability (Some e) n = Allowed"
    and "validAccount t \<and> aID t \<noteq> aID (eActor e) \<and> aGUID t \<noteq> aGUID (eActor e) \<and> aRole t < aRole (eActor e)"
    and "\<And>d. lookup n = Some d \<Longrightarrow> dScopes d AND userScope \<noteq> 0"
    and "aDeleted t \<noteq> 0 \<Longrightarrow> n \<in> {''users.read'', ''users.deleted.read'', ''users.audit.read''} \<and>
      Evaluator_capability (Some e) ''users.deleted.read'' = Allowed"
    and "n = ''users.promote'' \<Longrightarrow> aRole t = UserRoleUser"
    and "n \<in> {''users.demote'', ''users.permissions.write''} \<Longrightarrow> aRole t = UserRoleAdmin"
  using assms by (auto simp: Evaluator_User_def not_le split: option.splits if_splits)

lemma root_only_names:
  "lookup ''users.promote'' = Some d \<Longrightarrow> dRootOnly d"
  "lookup ''users.demote'' = Some d \<Longrightarrow> dRootOnly d"
  "lookup ''users.permissions.write'' = Some d \<Longrightarrow> dRootOnly d"
proof -
  have "map_option dRootOnly (lookup ''users.promote'') = Some True \<and> map_option dRootOnly (lookup ''users.demote'') = Some True \<and>
      map_option dRootOnly (lookup ''users.permissions.write'') = Some True"
    by code_simp
  then show "lookup ''users.promote'' = Some d \<Longrightarrow> dRootOnly d" "lookup ''users.demote'' = Some d \<Longrightarrow> dRootOnly d"
    "lookup ''users.permissions.write'' = Some d \<Longrightarrow> dRootOnly d"
    by auto
qed

section \<open>Properties\<close>

definition sample_admin :: account where
  "sample_admin = \<lparr>aID = 5, aGUID = 500, aRole = UserRoleAdmin, aStatus = UserStatusActive, aDeleted = 0\<rparr>"

definition sample_user :: account where
  "sample_user = \<lparr>aID = 6, aGUID = 600, aRole = UserRoleUser, aStatus = UserStatusActive, aDeleted = 0\<rparr>"

definition sample_rules :: "override list" where
  "sample_rules = [\<lparr>oCapability = ''users.delete'', oEffect = Allow\<rparr>, \<lparr>oCapability = ''users.edit'', oEffect = Deny\<rparr>]"

text \<open>C10: The administration page and the authorization check agree.  For an administrator account that is not
  deleted, the projection shows one row per catalog entry, in order; for an active account the evaluator
  is accepted exactly when the projection is, and a row is effective exactly when the evaluator allows the
  capability; a disabled account has no effective row and no evaluator.\<close>

theorem projection_agrees:
  assumes "validAccount t" "aDeleted t = 0" "aRole t = UserRoleAdmin"
  shows "case ProjectAdminPolicy t rules of
      Inl er \<Rightarrow> er = ErrInvalidOverrides \<and> (\<forall>e. NewEvaluator t rules \<noteq> Inr e)
    | Inr rows \<Rightarrow> map cName rows = map dName definitions \<and>
        (if aStatus t = UserStatusActive
         then \<exists>e. NewEvaluator t rules = Inr e \<and>
           (\<forall>row \<in> set rows. cEffective row = (Evaluator_capability (Some e) (cName row) = Allowed))
         else NewEvaluator t rules = Inl ErrInvalidActor \<and> (\<forall>row \<in> set rows. \<not> cEffective row))"
proof (cases "validateOverrides rules")
  case (Inl er)
  then have "er = ErrInvalidOverrides" using validate_rules_error by (simp add: validateOverrides_def)
  then show ?thesis using assms Inl by (simp add: ProjectAdminPolicy_def NewEvaluator_Inr)
next
  case (Inr m)
  then have rows: "ProjectAdminPolicy t rules = Inr (map (display_of t m) definitions)"
    using assms by (simp add: ProjectAdminPolicy_def)
  have names: "map cName (map (display_of t m) definitions) = map dName definitions"
    by (simp add: display_of_def Let_def)
  show ?thesis
  proof (cases "aStatus t = UserStatusActive")
    case True
    then have e: "NewEvaluator t rules = Inr \<lparr>eActor = t, eOverrides = m\<rparr>" using assms Inr by (simp add: NewEvaluator_def)
    have "cEffective (display_of t m d) = (Evaluator_capability (Some \<lparr>eActor = t, eOverrides = m\<rparr>) (dName d) = Allowed)"
      if "d \<in> set definitions" for d
      using display_effective[OF e assms(3) that] True by (simp add: display_of_def Let_def)
    then show ?thesis using True e rows names by (auto simp: display_of_def Let_def)
  next
    case False
    then show ?thesis using assms rows names by (auto simp: NewEvaluator_def display_of_def Let_def)
  qed
qed

theorem projection_agrees_witness:
  "\<exists>rows e. ProjectAdminPolicy sample_admin sample_rules = Inr rows \<and> NewEvaluator sample_admin sample_rules = Inr e \<and>
     (\<forall>row \<in> set rows. cEffective row = (Evaluator_capability (Some e) (cName row) = Allowed)) \<and>
     Evaluator_capability (Some e) ''users.delete'' = Allowed \<and> Evaluator_capability (Some e) ''users.edit'' = Denied"
proof -
  have ok: "validAccount sample_admin \<and> aDeleted sample_admin = 0 \<and> aRole sample_admin = UserRoleAdmin" by code_simp
  have "\<exists>e. NewEvaluator sample_admin sample_rules = Inr e \<and>
     Evaluator_capability (Some e) ''users.delete'' = Allowed \<and> Evaluator_capability (Some e) ''users.edit'' = Denied"
  proof
    show "NewEvaluator sample_admin sample_rules =
        Inr \<lparr>eActor = sample_admin, eOverrides = [(''users.delete'', Allow), (''users.edit'', Deny)]\<rparr> \<and>
      Evaluator_capability (Some \<lparr>eActor = sample_admin, eOverrides = [(''users.delete'', Allow), (''users.edit'', Deny)]\<rparr>) ''users.delete'' = Allowed \<and>
      Evaluator_capability (Some \<lparr>eActor = sample_admin, eOverrides = [(''users.delete'', Allow), (''users.edit'', Deny)]\<rparr>) ''users.edit'' = Denied"
      by code_simp
  qed
  then show ?thesis
    using projection_agrees[of sample_admin sample_rules] ok
    by (auto simp: sample_admin_def split: sum.splits)
qed

text \<open>C11: A decision on a user account never reaches up or sideways.  When the evaluator of an actor allows a
  user capability on a target, the target is a well-formed account other than the actor and of strictly
  lower role, the capability is in the catalog, in user scope and permitted to the actor by the declarative
  policy; a deleted target is only read, by an actor who may see deleted accounts; only the root account
  promotes (a user) or demotes and re-authorizes (an administrator).\<close>

theorem user_access_is_strict:
  assumes "NewEvaluator a rules = Inr e" "Evaluator_User (Some e) n t = Allowed"
  shows "validAccount t \<and> aID t \<noteq> aID a \<and> aGUID t \<noteq> aGUID a \<and> aRole t < aRole a \<and>
    (\<exists>d. lookup n = Some d \<and> dScopes d AND userScope \<noteq> 0 \<and> permits a (effect_of e n) d) \<and>
    (aDeleted t \<noteq> 0 \<longrightarrow> n \<in> {''users.read'', ''users.deleted.read'', ''users.audit.read''} \<and>
       Evaluator_capability (Some e) ''users.deleted.read'' = Allowed) \<and>
    (n = ''users.promote'' \<longrightarrow> aRole a = UserRoleRoot \<and> aRole t = UserRoleUser) \<and>
    (n \<in> {''users.demote'', ''users.permissions.write''} \<longrightarrow> aRole a = UserRoleRoot \<and> aRole t = UserRoleAdmin)"
proof -
  have e: "evaluator_ok e" "eActor e = a" using assms(1) NewEvaluator_evaluator_ok by (auto simp: NewEvaluator_Inr)
  note facts = user_allowedD[OF assms(2)]
  obtain d where d: "lookup n = Some d" "permits a (effect_of e n) d"
    using facts(1) capability_permits[OF e(1)] e(2) by auto
  have root: "dRootOnly d \<Longrightarrow> aRole a = UserRoleRoot" using d(2) by (auto simp: permits_def admin_permits_def)
  have "n \<in> {''users.promote'', ''users.demote'', ''users.permissions.write''} \<Longrightarrow> dRootOnly d"
    using d(1) root_only_names by auto
  then show ?thesis using facts d root e(2) by auto
qed

theorem user_access_is_strict_witness:
  "aRole sample_user < aRole sample_admin \<and>
   (\<exists>e. NewEvaluator sample_admin sample_rules = Inr e \<and> Evaluator_User (Some e) ''users.delete'' sample_user = Allowed)"
proof -
  let ?e = "\<lparr>eActor = sample_admin, eOverrides = [(''users.delete'', Allow), (''users.edit'', Deny)]\<rparr>"
  have "NewEvaluator sample_admin sample_rules = Inr ?e" "Evaluator_User (Some ?e) ''users.delete'' sample_user = Allowed"
    by code_simp+
  from user_access_is_strict[OF this] this show ?thesis by blast
qed

end
