(* ===== verification/Action_Value.thy ===== *)
theory Action_Value
  imports Base64
begin

text \<open>
  The opaque external values of administrator actions (\<open>internal/actionsecurity/value.go\<close>): tickets
  \<open>av_\<close>, idempotency keys \<open>ik_\<close>, operation references \<open>op_\<close> and the root key.  A \<open>[32]byte\<close> is a
  string of 32 bytes; an \<open>io.Reader\<close> is what it will deliver, \<open>None\<close> for a nil reader.  The clearing
  of buffers after use has no counterpart.
\<close>

datatype key_error = KeyMissing | KeyInvalidLength | KeyInvalidEncoding | KeyReuse

datatype value_error = ErrInvalidExternalValue | ErrRandomSource

definition ParseRootKey :: "bytes \<Rightarrow> key_error + bytes" where
  "ParseRootKey raw =
     (if raw = [] then Inl KeyMissing
      else if length raw \<noteq> 43 then Inl KeyInvalidLength
      else case b64_decode True raw of
        None \<Rightarrow> Inl KeyInvalidEncoding
      | Some decoded \<Rightarrow> if length decoded \<noteq> 32 then Inl KeyInvalidEncoding else Inr decoded)"

definition parseExternalValue :: "bytes \<Rightarrow> bytes \<Rightarrow> value_error + bytes" where
  "parseExternalValue raw prefix =
     (if length raw \<noteq> 46 \<or> take 3 raw \<noteq> prefix then Inl ErrInvalidExternalValue
      else case b64_decode True (drop 3 raw) of
        None \<Rightarrow> Inl ErrInvalidExternalValue
      | Some decoded \<Rightarrow> if length decoded \<noteq> 32 then Inl ErrInvalidExternalValue else Inr decoded)"

definition parseHeaderValue :: "bytes list \<Rightarrow> bytes \<Rightarrow> value_error + bytes" where
  "parseHeaderValue values prefix =
     (case values of [raw] \<Rightarrow> parseExternalValue raw prefix | _ \<Rightarrow> Inl ErrInvalidExternalValue)"

definition ParseIdempotencyKey :: "bytes list \<Rightarrow> value_error + bytes" where
  "ParseIdempotencyKey values = parseHeaderValue values ''ik_''"

definition ParseTicket :: "bytes list \<Rightarrow> value_error + bytes" where
  "ParseTicket values = parseHeaderValue values ''av_''"

definition ParsePublicRef :: "bytes \<Rightarrow> value_error + bytes" where
  "ParsePublicRef raw = parseExternalValue raw ''op_''"

definition readRandom :: "bytes option \<Rightarrow> nat \<Rightarrow> value_error + bytes" where
  "readRandom random n =
     (case random of
        None \<Rightarrow> Inl ErrRandomSource
      | Some stream \<Rightarrow> if length stream < n then Inl ErrRandomSource else Inr (take n stream))"

definition NewTicket :: "bytes option \<Rightarrow> value_error + (bytes \<times> bytes)" where
  "NewTicket random = and_then (readRandom random 32) (\<lambda>raw. Inr (''av_'' @ b64_encode raw, raw))"

definition NewPublicRef :: "bytes option \<Rightarrow> value_error + bytes" where
  "NewPublicRef random = and_then (readRandom random 32) (\<lambda>raw. Inr (''op_'' @ b64_encode raw))"

section \<open>The external form is unique\<close>

lemma length_b64_groups: "b64_groups strict vs = Some r \<Longrightarrow> length r = length vs * 3 div 4"
  by (induction strict vs arbitrary: r rule: b64_groups.induct) (auto split: if_splits option.splits)

lemma length_b64_values: "b64_values s = Some vs \<Longrightarrow> length vs \<le> length s"
  by (induction s arbitrary: vs) (fastforce split: if_splits option.splits)+

lemma b64_decode_32:
  "length s = 43 \<Longrightarrow> b64_decode True s = Some raw \<and> length raw = 32 \<longleftrightarrow> length raw = 32 \<and> s = b64_encode raw"
proof
  assume len: "length s = 43" and dec: "b64_decode True s = Some raw \<and> length raw = 32"
  obtain vs where vs: "b64_values s = Some vs" "b64_groups True vs = Some raw"
    using dec by (auto simp: b64_decode_def Option.bind_eq_Some_conv)
  have "length vs \<le> 43" "length vs * 3 div 4 = 32" using length_b64_values[OF vs(1)] length_b64_groups[OF vs(2)] len dec by auto
  then have "length vs = length s" using len by linarith
  then have "map b64_char vs = s" using b64_values_chars[OF vs(1)] by simp
  then show "length raw = 32 \<and> s = b64_encode raw"
    using dec b64_groups_encode[OF vs(2)] b64_values_bound[OF vs(1)] by simp
qed (simp add: b64_decode_encode)

lemma parseExternalValue_iff:
  "length p = 3 \<Longrightarrow> parseExternalValue s p = Inr raw \<longleftrightarrow> length raw = 32 \<and> s = p @ b64_encode raw"
proof -
  assume p: "length p = 3"
  have "parseExternalValue s p = Inr raw \<longleftrightarrow>
      take 3 s = p \<and> length (drop 3 s) = 43 \<and> b64_decode True (drop 3 s) = Some raw \<and> length raw = 32"
    using p by (auto simp: parseExternalValue_def split: option.splits if_splits)
  also have "\<dots> \<longleftrightarrow> take 3 s = p \<and> length (drop 3 s) = 43 \<and> length raw = 32 \<and> drop 3 s = b64_encode raw"
    using b64_decode_32 by blast
  also have "\<dots> \<longleftrightarrow> length raw = 32 \<and> s = p @ b64_encode raw"
  proof
    assume "take 3 s = p \<and> length (drop 3 s) = 43 \<and> length raw = 32 \<and> drop 3 s = b64_encode raw"
    then show "length raw = 32 \<and> s = p @ b64_encode raw" by (metis append_take_drop_id)
  next
    assume "length raw = 32 \<and> s = p @ b64_encode raw"
    then show "take 3 s = p \<and> length (drop 3 s) = 43 \<and> length raw = 32 \<and> drop 3 s = b64_encode raw"
      using p by (simp add: length_b64_encode)
  qed
  finally show ?thesis .
qed

lemma parseHeaderValue_iff:
  "length p = 3 \<Longrightarrow> parseHeaderValue vs p = Inr raw \<longleftrightarrow> length raw = 32 \<and> vs = [p @ b64_encode raw]"
  using parseExternalValue_iff[of p] by (auto simp: parseHeaderValue_def split: list.splits)

section \<open>Properties\<close>

text \<open>C13: An external value has exactly one textual form.  A header list parses as a ticket with value \<open>raw\<close>
  exactly when \<open>raw\<close> has 32 bytes and the list is the single text \<open>av_\<close> followed by its unpadded base64url
  form; the same for idempotency keys, operation references and the root key; and a fresh ticket is the
  text of the 32 bytes it returns, so that it parses back to them.\<close>

theorem external_values_canonical:
  "(ParseTicket vs = Inr raw) = (length raw = 32 \<and> vs = [''av_'' @ b64_encode raw]) \<and>
   (ParseIdempotencyKey vs = Inr raw) = (length raw = 32 \<and> vs = [''ik_'' @ b64_encode raw]) \<and>
   (ParsePublicRef s = Inr raw) = (length raw = 32 \<and> s = ''op_'' @ b64_encode raw) \<and>
   (ParseRootKey s = Inr raw) = (length raw = 32 \<and> s = b64_encode raw) \<and>
   (NewTicket r = Inr (t, raw)) = (t = ''av_'' @ b64_encode raw \<and> readRandom r 32 = Inr raw \<and> ParseTicket [t] = Inr raw)"
proof -
  have root: "(ParseRootKey s = Inr raw) = (length raw = 32 \<and> s = b64_encode raw)"
  proof -
    have "(ParseRootKey s = Inr raw) = (length s = 43 \<and> b64_decode True s = Some raw \<and> length raw = 32)"
      by (auto simp: ParseRootKey_def split: option.splits if_splits)
    also have "\<dots> = (length s = 43 \<and> length raw = 32 \<and> s = b64_encode raw)" using b64_decode_32 by blast
    also have "\<dots> = (length raw = 32 \<and> s = b64_encode raw)" by (auto simp: length_b64_encode)
    finally show ?thesis .
  qed
  have "readRandom r 32 = Inr raw \<Longrightarrow> length raw = 32" by (auto simp: readRandom_def split: option.splits if_splits)
  then have "(NewTicket r = Inr (t, raw)) = (t = ''av_'' @ b64_encode raw \<and> readRandom r 32 = Inr raw \<and> ParseTicket [t] = Inr raw)"
    by (auto simp: NewTicket_def and_then_Inr ParseTicket_def parseHeaderValue_iff)
  then show ?thesis using root
    by (simp add: ParseTicket_def ParseIdempotencyKey_def ParsePublicRef_def parseHeaderValue_iff parseExternalValue_iff)
qed

end
