(* ===== verification/Action_Encode.thy ===== *)
theory Action_Encode
  imports Sha256 "HOL-Library.Multiset"
begin

text \<open>
  The intent writer (\<open>internal/actionsecurity/encode.go\<close>): a canonical tag, type, length, value text
  whose digest binds a ticket to an intent.  Lengths are \<open>uint64\<close>, so their arithmetic is written modulo
  \<open>2 ^ 64\<close>.  A write takes the buffer so far; an error discards it.  The main result is that the text
  determines the fields written (\<open>encodeIntent_inj\<close>).
\<close>

datatype intent_error = ErrIntentEncodingTooLarge | ErrInvalidIntent | ErrWrongIntentType

abbreviation maxU32 :: nat where "maxU32 \<equiv> 4294967295"
abbreviation maxU64 :: nat where "maxU64 \<equiv> 18446744073709551615"

definition typeNull :: nat where "typeNull = 0"
definition typeString :: nat where "typeString = 1"
definition typeBytes :: nat where "typeBytes = 2"
definition typeInt64 :: nat where "typeInt64 = 3"
definition typeInt32 :: nat where "typeInt32 = 4"
definition typeArray :: nat where "typeArray = 5"

lemmas type_codes = typeNull_def typeString_def typeBytes_def typeInt64_def typeInt32_def typeArray_def

section \<open>Lengths\<close>

definition checkedU32Length :: "nat \<Rightarrow> intent_error + nat" where
  "checkedU32Length len = (if maxU32 < len then Inl ErrIntentEncodingTooLarge else Inr len)"

definition addArrayItemLength :: "nat \<Rightarrow> nat \<Rightarrow> intent_error + nat" where
  "addArrayItemLength sofar itemLength =
     (if maxU64 - 4 < sofar \<or> maxU64 - sofar - 4 < itemLength then Inl ErrIntentEncodingTooLarge
      else let sofar' = (sofar + (4 + itemLength) mod 2 ^ 64) mod 2 ^ 64
           in if maxU32 < sofar' then Inl ErrIntentEncodingTooLarge else Inr sofar')"

fun add_item_lengths :: "nat \<Rightarrow> nat list \<Rightarrow> intent_error + nat" where
  "add_item_lengths sofar [] = Inr sofar"
| "add_item_lengths sofar (len # lens) =
     and_then (addArrayItemLength sofar len) (\<lambda>sofar'. add_item_lengths sofar' lens)"

definition checkedArrayPayloadLength :: "nat \<Rightarrow> nat list \<Rightarrow> intent_error + nat" where
  "checkedArrayPayloadLength cnt lengths =
     (if maxU32 < cnt \<or> cnt \<noteq> length lengths then Inl ErrIntentEncodingTooLarge
      else and_then (add_item_lengths 4 lengths) checkedU32Length)"

definition checkedStringArrayPayloadLength :: "bytes list \<Rightarrow> intent_error + unit" where
  "checkedStringArrayPayloadLength values =
     and_then (checkedU32Length (length values)) (\<lambda>_. and_then (add_item_lengths 4 (map length values)) (\<lambda>_. Inr ()))"

section \<open>The writer\<close>

definition fieldHeader :: "nat \<Rightarrow> nat \<Rightarrow> nat \<Rightarrow> bytes \<Rightarrow> intent_error + bytes" where
  "fieldHeader tag typ len w =
     and_then (checkedU32Length len) (\<lambda>checked. Inr (w @ [char_of tag, char_of typ] @ big_endian 4 checked))"

definition write_raw :: "nat \<Rightarrow> nat \<Rightarrow> bytes \<Rightarrow> bytes \<Rightarrow> intent_error + bytes" where
  "write_raw tag typ v w = and_then (fieldHeader tag typ (length v) w) (\<lambda>w'. Inr (w' @ v))"

definition fieldString :: "nat \<Rightarrow> bytes \<Rightarrow> bytes \<Rightarrow> intent_error + bytes" where
  "fieldString tag v w = and_then (checkedU32Length (length v)) (\<lambda>_. write_raw tag typeString v w)"

definition fieldNullableString :: "nat \<Rightarrow> bytes option \<Rightarrow> bytes \<Rightarrow> intent_error + bytes" where
  "fieldNullableString tag v w = (case v of None \<Rightarrow> write_raw tag typeNull [] w | Some s \<Rightarrow> fieldString tag s w)"

definition fieldInt64 :: "nat \<Rightarrow> int \<Rightarrow> bytes \<Rightarrow> intent_error + bytes" where
  "fieldInt64 tag v w = write_raw tag typeInt64 (big_endian 8 (nat (v mod 2 ^ 64))) w"

definition fieldInt32 :: "nat \<Rightarrow> int \<Rightarrow> bytes \<Rightarrow> intent_error + bytes" where
  "fieldInt32 tag v w = write_raw tag typeInt32 (big_endian 4 (nat (v mod 2 ^ 32))) w"

definition fieldBytes :: "nat \<Rightarrow> bytes \<Rightarrow> bytes \<Rightarrow> intent_error + bytes" where
  "fieldBytes tag v w = write_raw tag typeBytes v w"

definition array_items :: "bytes list \<Rightarrow> bytes" where
  "array_items values = concat (map (\<lambda>v. big_endian 4 (length v) @ v) values)"

definition fieldArray :: "nat \<Rightarrow> bytes list \<Rightarrow> bytes \<Rightarrow> intent_error + bytes" where
  "fieldArray tag values w =
     and_then (checkedU32Length (length values)) (\<lambda>cnt.
     and_then (add_item_lengths 4 (map length values)) (\<lambda>payloadLength.
     if list_ex (\<lambda>v. maxU32 < length v) values then Inl ErrIntentEncodingTooLarge
     else and_then (fieldHeader tag typeArray payloadLength w) (\<lambda>w'.
       Inr (w' @ big_endian 4 cnt @ array_items values))))"

text \<open>A sequence of writer calls, each one returning early on an error.\<close>

datatype intent_field =
    FieldNull nat | FieldString nat bytes | FieldNullableString nat "bytes option" | FieldInt64 nat int
  | FieldInt32 nat int | FieldBytes nat bytes | FieldArray nat "bytes list"

fun write_field :: "intent_field \<Rightarrow> bytes \<Rightarrow> intent_error + bytes" where
  "write_field (FieldNull tag) w = write_raw tag typeNull [] w"
| "write_field (FieldString tag v) w = fieldString tag v w"
| "write_field (FieldNullableString tag v) w = fieldNullableString tag v w"
| "write_field (FieldInt64 tag v) w = fieldInt64 tag v w"
| "write_field (FieldInt32 tag v) w = fieldInt32 tag v w"
| "write_field (FieldBytes tag v) w = fieldBytes tag v w"
| "write_field (FieldArray tag vs) w = fieldArray tag vs w"

fun write_fields :: "intent_field list \<Rightarrow> bytes \<Rightarrow> intent_error + bytes" where
  "write_fields [] w = Inr w"
| "write_fields (f # fs) w = and_then (write_field f w) (write_fields fs)"

definition encodeIntent :: "intent_field list \<Rightarrow> intent_error + bytes" where
  "encodeIntent fs = write_fields fs []"

section \<open>Length arithmetic does not wrap\<close>

lemma checkedU32Length_Inr [simp]: "checkedU32Length n = Inr m \<longleftrightarrow> m = n \<and> n \<le> maxU32"
  by (auto simp: checkedU32Length_def)

lemma addArrayItemLength_Inr [simp]: "addArrayItemLength sofar n = Inr t \<longleftrightarrow> t = sofar + 4 + n \<and> t \<le> maxU32"
proof
  assume *: "addArrayItemLength sofar n = Inr t"
  then have "sofar \<le> maxU64 - 4" "n \<le> maxU64 - sofar - 4" by (auto simp: addArrayItemLength_def split: if_splits)
  then have "(sofar + (4 + n) mod 2 ^ 64) mod 2 ^ 64 = sofar + 4 + n" by simp
  then show "t = sofar + 4 + n \<and> t \<le> maxU32" using * by (auto simp: addArrayItemLength_def Let_def split: if_splits)
next
  assume *: "t = sofar + 4 + n \<and> t \<le> maxU32"
  then have "\<not> maxU64 - 4 < sofar" "\<not> maxU64 - sofar - 4 < n" by linarith+
  then show "addArrayItemLength sofar n = Inr t" using * by (simp add: addArrayItemLength_def)
qed

lemma add_item_lengths_Inr:
  "sofar \<le> maxU32 \<Longrightarrow> add_item_lengths sofar lens = Inr t \<longleftrightarrow> t = sofar + 4 * length lens + sum_list lens \<and> t \<le> maxU32"
  by (induction lens arbitrary: sofar) (auto simp: and_then_Inr)

section \<open>The text of a field\<close>

definition frame :: "nat \<times> nat \<times> bytes \<Rightarrow> bytes" where
  "frame f = (case f of (tag, typ, v) \<Rightarrow> [char_of tag, char_of typ] @ big_endian 4 (length v) @ v)"

definition frame_ok :: "nat \<times> nat \<times> bytes \<Rightarrow> bool" where
  "frame_ok f \<longleftrightarrow> (case f of (tag, typ, v) \<Rightarrow> length v \<le> maxU32)"

fun field_frame :: "intent_field \<Rightarrow> nat \<times> nat \<times> bytes" where
  "field_frame (FieldNull tag) = (tag, typeNull, [])"
| "field_frame (FieldString tag v) = (tag, typeString, v)"
| "field_frame (FieldNullableString tag v) = (case v of None \<Rightarrow> (tag, typeNull, []) | Some s \<Rightarrow> (tag, typeString, s))"
| "field_frame (FieldInt64 tag v) = (tag, typeInt64, big_endian 8 (nat (v mod 2 ^ 64)))"
| "field_frame (FieldInt32 tag v) = (tag, typeInt32, big_endian 4 (nat (v mod 2 ^ 32)))"
| "field_frame (FieldBytes tag v) = (tag, typeBytes, v)"
| "field_frame (FieldArray tag vs) = (tag, typeArray, big_endian 4 (length vs) @ array_items vs)"

lemma length_array_items: "length (array_items vs) = 4 * length vs + sum_list (map length vs)"
  by (induction vs) (auto simp: array_items_def)

lemma array_items_bound: "v \<in> set vs \<Longrightarrow> length v \<le> length (array_items vs)"
  unfolding length_array_items by (induction vs) auto

lemma write_raw_Inr: "write_raw tag typ v w = Inr w' \<longleftrightarrow> w' = w @ frame (tag, typ, v) \<and> frame_ok (tag, typ, v)"
  by (auto simp: write_raw_def fieldHeader_def and_then_Inr frame_def frame_ok_def)

lemma fieldArray_Inr:
  "fieldArray tag vs w = Inr w' \<longleftrightarrow> w' = w @ frame (field_frame (FieldArray tag vs)) \<and> frame_ok (field_frame (FieldArray tag vs))"
proof -
  let ?n = "4 + 4 * length vs + sum_list (map length vs)"
  have len: "length (big_endian 4 (length vs) @ array_items vs) = ?n" by (simp add: length_array_items)
  have "\<not> list_ex (\<lambda>v. maxU32 < length v) vs" if "?n \<le> maxU32"
    using array_items_bound[of _ vs] that by (fastforce simp: list_ex_iff length_array_items)
  then have "fieldArray tag vs w = Inr w' \<longleftrightarrow>
      ?n \<le> maxU32 \<and> w' = w @ [char_of tag, char_of typeArray] @ big_endian 4 ?n @ big_endian 4 (length vs) @ array_items vs"
    by (auto simp: fieldArray_def fieldHeader_def and_then_Inr add_item_lengths_Inr)
  then show ?thesis by (simp only: field_frame.simps frame_def frame_ok_def prod.case len) auto
qed

lemma write_field_Inr: "write_field f w = Inr w' \<longleftrightarrow> w' = w @ frame (field_frame f) \<and> frame_ok (field_frame f)"
  by (cases f)
    (auto simp: write_raw_Inr fieldArray_Inr fieldString_def fieldNullableString_def fieldInt64_def fieldInt32_def
      fieldBytes_def and_then_Inr frame_ok_def split: option.splits)

lemma write_fields_Inr:
  "write_fields fs w = Inr w' \<longleftrightarrow>
     w' = w @ concat (map frame (map field_frame fs)) \<and> list_all frame_ok (map field_frame fs)"
  by (induction fs arbitrary: w) (auto simp: and_then_Inr write_field_Inr)

lemma encodeIntent_Inr:
  "encodeIntent fs = Inr b \<longleftrightarrow> b = concat (map frame (map field_frame fs)) \<and> list_all frame_ok (map field_frame fs)"
  by (simp add: encodeIntent_def write_fields_Inr)

section \<open>The text determines the fields\<close>

lemma big_endian_nth: "i < k \<Longrightarrow> byte (big_endian k n ! i) = n div 256 ^ (k - 1 - i) mod 256"
  by (simp add: big_endian_def)

lemma big_endian_inj: "big_endian k m = big_endian k n \<Longrightarrow> m < 256 ^ k \<Longrightarrow> n < 256 ^ k \<Longrightarrow> m = n"
proof (induction k arbitrary: m n)
  case (Suc k)
  have low: "byte (big_endian (Suc k) x ! k) = x mod 256" for x by (simp add: big_endian_nth)
  have high: "take k (big_endian (Suc k) x) = big_endian k (x div 256)" for x
  proof (rule nth_equalityI)
    fix i assume "i < length (take k (big_endian (Suc k) x))"
    then have i: "i < k" by simp
    then have e: "k - i = Suc (k - 1 - i)" by simp
    have "x div 256 ^ (k - i) = x div 256 div 256 ^ (k - 1 - i)" unfolding e by (simp add: div_mult2_eq)
    then show "take k (big_endian (Suc k) x) ! i = big_endian k (x div 256) ! i" using i by (simp add: big_endian_def)
  qed simp
  have "m div 256 = n div 256"
  proof (rule Suc.IH)
    show "big_endian k (m div 256) = big_endian k (n div 256)" using Suc.prems(1) high by metis
    show "m div 256 < 256 ^ k" "n div 256 < 256 ^ k" using Suc.prems(2,3) by (auto simp: less_mult_imp_div_less mult.commute)
  qed
  moreover have "m mod 256 = n mod 256" using Suc.prems(1) low by metis
  ultimately show ?case by (metis div_mod_decomp)
qed simp

text \<open>A prefix of known shape splits off: the step of both injectivity proofs.\<close>

lemma sized_split:
  assumes "big_endian 4 (length v) @ v @ r = big_endian 4 (length v') @ v' @ r'"
    and "length v \<le> maxU32" "length v' \<le> maxU32"
  shows "v = v' \<and> r = r'"
proof -
  have "big_endian 4 (length v) = big_endian 4 (length v')" and rest: "v @ r = v' @ r'" using assms(1) by simp_all
  then have "length v = length v'" using big_endian_inj[of 4] assms(2,3) by simp
  then show ?thesis using rest by simp
qed

definition small_tags :: "nat \<times> nat \<times> bytes \<Rightarrow> bool" where
  "small_tags f \<longleftrightarrow> (case f of (tag, typ, v) \<Rightarrow> tag < 256 \<and> typ < 256)"

lemma frame_split:
  assumes "frame f @ r = frame f' @ r'" "frame_ok f" "frame_ok f'" "small_tags f" "small_tags f'"
  shows "f = f' \<and> r = r'"
proof -
  obtain t ty v t' ty' v' where f: "f = (t, ty, v)" "f' = (t', ty', v')" by (cases f; cases f') auto
  have "char_of t = (char_of t' :: char)" "char_of ty = (char_of ty' :: char)" using assms(1) f by (simp_all add: frame_def)
  then have "t = t'" "ty = ty'"
    using assms(4,5) f by (metis (no_types) case_prod_conv of_char_of mod_less small_tags_def)+
  then show ?thesis using sized_split[of v r v' r'] assms f by (simp add: frame_def frame_ok_def)
qed

lemma frame_nonempty: "frame f \<noteq> []"
  by (cases f) (simp add: frame_def)

lemma frames_inj:
  "concat (map frame fs) = concat (map frame gs) \<Longrightarrow> list_all frame_ok fs \<Longrightarrow> list_all frame_ok gs \<Longrightarrow>
   list_all small_tags fs \<Longrightarrow> list_all small_tags gs \<Longrightarrow> fs = gs"
proof (induction fs arbitrary: gs)
  case Nil
  then show ?case using frame_nonempty by (cases gs) auto
next
  case (Cons f fs)
  then obtain g gs' where gs: "gs = g # gs'" using frame_nonempty by (cases gs) auto
  then show ?case using Cons frame_split[of f "concat (map frame fs)" g "concat (map frame gs')"] by simp
qed

lemma array_items_inj:
  "array_items vs @ r = array_items ws @ r' \<Longrightarrow> length vs = length ws \<Longrightarrow>
   \<forall>v \<in> set vs \<union> set ws. length v \<le> maxU32 \<Longrightarrow> vs = ws \<and> r = r'"
proof (induction vs arbitrary: ws)
  case (Cons v vs)
  then obtain w ws' where ws: "ws = w # ws'" by (cases ws) auto
  have "big_endian 4 (length v) @ v @ (array_items vs @ r) = big_endian 4 (length w) @ w @ (array_items ws' @ r')"
    using Cons.prems(1) ws by (simp add: array_items_def)
  from sized_split[OF this] Cons.prems(2,3) Cons.IH[of ws'] ws show ?case by simp
qed (simp add: array_items_def)

text \<open>The fields as data: integers inside their width, an absent string distinct from every string.\<close>

fun field_ok :: "intent_field \<Rightarrow> bool" where
  "field_ok (FieldNull tag) \<longleftrightarrow> tag < 256"
| "field_ok (FieldString tag v) \<longleftrightarrow> tag < 256"
| "field_ok (FieldNullableString tag v) \<longleftrightarrow> tag < 256"
| "field_ok (FieldInt64 tag v) \<longleftrightarrow> tag < 256 \<and> 0 \<le> v \<and> v < 2 ^ 63"
| "field_ok (FieldInt32 tag v) \<longleftrightarrow> tag < 256 \<and> 0 \<le> v \<and> v < 2 ^ 31"
| "field_ok (FieldBytes tag v) \<longleftrightarrow> tag < 256"
| "field_ok (FieldArray tag vs) \<longleftrightarrow> tag < 256"

fun field_canon :: "intent_field \<Rightarrow> intent_field" where
  "field_canon (FieldNullableString tag v) = (case v of None \<Rightarrow> FieldNull tag | Some s \<Rightarrow> FieldString tag s)"
| "field_canon f = f"

lemma field_frame_small: "field_ok f \<Longrightarrow> small_tags (field_frame f)"
  by (cases f) (auto simp: small_tags_def type_codes split: option.split)

lemma int_field_inj:
  "big_endian k (nat (u mod 2 ^ (8 * k))) = big_endian k (nat (v mod 2 ^ (8 * k))) \<Longrightarrow>
   0 \<le> u \<Longrightarrow> u < 2 ^ (8 * k) \<Longrightarrow> 0 \<le> v \<Longrightarrow> v < 2 ^ (8 * k) \<Longrightarrow> u = v"
proof -
  assume eq: "big_endian k (nat (u mod 2 ^ (8 * k))) = big_endian k (nat (v mod 2 ^ (8 * k)))"
    and b: "0 \<le> u" "u < 2 ^ (8 * k)" "0 \<le> v" "v < 2 ^ (8 * k)"
  have "(256::nat) ^ k = 2 ^ (8 * k)" by (simp add: power_mult)
  then have "nat u < 256 ^ k" "nat v < 256 ^ k" using b by (auto simp: nat_less_iff)
  then show ?thesis using big_endian_inj[of k "nat u" "nat v"] eq b by simp
qed

lemma array_field_inj:
  assumes "big_endian 4 (length vs) @ array_items vs = big_endian 4 (length ws) @ array_items ws"
    and "length (big_endian 4 (length vs) @ array_items vs) \<le> maxU32"
  shows "vs = ws"
proof -
  have items: "array_items vs = array_items ws" using assms(1) by simp
  have bound: "length (array_items vs) \<le> maxU32" "length (array_items ws) \<le> maxU32" using assms items by simp_all
  have "length vs \<le> maxU32" "length ws \<le> maxU32" using bound unfolding length_array_items by linarith+
  then have "length vs = length ws" using big_endian_inj[of 4] assms(1) by simp
  moreover have "\<forall>v \<in> set vs \<union> set ws. length v \<le> maxU32"
    using array_items_bound bound by (metis UnE order_trans)
  ultimately show ?thesis using array_items_inj[of vs "[]" ws "[]"] items by simp
qed

text \<open>The type byte tells which write produced a frame.\<close>

lemma frame_kind:
  "field_frame g = (t, typeNull, v) \<Longrightarrow> field_canon g = FieldNull t"
  "field_frame g = (t, typeString, v) \<Longrightarrow> field_canon g = FieldString t v"
  "field_frame g = (t, typeBytes, v) \<Longrightarrow> g = FieldBytes t v"
  "field_frame g = (t, typeInt64, v) \<Longrightarrow> \<exists>x. g = FieldInt64 t x \<and> v = big_endian 8 (nat (x mod 2 ^ 64))"
  "field_frame g = (t, typeInt32, v) \<Longrightarrow> \<exists>x. g = FieldInt32 t x \<and> v = big_endian 4 (nat (x mod 2 ^ 32))"
  "field_frame g = (t, typeArray, v) \<Longrightarrow> \<exists>vs. g = FieldArray t vs \<and> v = big_endian 4 (length vs) @ array_items vs"
  by (cases g; simp add: type_codes split: option.splits)+

lemma field_frame_inj:
  assumes "field_frame g = field_frame f" "field_ok f" "field_ok g" "frame_ok (field_frame f)"
  shows "field_canon g = field_canon f"
proof (cases f)
  case (FieldNull t)
  then show ?thesis using assms(1) frame_kind(1) by simp
next
  case (FieldString t v)
  then show ?thesis using assms(1) frame_kind(2) by simp
next
  case (FieldNullableString t v)
  then show ?thesis using assms(1) frame_kind(1,2) by (cases v) simp_all
next
  case (FieldInt64 t x)
  then obtain y where "g = FieldInt64 t y" "big_endian 8 (nat (x mod 2 ^ 64)) = big_endian 8 (nat (y mod 2 ^ 64))"
    using assms(1) frame_kind(4) by (metis field_frame.simps(4))
  then show ?thesis using int_field_inj[of 8 x y] assms(2,3) FieldInt64 by simp
next
  case (FieldInt32 t x)
  then obtain y where "g = FieldInt32 t y" "big_endian 4 (nat (x mod 2 ^ 32)) = big_endian 4 (nat (y mod 2 ^ 32))"
    using assms(1) frame_kind(5) by (metis field_frame.simps(5))
  then show ?thesis using int_field_inj[of 4 x y] assms(2,3) FieldInt32 by simp
next
  case (FieldBytes t v)
  then show ?thesis using assms(1) frame_kind(3) by simp
next
  case (FieldArray t vs)
  then obtain ws where "g = FieldArray t ws" "big_endian 4 (length vs) @ array_items vs = big_endian 4 (length ws) @ array_items ws"
    using assms(1) frame_kind(6) by (metis field_frame.simps(7))
  then show ?thesis using array_field_inj[of vs ws] assms(4) FieldArray by (simp add: frame_ok_def)
qed

lemma encodeIntent_inj:
  assumes "encodeIntent fs = Inr b" "encodeIntent gs = Inr b" "list_all field_ok fs" "list_all field_ok gs"
  shows "map field_canon fs = map field_canon gs"
proof -
  have ok: "list_all frame_ok (map field_frame fs)" "list_all frame_ok (map field_frame gs)"
    and eq: "concat (map frame (map field_frame fs)) = concat (map frame (map field_frame gs))"
    using assms(1,2) by (auto simp: encodeIntent_Inr)
  have small: "list_all small_tags (map field_frame fs)" "list_all small_tags (map field_frame gs)"
    using assms(3,4) field_frame_small by (auto simp: list_all_iff)
  have frames: "map field_frame fs = map field_frame gs" by (rule frames_inj[OF eq ok small])
  then have len: "length fs = length gs" using map_eq_imp_length_eq by blast
  show ?thesis
  proof (rule nth_equalityI)
    fix i assume "i < length (map field_canon fs)"
    then have i: "i < length fs" "i < length gs" using len by simp_all
    then have "field_frame (fs ! i) = field_frame (gs ! i)" using frames by (metis nth_map)
    then show "map field_canon fs ! i = map field_canon gs ! i"
      using i ok(2) assms(3,4) field_frame_inj[of "fs ! i" "gs ! i"] len by (simp add: list_all_length)
  qed (simp add: len)
qed

end
