(* ===== verification/Action_Intents.thy ===== *)
theory Action_Intents
  imports Action_Encode Authz
begin

text \<open>
  The intents of administrator actions and their canonical encodings (\<open>intent_users.go\<close> and
  \<open>intent_public.go\<close>).  \<open>sort.Strings\<close> and \<open>sort.Slice\<close> by capability order strings by their bytes;
  two overrides with the same capability are refused, so the unstable sort has one result.  The
  clearing of password buffers and of scratch items has no counterpart.
\<close>

section \<open>The intents\<close>

record override_intent =
  poCapability :: bytes
  poEffect :: int

record create_intent =
  ciUsername :: bytes
  ciNickname :: "bytes option"
  ciPassword :: bytes
  ciRole :: bytes
  ciGroupGUID :: "int option"
  ciPlanType :: int
  ciModels :: "bytes list"
  ciDailyLimit :: int
  ciOverrides :: "override_intent list"

record reset_intent =
  riTarget :: int
  riAuthVersion :: int
  riPassword :: bytes
  riReason :: bytes

record promote_intent =
  prTarget :: int
  prAuthVersion :: int
  prPermissionsVersion :: int
  prCatalogVersion :: int
  prOverrides :: "override_intent list"
  prReason :: bytes

record demote_intent =
  deTarget :: int
  deAuthVersion :: int
  dePermissionsVersion :: int
  deCatalogVersion :: int
  deReason :: bytes

record permissions_intent =
  pwTarget :: int
  pwAuthVersion :: int
  pwPermissionsVersion :: int
  pwCatalogVersion :: int
  pwOverrides :: "override_intent list"
  pwReason :: bytes

record delete_intent =
  duTarget :: int
  duAuthVersion :: int
  duReason :: bytes

record publish_intent =
  puContentType :: bytes
  puVersion :: int
  puBaseVersion :: int
  puReason :: bytes

record rollback_intent =
  roContentType :: bytes
  roVersion :: int
  roCurrentVersion :: int
  roReason :: bytes

record model_delete_intent =
  mdModel :: int
  mdRevision :: int
  mdReason :: bytes

text \<open>The value an encoder receives as \<open>any\<close>; \<open>OtherValue\<close> is a value of any other type.\<close>

datatype any_intent =
    CreateAccount create_intent | ResetPassword reset_intent | Promote promote_intent | Demote demote_intent
  | PermissionsWrite permissions_intent | DeleteUser delete_intent | Publish publish_intent | Rollback rollback_intent
  | PublicModelDelete model_delete_intent | PublicPricingPublish int | PublicPricingRestore int int
  | PublicContentPublish int int | PublicContentRestore int int | OtherValue

section \<open>Reasons\<close>

definition normalizeIntentReason :: "bytes \<Rightarrow> bytes \<times> bool" where
  "normalizeIntentReason raw =
     (let normalized = trim_space raw; n = rune_count normalized
      in (normalized, utf8_valid normalized \<and> 1 \<le> n \<and> n \<le> 200))"

definition ValidPublicModelDeleteReason :: "bytes \<Rightarrow> bool" where
  "ValidPublicModelDeleteReason v \<longleftrightarrow>
     \<not> (v = [] \<or> v \<noteq> trim_space v \<or> \<not> utf8_valid v \<or> 128 < rune_count v) \<and>
     list_all (\<lambda>r. \<not> (is_control r \<or> is_format r)) (runes v)"

section \<open>Permission overrides\<close>

definition maxInt32 :: int where "maxInt32 = 2147483647"

definition sort_overrides :: "override_intent list \<Rightarrow> override_intent list" where
  "sort_overrides = sort_key poCapability"

definition override_fields :: "override_intent \<Rightarrow> intent_field list" where
  "override_fields r = [FieldString 1 (poCapability r), FieldInt32 2 (poEffect r)]"

text \<open>The loop over the sorted overrides: a repeated capability is refused.\<close>

fun override_items :: "override_intent option \<Rightarrow> override_intent list \<Rightarrow> intent_error + bytes list" where
  "override_items prev [] = Inr []"
| "override_items prev (r # rs) =
     (if map_option poCapability prev = Some (poCapability r) then Inl ErrInvalidIntent
      else and_then (encodeIntent (override_fields r)) (\<lambda>item.
           and_then (override_items (Some r) rs) (\<lambda>items. Inr (item # items))))"

fun override_lengths :: "nat \<Rightarrow> override_intent list \<Rightarrow> intent_error + nat" where
  "override_lengths sofar [] = Inr sofar"
| "override_lengths sofar (r # rs) =
     and_then (checkedU32Length (length (poCapability r))) (\<lambda>_.
     and_then (addArrayItemLength sofar ((length (poCapability r) + 16) mod 2 ^ 64)) (\<lambda>sofar'. override_lengths sofar' rs))"

text \<open>The check of one override against the catalog.\<close>

definition override_known :: "override_intent \<Rightarrow> bool" where
  "override_known r \<longleftrightarrow>
     (case lookup (poCapability r) of
        None \<Rightarrow> False
      | Some d \<Rightarrow>
          \<not> (dUnavailable d \<or> (poEffect r \<noteq> 2 \<and> poEffect r \<noteq> 3) \<or>
             (poEffect r = 2 \<and> (\<not> dGrantable d \<or> dRootOnly d))))"

definition encodePermissionOverrides :: "override_intent list \<Rightarrow> intent_error + bytes list" where
  "encodePermissionOverrides source =
     and_then (checkedU32Length (length source)) (\<lambda>_.
     and_then (override_lengths 4 source) (\<lambda>_.
     if \<not> list_all override_known source then Inl ErrInvalidIntent
     else override_items None (sort_overrides source)))"

section \<open>Encoding user intents\<close>

definition checkedCreateOverrideArrayPayloadLength :: "nat \<Rightarrow> nat list \<Rightarrow> intent_error + unit" where
  "checkedCreateOverrideArrayPayloadLength cnt lens =
     (if cnt \<noteq> length lens then Inl ErrIntentEncodingTooLarge
      else if list_ex (\<lambda>n. maxU64 - 16 < n) lens then Inl ErrIntentEncodingTooLarge
      else and_then (checkedArrayPayloadLength cnt (map (\<lambda>n. n + 16) lens)) (\<lambda>_. Inr ()))"

definition create_bad :: "create_intent \<Rightarrow> bytes \<Rightarrow> bool" where
  "create_bad i role \<longleftrightarrow>
     ciUsername i = [] \<or> \<not> utf8_valid (ciUsername i) \<or> ciPassword i = [] \<or> ciRole i \<noteq> role \<or>
     ciPlanType i < 1 \<or> 3 < ciPlanType i \<or> ciDailyLimit i < 0 \<or> maxInt32 < ciDailyLimit i \<or>
     (case ciNickname i of None \<Rightarrow> False | Some n \<Rightarrow> n = [] \<or> \<not> utf8_valid n) \<or>
     (case ciGroupGUID i of None \<Rightarrow> False | Some g \<Rightarrow> g \<le> 0)"

definition create_lengths :: "create_intent \<Rightarrow> intent_error + unit" where
  "create_lengths i =
     and_then (checkedU32Length (length (ciUsername i))) (\<lambda>_.
     and_then (checkedU32Length (length (ciPassword i))) (\<lambda>_.
     and_then (case ciNickname i of None \<Rightarrow> Inr 0 | Some n \<Rightarrow> checkedU32Length (length n)) (\<lambda>_.
     checkedStringArrayPayloadLength (ciModels i))))"

definition unique_models :: "bytes list \<Rightarrow> bytes list" where
  "unique_models models = remdups_adj (sort models)"

definition create_fields :: "create_intent \<Rightarrow> bytes list \<Rightarrow> intent_field list" where
  "create_fields i overrideItems =
     [FieldString 1 (ciUsername i), FieldNullableString 2 (ciNickname i), FieldBytes 3 (ciPassword i),
      FieldString 4 (ciRole i),
      (case ciGroupGUID i of None \<Rightarrow> FieldNull 5 | Some g \<Rightarrow> FieldInt64 5 g),
      FieldInt32 6 (ciPlanType i), FieldArray 7 (unique_models (ciModels i)), FieldInt32 8 (ciDailyLimit i),
      FieldArray 9 overrideItems]"

definition create_override_ok :: "override_intent \<Rightarrow> bool" where
  "create_override_ok r \<longleftrightarrow> poCapability r \<noteq> [] \<and> utf8_valid (poCapability r) \<and> (poEffect r = 2 \<or> poEffect r = 3)"

definition encodeCreateAccountIntent :: "create_intent \<Rightarrow> bytes \<Rightarrow> intent_error + bytes" where
  "encodeCreateAccountIntent i role =
     (if create_bad i role then Inl ErrInvalidIntent
      else and_then (create_lengths i) (\<lambda>_.
        if list_ex (\<lambda>m. m = [] \<or> \<not> utf8_valid m) (ciModels i) then Inl ErrInvalidIntent
        else and_then (checkedCreateOverrideArrayPayloadLength (length (ciOverrides i))
                         (map (\<lambda>r. length (poCapability r)) (ciOverrides i))) (\<lambda>_.
          if \<not> list_all create_override_ok (ciOverrides i) then Inl ErrInvalidIntent
          else and_then (override_items None (sort_overrides (ciOverrides i))) (\<lambda>items.
            encodeIntent (create_fields i items)))))"

definition version32 :: "int \<Rightarrow> bool" where
  "version32 v \<longleftrightarrow> \<not> (v \<le> 0 \<or> maxInt32 < v)"

definition encodeResetPasswordIntent :: "reset_intent \<Rightarrow> intent_error + bytes" where
  "encodeResetPasswordIntent i =
     (if riTarget i \<le> 0 \<or> \<not> version32 (riAuthVersion i) \<or> riPassword i = [] \<or> riReason i = [] then Inl ErrInvalidIntent
      else and_then (checkedU32Length (length (riPassword i))) (\<lambda>_.
           and_then (checkedU32Length (length (riReason i))) (\<lambda>_.
           encodeIntent [FieldInt64 1 (riTarget i), FieldInt32 2 (riAuthVersion i), FieldBytes 3 (riPassword i),
             FieldString 4 (riReason i)])))"

definition encodePromoteIntent :: "promote_intent \<Rightarrow> intent_error + bytes" where
  "encodePromoteIntent i =
     (let (reason, ok) = normalizeIntentReason (prReason i) in
      if prTarget i \<le> 0 \<or> \<not> version32 (prAuthVersion i) \<or> prPermissionsVersion i < 0 \<or>
         \<not> version32 (prCatalogVersion i) \<or> \<not> ok then Inl ErrInvalidIntent
      else and_then (encodePermissionOverrides (prOverrides i)) (\<lambda>items.
        encodeIntent [FieldInt64 1 (prTarget i), FieldInt32 2 (prAuthVersion i), FieldInt64 3 (prPermissionsVersion i),
          FieldInt32 4 (prCatalogVersion i), FieldArray 5 items, FieldString 6 reason]))"

definition encodeDemoteIntent :: "demote_intent \<Rightarrow> intent_error + bytes" where
  "encodeDemoteIntent i =
     (let (reason, ok) = normalizeIntentReason (deReason i) in
      if deTarget i \<le> 0 \<or> \<not> version32 (deAuthVersion i) \<or> dePermissionsVersion i \<le> 0 \<or>
         \<not> version32 (deCatalogVersion i) \<or> \<not> ok then Inl ErrInvalidIntent
      else encodeIntent [FieldInt64 1 (deTarget i), FieldInt32 2 (deAuthVersion i), FieldInt64 3 (dePermissionsVersion i),
          FieldInt32 4 (deCatalogVersion i), FieldString 5 reason])"

definition encodePermissionsWriteIntent :: "permissions_intent \<Rightarrow> intent_error + bytes" where
  "encodePermissionsWriteIntent i =
     (let (reason, ok) = normalizeIntentReason (pwReason i) in
      if pwTarget i \<le> 0 \<or> \<not> version32 (pwAuthVersion i) \<or> pwPermissionsVersion i \<le> 0 \<or>
         \<not> version32 (pwCatalogVersion i) \<or> \<not> ok then Inl ErrInvalidIntent
      else and_then (encodePermissionOverrides (pwOverrides i)) (\<lambda>items.
        encodeIntent [FieldInt64 1 (pwTarget i), FieldInt32 2 (pwAuthVersion i), FieldInt64 3 (pwPermissionsVersion i),
          FieldInt32 4 (pwCatalogVersion i), FieldArray 5 items, FieldString 6 reason]))"

definition encodeDeleteUserIntent :: "delete_intent \<Rightarrow> intent_error + bytes" where
  "encodeDeleteUserIntent i =
     (let (reason, ok) = normalizeIntentReason (duReason i) in
      if duTarget i \<le> 0 \<or> \<not> version32 (duAuthVersion i) \<or> \<not> ok then Inl ErrInvalidIntent
      else and_then (checkedU32Length (length reason)) (\<lambda>_.
        encodeIntent [FieldInt64 1 (duTarget i), FieldInt32 2 (duAuthVersion i), FieldString 3 reason]))"

section \<open>Encoding public-content intents\<close>

definition encodePublicModelDeleteIntent :: "model_delete_intent \<Rightarrow> intent_error + bytes" where
  "encodePublicModelDeleteIntent i =
     (if mdModel i \<le> 0 \<or> mdRevision i \<le> 0 \<or> \<not> ValidPublicModelDeleteReason (mdReason i) then Inl ErrInvalidIntent
      else encodeIntent [FieldInt64 1 (mdModel i), FieldInt64 2 (mdRevision i), FieldString 3 (mdReason i)])"

definition encodePublicPricingPublishIntent :: "int \<Rightarrow> intent_error + bytes" where
  "encodePublicPricingPublishIntent revision =
     (if revision \<le> 0 then Inl ErrInvalidIntent else encodeIntent [FieldInt64 1 revision])"

definition encodePublicPricingRestoreIntent :: "int \<Rightarrow> int \<Rightarrow> intent_error + bytes" where
  "encodePublicPricingRestoreIntent release revision =
     (if release \<le> 0 \<or> revision \<le> 0 then Inl ErrInvalidIntent
      else encodeIntent [FieldInt64 1 release, FieldInt64 2 revision])"

definition encodePublicContentPublishIntent :: "int \<Rightarrow> int \<Rightarrow> intent_error + bytes" where
  "encodePublicContentPublishIntent release revision =
     (if release \<le> 0 \<or> revision \<le> 0 then Inl ErrInvalidIntent
      else encodeIntent [FieldInt64 1 release, FieldInt64 2 revision])"

definition encodePublicContentRestoreIntent :: "int \<Rightarrow> int \<Rightarrow> intent_error + bytes" where
  "encodePublicContentRestoreIntent release revision =
     (if release \<le> 0 \<or> revision \<le> 0 then Inl ErrInvalidIntent
      else encodeIntent [FieldInt64 1 release, FieldInt64 2 revision])"

definition encodePublishIntent :: "publish_intent \<Rightarrow> intent_error + bytes" where
  "encodePublishIntent i =
     (if puContentType i = [] \<or> puVersion i \<le> 0 \<or> puBaseVersion i \<le> 0 \<or> puReason i = [] then Inl ErrInvalidIntent
      else and_then (checkedU32Length (length (puContentType i))) (\<lambda>_.
           and_then (checkedU32Length (length (puReason i))) (\<lambda>_.
           encodeIntent [FieldString 1 (puContentType i), FieldInt64 2 (puVersion i), FieldInt64 3 (puBaseVersion i),
             FieldString 4 (puReason i)])))"

definition encodeRollbackIntent :: "rollback_intent \<Rightarrow> intent_error + bytes" where
  "encodeRollbackIntent i =
     (if roContentType i = [] \<or> roVersion i \<le> 0 \<or> roCurrentVersion i \<le> 0 \<or> roReason i = [] then Inl ErrInvalidIntent
      else and_then (checkedU32Length (length (roContentType i))) (\<lambda>_.
           and_then (checkedU32Length (length (roReason i))) (\<lambda>_.
           encodeIntent [FieldString 1 (roContentType i), FieldInt64 2 (roVersion i), FieldInt64 3 (roCurrentVersion i),
             FieldString 4 (roReason i)])))"

end
