(* ===== verification/Action_Registry.thy ===== *)
theory Action_Registry
  imports Action_Intents
begin

text \<open>
  The action registry (\<open>types.go\<close>, \<open>registry.go\<close>): which actions exist, which are active, and the
  encoder of each.  A function value is a constructor of \<open>encoder\<close>, so that descriptors can be
  compared; \<open>run_encoder\<close> is the call.
\<close>

section \<open>Actions and descriptors\<close>

abbreviation ActionUsersCreateAdmin :: int where "ActionUsersCreateAdmin \<equiv> 1"
abbreviation ActionUsersResetPassword :: int where "ActionUsersResetPassword \<equiv> 2"
abbreviation ActionUsersPromote :: int where "ActionUsersPromote \<equiv> 3"
abbreviation ActionUsersDemote :: int where "ActionUsersDemote \<equiv> 4"
abbreviation ActionUsersPermissionsWrite :: int where "ActionUsersPermissionsWrite \<equiv> 5"
abbreviation ActionUsersDelete :: int where "ActionUsersDelete \<equiv> 6"
abbreviation ActionPublicContentPublish :: int where "ActionPublicContentPublish \<equiv> 7"
abbreviation ActionPublicContentRollback :: int where "ActionPublicContentRollback \<equiv> 8"
abbreviation ActionUsersCreate :: int where "ActionUsersCreate \<equiv> 9"
abbreviation ActionPublicModelDelete :: int where "ActionPublicModelDelete \<equiv> 10"
abbreviation ActionPublicPricingPublish :: int where "ActionPublicPricingPublish \<equiv> 11"
abbreviation ActionPublicPricingRestore :: int where "ActionPublicPricingRestore \<equiv> 12"
abbreviation ActionPublicContentRestore :: int where "ActionPublicContentRestore \<equiv> 13"

abbreviation TargetNone :: int where "TargetNone \<equiv> 1"
abbreviation TargetUser :: int where "TargetUser \<equiv> 2"
abbreviation TargetPublicContent :: int where "TargetPublicContent \<equiv> 3"

datatype encoder =
    EncCreate | EncCreateAdmin | EncResetPassword | EncPromote | EncDemote | EncPermissionsWrite | EncDeleteUser
  | EncRollback | EncPublicModelDelete | EncPublicPricingPublish | EncPublicPricingRestore
  | EncPublicContentPublish | EncPublicContentRestore

record descriptor =
  acAction :: int
  acName :: bytes
  acCapability :: bytes
  acRootOnly :: bool
  acRequiresTicket :: bool
  acActive :: bool
  acTargetKind :: int
  acEncode :: "encoder option"

definition run_encoder :: "encoder \<Rightarrow> any_intent \<Rightarrow> intent_error + bytes" where
  "run_encoder enc v =
     (case (enc, v) of
        (EncCreate, CreateAccount i) \<Rightarrow> encodeCreateAccountIntent i ''user''
      | (EncCreateAdmin, CreateAccount i) \<Rightarrow> encodeCreateAccountIntent i ''admin''
      | (EncResetPassword, ResetPassword i) \<Rightarrow> encodeResetPasswordIntent i
      | (EncPromote, Promote i) \<Rightarrow> encodePromoteIntent i
      | (EncDemote, Demote i) \<Rightarrow> encodeDemoteIntent i
      | (EncPermissionsWrite, PermissionsWrite i) \<Rightarrow> encodePermissionsWriteIntent i
      | (EncDeleteUser, DeleteUser i) \<Rightarrow> encodeDeleteUserIntent i
      | (EncRollback, Rollback i) \<Rightarrow> encodeRollbackIntent i
      | (EncPublicModelDelete, PublicModelDelete i) \<Rightarrow> encodePublicModelDeleteIntent i
      | (EncPublicPricingPublish, PublicPricingPublish r) \<Rightarrow> encodePublicPricingPublishIntent r
      | (EncPublicPricingRestore, PublicPricingRestore g r) \<Rightarrow> encodePublicPricingRestoreIntent g r
      | (EncPublicContentPublish, PublicContentPublish g r) \<Rightarrow> encodePublicContentPublishIntent g r
      | (EncPublicContentPublish, Publish i) \<Rightarrow> encodePublishIntent i
      | (EncPublicContentRestore, PublicContentRestore g r) \<Rightarrow> encodePublicContentRestoreIntent g r
      | _ \<Rightarrow> Inl ErrWrongIntentType)"

definition desc :: "int \<Rightarrow> bytes \<Rightarrow> bytes \<Rightarrow> bool \<Rightarrow> bool \<Rightarrow> bool \<Rightarrow> int \<Rightarrow> encoder \<Rightarrow> descriptor" where
  "desc a n c ro tk act kind enc =
     \<lparr>acAction = a, acName = n, acCapability = c, acRootOnly = ro, acRequiresTicket = tk, acActive = act,
      acTargetKind = kind, acEncode = Some enc\<rparr>"

definition canonicalActionDescriptors :: "descriptor list" where
  "canonicalActionDescriptors =
    [desc ActionUsersCreateAdmin ''users.create_admin'' ''users.create'' True True False TargetNone EncCreateAdmin,
     desc ActionUsersResetPassword ''users.reset_password'' ''users.reset_password'' False True False TargetUser EncResetPassword,
     desc ActionUsersPromote ''users.promote'' ''users.promote'' True True False TargetUser EncPromote,
     desc ActionUsersDemote ''users.demote'' ''users.demote'' True True False TargetUser EncDemote,
     desc ActionUsersPermissionsWrite ''users.permissions.write'' ''users.permissions.write'' True True False TargetUser EncPermissionsWrite,
     desc ActionUsersDelete ''users.delete'' ''users.delete'' False True False TargetUser EncDeleteUser,
     desc ActionPublicContentPublish ''public_content.publish'' ''public_content.publish'' True True False TargetPublicContent EncPublicContentPublish,
     desc ActionPublicContentRollback ''public_content.rollback'' ''public_content.rollback'' False True False TargetPublicContent EncRollback,
     desc ActionUsersCreate ''users.create'' ''users.create'' False False False TargetNone EncCreate,
     desc ActionPublicModelDelete ''public_models.delete'' ''public_content.edit'' True True False TargetPublicContent EncPublicModelDelete,
     desc ActionPublicPricingPublish ''public_pricing.publish'' ''public_content.publish'' True True False TargetNone EncPublicPricingPublish,
     desc ActionPublicPricingRestore ''public_pricing.restore'' ''public_content.rollback'' True True False TargetPublicContent EncPublicPricingRestore,
     desc ActionPublicContentRestore ''public_content.restore'' ''public_content.rollback'' True True False TargetPublicContent EncPublicContentRestore]"

definition inactiveActionOrder :: "int list" where
  "inactiveActionOrder =
    [ActionUsersCreateAdmin, ActionUsersResetPassword, ActionUsersPromote, ActionUsersDemote, ActionUsersPermissionsWrite,
     ActionUsersDelete, ActionPublicContentPublish, ActionPublicContentRollback, ActionUsersCreate, ActionPublicModelDelete,
     ActionPublicPricingPublish, ActionPublicPricingRestore, ActionPublicContentRestore]"

definition futureActionOrder :: "int list" where
  "futureActionOrder =
    [ActionUsersCreate, ActionUsersCreateAdmin, ActionUsersDelete, ActionUsersResetPassword, ActionUsersPromote,
     ActionUsersDemote, ActionUsersPermissionsWrite]"

definition activeActionOrder :: "int list" where
  "activeActionOrder =
    [ActionUsersCreate, ActionUsersCreateAdmin, ActionUsersDelete, ActionUsersResetPassword, ActionUsersPromote,
     ActionUsersDemote, ActionUsersPermissionsWrite, ActionPublicModelDelete, ActionPublicPricingPublish,
     ActionPublicPricingRestore, ActionPublicContentPublish, ActionPublicContentRestore]"

section \<open>Resolution\<close>

definition canonicalActionDescriptor :: "int \<Rightarrow> descriptor option" where
  "canonicalActionDescriptor a = find (\<lambda>d. acAction d = a) canonicalActionDescriptors"

definition actionIn :: "int list \<Rightarrow> int \<Rightarrow> bool" where
  "actionIn actions a \<longleftrightarrow> list_ex (\<lambda>c. c = a) actions"

definition projectActionDescriptors :: "int list \<Rightarrow> int list \<Rightarrow> descriptor list" where
  "projectActionDescriptors order active =
     List.map_filter (\<lambda>a. map_option (\<lambda>d. d\<lparr>acActive := actionIn active a\<rparr>) (canonicalActionDescriptor a)) order"

definition InactiveActionDescriptors :: "descriptor list" where
  "InactiveActionDescriptors = projectActionDescriptors inactiveActionOrder []"

definition ActiveActionRegistry :: "descriptor list" where
  "ActiveActionRegistry = projectActionDescriptors activeActionOrder activeActionOrder"

definition FutureActionDescriptors :: "descriptor list" where
  "FutureActionDescriptors = projectActionDescriptors futureActionOrder activeActionOrder"

definition ResolveActiveAction :: "int \<Rightarrow> descriptor option" where
  "ResolveActiveAction a = find (\<lambda>d. acAction d = a) ActiveActionRegistry"

section \<open>What an encoding binds\<close>

text \<open>The meaning of an intent: overrides as a sorted list, models as the sorted list of distinct names,
  reasons trimmed where the encoder trims them.\<close>

fun intent_meaning :: "any_intent \<Rightarrow> any_intent" where
  "intent_meaning (CreateAccount i) =
     CreateAccount (i\<lparr>ciModels := unique_models (ciModels i), ciOverrides := sort_overrides (ciOverrides i)\<rparr>)"
| "intent_meaning (Promote i) = Promote (i\<lparr>prOverrides := sort_overrides (prOverrides i), prReason := trim_space (prReason i)\<rparr>)"
| "intent_meaning (Demote i) = Demote (i\<lparr>deReason := trim_space (deReason i)\<rparr>)"
| "intent_meaning (PermissionsWrite i) =
     PermissionsWrite (i\<lparr>pwOverrides := sort_overrides (pwOverrides i), pwReason := trim_space (pwReason i)\<rparr>)"
| "intent_meaning (DeleteUser i) = DeleteUser (i\<lparr>duReason := trim_space (duReason i)\<rparr>)"
| "intent_meaning v = v"

text \<open>The \<open>int64\<close> fields are \<open>int64\<close>.\<close>

fun intent_int64 :: "any_intent \<Rightarrow> bool" where
  "intent_int64 (CreateAccount i) = (case ciGroupGUID i of None \<Rightarrow> True | Some g \<Rightarrow> g < 2 ^ 63)"
| "intent_int64 (ResetPassword i) = (riTarget i < 2 ^ 63)"
| "intent_int64 (Promote i) = (prTarget i < 2 ^ 63 \<and> prPermissionsVersion i < 2 ^ 63)"
| "intent_int64 (Demote i) = (deTarget i < 2 ^ 63 \<and> dePermissionsVersion i < 2 ^ 63)"
| "intent_int64 (PermissionsWrite i) = (pwTarget i < 2 ^ 63 \<and> pwPermissionsVersion i < 2 ^ 63)"
| "intent_int64 (DeleteUser i) = (duTarget i < 2 ^ 63)"
| "intent_int64 (Publish i) = (puVersion i < 2 ^ 63 \<and> puBaseVersion i < 2 ^ 63)"
| "intent_int64 (Rollback i) = (roVersion i < 2 ^ 63 \<and> roCurrentVersion i < 2 ^ 63)"
| "intent_int64 (PublicModelDelete i) = (mdModel i < 2 ^ 63 \<and> mdRevision i < 2 ^ 63)"
| "intent_int64 (PublicPricingPublish r) = (r < 2 ^ 63)"
| "intent_int64 (PublicPricingRestore g r) = (g < 2 ^ 63 \<and> r < 2 ^ 63)"
| "intent_int64 (PublicContentPublish g r) = (g < 2 ^ 63 \<and> r < 2 ^ 63)"
| "intent_int64 (PublicContentRestore g r) = (g < 2 ^ 63 \<and> r < 2 ^ 63)"
| "intent_int64 OtherValue = True"

text \<open>The fields an intent writes, once its overrides are encoded.\<close>

fun intent_fields :: "any_intent \<Rightarrow> bytes list \<Rightarrow> intent_field list" where
  "intent_fields (CreateAccount i) items = create_fields i items"
| "intent_fields (ResetPassword i) items =
     [FieldInt64 1 (riTarget i), FieldInt32 2 (riAuthVersion i), FieldBytes 3 (riPassword i), FieldString 4 (riReason i)]"
| "intent_fields (Promote i) items =
     [FieldInt64 1 (prTarget i), FieldInt32 2 (prAuthVersion i), FieldInt64 3 (prPermissionsVersion i),
      FieldInt32 4 (prCatalogVersion i), FieldArray 5 items, FieldString 6 (trim_space (prReason i))]"
| "intent_fields (Demote i) items =
     [FieldInt64 1 (deTarget i), FieldInt32 2 (deAuthVersion i), FieldInt64 3 (dePermissionsVersion i),
      FieldInt32 4 (deCatalogVersion i), FieldString 5 (trim_space (deReason i))]"
| "intent_fields (PermissionsWrite i) items =
     [FieldInt64 1 (pwTarget i), FieldInt32 2 (pwAuthVersion i), FieldInt64 3 (pwPermissionsVersion i),
      FieldInt32 4 (pwCatalogVersion i), FieldArray 5 items, FieldString 6 (trim_space (pwReason i))]"
| "intent_fields (DeleteUser i) items =
     [FieldInt64 1 (duTarget i), FieldInt32 2 (duAuthVersion i), FieldString 3 (trim_space (duReason i))]"
| "intent_fields (Publish i) items =
     [FieldString 1 (puContentType i), FieldInt64 2 (puVersion i), FieldInt64 3 (puBaseVersion i), FieldString 4 (puReason i)]"
| "intent_fields (Rollback i) items =
     [FieldString 1 (roContentType i), FieldInt64 2 (roVersion i), FieldInt64 3 (roCurrentVersion i), FieldString 4 (roReason i)]"
| "intent_fields (PublicModelDelete i) items =
     [FieldInt64 1 (mdModel i), FieldInt64 2 (mdRevision i), FieldString 3 (mdReason i)]"
| "intent_fields (PublicPricingPublish r) items = [FieldInt64 1 r]"
| "intent_fields (PublicPricingRestore g r) items = [FieldInt64 1 g, FieldInt64 2 r]"
| "intent_fields (PublicContentPublish g r) items = [FieldInt64 1 g, FieldInt64 2 r]"
| "intent_fields (PublicContentRestore g r) items = [FieldInt64 1 g, FieldInt64 2 r]"
| "intent_fields OtherValue items = []"

fun intent_overrides :: "any_intent \<Rightarrow> override_intent list" where
  "intent_overrides (CreateAccount i) = ciOverrides i"
| "intent_overrides (Promote i) = prOverrides i"
| "intent_overrides (PermissionsWrite i) = pwOverrides i"
| "intent_overrides _ = []"

lemma encodePermissionOverridesD:
  "encodePermissionOverrides src = Inr items \<Longrightarrow>
   override_items None (sort_overrides src) = Inr items \<and> list_all (\<lambda>r. poEffect r \<in> {2, 3}) src"
  by (auto simp: encodePermissionOverrides_def and_then_Inr list_all_iff override_known_def split: if_splits option.splits)

lemmas encoder_defs = encodeCreateAccountIntent_def encodeResetPasswordIntent_def encodePromoteIntent_def
  encodeDemoteIntent_def encodePermissionsWriteIntent_def encodeDeleteUserIntent_def encodePublishIntent_def
  encodeRollbackIntent_def encodePublicModelDeleteIntent_def encodePublicPricingPublishIntent_def
  encodePublicPricingRestoreIntent_def encodePublicContentPublishIntent_def encodePublicContentRestoreIntent_def

text \<open>A successful encoding is the text of the intent's fields, with its overrides encoded in order.\<close>

definition encodes_as :: "any_intent \<Rightarrow> bytes list \<Rightarrow> bytes \<Rightarrow> bool" where
  "encodes_as v items b \<longleftrightarrow>
     encodeIntent (intent_fields v items) = Inr b \<and> list_all field_ok (intent_fields v items) \<and>
     override_items None (sort_overrides (intent_overrides v)) = Inr items \<and>
     list_all (\<lambda>r. poEffect r \<in> {2, 3}) (intent_overrides v)"

lemma version32_range: "version32 v \<Longrightarrow> 0 \<le> v \<and> v < 2 ^ 31"
  by (simp add: version32_def maxInt32_def)

lemma sort_overrides_Nil [simp]: "sort_overrides [] = []"
  by (simp add: sort_overrides_def)

lemma create_encodes:
  "encodeCreateAccountIntent i role = Inr b \<Longrightarrow> intent_int64 (CreateAccount i) \<Longrightarrow> \<exists>items. encodes_as (CreateAccount i) items b"
  by (auto simp: encodeCreateAccountIntent_def and_then_Inr encodes_as_def create_fields_def create_bad_def maxInt32_def
      create_override_ok_def list_all_iff split: if_splits option.splits)

lemma promote_encodes:
  "encodePromoteIntent i = Inr b \<Longrightarrow> intent_int64 (Promote i) \<Longrightarrow> \<exists>items. encodes_as (Promote i) items b"
  using version32_range
  by (fastforce simp: encodePromoteIntent_def and_then_Inr encodes_as_def normalizeIntentReason_def Let_def
      dest!: encodePermissionOverridesD split: if_splits)

lemma permissions_encodes:
  "encodePermissionsWriteIntent i = Inr b \<Longrightarrow> intent_int64 (PermissionsWrite i) \<Longrightarrow> \<exists>items. encodes_as (PermissionsWrite i) items b"
  using version32_range
  by (fastforce simp: encodePermissionsWriteIntent_def and_then_Inr encodes_as_def normalizeIntentReason_def Let_def
      dest!: encodePermissionOverridesD split: if_splits)

lemma plain_encodes:
  "encodeResetPasswordIntent i1 = Inr b \<Longrightarrow> intent_int64 (ResetPassword i1) \<Longrightarrow> encodes_as (ResetPassword i1) [] b"
  "encodeDemoteIntent i2 = Inr b \<Longrightarrow> intent_int64 (Demote i2) \<Longrightarrow> encodes_as (Demote i2) [] b"
  "encodeDeleteUserIntent i3 = Inr b \<Longrightarrow> intent_int64 (DeleteUser i3) \<Longrightarrow> encodes_as (DeleteUser i3) [] b"
  "encodePublishIntent i4 = Inr b \<Longrightarrow> intent_int64 (Publish i4) \<Longrightarrow> encodes_as (Publish i4) [] b"
  "encodeRollbackIntent i5 = Inr b \<Longrightarrow> intent_int64 (Rollback i5) \<Longrightarrow> encodes_as (Rollback i5) [] b"
  "encodePublicModelDeleteIntent i6 = Inr b \<Longrightarrow> intent_int64 (PublicModelDelete i6) \<Longrightarrow> encodes_as (PublicModelDelete i6) [] b"
  "encodePublicPricingPublishIntent r = Inr b \<Longrightarrow> intent_int64 (PublicPricingPublish r) \<Longrightarrow> encodes_as (PublicPricingPublish r) [] b"
  "encodePublicPricingRestoreIntent g r = Inr b \<Longrightarrow> intent_int64 (PublicPricingRestore g r) \<Longrightarrow> encodes_as (PublicPricingRestore g r) [] b"
  "encodePublicContentPublishIntent g r = Inr b \<Longrightarrow> intent_int64 (PublicContentPublish g r) \<Longrightarrow> encodes_as (PublicContentPublish g r) [] b"
  "encodePublicContentRestoreIntent g r = Inr b \<Longrightarrow> intent_int64 (PublicContentRestore g r) \<Longrightarrow> encodes_as (PublicContentRestore g r) [] b"
  by (simp_all add: encoder_defs and_then_Inr encodes_as_def version32_def maxInt32_def normalizeIntentReason_def Let_def
      split: if_splits)

text \<open>Encoded overrides determine the overrides.\<close>

lemma override_item_inj:
  assumes "encodeIntent (override_fields r) = Inr b" "encodeIntent (override_fields q) = Inr b"
    and "poEffect r \<in> {2, 3}" "poEffect q \<in> {2, 3}"
  shows "r = q"
proof -
  have "list_all field_ok (override_fields r)" "list_all field_ok (override_fields q)"
    using assms(3,4) by (auto simp: override_fields_def)
  from encodeIntent_inj[OF assms(1,2) this] show ?thesis by (simp add: override_fields_def)
qed

lemma override_items_inj:
  "override_items p rs = Inr items \<Longrightarrow> override_items q ss = Inr items \<Longrightarrow>
   list_all (\<lambda>r. poEffect r \<in> {2, 3}) rs \<Longrightarrow> list_all (\<lambda>r. poEffect r \<in> {2, 3}) ss \<Longrightarrow> rs = ss"
proof (induction p rs arbitrary: items q ss rule: override_items.induct)
  case (1 prev)
  then show ?case by (cases ss) (auto simp: and_then_Inr split: if_splits)
next
  case (2 prev r rs)
  then obtain item rest where i: "encodeIntent (override_fields r) = Inr item" "override_items (Some r) rs = Inr rest"
    "items = item # rest" "map_option poCapability prev \<noteq> Some (poCapability r)"
    by (auto simp: and_then_Inr split: if_splits)
  then obtain s ss' where s: "ss = s # ss'" "encodeIntent (override_fields s) = Inr item" "override_items (Some s) ss' = Inr rest"
    using 2(3) by (cases ss) (auto simp: and_then_Inr split: if_splits)
  then show ?case
    using override_item_inj[OF i(1) s(2)] 2(1)[OF i(4,2) s(3)] 2(4,5) by simp
qed

lemma sort_overrides_effects: "list_all P (sort_overrides rs) = list_all P rs"
  by (simp add: sort_overrides_def list_all_iff)

text \<open>The kind of value an encoder accepts.\<close>

fun intent_kind :: "any_intent \<Rightarrow> nat" where
  "intent_kind (CreateAccount i) = 1"
| "intent_kind (ResetPassword i) = 2"
| "intent_kind (Promote i) = 3"
| "intent_kind (Demote i) = 4"
| "intent_kind (PermissionsWrite i) = 5"
| "intent_kind (DeleteUser i) = 6"
| "intent_kind (Publish i) = 7"
| "intent_kind (Rollback i) = 8"
| "intent_kind (PublicModelDelete i) = 9"
| "intent_kind (PublicPricingPublish r) = 10"
| "intent_kind (PublicPricingRestore g r) = 11"
| "intent_kind (PublicContentPublish g r) = 7"
| "intent_kind (PublicContentRestore g r) = 12"
| "intent_kind OtherValue = 0"

fun encoder_kind :: "encoder \<Rightarrow> nat" where
  "encoder_kind EncCreate = 1"
| "encoder_kind EncCreateAdmin = 1"
| "encoder_kind EncResetPassword = 2"
| "encoder_kind EncPromote = 3"
| "encoder_kind EncDemote = 4"
| "encoder_kind EncPermissionsWrite = 5"
| "encoder_kind EncDeleteUser = 6"
| "encoder_kind EncRollback = 8"
| "encoder_kind EncPublicModelDelete = 9"
| "encoder_kind EncPublicPricingPublish = 10"
| "encoder_kind EncPublicPricingRestore = 11"
| "encoder_kind EncPublicContentPublish = 7"
| "encoder_kind EncPublicContentRestore = 12"

lemma run_encoder_kind: "run_encoder enc v = Inr b \<Longrightarrow> intent_kind v = encoder_kind enc"
  by (cases enc; cases v) (simp_all add: run_encoder_def)

lemma run_encodes:
  "run_encoder enc v = Inr b \<Longrightarrow> intent_int64 v \<Longrightarrow> \<exists>items. encodes_as v items b"
  using run_encoder_kind[of enc v b]
  by (cases v; cases enc; simp add: run_encoder_def del: intent_int64.simps)
    (blast dest: create_encodes promote_encodes permissions_encodes plain_encodes)+

lemma encodes_as_inj:
  assumes "encodes_as v items b" "encodes_as w items' b"
  shows "map field_canon (intent_fields v items) = map field_canon (intent_fields w items')"
    and "items = items' \<Longrightarrow> sort_overrides (intent_overrides v) = sort_overrides (intent_overrides w)"
proof -
  show "map field_canon (intent_fields v items) = map field_canon (intent_fields w items')"
    using assms by (intro encodeIntent_inj) (auto simp: encodes_as_def)
  show "sort_overrides (intent_overrides v) = sort_overrides (intent_overrides w)" if "items = items'"
    using assms that by (intro override_items_inj[of None _ items None]) (auto simp: encodes_as_def sort_overrides_effects)
qed

lemma meaning_eq:
  assumes "intent_kind v = intent_kind w" "map field_canon (intent_fields v items) = map field_canon (intent_fields w items')"
    and "items = items' \<Longrightarrow> sort_overrides (intent_overrides v) = sort_overrides (intent_overrides w)"
  shows "intent_meaning v = intent_meaning w"
  using assms
  by (cases v; cases w) (simp_all add: create_fields_def split: option.splits)

section \<open>Properties\<close>

definition sample_promote :: promote_intent where
  "sample_promote = \<lparr>prTarget = 77, prAuthVersion = 2, prPermissionsVersion = 0, prCatalogVersion = 1,
     prOverrides = [\<lparr>poCapability = ''users.edit'', poEffect = 3\<rparr>, \<lparr>poCapability = ''users.delete'', poEffect = 2\<rparr>],
     prReason = '' on call''\<rparr>"

text \<open>C12: A ticket binds exactly one intent.  If an encoder of the registry accepts two intents and their
  canonical texts, the input of the intent digest, are equal, then the intents mean the same: the same
  target, versions, password, role, models and overrides up to order, and the same trimmed reason.\<close>

theorem intent_text_binds:
  assumes "run_encoder enc v = Inr b" "run_encoder enc w = Inr b" "intent_int64 v" "intent_int64 w"
  shows "intent_meaning v = intent_meaning w"
proof -
  obtain items items' where e: "encodes_as v items b" "encodes_as w items' b"
    using run_encodes assms by blast
  have "intent_kind v = intent_kind w" using assms(1,2) run_encoder_kind by metis
  from meaning_eq[OF this encodes_as_inj[OF e]] show ?thesis .
qed

definition sample_promote' :: promote_intent where
  "sample_promote' = sample_promote\<lparr>prOverrides := rev (prOverrides sample_promote), prReason := ''on call  ''\<rparr>"

theorem intent_text_binds_witness:
  "sample_promote \<noteq> sample_promote' \<and> intent_meaning (Promote sample_promote) = intent_meaning (Promote sample_promote')"
proof -
  have "sample_promote \<noteq> sample_promote'" by code_simp
  moreover have "\<not> isl (run_encoder EncPromote (Promote sample_promote))" by code_simp
  then obtain b where "run_encoder EncPromote (Promote sample_promote) = Inr b"
    by (cases "run_encoder EncPromote (Promote sample_promote)") auto
  moreover have "run_encoder EncPromote (Promote sample_promote) = run_encoder EncPromote (Promote sample_promote')" by code_simp
  moreover have "intent_int64 (Promote sample_promote)" "intent_int64 (Promote sample_promote')" by code_simp+
  ultimately show ?thesis using intent_text_binds[of EncPromote] by metis
qed

text \<open>C15: The active registry is consistent.  The active actions are all thirteen but the legacy rollback; the
  descriptor of an active action is its own, is marked active, has an encoder, names an available
  capability of the catalog, is root-only whenever that capability is, and needs a ticket unless it is
  the creation of a plain user; and no two descriptors share a name or an encoder.\<close>

theorem active_registry_consistent:
  "(ResolveActiveAction a \<noteq> None) = (1 \<le> a \<and> a \<le> 13 \<and> a \<noteq> ActionPublicContentRollback) \<and>
   (case ResolveActiveAction a of
      None \<Rightarrow> True
    | Some d \<Rightarrow> acAction d = a \<and> acActive d \<and> acEncode d \<noteq> None \<and> (acRequiresTicket d = (a \<noteq> ActionUsersCreate)) \<and>
        (case lookup (acCapability d) of
           None \<Rightarrow> False | Some c \<Rightarrow> \<not> dUnavailable c \<and> (if dRootOnly c then acRootOnly d else True)) \<and>
        map_option (\<lambda>x. x\<lparr>acActive := True\<rparr>) (canonicalActionDescriptor a) = Some d) \<and>
   distinct (map acName ActiveActionRegistry) \<and> distinct (map acEncode ActiveActionRegistry)"
proof -
  have names: "distinct (map acName ActiveActionRegistry)" "distinct (map acEncode ActiveActionRegistry)"
    and actions: "map acAction ActiveActionRegistry = activeActionOrder" by code_simp+
  have good: "list_all (\<lambda>d. acActive d \<and> acEncode d \<noteq> None \<and> (acRequiresTicket d = (acAction d \<noteq> ActionUsersCreate)) \<and>
      (case lookup (acCapability d) of
         None \<Rightarrow> False | Some c \<Rightarrow> \<not> dUnavailable c \<and> (if dRootOnly c then acRootOnly d else True)) \<and>
      map_option (\<lambda>x. x\<lparr>acActive := True\<rparr>) (canonicalActionDescriptor (acAction d)) = Some d) ActiveActionRegistry"
    by code_simp
  have "ResolveActiveAction a \<noteq> None \<longleftrightarrow> a \<in> set (map acAction ActiveActionRegistry)"
    by (auto simp: ResolveActiveAction_def find_None_iff)
  also have "\<dots> \<longleftrightarrow> 1 \<le> a \<and> a \<le> 13 \<and> a \<noteq> ActionPublicContentRollback"
    unfolding actions by (simp add: activeActionOrder_def) presburger
  finally show ?thesis using names good
    by (auto simp: ResolveActiveAction_def find_Some_iff list_all_length split: option.split)
qed

end
