(* ===== verification/Action_Crypto.thy ===== *)
theory Action_Crypto
  imports Action_Registry
begin

text \<open>
  The keyed digests of administrator actions (\<open>internal/actionsecurity/crypto.go\<close>).  HMAC-SHA256 is
  Go's standard library, modelled here; HKDF is a module outside the repository and stays a parameter:
  the bytes it expands a secret and an info string to, \<open>None\<close> when it fails.
\<close>

section \<open>HMAC\<close>

definition xor_pad :: "nat \<Rightarrow> bytes \<Rightarrow> bytes" where
  "xor_pad p key = map (\<lambda>c. char_of (byte c XOR p)) (key @ replicate (64 - length key) CHR 0x00)"

definition hmac_sha256 :: "bytes \<Rightarrow> bytes \<Rightarrow> bytes" where
  "hmac_sha256 key msg =
     (let k = (if 64 < length key then sha256 key else key)
      in sha256 (xor_pad 0x5c k @ sha256 (xor_pad 0x36 k @ msg)))"

section \<open>Keys\<close>

record crypto =
  kTicket :: bytes
  kIntent :: bytes
  kIdempotency :: bytes
  kLease :: bytes
  kResponse :: bytes

type_synonym hkdf = "bytes \<Rightarrow> bytes \<Rightarrow> bytes option"

datatype crypto_error = ErrRootKey | ErrDerivation | ErrRatePurpose

definition ticketInfo :: bytes where "ticketInfo = ''porsche/admin-action/ticket/v1''"
definition intentInfo :: bytes where "intentInfo = ''porsche/admin-action/intent/v1''"
definition idempotencyInfo :: bytes where "idempotencyInfo = ''porsche/admin-action/idempotency/v1''"
definition leaseInfo :: bytes where "leaseInfo = ''porsche/admin-action/lease/v1''"
definition responseInfo :: bytes where "responseInfo = ''porsche/admin-action/response/v1''"

definition deriveKey :: "hkdf \<Rightarrow> bytes \<Rightarrow> bytes \<Rightarrow> crypto_error + bytes" where
  "deriveKey hkdf root info =
     (case hkdf root info of
        None \<Rightarrow> Inl ErrDerivation
      | Some stream \<Rightarrow> if length stream < 32 then Inl ErrDerivation else Inr (take 32 stream))"

definition NewCrypto :: "hkdf \<Rightarrow> bytes \<Rightarrow> crypto_error + crypto" where
  "NewCrypto hkdf root =
     (if length root \<noteq> 32 then Inl ErrRootKey
      else and_then (deriveKey hkdf root ticketInfo) (\<lambda>t.
           and_then (deriveKey hkdf root intentInfo) (\<lambda>i.
           and_then (deriveKey hkdf root idempotencyInfo) (\<lambda>d.
           and_then (deriveKey hkdf root leaseInfo) (\<lambda>l.
           and_then (deriveKey hkdf root responseInfo) (\<lambda>p.
             Inr \<lparr>kTicket = t, kIntent = i, kIdempotency = d, kLease = l, kResponse = p\<rparr>))))))"

section \<open>Digests\<close>

definition digest_message :: "bytes \<Rightarrow> bytes \<Rightarrow> bytes" where
  "digest_message purpose payload = purpose @ [CHR 0x00] @ payload"

definition digest :: "bytes \<Rightarrow> bytes \<Rightarrow> bytes \<Rightarrow> bytes" where
  "digest key purpose payload = hmac_sha256 key (digest_message purpose payload)"

definition TicketDigest :: "crypto \<Rightarrow> bytes \<Rightarrow> bytes" where
  "TicketDigest c raw = digest (kTicket c) ''ticket-value'' raw"

definition IntentDigest :: "crypto \<Rightarrow> bytes \<Rightarrow> bytes" where
  "IntentDigest c encoded = digest (kIntent c) ''intent-v1'' encoded"

definition IdempotencyDigest :: "crypto \<Rightarrow> bytes \<Rightarrow> bytes" where
  "IdempotencyDigest c raw = digest (kIdempotency c) ''idempotency-value'' raw"

definition LeaseOwnerDigest :: "crypto \<Rightarrow> bytes \<Rightarrow> bytes" where
  "LeaseOwnerDigest c raw = digest (kLease c) ''lease-owner'' raw"

definition ResponseDigest :: "crypto \<Rightarrow> bytes \<Rightarrow> bytes" where
  "ResponseDigest c encoded = digest (kResponse c) ''response-v1'' encoded"

abbreviation RateVerificationActor :: bytes where "RateVerificationActor \<equiv> ''rate-verification-actor''"
abbreviation RateVerificationIP :: bytes where "RateVerificationIP \<equiv> ''rate-verification-ip''"
abbreviation RateVerificationSession :: bytes where "RateVerificationSession \<equiv> ''rate-verification-session''"
abbreviation RateBeginSession :: bytes where "RateBeginSession \<equiv> ''rate-begin-session''"

definition RateDigest :: "crypto \<Rightarrow> bytes \<Rightarrow> bytes \<Rightarrow> crypto_error + bytes" where
  "RateDigest c purpose payload =
     (if purpose \<in> {RateVerificationActor, RateVerificationIP, RateVerificationSession}
      then Inr (digest (kTicket c) purpose payload)
      else if purpose = RateBeginSession then Inr (digest (kIdempotency c) purpose payload)
      else Inl ErrRatePurpose)"

text \<open>A constant-time comparison of two 32-byte digests.\<close>

definition EqualDigest :: "bytes \<Rightarrow> bytes \<Rightarrow> bool" where
  "EqualDigest a b \<longleftrightarrow> length a = length b \<and> a = b"

section \<open>Domain separation\<close>

text \<open>The digest calls, the key each one uses (by its slot in \<open>Crypto\<close>), its purpose and its payload.\<close>

datatype digest_call =
    CallTicket bytes | CallIntent bytes | CallIdempotency bytes | CallLease bytes | CallResponse bytes
  | CallRate bytes bytes

fun run_digest :: "crypto \<Rightarrow> digest_call \<Rightarrow> crypto_error + bytes" where
  "run_digest c (CallTicket raw) = Inr (TicketDigest c raw)"
| "run_digest c (CallIntent encoded) = Inr (IntentDigest c encoded)"
| "run_digest c (CallIdempotency raw) = Inr (IdempotencyDigest c raw)"
| "run_digest c (CallLease raw) = Inr (LeaseOwnerDigest c raw)"
| "run_digest c (CallResponse encoded) = Inr (ResponseDigest c encoded)"
| "run_digest c (CallRate purpose payload) = RateDigest c purpose payload"

fun call_key :: "digest_call \<Rightarrow> crypto \<Rightarrow> bytes" where
  "call_key (CallTicket raw) = kTicket"
| "call_key (CallIntent encoded) = kIntent"
| "call_key (CallIdempotency raw) = kIdempotency"
| "call_key (CallLease raw) = kLease"
| "call_key (CallResponse encoded) = kResponse"
| "call_key (CallRate purpose payload) = (if purpose = RateBeginSession then kIdempotency else kTicket)"

fun call_purpose :: "digest_call \<Rightarrow> bytes" where
  "call_purpose (CallTicket raw) = ''ticket-value''"
| "call_purpose (CallIntent encoded) = ''intent-v1''"
| "call_purpose (CallIdempotency raw) = ''idempotency-value''"
| "call_purpose (CallLease raw) = ''lease-owner''"
| "call_purpose (CallResponse encoded) = ''response-v1''"
| "call_purpose (CallRate purpose payload) = purpose"

fun call_payload :: "digest_call \<Rightarrow> bytes" where
  "call_payload (CallTicket raw) = raw"
| "call_payload (CallIntent encoded) = encoded"
| "call_payload (CallIdempotency raw) = raw"
| "call_payload (CallLease raw) = raw"
| "call_payload (CallResponse encoded) = encoded"
| "call_payload (CallRate purpose payload) = payload"

definition call_message :: "digest_call \<Rightarrow> bytes" where
  "call_message d = digest_message (call_purpose d) (call_payload d)"

lemma digest_message_inj:
  "CHR 0x00 \<notin> set p \<Longrightarrow> CHR 0x00 \<notin> set q \<Longrightarrow> digest_message p x = digest_message q y \<Longrightarrow> p = q \<and> x = y"
proof -
  assume nul: "CHR 0x00 \<notin> set p" "CHR 0x00 \<notin> set q" and eq: "digest_message p x = digest_message q y"
  have head: "takeWhile (\<lambda>c. c \<noteq> CHR 0x00) (r @ [CHR 0x00] @ z) = r" if "CHR 0x00 \<notin> set r" for r z :: bytes
    using that by (induction r) auto
  have "p = q" using head[OF nul(1)] head[OF nul(2)] eq by (metis digest_message_def)
  then show ?thesis using eq by (simp add: digest_message_def)
qed

lemma run_digest_hmac: "run_digest c a = Inr d \<Longrightarrow> d = hmac_sha256 (call_key a c) (call_message a)"
  by (cases a)
    (auto simp: TicketDigest_def IntentDigest_def IdempotencyDigest_def LeaseOwnerDigest_def ResponseDigest_def
      RateDigest_def digest_def call_message_def split: if_splits)

lemma run_digest_purpose: "run_digest c a = Inr d \<Longrightarrow> CHR 0x00 \<notin> set (call_purpose a)"
  by (cases a) (auto simp: RateDigest_def split: if_splits)

lemma rate_purpose:
  "run_digest c (CallRate p x) = Inr d \<Longrightarrow> p \<notin> {''ticket-value'', ''intent-v1'', ''idempotency-value'', ''lease-owner'', ''response-v1''}"
  by (auto simp: RateDigest_def split: if_splits)

lemma call_eq:
  "run_digest c a = Inr d \<Longrightarrow> run_digest c b = Inr d' \<Longrightarrow> call_purpose a = call_purpose b \<Longrightarrow>
   call_payload a = call_payload b \<Longrightarrow> a = b"
  using rate_purpose[of c "call_purpose a" "call_payload a" d] rate_purpose[of c "call_purpose b" "call_payload b" d']
  by (cases a; cases b) auto

section \<open>Properties\<close>

definition sample_crypto :: crypto where
  "sample_crypto = \<lparr>kTicket = replicate 32 CHR ''t'', kIntent = replicate 32 CHR ''i'', kIdempotency = replicate 32 CHR ''d'',
     kLease = replicate 32 CHR ''l'', kResponse = replicate 32 CHR ''r''\<rparr>"

text \<open>C14: Digests are separated by purpose.  Every digest is the HMAC-SHA256, under the key of its slot, of one
  message, and two different digest calls never feed HMAC the same message: tickets and three of the rate
  limits share a key, idempotency keys and the fourth rate limit another, and still no payload of one
  purpose can be replayed as a payload of another.\<close>

theorem digests_separated:
  assumes "run_digest c a = Inr d" "run_digest c b = Inr d'" "a \<noteq> b"
  shows "d = hmac_sha256 (call_key a c) (call_message a) \<and> d' = hmac_sha256 (call_key b c) (call_message b) \<and>
    call_message a \<noteq> call_message b"
  using digest_message_inj[OF run_digest_purpose[OF assms(1)] run_digest_purpose[OF assms(2)]]
    call_eq[OF assms(1,2)] run_digest_hmac assms
  by (auto simp: call_message_def)

theorem digests_separated_witness:
  "call_message (CallTicket ''x'') \<noteq> call_message (CallRate RateVerificationIP ''x'') \<and>
   call_key (CallTicket ''x'') sample_crypto = call_key (CallRate RateVerificationIP ''x'') sample_crypto"
proof -
  have "run_digest sample_crypto (CallTicket ''x'') = Inr (TicketDigest sample_crypto ''x'')"
    "run_digest sample_crypto (CallRate RateVerificationIP ''x'') = Inr (digest (kTicket sample_crypto) RateVerificationIP ''x'')"
    by (simp_all add: RateDigest_def)
  from digests_separated[OF this] show ?thesis by simp
qed

end
