(* ===== verification/Stored_Enums.thy ===== *)
theory Stored_Enums
  imports Prelude
begin

text \<open>
  The integer-backed enumerations of the persisted models (\<open>models/models.go\<close>,
  \<open>models/admin_operation.go\<close>, \<open>models/permission_policy.go\<close>): the stored integers are the contract
  with the database, the names the contract with the API.  A parser's \<open>(value, ok)\<close> is an option.
\<close>

section \<open>Names and parsers\<close>

definition UserStatus_String :: "int \<Rightarrow> bytes" where
  "UserStatus_String v =
     (if v = 1 then ''active'' else if v = 2 then ''disabled'' else ''unknown'')"

definition ParseUserStatus :: "bytes \<Rightarrow> int option" where
  "ParseUserStatus s =
     (if s = ''active'' then Some 1 else if s = ''disabled'' then Some 2 else None)"

definition GatewayTokenStatus_String :: "int \<Rightarrow> bytes" where
  "GatewayTokenStatus_String v =
     (if v = 1 then ''active'' else if v = 2 then ''disabled'' else if v = 3 then ''revoked'' else ''unknown'')"

definition PlanType_String :: "int \<Rightarrow> bytes" where
  "PlanType_String v =
     (if v = 1 then ''free'' else if v = 2 then ''professional'' else if v = 3 then ''enterprise'' else ''unknown'')"

definition ParsePlanType :: "bytes \<Rightarrow> int option" where
  "ParsePlanType s =
     (if s = ''free'' then Some 1 else if s = ''professional'' then Some 2
      else if s = ''enterprise'' then Some 3 else None)"

definition OrderStatus_String :: "int \<Rightarrow> bytes" where
  "OrderStatus_String v =
     (if v = 1 then ''pending'' else if v = 2 then ''paid'' else if v = 3 then ''cancelled''
      else if v = 4 then ''refunded'' else ''unknown'')"

definition MessageRole_String :: "int \<Rightarrow> bytes" where
  "MessageRole_String v =
     (if v = 1 then ''system'' else if v = 2 then ''user'' else if v = 3 then ''assistant'' else ''unknown'')"

definition ParseMessageRole :: "bytes \<Rightarrow> int option" where
  "ParseMessageRole s =
     (if s = ''system'' then Some 1 else if s = ''user'' then Some 2 else if s = ''assistant'' then Some 3 else None)"

definition PlatformGenerationReceiptMode_String :: "int \<Rightarrow> bytes" where
  "PlatformGenerationReceiptMode_String v =
     (if v = 1 then ''single'' else if v = 2 then ''compare'' else ''unknown'')"

definition ParsePlatformGenerationReceiptMode :: "bytes \<Rightarrow> int option" where
  "ParsePlatformGenerationReceiptMode s =
     (if s = ''single'' then Some 1 else if s = ''compare'' then Some 2 else None)"

definition PlatformGenerationResultStatus_String :: "int \<Rightarrow> bytes" where
  "PlatformGenerationResultStatus_String v =
     (if v = 1 then ''completed'' else if v = 2 then ''failed'' else ''unknown'')"

definition ParsePlatformGenerationResultStatus :: "bytes \<Rightarrow> int option" where
  "ParsePlatformGenerationResultStatus s =
     (if s = ''completed'' then Some 1 else if s = ''failed'' then Some 2 else None)"

definition UserRole_String :: "int \<Rightarrow> bytes" where
  "UserRole_String v =
     (if v = 1 then ''user'' else if v = 10 then ''admin'' else if v = 100 then ''root'' else ''unknown'')"

definition ParseUserRole :: "bytes \<Rightarrow> int option" where
  "ParseUserRole s =
     (if s = ''user'' then Some 1 else if s = ''admin'' then Some 10 else if s = ''root'' then Some 100 else None)"

definition LoginMethod_String :: "int \<Rightarrow> bytes" where
  "LoginMethod_String v =
     (if v = 1 then ''password'' else ''unknown'')"

definition ParseLoginMethod :: "bytes \<Rightarrow> int option" where
  "ParseLoginMethod s =
     (if s = ''password'' then Some 1 else None)"

definition AuthAuditEventType_String :: "int \<Rightarrow> bytes" where
  "AuthAuditEventType_String v =
     (if v = 1 then ''registered'' else if v = 2 then ''login_succeeded''
      else if v = 3 then ''refresh_succeeded'' else if v = 4 then ''refresh_replay_revoked''
      else if v = 5 then ''logged_out'' else if v = 6 then ''session_revoked''
      else if v = 7 then ''user_disabled'' else if v = 8 then ''user_deleted''
      else if v = 9 then ''password_changed'' else if v = 10 then ''managed_user_updated'' else ''unknown'')"

definition ParseAuthAuditEventType :: "bytes \<Rightarrow> int option" where
  "ParseAuthAuditEventType s =
     (if s = ''registered'' then Some 1 else if s = ''login_succeeded'' then Some 2
      else if s = ''refresh_succeeded'' then Some 3 else if s = ''refresh_replay_revoked'' then Some 4
      else if s = ''logged_out'' then Some 5 else if s = ''session_revoked'' then Some 6
      else if s = ''user_disabled'' then Some 7 else if s = ''user_deleted'' then Some 8
      else if s = ''password_changed'' then Some 9 else if s = ''managed_user_updated'' then Some 10 else None)"

definition AdminOperationState_String :: "int \<Rightarrow> bytes" where
  "AdminOperationState_String v =
     (if v = 1 then ''processing'' else if v = 2 then ''succeeded'' else if v = 3 then ''failed''
      else if v = 4 then ''pending_recovery'' else if v = 5 then ''expired'' else ''unknown'')"

definition ParseAdminOperationState :: "bytes \<Rightarrow> int option" where
  "ParseAdminOperationState s =
     (if s = ''processing'' then Some 1 else if s = ''succeeded'' then Some 2
      else if s = ''failed'' then Some 3 else if s = ''pending_recovery'' then Some 4
      else if s = ''expired'' then Some 5 else None)"

definition AdminOperationFailure_String :: "int \<Rightarrow> bytes" where
  "AdminOperationFailure_String v =
     (if v = 1 then ''action_rejected'' else if v = 2 then ''target_version_conflict''
      else if v = 3 then ''policy_version_conflict'' else if v = 4 then ''target_state_conflict''
      else if v = 5 then ''consumer_validation_failed'' else ''unknown'')"

definition ParseAdminOperationFailure :: "bytes \<Rightarrow> int option" where
  "ParseAdminOperationFailure s =
     (if s = ''action_rejected'' then Some 1 else if s = ''target_version_conflict'' then Some 2
      else if s = ''policy_version_conflict'' then Some 3 else if s = ''target_state_conflict'' then Some 4
      else if s = ''consumer_validation_failed'' then Some 5 else None)"

definition AdminResultKind_String :: "int \<Rightarrow> bytes" where
  "AdminResultKind_String v =
     (if v = 1 then ''none'' else if v = 2 then ''user'' else if v = 3 then ''public_content'' else ''unknown'')"

definition ParseAdminResultKind :: "bytes \<Rightarrow> int option" where
  "ParseAdminResultKind s =
     (if s = ''none'' then Some 1 else if s = ''user'' then Some 2 else if s = ''public_content'' then Some 3 else None)"

section \<open>Permission codes\<close>

definition PermissionCatalogVersion :: int where "PermissionCatalogVersion = 1"

definition permissionCapabilityNames :: "(int \<times> bytes) list" where
  "permissionCapabilityNames =
    [(1, ''users.read''), (2, ''users.create''), (3, ''users.edit''), (4, ''users.enable''), (5, ''users.disable''),
     (6, ''users.reset_password''), (7, ''users.sessions.read''), (8, ''users.sessions.revoke''),
     (9, ''users.plan.change''), (10, ''users.group.change''), (11, ''users.quota.adjust''), (12, ''users.delete''),
     (13, ''users.deleted.read''), (14, ''users.promote''), (15, ''users.demote''), (16, ''users.permissions.write''),
     (17, ''users.audit.read''), (18, ''groups.read''), (19, ''groups.write''), (20, ''public_content.read''),
     (21, ''public_content.edit''), (22, ''public_content.preview''), (23, ''public_content.publish''),
     (24, ''public_content.rollback'')]"

definition PermissionCapabilityName :: "int \<Rightarrow> bytes option" where
  "PermissionCapabilityName code = map_of permissionCapabilityNames code"

text \<open>The loop ranges over the map in any order; the names are distinct, so the first match is the only one.\<close>

definition PermissionCapabilityCode :: "bytes \<Rightarrow> int option" where
  "PermissionCapabilityCode name = map_option fst (find (\<lambda>(code, v). v = name) permissionCapabilityNames)"

definition PermissionEffectName :: "int \<Rightarrow> bytes option" where
  "PermissionEffectName code =
     (if code = 1 then Some ''inherit'' else if code = 2 then Some ''allow'' else if code = 3 then Some ''deny'' else None)"

definition PermissionEffectCode :: "bytes \<Rightarrow> int option" where
  "PermissionEffectCode name =
     (if name = ''inherit'' then Some 1 else if name = ''allow'' then Some 2 else if name = ''deny'' then Some 3 else None)"

section \<open>Operation states\<close>

abbreviation OperationProcessing :: int where "OperationProcessing \<equiv> 1"
abbreviation OperationSucceeded :: int where "OperationSucceeded \<equiv> 2"
abbreviation OperationFailed :: int where "OperationFailed \<equiv> 3"
abbreviation OperationPendingRecovery :: int where "OperationPendingRecovery \<equiv> 4"
abbreviation OperationExpired :: int where "OperationExpired \<equiv> 5"

definition CanTransitionTo :: "int \<Rightarrow> int \<Rightarrow> bool" where
  "CanTransitionTo st nxt =
     (if st = OperationProcessing then nxt = OperationSucceeded \<or> nxt = OperationFailed \<or> nxt = OperationPendingRecovery
      else if st = OperationSucceeded \<or> st = OperationFailed \<or> st = OperationPendingRecovery then nxt = OperationExpired
      else False)"

section \<open>The interface of a stored enumeration\<close>

text \<open>
  A component that stores an enumeration relies on three laws: the parser reads back the name of every
  declared value, it accepts nothing but names of declared values, and no declared value is called
  \<open>unknown\<close>.
\<close>

locale stored_enum =
  fixes name :: "int \<Rightarrow> bytes" and parse :: "bytes \<Rightarrow> int option" and declared :: "int list"
  assumes parse_name: "v \<in> set declared \<Longrightarrow> parse (name v) = Some v"
    and parse_sound: "parse s = Some v \<Longrightarrow> v \<in> set declared \<and> name v = s"
    and name_unknown: "v \<notin> set declared \<Longrightarrow> name v = ''unknown''"
    and unknown_unparsed: "parse ''unknown'' = None"
begin

lemma parse_iff: "parse s = Some v \<longleftrightarrow> v \<in> set declared \<and> name v = s"
  using parse_name parse_sound by blast

lemma name_inj: "v \<in> set declared \<Longrightarrow> name v = name w \<Longrightarrow> v = w"
proof -
  assume v: "v \<in> set declared" "name v = name w"
  then have "parse (name w) = Some v" using parse_name by metis
  then show "v = w" using name_unknown[of w] unknown_unparsed parse_name[of w] by fastforce
qed

lemma parse_unknown: "v \<notin> set declared \<Longrightarrow> parse (name v) = None"
  by (simp add: name_unknown unknown_unparsed)

end

interpretation UserStatus: stored_enum UserStatus_String ParseUserStatus "[1, 2]"
  by unfold_locales (auto simp: UserStatus_String_def ParseUserStatus_def split: if_splits)

interpretation PlanType: stored_enum PlanType_String ParsePlanType "[1, 2, 3]"
  by unfold_locales (auto simp: PlanType_String_def ParsePlanType_def split: if_splits)

interpretation MessageRole: stored_enum MessageRole_String ParseMessageRole "[1, 2, 3]"
  by unfold_locales (auto simp: MessageRole_String_def ParseMessageRole_def split: if_splits)

interpretation PlatformGenerationReceiptMode: stored_enum PlatformGenerationReceiptMode_String ParsePlatformGenerationReceiptMode "[1, 2]"
  by unfold_locales (auto simp: PlatformGenerationReceiptMode_String_def ParsePlatformGenerationReceiptMode_def split: if_splits)

interpretation PlatformGenerationResultStatus: stored_enum PlatformGenerationResultStatus_String ParsePlatformGenerationResultStatus "[1, 2]"
  by unfold_locales (auto simp: PlatformGenerationResultStatus_String_def ParsePlatformGenerationResultStatus_def split: if_splits)

interpretation UserRole: stored_enum UserRole_String ParseUserRole "[1, 10, 100]"
  by unfold_locales (auto simp: UserRole_String_def ParseUserRole_def split: if_splits)

interpretation LoginMethod: stored_enum LoginMethod_String ParseLoginMethod "[1]"
  by unfold_locales (auto simp: LoginMethod_String_def ParseLoginMethod_def split: if_splits)

interpretation AuthAuditEventType: stored_enum AuthAuditEventType_String ParseAuthAuditEventType "[1, 2, 3, 4, 5, 6, 7, 8, 9, 10]"
  by unfold_locales (auto simp: AuthAuditEventType_String_def ParseAuthAuditEventType_def split: if_splits)

interpretation AdminOperationState: stored_enum AdminOperationState_String ParseAdminOperationState "[1, 2, 3, 4, 5]"
  by unfold_locales (auto simp: AdminOperationState_String_def ParseAdminOperationState_def split: if_splits)

interpretation AdminOperationFailure: stored_enum AdminOperationFailure_String ParseAdminOperationFailure "[1, 2, 3, 4, 5]"
  by unfold_locales (auto simp: AdminOperationFailure_String_def ParseAdminOperationFailure_def split: if_splits)

interpretation AdminResultKind: stored_enum AdminResultKind_String ParseAdminResultKind "[1, 2, 3]"
  by unfold_locales (auto simp: AdminResultKind_String_def ParseAdminResultKind_def split: if_splits)

text \<open>The permission codes obey the same laws, on the codes and effects they declare.\<close>

lemma capability_names_distinct: "distinct (map fst permissionCapabilityNames)" "distinct (map snd permissionCapabilityNames)"
  by code_simp+

lemma capability_code_iff: "PermissionCapabilityCode n = Some c \<longleftrightarrow> PermissionCapabilityName c = Some n"
proof
  assume "PermissionCapabilityCode n = Some c"
  then have "(c, n) \<in> set permissionCapabilityNames"
    by (auto simp: PermissionCapabilityCode_def dest!: find_SomeD)
  then show "PermissionCapabilityName c = Some n"
    using capability_names_distinct by (simp add: PermissionCapabilityName_def)
next
  assume name: "PermissionCapabilityName c = Some n"
  then have mem: "(c, n) \<in> set permissionCapabilityNames" by (simp add: PermissionCapabilityName_def map_of_SomeD)
  then obtain p where p: "find (\<lambda>(code, v). v = n) permissionCapabilityNames = Some p"
    by (cases "find (\<lambda>(code, v). v = n) permissionCapabilityNames") (auto simp: find_None_iff)
  then have "snd p = n" "p \<in> set permissionCapabilityNames" by (auto dest: find_SomeD)
  then have "p = (c, n)" using mem capability_names_distinct(2) by (auto simp: distinct_map inj_on_def)
  then show "PermissionCapabilityCode n = Some c" by (simp add: PermissionCapabilityCode_def p)
qed

lemma effect_code_iff: "PermissionEffectCode n = Some c \<longleftrightarrow> PermissionEffectName c = Some n"
  by (auto simp: PermissionEffectCode_def PermissionEffectName_def split: if_splits)

section \<open>Properties\<close>

text \<open>Stored enumerations are read back as written.  For roles, statuses, plans, message roles, receipt modes,
  result statuses, login methods, audit events and the states, failures and results of operations, a name
  parses to a value exactly when that value is declared and has that name; the capability and effect codes
  of the permission tables are inverse to their names; and an operation state, once left, is never reached
  again.\<close>

theorem stored_enums_roundtrip:
  "(ParseUserStatus s = Some v) = (v \<in> set [1, 2] \<and> UserStatus_String v = s) \<and>
   (ParsePlanType s = Some v) = (v \<in> set [1, 2, 3] \<and> PlanType_String v = s) \<and>
   (ParseMessageRole s = Some v) = (v \<in> set [1, 2, 3] \<and> MessageRole_String v = s) \<and>
   (ParsePlatformGenerationReceiptMode s = Some v) = (v \<in> set [1, 2] \<and> PlatformGenerationReceiptMode_String v = s) \<and>
   (ParsePlatformGenerationResultStatus s = Some v) = (v \<in> set [1, 2] \<and> PlatformGenerationResultStatus_String v = s) \<and>
   (ParseUserRole s = Some v) = (v \<in> set [1, 10, 100] \<and> UserRole_String v = s) \<and>
   (ParseLoginMethod s = Some v) = (v \<in> set [1] \<and> LoginMethod_String v = s) \<and>
   (ParseAuthAuditEventType s = Some v) = (v \<in> set [1, 2, 3, 4, 5, 6, 7, 8, 9, 10] \<and> AuthAuditEventType_String v = s) \<and>
   (ParseAdminOperationState s = Some v) = (v \<in> set [1, 2, 3, 4, 5] \<and> AdminOperationState_String v = s) \<and>
   (ParseAdminOperationFailure s = Some v) = (v \<in> set [1, 2, 3, 4, 5] \<and> AdminOperationFailure_String v = s) \<and>
   (ParseAdminResultKind s = Some v) = (v \<in> set [1, 2, 3] \<and> AdminResultKind_String v = s) \<and>
   (PermissionCapabilityCode s = Some v) = (PermissionCapabilityName v = Some s) \<and>
   (PermissionEffectCode s = Some v) = (PermissionEffectName v = Some s) \<and>
   \<not> CanTransitionTo\<^sup>+\<^sup>+ v v"
proof -
  have rank: "CanTransitionTo a b \<Longrightarrow> (if b = OperationExpired then 2 else if b = OperationProcessing then 0 else 1) >
      (if a = OperationExpired then 2 else if a = OperationProcessing then 0 else (1::nat))" for a b
    by (auto simp: CanTransitionTo_def split: if_splits)
  have "(if b = OperationExpired then 2 else if b = OperationProcessing then 0 else 1) >
      (if a = OperationExpired then 2 else if a = OperationProcessing then 0 else (1::nat))" if "CanTransitionTo\<^sup>+\<^sup>+ a b" for a b
    using that by (induction rule: tranclp_induct) (use rank less_trans in blast)+
  from this[of v v] show ?thesis
    by (auto simp: UserStatus.parse_iff PlanType.parse_iff MessageRole.parse_iff PlatformGenerationReceiptMode.parse_iff PlatformGenerationResultStatus.parse_iff UserRole.parse_iff LoginMethod.parse_iff AuthAuditEventType.parse_iff AdminOperationState.parse_iff AdminOperationFailure.parse_iff AdminResultKind.parse_iff capability_code_iff effect_code_iff)
qed

end
