(* ===== verification/Role_Permissions.thy ===== *)
theory Role_Permissions
  imports Action_Crypto Authz_Policy Stored_Enums
begin

text \<open>
  Planning a role or permission change (\<open>service/action_roles_permissions.go\<close>): the execution bound to
  one reviewed intent, its checks against the locked target, and \<open>PlanTransition\<close>, the complete next
  state of role and policy.  Nil receivers and dependencies are one flag of the constructor; the
  once-only guard of \<open>Begin\<close> is a Boolean of the state.
\<close>

abbreviation FailureActionRejected :: int where "FailureActionRejected \<equiv> 1"
abbreviation FailureTargetVersionConflict :: int where "FailureTargetVersionConflict \<equiv> 2"
abbreviation FailurePolicyVersionConflict :: int where "FailurePolicyVersionConflict \<equiv> 3"
abbreviation FailureTargetStateConflict :: int where "FailureTargetStateConflict \<equiv> 4"
abbreviation FailureConsumerValidation :: int where "FailureConsumerValidation \<equiv> 5"

definition maxInt64 :: int where "maxInt64 = 9223372036854775807"

section \<open>Executions\<close>

record role_intent =
  xiPromote :: "promote_intent option"
  xiDemote :: "demote_intent option"
  xiWrite :: "permissions_intent option"

record role_invariant =
  ivAction :: int
  ivTarget :: int
  ivHMAC :: bytes

record role_execution =
  exDescriptor :: descriptor
  exIntent :: role_intent
  exHMAC :: bytes
  exInvariant :: "role_invariant option"

record target_snapshot =
  tsActor :: int
  tsTarget :: int
  tsRole :: int
  tsStatus :: int
  tsAuthVersion :: int
  tsDeleted :: bool

record policy_snapshot =
  psVersion :: int
  psCatalog :: int

record transition_plan =
  tpRole :: int
  tpAuthVersion :: int
  tpExpectedPolicy :: int
  tpNextPolicy :: int
  tpCatalog :: int
  tpRules :: "override_intent list"

definition isA08RolePermissionAction :: "int \<Rightarrow> bool" where
  "isA08RolePermissionAction a \<longleftrightarrow>
     a = ActionUsersPromote \<or> a = ActionUsersDemote \<or> a = ActionUsersPermissionsWrite"

definition validRolePermissionDescriptor :: "descriptor \<Rightarrow> bool" where
  "validRolePermissionDescriptor d \<longleftrightarrow>
     isA08RolePermissionAction (acAction d) \<and> acEncode d \<noteq> None \<and>
     (case find (\<lambda>e. acAction e = acAction d) InactiveActionDescriptors of
        None \<Rightarrow> False
      | Some e \<Rightarrow>
          acName d = acName e \<and> acCapability d = acCapability e \<and> acActive d \<and>
          acRootOnly d = acRootOnly e \<and> acRootOnly d \<and> acRequiresTicket d = acRequiresTicket e \<and> acRequiresTicket d \<and>
          acTargetKind d = acTargetKind e \<and> acTargetKind d = TargetUser \<and> acEncode e \<noteq> None \<and> acEncode d = acEncode e)"

definition ownCanonicalRolePermissionRules :: "override_intent list \<Rightarrow> override_intent list" where
  "ownCanonicalRolePermissionRules src = sort_key poCapability src"

definition no_intent :: role_intent where
  "no_intent = \<lparr>xiPromote = None, xiDemote = None, xiWrite = None\<rparr>"

definition ownRolePermissionIntent :: "int \<Rightarrow> any_intent \<Rightarrow> role_intent option" where
  "ownRolePermissionIntent a v =
     (if a = ActionUsersPromote then
        (case v of Promote i \<Rightarrow>
           Some (no_intent\<lparr>xiPromote := Some (i\<lparr>prReason := trim_space (prReason i),
             prOverrides := ownCanonicalRolePermissionRules (prOverrides i)\<rparr>)\<rparr>)
         | _ \<Rightarrow> None)
      else if a = ActionUsersDemote then
        (case v of Demote i \<Rightarrow> Some (no_intent\<lparr>xiDemote := Some (i\<lparr>deReason := trim_space (deReason i)\<rparr>)\<rparr>) | _ \<Rightarrow> None)
      else if a = ActionUsersPermissionsWrite then
        (case v of PermissionsWrite i \<Rightarrow>
           Some (no_intent\<lparr>xiWrite := Some (i\<lparr>pwReason := trim_space (pwReason i),
             pwOverrides := ownCanonicalRolePermissionRules (pwOverrides i)\<rparr>)\<rparr>)
         | _ \<Rightarrow> None)
      else None)"

definition intent_target :: "role_intent \<Rightarrow> int" where
  "intent_target i =
     (case xiPromote i of
        Some p \<Rightarrow> prTarget p
      | None \<Rightarrow>
          (case xiDemote i of
             Some d \<Rightarrow> deTarget d
           | None \<Rightarrow> (case xiWrite i of Some w \<Rightarrow> pwTarget w | None \<Rightarrow> 0)))"

text \<open>\<open>deps\<close>: the GUID source, the clock and the crypto are there.  An error is \<open>None\<close>: the code has one.\<close>

definition NewRolePermissionExecution :: "bool \<Rightarrow> crypto \<Rightarrow> descriptor \<Rightarrow> any_intent \<Rightarrow> role_execution option" where
  "NewRolePermissionExecution deps c d v =
     (if \<not> validRolePermissionDescriptor d \<or> \<not> deps then None
      else case acEncode d of
        None \<Rightarrow> None
      | Some enc \<Rightarrow>
          (case run_encoder enc v of
             Inl er \<Rightarrow> None
           | Inr encoded \<Rightarrow>
               if encoded = [] then None
               else let hmac = hex_encode (IntentDigest c encoded) in
                 map_option (\<lambda>owned.
                   \<lparr>exDescriptor = d, exIntent = owned, exHMAC = hmac,
                    exInvariant = Some \<lparr>ivAction = acAction d, ivTarget = intent_target owned, ivHMAC = hmac\<rparr>\<rparr>)
                   (ownRolePermissionIntent (acAction d) v)))"

definition validLocalInvariant :: "role_execution \<Rightarrow> bool" where
  "validLocalInvariant x =
     (case exInvariant x of
        None \<Rightarrow> False
      | Some v \<Rightarrow>
          0 < ivTarget v \<and> ivHMAC v \<noteq> [] \<and> ivHMAC v = exHMAC x \<and> ivTarget v = intent_target (exIntent x) \<and>
          (if ivAction v = ActionUsersPromote then
             xiPromote (exIntent x) \<noteq> None \<and> xiDemote (exIntent x) = None \<and> xiWrite (exIntent x) = None
           else if ivAction v = ActionUsersDemote then
             xiPromote (exIntent x) = None \<and> xiDemote (exIntent x) \<noteq> None \<and> xiWrite (exIntent x) = None
           else if ivAction v = ActionUsersPermissionsWrite then
             xiPromote (exIntent x) = None \<and> xiDemote (exIntent x) = None \<and> xiWrite (exIntent x) \<noteq> None
           else False))"

definition invariant_action :: "role_execution \<Rightarrow> int" where
  "invariant_action x = (case exInvariant x of None \<Rightarrow> 0 | Some v \<Rightarrow> ivAction v)"

definition Begin_execution :: "bool \<Rightarrow> bool option" where
  "Begin_execution started = (if started then None else Some True)"

section \<open>Checks on rules and locked targets\<close>

text \<open>The loop over the sorted rules, \<open>prev\<close> the capability before.\<close>

fun rules_valid :: "bytes option \<Rightarrow> override_intent list \<Rightarrow> bool" where
  "rules_valid prev [] = True"
| "rules_valid prev (r # rs) =
     ((case lookup (poCapability r) of
         None \<Rightarrow> False
       | Some d \<Rightarrow>
           \<not> (dUnavailable d \<or> (poEffect r \<noteq> 2 \<and> poEffect r \<noteq> 3) \<or>
              (poEffect r = 2 \<and> (\<not> dGrantable d \<or> dRootOnly d)) \<or> prev = Some (poCapability r))) \<and>
      rules_valid (Some (poCapability r)) rs)"

definition validateAndOwnRolePermissionRules :: "override_intent list \<Rightarrow> override_intent list option" where
  "validateAndOwnRolePermissionRules src =
     (let owned = ownCanonicalRolePermissionRules src in if rules_valid None owned then Some owned else None)"

definition rolePermissionPreauthorizationDecision :: "evaluator option \<Rightarrow> descriptor \<Rightarrow> account \<Rightarrow> decision" where
  "rolePermissionPreauthorizationDecision ev d target =
     (if ev = None \<or> \<not> validRolePermissionDescriptor d then Denied else Evaluator_User ev ''users.read'' target)"

text \<open>What \<open>validateLockedRolePermissionIntent\<close> reads from the intent whose type fits the action.\<close>

definition locked_facts :: "descriptor \<Rightarrow> any_intent \<Rightarrow> (int \<times> int \<times> int \<times> int \<times> override_intent list \<times> bytes) option" where
  "locked_facts d v =
     (case v of
        Promote i \<Rightarrow>
          if acAction d \<noteq> ActionUsersPromote then None
          else Some (prTarget i, prAuthVersion i, prPermissionsVersion i, prCatalogVersion i, prOverrides i, prReason i)
      | Demote i \<Rightarrow>
          if acAction d \<noteq> ActionUsersDemote then None
          else Some (deTarget i, deAuthVersion i, dePermissionsVersion i, deCatalogVersion i, [], deReason i)
      | PermissionsWrite i \<Rightarrow>
          if acAction d \<noteq> ActionUsersPermissionsWrite then None
          else Some (pwTarget i, pwAuthVersion i, pwPermissionsVersion i, pwCatalogVersion i, pwOverrides i, pwReason i)
      | _ \<Rightarrow> None)"

definition validateLockedRolePermissionIntent :: "descriptor \<Rightarrow> any_intent \<Rightarrow> account \<Rightarrow> int \<Rightarrow> bool" where
  "validateLockedRolePermissionIntent d v target authVersion =
     (if \<not> validRolePermissionDescriptor d \<or> aID target \<le> 0 \<or> aGUID target \<le> 0 \<or> aDeleted target \<noteq> 0 \<or>
         (aStatus target \<noteq> UserStatusActive \<and> aStatus target \<noteq> UserStatusDisabled) \<or> authVersion \<le> 0 \<or>
         maxInt32 \<le> authVersion
      then False
      else case locked_facts d v of
        None \<Rightarrow> False
      | Some (targetGUID, expectedAuth, expectedPermissions, catalog, overrides, reason) \<Rightarrow>
          \<not> (targetGUID \<noteq> aGUID target \<or> expectedAuth \<noteq> authVersion \<or> expectedPermissions < 0 \<or>
             catalog \<noteq> PermissionCatalogVersion \<or> \<not> utf8_valid reason \<or> trim_space reason \<noteq> reason \<or>
             rune_count reason < 1 \<or> 200 < rune_count reason) \<and>
          validateAndOwnRolePermissionRules overrides \<noteq> None)"

section \<open>The plan\<close>

text \<open>\<open>transitionIntent\<close>: expected auth version, expected policy version, catalog, desired role, desired rules
  and the role the target must have.\<close>

definition transitionIntent :: "role_execution \<Rightarrow> int \<times> int \<times> int \<times> int \<times> override_intent list \<times> int" where
  "transitionIntent x =
     (if invariant_action x = ActionUsersPromote then
        (case xiPromote (exIntent x) of
           None \<Rightarrow> (0, 0, 0, 0, [], 0)
         | Some i \<Rightarrow> (prAuthVersion i, prPermissionsVersion i, prCatalogVersion i, UserRoleAdmin, prOverrides i, UserRoleUser))
      else if invariant_action x = ActionUsersDemote then
        (case xiDemote (exIntent x) of
           None \<Rightarrow> (0, 0, 0, 0, [], 0)
         | Some i \<Rightarrow> (deAuthVersion i, dePermissionsVersion i, deCatalogVersion i, UserRoleUser, [], UserRoleAdmin))
      else if invariant_action x = ActionUsersPermissionsWrite then
        (case xiWrite (exIntent x) of
           None \<Rightarrow> (0, 0, 0, 0, [], 0)
         | Some i \<Rightarrow> (pwAuthVersion i, pwPermissionsVersion i, pwCatalogVersion i, UserRoleAdmin, pwOverrides i, UserRoleAdmin))
      else (0, 0, 0, 0, [], 0))"

text \<open>The check of the stored policy head against the intent.\<close>

definition policy_matches :: "int \<Rightarrow> int \<Rightarrow> policy_snapshot option \<Rightarrow> override_intent list \<Rightarrow> bool" where
  "policy_matches action expectedPolicy policy active =
     (case policy of
        None \<Rightarrow> \<not> (action \<noteq> ActionUsersPromote \<or> expectedPolicy \<noteq> 0 \<or> active \<noteq> [])
      | Some p \<Rightarrow> \<not> (psVersion p \<le> 0 \<or> psVersion p \<noteq> expectedPolicy \<or> psCatalog p \<noteq> PermissionCatalogVersion))"

definition PlanTransition ::
  "role_execution \<Rightarrow> target_snapshot \<Rightarrow> policy_snapshot option \<Rightarrow> override_intent list \<Rightarrow> int + transition_plan" where
  "PlanTransition x target policy activeRules =
     (if \<not> validLocalInvariant x then Inl FailureConsumerValidation
      else if tsActor target \<le> 0 \<or> tsActor target = tsTarget target then Inl FailureActionRejected
      else if tsTarget target \<le> 0 \<or> tsTarget target \<noteq> intent_target (exIntent x) \<or> tsDeleted target \<or>
              (tsStatus target \<noteq> UserStatusActive \<and> tsStatus target \<noteq> UserStatusDisabled)
        then Inl FailureTargetStateConflict
      else
        (let (expectedAuth, expectedPolicy, catalog, desiredRole, desiredRules, eligibleRole) = transitionIntent x in
         if tsRole target \<noteq> eligibleRole then Inl FailureTargetStateConflict
         else if tsAuthVersion target \<noteq> expectedAuth then Inl FailureTargetVersionConflict
         else if expectedAuth \<le> 0 \<or> maxInt32 \<le> expectedAuth then Inl FailureConsumerValidation
         else if catalog \<noteq> PermissionCatalogVersion then Inl FailurePolicyVersionConflict
         else case validateAndOwnRolePermissionRules activeRules of
           None \<Rightarrow> Inl FailureConsumerValidation
         | Some canonicalActive \<Rightarrow>
             if \<not> policy_matches (invariant_action x) expectedPolicy policy canonicalActive then Inl FailurePolicyVersionConflict
             else if expectedPolicy = maxInt64 then Inl FailureConsumerValidation
             else if invariant_action x = ActionUsersPermissionsWrite \<and> canonicalActive = desiredRules
               then Inl FailureTargetStateConflict
             else Inr \<lparr>tpRole = desiredRole, tpAuthVersion = expectedAuth + 1, tpExpectedPolicy = expectedPolicy,
                       tpNextPolicy = expectedPolicy + 1, tpCatalog = catalog,
                       tpRules = ownCanonicalRolePermissionRules desiredRules\<rparr>))"

end
