(* ===== verification/Admin_Tables.thy ===== *)
theory Admin_Tables
  imports Authz Action_Intents Json
begin

text \<open>
  The rows that the administration code reads and writes, and the SQL it issues on them.  The embedded
  \<open>AuditFields\<close> of a Go struct is the record every row extends.  A table is the list of its rows; a
  statement with a \<open>Where\<close> acts on the rows that satisfy it, \<open>RowsAffected\<close> counts them, \<open>First\<close> takes the
  one with the least primary key.  MySQL is not under \<open>src/\<close>; only this much of it is used.
\<close>

section \<open>Rows\<close>

record audit_fields =
  rID :: int
  rGUID :: int
  rCreatedAt :: int
  rCreatedBy :: "int option"
  rUpdatedAt :: int
  rUpdatedBy :: "int option"
  rDeleted :: int

record user_row = audit_fields +
  uGroup :: int
  uPhone :: "bytes option"
  uUsername :: "bytes option"
  uPasswordHash :: "bytes option"
  uNickname :: "bytes option"
  uRealName :: "bytes option"
  uIDCardHash :: "bytes option"
  uVerified :: bool
  uPlan :: int
  uStatus :: int
  uRole :: int
  uAuthVersion :: int
  uLastLoginAt :: "int option"
  uAllowedModels :: "bytes list option"
  uDailyLimit :: int
  uDailyUsed :: int
  uDailyResetAt :: "int option"
  uTotalTokens :: int

record session_row = audit_fields +
  sSID :: bytes
  sUser :: int
  sLoginMethod :: int
  sIP :: "bytes option"
  sUserAgent :: "bytes option"
  sVersion :: int
  sRefreshHMAC :: bytes
  sPrevRefreshHMAC :: "bytes option"
  sPrevRefreshExpires :: "int option"
  sLastActiveAt :: int
  sExpiresAt :: int
  sRevokedAt :: "int option"

record policy_head = audit_fields +
  hUser :: int
  hVersion :: int
  hCatalog :: int
  hRuleCount :: int

record policy_rule = audit_fields +
  pUser :: int
  pVersion :: int
  pCapability :: int
  pEffect :: int

record auth_event = audit_fields +
  evUser :: "int option"
  evSession :: "int option"
  evType :: int
  evLoginMethod :: "int option"
  evIP :: "bytes option"
  evUserAgent :: "bytes option"

record verification_row = audit_fields +
  vActor :: int
  vAuthVersion :: int
  vSession :: int
  vAction :: int
  vTargetKind :: int
  vTarget :: "int option"
  vIntentHMAC :: bytes
  vTicketHMAC :: bytes
  vExpiresAt :: int
  vConsumedAt :: "int option"

record operation_row = audit_fields +
  opActor :: int
  opAuthVersion :: int
  opSession :: int
  opAction :: int
  opIdempotencyHMAC :: bytes
  opRequestHMAC :: bytes
  opVerification :: "int option"
  opState :: int
  opPublicRef :: bytes
  opLeaseOwner :: "bytes option"
  opLeaseExpires :: "int option"
  opFinishedAt :: "int option"
  opQueryExpires :: int
  opErrorCode :: "int option"
  opResultKind :: "int option"
  opResultGUID :: "int option"
  opResultAuthVersion :: "int option"
  opResultPolicyVersion :: "int option"
  opResultRole :: "int option"
  opResultStatus :: "int option"

record gateway_token = audit_fields +
  gtUser :: int
  gtName :: bytes
  gtHash :: bytes
  gtPrefix :: bytes
  gtStatus :: int
  gtAllowedModels :: "bytes list"
  gtAllowlist :: "bytes list"
  gtExpiresAt :: "int option"
  gtLastUsedAt :: "int option"

record audit_log = audit_fields +
  alUser :: "int option"
  alAction :: bytes
  alResource :: "bytes option"
  alDetail :: "(bytes \<times> json) list"
  alIP :: "bytes option"

record outbox_row = audit_fields +
  obOperation :: int
  obPublicRef :: bytes
  obAction :: int
  obTargetKind :: int
  obTarget :: "int option"
  obState :: int
  obFailure :: "int option"
  obResultKind :: "int option"
  obResultGUID :: "int option"
  obDelivery :: int
  obAvailableAt :: int
  obDeliveredAt :: "int option"
  obAttempts :: int

record response_row = audit_fields +
  rpOperation :: int
  rpTarget :: int
  rpLifecycle :: int
  rpIntegrity :: int
  rpHMAC :: "bytes option"
  rpStatus :: int
  rpMediaType :: bytes
  rpBody :: bytes
  rpSHA256 :: bytes

record tables =
  tUsers :: "user_row list"
  tSessions :: "session_row list"
  tHeads :: "policy_head list"
  tRules :: "policy_rule list"
  tEvents :: "auth_event list"
  tTokens :: "gateway_token list"
  tLogs :: "audit_log list"
  tOutbox :: "outbox_row list"
  tResponses :: "response_row list"
  tNextID :: int

definition actionAccount :: "user_row \<Rightarrow> account" where
  "actionAccount u = \<lparr>aID = rID u, aGUID = rGUID u, aRole = uRole u, aStatus = uStatus u, aDeleted = rDeleted u\<rparr>"

section \<open>Statements\<close>

definition sql_first :: "(('a audit_fields_scheme) \<Rightarrow> bool) \<Rightarrow> ('a audit_fields_scheme) list \<Rightarrow> ('a audit_fields_scheme) option" where
  "sql_first P rows = (case sort_key rID (filter P rows) of [] \<Rightarrow> None | r # rs \<Rightarrow> Some r)"

definition sql_find :: "(('a audit_fields_scheme) \<Rightarrow> bool) \<Rightarrow> ('a audit_fields_scheme) list \<Rightarrow> ('a audit_fields_scheme) list" where
  "sql_find P rows = sort_key rID (filter P rows)"

definition sql_update :: "('r \<Rightarrow> bool) \<Rightarrow> ('r \<Rightarrow> 'r) \<Rightarrow> 'r list \<Rightarrow> 'r list" where
  "sql_update P f rows = map (\<lambda>r. if P r then f r else r) rows"

definition sql_affected :: "('r \<Rightarrow> bool) \<Rightarrow> 'r list \<Rightarrow> nat" where
  "sql_affected P rows = length (filter P rows)"

lemma sql_first_cases:
  obtains (none) "sql_first P rows = None" "\<forall>r \<in> set rows. \<not> P r"
  | (some) r where "sql_first P rows = Some r" "r \<in> set rows" "P r"
proof (cases "sort_key rID (filter P rows)")
  case Nil
  then have "set (sort_key rID (filter P rows)) = {}" by (simp only: list.set)
  then have "\<forall>r \<in> set rows. \<not> P r" by simp
  then show thesis using none Nil by (simp add: sql_first_def)
next
  case (Cons r rs)
  then have "r \<in> set (sort_key rID (filter P rows))" by (simp only: list.set) simp
  then have "r \<in> set rows \<and> P r" by simp
  then show thesis using some Cons by (simp add: sql_first_def)
qed

lemma sql_first_None [simp]: "sql_first P rows = None \<longleftrightarrow> (\<forall>r \<in> set rows. \<not> P r)"
  by (rule sql_first_cases[of P rows]) auto

lemma sql_firstD: "sql_first P rows = Some r \<Longrightarrow> r \<in> set rows \<and> P r"
  by (rule sql_first_cases[of P rows]) auto

lemma sql_first_unique:
  "r \<in> set rows \<Longrightarrow> P r \<Longrightarrow> (\<And>q. q \<in> set rows \<Longrightarrow> P q \<Longrightarrow> q = r) \<Longrightarrow> sql_first P rows = Some r"
  by (metis option.exhaust sql_firstD sql_first_None)

lemma set_sql_find [simp]: "set (sql_find P rows) = {r \<in> set rows. P r}"
  by (simp add: sql_find_def)

lemma length_sql_find [simp]: "length (sql_find P rows) = sql_affected P rows"
  by (simp add: sql_find_def sql_affected_def)

lemma set_sql_update: "set (sql_update P f rows) = f ` {r \<in> set rows. P r} \<union> {r \<in> set rows. \<not> P r}"
  by (auto simp: sql_update_def)

lemma sql_update_none: "(\<And>r. r \<in> set rows \<Longrightarrow> \<not> P r) \<Longrightarrow> sql_update P f rows = rows"
  by (auto simp: sql_update_def intro: map_idI)

end
