(* ===== verification/Role_Transaction.thy ===== *)
theory Role_Transaction
  imports Role_Permissions Admin_Tables Action_Value
begin

text \<open>
  The transaction of a role or permission change (\<open>service/action_roles_permissions_tx.go\<close> and the facts
  of \<open>action_roles_permissions_writers.go\<close>): the locking reads, the comparison of the operation with the
  one that was locked, and the writes.  The environment says which SQL statement fails, which SID Redis
  refuses to mark, which GUIDs the generator returns and what the clock shows.  An execution that
  returns an error is rolled back by its caller, so its result carries no tables; what it has already
  marked in Redis stays, and is returned.
\<close>

section \<open>State and environment\<close>

record tx_env =
  envTransaction :: bool
  envFault :: "nat \<Rightarrow> bool"
  envMark :: "bytes \<Rightarrow> bool"
  envGUID :: "nat \<Rightarrow> int"
  envNow :: int

record operation_binding =
  bnID :: int
  bnGUID :: int
  bnCreatedAt :: int
  bnUpdatedAt :: int
  bnCreatedBy :: int
  bnCreatedBySet :: bool
  bnUpdatedBy :: int
  bnUpdatedBySet :: bool
  bnDeleted :: int
  bnActor :: int
  bnAuthVersion :: int
  bnSession :: int
  bnAction :: int
  bnVerification :: int
  bnState :: int
  bnPublicRef :: bytes
  bnRequestHMAC :: bytes
  bnIdempotencyHMAC :: bytes
  bnLeaseOwner :: bytes
  bnLeaseExpires :: int
  bnQueryExpires :: int

record audit_facts =
  afTarget :: int
  afTargetGUID :: int
  afBeforeAuth :: int
  afAfterAuth :: int
  afBeforePolicy :: int
  afAfterPolicy :: int
  afCatalog :: int
  afBeforeRole :: int
  afAfterRole :: int
  afBeforeCount :: int
  afAfterCount :: int

record locked_state =
  lkActor :: int
  lkBinding :: operation_binding
  lkTarget :: user_row
  lkSessions :: "session_row list"
  lkHead :: "policy_head option"
  lkRules :: "override_intent list"

text \<open>\<open>rolePermissionTransactionalState\<close>: what was locked (\<open>prelocked\<close>), and the once-only flags; \<open>xsBegun\<close> is
  the flag of the base execution.\<close>

record role_state =
  xsLocked :: "locked_state option"
  xsStarted :: bool
  xsBegun :: bool
  xsAuditStarted :: bool
  xsFacts :: "audit_facts option"

record outcome =
  toFailure :: "int option"
  toResultKind :: int
  toResultGUID :: "int option"
  toAuthVersion :: "int option"
  toPolicyVersion :: "int option"
  toRole :: "int option"
  toHTTP :: int

text \<open>The errors of the operation service; \<open>ErrRolePermission\<close> carries the business failure, \<open>ErrCommitUnknown\<close> the
  public reference.\<close>

datatype operation_error =
    ErrOperationInactive | ErrOperationForbidden | ErrOperationHidden | ErrOperationConflict | ErrOperationCrossSession
  | ErrOperationExpired | ErrOperationUnavailable | ErrRolePermission int | ErrRetryAfter int | ErrCommitUnknown bytes

section \<open>Binding an operation\<close>

definition opt_int :: "int option \<Rightarrow> int" where
  "opt_int x = (case x of None \<Rightarrow> 0 | Some v \<Rightarrow> v)"

definition opt_bytes :: "bytes option \<Rightarrow> bytes" where
  "opt_bytes x = (case x of None \<Rightarrow> [] | Some v \<Rightarrow> v)"

definition captureRolePermissionOperationBinding :: "operation_row \<Rightarrow> operation_binding" where
  "captureRolePermissionOperationBinding op =
     \<lparr>bnID = rID op, bnGUID = rGUID op, bnCreatedAt = rCreatedAt op, bnUpdatedAt = rUpdatedAt op,
      bnCreatedBy = opt_int (rCreatedBy op), bnCreatedBySet = (rCreatedBy op \<noteq> None),
      bnUpdatedBy = opt_int (rUpdatedBy op), bnUpdatedBySet = (rUpdatedBy op \<noteq> None), bnDeleted = rDeleted op,
      bnActor = opActor op, bnAuthVersion = opAuthVersion op, bnSession = opSession op, bnAction = opAction op,
      bnVerification = opt_int (opVerification op), bnState = opState op, bnPublicRef = opPublicRef op,
      bnRequestHMAC = opRequestHMAC op, bnIdempotencyHMAC = opIdempotencyHMAC op,
      bnLeaseOwner = opt_bytes (opLeaseOwner op), bnLeaseExpires = opt_int (opLeaseExpires op),
      bnQueryExpires = opQueryExpires op\<rparr>"

definition binding_matches :: "operation_binding \<Rightarrow> operation_row \<Rightarrow> bool" where
  "binding_matches b op \<longleftrightarrow>
     bnID b = rID op \<and> bnGUID b = rGUID op \<and> bnCreatedAt b = rCreatedAt op \<and> bnUpdatedAt b = rUpdatedAt op \<and>
     bnCreatedBySet b = (rCreatedBy op \<noteq> None) \<and> bnCreatedBy b = opt_int (rCreatedBy op) \<and>
     bnUpdatedBySet b = (rUpdatedBy op \<noteq> None) \<and> bnUpdatedBy b = opt_int (rUpdatedBy op) \<and>
     bnDeleted b = rDeleted op \<and> bnActor b = opActor op \<and> bnAuthVersion b = opAuthVersion op \<and>
     bnSession b = opSession op \<and> bnAction b = opAction op \<and> bnVerification b = opt_int (opVerification op) \<and>
     bnState b = opState op \<and> bnPublicRef b = opPublicRef op \<and> bnRequestHMAC b = opRequestHMAC op \<and>
     bnIdempotencyHMAC b = opIdempotencyHMAC op \<and> bnLeaseOwner b = opt_bytes (opLeaseOwner op) \<and>
     bnLeaseExpires b = opt_int (opLeaseExpires op) \<and> bnQueryExpires b = opQueryExpires op"

definition validBinding :: "role_execution \<Rightarrow> operation_row \<Rightarrow> verification_row \<Rightarrow> bool" where
  "validBinding x op v \<longleftrightarrow>
     validLocalInvariant x \<and> \<not> isl (ParsePublicRef (opPublicRef op)) \<and> 0 < rID op \<and> 0 < rGUID op \<and> 0 < rCreatedAt op \<and>
     rCreatedAt op \<le> rUpdatedAt op \<and> rCreatedBy op = Some (opActor op) \<and> rUpdatedBy op = Some (opActor op) \<and>
     0 < opActor op \<and> 0 < opAuthVersion op \<and> opAuthVersion op \<le> maxInt32 \<and> 0 < opSession op \<and>
     opAction op = invariant_action x \<and>
     (case opVerification op of None \<Rightarrow> False | Some vid \<Rightarrow> 0 < vid \<and> rID v = vid) \<and>
     opState op = OperationProcessing \<and> rDeleted op = 0 \<and>
     (case opLeaseOwner op of None \<Rightarrow> False | Some own \<Rightarrow> length own = 64) \<and>
     (case opLeaseExpires op of None \<Rightarrow> False | Some e \<Rightarrow> 0 < e) \<and> 0 < opQueryExpires op \<and>
     opRequestHMAC op = exHMAC x \<and> vActor v = opActor op \<and> vAuthVersion v = opAuthVersion op \<and>
     vSession v = opSession op \<and> vAction v = opAction op \<and> vTargetKind v = TargetUser \<and>
     vTarget v = Some (intent_target (exIntent x)) \<and> vConsumedAt v = None \<and> rDeleted v = 0 \<and> 0 < vExpiresAt v \<and>
     vIntentHMAC v = exHMAC x"

section \<open>The locking reads\<close>

fun sessions_valid :: "int \<Rightarrow> int \<Rightarrow> session_row list \<Rightarrow> bool" where
  "sessions_valid target prev [] = True"
| "sessions_valid target prev (s # ss) =
     (\<not> (rID s \<le> prev \<or> rGUID s \<le> 0 \<or> sSID s = [] \<or> sUser s \<noteq> target \<or> sVersion s \<le> 0 \<or> maxInt32 \<le> sVersion s \<or>
         rDeleted s \<noteq> 0 \<or> sRevokedAt s \<noteq> None \<or> sExpiresAt s \<le> 0) \<and>
      sessions_valid target (rID s) ss)"

definition validRolePermissionSessions :: "session_row list \<Rightarrow> int \<Rightarrow> bool" where
  "validRolePermissionSessions ss target = sessions_valid target 0 ss"

fun locked_rules :: "int \<Rightarrow> int \<Rightarrow> policy_rule list \<Rightarrow> override_intent list option" where
  "locked_rules target prev [] = Some []"
| "locked_rules target prev (p # ps) =
     (case PermissionCapabilityName (pCapability p) of
        None \<Rightarrow> None
      | Some name \<Rightarrow>
          if rID p \<le> prev \<or> rGUID p \<le> 0 \<or> pUser p \<noteq> target \<or> rDeleted p \<noteq> 0 \<or> pVersion p \<le> 0 \<or>
             (pEffect p \<noteq> 2 \<and> pEffect p \<noteq> 3)
          then None
          else map_option ((#) \<lparr>poCapability = name, poEffect = pEffect p\<rparr>) (locked_rules target (rID p) ps))"

definition rolePermissionLockedRules :: "policy_rule list \<Rightarrow> int \<Rightarrow> override_intent list option" where
  "rolePermissionLockedRules rows target = locked_rules target 0 rows"

definition active_user :: "int \<Rightarrow> user_row \<Rightarrow> bool" where
  "active_user uid u \<longleftrightarrow> rID u = uid \<and> rDeleted u = 0"

definition live_session :: "int \<Rightarrow> session_row \<Rightarrow> bool" where
  "live_session uid s \<longleftrightarrow> sUser s = uid \<and> rDeleted s = 0 \<and> sRevokedAt s = None"

definition live_head :: "int \<Rightarrow> policy_head \<Rightarrow> bool" where
  "live_head uid h \<longleftrightarrow> hUser h = uid \<and> rDeleted h = 0"

definition live_rule :: "int \<Rightarrow> policy_rule \<Rightarrow> bool" where
  "live_rule uid p \<longleftrightarrow> pUser p = uid \<and> rDeleted p = 0"

definition head_consistent :: "policy_head option \<Rightarrow> policy_rule list \<Rightarrow> bool" where
  "head_consistent head rows =
     (case head of None \<Rightarrow> True | Some h \<Rightarrow> hRuleCount h = int (length rows) \<and> list_all (\<lambda>p. pVersion p = hVersion h) rows)"

text \<open>The reads of \<open>prelockForAuthorization\<close>, statements 0 to 4; the locked rows.\<close>

definition prelock_reads :: "tx_env \<Rightarrow> role_execution \<Rightarrow> operation_row \<Rightarrow> tables \<Rightarrow> operation_error + locked_state" where
  "prelock_reads env x op t =
     (let guid = intent_target (exIntent x) in
      case (if envFault env 0 then None else sql_first (active_user (opActor op)) (tUsers t)) of
        None \<Rightarrow> Inl ErrOperationUnavailable
      | Some actor \<Rightarrow>
      if rID actor \<noteq> opActor op \<or> rGUID actor \<le> 0 \<or> rDeleted actor \<noteq> 0 \<or> uAuthVersion actor \<noteq> opAuthVersion op
      then Inl ErrOperationForbidden
      else case (if envFault env 1 then None else sql_first (\<lambda>u. rGUID u = guid \<and> rDeleted u = 0) (tUsers t)) of
        None \<Rightarrow> Inl ErrOperationUnavailable
      | Some target \<Rightarrow>
      if rID target \<le> 0 \<or> rGUID target \<noteq> guid \<or> rDeleted target \<noteq> 0 \<or> uAuthVersion target \<le> 0
      then Inl ErrOperationForbidden
      else if envFault env 2 then Inl ErrOperationUnavailable
      else let sessions = sql_find (live_session (rID target)) (tSessions t) in
      if \<not> validRolePermissionSessions sessions (rID target) then Inl ErrOperationUnavailable
      else if envFault env 3 then Inl ErrOperationUnavailable
      else let head = sql_first (live_head (rID target)) (tHeads t) in
      if (case head of None \<Rightarrow> False
          | Some h \<Rightarrow> rID h \<le> 0 \<or> rGUID h \<le> 0 \<or> hUser h \<noteq> rID target \<or> rDeleted h \<noteq> 0) then Inl ErrOperationUnavailable
      else if envFault env 4 then Inl ErrOperationUnavailable
      else let rows = sql_find (live_rule (rID target)) (tRules t) in
      case rolePermissionLockedRules rows (rID target) of
        None \<Rightarrow> Inl ErrOperationUnavailable
      | Some rules \<Rightarrow>
      if \<not> head_consistent head rows then Inl ErrOperationUnavailable
      else Inr \<lparr>lkActor = rGUID actor, lkBinding = captureRolePermissionOperationBinding op, lkTarget = target,
                lkSessions = sessions, lkHead = head, lkRules = rules\<rparr>)"

definition prelockForAuthorization ::
  "tx_env \<Rightarrow> role_execution \<Rightarrow> operation_row \<Rightarrow> verification_row \<Rightarrow> tables \<Rightarrow> role_state \<Rightarrow>
   (operation_error + user_row) \<times> role_state" where
  "prelockForAuthorization env x op v t st =
     (if \<not> envTransaction env \<or> \<not> validBinding x op v then (Inl ErrOperationForbidden, st)
      else case prelock_reads env x op t of
        Inl er \<Rightarrow> (Inl er, st)
      | Inr lk \<Rightarrow>
          if xsLocked st \<noteq> None \<or> xsStarted st then (Inl ErrOperationUnavailable, st)
          else (Inr (lkTarget lk), st\<lparr>xsLocked := Some lk\<rparr>))"

section \<open>Planning on the locked rows\<close>

definition locked_plan :: "role_execution \<Rightarrow> locked_state \<Rightarrow> int + transition_plan" where
  "locked_plan x lk =
     (let u = lkTarget lk in
      PlanTransition x
        \<lparr>tsActor = lkActor lk, tsTarget = rGUID u, tsRole = uRole u, tsStatus = uStatus u, tsAuthVersion = uAuthVersion u,
         tsDeleted = (rDeleted u \<noteq> 0)\<rparr>
        (map_option (\<lambda>h. \<lparr>psVersion = hVersion h, psCatalog = hCatalog h\<rparr>) (lkHead lk)) (lkRules lk))"

text \<open>\<open>preflightLocked\<close>: the failure the execution would end with, if any.\<close>

definition preflightLocked :: "tx_env \<Rightarrow> role_execution \<Rightarrow> operation_row \<Rightarrow> role_state \<Rightarrow> operation_error + int option" where
  "preflightLocked env x op st =
     (case xsLocked st of
        None \<Rightarrow> Inl ErrOperationUnavailable
      | Some lk \<Rightarrow>
          if \<not> envTransaction env \<or> xsStarted st \<or> \<not> binding_matches (lkBinding lk) op then Inl ErrOperationUnavailable
          else if rID (lkTarget lk) = opActor op then Inr (Some FailureActionRejected)
          else case locked_plan x lk of Inl f \<Rightarrow> Inr (Some f) | Inr plan \<Rightarrow> Inr None)"

definition recordAuditFacts :: "role_execution \<Rightarrow> locked_state \<Rightarrow> transition_plan \<Rightarrow> role_state \<Rightarrow> role_state option" where
  "recordAuditFacts x lk plan st =
     (let u = lkTarget lk; n = length Catalog;
          before = (case lkHead lk of None \<Rightarrow> 0 | Some h \<Rightarrow> hVersion h) in
      if rID u \<le> 0 \<or> rGUID u \<noteq> intent_target (exIntent x) \<or> uAuthVersion u \<le> 0 \<or> tpAuthVersion plan \<noteq> uAuthVersion u + 1 \<or>
         tpNextPolicy plan \<le> 0 \<or> tpCatalog plan \<noteq> PermissionCatalogVersion \<or> n < length (lkRules lk) \<or> n < length (tpRules plan) \<or>
         (case lkHead lk of None \<Rightarrow> False | Some h \<Rightarrow> hVersion h \<le> 0 \<or> hCatalog h \<noteq> PermissionCatalogVersion) \<or>
         tpExpectedPolicy plan \<noteq> before \<or> tpNextPolicy plan \<noteq> before + 1
      then None
      else if xsFacts st \<noteq> None \<or> xsAuditStarted st then None
      else Some (st\<lparr>xsFacts := Some
        \<lparr>afTarget = rID u, afTargetGUID = rGUID u, afBeforeAuth = uAuthVersion u, afAfterAuth = tpAuthVersion plan,
         afBeforePolicy = before, afAfterPolicy = tpNextPolicy plan, afCatalog = tpCatalog plan, afBeforeRole = uRole u,
         afAfterRole = tpRole plan, afBeforeCount = int (length (lkRules lk)), afAfterCount = int (length (tpRules plan))\<rparr>\<rparr>))"

end
