(* ===== verification/Role_Execute.thy ===== *)
theory Role_Execute
  imports Role_Transaction
begin

text \<open>
  The writes of a role or permission change (\<open>Execute\<close> of \<open>action_roles_permissions_tx.go\<close>) and the
  policy reader (\<open>permission_snapshot.go\<close>) that every later authorization of the target goes through.
  The work of a transaction is its tables so far, how many GUIDs it has drawn and how many statements it
  has issued (the first five are the locking reads); \<open>None\<close> is the unavailable error.
\<close>

section \<open>Statements in a transaction\<close>

record work =
  wTables :: tables
  wGUIDs :: nat
  wStmt :: nat

definition sql_stmt :: "tx_env \<Rightarrow> (tables \<Rightarrow> tables \<times> nat) \<Rightarrow> nat \<Rightarrow> work \<Rightarrow> work option" where
  "sql_stmt env f n w =
     (if envFault env (wStmt w) then None
      else let (t, affected) = f (wTables w)
           in if affected \<noteq> n then None else Some (w\<lparr>wTables := t, wStmt := wStmt w + 1\<rparr>))"

definition nextGUID :: "tx_env \<Rightarrow> work \<Rightarrow> (int \<times> work) option" where
  "nextGUID env w =
     (let g = envGUID env (wGUIDs w) in if g \<le> 0 then None else Some (g, w\<lparr>wGUIDs := wGUIDs w + 1\<rparr>))"

text \<open>An insert takes the next key and fails when a unique index of the schema already holds the row's values.\<close>

definition insert_event :: "auth_event \<Rightarrow> tables \<Rightarrow> tables \<times> nat" where
  "insert_event ev t =
     (if \<exists>e \<in> set (tEvents t). rGUID e = rGUID ev then (t, 0)
      else (t\<lparr>tEvents := tEvents t @ [ev\<lparr>rID := tNextID t\<rparr>], tNextID := tNextID t + 1\<rparr>, 1))"

definition insert_rule :: "policy_rule \<Rightarrow> tables \<Rightarrow> tables \<times> nat" where
  "insert_rule p t =
     (if \<exists>q \<in> set (tRules t). rGUID q = rGUID p \<or>
           (pUser q = pUser p \<and> pVersion q = pVersion p \<and> pCapability q = pCapability p) then (t, 0)
      else (t\<lparr>tRules := tRules t @ [p\<lparr>rID := tNextID t\<rparr>], tNextID := tNextID t + 1\<rparr>, 1))"

definition insert_head :: "policy_head \<Rightarrow> tables \<Rightarrow> tables \<times> nat" where
  "insert_head h t =
     (if \<exists>g \<in> set (tHeads t). rGUID g = rGUID h \<or> hUser g = hUser h then (t, 0)
      else (t\<lparr>tHeads := tHeads t @ [h\<lparr>rID := tNextID t\<rparr>], tNextID := tNextID t + 1\<rparr>, 1))"

section \<open>The writes\<close>

definition AuthAuditEventSessionRevoked :: int where "AuthAuditEventSessionRevoked = 6"
definition AuthAuditEventManagedUserUpdated :: int where "AuthAuditEventManagedUserUpdated = 10"

definition session_current :: "session_row \<Rightarrow> session_row \<Rightarrow> bool" where
  "session_current s r \<longleftrightarrow>
     rID r = rID s \<and> sUser r = sUser s \<and> rDeleted r = 0 \<and> sRevokedAt r = None \<and> sVersion r = sVersion s"

definition revokeSession :: "tx_env \<Rightarrow> int \<Rightarrow> int \<Rightarrow> session_row \<Rightarrow> work \<Rightarrow> work option" where
  "revokeSession env actor now s w =
     Option.bind
       (sql_stmt env (\<lambda>t. (t\<lparr>tSessions := sql_update (session_current s)
           (\<lambda>r. r\<lparr>sRevokedAt := Some now, sVersion := sVersion s + 1, rUpdatedAt := now, rUpdatedBy := Some actor\<rparr>)
           (tSessions t)\<rparr>, sql_affected (session_current s) (tSessions t))) 1 w) (\<lambda>w.
     Option.bind (nextGUID env w) (\<lambda>(g, w).
     sql_stmt env (insert_event
         \<lparr>rID = 0, rGUID = g, rCreatedAt = now, rCreatedBy = Some actor, rUpdatedAt = now, rUpdatedBy = Some actor,
          rDeleted = 0, evUser = Some (sUser s), evSession = Some (rGUID s), evType = AuthAuditEventSessionRevoked,
          evLoginMethod = Some (sLoginMethod s),
          evIP = None, evUserAgent = None\<rparr>) 1 w))"

fun revoke_all :: "tx_env \<Rightarrow> int \<Rightarrow> int \<Rightarrow> session_row list \<Rightarrow> work \<Rightarrow> work option" where
  "revoke_all env actor now [] w = Some w"
| "revoke_all env actor now (s # ss) w = Option.bind (revokeSession env actor now s w) (revoke_all env actor now ss)"

definition user_current :: "user_row \<Rightarrow> user_row \<Rightarrow> bool" where
  "user_current u r \<longleftrightarrow>
     rID r = rID u \<and> rGUID r = rGUID u \<and> rDeleted r = 0 \<and> uAuthVersion r = uAuthVersion u \<and> uRole r = uRole u \<and>
     uStatus r = uStatus u"

definition write_user :: "tx_env \<Rightarrow> int \<Rightarrow> int \<Rightarrow> user_row \<Rightarrow> transition_plan \<Rightarrow> work \<Rightarrow> work option" where
  "write_user env actor now u plan =
     sql_stmt env (\<lambda>t. (t\<lparr>tUsers := sql_update (user_current u)
         (\<lambda>r. r\<lparr>uRole := tpRole plan, uAuthVersion := tpAuthVersion plan, rUpdatedAt := now, rUpdatedBy := Some actor\<rparr>)
         (tUsers t)\<rparr>, sql_affected (user_current u) (tUsers t))) 1"

definition tombstone_rules :: "tx_env \<Rightarrow> int \<Rightarrow> int \<Rightarrow> int \<Rightarrow> override_intent list \<Rightarrow> work \<Rightarrow> work option" where
  "tombstone_rules env actor now uid rules w =
     (if rules = [] then Some w
      else sql_stmt env (\<lambda>t. (t\<lparr>tRules := sql_update (live_rule uid)
          (\<lambda>p. p\<lparr>rDeleted := 1, rUpdatedAt := now, rUpdatedBy := Some actor\<rparr>) (tRules t)\<rparr>,
          sql_affected (live_rule uid) (tRules t))) (length rules) w)"

fun create_rules :: "tx_env \<Rightarrow> int \<Rightarrow> int \<Rightarrow> int \<Rightarrow> int \<Rightarrow> override_intent list \<Rightarrow> work \<Rightarrow> work option" where
  "create_rules env actor now uid version [] w = Some w"
| "create_rules env actor now uid version (r # rs) w =
     (case PermissionCapabilityCode (poCapability r) of
        None \<Rightarrow> None
      | Some code \<Rightarrow>
          Option.bind (nextGUID env w) (\<lambda>(g, w).
          Option.bind (sql_stmt env (insert_rule
            \<lparr>rID = 0, rGUID = g, rCreatedAt = now, rCreatedBy = Some actor, rUpdatedAt = now, rUpdatedBy = Some actor,
             rDeleted = 0, pUser = uid, pVersion = version, pCapability = code, pEffect = poEffect r\<rparr>) 1 w)
            (create_rules env actor now uid version rs)))"

definition head_current :: "policy_head \<Rightarrow> int \<Rightarrow> int \<Rightarrow> policy_head \<Rightarrow> bool" where
  "head_current h uid expected r \<longleftrightarrow>
     rID r = rID h \<and> hUser r = uid \<and> rDeleted r = 0 \<and> hVersion r = expected \<and> hCatalog r = hCatalog h"

definition write_head :: "tx_env \<Rightarrow> int \<Rightarrow> int \<Rightarrow> int \<Rightarrow> policy_head option \<Rightarrow> transition_plan \<Rightarrow> work \<Rightarrow> work option" where
  "write_head env actor now uid head plan w =
     (case head of
        None \<Rightarrow>
          Option.bind (nextGUID env w) (\<lambda>(g, w). sql_stmt env (insert_head
            \<lparr>rID = 0, rGUID = g, rCreatedAt = now, rCreatedBy = Some actor, rUpdatedAt = now, rUpdatedBy = Some actor,
             rDeleted = 0, hUser = uid, hVersion = tpNextPolicy plan, hCatalog = tpCatalog plan,
             hRuleCount = int (length (tpRules plan))\<rparr>) 1 w)
      | Some h \<Rightarrow>
          sql_stmt env (\<lambda>t. (t\<lparr>tHeads := sql_update (head_current h uid (tpExpectedPolicy plan))
            (\<lambda>r. r\<lparr>hVersion := tpNextPolicy plan, hCatalog := tpCatalog plan, hRuleCount := int (length (tpRules plan)),
               rUpdatedAt := now, rUpdatedBy := Some actor\<rparr>) (tHeads t)\<rparr>,
            sql_affected (head_current h uid (tpExpectedPolicy plan)) (tHeads t))) 1 w)"

definition writeManagedUpdateAudit :: "tx_env \<Rightarrow> int \<Rightarrow> int \<Rightarrow> int \<Rightarrow> work \<Rightarrow> work option" where
  "writeManagedUpdateAudit env actor uid now w =
     Option.bind (nextGUID env w) (\<lambda>(g, w). sql_stmt env (insert_event
       \<lparr>rID = 0, rGUID = g, rCreatedAt = now, rCreatedBy = Some actor, rUpdatedAt = now, rUpdatedBy = Some actor,
        rDeleted = 0, evUser = Some uid, evSession = None, evType = AuthAuditEventManagedUserUpdated,
        evLoginMethod = None, evIP = None, evUserAgent = None\<rparr>) 1 w)"

text \<open>All database writes of \<open>Execute\<close>, in order.\<close>

definition apply_plan :: "tx_env \<Rightarrow> int \<Rightarrow> int \<Rightarrow> locked_state \<Rightarrow> transition_plan \<Rightarrow> work \<Rightarrow> work option" where
  "apply_plan env actor now lk plan w =
     (let uid = rID (lkTarget lk) in
      Option.bind (revoke_all env actor now (lkSessions lk) w) (\<lambda>w.
      Option.bind (write_user env actor now (lkTarget lk) plan w) (\<lambda>w.
      Option.bind (tombstone_rules env actor now uid (lkRules lk) w) (\<lambda>w.
      Option.bind (create_rules env actor now uid (tpNextPolicy plan) (tpRules plan) w) (\<lambda>w.
      Option.bind (write_head env actor now uid (lkHead lk) plan w)
        (writeManagedUpdateAudit env actor uid now))))))"

section \<open>Execute\<close>

definition actionOperationQueryRetentionMS :: int where "actionOperationQueryRetentionMS = 2592000000"

definition validOperationNow :: "int \<Rightarrow> bool" where
  "validOperationNow now \<longleftrightarrow> 0 < now \<and> now \<le> maxInt64 - actionOperationQueryRetentionMS"

text \<open>Marking stops at the first session that Redis refuses; what was marked stays marked.\<close>

fun mark_sessions :: "tx_env \<Rightarrow> session_row list \<Rightarrow> bytes list \<times> bool" where
  "mark_sessions env [] = ([], True)"
| "mark_sessions env (s # ss) =
     (if envMark env (sSID s) then (let (ms, ok) = mark_sessions env ss in (sSID s # ms, ok)) else ([], False))"

definition failure_outcome :: "int \<Rightarrow> outcome" where
  "failure_outcome f =
     \<lparr>toFailure = Some f, toResultKind = 0, toResultGUID = None, toAuthVersion = None, toPolicyVersion = None, toRole = None,
      toHTTP = 409\<rparr>"

definition ResultUser :: int where "ResultUser = 2"

definition success_outcome :: "locked_state \<Rightarrow> transition_plan \<Rightarrow> outcome" where
  "success_outcome lk plan =
     \<lparr>toFailure = None, toResultKind = ResultUser, toResultGUID = Some (rGUID (lkTarget lk)),
      toAuthVersion = Some (tpAuthVersion plan), toPolicyVersion = Some (tpNextPolicy plan), toRole = Some (tpRole plan),
      toHTTP = 200\<rparr>"

definition Execute_role ::
  "tx_env \<Rightarrow> role_execution \<Rightarrow> operation_row \<Rightarrow> tables \<Rightarrow> role_state \<Rightarrow>
   (outcome \<times> tables) option \<times> role_state \<times> bytes list" where
  "Execute_role env x op t st =
     (if \<not> envTransaction env then (None, st, [])
      else case xsLocked st of
        None \<Rightarrow> (None, st\<lparr>xsStarted := True\<rparr>, [])
      | Some lk \<Rightarrow>
      if xsStarted st then (None, st, [])
      else let st = st\<lparr>xsStarted := True, xsLocked := Some (lk\<lparr>lkSessions := [], lkRules := []\<rparr>)\<rparr> in
      if \<not> binding_matches (lkBinding lk) op \<or> lkActor lk \<le> 0 then (None, st, [])
      else if xsBegun st then (None, st, [])
      else let st = st\<lparr>xsBegun := True\<rparr> in
      if opAction op \<noteq> invariant_action x \<or> opActor op \<le> 0 then (None, st, [])
      else if rID (lkTarget lk) = opActor op then (Some (failure_outcome FailureActionRejected, t), st, [])
      else case locked_plan x lk of
        Inl f \<Rightarrow> (Some (failure_outcome f, t), st, [])
      | Inr plan \<Rightarrow>
      case recordAuditFacts x lk plan st of
        None \<Rightarrow> (None, st, [])
      | Some st \<Rightarrow>
      let now = envNow env in
      if \<not> validOperationNow now \<or> now < rCreatedAt op \<or> now < rUpdatedAt op then (None, st, [])
      else let (marks, ok) = mark_sessions env (lkSessions lk) in
      if \<not> ok then (None, st, marks)
      else case apply_plan env (opActor op) now lk plan \<lparr>wTables = t, wGUIDs = 0, wStmt = 5\<rparr> of
        None \<Rightarrow> (None, st, marks)
      | Some w \<Rightarrow> (Some (success_outcome lk plan, wTables w), st, marks))"

section \<open>Reading a policy\<close>

datatype permission_error = ErrPermissionReadUnavailable | ErrPermissionActorUnavailable | ErrPermissionPolicyInvalid

record permission_snapshot =
  pmEvaluator :: evaluator
  pmAuthVersion :: int
  pmPolicyVersion :: int

fun policy_overrides :: "int \<Rightarrow> policy_rule list \<Rightarrow> override list option" where
  "policy_overrides version [] = Some []"
| "policy_overrides version (p # ps) =
     (if rID p \<le> 0 \<or> rGUID p \<le> 0 \<or> rDeleted p \<noteq> 0 \<or> pVersion p \<noteq> version then None
      else case PermissionCapabilityName (pCapability p) of
        None \<Rightarrow> None
      | Some name \<Rightarrow>
          (case PermissionEffectName (pEffect p) of
             None \<Rightarrow> None
           | Some eff \<Rightarrow> map_option ((#) \<lparr>oCapability = name, oEffect = eff\<rparr>) (policy_overrides version ps)))"

text \<open>\<open>fault\<close>: which of the two statements fails.\<close>

definition readPermissionPolicyRows :: "(nat \<Rightarrow> bool) \<Rightarrow> tables \<Rightarrow> int \<Rightarrow> permission_error + (int \<times> override list)" where
  "readPermissionPolicyRows fault t uid =
     (if fault 0 then Inl ErrPermissionReadUnavailable
      else case sql_first (\<lambda>h. hUser h = uid) (tHeads t) of
        None \<Rightarrow>
          if fault 1 then Inl ErrPermissionReadUnavailable
          else if \<exists>p \<in> set (tRules t). pUser p = uid then Inl ErrPermissionPolicyInvalid
          else Inr (0, [])
      | Some h \<Rightarrow>
          if rID h \<le> 0 \<or> rGUID h \<le> 0 \<or> rDeleted h \<noteq> 0 \<or> hVersion h \<le> 0 \<or> hCatalog h \<noteq> PermissionCatalogVersion \<or>
             hRuleCount h < 0 \<or> int (length Catalog) < hRuleCount h
          then Inl ErrPermissionPolicyInvalid
          else if fault 1 then Inl ErrPermissionReadUnavailable
          else let rows = take (length Catalog + 1)
                     (sort_key pCapability (filter (\<lambda>p. pUser p = uid \<and> rDeleted p \<noteq> 1) (tRules t))) in
            if int (length rows) \<noteq> hRuleCount h then Inl ErrPermissionPolicyInvalid
            else case policy_overrides (hVersion h) rows of
              None \<Rightarrow> Inl ErrPermissionPolicyInvalid
            | Some rules \<Rightarrow> Inr (hVersion h, rules))"

definition LoadPermissionSnapshot ::
  "bool \<Rightarrow> (nat \<Rightarrow> bool) \<Rightarrow> tables \<Rightarrow> int \<Rightarrow> permission_error + permission_snapshot" where
  "LoadPermissionSnapshot root fault t uid =
     (if \<not> root \<or> uid \<le> 0 then Inl ErrPermissionReadUnavailable
      else if fault 2 then Inl ErrPermissionReadUnavailable
      else case sql_first (\<lambda>u. rID u = uid) (tUsers t) of
        None \<Rightarrow> Inl ErrPermissionActorUnavailable
      | Some user \<Rightarrow>
          let actor = actionAccount user in
          if uAuthVersion user \<le> 0 then Inl ErrPermissionActorUnavailable
          else if isl (NewEvaluator actor []) then Inl ErrPermissionActorUnavailable
          else case readPermissionPolicyRows fault t uid of
            Inl er \<Rightarrow> Inl er
          | Inr (version, rules) \<Rightarrow>
              (case NewEvaluator actor rules of
                 Inl er \<Rightarrow> Inl ErrPermissionPolicyInvalid
               | Inr e \<Rightarrow> Inr \<lparr>pmEvaluator = e, pmAuthVersion = uAuthVersion user, pmPolicyVersion = version\<rparr>))"

end
