(* ===== verification/Action_Operation.thy ===== *)
theory Action_Operation
  imports Role_Execute
begin

text \<open>
  The parts that the entry points of the operation service share (\<open>service/action_operation.go\<close>): the
  claims of a caller, the one-shot lease capability, the locking reads of actor, session and ticket, the
  relation of a ticket to an operation, authorization, expiry and the view.  A transaction runs on one
  state of the tables; the row locks that it takes make it atomic for everything it reads and writes.
\<close>

section \<open>State\<close>

record action_claims =
  clUser :: int
  clGUID :: int
  clAuthVersion :: int
  clSID :: bytes
  clSessionVersion :: int

record op_store =
  osTables :: tables
  osOps :: "operation_row list"
  osVers :: "verification_row list"
  osNextID :: int

record op_view =
  ovPublicRef :: bytes
  ovScope :: bytes
  ovStatus :: bytes
  ovFinishedAt :: "int option"
  ovFailureCode :: "bytes option"
  ovRetryAfter :: int
  ovTarget :: "int option"
  ovAuthVersion :: "int option"
  ovPolicyVersion :: "int option"
  ovRole :: "int option"

definition validOperationActorClaims :: "action_claims \<Rightarrow> bool" where
  "validOperationActorClaims a \<longleftrightarrow>
     0 < clUser a \<and> 0 < clGUID a \<and> 0 < clAuthVersion a \<and> length (clSID a) = 36 \<and> 0 < clSessionVersion a"

definition validOperationDescriptor :: "descriptor option \<Rightarrow> int \<Rightarrow> bool" where
  "validOperationDescriptor d action \<longleftrightarrow>
     (case d of
        None \<Rightarrow> False
      | Some d \<Rightarrow> acActive d \<and> acAction d = action \<and> acName d \<noteq> [] \<and> acCapability d \<noteq> [] \<and> acEncode d \<noteq> None)"

definition validOperationState :: "int \<Rightarrow> bool" where
  "validOperationState s \<longleftrightarrow>
     s = OperationProcessing \<or> s = OperationSucceeded \<or> s = OperationFailed \<or> s = OperationPendingRecovery \<or> s = OperationExpired"

section \<open>The lease capability\<close>

text \<open>Shared by every copy of an identity: the raw lease owner, all zero once cleared, and the consumed flag.\<close>

record lease_capability =
  lcRaw :: bytes
  lcConsumed :: bool

definition zero_lease :: bytes where "zero_lease = replicate 32 CHR 0x00"

definition newOperationLeaseCapability :: "bytes \<Rightarrow> lease_capability option" where
  "newOperationLeaseCapability raw = (if raw = zero_lease then None else Some \<lparr>lcRaw = raw, lcConsumed = False\<rparr>)"

definition take_lease :: "lease_capability option \<Rightarrow> bytes option \<times> lease_capability option" where
  "take_lease c =
     (case c of
        None \<Rightarrow> (None, None)
      | Some l \<Rightarrow>
          ((if lcConsumed l \<or> lcRaw l = zero_lease then None else Some (lcRaw l)),
           Some \<lparr>lcRaw = zero_lease, lcConsumed = True\<rparr>))"

definition discard_lease :: "lease_capability option \<Rightarrow> lease_capability option" where
  "discard_lease c = map_option (\<lambda>l. \<lparr>lcRaw = zero_lease, lcConsumed = True\<rparr>) c"

definition ReadyForExecution :: "lease_capability option \<Rightarrow> bool" where
  "ReadyForExecution c = (case c of None \<Rightarrow> False | Some l \<Rightarrow> \<not> lcConsumed l \<and> lcRaw l \<noteq> zero_lease)"

section \<open>Actor and session\<close>

definition validActionActor :: "user_row \<Rightarrow> bool" where
  "validActionActor u \<longleftrightarrow>
     0 < rID u \<and> 0 < rGUID u \<and> 0 < uAuthVersion u \<and> rDeleted u = 0 \<and> uStatus u = UserStatusActive \<and>
     (uRole u = UserRoleAdmin \<or> uRole u = UserRoleRoot) \<and> (case uPasswordHash u of None \<Rightarrow> False | Some h \<Rightarrow> h \<noteq> [])"

definition live_at :: "int \<Rightarrow> int \<Rightarrow> session_row \<Rightarrow> bool" where
  "live_at uid now s \<longleftrightarrow> sUser s = uid \<and> rDeleted s = 0 \<and> sRevokedAt s = None \<and> now < sExpiresAt s"

text \<open>Statements \<open>n\<close> and \<open>n + 1\<close>.  The loop over the candidates keeps the last match and counts the matches.\<close>

definition lockOperationActorSession ::
  "(nat \<Rightarrow> bool) \<Rightarrow> tables \<Rightarrow> action_claims \<Rightarrow> int \<Rightarrow> operation_error + (user_row \<times> session_row)" where
  "lockOperationActorSession fault t a now =
     (if \<not> validOperationActorClaims a \<or> now \<le> 0 then Inl ErrOperationForbidden
      else if fault 0 then Inl ErrOperationUnavailable
      else case sql_first (\<lambda>u. rID u = clUser a) (tUsers t) of
        None \<Rightarrow> Inl ErrOperationForbidden
      | Some u \<Rightarrow>
          if \<not> validActionActor u \<or> rGUID u \<noteq> clGUID a \<or> uAuthVersion u \<noteq> clAuthVersion a then Inl ErrOperationForbidden
          else if fault 1 then Inl ErrOperationUnavailable
          else (case filter (\<lambda>s. sSID s = clSID a) (sql_find (live_at (rID u) now) (tSessions t)) of
              [s] \<Rightarrow>
                if rID s \<le> 0 \<or> sUser s \<noteq> rID u \<or> sVersion s \<noteq> clSessionVersion a \<or> rDeleted s \<noteq> 0 \<or> sRevokedAt s \<noteq> None \<or>
                   sExpiresAt s \<le> now
                then Inl ErrOperationForbidden else Inr (u, s)
            | _ \<Rightarrow> Inl ErrOperationForbidden))"

section \<open>Tickets\<close>

definition lockOperationVerificationByTicket :: "bool \<Rightarrow> verification_row list \<Rightarrow> bytes \<Rightarrow> operation_error + verification_row" where
  "lockOperationVerificationByTicket fault vs ticketHex =
     (if length ticketHex \<noteq> 64 then Inl ErrOperationForbidden
      else if fault then Inl ErrOperationUnavailable
      else case sql_first (\<lambda>v. vTicketHMAC v = ticketHex) vs of None \<Rightarrow> Inl ErrOperationForbidden | Some v \<Rightarrow> Inr v)"

definition lockOperationVerificationByID :: "bool \<Rightarrow> verification_row list \<Rightarrow> int \<Rightarrow> operation_error + verification_row" where
  "lockOperationVerificationByID fault vs vid =
     (if vid \<le> 0 then Inl ErrOperationHidden
      else if fault then Inl ErrOperationUnavailable
      else case sql_first (\<lambda>v. rID v = vid) vs of None \<Rightarrow> Inl ErrOperationHidden | Some v \<Rightarrow> Inr v)"

definition parseOperationTicket :: "descriptor \<Rightarrow> bytes list \<Rightarrow> (bytes option) option" where
  "parseOperationTicket d values =
     (if \<not> acRequiresTicket d then (if values \<noteq> [] then None else Some None)
      else case ParseTicket values of Inl er \<Rightarrow> None | Inr raw \<Rightarrow> Some (Some raw))"

definition validOperationVerificationBinding ::
  "verification_row \<Rightarrow> user_row \<Rightarrow> session_row \<Rightarrow> descriptor \<Rightarrow> bytes \<Rightarrow> int option \<Rightarrow> bool" where
  "validOperationVerificationBinding v actor session d requestHex target \<longleftrightarrow>
     0 < rID v \<and> vActor v = rID actor \<and> vAuthVersion v = uAuthVersion actor \<and> vSession v = rID session \<and>
     vAction v = acAction d \<and> vTargetKind v = acTargetKind d \<and> vTarget v = target \<and> vIntentHMAC v = requestHex"

definition lockOperationBeginVerification ::
  "bool \<Rightarrow> verification_row list \<Rightarrow> descriptor \<Rightarrow> bytes \<Rightarrow> user_row \<Rightarrow> session_row \<Rightarrow> bytes \<Rightarrow> int option \<Rightarrow> int option \<Rightarrow> bool \<Rightarrow>
   operation_error + verification_row option" where
  "lockOperationBeginVerification fault vs d ticketHex actor session requestHex target expected existing =
     (if \<not> acRequiresTicket d then
        (if ticketHex \<noteq> [] \<or> expected \<noteq> None then Inl ErrOperationForbidden else Inr None)
      else case lockOperationVerificationByTicket fault vs ticketHex of
        Inl er \<Rightarrow> Inl er
      | Inr v \<Rightarrow>
          if (existing \<and> expected \<noteq> Some (rID v)) \<or> \<not> validOperationVerificationBinding v actor session d requestHex target
          then Inl ErrOperationForbidden else Inr (Some v))"

definition lockOperationQueryVerification ::
  "bool \<Rightarrow> verification_row list \<Rightarrow> descriptor \<Rightarrow> user_row \<Rightarrow> session_row \<Rightarrow> operation_row \<Rightarrow>
   operation_error + (verification_row option \<times> int option)" where
  "lockOperationQueryVerification fault vs d actor session op =
     (if \<not> acRequiresTicket d then
        (if opVerification op \<noteq> None \<or> acTargetKind d \<noteq> TargetNone then Inl ErrOperationHidden else Inr (None, None))
      else case opVerification op of
        None \<Rightarrow> Inl ErrOperationHidden
      | Some vid \<Rightarrow>
          (case lockOperationVerificationByID fault vs vid of
             Inl er \<Rightarrow> Inl er
           | Inr v \<Rightarrow>
               if \<not> validOperationVerificationBinding v actor session d (opRequestHMAC op) (vTarget v)
               then Inl ErrOperationHidden else Inr (Some v, vTarget v)))"

datatype ticket_relation = TicketInvalid | TicketActive | TicketExpiredUnconsumed | TicketConsumed

definition verificationRelationAt :: "verification_row \<Rightarrow> int \<Rightarrow> ticket_relation" where
  "verificationRelationAt v now =
     (if vExpiresAt v \<le> 0 \<or> (rDeleted v \<noteq> 0 \<and> rDeleted v \<noteq> 1) then TicketInvalid
      else case vConsumedAt v of
        Some c \<Rightarrow> if c \<le> 0 \<or> now < c \<or> rDeleted v \<noteq> 1 then TicketInvalid else TicketConsumed
      | None \<Rightarrow> if rDeleted v = 0 \<and> now < vExpiresAt v then TicketActive else TicketExpiredUnconsumed)"

definition validExistingBeginVerificationState :: "verification_row \<Rightarrow> int \<Rightarrow> int \<Rightarrow> bool" where
  "validExistingBeginVerificationState v st now =
     (let relation = verificationRelationAt v now in
      if st = OperationProcessing \<or> st = OperationPendingRecovery then relation = TicketActive
      else if st = OperationSucceeded \<or> st = OperationFailed then relation = TicketConsumed
      else if st = OperationExpired then relation \<noteq> TicketInvalid
      else False)"

definition deleted_fits :: "operation_row \<Rightarrow> bool" where
  "deleted_fits op \<longleftrightarrow> \<not> ((opState op = OperationExpired \<and> rDeleted op \<noteq> 1) \<or> (opState op \<noteq> OperationExpired \<and> rDeleted op \<noteq> 0))"

definition validOperationVerificationState :: "operation_row \<Rightarrow> verification_row \<Rightarrow> int \<Rightarrow> bool" where
  "validOperationVerificationState op v now =
     (if \<not> deleted_fits op then False
      else let relation = verificationRelationAt v now in
      if opState op = OperationProcessing \<or> opState op = OperationPendingRecovery
        then relation = TicketActive \<or> relation = TicketExpiredUnconsumed
      else if opState op = OperationSucceeded \<or> opState op = OperationFailed then relation = TicketConsumed
      else if opState op = OperationExpired then
        (if now < opQueryExpires op then False
         else (relation = TicketExpiredUnconsumed \<and> rDeleted v = 0) \<or> relation = TicketConsumed)
      else False)"

definition validOperationStateWithOptionalVerification :: "operation_row \<Rightarrow> verification_row option \<Rightarrow> int \<Rightarrow> bool" where
  "validOperationStateWithOptionalVerification op verification now =
     (case verification of
        Some v \<Rightarrow> opVerification op \<noteq> None \<and> validOperationVerificationState op v now
      | None \<Rightarrow>
          if opVerification op \<noteq> None \<or> \<not> deleted_fits op then False
          else if opState op = OperationExpired then opQueryExpires op \<le> now
          else opState op = OperationProcessing \<or> opState op = OperationPendingRecovery \<or> opState op = OperationSucceeded \<or>
               opState op = OperationFailed)"

section \<open>Authorization\<close>

definition operationDescriptorAuthorizationDecision :: "evaluator option \<Rightarrow> descriptor \<Rightarrow> account \<Rightarrow> decision" where
  "operationDescriptorAuthorizationDecision ev d target =
     (if ev = None then Denied
      else if acAction d = ActionUsersCreate \<or> acAction d = ActionUsersCreateAdmin \<or> acName d = ''users.create'' \<or>
              acName d = ''users.create_admin'' \<or> acCapability d = ''users.create'' then
        (if acAction d = ActionUsersCreate \<and> acName d = ''users.create'' \<and> acCapability d = ''users.create'' \<and>
            acTargetKind d = TargetNone \<and> \<not> acRootOnly d \<and> \<not> acRequiresTicket d then Evaluator_Create ev UserRoleUser
         else if acAction d = ActionUsersCreateAdmin \<and> acName d = ''users.create_admin'' \<and> acCapability d = ''users.create'' \<and>
            acTargetKind d = TargetNone \<and> acRootOnly d \<and> acRequiresTicket d then Evaluator_Create ev UserRoleAdmin
         else Denied)
      else if acTargetKind d = TargetNone then Evaluator_Resource ev (acCapability d)
      else if acTargetKind d = TargetUser then
        (if isA08RolePermissionAction (acAction d) then rolePermissionPreauthorizationDecision ev d target
         else Evaluator_User ev (acCapability d) target)
      else Denied)"

definition no_account :: account where
  "no_account = \<lparr>aID = 0, aGUID = 0, aRole = 0, aStatus = 0, aDeleted = 0\<rparr>"

text \<open>The decision on a known target, from the actor's stored policy.\<close>

definition authorize_decision :: "(nat \<Rightarrow> bool) \<Rightarrow> tables \<Rightarrow> user_row \<Rightarrow> descriptor \<Rightarrow> account \<Rightarrow> operation_error + unit" where
  "authorize_decision fault t actor d target =
     (case readPermissionPolicyRows fault t (rID actor) of
        Inl er \<Rightarrow> Inl ErrOperationUnavailable
      | Inr (version, rules) \<Rightarrow>
          (case NewEvaluator (actionAccount actor) rules of
             Inl er \<Rightarrow> Inl ErrOperationUnavailable
           | Inr ev \<Rightarrow>
               (let decision = operationDescriptorAuthorizationDecision (Some ev) d target in
                if decision = Hidden then Inl ErrOperationHidden
                else if decision \<noteq> Allowed then Inl ErrOperationForbidden
                else Inr ())))"

definition authorizeOperationDescriptor :: "(nat \<Rightarrow> bool) \<Rightarrow> tables \<Rightarrow> user_row \<Rightarrow> descriptor \<Rightarrow> int option \<Rightarrow> operation_error + unit" where
  "authorizeOperationDescriptor fault t actor d targetGUID =
     (if acRootOnly d \<and> uRole actor \<noteq> UserRoleRoot then Inl ErrOperationForbidden
      else if acTargetKind d = TargetNone then
        (if targetGUID \<noteq> None then Inl ErrOperationHidden
         else authorize_decision (\<lambda>i. fault (i + 1)) t actor d no_account)
      else if acTargetKind d = TargetUser then
        (case targetGUID of
           None \<Rightarrow> Inl ErrOperationHidden
         | Some guid \<Rightarrow>
             if guid \<le> 0 then Inl ErrOperationHidden
             else if fault 0 then Inl ErrOperationUnavailable
             else (case sql_first (\<lambda>u. rGUID u = guid \<and> rDeleted u = 0) (tUsers t) of
                 None \<Rightarrow> Inl ErrOperationHidden
               | Some target \<Rightarrow> authorize_decision (\<lambda>i. fault (i + 1)) t actor d (actionAccount target)))
      else Inl ErrOperationUnavailable)"

definition operationIntentTargetGUID :: "descriptor \<Rightarrow> any_intent \<Rightarrow> (int option) option" where
  "operationIntentTargetGUID d v =
     (if acTargetKind d = TargetNone then Some None
      else let guid = (case v of
               ResetPassword i \<Rightarrow> Some (riTarget i) | Promote i \<Rightarrow> Some (prTarget i) | Demote i \<Rightarrow> Some (deTarget i)
             | PermissionsWrite i \<Rightarrow> Some (pwTarget i) | DeleteUser i \<Rightarrow> Some (duTarget i) | Publish i \<Rightarrow> Some (puVersion i)
             | Rollback i \<Rightarrow> Some (roVersion i) | _ \<Rightarrow> None)
        in case guid of None \<Rightarrow> None | Some g \<Rightarrow> if g \<le> 0 then None else Some (Some g))"

section \<open>Expiry and views\<close>

text \<open>MySQL counts the rows that an update changes, not the rows that it matches.\<close>

definition sql_changed :: "('r \<Rightarrow> bool) \<Rightarrow> ('r \<Rightarrow> 'r) \<Rightarrow> 'r list \<Rightarrow> nat" where
  "sql_changed P f rows = length (filter (\<lambda>r. P r \<and> f r \<noteq> r) rows)"

definition expirable :: "operation_row \<Rightarrow> int \<Rightarrow> operation_row \<Rightarrow> bool" where
  "expirable op now r \<longleftrightarrow>
     rID r = rID op \<and> opState r = opState op \<and> rDeleted r = 0 \<and> opQueryExpires r = opQueryExpires op \<and> opQueryExpires r \<le> now"

definition expired_row :: "int \<Rightarrow> int \<Rightarrow> operation_row \<Rightarrow> operation_row" where
  "expired_row actor now r =
     r\<lparr>opState := OperationExpired, rDeleted := 1, opLeaseOwner := None, opLeaseExpires := None, opErrorCode := None,
       opResultKind := None, opResultGUID := None, opResultAuthVersion := None, opResultPolicyVersion := None,
       opResultRole := None, opResultStatus := None, rUpdatedAt := now, rUpdatedBy := (if 0 < actor then Some actor else None)\<rparr>"

definition expireOperation :: "bool \<Rightarrow> operation_row \<Rightarrow> int \<Rightarrow> int \<Rightarrow> operation_row list \<Rightarrow> operation_row list option" where
  "expireOperation fault op actor now ops =
     (if \<not> CanTransitionTo (opState op) OperationExpired then None
      else if fault \<or> sql_changed (expirable op now) (expired_row actor now) ops \<noteq> 1 then None
      else Some (sql_update (expirable op now) (expired_row actor now) ops))"

definition retry_after :: "operation_row \<Rightarrow> int \<Rightarrow> int" where
  "retry_after op now =
     (let seconds = (case opLeaseExpires op of
          Some e \<Rightarrow> if now < e then (e - now + 999) div 1000 else 1
        | None \<Rightarrow> 1);
        seconds = (if seconds < 1 then 1 else seconds)
      in if 30 < seconds then 30 else seconds)"

definition operationView :: "descriptor \<Rightarrow> operation_row \<Rightarrow> int \<Rightarrow> op_view" where
  "operationView d op now =
     (let a08 = isA08RolePermissionAction (acAction d);
          shown = opState op = OperationSucceeded \<and> (acAction d = ActionUsersResetPassword \<or> a08) in
      \<lparr>ovPublicRef = opPublicRef op, ovScope = acName d, ovStatus = AdminOperationState_String (opState op),
       ovFinishedAt = opFinishedAt op, ovFailureCode = map_option AdminOperationFailure_String (opErrorCode op),
       ovRetryAfter = (if opState op = OperationProcessing then retry_after op now else 0),
       ovTarget = (if shown then opResultGUID op else None),
       ovAuthVersion = (if shown then opResultAuthVersion op else None),
       ovPolicyVersion = (if shown \<and> a08 then opResultPolicyVersion op else None),
       ovRole = (if shown \<and> a08 then opResultRole op else None)\<rparr>)"

definition mapOperationError :: "operation_error \<Rightarrow> operation_error" where
  "mapOperationError er =
     (case er of
        ErrCommitUnknown ref \<Rightarrow> ErrOperationUnavailable
      | ErrRolePermission f \<Rightarrow> if f \<in> {1, 2, 3, 4, 5} then er else ErrOperationUnavailable
      | _ \<Rightarrow> er)"

end
