(* ===== verification/Operation_Begin.thy ===== *)
theory Operation_Begin
  imports Action_Operation
begin

text \<open>
  \<open>Begin\<close>, \<open>Query\<close> and \<open>MarkPendingRecovery\<close> of the operation service.  The environment gives what the
  rate limiter, Redis, the clock, the random source and the GUID generator answer, which statement
  fails, and whether the commit is acknowledged; a commit error says whether the transaction was applied.
  A transaction that returns an error leaves the store as it was.
\<close>

section \<open>Environment\<close>

datatype commit_result = CommitOK | CommitLost | CommitUnacknowledged

record op_env =
  oeResolve :: "int \<Rightarrow> descriptor option"
  oeCrypto :: crypto
  oeReserve :: "operation_error option"
  oeRevoked :: "bytes \<Rightarrow> bool option"
  oeClock :: "nat \<Rightarrow> int"
  oeRandomRef :: "bytes option"
  oeRandomLease :: "bytes option"
  oeGUID :: int
  oeFault :: "nat \<Rightarrow> bool"
  oeCommit :: commit_result

text \<open>A transaction's result becomes the store when it commits; any error of the transaction or the commit is mapped.\<close>

definition run_tx :: "op_env \<Rightarrow> op_store \<Rightarrow> operation_error + ('a \<times> op_store) \<Rightarrow> (operation_error + 'a) \<times> op_store" where
  "run_tx env st res =
     (case res of
        Inl er \<Rightarrow> (Inl (mapOperationError er), st)
      | Inr (a, st') \<Rightarrow>
          (case oeCommit env of
             CommitOK \<Rightarrow> (Inr a, st')
           | CommitLost \<Rightarrow> (Inl ErrOperationUnavailable, st)
           | CommitUnacknowledged \<Rightarrow> (Inl ErrOperationUnavailable, st')))"

record op_identity =
  oiID :: int
  oiPublicRef :: bytes
  oiActor :: action_claims
  oiCapability :: "lease_capability option"

record begin_args =
  baAction :: int
  baActor :: action_claims
  baKeys :: "bytes list"
  baTickets :: "bytes list"
  baIntent :: any_intent

text \<open>What \<open>Begin\<close> computes before it touches Redis or the database.\<close>

record begin_request =
  brDescriptor :: descriptor
  brKeyHex :: bytes
  brTicketHex :: bytes
  brRequestHex :: bytes
  brTarget :: "int option"

definition begin_request :: "op_env \<Rightarrow> begin_args \<Rightarrow> operation_error + begin_request" where
  "begin_request env a =
     (if \<not> validOperationActorClaims (baActor a) then Inl ErrOperationForbidden
      else if \<not> validOperationDescriptor (oeResolve env (baAction a)) (baAction a) then Inl ErrOperationInactive
      else let d = the (oeResolve env (baAction a)) in
      case ParseIdempotencyKey (baKeys a) of
        Inl er \<Rightarrow> Inl ErrOperationForbidden
      | Inr key \<Rightarrow>
      case parseOperationTicket d (baTickets a) of
        None \<Rightarrow> Inl ErrOperationForbidden
      | Some ticket \<Rightarrow>
      case run_encoder (the (acEncode d)) (baIntent a) of
        Inl er \<Rightarrow> Inl ErrOperationForbidden
      | Inr encoded \<Rightarrow>
      case operationIntentTargetGUID d (baIntent a) of
        None \<Rightarrow> Inl ErrOperationForbidden
      | Some target \<Rightarrow>
          Inr \<lparr>brDescriptor = d, brKeyHex = hex_encode (IdempotencyDigest (oeCrypto env) key),
               brTicketHex = (case ticket of None \<Rightarrow> [] | Some raw \<Rightarrow> hex_encode (TicketDigest (oeCrypto env) raw)),
               brRequestHex = hex_encode (IntentDigest (oeCrypto env) encoded), brTarget = target\<rparr>)"

section \<open>Begin\<close>

definition actionOperationLeaseMillis :: int where "actionOperationLeaseMillis = 30000"
definition actionOperationRecoveryGraceMS :: int where "actionOperationRecoveryGraceMS = 60000"

definition same_scope :: "int \<Rightarrow> int \<Rightarrow> bytes \<Rightarrow> operation_row \<Rightarrow> bool" where
  "same_scope actor action key r \<longleftrightarrow> opActor r = actor \<and> opAction r = action \<and> opIdempotencyHMAC r = key"

datatype begin_result = BeginExpired | BeginView op_identity op_view

text \<open>An operation with this key is already stored.  Statements 3 to 9 are the ticket, the authorization and the expiry.\<close>

definition begin_existing ::
  "op_env \<Rightarrow> begin_args \<Rightarrow> begin_request \<Rightarrow> op_store \<Rightarrow> user_row \<Rightarrow> session_row \<Rightarrow> int \<Rightarrow> operation_row \<Rightarrow>
   operation_error + (begin_result \<times> op_store)" where
  "begin_existing env a rq st actor session now op =
     (let d = brDescriptor rq in
      if opSession op \<noteq> rID session then Inl ErrOperationCrossSession
      else if opRequestHMAC op \<noteq> brRequestHex rq then Inl ErrOperationConflict
      else if opAuthVersion op \<noteq> uAuthVersion actor \<or> \<not> validOperationState (opState op) then Inl ErrOperationForbidden
      else case lockOperationBeginVerification (oeFault env 3) (osVers st) d (brTicketHex rq) actor session (brRequestHex rq)
                  (brTarget rq) (opVerification op) True of
        Inl er \<Rightarrow> Inl er
      | Inr verification \<Rightarrow>
      case (if opState op = OperationProcessing \<or> opState op = OperationPendingRecovery
            then authorizeOperationDescriptor (\<lambda>i. oeFault env (i + 4)) (osTables st) actor d (brTarget rq) else Inr ()) of
        Inl er \<Rightarrow> Inl er
      | Inr _ \<Rightarrow>
      let finalNow = oeClock env 1 in
      if finalNow < now \<or> \<not> validOperationNow finalNow then Inl ErrOperationUnavailable
      else if sExpiresAt session \<le> finalNow \<or> \<not> validOperationStateWithOptionalVerification op verification finalNow \<or>
         (acRequiresTicket d \<and>
          (case verification of None \<Rightarrow> True | Some v \<Rightarrow> \<not> validExistingBeginVerificationState v (opState op) finalNow))
      then Inl ErrOperationForbidden
      else if opState op = OperationExpired then Inr (BeginExpired, st)
      else if opQueryExpires op \<le> finalNow \<and> CanTransitionTo (opState op) OperationExpired then
        (case expireOperation (oeFault env 9) op (rID actor) finalNow (osOps st) of
           None \<Rightarrow> Inl ErrOperationUnavailable
         | Some ops \<Rightarrow> Inr (BeginExpired, st\<lparr>osOps := ops\<rparr>))
      else Inr (BeginView \<lparr>oiID = rID op, oiPublicRef = opPublicRef op, oiActor = baActor a, oiCapability = None\<rparr>
                 (operationView d op finalNow), st))"

text \<open>An insert obeys the unique indexes on GUID, public reference, key and ticket.\<close>

definition insert_operation :: "bool \<Rightarrow> operation_row \<Rightarrow> op_store \<Rightarrow> (operation_row \<times> op_store) option" where
  "insert_operation fault op st =
     (if fault \<or> (\<exists>r \<in> set (osOps st). rGUID r = rGUID op \<or> opPublicRef r = opPublicRef op \<or>
           same_scope (opActor op) (opAction op) (opIdempotencyHMAC op) r \<or>
           (opVerification op \<noteq> None \<and> opVerification r = opVerification op))
      then None
      else let op' = op\<lparr>rID := osNextID st\<rparr> in Some (op', st\<lparr>osOps := osOps st @ [op'], osNextID := osNextID st + 1\<rparr>))"

definition begin_current :: "operation_row \<Rightarrow> operation_row \<Rightarrow> bool" where
  "begin_current op r \<longleftrightarrow> rID r = rID op \<and> opState r = OperationProcessing \<and> rDeleted r = 0 \<and> opVerification r = None"

text \<open>\<open>lockedTicketlessBeginNoopMatches\<close>.\<close>

definition lockedTicketlessBeginNoopMatches :: "bool \<Rightarrow> operation_row list \<Rightarrow> operation_row \<Rightarrow> bool" where
  "lockedTicketlessBeginNoopMatches fault ops expected =
     (if rID expected \<le> 0 \<or> opVerification expected \<noteq> None \<or> fault then False
      else case find (\<lambda>r. rID r = rID expected) ops of None \<Rightarrow> False | Some stored \<Rightarrow> stored = expected)"

text \<open>The insert of a new operation: the row as stored, the raw lease owner and the store.\<close>

definition begin_insert ::
  "op_env \<Rightarrow> begin_request \<Rightarrow> op_store \<Rightarrow> user_row \<Rightarrow> session_row \<Rightarrow> int \<Rightarrow> (operation_row \<times> bytes \<times> op_store) option" where
  "begin_insert env rq st actor session now =
     (case NewPublicRef (oeRandomRef env) of
        Inl er \<Rightarrow> None
      | Inr publicRef \<Rightarrow>
      case readRandom (oeRandomLease env) 32 of
        Inl er \<Rightarrow> None
      | Inr lease \<Rightarrow>
      if oeGUID env \<le> 0 then None
      else case insert_operation (oeFault env 3)
        \<lparr>rID = 0, rGUID = oeGUID env, rCreatedAt = now, rCreatedBy = Some (rID actor), rUpdatedAt = now, rUpdatedBy = Some (rID actor),
         rDeleted = 0, opActor = rID actor, opAuthVersion = uAuthVersion actor, opSession = rID session,
         opAction = acAction (brDescriptor rq),
         opIdempotencyHMAC = brKeyHex rq, opRequestHMAC = brRequestHex rq, opVerification = None, opState = OperationProcessing,
         opPublicRef = publicRef, opLeaseOwner = Some (hex_encode (LeaseOwnerDigest (oeCrypto env) lease)),
         opLeaseExpires = Some (now + actionOperationLeaseMillis), opFinishedAt = None,
         opQueryExpires = now + actionOperationQueryRetentionMS, opErrorCode = None, opResultKind = None, opResultGUID = None,
         opResultAuthVersion = None, opResultPolicyVersion = None, opResultRole = None, opResultStatus = None\<rparr> st of
        None \<Rightarrow> None
      | Some (op, st) \<Rightarrow> Some (op, lease, st))"

text \<open>The times of a new operation are set again once every lock is held, and its ticket is bound.\<close>

definition stamped_row :: "int \<Rightarrow> int \<Rightarrow> bool \<Rightarrow> int option \<Rightarrow> operation_row \<Rightarrow> operation_row" where
  "stamped_row actor now ticketed vid r =
     r\<lparr>rCreatedAt := now, opLeaseExpires := Some (now + actionOperationLeaseMillis),
       opQueryExpires := now + actionOperationQueryRetentionMS, rUpdatedAt := now, rUpdatedBy := Some actor,
       opVerification := (if ticketed then vid else opVerification r)\<rparr>"

definition begin_stamp ::
  "op_env \<Rightarrow> descriptor \<Rightarrow> user_row \<Rightarrow> operation_row \<Rightarrow> verification_row option \<Rightarrow> int \<Rightarrow> op_store \<Rightarrow>
   operation_error + (operation_row \<times> op_store)" where
  "begin_stamp env d actor op verification now st =
     (let vid = (if acRequiresTicket d then map_option rID verification else None);
          final = stamped_row (rID actor) now (acRequiresTicket d) vid;
          changed = sql_changed (begin_current op) final (osOps st);
          ops = sql_update (begin_current op) final (osOps st) in
      if oeFault env 10 then Inl ErrOperationUnavailable
      else if vid \<noteq> None \<and> (\<exists>r \<in> set (osOps st). rID r \<noteq> rID op \<and> opVerification r = vid) then Inl ErrOperationForbidden
      else if (changed = 0 \<and> (acRequiresTicket d \<or> \<not> lockedTicketlessBeginNoopMatches (oeFault env 11) ops (final op))) \<or> 1 < changed
      then Inl ErrOperationUnavailable
      else Inr (final op, st\<lparr>osOps := ops\<rparr>))"

definition begin_new ::
  "op_env \<Rightarrow> begin_args \<Rightarrow> begin_request \<Rightarrow> op_store \<Rightarrow> user_row \<Rightarrow> session_row \<Rightarrow> int \<Rightarrow> operation_error + (begin_result \<times> op_store)" where
  "begin_new env a rq st actor session now =
     (let d = brDescriptor rq in
      case begin_insert env rq st actor session now of
        None \<Rightarrow> Inl ErrOperationUnavailable
      | Some (op, lease, st) \<Rightarrow>
      case lockOperationBeginVerification (oeFault env 4) (osVers st) d (brTicketHex rq) actor session (brRequestHex rq) (brTarget rq)
             (opVerification op) False of
        Inl er \<Rightarrow> Inl er
      | Inr verification \<Rightarrow>
      case authorizeOperationDescriptor (\<lambda>i. oeFault env (i + 5)) (osTables st) actor d (brTarget rq) of
        Inl er \<Rightarrow> Inl er
      | Inr _ \<Rightarrow>
      let finalNow = oeClock env 1 in
      if finalNow < now \<or> \<not> validOperationNow finalNow then Inl ErrOperationUnavailable
      else if sExpiresAt session \<le> finalNow \<or>
         (acRequiresTicket d \<and> (case verification of None \<Rightarrow> True | Some v \<Rightarrow> verificationRelationAt v finalNow \<noteq> TicketActive))
      then Inl ErrOperationForbidden
      else case begin_stamp env d actor op verification finalNow st of
        Inl er \<Rightarrow> Inl er
      | Inr (op, st) \<Rightarrow>
      case newOperationLeaseCapability lease of
        None \<Rightarrow> Inl ErrOperationUnavailable
      | Some lease_cap \<Rightarrow>
          Inr (BeginView \<lparr>oiID = rID op, oiPublicRef = opPublicRef op, oiActor = baActor a, oiCapability = Some lease_cap\<rparr>
                 (operationView d op finalNow), st))"

text \<open>Statements 0 and 1 lock actor and session, 2 looks for the key.\<close>

definition begin_tx :: "op_env \<Rightarrow> begin_args \<Rightarrow> begin_request \<Rightarrow> op_store \<Rightarrow> operation_error + (begin_result \<times> op_store)" where
  "begin_tx env a rq st =
     (let now = oeClock env 0 in
      case lockOperationActorSession (oeFault env) (osTables st) (baActor a) now of
        Inl er \<Rightarrow> Inl er
      | Inr (actor, session) \<Rightarrow>
      if oeFault env 2 then Inl ErrOperationUnavailable
      else case sql_first (same_scope (rID actor) (acAction (brDescriptor rq)) (brKeyHex rq)) (osOps st) of
        Some op \<Rightarrow> begin_existing env a rq st actor session now op
      | None \<Rightarrow> begin_new env a rq st actor session now)"

definition Begin_operation ::
  "op_env \<Rightarrow> begin_args \<Rightarrow> op_store \<Rightarrow> (operation_error + (op_identity \<times> op_view)) \<times> op_store" where
  "Begin_operation env a st =
     (case begin_request env a of
        Inl er \<Rightarrow> (Inl er, st)
      | Inr rq \<Rightarrow>
      case oeReserve env of
        Some (ErrRetryAfter n) \<Rightarrow> (Inl (ErrRetryAfter n), st)
      | Some er \<Rightarrow> (Inl ErrOperationUnavailable, st)
      | None \<Rightarrow>
      case oeRevoked env (clSID (baActor a)) of
        None \<Rightarrow> (Inl ErrOperationUnavailable, st)
      | Some revoked \<Rightarrow>
      if revoked then (Inl ErrOperationForbidden, st)
      else if \<not> validOperationNow (oeClock env 0) then (Inl ErrOperationUnavailable, st)
      else case run_tx env st (begin_tx env a rq st) of
        (Inl er, st) \<Rightarrow> (Inl er, st)
      | (Inr BeginExpired, st) \<Rightarrow> (Inl ErrOperationExpired, st)
      | (Inr (BeginView oid view), st) \<Rightarrow> (Inr (oid, view), st))"

section \<open>Query\<close>

text \<open>Everything but unavailability is hidden from a caller that may not see the operation.\<close>

definition hide :: "operation_error \<Rightarrow> operation_error" where
  "hide er = (if er = ErrOperationUnavailable then er else ErrOperationHidden)"

definition query_found ::
  "op_env \<Rightarrow> descriptor \<Rightarrow> op_store \<Rightarrow> user_row \<Rightarrow> session_row \<Rightarrow> int \<Rightarrow> operation_row \<Rightarrow>
   operation_error + (op_view option \<times> op_store)" where
  "query_found env d st actor session now op =
     (if opSession op \<noteq> rID session \<or> opAuthVersion op \<noteq> uAuthVersion actor \<or> \<not> validOperationState (opState op)
      then Inl ErrOperationHidden
      else case lockOperationQueryVerification (oeFault env 3) (osVers st) d actor session op of
        Inl er \<Rightarrow> Inl (hide er)
      | Inr (verification, target) \<Rightarrow>
      case (if opState op = OperationProcessing \<or> opState op = OperationPendingRecovery
            then authorizeOperationDescriptor (\<lambda>i. oeFault env (i + 4)) (osTables st) actor d target else Inr ()) of
        Inl er \<Rightarrow> Inl (hide er)
      | Inr _ \<Rightarrow>
      let finalNow = oeClock env 1 in
      if finalNow < now \<or> \<not> validOperationNow finalNow then Inl ErrOperationUnavailable
      else if sExpiresAt session \<le> finalNow \<or> \<not> validOperationStateWithOptionalVerification op verification finalNow
      then Inl ErrOperationHidden
      else if opState op = OperationExpired then Inr (None, st)
      else if opQueryExpires op \<le> finalNow \<and> CanTransitionTo (opState op) OperationExpired then
        (case expireOperation (oeFault env 9) op (rID actor) finalNow (osOps st) of
           None \<Rightarrow> Inl ErrOperationUnavailable
         | Some ops \<Rightarrow> Inr (None, st\<lparr>osOps := ops\<rparr>))
      else Inr (Some (operationView d op finalNow), st))"

definition query_tx :: "op_env \<Rightarrow> descriptor \<Rightarrow> action_claims \<Rightarrow> bytes \<Rightarrow> op_store \<Rightarrow> operation_error + (op_view option \<times> op_store)" where
  "query_tx env d a keyHex st =
     (let now = oeClock env 0 in
      case lockOperationActorSession (oeFault env) (osTables st) a now of
        Inl er \<Rightarrow> Inl (hide er)
      | Inr (actor, session) \<Rightarrow>
      if oeFault env 2 then Inl ErrOperationUnavailable
      else case sql_first (same_scope (rID actor) (acAction d) keyHex) (osOps st) of
        None \<Rightarrow> Inl ErrOperationHidden
      | Some op \<Rightarrow> query_found env d st actor session now op)"

definition Query_operation ::
  "op_env \<Rightarrow> int \<Rightarrow> action_claims \<Rightarrow> bytes list \<Rightarrow> op_store \<Rightarrow> (operation_error + op_view) \<times> op_store" where
  "Query_operation env action a keys st =
     (if \<not> validOperationActorClaims a \<or> \<not> validOperationDescriptor (oeResolve env action) action then (Inl ErrOperationHidden, st)
      else case ParseIdempotencyKey keys of
        Inl er \<Rightarrow> (Inl ErrOperationHidden, st)
      | Inr key \<Rightarrow>
      case oeRevoked env (clSID a) of
        None \<Rightarrow> (Inl ErrOperationUnavailable, st)
      | Some revoked \<Rightarrow>
      if revoked then (Inl ErrOperationHidden, st)
      else if \<not> validOperationNow (oeClock env 0) then (Inl ErrOperationUnavailable, st)
      else case run_tx env st (query_tx env (the (oeResolve env action)) a (hex_encode (IdempotencyDigest (oeCrypto env) key)) st) of
        (Inl er, st) \<Rightarrow> (Inl er, st)
      | (Inr None, st) \<Rightarrow> (Inl ErrOperationExpired, st)
      | (Inr (Some view), st) \<Rightarrow> (Inr view, st))"

section \<open>Recovery\<close>

definition recoverable :: "operation_row \<Rightarrow> int \<Rightarrow> int \<Rightarrow> operation_row \<Rightarrow> bool" where
  "recoverable op lease cutoff r \<longleftrightarrow>
     rID r = rID op \<and> opState r = OperationProcessing \<and> rDeleted r = 0 \<and> opLeaseExpires r = Some lease \<and> lease < cutoff"

definition pending_row :: "int \<Rightarrow> operation_row \<Rightarrow> operation_row" where
  "pending_row now r =
     r\<lparr>opState := OperationPendingRecovery, opLeaseOwner := None, opLeaseExpires := None, rUpdatedAt := now, rUpdatedBy := None\<rparr>"

text \<open>The Boolean says whether the operation has expired instead.\<close>

definition pending_tx :: "op_env \<Rightarrow> int \<Rightarrow> op_store \<Rightarrow> operation_error + (bool \<times> op_store)" where
  "pending_tx env oid st =
     (if oeFault env 0 then Inl ErrOperationUnavailable
      else case sql_first (\<lambda>r. rID r = oid) (osOps st) of
        None \<Rightarrow> Inl ErrOperationHidden
      | Some op \<Rightarrow>
      if opState op = OperationExpired \<or> rDeleted op = 1 then Inl ErrOperationExpired
      else let lockedNow = oeClock env 1 in
      if lockedNow < oeClock env 0 \<or> \<not> validOperationNow lockedNow then Inl ErrOperationUnavailable
      else if opState op = OperationPendingRecovery then
        (if lockedNow < opQueryExpires op then Inl ErrOperationConflict
         else case expireOperation (oeFault env 1) op 0 lockedNow (osOps st) of
             None \<Rightarrow> Inl ErrOperationUnavailable
           | Some ops \<Rightarrow> Inr (True, st\<lparr>osOps := ops\<rparr>))
      else if opState op \<noteq> OperationProcessing then Inl ErrOperationConflict
      else case opLeaseExpires op of
        None \<Rightarrow> Inl ErrOperationConflict
      | Some lease \<Rightarrow>
          if maxInt64 - actionOperationRecoveryGraceMS < lease \<or> lockedNow \<le> lease + actionOperationRecoveryGraceMS
          then Inl ErrOperationConflict
          else let P = recoverable op lease (lockedNow - actionOperationRecoveryGraceMS) in
          if oeFault env 1 \<or> sql_changed P (pending_row lockedNow) (osOps st) \<noteq> 1 then Inl ErrOperationUnavailable
          else Inr (False, st\<lparr>osOps := sql_update P (pending_row lockedNow) (osOps st)\<rparr>))"

definition MarkPendingRecovery :: "op_env \<Rightarrow> int \<Rightarrow> op_store \<Rightarrow> operation_error option \<times> op_store" where
  "MarkPendingRecovery env oid st =
     (if oid \<le> 0 \<or> \<not> validOperationNow (oeClock env 0) then (Some ErrOperationUnavailable, st)
      else case run_tx env st (pending_tx env oid st) of
        (Inl er, st) \<Rightarrow> (Some er, st)
      | (Inr expired, st) \<Rightarrow> (if expired then Some ErrOperationExpired else None, st))"

end
