(* ===== verification/Operation_Execute.thy ===== *)
theory Operation_Execute
  imports Operation_Begin
begin

text \<open>
  Executing a begun operation (\<open>service/action_execute.go\<close>): take the lease, lock everything again,
  consume the ticket, run the consumer behind a savepoint, write audit and outbox, and settle the
  operation.  The consumer and the two writers are the interface arguments of \<open>Execute\<close>; a consumer's own
  state is threaded through its methods, and an interface that it does not implement is \<open>None\<close>.
\<close>

record action_event =
  aePublicRef :: bytes
  aeActor :: int
  aeSession :: int
  aeAction :: int
  aeTargetKind :: int
  aeTarget :: "int option"
  aeState :: int
  aeFailure :: "int option"
  aeResultKind :: "int option"
  aeResultGUID :: "int option"
  aeOccurredAt :: int

record 'c consumer =
  coPrelock :: "('c \<Rightarrow> operation_row \<Rightarrow> verification_row \<Rightarrow> tables \<Rightarrow> (operation_error + user_row) \<times> 'c) option"
  coPreflight :: "('c \<Rightarrow> operation_row \<Rightarrow> tables \<Rightarrow> operation_error + int option) option"
  coExecute :: "'c \<Rightarrow> operation_row \<Rightarrow> op_store \<Rightarrow> (outcome \<times> tables) option \<times> 'c"
  coClear :: "'c \<Rightarrow> 'c"
  coConfirmed :: "'c \<Rightarrow> 'c"

type_synonym 'c event_writer = "'c \<Rightarrow> action_event \<Rightarrow> op_store \<Rightarrow> tables option \<times> 'c"

section \<open>Outcomes\<close>

definition validateTerminalOutcomeForAction :: "int \<Rightarrow> outcome \<Rightarrow> bool" where
  "validateTerminalOutcomeForAction action o' =
     (case toFailure o' of
        Some f \<Rightarrow>
          \<not> (toResultKind o' \<noteq> 0 \<or> toResultGUID o' \<noteq> None \<or> toAuthVersion o' \<noteq> None \<or> toPolicyVersion o' \<noteq> None \<or>
             toRole o' \<noteq> None \<or> toHTTP o' < 400 \<or> 499 < toHTTP o') \<and>
          f \<in> {FailureActionRejected, FailureTargetVersionConflict, FailurePolicyVersionConflict, FailureTargetStateConflict,
               FailureConsumerValidation}
      | None \<Rightarrow>
          \<not> (toHTTP o' < 200 \<or> 299 < toHTTP o') \<and>
          (if toResultKind o' = 1 then toResultGUID o' = None
           else if toResultKind o' = 2 \<or> toResultKind o' = 3 then (case toResultGUID o' of None \<Rightarrow> False | Some g \<Rightarrow> 0 < g)
           else False) \<and>
          (case toAuthVersion o' of None \<Rightarrow> True | Some v \<Rightarrow> \<not> (v \<le> 0 \<or> maxInt32 < v \<or> toResultKind o' \<noteq> 2)) \<and>
          (if isA08RolePermissionAction action then
             toResultKind o' = 2 \<and> toResultGUID o' \<noteq> None \<and> toAuthVersion o' \<noteq> None \<and>
             (case toPolicyVersion o' of None \<Rightarrow> False | Some v \<Rightarrow> 0 < v) \<and>
             (case toRole o' of
                None \<Rightarrow> False
              | Some r \<Rightarrow>
                  (r = UserRoleUser \<or> r = UserRoleAdmin) \<and>
                  \<not> ((action = ActionUsersPromote \<or> action = ActionUsersPermissionsWrite) \<and> r \<noteq> UserRoleAdmin) \<and>
                  \<not> (action = ActionUsersDemote \<and> r \<noteq> UserRoleUser))
           else toPolicyVersion o' = None \<and> toRole o' = None))"

text \<open>The check of the result columns between the outcome and the events.\<close>

definition result_fits :: "int \<Rightarrow> int \<Rightarrow> outcome \<Rightarrow> bool" where
  "result_fits action terminal o' \<longleftrightarrow>
     \<not> ((terminal = OperationSucceeded \<and> action = ActionUsersResetPassword \<and> toAuthVersion o' = None) \<or>
        (terminal = OperationSucceeded \<and> \<not> isA08RolePermissionAction action \<and> action \<noteq> ActionUsersResetPassword \<and>
         toAuthVersion o' \<noteq> None) \<or>
        (terminal \<noteq> OperationSucceeded \<and> (toAuthVersion o' \<noteq> None \<or> toPolicyVersion o' \<noteq> None \<or> toRole o' \<noteq> None)))"

section \<open>The transaction\<close>

text \<open>Statements 3 to 7: the target unless the consumer has locked it, the actor's policy head and rules, and the policy.\<close>

definition authorizeExecuteDescriptorWithTarget ::
  "(nat \<Rightarrow> bool) \<Rightarrow> tables \<Rightarrow> user_row \<Rightarrow> descriptor \<Rightarrow> int option \<Rightarrow> user_row option \<Rightarrow> operation_error + unit" where
  "authorizeExecuteDescriptorWithTarget fault t actor d targetGUID prelocked =
     (let decide = (\<lambda>account. if fault 1 \<or> fault 2 then Inl ErrOperationUnavailable
                              else authorize_decision (\<lambda>i. fault (i + 3)) t actor d account) in
      if acRootOnly d \<and> uRole actor \<noteq> UserRoleRoot then Inl ErrOperationForbidden
      else if acTargetKind d = TargetNone then (if targetGUID \<noteq> None then Inl ErrOperationHidden else decide no_account)
      else if acTargetKind d = TargetUser then
        (case targetGUID of
           None \<Rightarrow> Inl ErrOperationHidden
         | Some guid \<Rightarrow>
             if guid \<le> 0 then Inl ErrOperationHidden
             else (case prelocked of
                 Some target \<Rightarrow>
                   if rID target \<le> 0 \<or> rGUID target \<noteq> guid \<or> rDeleted target \<noteq> 0 then Inl ErrOperationForbidden
                   else decide (actionAccount target)
               | None \<Rightarrow>
                   if fault 0 then Inl ErrOperationUnavailable
                   else (case sql_first (\<lambda>u. rGUID u = guid \<and> rDeleted u = 0) (tUsers t) of
                       None \<Rightarrow> Inl ErrOperationHidden
                     | Some target \<Rightarrow> decide (actionAccount target))))
      else Inl ErrOperationUnavailable)"

definition consumable :: "verification_row \<Rightarrow> int \<Rightarrow> verification_row \<Rightarrow> bool" where
  "consumable v now r \<longleftrightarrow> rID r = rID v \<and> vConsumedAt r = None \<and> now < vExpiresAt r \<and> rDeleted r = 0"

definition consumed_row :: "int \<Rightarrow> int \<Rightarrow> verification_row \<Rightarrow> verification_row" where
  "consumed_row actor now r = r\<lparr>vConsumedAt := Some now, rDeleted := 1, rUpdatedAt := now, rUpdatedBy := Some actor\<rparr>"

definition consume_ticket :: "bool \<Rightarrow> verification_row option \<Rightarrow> int \<Rightarrow> int \<Rightarrow> verification_row list \<Rightarrow> verification_row list option" where
  "consume_ticket fault verification actor now vs =
     (case verification of
        None \<Rightarrow> Some vs
      | Some v \<Rightarrow>
          if fault \<or> sql_changed (consumable v now) (consumed_row actor now) vs \<noteq> 1 then None
          else Some (sql_update (consumable v now) (consumed_row actor now) vs))"

definition settleable :: "operation_row \<Rightarrow> bytes \<Rightarrow> int option \<Rightarrow> operation_row \<Rightarrow> bool" where
  "settleable op lease vid r \<longleftrightarrow>
     rID r = rID op \<and> opState r = OperationProcessing \<and> rDeleted r = 0 \<and> opLeaseOwner r = Some lease \<and> opVerification r = vid"

definition settled_row :: "int \<Rightarrow> int \<Rightarrow> int \<Rightarrow> outcome \<Rightarrow> operation_row \<Rightarrow> operation_row" where
  "settled_row actor now terminal o' r =
     (let won = terminal = OperationSucceeded in
      r\<lparr>opState := terminal, opFinishedAt := Some now, opQueryExpires := now + actionOperationQueryRetentionMS,
        opLeaseOwner := None, opLeaseExpires := None, opErrorCode := toFailure o',
        opResultKind := (if won then Some (toResultKind o') else None), opResultGUID := (if won then toResultGUID o' else None),
        opResultAuthVersion := toAuthVersion o', opResultPolicyVersion := toPolicyVersion o', opResultRole := toRole o',
        opResultStatus := Some (toHTTP o'), rUpdatedAt := now, rUpdatedBy := Some actor\<rparr>)"

text \<open>What the transaction has locked and checked before it writes.\<close>

record locked_operation =
  loActor :: user_row
  loSession :: session_row
  loOp :: operation_row
  loDescriptor :: descriptor
  loTicket :: "verification_row option"
  loTarget :: "int option"
  loLease :: bytes

definition lock_operation ::
  "op_env \<Rightarrow> op_identity \<Rightarrow> bytes \<Rightarrow> op_store \<Rightarrow> operation_error + locked_operation" where
  "lock_operation env oid lease st =
     (case lockOperationActorSession (oeFault env) (osTables st) (oiActor oid) (oeClock env 0) of
        Inl er \<Rightarrow> Inl er
      | Inr (actor, session) \<Rightarrow>
      case (if oeFault env 2 then None else sql_first (\<lambda>r. rID r = oiID oid) (osOps st)) of
        None \<Rightarrow> Inl ErrOperationUnavailable
      | Some op \<Rightarrow>
      let leaseHex = hex_encode (LeaseOwnerDigest (oeCrypto env) lease) in
      if opActor op \<noteq> rID actor \<or> opSession op \<noteq> rID session \<or> opAuthVersion op \<noteq> uAuthVersion actor \<or>
         opState op \<noteq> OperationProcessing \<or> rDeleted op \<noteq> 0 \<or> opLeaseOwner op = None \<or> opLeaseExpires op = None \<or>
         opPublicRef op \<noteq> oiPublicRef oid
      then Inl ErrOperationForbidden
      else if opLeaseOwner op \<noteq> Some leaseHex then Inl ErrOperationForbidden
      else if \<not> validOperationDescriptor (oeResolve env (opAction op)) (opAction op) then Inl ErrOperationForbidden
      else let d = the (oeResolve env (opAction op)) in
      if acRequiresTicket d then
        (case opVerification op of
           None \<Rightarrow> Inl ErrOperationForbidden
         | Some vid \<Rightarrow>
             (case lockOperationVerificationByID (oeFault env 3) (osVers st) vid of
                Inl er \<Rightarrow> Inl ErrOperationUnavailable
              | Inr v \<Rightarrow>
                  if \<not> validOperationVerificationBinding v actor session d (opRequestHMAC op) (vTarget v) then Inl ErrOperationForbidden
                  else Inr \<lparr>loActor = actor, loSession = session, loOp = op, loDescriptor = d, loTicket = Some v,
                            loTarget = vTarget v, loLease = leaseHex\<rparr>))
      else if opVerification op \<noteq> None \<or> acTargetKind d \<noteq> TargetNone then Inl ErrOperationForbidden
      else Inr \<lparr>loActor = actor, loSession = session, loOp = op, loDescriptor = d, loTicket = None, loTarget = None,
                loLease = leaseHex\<rparr>)"

definition prelock_target ::
  "'c consumer \<Rightarrow> 'c \<Rightarrow> locked_operation \<Rightarrow> tables \<Rightarrow> (operation_error + user_row option) \<times> 'c" where
  "prelock_target co c lo t =
     (case coPrelock co of
        None \<Rightarrow> (Inr None, c)
      | Some prelock \<Rightarrow>
          (case loTicket lo of
             None \<Rightarrow> (Inl ErrOperationForbidden, c)
           | Some v \<Rightarrow>
               (case prelock c (loOp lo) v t of
                  (Inl er, c) \<Rightarrow> (Inl er, c)
                | (Inr u, c) \<Rightarrow> (Inr (Some u), c))))"

definition rolePermissionPreflightError :: "int \<Rightarrow> operation_error" where
  "rolePermissionPreflightError f =
     (if f \<in> {FailureActionRejected, FailureTargetVersionConflict, FailurePolicyVersionConflict, FailureTargetStateConflict,
              FailureConsumerValidation}
      then ErrRolePermission f else ErrOperationUnavailable)"

text \<open>From the locks to the decision that the consumer may run: the time at which it does.\<close>

definition admit_operation ::
  "op_env \<Rightarrow> 'c consumer \<Rightarrow> 'c \<Rightarrow> locked_operation \<Rightarrow> op_store \<Rightarrow> (operation_error + int) \<times> 'c" where
  "admit_operation env co c lo st =
     (case prelock_target co c lo (osTables st) of
        (Inl er, c) \<Rightarrow> (Inl er, c)
      | (Inr target, c) \<Rightarrow>
          (case authorizeExecuteDescriptorWithTarget (\<lambda>i. oeFault env (i + 4)) (osTables st) (loActor lo) (loDescriptor lo)
                  (loTarget lo) target of
             Inl er \<Rightarrow> (Inl er, c)
           | Inr _ \<Rightarrow>
               let finalNow = oeClock env 1; op = loOp lo in
               if finalNow < oeClock env 0 \<or> \<not> validOperationNow finalNow \<or> sExpiresAt (loSession lo) \<le> finalNow \<or>
                  (case opLeaseExpires op of None \<Rightarrow> True | Some e \<Rightarrow> e \<le> finalNow) \<or>
                  (case loTicket lo of None \<Rightarrow> False | Some v \<Rightarrow> verificationRelationAt v finalNow \<noteq> TicketActive)
               then (Inl ErrOperationForbidden, c)
               else (case (case coPreflight co of
                       Some preflight \<Rightarrow>
                         if isA08RolePermissionAction (acAction (loDescriptor lo)) then preflight c op (osTables st) else Inr None
                     | None \<Rightarrow> Inr None) of
                   Inl er \<Rightarrow> (Inl er, c)
                 | Inr (Some f) \<Rightarrow> (Inl (rolePermissionPreflightError f), c)
                 | Inr None \<Rightarrow> (Inr finalNow, c))))"

definition terminal_event :: "locked_operation \<Rightarrow> int \<Rightarrow> int \<Rightarrow> outcome \<Rightarrow> action_event" where
  "terminal_event lo now terminal o' =
     (let won = terminal = OperationSucceeded in
      \<lparr>aePublicRef = opPublicRef (loOp lo), aeActor = rGUID (loActor lo), aeSession = rGUID (loSession lo),
       aeAction = acAction (loDescriptor lo), aeTargetKind = acTargetKind (loDescriptor lo), aeTarget = loTarget lo,
       aeState = terminal, aeFailure = toFailure o', aeResultKind = (if won then Some (toResultKind o') else None),
       aeResultGUID = (if won then toResultGUID o' else None), aeOccurredAt = now\<rparr>)"

text \<open>The consumer, the writers and the settlement, once the ticket is consumed.  A known failure rolls the tables
  back to the savepoint.\<close>

definition settle_operation ::
  "op_env \<Rightarrow> 'c consumer \<Rightarrow> 'c event_writer \<Rightarrow> 'c event_writer \<Rightarrow> 'c \<Rightarrow> locked_operation \<Rightarrow> int \<Rightarrow> op_store \<Rightarrow>
   (operation_error + (op_view \<times> op_store)) \<times> 'c" where
  "settle_operation env co audit outbox c lo now st =
     (case coExecute co c (loOp lo) st of
        (None, c) \<Rightarrow> (Inl ErrOperationUnavailable, c)
      | (Some (o', t), c) \<Rightarrow>
          let action = acAction (loDescriptor lo); failed = toFailure o' \<noteq> None in
          if \<not> validateTerminalOutcomeForAction action o' \<or> (failed \<and> oeFault env 14) then (Inl ErrOperationUnavailable, c)
          else let t = (if failed then osTables st else t);
                   terminal = (if failed then OperationFailed else OperationSucceeded);
                   event = terminal_event lo now terminal o' in
          if \<not> result_fits action terminal o' then (Inl ErrOperationUnavailable, c)
          else case audit c event (st\<lparr>osTables := t\<rparr>) of
            (None, c) \<Rightarrow> (Inl ErrOperationUnavailable, c)
          | (Some t, c) \<Rightarrow>
          case outbox c event (st\<lparr>osTables := t\<rparr>) of
            (None, c) \<Rightarrow> (Inl ErrOperationUnavailable, c)
          | (Some t, c) \<Rightarrow>
          if maxInt64 - actionOperationQueryRetentionMS < now then (Inl ErrOperationUnavailable, c)
          else let P = settleable (loOp lo) (loLease lo) (map_option rID (loTicket lo));
                   f = settled_row (rID (loActor lo)) now terminal o' in
          if oeFault env 15 \<or> sql_changed P f (osOps st) \<noteq> 1 then (Inl ErrOperationUnavailable, c)
          else (Inr (operationView (loDescriptor lo) (f (loOp lo)) now, st\<lparr>osTables := t, osOps := sql_update P f (osOps st)\<rparr>), c))"

definition execute_tx ::
  "op_env \<Rightarrow> op_identity \<Rightarrow> bytes \<Rightarrow> 'c consumer \<Rightarrow> 'c event_writer \<Rightarrow> 'c event_writer \<Rightarrow> 'c \<Rightarrow> op_store \<Rightarrow>
   (operation_error + (op_view \<times> op_store)) \<times> 'c" where
  "execute_tx env oid lease co audit outbox c st =
     (case lock_operation env oid lease st of
        Inl er \<Rightarrow> (Inl er, c)
      | Inr lo \<Rightarrow>
      case admit_operation env co c lo st of
        (Inl er, c) \<Rightarrow> (Inl er, c)
      | (Inr now, c) \<Rightarrow>
      case consume_ticket (oeFault env 12) (loTicket lo) (rID (loActor lo)) now (osVers st) of
        None \<Rightarrow> (Inl ErrOperationUnavailable, c)
      | Some vs \<Rightarrow>
      if oeFault env 13 then (Inl ErrOperationUnavailable, c)
      else settle_operation env co audit outbox c lo now (st\<lparr>osVers := vs\<rparr>))"

section \<open>Execute\<close>

text \<open>The lease is taken before anything else, so that it is gone whatever happens; an error of the commit after a complete
  callback is reported as unknown.\<close>

definition Execute_operation ::
  "op_env \<Rightarrow> op_identity \<Rightarrow> 'c consumer \<Rightarrow> 'c event_writer \<Rightarrow> 'c event_writer \<Rightarrow> 'c \<Rightarrow> op_store \<Rightarrow>
   (operation_error + op_view) \<times> op_identity \<times> 'c \<times> op_store" where
  "Execute_operation env oid co audit outbox c st =
     (case take_lease (oiCapability oid) of
        (None, cap') \<Rightarrow> (Inl ErrOperationUnavailable, oid\<lparr>oiCapability := cap'\<rparr>, coClear co c, st)
      | (Some lease, cap') \<Rightarrow>
      let oid = oid\<lparr>oiCapability := cap'\<rparr> in
      if oiID oid \<le> 0 \<or> length (oiPublicRef oid) \<noteq> 46 \<or> \<not> validOperationActorClaims (oiActor oid)
      then (Inl ErrOperationUnavailable, oid, coClear co c, st)
      else case oeRevoked env (clSID (oiActor oid)) of
        None \<Rightarrow> (Inl ErrOperationUnavailable, oid, coClear co c, st)
      | Some revoked \<Rightarrow>
      if revoked then (Inl ErrOperationForbidden, oid, coClear co c, st)
      else if \<not> validOperationNow (oeClock env 0) then (Inl ErrOperationUnavailable, oid, coClear co c, st)
      else case execute_tx env oid lease co audit outbox c st of
        (Inl er, c) \<Rightarrow> (Inl (mapOperationError er), oid, coClear co c, st)
      | (Inr (view, st'), c) \<Rightarrow>
          (case oeCommit env of
             CommitOK \<Rightarrow> (Inr view, oid, coClear co (coConfirmed co c), st')
           | CommitLost \<Rightarrow> (Inl (ErrCommitUnknown (oiPublicRef oid)), oid, coClear co c, st)
           | CommitUnacknowledged \<Rightarrow> (Inl (ErrCommitUnknown (oiPublicRef oid)), oid, coClear co c, st')))"

section \<open>The role consumer\<close>

text \<open>The role and permission execution as a consumer.  Its state is the once-only state and the SIDs it has marked.\<close>

definition role_consumer :: "tx_env \<Rightarrow> role_execution \<Rightarrow> (role_state \<times> bytes list) consumer" where
  "role_consumer env x =
     \<lparr>coPrelock = Some (\<lambda>c op v t. let (res, s) = prelockForAuthorization env x op v t (fst c) in (res, (s, snd c))),
      coPreflight = Some (\<lambda>c op t. preflightLocked env x op (fst c)),
      coExecute = (\<lambda>c op st. let (res, s, marks) = Execute_role env x op (osTables st) (fst c) in (res, (s, snd c @ marks))),
      coClear = id, coConfirmed = id\<rparr>"

end
