(* ===== verification/Role_Writes.thy ===== *)
theory Role_Writes
  imports Role_Execute
begin

text \<open>
  What each write of \<open>Role_Execute\<close> does to the tables, as an exact equation on the rows, and the locked
  state that the reads of \<open>Role_Transaction\<close> guarantee.  The equations are what the properties of role
  and permission changes rest on.
\<close>

section \<open>Tables\<close>

text \<open>Primary keys and the unique user of a policy head; tombstones are 0 or 1; keys still to be given are positive.\<close>

definition tables_ok :: "tables \<Rightarrow> bool" where
  "tables_ok t \<longleftrightarrow>
     distinct (map rID (tUsers t)) \<and> distinct (map rID (tSessions t)) \<and> distinct (map rID (tHeads t)) \<and>
     distinct (map hUser (tHeads t)) \<and> (\<forall>p \<in> set (tRules t). rDeleted p \<in> {0, 1}) \<and> 0 < tNextID t"

lemma distinct_keyD: "distinct (map k xs) \<Longrightarrow> a \<in> set xs \<Longrightarrow> b \<in> set xs \<Longrightarrow> k a = k b \<Longrightarrow> a = b"
  by (simp add: distinct_map inj_on_def)

text \<open>An update that must hit the one row it was computed from changes that row alone.\<close>

lemma sql_update_row:
  assumes "distinct (map k rows)" "r \<in> set rows" "P r" "\<And>q. P q \<Longrightarrow> k q = k r"
  shows "sql_update P f rows = map (\<lambda>q. if q = r then f q else q) rows"
proof -
  have "P q \<longleftrightarrow> q = r" if "q \<in> set rows" for q
    using assms that by (metis distinct_keyD)
  then show ?thesis by (simp add: sql_update_def)
qed

lemma sql_stmt_Some:
  "sql_stmt env f n w = Some w' \<longleftrightarrow>
     \<not> envFault env (wStmt w) \<and> snd (f (wTables w)) = n \<and> w' = w\<lparr>wTables := fst (f (wTables w)), wStmt := wStmt w + 1\<rparr>"
  by (auto simp: sql_stmt_def Let_def split: prod.splits)

lemma nextGUID_Some:
  "nextGUID env w = Some (g, w') \<longleftrightarrow> g = envGUID env (wGUIDs w) \<and> 0 < g \<and> w' = w\<lparr>wGUIDs := wGUIDs w + 1\<rparr>"
  by (auto simp: nextGUID_def Let_def split: if_splits)

lemma insert_event_frame:
  "tUsers (fst (insert_event ev t)) = tUsers t" "tSessions (fst (insert_event ev t)) = tSessions t"
  "tHeads (fst (insert_event ev t)) = tHeads t" "tRules (fst (insert_event ev t)) = tRules t"
  "tNextID t \<le> tNextID (fst (insert_event ev t))"
  by (simp_all add: insert_event_def)

section \<open>Sessions\<close>

definition revoked_session :: "int \<Rightarrow> int \<Rightarrow> session_row \<Rightarrow> session_row" where
  "revoked_session actor now r =
     r\<lparr>sRevokedAt := Some now, sVersion := sVersion r + 1, rUpdatedAt := now, rUpdatedBy := Some actor\<rparr>"

lemma revoked_session_facts [simp]:
  "rID (revoked_session actor now r) = rID r" "\<not> live_session uid (revoked_session actor now r)"
  by (simp_all add: revoked_session_def live_session_def)

lemma revokeSession_rows:
  assumes step: "revokeSession env actor now s w = Some w'"
    and ok: "distinct (map rID (tSessions (wTables w)))" "s \<in> set (tSessions (wTables w))" "live_session uid s"
  shows "tSessions (wTables w') = map (\<lambda>r. if r = s then revoked_session actor now r else r) (tSessions (wTables w)) \<and>
    tUsers (wTables w') = tUsers (wTables w) \<and> tHeads (wTables w') = tHeads (wTables w) \<and>
    tRules (wTables w') = tRules (wTables w) \<and> tNextID (wTables w) \<le> tNextID (wTables w')"
proof -
  have "sql_update (session_current s) f (tSessions (wTables w)) = map (\<lambda>r. if r = s then f r else r) (tSessions (wTables w))" for f
    using ok by (intro sql_update_row[of rID]) (auto simp: session_current_def live_session_def)
  moreover have "r = s \<Longrightarrow> r\<lparr>sRevokedAt := Some now, sVersion := sVersion s + 1, rUpdatedAt := now, rUpdatedBy := Some actor\<rparr> = revoked_session actor now r" for r
    by (simp add: revoked_session_def)
  ultimately show ?thesis using step
    by (auto simp: revokeSession_def bind_eq_Some_conv sql_stmt_Some nextGUID_Some insert_event_frame
        intro: order_trans[OF _ insert_event_frame(5)] cong: if_cong)
qed

lemma revoke_all_rows:
  assumes "revoke_all env actor now ss w = Some w'"
    and "distinct (map rID (tSessions (wTables w)))" "distinct ss" "\<forall>s \<in> set ss. s \<in> set (tSessions (wTables w)) \<and> live_session uid s"
  shows "tSessions (wTables w') = map (\<lambda>r. if r \<in> set ss then revoked_session actor now r else r) (tSessions (wTables w)) \<and>
    tUsers (wTables w') = tUsers (wTables w) \<and> tHeads (wTables w') = tHeads (wTables w) \<and>
    tRules (wTables w') = tRules (wTables w) \<and> tNextID (wTables w) \<le> tNextID (wTables w')"
  using assms
proof (induction ss arbitrary: w)
  case (Cons s ss)
  let ?f = "\<lambda>r. if r = s then revoked_session actor now r else r"
  from Cons.prems(1) obtain w1 where w1: "revokeSession env actor now s w = Some w1" "revoke_all env actor now ss w1 = Some w'"
    by (auto simp: bind_eq_Some_conv)
  have one: "tSessions (wTables w1) = map ?f (tSessions (wTables w)) \<and> tUsers (wTables w1) = tUsers (wTables w) \<and>
      tHeads (wTables w1) = tHeads (wTables w) \<and> tRules (wTables w1) = tRules (wTables w) \<and> tNextID (wTables w) \<le> tNextID (wTables w1)"
    using revokeSession_rows[where uid = uid, OF w1(1) Cons.prems(2)] Cons.prems(4) by simp
  have "map rID (tSessions (wTables w1)) = map rID (tSessions (wTables w))" using one by simp
  moreover have "\<forall>q \<in> set ss. q \<in> set (tSessions (wTables w1)) \<and> live_session uid q"
    using Cons.prems(3,4) one by auto
  ultimately have two: "tSessions (wTables w') = map (\<lambda>r. if r \<in> set ss then revoked_session actor now r else r) (tSessions (wTables w1)) \<and>
    tUsers (wTables w') = tUsers (wTables w1) \<and> tHeads (wTables w') = tHeads (wTables w1) \<and>
    tRules (wTables w') = tRules (wTables w1) \<and> tNextID (wTables w1) \<le> tNextID (wTables w')"
    using Cons.IH[OF w1(2)] Cons.prems(2,3) by simp
  have "revoked_session actor now s \<notin> set ss" using Cons.prems(4) by auto
  then have "map (\<lambda>r. if r \<in> set ss then revoked_session actor now r else r) (map ?f rows) =
      map (\<lambda>r. if r \<in> set (s # ss) then revoked_session actor now r else r) rows" for rows
    using Cons.prems(3) by auto
  with one two show ?case by auto
qed simp

section \<open>The target\<close>

definition changed_user :: "int \<Rightarrow> int \<Rightarrow> transition_plan \<Rightarrow> user_row \<Rightarrow> user_row" where
  "changed_user actor now plan r =
     r\<lparr>uRole := tpRole plan, uAuthVersion := tpAuthVersion plan, rUpdatedAt := now, rUpdatedBy := Some actor\<rparr>"

lemma write_user_rows:
  assumes "write_user env actor now u plan w = Some w'"
    and "distinct (map rID (tUsers (wTables w)))" "u \<in> set (tUsers (wTables w))" "rDeleted u = 0"
  shows "wTables w' = (wTables w)\<lparr>tUsers := map (\<lambda>r. if r = u then changed_user actor now plan r else r) (tUsers (wTables w))\<rparr>"
proof -
  have "sql_update (user_current u) f (tUsers (wTables w)) = map (\<lambda>r. if r = u then f r else r) (tUsers (wTables w))" for f
    using assms(2-4) by (intro sql_update_row[of rID]) (auto simp: user_current_def)
  then show ?thesis using assms(1) by (simp add: write_user_def sql_stmt_Some changed_user_def cong: if_cong)
qed

section \<open>Rules and head\<close>

definition buried :: "int \<Rightarrow> int \<Rightarrow> policy_rule \<Rightarrow> policy_rule" where
  "buried actor now p = p\<lparr>rDeleted := 1, rUpdatedAt := now, rUpdatedBy := Some actor\<rparr>"

lemma tombstone_rows:
  assumes "tombstone_rules env actor now uid rules w = Some w'"
    and "rules = [] \<Longrightarrow> \<forall>p \<in> set (tRules (wTables w)). \<not> live_rule uid p"
  shows "wTables w' = (wTables w)\<lparr>tRules := map (\<lambda>p. if live_rule uid p then buried actor now p else p) (tRules (wTables w))\<rparr>"
proof (cases "rules = []")
  case True
  then have "map (\<lambda>p. if live_rule uid p then buried actor now p else p) (tRules (wTables w)) = tRules (wTables w)"
    using assms(2) by (auto intro: map_idI)
  with True assms(1) show ?thesis by (simp add: tombstone_rules_def)
qed (use assms(1) in \<open>simp add: tombstone_rules_def sql_stmt_Some sql_update_def buried_def\<close>)

text \<open>The row that stores a desired rule.\<close>

definition stores :: "int \<Rightarrow> int \<Rightarrow> override_intent \<Rightarrow> policy_rule \<Rightarrow> bool" where
  "stores uid version r p \<longleftrightarrow>
     pUser p = uid \<and> pVersion p = version \<and> rDeleted p = 0 \<and> 0 < rID p \<and> 0 < rGUID p \<and> pEffect p = poEffect r \<and>
     PermissionCapabilityName (pCapability p) = Some (poCapability r)"

lemma create_rows:
  assumes "create_rules env actor now uid version rs w = Some w'" "0 < tNextID (wTables w)"
  shows "\<exists>news. tRules (wTables w') = tRules (wTables w) @ news \<and> list_all2 (stores uid version) rs news \<and>
    tUsers (wTables w') = tUsers (wTables w) \<and> tSessions (wTables w') = tSessions (wTables w) \<and>
    tHeads (wTables w') = tHeads (wTables w) \<and> 0 < tNextID (wTables w')"
  using assms
proof (induction rs arbitrary: w)
  case (Cons r rs)
  from Cons.prems(1) obtain code g w1 where code: "PermissionCapabilityCode (poCapability r) = Some code" and g: "0 < g"
    and w1: "create_rules env actor now uid version rs w1 = Some w'"
    and ins: "wTables w1 = fst (insert_rule \<lparr>rID = 0, rGUID = g, rCreatedAt = now, rCreatedBy = Some actor, rUpdatedAt = now, rUpdatedBy = Some actor,
             rDeleted = 0, pUser = uid, pVersion = version, pCapability = code, pEffect = poEffect r\<rparr> (wTables w))"
      "snd (insert_rule \<lparr>rID = 0, rGUID = g, rCreatedAt = now, rCreatedBy = Some actor, rUpdatedAt = now, rUpdatedBy = Some actor,
             rDeleted = 0, pUser = uid, pVersion = version, pCapability = code, pEffect = poEffect r\<rparr> (wTables w)) = 1"
    by (auto simp: bind_eq_Some_conv sql_stmt_Some nextGUID_Some split: option.splits)
  define p where "p = \<lparr>rID = tNextID (wTables w), rGUID = g, rCreatedAt = now, rCreatedBy = Some actor, rUpdatedAt = now,
      rUpdatedBy = Some actor, rDeleted = 0, pUser = uid, pVersion = version, pCapability = code, pEffect = poEffect r\<rparr>"
  have t1: "wTables w1 = (wTables w)\<lparr>tRules := tRules (wTables w) @ [p], tNextID := tNextID (wTables w) + 1\<rparr>"
    using ins by (auto simp: insert_rule_def p_def split: if_splits)
  have "stores uid version r p" using code g Cons.prems(2) by (simp add: stores_def p_def capability_code_iff)
  with Cons.IH[OF w1] t1 Cons.prems(2) show ?case by auto
qed simp

lemma write_head_rows:
  assumes "write_head env actor now uid head plan w = Some w'" "0 < tNextID (wTables w)"
    and "distinct (map rID (tHeads (wTables w)))" "distinct (map hUser (tHeads (wTables w)))"
    and "case head of None \<Rightarrow> True | Some h \<Rightarrow> h \<in> set (tHeads (wTables w)) \<and> live_head uid h \<and> 0 < rID h \<and> 0 < rGUID h"
  shows "tUsers (wTables w') = tUsers (wTables w) \<and> tSessions (wTables w') = tSessions (wTables w) \<and>
    tRules (wTables w') = tRules (wTables w) \<and>
    distinct (map hUser (tHeads (wTables w'))) \<and> filter (\<lambda>h. hUser h \<noteq> uid) (tHeads (wTables w')) = filter (\<lambda>h. hUser h \<noteq> uid) (tHeads (wTables w)) \<and>
    (\<exists>h \<in> set (tHeads (wTables w')). live_head uid h \<and> 0 < rID h \<and> 0 < rGUID h \<and> hVersion h = tpNextPolicy plan \<and>
       hCatalog h = tpCatalog plan \<and> hRuleCount h = int (length (tpRules plan)))"
proof (cases head)
  case None
  with assms(1) obtain g where "0 < g" and ins:
    "wTables w' = fst (insert_head \<lparr>rID = 0, rGUID = g, rCreatedAt = now, rCreatedBy = Some actor, rUpdatedAt = now, rUpdatedBy = Some actor,
             rDeleted = 0, hUser = uid, hVersion = tpNextPolicy plan, hCatalog = tpCatalog plan,
             hRuleCount = int (length (tpRules plan))\<rparr> (wTables w))"
    "snd (insert_head \<lparr>rID = 0, rGUID = g, rCreatedAt = now, rCreatedBy = Some actor, rUpdatedAt = now, rUpdatedBy = Some actor,
             rDeleted = 0, hUser = uid, hVersion = tpNextPolicy plan, hCatalog = tpCatalog plan,
             hRuleCount = int (length (tpRules plan))\<rparr> (wTables w)) = 1"
    by (auto simp: write_head_def bind_eq_Some_conv sql_stmt_Some nextGUID_Some)
  then show ?thesis using assms(2,4) by (auto simp: insert_head_def live_head_def split: if_splits)
next
  case (Some h)
  define f :: "policy_head \<Rightarrow> policy_head" where "f = (\<lambda>r. r\<lparr>hVersion := tpNextPolicy plan, hCatalog := tpCatalog plan,
      hRuleCount := int (length (tpRules plan)), rUpdatedAt := now, rUpdatedBy := Some actor\<rparr>)"
  have t: "wTables w' = (wTables w)\<lparr>tHeads := sql_update (head_current h uid (tpExpectedPolicy plan)) f (tHeads (wTables w))\<rparr>"
    and n: "sql_affected (head_current h uid (tpExpectedPolicy plan)) (tHeads (wTables w)) = 1"
    using assms(1) Some by (auto simp: write_head_def sql_stmt_Some f_def)
  from n have "filter (head_current h uid (tpExpectedPolicy plan)) (tHeads (wTables w)) \<noteq> []"
    by (auto simp: sql_affected_def)
  then obtain r where "r \<in> set (tHeads (wTables w))" "head_current h uid (tpExpectedPolicy plan) r"
    by (auto simp: filter_empty_conv)
  moreover have h: "h \<in> set (tHeads (wTables w))" "live_head uid h" "0 < rID h" "0 < rGUID h" using assms(5) Some by auto
  ultimately have cur: "head_current h uid (tpExpectedPolicy plan) h"
    using distinct_keyD[OF assms(3)] by (metis head_current_def)
  have upd: "sql_update (head_current h uid (tpExpectedPolicy plan)) f (tHeads (wTables w)) = map (\<lambda>r. if r = h then f r else r) (tHeads (wTables w))"
    using assms(3) h cur by (intro sql_update_row[of rID]) (auto simp: head_current_def)
  have user: "hUser (f r) = hUser r" for r by (simp add: f_def)
  have users: "map hUser (map (\<lambda>r. if r = h then f r else r) rows) = map hUser rows" for rows
    by (auto simp: user)
  have "filter (\<lambda>h. hUser h \<noteq> uid) (map (\<lambda>r. if r = h then f r else r) rows) = filter (\<lambda>h. hUser h \<noteq> uid) rows" for rows
    using h(2) by (induction rows) (auto simp: user live_head_def)
  moreover have "f h \<in> set (map (\<lambda>r. if r = h then f r else r) (tHeads (wTables w)))" using h(1) by auto
  moreover have "live_head uid (f h) \<and> 0 < rID (f h) \<and> 0 < rGUID (f h) \<and> hVersion (f h) = tpNextPolicy plan \<and>
       hCatalog (f h) = tpCatalog plan \<and> hRuleCount (f h) = int (length (tpRules plan))"
    using h by (simp add: f_def live_head_def)
  ultimately show ?thesis using assms(4) by (auto simp: t upd users simp del: set_map map_map)
qed

lemma write_audit_rows:
  "writeManagedUpdateAudit env actor uid now w = Some w' \<Longrightarrow>
   tUsers (wTables w') = tUsers (wTables w) \<and> tSessions (wTables w') = tSessions (wTables w) \<and>
   tHeads (wTables w') = tHeads (wTables w) \<and> tRules (wTables w') = tRules (wTables w)"
  by (auto simp: writeManagedUpdateAudit_def bind_eq_Some_conv sql_stmt_Some nextGUID_Some insert_event_frame)

end
