(* ===== verification/Operation_Invariants.thy ===== *)
theory Operation_Invariants
  imports Operation_Execute Role_Writes
begin

text \<open>
  The operation table under the calls of the service.  \<open>row_step\<close> is what may happen to one row: nothing,
  or one transition of the state machine that keeps its identity.  \<open>ops_ok\<close> are the constraints that the
  schema declares, which the code has to respect: keys, and the checks of every row.
\<close>

section \<open>Rows\<close>

text \<open>The \<open>CHECK\<close> constraints of \<open>migration/sql/0005_admin_operation_safety.up.sql\<close>, and those on the result columns
  of \<open>0013_admin_operation_role_permission_results.up.sql\<close>, which replaces the one of \<open>0012\<close>.\<close>

definition lease_check :: "operation_row \<Rightarrow> bool" where
  "lease_check r \<longleftrightarrow>
     (opLeaseOwner r = None \<and> opLeaseExpires r = None) \<or>
     (opLeaseOwner r \<noteq> None \<and> (case opLeaseExpires r of None \<Rightarrow> False | Some e \<Rightarrow> 0 \<le> e))"

definition result_check :: "operation_row \<Rightarrow> bool" where
  "result_check r \<longleftrightarrow>
     (case opResultKind r of
        None \<Rightarrow> opResultGUID r = None
      | Some k \<Rightarrow> (k = 1 \<and> opResultGUID r = None) \<or> ((k = 2 \<or> k = 3) \<and> opResultGUID r \<noteq> None))"

definition terminal_check :: "operation_row \<Rightarrow> bool" where
  "terminal_check r \<longleftrightarrow>
     (let st = opState r; leased = (opLeaseOwner r \<noteq> None); fin = (opFinishedAt r \<noteq> None); failed = (opErrorCode r \<noteq> None);
          result = (opResultKind r \<noteq> None); http = (opResultStatus r \<noteq> None) in
      (st = OperationProcessing \<and> leased \<and> \<not> fin \<and> \<not> failed \<and> \<not> result \<and> \<not> http) \<or>
      (st = OperationSucceeded \<and> \<not> leased \<and> fin \<and> \<not> failed \<and> result \<and> http) \<or>
      (st = OperationFailed \<and> \<not> leased \<and> fin \<and> failed \<and> \<not> result \<and> http) \<or>
      (st = OperationPendingRecovery \<and> \<not> leased \<and> \<not> fin \<and> \<not> failed \<and> \<not> result \<and> \<not> http) \<or>
      (st = OperationExpired \<and> \<not> leased \<and> \<not> failed \<and> \<not> result \<and> \<not> http))"

definition value_check :: "operation_row \<Rightarrow> bool" where
  "value_check r \<longleftrightarrow>
     (case opErrorCode r of None \<Rightarrow> True | Some e \<Rightarrow> 1 \<le> e \<and> e \<le> 999) \<and>
     (case opResultStatus r of None \<Rightarrow> True | Some s \<Rightarrow> 100 \<le> s \<and> s \<le> 599) \<and>
     0 \<le> opQueryExpires r \<and> (case opFinishedAt r of None \<Rightarrow> True | Some f \<Rightarrow> 0 \<le> f) \<and>
     0 \<le> opAuthVersion r \<and> 0 \<le> rCreatedAt r \<and> 0 \<le> rUpdatedAt r \<and> deleted_fits r"

definition unsettled_state :: "operation_row \<Rightarrow> bool" where
  "unsettled_state r \<longleftrightarrow> opState r \<in> {OperationProcessing, OperationFailed, OperationPendingRecovery, OperationExpired}"

definition auth_version_check :: "operation_row \<Rightarrow> bool" where
  "auth_version_check r \<longleftrightarrow>
     (let won = (opState r = OperationSucceeded); user = (opResultKind r = Some 2 \<and> opResultGUID r \<noteq> None);
          version = (case opResultAuthVersion r of None \<Rightarrow> False | Some v \<Rightarrow> 0 < v) in
      (won \<and> opAction r = 2 \<and> user \<and> version) \<or>
      (won \<and> opAction r \<in> {3, 4, 5} \<and> user \<and> version) \<or>
      ((unsettled_state r \<or> won \<and> (opAction r < 2 \<or> 5 < opAction r)) \<and> opResultAuthVersion r = None))"

definition role_permission_check :: "operation_row \<Rightarrow> bool" where
  "role_permission_check r \<longleftrightarrow>
     (let won = (opState r = OperationSucceeded); user = (opResultKind r = Some 2 \<and> opResultGUID r \<noteq> None);
          version = (case opResultPolicyVersion r of None \<Rightarrow> False | Some v \<Rightarrow> 0 < v) in
      (won \<and> opAction r = 3 \<and> user \<and> version \<and> opResultRole r = Some 10) \<or>
      (won \<and> opAction r = 4 \<and> user \<and> version \<and> opResultRole r = Some 1) \<or>
      (won \<and> opAction r = 5 \<and> user \<and> version \<and> opResultRole r = Some 10) \<or>
      ((unsettled_state r \<or> won \<and> (opAction r < 3 \<or> 5 < opAction r)) \<and> opResultPolicyVersion r = None \<and> opResultRole r = None))"

definition row_checks :: "operation_row \<Rightarrow> bool" where
  "row_checks r \<longleftrightarrow> lease_check r \<and> result_check r \<and> terminal_check r \<and> value_check r \<and> auth_version_check r \<and> role_permission_check r"

lemmas row_check_defs = row_checks_def lease_check_def result_check_def terminal_check_def value_check_def deleted_fits_def
  auth_version_check_def role_permission_check_def unsettled_state_def Let_def

definition row_identity :: "operation_row \<Rightarrow> int \<times> int \<times> int \<times> int \<times> int \<times> int \<times> bytes \<times> bytes \<times> bytes \<times> int option" where
  "row_identity r = (rID r, rGUID r, opActor r, opAuthVersion r, opSession r, opAction r, opIdempotencyHMAC r, opRequestHMAC r,
     opPublicRef r, opVerification r)"

definition row_step :: "operation_row \<Rightarrow> operation_row \<Rightarrow> bool" where
  "row_step r r' \<longleftrightarrow> r' = r \<or> (row_identity r' = row_identity r \<and> CanTransitionTo (opState r) (opState r'))"

lemma row_step_refl [simp]: "row_step r r"
  by (simp add: row_step_def)

lemma row_step_identity: "row_step r r' \<Longrightarrow> row_identity r' = row_identity r"
  by (auto simp: row_step_def)

section \<open>The table\<close>

definition row_scope :: "operation_row \<Rightarrow> int \<times> int \<times> bytes" where
  "row_scope r = (opActor r, opAction r, opIdempotencyHMAC r)"

definition tickets_of :: "operation_row list \<Rightarrow> int list" where
  "tickets_of ops = List.map_filter opVerification ops"

definition ops_ok :: "op_store \<Rightarrow> bool" where
  "ops_ok st \<longleftrightarrow>
     distinct (map rID (osOps st)) \<and> (\<forall>r \<in> set (osOps st). rID r < osNextID st) \<and> 0 < osNextID st \<and>
     distinct (map row_scope (osOps st)) \<and> distinct (tickets_of (osOps st)) \<and> list_all row_checks (osOps st)"

lemma identity_keys:
  "row_identity r' = row_identity r \<Longrightarrow> rID r' = rID r \<and> row_scope r' = row_scope r \<and> opVerification r' = opVerification r"
  by (simp add: row_identity_def row_scope_def)

lemma tickets_of_cong: "list_all2 (\<lambda>r r'. opVerification r' = opVerification r) ops ops' \<Longrightarrow> tickets_of ops' = tickets_of ops"
  by (induction rule: list_all2_induct) (auto simp: tickets_of_def map_filter_def)

text \<open>An update by rows whose transition is lawful.\<close>

lemma ops_update:
  assumes ok: "ops_ok st"
    and step: "\<And>r. r \<in> set (osOps st) \<Longrightarrow> P r \<Longrightarrow> row_step r (f r) \<and> (row_checks r \<longrightarrow> row_checks (f r))"
  shows "ops_ok (st\<lparr>osOps := sql_update P f (osOps st)\<rparr>) \<and> list_all2 row_step (osOps st) (sql_update P f (osOps st))"
proof -
  let ?g = "\<lambda>r. if P r then f r else r"
  have each: "row_step r (?g r)" "row_checks r \<Longrightarrow> row_checks (?g r)" if "r \<in> set (osOps st)" for r
    using step[OF that] by auto
  have all2: "list_all2 row_step (osOps st) (map ?g (osOps st))"
    using each(1) by (simp add: list_all2_map2 list_all2_same)
  have keys: "rID (?g r) = rID r \<and> row_scope (?g r) = row_scope r \<and> opVerification (?g r) = opVerification r" if "r \<in> set (osOps st)" for r
    using identity_keys[OF row_step_identity[OF each(1)[OF that]]] .
  have "map rID (map ?g (osOps st)) = map rID (osOps st)" "map row_scope (map ?g (osOps st)) = map row_scope (osOps st)"
    using keys by auto
  moreover have "tickets_of (map ?g (osOps st)) = tickets_of (osOps st)"
    using keys by (intro tickets_of_cong) (simp add: list_all2_map2 list_all2_same)
  moreover have "list_all row_checks (map ?g (osOps st))"
    using ok step by (auto simp: ops_ok_def list_all_iff)
  moreover have "rID (?g r) < osNextID st" if "r \<in> set (osOps st)" for r
    using ok keys[OF that] that by (simp add: ops_ok_def)
  then have "\<forall>r \<in> set (map ?g (osOps st)). rID r < osNextID st" unfolding set_map by blast
  ultimately show ?thesis using ok all2 unfolding sql_update_def ops_ok_def by (simp del: map_map set_map)
qed

definition ops_grow :: "operation_row list \<Rightarrow> operation_row list \<Rightarrow> bool" where
  "ops_grow ops ops' \<longleftrightarrow>
     (\<exists>kept news. ops' = kept @ news \<and> list_all2 row_step ops kept \<and> list_all (\<lambda>r. opState r = OperationProcessing) news)"

lemma ops_grow_refl [simp]: "ops_grow ops ops"
  unfolding ops_grow_def by (rule exI[of _ ops], rule exI[of _ "[]"]) (simp add: list_all2_same)

lemma ops_grow_steps: "list_all2 row_step ops ops' \<Longrightarrow> ops_grow ops ops'"
  unfolding ops_grow_def by (rule exI[of _ ops'], rule exI[of _ "[]"]) simp

lemma ops_grow_append: "opState r = OperationProcessing \<Longrightarrow> ops_grow ops (ops @ [r])"
  unfolding ops_grow_def by (rule exI[of _ ops], rule exI[of _ "[r]"]) (simp add: list_all2_same)

text \<open>A settled operation has consumed its ticket, and a consumed ticket stays consumed.\<close>

definition ticket_consumed :: "verification_row list \<Rightarrow> operation_row \<Rightarrow> bool" where
  "ticket_consumed vs r \<longleftrightarrow>
     (case opVerification r of None \<Rightarrow> True | Some vid \<Rightarrow> \<exists>v \<in> set vs. rID v = vid \<and> vConsumedAt v \<noteq> None)"

definition tickets_kept :: "verification_row list \<Rightarrow> verification_row list \<Rightarrow> bool" where
  "tickets_kept vs vs' \<longleftrightarrow>
     (\<forall>v \<in> set vs. vConsumedAt v \<noteq> None \<longrightarrow> (\<exists>v' \<in> set vs'. rID v' = rID v \<and> vConsumedAt v' \<noteq> None))"

definition settled :: "operation_row \<Rightarrow> bool" where
  "settled r \<longleftrightarrow> opState r = OperationSucceeded \<or> opState r = OperationFailed"

definition store_step :: "op_store \<Rightarrow> op_store \<Rightarrow> bool" where
  "store_step st st' \<longleftrightarrow>
     ops_ok st' \<and> ops_grow (osOps st) (osOps st') \<and> tickets_kept (osVers st) (osVers st') \<and>
     (\<forall>r \<in> set (osOps st'). settled r \<longrightarrow> r \<in> set (osOps st) \<or> ticket_consumed (osVers st') r)"

lemma tickets_kept_refl [simp]: "tickets_kept vs vs"
  by (auto simp: tickets_kept_def)

lemma store_step_refl [simp]: "ops_ok st \<Longrightarrow> store_step st st"
  by (simp add: store_step_def)

lemma update_step:
  assumes "ops_ok st"
    and "\<And>r. r \<in> set (osOps st) \<Longrightarrow> P r \<Longrightarrow> row_step r (f r) \<and> (row_checks r \<longrightarrow> row_checks (f r))"
    and "\<And>r. r \<in> set (osOps st) \<Longrightarrow> P r \<Longrightarrow> settled (f r) \<Longrightarrow> ticket_consumed (osVers st) (f r)"
  shows "store_step st (st\<lparr>osOps := sql_update P f (osOps st)\<rparr>)"
  using ops_update[OF assms(1,2)] assms(3) by (auto simp: store_step_def ops_grow_steps sql_update_def)

section \<open>The writes\<close>

lemma expireOperation_step:
  assumes "expireOperation fault op actor now (osOps st) = Some ops" "ops_ok st" "validOperationNow now"
  shows "store_step st (st\<lparr>osOps := ops\<rparr>)"
proof -
  from assms(1) have can: "CanTransitionTo (opState op) OperationExpired"
    and ops: "ops = sql_update (expirable op now) (expired_row actor now) (osOps st)"
    by (auto simp: expireOperation_def split: if_splits)
  have pos: "0 < now" using assms(3) by (simp add: validOperationNow_def)
  have "row_step r (expired_row actor now r) \<and> (row_checks r \<longrightarrow> row_checks (expired_row actor now r))" if "expirable op now r" for r
    using that can pos
    by (auto simp: row_step_def expirable_def expired_row_def row_identity_def row_check_defs)
  moreover have "\<not> settled (expired_row actor now r)" for r by (simp add: settled_def expired_row_def)
  ultimately show ?thesis unfolding ops using update_step[OF assms(2)] by blast
qed

lemma pending_step:
  assumes "ops_ok st" "0 < now"
  shows "store_step st (st\<lparr>osOps := sql_update (recoverable op lease cutoff) (pending_row now) (osOps st)\<rparr>)"
proof -
  have "row_step r (pending_row now r) \<and> (row_checks r \<longrightarrow> row_checks (pending_row now r))" if "recoverable op lease cutoff r" for r
    using that assms(2)
    by (auto simp: row_step_def recoverable_def pending_row_def row_identity_def CanTransitionTo_def row_check_defs)
  moreover have "\<not> settled (pending_row now r)" for r by (simp add: settled_def pending_row_def)
  ultimately show ?thesis using update_step[OF assms(1)] by blast
qed

text \<open>What a valid outcome stores in the result columns.\<close>

lemma won_columns:
  assumes "validateTerminalOutcomeForAction action o'" "toFailure o' = None" "result_fits action OperationSucceeded o'"
  shows "toResultKind o' = 1 \<and> toResultGUID o' = None \<or> (toResultKind o' = 2 \<or> toResultKind o' = 3) \<and> toResultGUID o' \<noteq> None"
    and "200 \<le> toHTTP o'" "toHTTP o' \<le> 299"
    and "if 2 \<le> action \<and> action \<le> 5
         then toResultKind o' = 2 \<and> toResultGUID o' \<noteq> None \<and> (case toAuthVersion o' of None \<Rightarrow> False | Some v \<Rightarrow> 0 < v)
         else toAuthVersion o' = None"
    and "if 3 \<le> action \<and> action \<le> 5
         then (case toPolicyVersion o' of None \<Rightarrow> False | Some v \<Rightarrow> 0 < v) \<and> toRole o' = Some (if action = 4 then 1 else 10)
         else toPolicyVersion o' = None \<and> toRole o' = None"
  using assms
  by (auto simp: validateTerminalOutcomeForAction_def result_fits_def isA08RolePermissionAction_def split: if_splits option.splits)

lemma lost_columns:
  assumes "validateTerminalOutcomeForAction action o'" "toFailure o' = Some f"
  shows "f \<in> {1, 2, 3, 4, 5}" "400 \<le> toHTTP o'" "toHTTP o' \<le> 499"
    and "toAuthVersion o' = None \<and> toPolicyVersion o' = None \<and> toRole o' = None"
  using assms by (auto simp: validateTerminalOutcomeForAction_def)

lemma settled_checks:
  assumes "row_checks r" "opState r = OperationProcessing" "rDeleted r = 0" "0 < now" "opAction r = action"
    and "validateTerminalOutcomeForAction action o'" "result_fits action terminal o'"
    and "terminal = (if toFailure o' \<noteq> None then OperationFailed else OperationSucceeded)"
  shows "row_checks (settled_row actor now terminal o' r)"
proof (cases "toFailure o'")
  case None
  let ?s = "settled_row actor now OperationSucceeded o' r"
  have fits: "result_fits action OperationSucceeded o'" using assms(7,8) None by simp
  note w = won_columns[OF assms(6) None fits]
  have "lease_check ?s" "result_check ?s" "terminal_check ?s" "value_check ?s"
    using w(1-3) assms(1-4) None
    by (auto simp: settled_row_def row_check_defs actionOperationQueryRetentionMS_def)
  moreover have "auth_version_check ?s"
    using w(4) assms(5) by (auto simp: settled_row_def auth_version_check_def unsettled_state_def Let_def split: if_splits)
  moreover have "role_permission_check ?s"
    using w(4,5) assms(5) by (auto simp: settled_row_def role_permission_check_def unsettled_state_def Let_def split: if_splits)
  ultimately show ?thesis using assms(8) None by (simp add: row_checks_def)
next
  case (Some f)
  then show ?thesis using assms(1-4,8) lost_columns[OF assms(6) Some]
    by (auto simp: settled_row_def row_check_defs actionOperationQueryRetentionMS_def)
qed

lemma settle_step:
  assumes "ops_ok st" "0 < now" "validateTerminalOutcomeForAction action o'" "result_fits action terminal o'"
    and terminal: "terminal = (if toFailure o' \<noteq> None then OperationFailed else OperationSucceeded)"
    and action: "op \<in> set (osOps st)" "opAction op = action"
    and ticket: "\<forall>i. vid = Some i \<longrightarrow> (\<exists>v \<in> set (osVers st). rID v = i \<and> vConsumedAt v \<noteq> None)"
  shows "store_step st (st\<lparr>osOps := sql_update (settleable op lease vid) (settled_row actor now terminal o') (osOps st)\<rparr>)"
proof (rule update_step[OF assms(1)])
  fix r assume m: "r \<in> set (osOps st)" and r: "settleable op lease vid r"
  have "distinct (map rID (osOps st))" using assms(1) by (simp add: ops_ok_def)
  then have "r = op" using m r action(1) by (auto simp: settleable_def dest: distinct_keyD[of rID])
  then have "opAction r = action" using action(2) by simp
  then show "row_step r (settled_row actor now terminal o' r) \<and> (row_checks r \<longrightarrow> row_checks (settled_row actor now terminal o' r))"
    using r settled_checks[of r now action o' terminal actor] assms(2,3,4) terminal
    by (auto simp: row_step_def settleable_def settled_row_def row_identity_def CanTransitionTo_def Let_def)
  show "ticket_consumed (osVers st) (settled_row actor now terminal o' r)"
    using r ticket by (auto simp: ticket_consumed_def settleable_def settled_row_def Let_def split: option.split)
qed

section \<open>Begin\<close>

lemma insert_operation_Some:
  "insert_operation fault op st = Some (op', st') \<longleftrightarrow>
     \<not> fault \<and> (\<forall>r \<in> set (osOps st). rGUID r \<noteq> rGUID op \<and> opPublicRef r \<noteq> opPublicRef op \<and>
       \<not> same_scope (opActor op) (opAction op) (opIdempotencyHMAC op) r \<and>
       (opVerification op = None \<or> opVerification r \<noteq> opVerification op)) \<and>
     op' = op\<lparr>rID := osNextID st\<rparr> \<and> st' = st\<lparr>osOps := osOps st @ [op'], osNextID := osNextID st + 1\<rparr>"
  by (auto simp: insert_operation_def Let_def)

text \<open>The row of a new operation.\<close>

definition begun_row :: "op_env \<Rightarrow> begin_request \<Rightarrow> int \<Rightarrow> user_row \<Rightarrow> session_row \<Rightarrow> bytes \<Rightarrow> bytes \<Rightarrow> int option \<Rightarrow> int \<Rightarrow> operation_row" where
  "begun_row env rq key actor session ref lease vid now =
     \<lparr>rID = key, rGUID = oeGUID env, rCreatedAt = now, rCreatedBy = Some (rID actor), rUpdatedAt = now, rUpdatedBy = Some (rID actor),
      rDeleted = 0, opActor = rID actor, opAuthVersion = uAuthVersion actor, opSession = rID session, opAction = acAction (brDescriptor rq),
      opIdempotencyHMAC = brKeyHex rq, opRequestHMAC = brRequestHex rq, opVerification = vid, opState = OperationProcessing,
      opPublicRef = ref, opLeaseOwner = Some (hex_encode (LeaseOwnerDigest (oeCrypto env) lease)),
      opLeaseExpires = Some (now + actionOperationLeaseMillis), opFinishedAt = None,
      opQueryExpires = now + actionOperationQueryRetentionMS, opErrorCode = None, opResultKind = None, opResultGUID = None,
      opResultAuthVersion = None, opResultPolicyVersion = None, opResultRole = None, opResultStatus = None\<rparr>"

lemma begin_newD:
  assumes "begin_new env a rq st actor session now = Inr (res, st')" "ops_ok st"
  obtains ref lease vid finalNow where
    "NewPublicRef (oeRandomRef env) = Inr ref" "readRandom (oeRandomLease env) 32 = Inr lease" "lease \<noteq> zero_lease"
    "0 < finalNow" "finalNow = oeClock env 1" "finalNow < sExpiresAt session"
    "st' = st\<lparr>osOps := osOps st @ [begun_row env rq (osNextID st) actor session ref lease vid finalNow], osNextID := osNextID st + 1\<rparr>"
    "res = BeginView \<lparr>oiID = osNextID st, oiPublicRef = ref, oiActor = baActor a, oiCapability = Some \<lparr>lcRaw = lease, lcConsumed = False\<rparr>\<rparr>
       (operationView (brDescriptor rq) (begun_row env rq (osNextID st) actor session ref lease vid finalNow) finalNow)"
    "\<forall>r \<in> set (osOps st). rGUID r \<noteq> oeGUID env \<and> opPublicRef r \<noteq> ref \<and>
       \<not> same_scope (rID actor) (acAction (brDescriptor rq)) (brKeyHex rq) r \<and> (vid = None \<or> opVerification r \<noteq> vid)"
    "if acRequiresTicket (brDescriptor rq) then \<exists>v \<in> set (osVers st). vid = Some (rID v) \<and> verificationRelationAt v finalNow = TicketActive \<and>
       validOperationVerificationBinding v actor session (brDescriptor rq) (brRequestHex rq) (brTarget rq) else vid = None"
    "0 < oeGUID env"
proof -
  let ?d = "brDescriptor rq"
  obtain op lease st1 verification op2 lcap where ins: "begin_insert env rq st actor session now = Some (op, lease, st1)"
    and ver: "lockOperationBeginVerification (oeFault env 4) (osVers st1) ?d (brTicketHex rq) actor session (brRequestHex rq) (brTarget rq)
       (opVerification op) False = Inr verification"
    and now: "validOperationNow (oeClock env 1)" "oeClock env 1 < sExpiresAt session"
    and tick: "acRequiresTicket ?d \<Longrightarrow> (case verification of None \<Rightarrow> False | Some v \<Rightarrow> verificationRelationAt v (oeClock env 1) = TicketActive)"
    and stamp: "begin_stamp env ?d actor op verification (oeClock env 1) st1 = Inr (op2, st')"
    and lcap: "newOperationLeaseCapability lease = Some lcap"
    and res: "res = BeginView \<lparr>oiID = rID op2, oiPublicRef = opPublicRef op2, oiActor = baActor a, oiCapability = Some lcap\<rparr> (operationView ?d op2 (oeClock env 1))"
    using assms(1) by (auto simp: begin_new_def Let_def split: option.splits sum.splits prod.splits if_splits)
  let ?vid = "if acRequiresTicket ?d then map_option rID verification else None"
  obtain ref where ref: "NewPublicRef (oeRandomRef env) = Inr ref" "readRandom (oeRandomLease env) 32 = Inr lease" "0 < oeGUID env"
    and op: "op = begun_row env rq (osNextID st) actor session ref lease None now"
    and st1: "st1 = st\<lparr>osOps := osOps st @ [op], osNextID := osNextID st + 1\<rparr>"
    and fresh: "\<forall>r \<in> set (osOps st). rGUID r \<noteq> oeGUID env \<and> opPublicRef r \<noteq> ref \<and>
       \<not> same_scope (rID actor) (acAction (brDescriptor rq)) (brKeyHex rq) r"
    using ins by (auto simp: begin_insert_def insert_operation_Some begun_row_def split: option.splits sum.splits prod.splits if_splits)
  let ?row = "begun_row env rq (osNextID st) actor session ref lease ?vid (oeClock env 1)"
  have op2: "stamped_row (rID actor) n b vid op = begun_row env rq (osNextID st) actor session ref lease (if b then vid else None) n" for n b vid
    by (simp add: op stamped_row_def begun_row_def)
  have old: "\<forall>r \<in> set (osOps st). rID r \<noteq> osNextID st" using assms(2) by (auto simp: ops_ok_def)
  have key: "rID op = osNextID st" "begin_current op op" by (simp_all add: op begun_row_def begin_current_def)
  have "sql_update (begin_current op) f (osOps st @ [op]) = osOps st @ [f op]" for f
    using old key by (auto simp: sql_update_def begin_current_def intro: map_idI)
  then have ops: "op2 = ?row" "st' = st\<lparr>osOps := osOps st @ [?row], osNextID := osNextID st + 1\<rparr>"
    and free: "?vid = None \<or> (\<forall>r \<in> set (osOps st). opVerification r \<noteq> ?vid)"
    using stamp key old by (auto simp: begin_stamp_def Let_def st1 op2 split: if_splits)
  have ticket: "if acRequiresTicket ?d then \<exists>v \<in> set (osVers st). ?vid = Some (rID v) \<and> verificationRelationAt v (oeClock env 1) = TicketActive \<and>
       validOperationVerificationBinding v actor session ?d (brRequestHex rq) (brTarget rq) else ?vid = None"
    using ver tick by (auto simp: lockOperationBeginVerification_def lockOperationVerificationByTicket_def st1
        split: option.splits sum.splits if_splits dest: sql_firstD)
  have cap: "lease \<noteq> zero_lease" "lcap = \<lparr>lcRaw = lease, lcConsumed = False\<rparr>"
    using lcap by (auto simp: newOperationLeaseCapability_def split: if_splits)
  show thesis
    by (rule that[OF ref(1,2) cap(1), of "oeClock env 1" ?vid])
       (use now ref(3) ops free fresh ticket cap res in \<open>auto simp: begun_row_def validOperationNow_def\<close>)
qed

section \<open>Calls\<close>

lemma locked_actor:
  assumes "lockOperationActorSession fault t a now = Inr (actor, session)"
  shows "validActionActor actor \<and> rID actor = clUser a \<and> rGUID actor = clGUID a \<and> uAuthVersion actor = clAuthVersion a \<and>
    actor \<in> set (tUsers t) \<and> session \<in> set (tSessions t) \<and> live_at (rID actor) now session \<and> sSID session = clSID a \<and>
    sVersion session = clSessionVersion a"
proof -
  obtain s where u: "sql_first (\<lambda>u. rID u = clUser a) (tUsers t) = Some actor" "validActionActor actor" "rGUID actor = clGUID a"
      "uAuthVersion actor = clAuthVersion a"
    and s: "filter (\<lambda>s. sSID s = clSID a) (sql_find (live_at (rID actor) now) (tSessions t)) = [session]"
      "sVersion session = clSessionVersion a"
    using assms by (auto simp: lockOperationActorSession_def split: if_splits option.splits list.splits)
  have "session \<in> set (filter (\<lambda>s. sSID s = clSID a) (sql_find (live_at (rID actor) now) (tSessions t)))"
    by (simp only: s(1)) simp
  then show ?thesis using u sql_firstD[OF u(1)] s(2) by auto
qed

lemma begin_new_step:
  assumes new: "begin_new env a rq st actor session now = Inr (res, st')" and ok: "ops_ok st" and actor: "validActionActor actor"
  shows "store_step st st'"
proof -
  obtain ref lease vid finalNow where n: "0 < finalNow"
    "st' = st\<lparr>osOps := osOps st @ [begun_row env rq (osNextID st) actor session ref lease vid finalNow], osNextID := osNextID st + 1\<rparr>"
    "\<forall>r \<in> set (osOps st). rGUID r \<noteq> oeGUID env \<and> opPublicRef r \<noteq> ref \<and>
       \<not> same_scope (rID actor) (acAction (brDescriptor rq)) (brKeyHex rq) r \<and> (vid = None \<or> opVerification r \<noteq> vid)"
    by (rule begin_newD[OF new ok])
  let ?row = "begun_row env rq (osNextID st) actor session ref lease vid finalNow"
  have checks: "row_checks ?row"
    using n(1) actor by (auto simp: row_check_defs begun_row_def validActionActor_def actionOperationLeaseMillis_def actionOperationQueryRetentionMS_def)
  have "row_scope ?row \<notin> row_scope ` set (osOps st)" "rID ?row \<notin> rID ` set (osOps st)"
    using n(3) ok by (auto simp: row_scope_def begun_row_def same_scope_def ops_ok_def)
  moreover have "tickets_of (osOps st @ [?row]) = tickets_of (osOps st) @ (case vid of None \<Rightarrow> [] | Some v \<Rightarrow> [v])"
    by (auto simp: tickets_of_def map_filter_def begun_row_def split: option.split)
  moreover have "vid = Some v \<Longrightarrow> v \<notin> set (tickets_of (osOps st))" for v
    using n(3) by (auto simp: tickets_of_def map_filter_def)
  ultimately have "ops_ok st'" using ok checks
    by (auto simp: n(2) ops_ok_def begun_row_def split: option.split)
  moreover have "ops_grow (osOps st) (osOps st')" by (simp add: n(2) ops_grow_append begun_row_def)
  moreover have "\<not> settled ?row" by (simp add: settled_def begun_row_def)
  ultimately show ?thesis by (simp add: store_step_def n(2))
qed

lemma begin_tx_step:
  assumes "begin_tx env a rq st = Inr (res, st')" "ops_ok st"
  shows "store_step st st'"
proof -
  obtain actor session where l: "lockOperationActorSession (oeFault env) (osTables st) (baActor a) (oeClock env 0) = Inr (actor, session)"
    using assms(1) by (auto simp: begin_tx_def Let_def split: sum.splits)
  show ?thesis
  proof (cases "sql_first (same_scope (rID actor) (acAction (brDescriptor rq)) (brKeyHex rq)) (osOps st)")
    case None
    then have "begin_new env a rq st actor session (oeClock env 0) = Inr (res, st')"
      using assms(1) unfolding begin_tx_def Let_def l sum.case prod.case None option.case by (simp split: if_splits)
    then show ?thesis using begin_new_step assms(2) locked_actor[OF l] by blast
  next
    case (Some op)
    then have "begin_existing env a rq st actor session (oeClock env 0) op = Inr (res, st')"
      using assms(1) unfolding begin_tx_def Let_def l sum.case prod.case Some option.case by (simp split: if_splits)
    then show ?thesis using assms(2)
      by (auto simp: begin_existing_def Let_def split: if_splits option.splits sum.splits intro: expireOperation_step)
  qed
qed

lemma query_tx_step: "query_tx env d a key st = Inr (res, st') \<Longrightarrow> ops_ok st \<Longrightarrow> store_step st st'"
  by (auto simp: query_tx_def query_found_def Let_def split: if_splits option.splits sum.splits prod.splits intro: expireOperation_step)

lemma pending_tx_step:
  assumes "pending_tx env oid st = Inr (res, st')" "ops_ok st"
  shows "store_step st st'"
proof -
  have now: "validOperationNow (oeClock env 1)"
    using assms(1) by (auto simp: pending_tx_def Let_def split: if_splits option.splits)
  then have "0 < oeClock env 1" by (simp add: validOperationNow_def)
  from pending_step[OF assms(2) this] now show ?thesis using assms
    by (auto simp: pending_tx_def Let_def split: if_splits option.splits dest!: expireOperation_step)
qed

lemma run_tx_step:
  assumes "\<And>x st'. tx = Inr (x, st') \<Longrightarrow> store_step st st'" "ops_ok st"
  shows "store_step st (snd (run_tx env st tx))"
  using assms by (auto simp: run_tx_def split: sum.splits commit_result.splits)

lemma Begin_step: "ops_ok st \<Longrightarrow> store_step st (snd (Begin_operation env a st))"
proof -
  assume ok: "ops_ok st"
  have "store_step st (snd (run_tx env st (begin_tx env a rq st)))" for rq
    by (rule run_tx_step) (use begin_tx_step ok in auto)
  then have "run_tx env st (begin_tx env a rq st) = (x, st') \<Longrightarrow> store_step st st'" for rq x st' by (metis snd_conv)
  then show ?thesis using ok
    by (auto simp: Begin_operation_def split: sum.splits option.splits if_splits prod.splits operation_error.splits begin_result.splits)
qed

lemma Query_step: "ops_ok st \<Longrightarrow> store_step st (snd (Query_operation env action a keys st))"
proof -
  assume ok: "ops_ok st"
  have "store_step st (snd (run_tx env st (query_tx env d a key st)))" for d key
    by (rule run_tx_step) (use query_tx_step ok in auto)
  then have "run_tx env st (query_tx env d a key st) = (x, st') \<Longrightarrow> store_step st st'" for d key x st' by (metis snd_conv)
  then show ?thesis using ok
    by (auto simp: Query_operation_def split: sum.splits option.splits if_splits prod.splits)
qed

lemma Recovery_step: "ops_ok st \<Longrightarrow> store_step st (snd (MarkPendingRecovery env oid st))"
proof -
  assume ok: "ops_ok st"
  have "store_step st (snd (run_tx env st (pending_tx env oid st)))"
    by (rule run_tx_step) (use pending_tx_step ok in auto)
  then show ?thesis using ok
    by (auto simp: MarkPendingRecovery_def split: sum.splits prod.splits if_splits)
qed

lemma consume_ticket_tickets:
  assumes "consume_ticket fault ticket actor now vs = Some vs'"
  shows "tickets_kept vs vs' \<and> (\<forall>v. ticket = Some v \<longrightarrow> (\<exists>v' \<in> set vs'. rID v' = rID v \<and> vConsumedAt v' \<noteq> None))"
proof (cases ticket)
  case (Some v)
  then have vs': "vs' = sql_update (consumable v now) (consumed_row actor now) vs"
    and "sql_changed (consumable v now) (consumed_row actor now) vs = 1"
    using assms by (auto simp: consume_ticket_def split: if_splits)
  then have "filter (\<lambda>r. consumable v now r \<and> consumed_row actor now r \<noteq> r) vs \<noteq> []" by (auto simp: sql_changed_def)
  then obtain r where r: "r \<in> set vs" "consumable v now r" by (auto simp: filter_empty_conv)
  then have "consumed_row actor now r \<in> set vs'" by (auto simp: vs' sql_update_def)
  moreover have "rID (consumed_row actor now r) = rID v" "vConsumedAt (consumed_row actor now r) \<noteq> None"
    using r(2) by (simp_all add: consumed_row_def consumable_def)
  moreover have "tickets_kept vs vs'"
    unfolding tickets_kept_def vs' set_sql_update by (auto simp: consumable_def)
  ultimately show ?thesis using Some by blast
qed (use assms in \<open>simp add: consume_ticket_def\<close>)

lemma settle_operation_step:
  assumes "settle_operation env co audit outbox c lo now st = (Inr (view, st'), c')" "ops_ok st" "0 < now"
    and "\<forall>v. loTicket lo = Some v \<longrightarrow> (\<exists>v' \<in> set (osVers st). rID v' = rID v \<and> vConsumedAt v' \<noteq> None)"
    and action: "loOp lo \<in> set (osOps st)" "opAction (loOp lo) = acAction (loDescriptor lo)"
  shows "store_step st st' \<and> osVers st' = osVers st"
proof -
  obtain o' t where valid: "validateTerminalOutcomeForAction (acAction (loDescriptor lo)) o'"
    and fits: "result_fits (acAction (loDescriptor lo)) (if toFailure o' \<noteq> None then OperationFailed else OperationSucceeded) o'"
    and st': "st' = st\<lparr>osTables := t, osOps := sql_update (settleable (loOp lo) (loLease lo) (map_option rID (loTicket lo)))
        (settled_row (rID (loActor lo)) now (if toFailure o' \<noteq> None then OperationFailed else OperationSucceeded) o') (osOps st)\<rparr>"
    using assms(1)
    by (simp add: settle_operation_def Let_def split: prod.splits option.splits if_splits) auto
  have "\<forall>i. map_option rID (loTicket lo) = Some i \<longrightarrow> (\<exists>v \<in> set (osVers st). rID v = i \<and> vConsumedAt v \<noteq> None)"
    using assms(4) by auto
  from settle_step[OF assms(2,3) valid fits refl action this] show ?thesis
    by (simp add: st' store_step_def ops_ok_def)
qed

lemma locked_action:
  assumes "lock_operation env oid lease st = Inr lo"
  shows "loOp lo \<in> set (osOps st) \<and> opAction (loOp lo) = acAction (loDescriptor lo)"
  using assms
  by (auto simp: lock_operation_def Let_def validOperationDescriptor_def dest!: sql_firstD
      split: sum.splits option.splits if_splits)

lemma execute_tx_step:
  assumes "execute_tx env oid lease co audit outbox c st = (Inr (view, st'), c')" "ops_ok st"
  shows "store_step st st'"
proof -
  obtain lo c1 now vs where lock: "lock_operation env oid lease st = Inr lo" and admit: "admit_operation env co c lo st = (Inr now, c1)"
    and consume: "consume_ticket (oeFault env 12) (loTicket lo) (rID (loActor lo)) now (osVers st) = Some vs"
    and settle: "settle_operation env co audit outbox c1 lo now (st\<lparr>osVers := vs\<rparr>) = (Inr (view, st'), c')"
    using assms(1) by (auto simp: execute_tx_def split: sum.splits prod.splits option.splits if_splits)
  have "now = oeClock env 1" "validOperationNow (oeClock env 1)"
    using admit by (auto simp: admit_operation_def Let_def split: prod.splits sum.splits if_splits option.splits)
  then have "0 < now" by (simp add: validOperationNow_def)
  moreover have "ops_ok (st\<lparr>osVers := vs\<rparr>)" using assms(2) by (simp add: ops_ok_def)
  ultimately have "store_step (st\<lparr>osVers := vs\<rparr>) st'" "osVers st' = vs"
    using settle_operation_step[OF settle] consume_ticket_tickets[OF consume] locked_action[OF lock] by auto
  then show ?thesis using consume_ticket_tickets[OF consume] by (auto simp: store_step_def)
qed

lemma Execute_step: "ops_ok st \<Longrightarrow> store_step st (snd (snd (snd (Execute_operation env oid co audit outbox c st))))"
  by (auto simp: Execute_operation_def Let_def split: prod.splits option.splits sum.splits if_splits commit_result.splits
      dest: execute_tx_step)

end
