(* ===== verification/Operation_Properties.thy ===== *)
theory Operation_Properties
  imports Operation_Invariants
begin

text \<open>
  The properties of administrator operations: how the calls of the service, in any order and with any
  environment, may change an operation, and what a caller can rely on.
\<close>

section \<open>Sequences of calls\<close>

text \<open>The calls of the service, and the rest of the program, which writes other tables, issues tickets and
  consumes them, but never reopens a consumed one.\<close>

datatype 'c op_call =
    CallBegin op_env begin_args
  | CallQuery op_env int action_claims "bytes list"
  | CallRecover op_env int
  | CallExecute op_env op_identity "'c consumer" "'c event_writer" "'c event_writer" 'c
  | Elsewhere tables "verification_row list"

fun call_store :: "'c op_call \<Rightarrow> op_store \<Rightarrow> op_store" where
  "call_store (CallBegin env a) st = snd (Begin_operation env a st)"
| "call_store (CallQuery env action a keys) st = snd (Query_operation env action a keys st)"
| "call_store (CallRecover env oid) st = snd (MarkPendingRecovery env oid st)"
| "call_store (CallExecute env oid co audit outbox c) st = snd (snd (snd (Execute_operation env oid co audit outbox c st)))"
| "call_store (Elsewhere t vs) st = st\<lparr>osTables := t, osVers := vs\<rparr>"

fun call_ok :: "'c op_call \<Rightarrow> op_store \<Rightarrow> bool" where
  "call_ok (Elsewhere t vs) st = tickets_kept (osVers st) vs"
| "call_ok _ st = True"

fun run_calls :: "'c op_call list \<Rightarrow> op_store \<Rightarrow> op_store" where
  "run_calls [] st = st"
| "run_calls (k # ks) st = run_calls ks (call_store k st)"

fun calls_ok :: "'c op_call list \<Rightarrow> op_store \<Rightarrow> bool" where
  "calls_ok [] st = True"
| "calls_ok (k # ks) st = (call_ok k st \<and> calls_ok ks (call_store k st))"

lemma call_step: "call_ok k st \<Longrightarrow> ops_ok st \<Longrightarrow> store_step st (call_store k st)"
  by (cases k) (simp_all add: Begin_step Query_step Recovery_step Execute_step, simp add: store_step_def ops_ok_def)

section \<open>The state machine of an operation\<close>

definition state_rank :: "int \<Rightarrow> nat" where
  "state_rank s = (if s = OperationExpired then 2 else if s = OperationProcessing then 0 else 1)"

lemma transition_rank: "CanTransitionTo s s' \<Longrightarrow> state_rank s < state_rank s'"
  by (auto simp: CanTransitionTo_def state_rank_def split: if_splits)

text \<open>A row after any number of calls.\<close>

definition row_later :: "operation_row \<Rightarrow> operation_row \<Rightarrow> bool" where
  "row_later r r' \<longleftrightarrow>
     row_identity r' = row_identity r \<and> CanTransitionTo\<^sup>*\<^sup>* (opState r) (opState r') \<and> (opState r' = opState r \<longrightarrow> r' = r) \<and>
     state_rank (opState r) \<le> state_rank (opState r')"

lemma row_later_refl [simp]: "row_later r r"
  by (simp add: row_later_def)

lemma row_later_step: "row_step r r' \<Longrightarrow> row_later r' r'' \<Longrightarrow> row_later r r''"
  using transition_rank[of "opState r" "opState r'"]
  by (auto simp: row_step_def row_later_def intro: converse_rtranclp_into_rtranclp)

lemma all2_member: "list_all2 R xs ys \<Longrightarrow> x \<in> set xs \<Longrightarrow> \<exists>y \<in> set ys. R x y"
  by (induction rule: list_all2_induct) auto

lemma store_stepD:
  assumes "store_step st st'" "r \<in> set (osOps st)"
  shows "\<exists>r' \<in> set (osOps st'). row_step r r'"
proof -
  obtain kept news where "osOps st' = kept @ news" "list_all2 row_step (osOps st) kept"
    using assms(1) by (auto simp: store_step_def ops_grow_def)
  then show ?thesis using assms(2) all2_member[of row_step "osOps st" kept r] by auto
qed

lemma run_calls_later:
  "ops_ok st \<Longrightarrow> calls_ok ks st \<Longrightarrow> r \<in> set (osOps st) \<Longrightarrow> \<exists>r' \<in> set (osOps (run_calls ks st)). row_later r r'"
proof (induction ks arbitrary: st r)
  case (Cons k ks)
  then have step: "store_step st (call_store k st)" by (simp add: call_step)
  obtain r1 where r1: "r1 \<in> set (osOps (call_store k st))" "row_step r r1" using store_stepD[OF step] Cons.prems(3) by blast
  have "ops_ok (call_store k st)" using step by (simp add: store_step_def)
  then obtain r2 where "r2 \<in> set (osOps (run_calls ks (call_store k st)))" "row_later r1 r2"
    using Cons.IH Cons.prems(2) r1(1) by auto
  then show ?case using row_later_step[OF r1(2)] by auto
qed (auto intro!: bexI[of _ r for r])

lemma run_calls_ok: "ops_ok st \<Longrightarrow> calls_ok ks st \<Longrightarrow> ops_ok (run_calls ks st)"
proof (induction ks arbitrary: st)
  case (Cons k ks)
  then show ?case using call_step[of k st] by (simp add: store_step_def)
qed simp

section \<open>Samples\<close>

definition empty_store :: op_store where
  "empty_store = \<lparr>osTables = \<lparr>tUsers = [], tSessions = [], tHeads = [], tRules = [], tEvents = [], tTokens = [], tLogs = [], tOutbox = [], tResponses = [], tNextID = 1\<rparr>, osOps = [], osVers = [],
     osNextID = 1\<rparr>"

definition sample_op :: "int \<Rightarrow> operation_row" where
  "sample_op state =
     \<lparr>rID = 30, rGUID = 31, rCreatedAt = 100, rCreatedBy = Some 1, rUpdatedAt = 100, rUpdatedBy = Some 1, rDeleted = 0,
      opActor = 1, opAuthVersion = 4, opSession = 1, opAction = ActionUsersCreate, opIdempotencyHMAC = ''k'', opRequestHMAC = ''q'',
      opVerification = None, opState = state, opPublicRef = ''op_'' @ replicate 43 CHR ''A'',
      opLeaseOwner = (if state = OperationProcessing then Some ''owner'' else None),
      opLeaseExpires = (if state = OperationProcessing then Some 30100 else None),
      opFinishedAt = (if state = OperationProcessing then None else Some 20000), opQueryExpires = 2592000100,
      opErrorCode = (if state = OperationFailed then Some 1 else None),
      opResultKind = (if state = OperationSucceeded then Some 1 else None), opResultGUID = None, opResultAuthVersion = None,
      opResultPolicyVersion = None, opResultRole = None,
      opResultStatus = (if state = OperationProcessing then None else Some 201)\<rparr>"

definition sample_store :: "int \<Rightarrow> op_store" where
  "sample_store state = empty_store\<lparr>osOps := [sample_op state], osNextID := 31\<rparr>"

definition recovery_env :: "int \<Rightarrow> op_env" where
  "recovery_env now = \<lparr>oeResolve = ResolveActiveAction, oeCrypto = \<lparr>kTicket = [], kIntent = [], kIdempotency = [], kLease = [], kResponse = []\<rparr>,
     oeReserve = None, oeRevoked = (\<lambda>_. Some False), oeClock = (\<lambda>_. now), oeRandomRef = None, oeRandomLease = None, oeGUID = 1,
     oeFault = (\<lambda>_. False), oeCommit = CommitOK\<rparr>"

lemma sample_store_ok: "s \<in> {OperationProcessing, OperationSucceeded, OperationFailed} \<Longrightarrow> ops_ok (sample_store s)"
  by (auto simp: ops_ok_def sample_store_def empty_store_def sample_op_def tickets_of_def map_filter_def row_check_defs)

section \<open>Properties\<close>

text \<open>C19: An operation keeps its identity and moves along its state machine.  After any calls of the service, in any
  order and with any faults, commits, consumers and identities, every operation that was in the store is
  still there, bound to the same actor, session, action, key, request, reference and ticket; its state has
  followed the declared transitions; and while it is in the same state, not a column of it has changed, so
  a stored result is never rewritten.\<close>

theorem operation_lifecycle:
  assumes "ops_ok st" "calls_ok ks st" "r \<in> set (osOps st)"
  shows "\<exists>r' \<in> set (osOps (run_calls ks st)). row_identity r' = row_identity r \<and>
    CanTransitionTo\<^sup>*\<^sup>* (opState r) (opState r') \<and> (if opState r' = opState r then r' = r else True)"
  using run_calls_later[OF assms] by (auto simp: row_later_def)

theorem operation_lifecycle_witness:
  "\<exists>r' \<in> set (osOps (run_calls [CallRecover (recovery_env 100000) 30 :: unit op_call] (sample_store OperationProcessing))).
     row_identity r' = row_identity (sample_op OperationProcessing) \<and> opState r' = OperationPendingRecovery"
proof -
  let ?ks = "[CallRecover (recovery_env 100000) 30 :: unit op_call]"
  have "sample_op OperationProcessing \<in> set (osOps (sample_store OperationProcessing))" by (simp add: sample_store_def)
  from operation_lifecycle[OF sample_store_ok _ this, of ?ks]
  obtain r' where r': "r' \<in> set (osOps (run_calls ?ks (sample_store OperationProcessing)))" "row_identity r' = row_identity (sample_op OperationProcessing)"
    by auto
  have "map opState (osOps (run_calls ?ks (sample_store OperationProcessing))) = [OperationPendingRecovery]" by code_simp
  then show ?thesis using r' by (intro bexI[OF _ r'(1)]) auto
qed

text \<open>C20: The operation table stays consistent.  After any calls, every row satisfies the checks that the schema
  declares on lease, result, failure code, status and tombstone for its state, and on the versions and the role of a result
  for its action; no two operations share a
  key, a scope of actor, action and idempotency key, or a ticket; and every operation that was settled by
  these calls has consumed its ticket.\<close>

theorem operations_stay_consistent:
  assumes "ops_ok st" "calls_ok ks st" "list_all (\<lambda>r. \<not> settled r) (osOps st)"
  shows "ops_ok (run_calls ks st) \<and>
    list_all (\<lambda>r. if settled r then ticket_consumed (osVers (run_calls ks st)) r else True) (osOps (run_calls ks st))"
proof -
  have kept: "ticket_consumed vs r \<Longrightarrow> tickets_kept vs vs' \<Longrightarrow> ticket_consumed vs' r" for vs vs' r
    by (fastforce simp: ticket_consumed_def tickets_kept_def split: option.splits)
  have "ops_ok (run_calls ks st) \<and> (\<forall>r \<in> set (osOps (run_calls ks st)). settled r \<longrightarrow> ticket_consumed (osVers (run_calls ks st)) r)"
    if "ops_ok st" "calls_ok ks st" "\<forall>r \<in> set (osOps st). settled r \<longrightarrow> ticket_consumed (osVers st) r" for ks :: "'a op_call list" and st
    using that
  proof (induction ks arbitrary: st)
    case (Cons k ks)
    then have step: "store_step st (call_store k st)" by (simp add: call_step)
    then have "\<forall>r \<in> set (osOps (call_store k st)). settled r \<longrightarrow> ticket_consumed (osVers (call_store k st)) r"
      using Cons.prems(3) kept unfolding store_step_def by blast
    then show ?case using Cons.IH[of "call_store k st"] Cons.prems(2) step by (simp add: store_step_def)
  qed auto
  from this[OF assms(1,2)] assms(3) show ?thesis by (auto simp: list_all_iff)
qed

theorem operations_stay_consistent_witness:
  "ops_ok (run_calls [CallRecover (recovery_env 100000) 30 :: unit op_call] (sample_store OperationProcessing))"
proof -
  have "list_all (\<lambda>r. \<not> settled r) (osOps (sample_store OperationProcessing))"
    by (simp add: sample_store_def sample_op_def settled_def)
  from operations_stay_consistent[OF sample_store_ok _ this, of "[CallRecover (recovery_env 100000) 30 :: unit op_call]"]
  show ?thesis by simp
qed

lemma take_lease_consumes: "take_lease cap' = (res, cap'') \<Longrightarrow> \<not> ReadyForExecution cap'' \<and> (res \<noteq> None \<longleftrightarrow> ReadyForExecution cap')"
  by (auto simp: take_lease_def ReadyForExecution_def split: option.splits)

lemma lock_operation_unsettled:
  assumes "ops_ok st" "r \<in> set (osOps st)" "rID r = oiID oid" "opState r \<noteq> OperationProcessing"
  shows "lock_operation env oid lease st \<noteq> Inr lo"
proof -
  have "sql_first (\<lambda>r. rID r = oiID oid) (osOps st) = Some r"
    using assms by (intro sql_first_unique) (auto simp: ops_ok_def dest: distinct_keyD[of rID])
  then show ?thesis using assms(4) by (auto simp: lock_operation_def Let_def split: sum.split)
qed

text \<open>C21: A settled action never runs again.  Once an operation has left the processing state, executing it, with any
  identity, lease, consumer and environment and after any further calls, fails before the consumer is
  locked, preflighted or executed: the consumer's state is only cleared and the store is untouched.\<close>

theorem action_never_reruns:
  assumes "ops_ok st" "calls_ok ks st" "r \<in> set (osOps st)" "opState r \<noteq> OperationProcessing" "rID r = oiID oid"
  shows "\<exists>er oid'. Execute_operation env oid co audit outbox c (run_calls ks st) = (Inl er, oid', coClear co c, run_calls ks st)"
proof -
  obtain r' where r': "r' \<in> set (osOps (run_calls ks st))" "row_later r r'" using run_calls_later[OF assms(1-3)] by blast
  have ok: "ops_ok (run_calls ks st)" by (rule run_calls_ok[OF assms(1,2)])
  have "rID r' = oiID oid" using r'(2) assms(5) identity_keys[of r' r] by (simp add: row_later_def)
  moreover have "opState r' \<noteq> OperationProcessing"
    using r'(2) assms(4) by (auto simp: row_later_def state_rank_def split: if_splits)
  ultimately have "lock_operation env (oid\<lparr>oiCapability := cap'\<rparr>) lease (run_calls ks st) \<noteq> Inr lo" for cap' lease lo
    using lock_operation_unsettled[OF ok r'(1)] by simp
  then show ?thesis
    by (auto simp: Execute_operation_def execute_tx_def Let_def split: prod.splits option.splits sum.splits)
qed

definition idle_consumer :: "unit consumer" where
  "idle_consumer = \<lparr>coPrelock = None, coPreflight = None, coExecute = (\<lambda>c op st. (None, c)), coClear = id, coConfirmed = id\<rparr>"

definition quiet_writer :: "'c event_writer" where
  "quiet_writer = (\<lambda>c ev st. (Some (osTables st), c))"

definition sample_claims :: action_claims where
  "sample_claims = \<lparr>clUser = 1, clGUID = 11, clAuthVersion = 4, clSID = replicate 36 CHR ''s'', clSessionVersion = 3\<rparr>"

definition fresh_identity :: op_identity where
  "fresh_identity = \<lparr>oiID = 30, oiPublicRef = ''op_'' @ replicate 43 CHR ''A'', oiActor = sample_claims,
     oiCapability = Some \<lparr>lcRaw = replicate 32 CHR ''x'', lcConsumed = False\<rparr>\<rparr>"

theorem action_never_reruns_witness:
  "\<exists>er oid'. ReadyForExecution (oiCapability fresh_identity) \<and>
     Execute_operation (recovery_env 200000) fresh_identity idle_consumer quiet_writer quiet_writer ()
       (run_calls ([] :: unit op_call list) (sample_store OperationSucceeded)) = (Inl er, oid', coClear idle_consumer (), run_calls ([] :: unit op_call list) (sample_store OperationSucceeded))"
proof -
  have "sample_op OperationSucceeded \<in> set (osOps (sample_store OperationSucceeded))" "opState (sample_op OperationSucceeded) \<noteq> OperationProcessing"
    "rID (sample_op OperationSucceeded) = oiID fresh_identity"
    by (simp_all add: sample_store_def sample_op_def fresh_identity_def)
  then have "\<exists>er oid'. Execute_operation (recovery_env 200000) fresh_identity idle_consumer quiet_writer quiet_writer ()
       (run_calls ([] :: unit op_call list) (sample_store OperationSucceeded)) = (Inl er, oid', coClear idle_consumer (), run_calls ([] :: unit op_call list) (sample_store OperationSucceeded))"
    by (intro action_never_reruns[OF sample_store_ok]) simp_all
  moreover have "ReadyForExecution (oiCapability fresh_identity)" by code_simp
  ultimately show ?thesis by blast
qed

section \<open>What an execution does\<close>

lemma locked_ticket: "lockOperationVerificationByID fault vs vid = Inr v \<Longrightarrow> rID v = vid"
  by (auto simp: lockOperationVerificationByID_def split: if_splits option.splits dest: sql_firstD)

lemma lock_operationD:
  assumes "lock_operation env oid lease st = Inr lo"
  shows "loOp lo \<in> set (osOps st)" "rID (loOp lo) = oiID oid" "opState (loOp lo) = OperationProcessing" "rDeleted (loOp lo) = 0"
    "opLeaseOwner (loOp lo) = Some (loLease lo)" "opVerification (loOp lo) = map_option rID (loTicket lo)"
    "acAction (loDescriptor lo) = opAction (loOp lo)" "opPublicRef (loOp lo) = oiPublicRef oid"
proof -
  obtain op actor session where op: "sql_first (\<lambda>r. rID r = oiID oid) (osOps st) = Some op" "loOp lo = op" "opState op = OperationProcessing"
    "rDeleted op = 0" "opPublicRef op = oiPublicRef oid" "opLeaseOwner op = Some (loLease lo)"
    and d: "validOperationDescriptor (oeResolve env (opAction op)) (opAction op)" "loDescriptor lo = the (oeResolve env (opAction op))"
    and v: "opVerification op = map_option rID (loTicket lo)"
    using assms
    by (auto simp: lock_operation_def Let_def split: sum.splits option.splits if_splits dest!: locked_ticket)
  then show "loOp lo \<in> set (osOps st)" "rID (loOp lo) = oiID oid" using sql_firstD[OF op(1)] by auto
  show "opState (loOp lo) = OperationProcessing" "rDeleted (loOp lo) = 0" "opLeaseOwner (loOp lo) = Some (loLease lo)"
    "opVerification (loOp lo) = map_option rID (loTicket lo)" "opPublicRef (loOp lo) = oiPublicRef oid"
    using op v by simp_all
  show "acAction (loDescriptor lo) = opAction (loOp lo)"
    using d op(2) by (auto simp: validOperationDescriptor_def split: option.splits)
qed

lemma settle_operationD:
  assumes "settle_operation env co audit outbox c lo now st = (Inr (view, st'), c')"
  obtains o' t1 c1 t2 c2 t3 where
    "coExecute co c (loOp lo) st = (Some (o', t1), c1)" "validateTerminalOutcomeForAction (acAction (loDescriptor lo)) o'"
    "audit c1 (terminal_event lo now (if toFailure o' = None then OperationSucceeded else OperationFailed) o')
       (st\<lparr>osTables := if toFailure o' = None then t1 else osTables st\<rparr>) = (Some t2, c2)"
    "outbox c2 (terminal_event lo now (if toFailure o' = None then OperationSucceeded else OperationFailed) o') (st\<lparr>osTables := t2\<rparr>) = (Some t3, c')"
    "st' = st\<lparr>osTables := t3, osOps := sql_update (settleable (loOp lo) (loLease lo) (map_option rID (loTicket lo)))
        (settled_row (rID (loActor lo)) now (if toFailure o' = None then OperationSucceeded else OperationFailed) o') (osOps st)\<rparr>"
    "view = operationView (loDescriptor lo)
       (settled_row (rID (loActor lo)) now (if toFailure o' = None then OperationSucceeded else OperationFailed) o' (loOp lo)) now"
proof -
  obtain o' t1 c1 where ex: "coExecute co c (loOp lo) st = (Some (o', t1), c1)"
    using assms by (auto simp: settle_operation_def Let_def split: prod.splits option.splits)
  show thesis
  proof (cases "toFailure o'")
    case None
    show thesis using assms ex None
      by (auto simp: settle_operation_def Let_def split: prod.splits option.splits if_splits intro!: that)
  next
    case (Some f)
    show thesis using assms ex Some
      by (auto simp: settle_operation_def Let_def split: prod.splits option.splits if_splits intro!: that)
  qed
qed

text \<open>The parts of an acknowledged execution.\<close>

lemma Execute_operationD:
  assumes "Execute_operation env oid co audit outbox c st = (Inr view, oid', c', st')"
  obtains lease lo c0 now vs c1 cap' where
    "take_lease (oiCapability oid) = (Some lease, cap')" "oid' = oid\<lparr>oiCapability := cap'\<rparr>"
    "lock_operation env oid' lease st = Inr lo" "admit_operation env co c lo st = (Inr now, c0)"
    "consume_ticket (oeFault env 12) (loTicket lo) (rID (loActor lo)) now (osVers st) = Some vs"
    "settle_operation env co audit outbox c0 lo now (st\<lparr>osVers := vs\<rparr>) = (Inr (view, st'), c1)"
    "c' = coClear co (coConfirmed co c1)"
proof -
  obtain lease cap' where t: "take_lease (oiCapability oid) = (Some lease, cap')"
    using assms by (auto simp: Execute_operation_def Let_def split: prod.splits option.splits)
  then obtain c1 where e: "execute_tx env (oid\<lparr>oiCapability := cap'\<rparr>) lease co audit outbox c st = (Inr (view, st'), c1)"
    and o: "oid' = oid\<lparr>oiCapability := cap'\<rparr>" "c' = coClear co (coConfirmed co c1)"
    using assms by (auto simp: Execute_operation_def Let_def split: prod.splits option.splits if_splits sum.splits commit_result.splits)
  from e o(1) obtain lo c0 now vs where "lock_operation env oid' lease st = Inr lo" "admit_operation env co c lo st = (Inr now, c0)"
    "consume_ticket (oeFault env 12) (loTicket lo) (rID (loActor lo)) now (osVers st) = Some vs"
    "settle_operation env co audit outbox c0 lo now (st\<lparr>osVers := vs\<rparr>) = (Inr (view, st'), c1)"
    by (auto simp: execute_tx_def split: prod.splits option.splits if_splits sum.splits)
  then show thesis using that t o by blast
qed

text \<open>The settlement changes the one row that was locked.\<close>

lemma settled_ops:
  assumes "ops_ok st" "lock_operation env oid lease st = Inr lo"
  shows "sql_update (settleable (loOp lo) (loLease lo) (map_option rID (loTicket lo))) f (osOps st) =
    map (\<lambda>r. if r = loOp lo then f r else r) (osOps st)"
proof (rule sql_update_row[of rID])
  show "settleable (loOp lo) (loLease lo) (map_option rID (loTicket lo)) (loOp lo)"
    using lock_operationD[OF assms(2)] by (simp add: settleable_def)
qed (use assms lock_operationD(1)[OF assms(2)] in \<open>auto simp: ops_ok_def settleable_def\<close>)

text \<open>C22: An acknowledged execution settles the operation in one transaction.  The consumer ran once, on the stored
  row of the identity's operation, which was processing, and returned a valid outcome; the audit and the
  outbox writer saw the same event, and worked on the consumer's tables if it succeeded and on the
  untouched tables if it reported a failure; the operation alone is settled, with the outcome's result or
  failure code; its ticket is consumed; and the lease capability is spent.\<close>

theorem action_settles:
  assumes "Execute_operation env oid co audit outbox c st = (Inr view, oid', c', st')" "ops_ok st"
  shows "\<exists>op actor now o' t1 t2 ev c0 c1 c2 c3.
    op \<in> set (osOps st) \<and> rID op = oiID oid \<and> opState op = OperationProcessing \<and>
    coExecute co c0 op (st\<lparr>osVers := osVers st'\<rparr>) = (Some (o', t1), c1) \<and> validateTerminalOutcomeForAction (opAction op) o' \<and>
    aePublicRef ev = oiPublicRef oid \<and> aeState ev = (if toFailure o' = None then OperationSucceeded else OperationFailed) \<and>
    audit c1 ev (st\<lparr>osVers := osVers st', osTables := if toFailure o' = None then t1 else osTables st\<rparr>) = (Some t2, c2) \<and>
    outbox c2 ev (st\<lparr>osVers := osVers st', osTables := t2\<rparr>) = (Some (osTables st'), c3) \<and>
    osOps st' = map (\<lambda>r. if r = op then settled_row actor now (aeState ev) o' r else r) (osOps st) \<and>
    ticket_consumed (osVers st') op \<and> ReadyForExecution (oiCapability oid) \<and> \<not> ReadyForExecution (oiCapability oid')"
proof -
  obtain lease lo c0 now vs c1 cap' where t: "take_lease (oiCapability oid) = (Some lease, cap')" "oid' = oid\<lparr>oiCapability := cap'\<rparr>"
    and l: "lock_operation env oid' lease st = Inr lo"
    and k: "consume_ticket (oeFault env 12) (loTicket lo) (rID (loActor lo)) now (osVers st) = Some vs"
    and s: "settle_operation env co audit outbox c0 lo now (st\<lparr>osVers := vs\<rparr>) = (Inr (view, st'), c1)"
    using Execute_operationD[OF assms(1)] by metis
  note lo = lock_operationD[OF l]
  have lease: "ReadyForExecution (oiCapability oid)" "\<not> ReadyForExecution (oiCapability oid')"
    using take_lease_consumes[OF t(1)] t(2) by auto
  have ticket: "ticket_consumed vs (loOp lo)"
    using consume_ticket_tickets[OF k] lo(6) by (auto simp: ticket_consumed_def split: option.split)
  obtain o' t1 c2 t2 c3 t3 where x: "coExecute co c0 (loOp lo) (st\<lparr>osVers := vs\<rparr>) = (Some (o', t1), c2)"
    "validateTerminalOutcomeForAction (acAction (loDescriptor lo)) o'"
    "audit c2 (terminal_event lo now (if toFailure o' = None then OperationSucceeded else OperationFailed) o')
       (st\<lparr>osVers := vs\<rparr>\<lparr>osTables := if toFailure o' = None then t1 else osTables (st\<lparr>osVers := vs\<rparr>)\<rparr>) = (Some t2, c3)"
    "outbox c3 (terminal_event lo now (if toFailure o' = None then OperationSucceeded else OperationFailed) o') (st\<lparr>osVers := vs\<rparr>\<lparr>osTables := t2\<rparr>) = (Some t3, c1)"
    and st': "st' = st\<lparr>osVers := vs\<rparr>\<lparr>osTables := t3, osOps := sql_update (settleable (loOp lo) (loLease lo) (map_option rID (loTicket lo)))
        (settled_row (rID (loActor lo)) now (if toFailure o' = None then OperationSucceeded else OperationFailed) o') (osOps (st\<lparr>osVers := vs\<rparr>))\<rparr>"
    and view: "view = operationView (loDescriptor lo)
      (settled_row (rID (loActor lo)) now (if toFailure o' = None then OperationSucceeded else OperationFailed) o' (loOp lo)) now"
    by (rule settle_operationD[OF s])
  have vs: "osVers st' = vs" "osTables (st\<lparr>osVers := vs\<rparr>) = osTables st" by (simp_all add: st')
  let ?ev = "terminal_event lo now (if toFailure o' = None then OperationSucceeded else OperationFailed) o'"
  have ev: "aePublicRef ?ev = oiPublicRef oid" "aeState ?ev = (if toFailure o' = None then OperationSucceeded else OperationFailed)"
    using lo(8) t(2) by (simp_all add: terminal_event_def Let_def)
  have "osOps st' = map (\<lambda>r. if r = loOp lo then settled_row (rID (loActor lo)) now (aeState ?ev) o' r else r) (osOps st)"
    using settled_ops[OF assms(2) l] by (simp only: st' ev(2)) simp
  moreover have "outbox c3 ?ev (st\<lparr>osVers := osVers st', osTables := t2\<rparr>) = (Some (osTables st'), c1)" "ticket_consumed (osVers st') (loOp lo)"
    using x(4) ticket vs(1) by (simp_all add: st')
  moreover have "coExecute co c0 (loOp lo) (st\<lparr>osVers := osVers st'\<rparr>) = (Some (o', t1), c2)" "rID (loOp lo) = oiID oid"
    "validateTerminalOutcomeForAction (opAction (loOp lo)) o'"
    "audit c2 ?ev (st\<lparr>osVers := osVers st', osTables := if toFailure o' = None then t1 else osTables st\<rparr>) = (Some t2, c3)"
    using x(1,2) x(3)[unfolded vs(2)] lo(2,7) t(2) by (simp add: vs(1), simp, simp, simp only: vs(1))
  ultimately show ?thesis using ev lo(1,3) lease by blast
qed

end
