(* ===== verification/Role_Properties.thy ===== *)
theory Role_Properties
  imports Role_Writes
begin

text \<open>
  The properties of a role or permission change, from the locking reads through the writes to the next
  read of the target's policy.
\<close>

section \<open>What is locked\<close>

definition locked_ok :: "tables \<Rightarrow> locked_state \<Rightarrow> bool" where
  "locked_ok t lk \<longleftrightarrow>
     (let u = lkTarget lk in
      u \<in> set (tUsers t) \<and> rDeleted u = 0 \<and> 0 < rID u \<and>
      lkSessions lk = sql_find (live_session (rID u)) (tSessions t) \<and> distinct (lkSessions lk) \<and>
      (case lkHead lk of None \<Rightarrow> True | Some h \<Rightarrow> h \<in> set (tHeads t) \<and> live_head (rID u) h \<and> 0 < rID h \<and> 0 < rGUID h) \<and>
      (if lkRules lk = [] then \<forall>p \<in> set (tRules t). \<not> live_rule (rID u) p else True))"

lemma locked_rules_length: "locked_rules target prev ps = Some rs \<Longrightarrow> length rs = length ps"
  by (induction ps arbitrary: prev rs) (auto split: option.splits if_splits)

lemma sessions_valid_above: "sessions_valid target prev ss \<Longrightarrow> s \<in> set ss \<Longrightarrow> prev < rID s"
  by (induction ss arbitrary: prev) force+

lemma sessions_valid_distinct: "sessions_valid target prev ss \<Longrightarrow> distinct ss"
  by (induction ss arbitrary: prev) (auto dest: sessions_valid_above)

lemma prelock_reads_locked:
  assumes "prelock_reads env x op t = Inr lk"
  shows "locked_ok t lk"
proof -
  obtain target where t: "sql_first (\<lambda>u. rGUID u = intent_target (exIntent x) \<and> rDeleted u = 0) (tUsers t) = Some target"
    and pos: "0 < rID target" and del: "rDeleted target = 0"
    and sess: "validRolePermissionSessions (sql_find (live_session (rID target)) (tSessions t)) (rID target)"
    and head: "case sql_first (live_head (rID target)) (tHeads t) of None \<Rightarrow> True
       | Some h \<Rightarrow> \<not> (rID h \<le> 0 \<or> rGUID h \<le> 0 \<or> hUser h \<noteq> rID target \<or> rDeleted h \<noteq> 0)"
    and rules: "rolePermissionLockedRules (sql_find (live_rule (rID target)) (tRules t)) (rID target) = Some (lkRules lk)"
    and lk: "lkTarget lk = target" "lkSessions lk = sql_find (live_session (rID target)) (tSessions t)"
      "lkHead lk = sql_first (live_head (rID target)) (tHeads t)"
    using assms unfolding prelock_reads_def
    by (auto simp: Let_def split: option.splits if_splits)
  have "lkRules lk = [] \<Longrightarrow> sql_find (live_rule (rID target)) (tRules t) = []"
    using locked_rules_length[OF rules[unfolded rolePermissionLockedRules_def]] by (simp del: length_sql_find)
  then have "lkRules lk = [] \<Longrightarrow> \<forall>p \<in> set (tRules t). \<not> live_rule (rID target) p"
    by (metis (mono_tags, lifting) set_sql_find empty_iff list.set(1) mem_Collect_eq)
  moreover have "distinct (sql_find (live_session (rID target)) (tSessions t))"
    using sess by (auto simp: validRolePermissionSessions_def intro: sessions_valid_distinct)
  moreover have "target \<in> set (tUsers t)" using sql_firstD[OF t] by simp
  moreover have "case sql_first (live_head (rID target)) (tHeads t) of None \<Rightarrow> True
      | Some h \<Rightarrow> h \<in> set (tHeads t) \<and> live_head (rID target) h \<and> 0 < rID h \<and> 0 < rGUID h"
    using head by (auto split: option.splits dest: sql_firstD)
  ultimately show ?thesis using pos del lk by (auto simp: locked_ok_def Let_def)
qed

lemma prelock_locked:
  assumes "prelockForAuthorization env x op v t st = (Inr u, st1)"
  shows "\<exists>lk. xsLocked st1 = Some lk \<and> \<not> xsStarted st1 \<and> lkTarget lk = u \<and> locked_ok t lk \<and>
    prelock_reads env x op t = Inr lk \<and> st1 = st\<lparr>xsLocked := Some lk\<rparr>"
  using assms prelock_reads_locked
  by (auto simp: prelockForAuthorization_def split: if_splits sum.splits)

lemma prelocked_target:
  assumes "prelockForAuthorization env x op v t st = (Inr u, st1)"
  shows "u \<in> set (tUsers t) \<and> rGUID u = intent_target (exIntent x)"
proof -
  obtain lk where lk: "lkTarget lk = u" "prelock_reads env x op t = Inr lk" using prelock_locked[OF assms] by blast
  then have "sql_first (\<lambda>u. rGUID u = intent_target (exIntent x) \<and> rDeleted u = 0) (tUsers t) = Some u"
    by (auto simp: prelock_reads_def Let_def split: option.splits if_splits)
  then show ?thesis by (auto dest: sql_firstD)
qed

section \<open>What is written\<close>

lemma mark_sessions_ok: "mark_sessions env ss = (ms, True) \<Longrightarrow> ms = map sSID ss \<and> list_all (\<lambda>s. envMark env (sSID s)) ss"
  by (induction ss arbitrary: ms) (auto split: if_splits prod.splits)

lemma Execute_result:
  assumes "Execute_role env x op t st = (Some (out, t'), st', marks)" "xsLocked st = Some lk"
  shows "(\<exists>f. out = failure_outcome f \<and> t' = t \<and> marks = []) \<or>
    (\<exists>plan st2 w. locked_plan x lk = Inr plan \<and> recordAuditFacts x lk plan st2 \<noteq> None \<and> out = success_outcome lk plan \<and>
       marks = map sSID (lkSessions lk) \<and> t' = wTables w \<and>
       apply_plan env (opActor op) (envNow env) lk plan \<lparr>wTables = t, wGUIDs = 0, wStmt = 5\<rparr> = Some w)"
  using assms
  by (auto simp: Execute_role_def Let_def split: if_splits sum.splits option.splits prod.splits dest!: mark_sessions_ok)

definition after_change :: "int \<Rightarrow> int \<Rightarrow> locked_state \<Rightarrow> transition_plan \<Rightarrow> tables \<Rightarrow> tables \<Rightarrow> bool" where
  "after_change actor now lk plan t t' \<longleftrightarrow>
     (let uid = rID (lkTarget lk) in
      tUsers t' = map (\<lambda>r. if r = lkTarget lk then changed_user actor now plan r else r) (tUsers t) \<and>
      tSessions t' = map (\<lambda>s. if live_session uid s then revoked_session actor now s else s) (tSessions t) \<and>
      (\<exists>news. tRules t' = map (\<lambda>p. if live_rule uid p then buried actor now p else p) (tRules t) @ news \<and>
         list_all2 (stores uid (tpNextPolicy plan)) (tpRules plan) news) \<and>
      distinct (map hUser (tHeads t')) \<and>
      filter (\<lambda>h. hUser h \<noteq> uid) (tHeads t') = filter (\<lambda>h. hUser h \<noteq> uid) (tHeads t) \<and>
      (\<exists>h \<in> set (tHeads t'). live_head uid h \<and> 0 < rID h \<and> 0 < rGUID h \<and> hVersion h = tpNextPolicy plan \<and>
         hCatalog h = tpCatalog plan \<and> hRuleCount h = int (length (tpRules plan))))"

lemma apply_plan_after:
  assumes run: "apply_plan env actor now lk plan w = Some w'"
    and ok: "tables_ok (wTables w)" and lk: "locked_ok (wTables w) lk"
  shows "after_change actor now lk plan (wTables w) (wTables w')"
proof -
  let ?uid = "rID (lkTarget lk)"
  obtain w1 w2 w3 w4 w5 where s: "revoke_all env actor now (lkSessions lk) w = Some w1"
      "write_user env actor now (lkTarget lk) plan w1 = Some w2"
      "tombstone_rules env actor now ?uid (lkRules lk) w2 = Some w3"
      "create_rules env actor now ?uid (tpNextPolicy plan) (tpRules plan) w3 = Some w4"
      "write_head env actor now ?uid (lkHead lk) plan w4 = Some w5"
      "writeManagedUpdateAudit env actor ?uid now w5 = Some w'"
    using run by (auto simp: apply_plan_def Let_def bind_eq_Some_conv)
  have t: "distinct (map rID (tUsers (wTables w)))" "distinct (map rID (tSessions (wTables w)))" "0 < tNextID (wTables w)"
    "distinct (map rID (tHeads (wTables w)))" "distinct (map hUser (tHeads (wTables w)))"
    using ok by (simp_all add: tables_ok_def)
  have sessions: "lkSessions lk = sql_find (live_session ?uid) (tSessions (wTables w)) \<and> distinct (lkSessions lk)"
    using lk unfolding locked_ok_def Let_def by blast
  then have live: "set (lkSessions lk) = {r \<in> set (tSessions (wTables w)). live_session ?uid r}" "distinct (lkSessions lk)"
    by (metis set_sql_find) (rule conjunct2[OF sessions])
  have r1: "tSessions (wTables w1) = map (\<lambda>r. if r \<in> set (lkSessions lk) then revoked_session actor now r else r) (tSessions (wTables w))"
    "tUsers (wTables w1) = tUsers (wTables w)" "tHeads (wTables w1) = tHeads (wTables w)" "tRules (wTables w1) = tRules (wTables w)"
    "0 < tNextID (wTables w1)"
    using revoke_all_rows[where uid = ?uid, OF s(1) t(2) live(2)] live(1) t(3) by auto
  have r2: "wTables w2 = (wTables w1)\<lparr>tUsers := map (\<lambda>r. if r = lkTarget lk then changed_user actor now plan r else r) (tUsers (wTables w))\<rparr>"
    using write_user_rows[OF s(2)] r1 t(1) lk by (simp add: locked_ok_def Let_def)
  have r3: "wTables w3 = (wTables w2)\<lparr>tRules := map (\<lambda>p. if live_rule ?uid p then buried actor now p else p) (tRules (wTables w))\<rparr>"
    using tombstone_rows[OF s(3)] r1 r2 lk by (simp add: locked_ok_def Let_def split: if_splits)
  obtain news where r4: "tRules (wTables w4) = tRules (wTables w3) @ news" "list_all2 (stores ?uid (tpNextPolicy plan)) (tpRules plan) news"
    "tUsers (wTables w4) = tUsers (wTables w3)" "tSessions (wTables w4) = tSessions (wTables w3)" "tHeads (wTables w4) = tHeads (wTables w3)"
    "0 < tNextID (wTables w4)"
    using create_rows[OF s(4)] r1 r2 r3 by auto
  have heads: "tHeads (wTables w4) = tHeads (wTables w)" using r1 r2 r3 r4 by simp
  have hd: "case lkHead lk of None \<Rightarrow> True | Some h \<Rightarrow> h \<in> set (tHeads (wTables w4)) \<and> live_head ?uid h \<and> 0 < rID h \<and> 0 < rGUID h"
    unfolding heads using lk unfolding locked_ok_def Let_def by blast
  note r5 = write_head_rows[OF s(5) r4(6) _ _ hd]
  note r6 = write_audit_rows[OF s(6)]
  have sess: "tSessions (wTables w1) = map (\<lambda>s. if live_session ?uid s then revoked_session actor now s else s) (tSessions (wTables w))"
    using live(1) by (auto simp: r1)
  show ?thesis
    unfolding after_change_def Let_def
    using r5 r6 r1 r2 r3 r4 sess t by (auto intro!: exI[of _ news])
qed

section \<open>What is planned\<close>

definition desired_rules :: "role_execution \<Rightarrow> override_intent list" where
  "desired_rules x = (case transitionIntent x of (_, _, _, _, rules, _) \<Rightarrow> rules)"

definition desired_role :: "role_execution \<Rightarrow> int" where
  "desired_role x = (case transitionIntent x of (_, _, _, role, _, _) \<Rightarrow> role)"

lemma transition_role:
  "transitionIntent x = (ea, ep, c, role, rules, el) \<Longrightarrow> validLocalInvariant x \<Longrightarrow>
   role = UserRoleAdmin \<or> role = UserRoleUser \<and> rules = []"
  by (auto simp: transitionIntent_def validLocalInvariant_def invariant_action_def split: if_splits option.splits)

lemma locked_planD:
  assumes "locked_plan x lk = Inr plan"
  shows "tpRole plan = desired_role x \<and> tpRules plan = sort_key poCapability (desired_rules x) \<and>
    tpAuthVersion plan = uAuthVersion (lkTarget lk) + 1 \<and> 0 < rGUID (lkTarget lk) \<and>
    uStatus (lkTarget lk) \<in> {UserStatusActive, UserStatusDisabled} \<and> rDeleted (lkTarget lk) = 0 \<and>
    0 < uAuthVersion (lkTarget lk) \<and>
    (tpRole plan = UserRoleAdmin \<or> tpRole plan = UserRoleUser \<and> tpRules plan = [])"
proof -
  obtain ea ep c role rules el where tr: "transitionIntent x = (ea, ep, c, role, rules, el)" by (metis prod_cases6)
  from assms have "validLocalInvariant x" by (auto simp: locked_plan_def PlanTransition_def Let_def split: if_splits)
  from transition_role[OF tr this] assms show ?thesis
    by (auto simp: locked_plan_def PlanTransition_def Let_def tr desired_role_def desired_rules_def
        ownCanonicalRolePermissionRules_def split: if_splits option.splits)
qed

lemma recordAuditFactsD:
  "recordAuditFacts x lk plan st \<noteq> None \<Longrightarrow>
   0 < tpNextPolicy plan \<and> tpCatalog plan = PermissionCatalogVersion \<and> length (tpRules plan) \<le> length Catalog"
  by (auto simp: recordAuditFacts_def Let_def split: if_splits)

text \<open>A successful execution, in one statement.\<close>

lemma Execute_success:
  assumes "tables_ok t" "prelockForAuthorization env x op v t st = (Inr u, st1)"
    and "Execute_role env x op t st1 = (Some (out, t'), st2, marks)" "toFailure out = None"
  obtains lk plan where "locked_ok t lk" "lkTarget lk = u" "locked_plan x lk = Inr plan" "out = success_outcome lk plan"
    "marks = map sSID (lkSessions lk)" "after_change (opActor op) (envNow env) lk plan t t'"
    "0 < tpNextPolicy plan" "tpCatalog plan = PermissionCatalogVersion" "length (tpRules plan) \<le> length Catalog"
proof -
  obtain lk where lk: "xsLocked st1 = Some lk" "lkTarget lk = u" "locked_ok t lk"
    using prelock_locked[OF assms(2)] by auto
  obtain plan st3 w where e: "locked_plan x lk = Inr plan" "recordAuditFacts x lk plan st3 \<noteq> None" "out = success_outcome lk plan"
    "marks = map sSID (lkSessions lk)" "t' = wTables w"
    "apply_plan env (opActor op) (envNow env) lk plan \<lparr>wTables = t, wGUIDs = 0, wStmt = 5\<rparr> = Some w"
    using Execute_result[OF assms(3) lk(1)] assms(4) by (auto simp: failure_outcome_def)
  have "after_change (opActor op) (envNow env) lk plan t t'"
    using apply_plan_after[OF e(6)] assms(1) lk(3) e(5) by simp
  then show thesis using that lk e recordAuditFactsD[OF e(2)] by blast
qed

section \<open>What is read back\<close>

definition stored_override :: "override_intent \<Rightarrow> override" where
  "stored_override r = \<lparr>oCapability = poCapability r, oEffect = (if poEffect r = 2 then Allow else Deny)\<rparr>"

definition row_override :: "policy_rule \<Rightarrow> override" where
  "row_override p = \<lparr>oCapability = the (PermissionCapabilityName (pCapability p)), oEffect = the (PermissionEffectName (pEffect p))\<rparr>"

lemma stores_override:
  "stores uid v r p \<Longrightarrow> poEffect r \<in> {2, 3} \<Longrightarrow> row_override p = stored_override r \<and> PermissionEffectName (pEffect p) \<noteq> None"
  by (auto simp: stores_def row_override_def stored_override_def PermissionEffectName_def)

lemma stored_overrides:
  "list_all2 (stores uid v) rs ps \<Longrightarrow> list_all (\<lambda>r. poEffect r \<in> {2, 3}) rs \<Longrightarrow> map row_override ps = map stored_override rs"
  by (induction rule: list_all2_induct) (use stores_override in auto)

definition readable :: "int \<Rightarrow> int \<Rightarrow> policy_rule \<Rightarrow> bool" where
  "readable uid v p \<longleftrightarrow>
     pUser p = uid \<and> 0 < rID p \<and> 0 < rGUID p \<and> rDeleted p = 0 \<and> pVersion p = v \<and>
     PermissionCapabilityName (pCapability p) \<noteq> None \<and> PermissionEffectName (pEffect p) \<noteq> None"

lemma stored_readable:
  "list_all2 (stores uid v) rs ps \<Longrightarrow> list_all (\<lambda>r. poEffect r \<in> {2, 3}) rs \<Longrightarrow> \<forall>p \<in> set ps. readable uid v p"
  by (induction rule: list_all2_induct) (auto simp: readable_def stores_def PermissionEffectName_def)

lemma policy_overrides_ok: "\<forall>p \<in> set ps. readable uid v p \<Longrightarrow> policy_overrides v ps = Some (map row_override ps)"
  by (induction ps) (auto simp: readable_def row_override_def)

lemma read_back:
  assumes ok: "tables_ok t" and after: "after_change actor now lk plan t t'"
    and pos: "0 < tpNextPolicy plan" "tpCatalog plan = PermissionCatalogVersion" "length (tpRules plan) \<le> length Catalog"
    and eff: "list_all (\<lambda>r. poEffect r \<in> {2, 3}) (tpRules plan)"
  shows "\<exists>rules. readPermissionPolicyRows (\<lambda>_. False) t' (rID (lkTarget lk)) = Inr (tpNextPolicy plan, rules) \<and>
    mset rules = image_mset stored_override (mset (tpRules plan))"
proof -
  let ?uid = "rID (lkTarget lk)"
  obtain news where news: "tRules t' = map (\<lambda>p. if live_rule ?uid p then buried actor now p else p) (tRules t) @ news"
      "list_all2 (stores ?uid (tpNextPolicy plan)) (tpRules plan) news"
    using after by (auto simp: after_change_def Let_def)
  obtain h where h: "h \<in> set (tHeads t')" "live_head ?uid h" "0 < rID h" "0 < rGUID h" "hVersion h = tpNextPolicy plan"
      "hCatalog h = tpCatalog plan" "hRuleCount h = int (length (tpRules plan))"
    and uniq: "distinct (map hUser (tHeads t'))"
    using after by (auto simp: after_change_def Let_def)
  have first: "sql_first (\<lambda>h. hUser h = ?uid) (tHeads t') = Some h"
    using h(1,2) by (intro sql_first_unique) (auto simp: live_head_def intro: distinct_keyD[OF uniq])
  have readable: "\<forall>p \<in> set news. readable ?uid (tpNextPolicy plan) p" by (rule stored_readable[OF news(2) eff])
  have "filter (\<lambda>p. pUser p = ?uid \<and> rDeleted p \<noteq> 1) (map (\<lambda>p. if live_rule ?uid p then buried actor now p else p) (tRules t)) = []"
    using ok by (auto simp: filter_empty_conv tables_ok_def live_rule_def buried_def)
  moreover have "filter (\<lambda>p. pUser p = ?uid \<and> rDeleted p \<noteq> 1) news = news"
    using readable by (auto simp: readable_def intro: filter_True)
  ultimately have rows: "filter (\<lambda>p. pUser p = ?uid \<and> rDeleted p \<noteq> 1) (tRules t') = news" by (simp add: news(1) del: filter_map)
  have len: "length news = length (tpRules plan)" using news(2) by (simp add: list_all2_lengthD)
  then have take: "take (length Catalog + 1) (sort_key pCapability news) = sort_key pCapability news" using pos(3) by simp
  have "readPermissionPolicyRows (\<lambda>_. False) t' ?uid = Inr (tpNextPolicy plan, map row_override (sort_key pCapability news))"
    using h pos len policy_overrides_ok[of "sort_key pCapability news" ?uid "tpNextPolicy plan"] readable
    by (simp add: readPermissionPolicyRows_def first Let_def rows take live_head_def)
  moreover have "mset (map row_override (sort_key pCapability news)) = mset (map row_override news)" by simp
  ultimately show ?thesis by (simp add: stored_overrides[OF news(2) eff] del: mset_map flip: mset_map)
qed

section \<open>The rules of a reviewed intent\<close>

lemma override_items_adjacent:
  "override_items prev rs = Inr items \<Longrightarrow> sorted (map poCapability rs) \<Longrightarrow>
   (case prev of None \<Rightarrow> True | Some p \<Rightarrow> \<forall>r \<in> set rs. poCapability p \<le> poCapability r) \<Longrightarrow>
   distinct (map poCapability rs) \<and> (case prev of None \<Rightarrow> True | Some p \<Rightarrow> poCapability p \<notin> poCapability ` set rs)"
proof (induction rs arbitrary: prev items)
  case (Cons r rs)
  then obtain items' where r: "override_items (Some r) rs = Inr items'" "map_option poCapability prev \<noteq> Some (poCapability r)"
    by (auto simp: and_then_Inr split: if_splits)
  have IH: "distinct (map poCapability rs)" "poCapability r \<notin> poCapability ` set rs"
    using Cons.IH[OF r(1)] Cons.prems(2) by auto
  show ?case
  proof (cases prev)
    case (Some p)
    then have "poCapability p < poCapability r" using r(2) Cons.prems(3) by (auto simp: order_less_le)
    then have "poCapability p \<notin> poCapability ` set rs" using Cons.prems(2) by (fastforce simp: image_iff)
    with IH r(2) Some show ?thesis by auto
  qed (use IH in auto)
qed (simp split: option.splits)

lemma encoded_overrides_ok:
  assumes "encodePermissionOverrides rs = Inr items"
  shows "list_all override_known rs \<and> distinct (map poCapability rs)"
proof -
  have "override_items None (sort_overrides rs) = Inr items" using encodePermissionOverridesD assms by blast
  from override_items_adjacent[OF this] have "distinct (map poCapability (sort_overrides rs))"
    by (simp add: sort_overrides_def)
  moreover have "mset (map poCapability (sort_overrides rs)) = mset (map poCapability rs)" by (simp add: sort_overrides_def)
  ultimately have "distinct (map poCapability rs)" using mset_eq_imp_distinct_iff by blast
  moreover have "list_all override_known rs" using assms
    by (auto simp: encodePermissionOverrides_def and_then_Inr split: if_splits)
  ultimately show ?thesis by simp
qed

lemma execution_rules_ok:
  assumes "NewRolePermissionExecution deps c d i = Some x"
  shows "list_all override_known (desired_rules x) \<and> distinct (map poCapability (desired_rules x))"
proof -
  obtain enc b owned where e: "acEncode d = Some enc" "run_encoder enc i = Inr b" "ownRolePermissionIntent (acAction d) i = Some owned"
    and x: "exIntent x = owned" "exInvariant x = Some \<lparr>ivAction = acAction d, ivTarget = intent_target owned, ivHMAC = exHMAC x\<rparr>"
    using assms by (auto simp: NewRolePermissionExecution_def Let_def split: if_splits option.splits sum.splits)
  have act: "invariant_action x = acAction d" by (simp add: invariant_action_def x)
  have kind: "intent_kind i = encoder_kind enc" by (rule run_encoder_kind[OF e(2)])
  from e(3) consider (p) j where "acAction d = ActionUsersPromote" "i = Promote j"
      "owned = no_intent\<lparr>xiPromote := Some (j\<lparr>prReason := trim_space (prReason j), prOverrides := ownCanonicalRolePermissionRules (prOverrides j)\<rparr>)\<rparr>"
    | (d) j where "acAction d = ActionUsersDemote" "i = Demote j" "owned = no_intent\<lparr>xiDemote := Some (j\<lparr>deReason := trim_space (deReason j)\<rparr>)\<rparr>"
    | (w) j where "acAction d = ActionUsersPermissionsWrite" "i = PermissionsWrite j"
      "owned = no_intent\<lparr>xiWrite := Some (j\<lparr>pwReason := trim_space (pwReason j), pwOverrides := ownCanonicalRolePermissionRules (pwOverrides j)\<rparr>)\<rparr>"
    by (auto simp: ownRolePermissionIntent_def split: if_splits any_intent.splits)
  then show ?thesis
  proof cases
    case p
    then have "enc = EncPromote" using kind by (cases enc) auto
    then obtain items where "encodePermissionOverrides (prOverrides j) = Inr items"
      using e(2) p by (auto simp: run_encoder_def encodePromoteIntent_def and_then_Inr Let_def split: if_splits prod.splits)
    from encoded_overrides_ok[OF this] show ?thesis
      by (simp add: desired_rules_def transitionIntent_def act p x ownCanonicalRolePermissionRules_def list_all_iff distinct_map)
  next
    case d
    then show ?thesis by (simp add: desired_rules_def transitionIntent_def act x no_intent_def)
  next
    case w
    then have "enc = EncPermissionsWrite" using kind by (cases enc) auto
    then obtain items where "encodePermissionOverrides (pwOverrides j) = Inr items"
      using e(2) w by (auto simp: run_encoder_def encodePermissionsWriteIntent_def and_then_Inr Let_def split: if_splits prod.splits)
    from encoded_overrides_ok[OF this] show ?thesis
      by (simp add: desired_rules_def transitionIntent_def act w x ownCanonicalRolePermissionRules_def list_all_iff distinct_map)
  qed
qed

lemma known_effects: "list_all override_known rs \<Longrightarrow> list_all (\<lambda>r. poEffect r \<in> {2, 3}) rs"
  by (auto simp: list_all_iff override_known_def split: option.splits)

text \<open>What later reads require of a rule, beside what the intent already guarantees.\<close>

definition grantable :: "override_intent \<Rightarrow> bool" where
  "grantable r \<longleftrightarrow> (case lookup (poCapability r) of None \<Rightarrow> False | Some d \<Rightarrow> dGrantable d)"

lemma rule_ok_stored: "rule_ok (stored_override r) \<longleftrightarrow> grantable r"
  by (auto simp: rule_ok_def stored_override_def grantable_def split: option.splits
      dest: lookupD catalog_grantable)

lemma binding_matches_captured [simp]: "binding_matches (captureRolePermissionOperationBinding op) op"
  by (simp add: binding_matches_def captureRolePermissionOperationBinding_def)

lemma prelock_reads_bound:
  "prelock_reads env x op t = Inr lk \<Longrightarrow> 0 < lkActor lk \<and> lkBinding lk = captureRolePermissionOperationBinding op"
  by (auto simp: prelock_reads_def Let_def split: option.splits if_splits)

lemma prelock_binding: "prelockForAuthorization env x op v t st = (Inr u, st1) \<Longrightarrow> envTransaction env \<and> validBinding x op v"
  by (auto simp: prelockForAuthorization_def split: if_splits)

section \<open>Properties\<close>

text \<open>Sample: root (user 1) promotes user 77 with the given overrides; the user has one live session.\<close>

definition sample_user_row :: "int \<Rightarrow> int \<Rightarrow> int \<Rightarrow> int \<Rightarrow> user_row" where
  "sample_user_row i guid role version =
     \<lparr>rID = i, rGUID = guid, rCreatedAt = 1, rCreatedBy = None, rUpdatedAt = 1, rUpdatedBy = None, rDeleted = 0,
      uGroup = 1, uPhone = None, uUsername = None, uPasswordHash = Some ''h'', uNickname = None, uRealName = None, uIDCardHash = None,
      uVerified = False, uPlan = 1, uStatus = UserStatusActive, uRole = role, uAuthVersion = version, uLastLoginAt = None,
      uAllowedModels = None, uDailyLimit = 100, uDailyUsed = 0, uDailyResetAt = None, uTotalTokens = 0\<rparr>"

definition sample_session_row :: "int \<Rightarrow> int \<Rightarrow> bytes \<Rightarrow> session_row" where
  "sample_session_row i uid sid =
     \<lparr>rID = i, rGUID = 500 + i, rCreatedAt = 1, rCreatedBy = None, rUpdatedAt = 1, rUpdatedBy = None, rDeleted = 0,
      sSID = sid, sUser = uid, sLoginMethod = 1, sIP = None, sUserAgent = None, sVersion = 3, sRefreshHMAC = ''h'',
      sPrevRefreshHMAC = None, sPrevRefreshExpires = None, sLastActiveAt = 1, sExpiresAt = 9000000, sRevokedAt = None\<rparr>"

definition sample_tables :: tables where
  "sample_tables =
     \<lparr>tUsers = [sample_user_row 1 11 UserRoleRoot 4, sample_user_row 2 77 UserRoleUser 2],
      tSessions = [sample_session_row 1 1 (replicate 36 CHR ''s''), sample_session_row 2 2 ''mine''], tHeads = [], tRules = [], tEvents = [],
      tTokens = [], tLogs = [], tOutbox = [], tResponses = [], tNextID = 100\<rparr>"

definition sample_change :: "override_intent list \<Rightarrow> promote_intent" where
  "sample_change rules =
     \<lparr>prTarget = 77, prAuthVersion = 2, prPermissionsVersion = 0, prCatalogVersion = 1, prOverrides = rules, prReason = ''on call''\<rparr>"

definition promote_descriptor :: descriptor where
  "promote_descriptor = the (ResolveActiveAction ActionUsersPromote)"

definition sample_execution :: "bytes \<Rightarrow> override_intent list \<Rightarrow> role_execution" where
  "sample_execution h rules =
     \<lparr>exDescriptor = promote_descriptor, exIntent = no_intent\<lparr>xiPromote := Some (sample_change rules)\<rparr>, exHMAC = h,
      exInvariant = Some \<lparr>ivAction = ActionUsersPromote, ivTarget = 77, ivHMAC = h\<rparr>\<rparr>"

definition sample_operation :: "bytes \<Rightarrow> operation_row" where
  "sample_operation h =
     \<lparr>rID = 30, rGUID = 31, rCreatedAt = 100, rCreatedBy = Some 1, rUpdatedAt = 100, rUpdatedBy = Some 1, rDeleted = 0,
      opActor = 1, opAuthVersion = 4, opSession = 1, opAction = ActionUsersPromote, opIdempotencyHMAC = ''i'', opRequestHMAC = h,
      opVerification = Some 40, opState = OperationProcessing, opPublicRef = ''op_'' @ replicate 43 CHR ''A'',
      opLeaseOwner = Some (hex_encode (LeaseOwnerDigest sample_crypto (replicate 32 CHR ''x''))), opLeaseExpires = Some 60000, opFinishedAt = None, opQueryExpires = 90000,
      opErrorCode = None, opResultKind = None, opResultGUID = None, opResultAuthVersion = None, opResultPolicyVersion = None,
      opResultRole = None, opResultStatus = None\<rparr>"

definition sample_verification :: "bytes \<Rightarrow> verification_row" where
  "sample_verification h =
     \<lparr>rID = 40, rGUID = 41, rCreatedAt = 90, rCreatedBy = Some 1, rUpdatedAt = 90, rUpdatedBy = Some 1, rDeleted = 0,
      vActor = 1, vAuthVersion = 4, vSession = 1, vAction = ActionUsersPromote, vTargetKind = TargetUser, vTarget = Some 77,
      vIntentHMAC = h, vTicketHMAC = ''t'', vExpiresAt = 50000, vConsumedAt = None\<rparr>"

definition sample_env :: tx_env where
  "sample_env = \<lparr>envTransaction = True, envFault = (\<lambda>_. False), envMark = (\<lambda>_. True), envGUID = (\<lambda>n. 1000 + int n), envNow = 50000\<rparr>"

definition fresh_state :: role_state where
  "fresh_state = \<lparr>xsLocked = None, xsStarted = False, xsBegun = False, xsAuditStarted = False, xsFacts = None\<rparr>"

definition sample_locked :: "bytes \<Rightarrow> locked_state" where
  "sample_locked h = \<lparr>lkActor = 11, lkBinding = captureRolePermissionOperationBinding (sample_operation h),
     lkTarget = sample_user_row 2 77 UserRoleUser 2, lkSessions = [sample_session_row 2 2 ''mine''], lkHead = None, lkRules = []\<rparr>"

lemma sample_target [simp]: "intent_target (exIntent (sample_execution h rules)) = 77"
  by (simp add: sample_execution_def intent_target_def no_intent_def sample_change_def)

lemma sample_invariant: "h \<noteq> [] \<Longrightarrow> validLocalInvariant (sample_execution h rules)"
  by (simp add: validLocalInvariant_def sample_execution_def no_intent_def intent_target_def sample_change_def)

lemma sample_ref: "\<not> isl (ParsePublicRef (''op_'' @ replicate 43 CHR ''A''))"
  by code_simp

lemma length_lease [simp]: "length (LeaseOwnerDigest c raw) = 32"
  by (simp add: LeaseOwnerDigest_def digest_def hmac_sha256_def Let_def)

lemma sample_binding: "h \<noteq> [] \<Longrightarrow> validBinding (sample_execution h rules) (sample_operation h) (sample_verification h)"
  using sample_ref
  by (simp add: validBinding_def sample_invariant sample_operation_def sample_verification_def)
     (simp add: sample_execution_def invariant_action_def maxInt32_def)

lemma sample_prelock_reads:
  "prelock_reads sample_env (sample_execution h rules) (sample_operation h) sample_tables = Inr (sample_locked h)"
  by (simp add: prelock_reads_def sample_locked_def Let_def sample_env_def sample_operation_def sample_tables_def sql_first_def sql_find_def
      active_user_def live_session_def live_head_def live_rule_def validRolePermissionSessions_def rolePermissionLockedRules_def
      head_consistent_def sample_user_row_def sample_session_row_def maxInt32_def)

lemma sample_prelock:
  "h \<noteq> [] \<Longrightarrow> prelockForAuthorization sample_env (sample_execution h rules) (sample_operation h) (sample_verification h) sample_tables
      fresh_state = (Inr (sample_user_row 2 77 UserRoleUser 2), fresh_state\<lparr>xsLocked := Some (sample_locked h)\<rparr>)"
  by (simp add: prelockForAuthorization_def sample_binding sample_prelock_reads)
     (simp add: sample_env_def fresh_state_def sample_locked_def)

lemma sample_new:
  "NewRolePermissionExecution True sample_crypto promote_descriptor (Promote (sample_change rules)) = Some x \<Longrightarrow>
   rules = sort_key poCapability rules \<Longrightarrow> x = sample_execution (exHMAC x) rules"
proof -
  assume new: "NewRolePermissionExecution True sample_crypto promote_descriptor (Promote (sample_change rules)) = Some x"
    and sorted: "rules = sort_key poCapability rules"
  have act: "acAction promote_descriptor = ActionUsersPromote" by code_simp
  have trim: "trim_space ''on call'' = ''on call''" by code_simp
  have "(sample_change rules)\<lparr>prReason := trim_space (prReason (sample_change rules)), prOverrides := sort_key poCapability (prOverrides (sample_change rules))\<rparr>
      = sample_change rules"
    using sorted by (simp add: sample_change_def trim)
  then show ?thesis using new
    by (auto simp: NewRolePermissionExecution_def Let_def act ownRolePermissionIntent_def ownCanonicalRolePermissionRules_def
        sample_execution_def no_intent_def intent_target_def split: if_splits option.splits sum.splits)
       (simp_all add: sample_change_def)
qed

definition sample_deny :: "override_intent list" where
  "sample_deny = [\<lparr>poCapability = ''users.delete'', poEffect = 2\<rparr>, \<lparr>poCapability = ''users.promote'', poEffect = 3\<rparr>]"

definition sample_plan :: "override_intent list \<Rightarrow> transition_plan" where
  "sample_plan rules = \<lparr>tpRole = UserRoleAdmin, tpAuthVersion = 3, tpExpectedPolicy = 0, tpNextPolicy = 1, tpCatalog = 1, tpRules = rules\<rparr>"

lemma sample_deny_sorted: "sample_deny = sort_key poCapability sample_deny"
  by code_simp

lemma sample_planned: "h \<noteq> [] \<Longrightarrow> locked_plan (sample_execution h sample_deny) (sample_locked h) = Inr (sample_plan sample_deny)"
proof -
  assume h: "h \<noteq> []"
  have act: "invariant_action (sample_execution h sample_deny) = ActionUsersPromote"
    by (simp add: invariant_action_def sample_execution_def)
  have tr: "transitionIntent (sample_execution h sample_deny) = (2, 0, 1, UserRoleAdmin, sample_deny, UserRoleUser)"
    unfolding transitionIntent_def act by (simp add: sample_execution_def no_intent_def sample_change_def)
  have none: "validateAndOwnRolePermissionRules [] = Some []" by code_simp
  show ?thesis
    by (simp add: locked_plan_def PlanTransition_def sample_invariant[OF h] tr sample_locked_def sample_user_row_def none policy_matches_def act
        PermissionCatalogVersion_def maxInt32_def maxInt64_def sample_plan_def ownCanonicalRolePermissionRules_def flip: sample_deny_sorted)
qed

lemma sample_run:
  assumes "h \<noteq> []"
  shows "\<exists>out t' st marks. Execute_role sample_env (sample_execution h sample_deny) (sample_operation h) sample_tables
      (fresh_state\<lparr>xsLocked := Some (sample_locked h)\<rparr>) = (Some (out, t'), st, marks) \<and> toFailure out = None"
proof -
  have codes: "PermissionCapabilityCode ''users.delete'' = Some 12" "PermissionCapabilityCode ''users.promote'' = Some 14"
    by code_simp+
  have "apply_plan sample_env 1 50000 (sample_locked h) (sample_plan sample_deny) \<lparr>wTables = sample_tables, wGUIDs = 0, wStmt = 5\<rparr> \<noteq> None"
    by (simp add: apply_plan_def sample_locked_def revokeSession_def write_user_def tombstone_rules_def write_head_def
        writeManagedUpdateAudit_def sample_plan_def sample_deny_def codes sql_stmt_def nextGUID_def sample_env_def sample_tables_def
        insert_event_def insert_rule_def insert_head_def sql_update_def sql_affected_def session_current_def user_current_def
        sample_user_row_def sample_session_row_def)
  then obtain w where w: "apply_plan sample_env 1 50000 (sample_locked h) (sample_plan sample_deny) \<lparr>wTables = sample_tables, wGUIDs = 0, wStmt = 5\<rparr> = Some w"
    by auto
  have "length Catalog = 24" by code_simp
  then have facts: "recordAuditFacts (sample_execution h sample_deny) (sample_locked h) (sample_plan sample_deny) st \<noteq> None"
    if "xsFacts st = None" "\<not> xsAuditStarted st" for st
    using that by (simp add: recordAuditFacts_def Let_def) (simp add: sample_locked_def sample_user_row_def sample_plan_def sample_deny_def PermissionCatalogVersion_def)
  have mark: "mark_sessions sample_env (lkSessions (sample_locked h)) = ([''mine''], True)"
    by (simp add: sample_locked_def sample_env_def sample_session_row_def)
  have op: "opActor (sample_operation h) = 1" "opAction (sample_operation h) = invariant_action (sample_execution h sample_deny)"
    "rCreatedAt (sample_operation h) = 100" "rUpdatedAt (sample_operation h) = 100"
    by (simp_all add: sample_operation_def sample_execution_def invariant_action_def)
  have lk: "binding_matches (lkBinding (sample_locked h)) (sample_operation h)" "lkActor (sample_locked h) = 11" "rID (lkTarget (sample_locked h)) = 2"
    by (simp_all add: sample_locked_def sample_user_row_def)
  have "envTransaction sample_env" "envNow sample_env = 50000" by (simp_all add: sample_env_def)
  then show ?thesis
    using facts[of "fresh_state\<lparr>xsLocked := Some (sample_locked h\<lparr>lkSessions := [], lkRules := []\<rparr>), xsStarted := True, xsBegun := True\<rparr>"]
    by (simp add: Execute_role_def fresh_state_def lk op sample_planned[OF assms] mark w validOperationNow_def maxInt64_def
        actionOperationQueryRetentionMS_def success_outcome_def Let_def split: option.split)
qed

lemma sample_tables_ok: "tables_ok sample_tables"
  by (simp add: tables_ok_def sample_tables_def sample_user_row_def sample_session_row_def)

lemma role_change_effect:
  assumes "tables_ok t" "prelockForAuthorization env x op v t st = (Inr u, st1)"
    and "Execute_role env x op t st1 = (Some (out, t'), st2, marks)" "toFailure out = None"
  shows "u \<in> set (tUsers t) \<and> rGUID u = intent_target (exIntent x) \<and>
    toRole out = Some (desired_role x) \<and> toAuthVersion out = Some (uAuthVersion u + 1) \<and>
    tUsers t' = map (\<lambda>r. if r = u then r\<lparr>uRole := desired_role x, uAuthVersion := uAuthVersion u + 1,
        rUpdatedAt := envNow env, rUpdatedBy := Some (opActor op)\<rparr> else r) (tUsers t) \<and>
    tSessions t' = map (\<lambda>s. if live_session (rID u) s then s\<lparr>sRevokedAt := Some (envNow env), sVersion := sVersion s + 1,
        rUpdatedAt := envNow env, rUpdatedBy := Some (opActor op)\<rparr> else s) (tSessions t) \<and>
    set marks = sSID ` {s \<in> set (tSessions t). live_session (rID u) s} \<and>
    filter (\<lambda>h. hUser h \<noteq> rID u) (tHeads t') = filter (\<lambda>h. hUser h \<noteq> rID u) (tHeads t) \<and>
    filter (\<lambda>p. pUser p \<noteq> rID u) (tRules t') = filter (\<lambda>p. pUser p \<noteq> rID u) (tRules t)"
proof -
  obtain lk plan where e: "locked_ok t lk" "lkTarget lk = u" "locked_plan x lk = Inr plan" "out = success_outcome lk plan"
    "marks = map sSID (lkSessions lk)" "after_change (opActor op) (envNow env) lk plan t t'"
    using Execute_success[OF assms] by metis
  obtain news where news: "tRules t' = map (\<lambda>p. if live_rule (rID u) p then buried (opActor op) (envNow env) p else p) (tRules t) @ news"
    "list_all2 (stores (rID u) (tpNextPolicy plan)) (tpRules plan) news"
    using e(2,6) by (auto simp: after_change_def Let_def)
  have "\<forall>p \<in> set news. pUser p = rID u"
    using news(2) by (induction rule: list_all2_induct) (auto simp: stores_def)
  then have "filter (\<lambda>p. pUser p \<noteq> rID u) news = []" by (auto simp: filter_empty_conv)
  moreover have "filter (\<lambda>p. pUser p \<noteq> rID u) (map (\<lambda>p. if live_rule (rID u) p then buried a n p else p) ps) = filter (\<lambda>p. pUser p \<noteq> rID u) ps" for ps a n
    by (induction ps) (auto simp: live_rule_def buried_def)
  ultimately have rules: "filter (\<lambda>p. pUser p \<noteq> rID u) (tRules t') = filter (\<lambda>p. pUser p \<noteq> rID u) (tRules t)"
    by (simp add: news(1) del: filter_map)
  have "lkSessions lk = sql_find (live_session (rID u)) (tSessions t)"
    using e(1,2) unfolding locked_ok_def Let_def by blast
  then have "set marks = sSID ` {s \<in> set (tSessions t). live_session (rID u) s}" by (simp add: e(5))
  then show ?thesis
    using e(6) locked_planD[OF e(3)] rules prelocked_target[OF assms(2)]
    by (simp add: after_change_def Let_def e(2,4) success_outcome_def changed_user_def revoked_session_def cong: if_cong)
qed

text \<open>C16: A role or permission change is applied completely.  When an execution that locked its target, the stored user
  that the intent names, succeeds, the target has the reviewed role and the next auth version and no other user changes; every live session of
  the target is revoked at its next version, in the table and in Redis, and no other session changes; and
  the policy heads and rules of other users are what they were.\<close>

theorem role_change_applied:
  assumes "tables_ok t" "prelockForAuthorization env x op v t st = (Inr u, st1)"
    and "Execute_role env x op t st1 = (Some (out, t'), st2, marks)" "toFailure out = None"
  shows "u \<in> set (tUsers t) \<and> rGUID u = intent_target (exIntent x) \<and>
    toRole out = Some (desired_role x) \<and> toAuthVersion out = Some (uAuthVersion u + 1) \<and>
    tUsers t' = map (\<lambda>r. if r = u then r\<lparr>uRole := desired_role x, uAuthVersion := uAuthVersion u + 1,
        rUpdatedAt := envNow env, rUpdatedBy := Some (opActor op)\<rparr> else r) (tUsers t) \<and>
    tSessions t' = map (\<lambda>s. if live_session (rID u) s then s\<lparr>sRevokedAt := Some (envNow env), sVersion := sVersion s + 1,
        rUpdatedAt := envNow env, rUpdatedBy := Some (opActor op)\<rparr> else s) (tSessions t) \<and>
    set marks = sSID ` {s \<in> set (tSessions t). live_session (rID u) s} \<and>
    filter (\<lambda>h. hUser h \<noteq> rID u) (tHeads t') = filter (\<lambda>h. hUser h \<noteq> rID u) (tHeads t) \<and>
    filter (\<lambda>p. pUser p \<noteq> rID u) (tRules t') = filter (\<lambda>p. pUser p \<noteq> rID u) (tRules t)"
  by (rule role_change_effect[OF assms])

theorem role_change_applied_witness:
  "\<exists>(out :: outcome) (t' :: tables). toRole out = Some UserRoleAdmin \<and> map uRole (tUsers t') = [UserRoleRoot, UserRoleAdmin] \<and>
     map sRevokedAt (tSessions t') = [None, Some 50000] \<and> map uAuthVersion (tUsers t') = [4, 3]"
proof -
  obtain out t' st marks where run: "Execute_role sample_env (sample_execution ''h'' sample_deny) (sample_operation ''h'') sample_tables
      (fresh_state\<lparr>xsLocked := Some (sample_locked ''h'')\<rparr>) = (Some (out, t'), st, marks)" "toFailure out = None"
    using sample_run[of "''h''"] by auto
  have "desired_role (sample_execution ''h'' sample_deny) = UserRoleAdmin"
    by (simp add: desired_role_def transitionIntent_def invariant_action_def) (simp add: sample_execution_def no_intent_def)
  with role_change_applied[OF sample_tables_ok sample_prelock run] show ?thesis
    by (intro exI[of _ out] exI[of _ t'])
       (simp add: sample_tables_def sample_user_row_def sample_session_row_def live_session_def sample_env_def)
qed

text \<open>C17: A stored policy is read back as it was reviewed.  After a successful change the reader of permission
  policies accepts the target's rows, with the version that the outcome reports, and its overrides are
  exactly the reviewed ones, whatever was stored before.\<close>

theorem policy_read_back:
  assumes "tables_ok t" "prelockForAuthorization env x op v t st = (Inr u, st1)"
    and "Execute_role env x op t st1 = (Some (out, t'), st2, marks)" "toFailure out = None"
    and "NewRolePermissionExecution deps c d i = Some x"
  shows "\<exists>version rules. toPolicyVersion out = Some version \<and>
    readPermissionPolicyRows (\<lambda>_. False) t' (rID u) = Inr (version, rules) \<and>
    mset rules = image_mset stored_override (mset (desired_rules x))"
proof -
  obtain lk plan where e: "lkTarget lk = u" "locked_plan x lk = Inr plan" "out = success_outcome lk plan"
    "after_change (opActor op) (envNow env) lk plan t t'"
    "0 < tpNextPolicy plan" "tpCatalog plan = PermissionCatalogVersion" "length (tpRules plan) \<le> length Catalog"
    using Execute_success[OF assms(1-4)] by metis
  have rules: "tpRules plan = sort_key poCapability (desired_rules x)" using locked_planD[OF e(2)] by simp
  then have "list_all (\<lambda>r. poEffect r \<in> {2, 3}) (tpRules plan)"
    using known_effects execution_rules_ok[OF assms(5)] by (auto simp: list_all_iff)
  from read_back[OF assms(1) e(4-7) this] show ?thesis
    by (auto simp: e(1,3) rules success_outcome_def)
qed

lemma hex_encode_nonempty: "s \<noteq> [] \<Longrightarrow> hex_encode s \<noteq> []"
  by (cases s) auto

lemma sample_execution_exists:
  "\<exists>h. h \<noteq> [] \<and> NewRolePermissionExecution True sample_crypto promote_descriptor (Promote (sample_change sample_deny)) =
     Some (sample_execution h sample_deny)"
proof -
  have valid: "validRolePermissionDescriptor promote_descriptor" by code_simp
  have enc: "acEncode promote_descriptor = Some EncPromote" "acAction promote_descriptor = ActionUsersPromote" by code_simp+
  obtain b where b: "run_encoder EncPromote (Promote (sample_change sample_deny)) = Inr b" "b \<noteq> []"
  proof -
    have "case run_encoder EncPromote (Promote (sample_change sample_deny)) of Inl er \<Rightarrow> False | Inr b \<Rightarrow> b \<noteq> []" by code_simp
    then show thesis using that by (auto split: sum.splits)
  qed
  obtain x where x: "NewRolePermissionExecution True sample_crypto promote_descriptor (Promote (sample_change sample_deny)) = Some x"
    using b by (simp add: NewRolePermissionExecution_def valid enc Let_def ownRolePermissionIntent_def)
  have "exHMAC x = hex_encode (IntentDigest sample_crypto b)"
    using x b by (auto simp: NewRolePermissionExecution_def valid enc Let_def ownRolePermissionIntent_def)
  moreover have "IntentDigest sample_crypto b \<noteq> []"
    unfolding IntentDigest_def digest_def hmac_sha256_def by (metis length_0_conv length_sha256 zero_neq_numeral)
  ultimately have "exHMAC x \<noteq> []" by (simp add: hex_encode_nonempty)
  with x sample_new[OF x sample_deny_sorted] show ?thesis by metis
qed

lemma sample_success:
  obtains h out t' st marks where "h \<noteq> []"
    "NewRolePermissionExecution True sample_crypto promote_descriptor (Promote (sample_change sample_deny)) = Some (sample_execution h sample_deny)"
    "Execute_role sample_env (sample_execution h sample_deny) (sample_operation h) sample_tables
      (fresh_state\<lparr>xsLocked := Some (sample_locked h)\<rparr>) = (Some (out, t'), st, marks)" "toFailure out = None"
  using sample_execution_exists sample_run by metis

lemma sample_desired: "desired_rules (sample_execution h sample_deny) = sample_deny"
  by (simp add: desired_rules_def transitionIntent_def invariant_action_def) (simp add: sample_execution_def no_intent_def sample_change_def)

theorem policy_read_back_witness:
  "\<exists>(t' :: tables) rules. readPermissionPolicyRows (\<lambda>_. False) t' 2 = Inr (1, rules) \<and>
     mset rules = {#\<lparr>oCapability = ''users.delete'', oEffect = Allow\<rparr>, \<lparr>oCapability = ''users.promote'', oEffect = Deny\<rparr>#}"
proof -
  obtain h out t' st marks where h: "h \<noteq> []"
    and new: "NewRolePermissionExecution True sample_crypto promote_descriptor (Promote (sample_change sample_deny)) = Some (sample_execution h sample_deny)"
    and run: "Execute_role sample_env (sample_execution h sample_deny) (sample_operation h) sample_tables
      (fresh_state\<lparr>xsLocked := Some (sample_locked h)\<rparr>) = (Some (out, t'), st, marks)" "toFailure out = None"
    by (rule sample_success)
  have "toPolicyVersion out = Some 1"
    using Execute_result[OF run(1)] run(2) sample_planned[OF h] by (auto simp: success_outcome_def failure_outcome_def sample_plan_def)
  with policy_read_back[OF sample_tables_ok sample_prelock[OF h] run new]
  have "\<exists>rules. readPermissionPolicyRows (\<lambda>_. False) t' 2 = Inr (1, rules) \<and> mset rules = image_mset stored_override (mset sample_deny)"
    by (simp add: sample_desired) (simp add: sample_user_row_def)
  moreover have "image_mset stored_override (mset sample_deny) =
      {#\<lparr>oCapability = ''users.delete'', oEffect = Allow\<rparr>, \<lparr>oCapability = ''users.promote'', oEffect = Deny\<rparr>#}"
    by (simp add: sample_deny_def stored_override_def)
  ultimately show ?thesis by metis
qed

lemma NewEvaluator_stored:
  assumes "validAccount a" "aDeleted a = 0" "aStatus a = UserStatusActive" "rules \<noteq> [] \<Longrightarrow> aRole a = UserRoleAdmin"
    and "mset rules = image_mset stored_override (mset rs)" "distinct (map poCapability rs)"
  shows "(\<exists>e. NewEvaluator a rules = Inr e) \<longleftrightarrow> list_all grantable rs"
proof -
  have set: "set rules = stored_override ` set rs" using assms(5) by (metis set_image_mset set_mset_mset)
  have "mset (map oCapability rules) = mset (map poCapability rs)"
    using assms(5) by (simp add: image_mset.compositionality comp_def stored_override_def)
  then have "distinct (map oCapability rules)" using assms(6) mset_eq_imp_distinct_iff by metis
  then have "(\<exists>m. validateOverrides rules = Inr m) \<longleftrightarrow> list_all grantable rs"
    by (auto simp: validateOverrides_ok list_all_iff set rule_ok_stored)
  then show ?thesis using assms(1-4) by (auto simp: NewEvaluator_def split: sum.splits)
qed

definition load_agrees :: "user_row \<Rightarrow> override_intent list \<Rightarrow> outcome \<Rightarrow> permission_error + permission_snapshot \<Rightarrow> bool" where
  "load_agrees u rules out res =
     (case res of
        Inr s \<Rightarrow> uStatus u = UserStatusActive \<and> list_all grantable rules \<and> Some (pmPolicyVersion s) = toPolicyVersion out \<and>
          Some (pmAuthVersion s) = toAuthVersion out \<and> Some (aRole (eActor (pmEvaluator s))) = toRole out
      | Inl ErrPermissionActorUnavailable \<Rightarrow> uStatus u \<noteq> UserStatusActive
      | Inl ErrPermissionPolicyInvalid \<Rightarrow> uStatus u = UserStatusActive \<and> \<not> list_all grantable rules
      | Inl ErrPermissionReadUnavailable \<Rightarrow> False)"

lemma changed_target:
  assumes ok: "tables_ok t" and lk: "locked_ok t lk" and plan: "locked_plan x lk = Inr plan" and after: "after_change actor now lk plan t t'"
  shows "sql_first (\<lambda>r. rID r = rID (lkTarget lk)) (tUsers t') = Some (changed_user actor now plan (lkTarget lk))" (is ?first)
    and "validAccount (actionAccount (changed_user actor now plan (lkTarget lk)))" (is ?valid)
proof -
  let ?u = "changed_user actor now plan (lkTarget lk)"
  have u: "lkTarget lk \<in> set (tUsers t)" "0 < rID (lkTarget lk)" using lk by (simp_all add: locked_ok_def Let_def)
  have users: "tUsers t' = map (\<lambda>r. if r = lkTarget lk then changed_user actor now plan r else r) (tUsers t)"
    using after by (simp add: after_change_def Let_def)
  have "map rID (tUsers t') = map rID (tUsers t)" by (simp add: users changed_user_def)
  then have dist: "distinct (map rID (tUsers t'))" using ok by (simp add: tables_ok_def)
  have "?u \<in> set (tUsers t')" using u(1) by (auto simp: users)
  moreover have "rID ?u = rID (lkTarget lk)" by (simp add: changed_user_def)
  ultimately show ?first by (intro sql_first_unique) (auto intro: distinct_keyD[OF dist])
  show ?valid using locked_planD[OF plan] u(2)
    by (auto simp: actionAccount_def changed_user_def validAccount_def knownRole_def)
qed

text \<open>Loading the permissions of a changed target, whose policy reads as \<open>rules\<close>.\<close>

lemma load_changed:
  assumes first: "sql_first (\<lambda>r. rID r = uid) (tUsers t) = Some u" and valid: "validAccount (actionAccount u)"
    and pos: "0 < uid" "0 < uAuthVersion u" "rDeleted u = 0"
    and rules: "readPermissionPolicyRows (\<lambda>_. False) t uid = Inr (version, rules)"
  shows "LoadPermissionSnapshot True (\<lambda>_. False) t uid =
    (if uStatus u \<noteq> UserStatusActive then Inl ErrPermissionActorUnavailable
     else case NewEvaluator (actionAccount u) rules of
       Inl er \<Rightarrow> Inl ErrPermissionPolicyInvalid
     | Inr ev \<Rightarrow> Inr \<lparr>pmEvaluator = ev, pmAuthVersion = uAuthVersion u, pmPolicyVersion = version\<rparr>)"
proof -
  have "isl (NewEvaluator (actionAccount u) []) \<longleftrightarrow> uStatus u \<noteq> UserStatusActive"
    using valid pos(3) by (auto simp: NewEvaluator_def validateOverrides_def actionAccount_def)
  then show ?thesis using pos rules unfolding LoadPermissionSnapshot_def Let_def by (simp add: first)
qed

text \<open>C18: Which policies can be used after they are stored.  When the next request of the target loads its
  permissions, and no statement fails, it gets the new role, auth version and policy version if the account
  is active and every stored rule is about a grantable capability.  An inactive account is refused.  A
  rule that denies a capability which cannot be granted, which the review, the plan and the writes
  accept, makes the load fail with an invalid policy: the administrator is locked out.\<close>

theorem stored_policy_usable:
  assumes "tables_ok t" "prelockForAuthorization env x op v t st = (Inr u, st1)"
    and "Execute_role env x op t st1 = (Some (out, t'), st2, marks)" "toFailure out = None"
    and "NewRolePermissionExecution deps c d i = Some x"
  shows "load_agrees u (desired_rules x) out (LoadPermissionSnapshot True (\<lambda>_. False) t' (rID u))"
proof -
  obtain lk plan where e: "locked_ok t lk" "lkTarget lk = u" "locked_plan x lk = Inr plan" "out = success_outcome lk plan"
    "after_change (opActor op) (envNow env) lk plan t t'"
    "0 < tpNextPolicy plan" "tpCatalog plan = PermissionCatalogVersion" "length (tpRules plan) \<le> length Catalog"
    using Execute_success[OF assms(1-4)] by metis
  note plan = locked_planD[OF e(3), unfolded e(2)] and new = execution_rules_ok[OF assms(5)]
  have "list_all (\<lambda>r. poEffect r \<in> {2, 3}) (tpRules plan)" using plan known_effects new by (auto simp: list_all_iff)
  then obtain rules where rules: "readPermissionPolicyRows (\<lambda>_. False) t' (rID u) = Inr (tpNextPolicy plan, rules)"
    "mset rules = image_mset stored_override (mset (desired_rules x))"
    using read_back[OF assms(1) e(5-8)] e(2) plan by auto
  let ?u = "changed_user (opActor op) (envNow env) plan u"
  note target = changed_target[OF assms(1) e(1,3,5), unfolded e(2)]
  have u: "0 < rID u" "uAuthVersion ?u = uAuthVersion u + 1" "rDeleted ?u = 0" "uStatus ?u = uStatus u" "aRole (actionAccount ?u) = tpRole plan"
    using e(1,2) plan by (simp_all add: locked_ok_def Let_def changed_user_def actionAccount_def)
  have load: "LoadPermissionSnapshot True (\<lambda>_. False) t' (rID u) =
    (if uStatus u \<noteq> UserStatusActive then Inl ErrPermissionActorUnavailable
     else case NewEvaluator (actionAccount ?u) rules of Inl er \<Rightarrow> Inl ErrPermissionPolicyInvalid
     | Inr ev \<Rightarrow> Inr \<lparr>pmEvaluator = ev, pmAuthVersion = uAuthVersion u + 1, pmPolicyVersion = tpNextPolicy plan\<rparr>)"
    using load_changed[OF target u(1) _ u(3) rules(1), unfolded u(2,4)] plan by simp
  have "length (tpRules plan) = length rules" using plan arg_cong[OF rules(2), of size] by simp
  then have admin: "rules \<noteq> [] \<Longrightarrow> aRole (actionAccount ?u) = UserRoleAdmin" using plan u(5) by (metis length_0_conv)
  have full: "(\<exists>ev. NewEvaluator (actionAccount ?u) rules = Inr ev) \<longleftrightarrow> list_all grantable (desired_rules x)"
    if "uStatus u = UserStatusActive"
    using that u new target(2) by (intro NewEvaluator_stored[OF _ _ _ admin rules(2)]) (simp_all add: actionAccount_def)
  show ?thesis
  proof (cases "NewEvaluator (actionAccount ?u) rules")
    case (Inl er)
    then show ?thesis using full by (auto simp: load_agrees_def load)
  next
    case (Inr ev)
    then have "aRole (eActor ev) = tpRole plan" using u(5) by (simp add: NewEvaluator_Inr)
    with Inr show ?thesis using full plan by (auto simp: load_agrees_def load e(2,4) success_outcome_def)
  qed
qed

theorem stored_policy_usable_witness:
  "\<exists>t' :: tables. LoadPermissionSnapshot True (\<lambda>_. False) t' 2 = Inl ErrPermissionPolicyInvalid \<and> list_all override_known sample_deny"
proof -
  obtain h out t' st marks where h: "h \<noteq> []"
    and new: "NewRolePermissionExecution True sample_crypto promote_descriptor (Promote (sample_change sample_deny)) = Some (sample_execution h sample_deny)"
    and run: "Execute_role sample_env (sample_execution h sample_deny) (sample_operation h) sample_tables
      (fresh_state\<lparr>xsLocked := Some (sample_locked h)\<rparr>) = (Some (out, t'), st, marks)" "toFailure out = None"
    by (rule sample_success)
  have "\<not> list_all grantable sample_deny" by code_simp
  moreover have "load_agrees (sample_user_row 2 77 UserRoleUser 2) sample_deny out (LoadPermissionSnapshot True (\<lambda>_. False) t' 2)"
    using stored_policy_usable[OF sample_tables_ok sample_prelock[OF h] run new] by (simp add: sample_desired) (simp add: sample_user_row_def)
  ultimately have "LoadPermissionSnapshot True (\<lambda>_. False) t' 2 = Inl ErrPermissionPolicyInvalid"
    by (auto simp: load_agrees_def sample_user_row_def split: sum.splits permission_error.splits)
  moreover have "list_all override_known sample_deny" by code_simp
  ultimately show ?thesis by blast
qed

lemma preflight_outcome:
  assumes "prelockForAuthorization env x op v t st = (Inr u, st1)" "\<not> xsBegun st"
  shows "(case preflightLocked env x op st1 of
      Inl er \<Rightarrow> False
    | Inr (Some f) \<Rightarrow> fst (Execute_role env x op t st1) = Some (failure_outcome f, t) \<and> snd (snd (Execute_role env x op t st1)) = []
    | Inr None \<Rightarrow> (case fst (Execute_role env x op t st1) of None \<Rightarrow> True | Some (out, t') \<Rightarrow> toFailure out = None))"
proof -
  obtain lk where lk: "xsLocked st1 = Some lk" "\<not> xsStarted st1" "prelock_reads env x op t = Inr lk" "st1 = st\<lparr>xsLocked := Some lk\<rparr>"
    using prelock_locked[OF assms(1)] by auto
  note bound = prelock_reads_bound[OF lk(3)]
  have begun: "\<not> xsBegun st1" using lk(4) assms(2) by simp
  have op: "envTransaction env" "opAction op = invariant_action x" "0 < opActor op"
    using prelock_binding[OF assms(1)] by (auto simp: validBinding_def)
  have pre: "preflightLocked env x op st1 = (if rID (lkTarget lk) = opActor op then Inr (Some FailureActionRejected)
      else case locked_plan x lk of Inl f \<Rightarrow> Inr (Some f) | Inr plan \<Rightarrow> Inr None)"
    using lk bound op by (simp add: preflightLocked_def)
  show ?thesis
  proof (cases "rID (lkTarget lk) = opActor op \<or> isl (locked_plan x lk)")
    case True
    then show ?thesis unfolding pre using lk(1,2) bound op begun by (auto simp: Execute_role_def Let_def split: sum.splits)
  next
    case False
    then have "preflightLocked env x op st1 = Inr None" unfolding pre by (auto split: sum.splits)
    moreover have "toFailure out = None" if "fst (Execute_role env x op t st1) = Some (out, t')" for out t'
      using that False lk(1,2) bound op begun
      by (auto simp: Execute_role_def Let_def success_outcome_def split: sum.splits option.splits prod.splits if_splits)
    ultimately show ?thesis by (auto split: option.split)
  qed
qed

text \<open>The preflight tells the outcome.  On a freshly locked target the preflight of an operation never errs: if it
  reports a failure, the execution ends with that failure, marks no session and leaves every table as it
  was; if it reports none, the execution does not end with a failure.\<close>

theorem preflight_is_outcome:
  assumes "prelockForAuthorization env x op v t st = (Inr u, st1)" "\<not> xsBegun st"
  shows "(case preflightLocked env x op st1 of
      Inl er \<Rightarrow> False
    | Inr (Some f) \<Rightarrow> fst (Execute_role env x op t st1) = Some (failure_outcome f, t) \<and> snd (snd (Execute_role env x op t st1)) = []
    | Inr None \<Rightarrow> (case fst (Execute_role env x op t st1) of None \<Rightarrow> True | Some (out, t') \<Rightarrow> toFailure out = None))"
  by (rule preflight_outcome[OF assms])

theorem preflight_is_outcome_witness:
  "preflightLocked sample_env (sample_execution ''h'' sample_deny) (sample_operation ''h'') (fresh_state\<lparr>xsLocked := Some (sample_locked ''h'')\<rparr>) = Inr None"
proof -
  have "\<not> xsBegun fresh_state" by (simp add: fresh_state_def)
  from preflight_is_outcome[OF sample_prelock this, of "''h''" sample_deny] sample_run[of "''h''"]
  show ?thesis
    by (auto simp: failure_outcome_def split: sum.splits option.splits)
qed

text \<open>An execution runs at most once.  Whatever the first run of an execution in a transaction did, and whatever
  the operation, the tables and the environment of a later run, the later run returns no outcome and marks
  no session.\<close>

theorem execution_runs_once:
  assumes "envTransaction env"
  shows "fst (Execute_role env' x op' t' (fst (snd (Execute_role env x op t st)))) = None \<and>
    snd (snd (Execute_role env' x op' t' (fst (snd (Execute_role env x op t st))))) = []"
proof -
  have "xsStarted st2" if "Execute_role env x op t st = (res, st2, marks)" for res st2 marks
    using that assms
    by (auto simp: Execute_role_def Let_def recordAuditFacts_def split: sum.splits option.splits prod.splits if_splits)
  then have "xsStarted (fst (snd (Execute_role env x op t st)))" by (metis prod.collapse)
  moreover have "fst (Execute_role env' x op' t' s) = None \<and> snd (snd (Execute_role env' x op' t' s)) = []" if "xsStarted s" for s
    using that by (simp add: Execute_role_def split: option.split)
  ultimately show ?thesis by blast
qed

theorem execution_runs_once_witness:
  "fst (Execute_role sample_env (sample_execution ''h'' sample_deny) (sample_operation ''h'') sample_tables
     (fst (snd (Execute_role sample_env (sample_execution ''h'' sample_deny) (sample_operation ''h'') sample_tables
       (fresh_state\<lparr>xsLocked := Some (sample_locked ''h'')\<rparr>))))) = None"
proof -
  have "envTransaction sample_env" by (simp add: sample_env_def)
  from execution_runs_once[OF this] show ?thesis by blast
qed

end
