(* ===== verification/Role_Operation.thy ===== *)
theory Role_Operation
  imports Operation_Properties Role_Properties
begin

text \<open>
  The operation service with the role and permission execution as its consumer: what an acknowledged request
  to change a role has done to the operation, the ticket, the tables and the sessions.
\<close>

section \<open>The role consumer\<close>

lemma role_admitD:
  assumes "admit_operation env (role_consumer renv x) (s, m) lo st = (Inr now, c0)"
  obtains v u s1 where "loTicket lo = Some v" "prelockForAuthorization renv x (loOp lo) v (osTables st) s = (Inr u, s1)" "c0 = (s1, m)"
    "isA08RolePermissionAction (acAction (loDescriptor lo)) \<longrightarrow> preflightLocked renv x (loOp lo) s1 = Inr None"
proof -
  obtain target c1 where p: "prelock_target (role_consumer renv x) (s, m) lo (osTables st) = (Inr target, c1)"
    and pre: "c1 = c0" "isA08RolePermissionAction (acAction (loDescriptor lo)) \<Longrightarrow> preflightLocked renv x (loOp lo) (fst c1) = Inr None"
    using assms
    by (auto simp: admit_operation_def Let_def role_consumer_def split: prod.splits sum.splits if_splits option.splits)
  from p obtain v u s1 where v: "loTicket lo = Some v" "prelockForAuthorization renv x (loOp lo) v (osTables st) s = (Inr u, s1)" "c1 = (s1, m)"
    by (auto simp: prelock_target_def role_consumer_def split: option.splits prod.splits sum.splits)
  show thesis by (rule that[OF v(1,2)]) (use pre v(3) in auto)
qed

lemma binding_is_a08: "validBinding x op v \<Longrightarrow> isA08RolePermissionAction (opAction op)"
  by (auto simp: validBinding_def validLocalInvariant_def invariant_action_def isA08RolePermissionAction_def split: option.splits if_splits)

text \<open>An acknowledged execution of the role consumer: the role change on its tables, before the writers.\<close>

lemma role_executionD:
  assumes run: "Execute_operation env oid (role_consumer renv x) audit outbox (s, m) st = (Inr view, oid', c', st')"
    and ok: "ops_ok st" "tables_ok (osTables st)" "\<not> xsBegun s"
  obtains lo :: locked_operation and u o' t1 s1 s2 marks now ev c1 t2 c2 c3 where
    "loOp lo \<in> set (osOps st)" "rID (loOp lo) = oiID oid" "validBinding x (loOp lo) (the (loTicket lo))"
    "prelockForAuthorization renv x (loOp lo) (the (loTicket lo)) (osTables st) s = (Inr u, s1)"
    "Execute_role renv x (loOp lo) (osTables st) s1 = (Some (o', t1), s2, marks)" "toFailure o' = None"
    "audit c1 ev (st\<lparr>osVers := osVers st', osTables := t1\<rparr>) = (Some t2, c2)"
    "outbox c2 ev (st\<lparr>osVers := osVers st', osTables := t2\<rparr>) = (Some (osTables st'), c3)" "c1 = (s2, m @ marks)"
    "osOps st' = map (\<lambda>r. if r = loOp lo then settled_row (rID (loActor lo)) now OperationSucceeded o' r else r) (osOps st)"
    "ticket_consumed (osVers st') (loOp lo)" "validateTerminalOutcomeForAction (opAction (loOp lo)) o'"
    "view = operationView (loDescriptor lo) (settled_row (rID (loActor lo)) now OperationSucceeded o' (loOp lo)) now"
    "isA08RolePermissionAction (acAction (loDescriptor lo))"
proof -
  obtain lease lo c0 now vs c1 cap' where oid': "oid' = oid\<lparr>oiCapability := cap'\<rparr>" and l: "lock_operation env oid' lease st = Inr lo"
    and a: "admit_operation env (role_consumer renv x) (s, m) lo st = (Inr now, c0)"
    and k: "consume_ticket (oeFault env 12) (loTicket lo) (rID (loActor lo)) now (osVers st) = Some vs"
    and set: "settle_operation env (role_consumer renv x) audit outbox c0 lo now (st\<lparr>osVers := vs\<rparr>) = (Inr (view, st'), c1)"
    using Execute_operationD[OF run] by metis
  note lo = lock_operationD[OF l]
  obtain v u s1 where p: "loTicket lo = Some v" "prelockForAuthorization renv x (loOp lo) v (osTables st) s = (Inr u, s1)" "c0 = (s1, m)"
    "isA08RolePermissionAction (acAction (loDescriptor lo)) \<longrightarrow> preflightLocked renv x (loOp lo) s1 = Inr None"
    by (rule role_admitD[OF a])
  have bind: "validBinding x (loOp lo) v" using prelock_binding[OF p(2)] by simp
  have pre: "preflightLocked renv x (loOp lo) s1 = Inr None" using p(4) lo(7) binding_is_a08[OF bind] by simp
  obtain o' t1 c2 t2 c3 t3 where e: "coExecute (role_consumer renv x) c0 (loOp lo) (st\<lparr>osVers := vs\<rparr>) = (Some (o', t1), c2)"
    "validateTerminalOutcomeForAction (acAction (loDescriptor lo)) o'"
    "audit c2 (terminal_event lo now (if toFailure o' = None then OperationSucceeded else OperationFailed) o')
       (st\<lparr>osVers := vs\<rparr>\<lparr>osTables := if toFailure o' = None then t1 else osTables (st\<lparr>osVers := vs\<rparr>)\<rparr>) = (Some t2, c3)"
    "outbox c3 (terminal_event lo now (if toFailure o' = None then OperationSucceeded else OperationFailed) o') (st\<lparr>osVers := vs\<rparr>\<lparr>osTables := t2\<rparr>) = (Some t3, c1)"
    and st': "st' = st\<lparr>osVers := vs\<rparr>\<lparr>osTables := t3, osOps := sql_update (settleable (loOp lo) (loLease lo) (map_option rID (loTicket lo)))
        (settled_row (rID (loActor lo)) now (if toFailure o' = None then OperationSucceeded else OperationFailed) o') (osOps (st\<lparr>osVers := vs\<rparr>))\<rparr>"
    and view: "view = operationView (loDescriptor lo)
      (settled_row (rID (loActor lo)) now (if toFailure o' = None then OperationSucceeded else OperationFailed) o' (loOp lo)) now"
    by (rule settle_operationD[OF set])
  obtain s2 marks where x: "Execute_role renv x (loOp lo) (osTables st) s1 = (Some (o', t1), s2, marks)" "c2 = (s2, m @ marks)"
    using e(1) by (auto simp: role_consumer_def p(3) split: prod.splits)
  have won: "toFailure o' = None" using preflight_outcome[OF p(2) ok(3)] by (simp add: pre x(1))
  have ticket: "ticket_consumed vs (loOp lo)"
    using consume_ticket_tickets[OF k] lo(6) by (auto simp: ticket_consumed_def split: option.split)
  have ops: "osOps st' = map (\<lambda>r. if r = loOp lo then settled_row (rID (loActor lo)) now OperationSucceeded o' r else r) (osOps st)"
    using settled_ops[OF ok(1) l] by (simp add: st' won)
  have tail: "osTables st' = t3" "osVers st' = vs" by (simp_all add: st')
  have key: "rID (loOp lo) = oiID oid" using lo(2) oid' by simp
  show thesis
    by (rule that[OF lo(1) key, of u s1 o' t1 s2 marks c2 _ t2 c3 c1 now])
       (use bind p(1,2) x won e(2-4) ops tail ticket lo(7) view binding_is_a08[OF bind] in simp_all)
qed

section \<open>Sample\<close>

definition execute_env :: op_env where
  "execute_env = \<lparr>oeResolve = ResolveActiveAction, oeCrypto = sample_crypto, oeReserve = None, oeRevoked = (\<lambda>_. Some False),
     oeClock = (\<lambda>_. 45000), oeRandomRef = None, oeRandomLease = None, oeGUID = 1, oeFault = (\<lambda>_. False), oeCommit = CommitOK\<rparr>"

definition role_store :: "bytes \<Rightarrow> op_store" where
  "role_store h = \<lparr>osTables = sample_tables, osOps = [sample_operation h], osVers = [sample_verification h], osNextID = 31\<rparr>"

lemma role_store_ok: "ops_ok (role_store h)"
  by (simp add: ops_ok_def role_store_def sample_operation_def tickets_of_def map_filter_def row_check_defs)

definition sample_lock :: "bytes \<Rightarrow> locked_operation" where
  "sample_lock h = \<lparr>loActor = sample_user_row 1 11 UserRoleRoot 4, loSession = sample_session_row 1 1 (replicate 36 CHR ''s''),
     loOp = sample_operation h, loDescriptor = promote_descriptor, loTicket = Some (sample_verification h), loTarget = Some 77,
     loLease = hex_encode (LeaseOwnerDigest sample_crypto (replicate 32 CHR ''x''))\<rparr>"

lemma promote_facts:
  "ResolveActiveAction ActionUsersPromote = Some promote_descriptor" "validOperationDescriptor (Some promote_descriptor) ActionUsersPromote"
  "acRequiresTicket promote_descriptor" "acAction promote_descriptor = ActionUsersPromote" "acTargetKind promote_descriptor = TargetUser"
  by code_simp+

lemma execute_env_simps [simp]:
  "oeResolve execute_env = ResolveActiveAction" "oeCrypto execute_env = sample_crypto" "oeRevoked execute_env sid = Some False"
  "oeClock execute_env n = 45000" "oeFault execute_env = (\<lambda>_. False)" "oeCommit execute_env = CommitOK"
  by (simp_all add: execute_env_def)

lemma role_store_simps [simp]:
  "osTables (role_store h) = sample_tables" "osOps (role_store h) = [sample_operation h]" "osVers (role_store h) = [sample_verification h]"
  by (simp_all add: role_store_def)

lemma sample_actor:
  "lockOperationActorSession (\<lambda>_. False) sample_tables sample_claims 45000 =
     Inr (sample_user_row 1 11 UserRoleRoot 4, sample_session_row 1 1 (replicate 36 CHR ''s''))"
  by (simp add: lockOperationActorSession_def validOperationActorClaims_def sample_claims_def sample_tables_def sql_first_def sql_find_def
      sample_user_row_def sample_session_row_def validActionActor_def live_at_def)

lemma sample_locks: "lock_operation execute_env fresh_identity (replicate 32 CHR ''x'') (role_store h) = Inr (sample_lock h)"
proof -
  have actor: "lockOperationActorSession (oeFault execute_env) (osTables (role_store h)) (oiActor fresh_identity) (oeClock execute_env 0) =
      Inr (sample_user_row 1 11 UserRoleRoot 4, sample_session_row 1 1 (replicate 36 CHR ''s''))"
    using sample_actor by (simp add: fresh_identity_def)
  show ?thesis
    unfolding lock_operation_def actor
    by (simp add: fresh_identity_def sql_first_def sql_find_def)
       (simp add: sample_operation_def sample_user_row_def sample_session_row_def promote_facts lockOperationVerificationByID_def
          sample_verification_def sql_first_def sql_find_def validOperationVerificationBinding_def sample_lock_def Let_def)
qed

lemma sample_authorized:
  "authorizeExecuteDescriptorWithTarget (\<lambda>i. False) sample_tables (sample_user_row 1 11 UserRoleRoot 4) promote_descriptor (Some 77)
     (Some (sample_user_row 2 77 UserRoleUser 2)) = Inr ()"
  by code_simp

lemma lock_operation_capability: "lock_operation env (oid\<lparr>oiCapability := cap'\<rparr>) lease st = lock_operation env oid lease st"
  by (cases oid) (simp only: lock_operation_def op_identity.update_convs, unfold op_identity.select_convs, rule refl)

lemma sample_admits:
  assumes "h \<noteq> []"
  shows "admit_operation execute_env (role_consumer sample_env (sample_execution h sample_deny)) (fresh_state, []) (sample_lock h) (role_store h) =
    (Inr 45000, (fresh_state\<lparr>xsLocked := Some (sample_locked h)\<rparr>, []))"
proof -
  let ?co = "role_consumer sample_env (sample_execution h sample_deny)" and ?s = "fresh_state\<lparr>xsLocked := Some (sample_locked h)\<rparr>"
  have pre: "prelock_target ?co (fresh_state, []) (sample_lock h) sample_tables = (Inr (Some (sample_user_row 2 77 UserRoleUser 2)), (?s, []))"
    by (simp add: prelock_target_def role_consumer_def) (simp add: sample_lock_def sample_prelock[OF assms])
  have "preflightLocked sample_env (sample_execution h sample_deny) (sample_operation h) ?s = Inr None"
    using preflight_outcome[OF sample_prelock[OF assms], of sample_deny] sample_run[OF assms]
    by (auto simp: fresh_state_def failure_outcome_def split: sum.splits option.splits)
  then have flight: "coPreflight ?co = Some (\<lambda>c op t. preflightLocked sample_env (sample_execution h sample_deny) op (fst c))"
    "preflightLocked sample_env (sample_execution h sample_deny) (loOp (sample_lock h)) ?s = Inr None"
    by (simp_all add: role_consumer_def sample_lock_def)
  have auth: "authorizeExecuteDescriptorWithTarget (\<lambda>i. False) sample_tables (loActor (sample_lock h)) (loDescriptor (sample_lock h))
      (loTarget (sample_lock h)) (Some (sample_user_row 2 77 UserRoleUser 2)) = Inr ()"
    by (simp add: sample_lock_def sample_authorized)
  have times: "sExpiresAt (loSession (sample_lock h)) = 9000000" "opLeaseExpires (loOp (sample_lock h)) = Some 60000"
    "\<exists>v. loTicket (sample_lock h) = Some v \<and> verificationRelationAt v 45000 = TicketActive"
    by (simp_all add: sample_lock_def sample_session_row_def sample_operation_def sample_verification_def verificationRelationAt_def)
  then show ?thesis
    by (auto simp: admit_operation_def pre auth flight validOperationNow_def maxInt64_def actionOperationQueryRetentionMS_def)
qed

lemma sample_settles:
  assumes h: "h \<noteq> []"
  shows "\<exists>view st' c'. settle_operation execute_env (role_consumer sample_env (sample_execution h sample_deny)) quiet_writer quiet_writer
    (fresh_state\<lparr>xsLocked := Some (sample_locked h)\<rparr>, []) (sample_lock h) 45000 ((role_store h)\<lparr>osVers := vs\<rparr>) = (Inr (view, st'), c')"
proof -
  obtain out t' st marks where run: "Execute_role sample_env (sample_execution h sample_deny) (sample_operation h) sample_tables
      (fresh_state\<lparr>xsLocked := Some (sample_locked h)\<rparr>) = (Some (out, t'), st, marks)" "toFailure out = None"
    using sample_run[OF h] by blast
  then have out: "out = success_outcome (sample_locked h) (sample_plan sample_deny)"
    using Execute_result[OF run(1)] sample_planned[OF h] by (auto simp: failure_outcome_def)
  have valid: "validateTerminalOutcomeForAction ActionUsersPromote out" "result_fits ActionUsersPromote OperationSucceeded out"
    by (simp_all add: out validateTerminalOutcomeForAction_def result_fits_def isA08RolePermissionAction_def success_outcome_def sample_plan_def
        sample_locked_def sample_user_row_def maxInt32_def ResultUser_def)
  have lo: "loOp (sample_lock h) = sample_operation h" "loDescriptor (sample_lock h) = promote_descriptor"
    by (simp_all add: sample_lock_def)
  have one: "sql_changed (settleable (sample_operation h) (loLease (sample_lock h)) (map_option rID (loTicket (sample_lock h))))
      (settled_row a 45000 OperationSucceeded out) [sample_operation h] = 1" for a
    by (simp add: sql_changed_def settleable_def) (simp add: sample_lock_def sample_operation_def sample_verification_def settled_row_def)
  show ?thesis
    by (simp add: settle_operation_def role_consumer_def lo run Let_def promote_facts valid quiet_writer_def one maxInt64_def
        actionOperationQueryRetentionMS_def)
qed

lemma sample_executes:
  assumes h: "h \<noteq> []"
  shows "\<exists>view oid' c' st'. Execute_operation execute_env fresh_identity (role_consumer sample_env (sample_execution h sample_deny))
    quiet_writer quiet_writer (fresh_state, []) (role_store h) = (Inr view, oid', c', st')"
proof -
  let ?oid = "fresh_identity\<lparr>oiCapability := Some \<lparr>lcRaw = zero_lease, lcConsumed = True\<rparr>\<rparr>"
  have take: "take_lease (oiCapability fresh_identity) = (Some (replicate 32 CHR ''x''), Some \<lparr>lcRaw = zero_lease, lcConsumed = True\<rparr>)"
    by code_simp
  have id: "validOperationActorClaims (oiActor ?oid)" "length (oiPublicRef ?oid) = 46" "0 < oiID ?oid"
    by (simp_all add: fresh_identity_def validOperationActorClaims_def sample_claims_def)
  have lock: "lock_operation execute_env ?oid (replicate 32 CHR ''x'') (role_store h) = Inr (sample_lock h)"
    using sample_locks[of h] by (simp only: lock_operation_capability)
  have lo: "loTicket (sample_lock h) = Some (sample_verification h)" "rID (loActor (sample_lock h)) = 1"
    by (simp_all add: sample_lock_def sample_user_row_def)
  have ticket: "\<exists>vs. consume_ticket False (Some (sample_verification h)) 1 45000 [sample_verification h] = Some vs"
    by (simp add: consume_ticket_def sql_changed_def consumable_def consumed_row_def) (simp add: sample_verification_def)
  obtain vs where "consume_ticket (oeFault execute_env 12) (loTicket (sample_lock h)) (rID (loActor (sample_lock h))) 45000
      (osVers (role_store h)) = Some vs"
    using ticket lo by auto
  moreover obtain view st' c' where "settle_operation execute_env (role_consumer sample_env (sample_execution h sample_deny)) quiet_writer
      quiet_writer (fresh_state\<lparr>xsLocked := Some (sample_locked h)\<rparr>, []) (sample_lock h) 45000 ((role_store h)\<lparr>osVers := vs\<rparr>) = (Inr (view, st'), c')"
    using sample_settles[OF h] by blast
  ultimately have "execute_tx execute_env ?oid (replicate 32 CHR ''x'') (role_consumer sample_env (sample_execution h sample_deny))
      quiet_writer quiet_writer (fresh_state, []) (role_store h) = (Inr (view, st'), c')"
    by (simp add: execute_tx_def lock sample_admits[OF h])
  then show ?thesis
    using id by (simp add: Execute_operation_def take validOperationNow_def maxInt64_def actionOperationQueryRetentionMS_def)
qed

section \<open>Property\<close>

text \<open>C23: A role change, from the request to the tables.  When the execution of an operation by the role consumer is
  acknowledged, its operation was processing and is now the only one that changed, settled as a success; its
  ticket is consumed; on the tables that the audit and the outbox writer then extended in this order, the
  target alone has the reviewed role and the next auth version, and exactly its live sessions are revoked,
  each marked in Redis; and the caller sees the new role, auth version and the success.\<close>

theorem role_action_end_to_end:
  assumes "Execute_operation env oid (role_consumer renv x) audit outbox (s, m) st = (Inr view, oid', c', st')"
    and "ops_ok st" "tables_ok (osTables st)" "\<not> xsBegun s"
  shows "\<exists>op u o' actor now t1 marks ev c1 t2 c2 c3.
    op \<in> set (osOps st) \<and> rID op = oiID oid \<and>
    osOps st' = map (\<lambda>r. if r = op then settled_row actor now OperationSucceeded o' r else r) (osOps st) \<and>
    ticket_consumed (osVers st') op \<and> u \<in> set (tUsers (osTables st)) \<and> rGUID u = intent_target (exIntent x) \<and>
    tUsers t1 = map (\<lambda>r. if r = u then r\<lparr>uRole := desired_role x, uAuthVersion := uAuthVersion u + 1,
        rUpdatedAt := envNow renv, rUpdatedBy := Some (opActor op)\<rparr> else r) (tUsers (osTables st)) \<and>
    tSessions t1 = map (\<lambda>r. if live_session (rID u) r then r\<lparr>sRevokedAt := Some (envNow renv), sVersion := sVersion r + 1,
        rUpdatedAt := envNow renv, rUpdatedBy := Some (opActor op)\<rparr> else r) (tSessions (osTables st)) \<and>
    set marks = sSID ` {r \<in> set (tSessions (osTables st)). live_session (rID u) r} \<and> snd c1 = m @ marks \<and>
    audit c1 ev (st\<lparr>osVers := osVers st', osTables := t1\<rparr>) = (Some t2, c2) \<and>
    outbox c2 ev (st\<lparr>osVers := osVers st', osTables := t2\<rparr>) = (Some (osTables st'), c3) \<and>
    ovStatus view = AdminOperationState_String OperationSucceeded \<and> ovRole view = Some (desired_role x) \<and>
    ovAuthVersion view = Some (uAuthVersion u + 1)"
proof -
  obtain lo :: locked_operation and u o' t1 s1 s2 marks now ev c1 t2 c2 c3 where op: "loOp lo \<in> set (osOps st)" "rID (loOp lo) = oiID oid"
    and b: "validBinding x (loOp lo) (the (loTicket lo))"
    and p: "prelockForAuthorization renv x (loOp lo) (the (loTicket lo)) (osTables st) s = (Inr u, s1)"
    and e: "Execute_role renv x (loOp lo) (osTables st) s1 = (Some (o', t1), s2, marks)" "toFailure o' = None"
    and w: "audit c1 ev (st\<lparr>osVers := osVers st', osTables := t1\<rparr>) = (Some t2, c2)"
      "outbox c2 ev (st\<lparr>osVers := osVers st', osTables := t2\<rparr>) = (Some (osTables st'), c3)" and c1: "c1 = (s2, m @ marks)"
    and ops: "osOps st' = map (\<lambda>r. if r = loOp lo then settled_row (rID (loActor lo)) now OperationSucceeded o' r else r) (osOps st)"
    and ticket: "ticket_consumed (osVers st') (loOp lo)" and v: "validateTerminalOutcomeForAction (opAction (loOp lo)) o'"
    and view: "view = operationView (loDescriptor lo) (settled_row (rID (loActor lo)) now OperationSucceeded o' (loOp lo)) now"
      "isA08RolePermissionAction (acAction (loDescriptor lo))"
    by (rule role_executionD[OF assms])
  note effect = role_change_effect[OF assms(3) p e]
  have "toRole o' = Some (desired_role x)" "toAuthVersion o' = Some (uAuthVersion u + 1)" using effect by simp_all
  then have shown: "ovStatus view = AdminOperationState_String OperationSucceeded" "ovRole view = Some (desired_role x)"
    "ovAuthVersion view = Some (uAuthVersion u + 1)"
    using view(2) by (simp_all add: view(1) operationView_def settled_row_def Let_def)
  have marked: "snd c1 = m @ marks" by (simp add: c1)
  show ?thesis
    using effect
    by (elim conjE, intro exI[of _ "loOp lo"] exI[of _ u] exI[of _ o'] exI[of _ "rID (loActor lo)"] exI[of _ now] exI[of _ t1]
        exI[of _ marks] exI[of _ ev] exI[of _ c1] exI[of _ t2] exI[of _ c2] exI[of _ c3] conjI op ops ticket w shown marked)
qed

theorem role_action_end_to_end_witness:
  "\<exists>(st' :: op_store) (t1 :: tables) (view :: op_view). map opState (osOps st') = [OperationSucceeded] \<and>
     map uRole (tUsers t1) = [UserRoleRoot, UserRoleAdmin] \<and> ovRole view = Some UserRoleAdmin"
proof -
  let ?x = "sample_execution ''h'' sample_deny"
  obtain view oid' c' st' where run: "Execute_operation execute_env fresh_identity (role_consumer sample_env ?x) quiet_writer quiet_writer
      (fresh_state, []) (role_store ''h'') = (Inr view, oid', c', st')"
    using sample_executes[of "''h''"] by auto
  have role: "desired_role ?x = UserRoleAdmin"
    by (simp add: desired_role_def transitionIntent_def invariant_action_def) (simp add: sample_execution_def no_intent_def)
  have "tables_ok (osTables (role_store ''h''))" "\<not> xsBegun fresh_state" by (simp_all add: sample_tables_ok fresh_state_def)
  from role_action_end_to_end[OF run role_store_ok this, unfolded role] obtain op u o' actor now and t1 :: tables
    where e: "op \<in> set (osOps (role_store ''h''))"
      "osOps st' = map (\<lambda>r. if r = op then settled_row actor now OperationSucceeded o' r else r) (osOps (role_store ''h''))"
      "u \<in> set (tUsers (osTables (role_store ''h'')))" "rGUID u = intent_target (exIntent ?x)"
      "tUsers t1 = map (\<lambda>r. if r = u then r\<lparr>uRole := UserRoleAdmin, uAuthVersion := uAuthVersion u + 1,
        rUpdatedAt := envNow sample_env, rUpdatedBy := Some (opActor op)\<rparr> else r) (tUsers (osTables (role_store ''h'')))"
      "ovRole view = Some UserRoleAdmin"
    by (elim exE conjE) (rule that)
  have "u = sample_user_row 2 77 UserRoleUser 2" using e(3,4) by (auto simp: sample_tables_def) (auto simp: sample_user_row_def)
  then have "map uRole (tUsers t1) = [UserRoleRoot, UserRoleAdmin]"
    by (simp add: e(5) sample_tables_def) (simp add: sample_user_row_def)
  moreover have "map opState (osOps st') = [OperationSucceeded]" using e(1,2) by (simp add: settled_row_def Let_def)
  ultimately show ?thesis using e(6) by (intro exI conjI)
qed

text \<open>The sample also instantiates the general statement on settled operations.\<close>

theorem action_settles_witness:
  "\<exists>(st' :: op_store) (oid' :: op_identity). map (\<lambda>r. opState r = OperationProcessing) (osOps (role_store ''h'')) = [True] \<and>
     map (\<lambda>r. opState r = OperationProcessing) (osOps st') = [False] \<and> ReadyForExecution (oiCapability fresh_identity) \<and>
     \<not> ReadyForExecution (oiCapability oid')"
proof -
  let ?x = "sample_execution ''h'' sample_deny"
  obtain view oid' c' st' where run: "Execute_operation execute_env fresh_identity (role_consumer sample_env ?x) quiet_writer quiet_writer
      (fresh_state, []) (role_store ''h'') = (Inr view, oid', c', st')"
    using sample_executes[of "''h''"] by auto
  from action_settles[OF run role_store_ok] obtain op actor now o' and ev :: action_event
    where e: "op \<in> set (osOps (role_store ''h''))" "opState op = OperationProcessing"
      "aeState ev = (if toFailure o' = None then OperationSucceeded else OperationFailed)"
      "osOps st' = map (\<lambda>r. if r = op then settled_row actor now (aeState ev) o' r else r) (osOps (role_store ''h''))"
      "ReadyForExecution (oiCapability fresh_identity)" "\<not> ReadyForExecution (oiCapability oid')"
    by blast
  have "map (\<lambda>r. opState r = OperationProcessing) (osOps (role_store ''h'')) = [True]" using e(1,2) by simp
  moreover have "map (\<lambda>r. opState r = OperationProcessing) (osOps st') = [False]"
    using e(1,3) by (simp add: e(4) settled_row_def Let_def)
  ultimately show ?thesis using e(5,6) by (intro exI conjI)
qed

end
