(* ===== verification/Begin_Properties.thy ===== *)
theory Begin_Properties
  imports Role_Operation
begin

text \<open>
  What an answered \<open>Begin\<close> guarantees to its caller: one operation per actor, action and idempotency key,
  and the right to execute it for the request that created it only.
\<close>

lemma begin_request_D:
  assumes "begin_request env a = Inr rq"
  obtains raw where "ParseIdempotencyKey (baKeys a) = Inr raw" "brKeyHex rq = hex_encode (IdempotencyDigest (oeCrypto env) raw)"
    "acAction (brDescriptor rq) = baAction a"
  using assms
  by (auto simp: begin_request_def Let_def validOperationDescriptor_def split: if_splits sum.splits option.splits)

lemma locked_actor_id:
  "lockOperationActorSession fault t a now = Inr (actor, session) \<Longrightarrow> rID actor = clUser a"
  by (auto simp: lockOperationActorSession_def split: if_splits option.splits list.splits dest!: sql_firstD)

lemma begin_existingD:
  assumes "begin_existing env a rq st actor session now op = Inr (BeginView oid view, st')"
  shows "st' = st \<and> oiID oid = rID op \<and> oiPublicRef oid = opPublicRef op \<and> oiCapability oid = None"
  using assms
  by (auto simp: begin_existing_def Let_def split: if_splits sum.splits option.splits)

lemma Begin_operationD:
  assumes "Begin_operation env a st = (Inr (oid, view), st')"
  obtains rq where "begin_request env a = Inr rq" "begin_tx env a rq st = Inr (BeginView oid view, st')"
  using assms
  by (auto simp: Begin_operation_def run_tx_def split: sum.splits option.splits if_splits prod.splits commit_result.splits
      operation_error.splits begin_result.splits)

lemma one_in_scope:
  assumes "ops_ok st" "op \<in> set (osOps st)" "same_scope actor action key op"
  shows "filter (same_scope actor action key) (osOps st) = [op]"
proof -
  have dist: "distinct (map row_scope (osOps st))" using assms(1) by (simp add: ops_ok_def)
  have same: "r = op" if "r \<in> set (osOps st)" "same_scope actor action key r" for r
    using distinct_keyD[OF dist that(1) assms(2)] that(2) assms(3) by (simp add: same_scope_def row_scope_def)
  have "distinct (osOps st)" using dist by (rule distinct_map[THEN iffD1, THEN conjunct1])
  let ?found = "filter (same_scope actor action key) (osOps st)"
  have d: "distinct ?found" using \<open>distinct (osOps st)\<close> by (rule distinct_filter)
  have s: "set ?found = {op}" 
    by (intro equalityI subsetI) (use assms(2,3) in \<open>simp_all add: same\<close>)
  have "length ?found = 1" using distinct_card[OF d] unfolding s by simp
  then obtain r where r: "?found = [r]" by (auto simp: length_Suc_conv)
  show ?thesis using s unfolding r by simp
qed

section \<open>Sample\<close>

text \<open>Root creates a user: an action without a ticket.\<close>

definition create_descriptor :: descriptor where
  "create_descriptor = the (ResolveActiveAction ActionUsersCreate)"

definition begin_env :: op_env where
  "begin_env = execute_env\<lparr>oeRandomRef := Some (replicate 32 CHR ''r''), oeRandomLease := Some (replicate 32 CHR ''x'')\<rparr>"

definition sample_create :: create_intent where
  "sample_create = \<lparr>ciUsername = ''alice'', ciNickname = None, ciPassword = ''long enough password'', ciRole = ''user'', ciGroupGUID = None,
     ciPlanType = 1, ciModels = [''m''], ciDailyLimit = 10, ciOverrides = []\<rparr>"

definition sample_begin :: begin_args where
  "sample_begin = \<lparr>baAction = ActionUsersCreate, baActor = sample_claims, baKeys = [''ik_'' @ b64_encode (replicate 32 CHR ''k'')],
     baTickets = [], baIntent = CreateAccount sample_create\<rparr>"

definition begin_store :: op_store where
  "begin_store = \<lparr>osTables = sample_tables, osOps = [], osVers = [], osNextID = 30\<rparr>"

lemma begin_env_simps [simp]:
  "oeResolve begin_env = ResolveActiveAction" "oeCrypto begin_env = sample_crypto" "oeRevoked begin_env sid = Some False"
  "oeClock begin_env n = 45000" "oeFault begin_env n = False" "oeFault begin_env = (\<lambda>_. False)" "oeCommit begin_env = CommitOK"
  "oeReserve begin_env = None" "oeGUID begin_env = 1" "oeRandomRef begin_env = Some (replicate 32 CHR ''r'')"
  "oeRandomLease begin_env = Some (replicate 32 CHR ''x'')"
  by (simp_all add: begin_env_def execute_env_def)

lemma create_facts:
  "ResolveActiveAction ActionUsersCreate = Some create_descriptor" "validOperationDescriptor (Some create_descriptor) ActionUsersCreate"
  "\<not> acRequiresTicket create_descriptor" "acAction create_descriptor = ActionUsersCreate" "acTargetKind create_descriptor = TargetNone"
  "\<not> isl (run_encoder (the (acEncode create_descriptor)) (CreateAccount sample_create))"
  "\<not> isl (ParseIdempotencyKey (baKeys sample_begin))" "validOperationActorClaims sample_claims"
  "replicate 32 CHR ''x'' \<noteq> zero_lease"
  by code_simp+

lemma create_authorized:
  "authorizeOperationDescriptor (\<lambda>i. False) sample_tables (sample_user_row 1 11 UserRoleRoot 4) create_descriptor None = Inr ()"
  by code_simp

lemma sample_request:
  obtains rq where "begin_request begin_env sample_begin = Inr rq" "brDescriptor rq = create_descriptor" "brTicketHex rq = []" "brTarget rq = None"
proof -
  obtain e raw where "run_encoder (the (acEncode create_descriptor)) (CreateAccount sample_create) = Inr e"
    "ParseIdempotencyKey (baKeys sample_begin) = Inr raw"
    using create_facts(6,7) by (metis isl_def sum.exhaust)
  then show thesis using create_facts
    by (intro that[of "the (case begin_request begin_env sample_begin of Inr rq \<Rightarrow> Some rq | Inl er \<Rightarrow> None)"])
       (simp_all add: begin_request_def sample_begin_def Let_def parseOperationTicket_def operationIntentTargetGUID_def)
qed

lemma sample_begins: "\<exists>oid view st'. Begin_operation begin_env sample_begin begin_store = (Inr (oid, view), st')"
proof -
  obtain rq where rq: "begin_request begin_env sample_begin = Inr rq" "brDescriptor rq = create_descriptor" "brTicketHex rq = []" "brTarget rq = None"
    by (rule sample_request)
  let ?actor = "sample_user_row 1 11 UserRoleRoot 4" and ?session = "sample_session_row 1 1 (replicate 36 CHR ''s'')"
  obtain op st where ins: "begin_insert begin_env rq begin_store ?actor ?session 45000 = Some (op, replicate 32 CHR ''x'', st)"
    and op: "st = begin_store\<lparr>osOps := [op], osNextID := 31\<rparr>" "rID op = 30" "opState op = OperationProcessing" "rDeleted op = 0"
      "opVerification op = None" "rUpdatedAt op = 45000"
    by (simp add: begin_insert_def NewPublicRef_def readRandom_def and_then_def insert_operation_def begin_store_def rq(2) Let_def)
  have ver: "lockOperationBeginVerification False (osVers st) create_descriptor [] ?actor ?session h None (opVerification op) False = Inr None" for h
    using create_facts(3) by (simp add: lockOperationBeginVerification_def op)
  have "begin_stamp begin_env create_descriptor ?actor op None 45000 st \<noteq> Inl er" for er
    using create_facts(3)
    by (auto simp: begin_stamp_def Let_def sql_changed_def begin_current_def op lockedTicketlessBeginNoopMatches_def sql_update_def stamped_row_def)
  then obtain op2 st2 where stamp: "begin_stamp begin_env create_descriptor ?actor op None 45000 st = Inr (op2, st2)"
    by (metis prod.exhaust sum.exhaust)
  have "osTables st = sample_tables" by (simp add: op begin_store_def)
  then have "\<exists>oid view. begin_new begin_env sample_begin rq begin_store ?actor ?session 45000 = Inr (BeginView oid view, st2)"
    using create_facts(3,9) by (simp add: begin_new_def Let_def rq ins ver create_authorized stamp newOperationLeaseCapability_def)
       (simp add: sample_session_row_def validOperationNow_def maxInt64_def actionOperationQueryRetentionMS_def)
  then have "\<exists>oid view. begin_tx begin_env sample_begin rq begin_store = Inr (BeginView oid view, st2)"
    using sample_actor by (simp add: begin_tx_def Let_def begin_store_def sample_begin_def sql_first_def sql_find_def)
  then show ?thesis
    by (auto simp: Begin_operation_def rq(1) run_tx_def validOperationNow_def maxInt64_def actionOperationQueryRetentionMS_def)
qed

section \<open>Property\<close>

text \<open>C24: Begin is idempotent.  After a call that returns an identity, exactly one operation is bound to the caller, the
  action and the idempotency key, and the identity names it.  If there was none before, it is the only change
  of the store, it is processing, and the identity may execute it; if there was one, the store is what it was
  and the identity may not execute anything.\<close>

theorem begin_is_idempotent:
  assumes "Begin_operation env a st = (Inr (oid, view), st')" "ops_ok st"
  shows "\<exists>raw key op. ParseIdempotencyKey (baKeys a) = Inr raw \<and> key = hex_encode (IdempotencyDigest (oeCrypto env) raw) \<and>
    filter (same_scope (clUser (baActor a)) (baAction a) key) (osOps st') = [op] \<and> rID op = oiID oid \<and> opPublicRef op = oiPublicRef oid \<and>
    (if filter (same_scope (clUser (baActor a)) (baAction a) key) (osOps st) = []
     then opState op = OperationProcessing \<and> st' = st\<lparr>osOps := osOps st @ [op], osNextID := osNextID st + 1\<rparr> \<and>
       ReadyForExecution (oiCapability oid)
     else st' = st \<and> \<not> ReadyForExecution (oiCapability oid))"
proof -
  obtain rq where rq: "begin_request env a = Inr rq" and tx: "begin_tx env a rq st = Inr (BeginView oid view, st')"
    by (rule Begin_operationD[OF assms(1)])
  obtain raw where raw: "ParseIdempotencyKey (baKeys a) = Inr raw" "brKeyHex rq = hex_encode (IdempotencyDigest (oeCrypto env) raw)"
    and action: "acAction (brDescriptor rq) = baAction a"
    by (rule begin_request_D[OF rq])
  obtain actor session where lock: "lockOperationActorSession (oeFault env) (osTables st) (baActor a) (oeClock env 0) = Inr (actor, session)"
    using tx by (auto simp: begin_tx_def Let_def split: sum.splits)
  note uid = locked_actor_id[OF lock]
  let ?in = "same_scope (clUser (baActor a)) (baAction a) (brKeyHex rq)"
  have found: "(case sql_first ?in (osOps st) of Some op \<Rightarrow> begin_existing env a rq st actor session (oeClock env 0) op
      | None \<Rightarrow> begin_new env a rq st actor session (oeClock env 0)) = Inr (BeginView oid view, st')"
    using tx lock uid action by (simp add: begin_tx_def Let_def split: if_splits)
  show ?thesis
  proof (cases "sql_first ?in (osOps st)")
    case (Some op)
    then have ex: "begin_existing env a rq st actor session (oeClock env 0) op = Inr (BeginView oid view, st')"
      using found by (simp only: option.case)
    have "op \<in> set (osOps st)" "?in op" using sql_firstD[OF Some] by auto
    from one_in_scope[OF assms(2) this] begin_existingD[OF ex] raw show ?thesis
      by (auto simp: ReadyForExecution_def)
  next
    case None
    then have new: "begin_new env a rq st actor session (oeClock env 0) = Inr (BeginView oid view, st')"
      using found by (simp only: option.case)
    obtain ref lease vid finalNow where n: "lease \<noteq> zero_lease"
      "st' = st\<lparr>osOps := osOps st @ [begun_row env rq (osNextID st) actor session ref lease vid finalNow], osNextID := osNextID st + 1\<rparr>"
      "BeginView oid view = BeginView \<lparr>oiID = osNextID st, oiPublicRef = ref, oiActor = baActor a, oiCapability = Some \<lparr>lcRaw = lease, lcConsumed = False\<rparr>\<rparr>
         (operationView (brDescriptor rq) (begun_row env rq (osNextID st) actor session ref lease vid finalNow) finalNow)"
      "\<forall>r \<in> set (osOps st). \<not> same_scope (rID actor) (acAction (brDescriptor rq)) (brKeyHex rq) r"
      by (rule begin_newD[OF new assms(2)]) blast
    have none: "filter ?in (osOps st) = []" using n(4) uid action by (simp add: filter_empty_conv)
    let ?row = "begun_row env rq (osNextID st) actor session ref lease vid finalNow"
    have "?in ?row" "rID ?row = oiID oid" "opPublicRef ?row = oiPublicRef oid" "opState ?row = OperationProcessing"
      using n(3) uid action by (simp_all add: begun_row_def same_scope_def)
    moreover have "ReadyForExecution (oiCapability oid)" using n(1,3) by (simp add: ReadyForExecution_def)
    ultimately show ?thesis using raw none n(2)
      by (intro exI[of _ raw] exI[of _ "brKeyHex rq"] exI[of _ ?row]) simp
  qed
qed

theorem begin_is_idempotent_witness:
  "\<exists>(oid :: op_identity) (st' :: op_store). map opState (osOps st') = [OperationProcessing] \<and> ReadyForExecution (oiCapability oid)"
proof -
  obtain oid view st' where run: "Begin_operation begin_env sample_begin begin_store = (Inr (oid, view), st')"
    using sample_begins by blast
  have "ops_ok begin_store" by (simp add: ops_ok_def begin_store_def tickets_of_def map_filter_def)
  moreover have "osOps begin_store = []" by (simp add: begin_store_def)
  ultimately have "map opState (osOps st') = [OperationProcessing] \<and> ReadyForExecution (oiCapability oid)"
    using begin_is_idempotent[OF run] by (auto simp: begin_store_def)
  then show ?thesis by (intro exI)
qed

end
