(* ===== verification/Auth_Base.thy ===== *)
theory Auth_Base
  imports Generation_Store Operation_Begin
begin

text \<open>
  The frame of the authentication services (\<open>service/auth.go\<close>, \<open>auth_session.go\<close>, \<open>auth_redis.go\<close>,
  \<open>auth_account.go\<close>): their state is the tables and Redis; an operation is a function from the state to a result
  and a state.  The environment answers each clock read, each new identifier, each read of the random source,
  each Redis command and each SQL statement; the state counts how many of each were made.
\<close>

section \<open>State and environment\<close>

datatype auth_error =
    BadRequest | Unauthorized | Forbidden | NotFound | Conflict | Unprocessable | TooMany | Unavailable | Internal

record settings =
  stSessionDays :: int
  stSessionMaxActive :: int
  stSessionIssueLimit :: int
  stRefreshReplaySeconds :: int
  stAuthHMACKey :: bytes
  stRegisterEnabled :: bool
  stPasswordRegister :: bool
  stPasswordLogin :: bool
  stAccessMinutes :: int
  stJWTMinutes :: int
  stRootUsername :: bytes
  stRootPassword :: bytes

text \<open>Argon2, AES-GCM and \<open>cjson\<close> are third-party code: parameters of the model.\<close>

record auth_env =
  aeNow :: "nat \<Rightarrow> int"
  aeGUID :: "nat \<Rightarrow> int"
  aeRandom :: "nat \<Rightarrow> bytes option"
  aeNet :: "nat \<Rightarrow> net"
  aeSQL :: "nat \<Rightarrow> bool"
  aeCommit :: commit_result
  aeSettings :: settings
  aeArgon :: "bytes \<Rightarrow> bytes \<Rightarrow> bytes"
  aeSeal :: "bytes \<Rightarrow> bytes \<Rightarrow> bytes \<Rightarrow> bytes"
  aeOpen :: "bytes \<Rightarrow> bytes \<Rightarrow> bytes \<Rightarrow> bytes option"
  aeCjson :: cjson

record auth_work =
  awTables :: tables
  awRedis :: redis
  awNow :: nat
  awGUID :: nat
  awRandom :: nat
  awCommands :: nat
  awStatements :: nat

type_synonym 'a act = "auth_work \<Rightarrow> (auth_error + 'a) \<times> auth_work"

definition ok :: "'a \<Rightarrow> 'a act" where
  "ok a w = (Inr a, w)"

definition fail_with :: "auth_error \<Rightarrow> 'a act" where
  "fail_with er w = (Inl er, w)"

definition seq :: "'a act \<Rightarrow> ('a \<Rightarrow> 'b act) \<Rightarrow> 'b act" where
  "seq m f w = (case m w of (Inl er, w') \<Rightarrow> (Inl er, w') | (Inr a, w') \<Rightarrow> f a w')"

text \<open>Replacing the error of a step.\<close>

definition or_error :: "'a act \<Rightarrow> auth_error \<Rightarrow> 'a act" where
  "or_error m er w = (case m w of (Inl _, w') \<Rightarrow> (Inl er, w') | (Inr a, w') \<Rightarrow> (Inr a, w'))"

definition check :: "bool \<Rightarrow> auth_error \<Rightarrow> unit act" where
  "check b er = (if b then ok () else fail_with er)"

definition from_option :: "'a option \<Rightarrow> auth_error \<Rightarrow> 'a act" where
  "from_option x er = (case x of None \<Rightarrow> fail_with er | Some a \<Rightarrow> ok a)"

text \<open>A loop over a list: the first error ends it.\<close>

fun each :: "('a \<Rightarrow> unit act) \<Rightarrow> 'a list \<Rightarrow> unit act" where
  "each f [] = ok ()"
| "each f (x # xs) = seq (f x) (\<lambda>_. each f xs)"

section \<open>Primitives\<close>

definition clock_now :: "auth_env \<Rightarrow> int act" where
  "clock_now env w = (Inr (aeNow env (awNow w)), w\<lparr>awNow := awNow w + 1\<rparr>)"

definition new_guid :: "auth_env \<Rightarrow> int act" where
  "new_guid env w = (Inr (aeGUID env (awGUID w)), w\<lparr>awGUID := awGUID w + 1\<rparr>)"

definition read_random :: "auth_env \<Rightarrow> nat \<Rightarrow> bytes act" where
  "read_random env n w =
     ((case aeRandom env (awRandom w) of
         None \<Rightarrow> Inl Internal
       | Some stream \<Rightarrow> if length stream < n then Inl Internal else Inr (take n stream)),
      w\<lparr>awRandom := awRandom w + 1\<rparr>)"

definition redis_command :: "auth_env \<Rightarrow> (redis \<Rightarrow> 'a \<times> redis) \<Rightarrow> 'a act" where
  "redis_command env f w =
     (let w' = w\<lparr>awCommands := awCommands w + 1\<rparr>; (a, r) = f (awRedis w) in
      case aeNet env (awCommands w) of
        NetOk \<Rightarrow> (Inr a, w'\<lparr>awRedis := r\<rparr>)
      | NetLostRequest \<Rightarrow> (Inl Internal, w')
      | NetLostReply \<Rightarrow> (Inl Internal, w'\<lparr>awRedis := r\<rparr>))"

definition sql_read :: "auth_env \<Rightarrow> (tables \<Rightarrow> 'a) \<Rightarrow> 'a act" where
  "sql_read env f w =
     (let w' = w\<lparr>awStatements := awStatements w + 1\<rparr> in
      if aeSQL env (awStatements w) then (Inl Internal, w') else (Inr (f (awTables w)), w'))"

text \<open>A write fails also when it breaks a unique index; an insert returns the row with its key.\<close>

definition sql_insert :: "auth_env \<Rightarrow> (tables \<Rightarrow> ('a \<times> tables) option) \<Rightarrow> 'a act" where
  "sql_insert env f w =
     (let w' = w\<lparr>awStatements := awStatements w + 1\<rparr> in
      if aeSQL env (awStatements w) then (Inl Internal, w')
      else case f (awTables w) of None \<Rightarrow> (Inl Internal, w') | Some (a, t) \<Rightarrow> (Inr a, w'\<lparr>awTables := t\<rparr>))"

definition sql_write :: "auth_env \<Rightarrow> (tables \<Rightarrow> tables option) \<Rightarrow> unit act" where
  "sql_write env f = sql_insert env (\<lambda>t. map_option (\<lambda>t. ((), t)) (f t))"

definition transaction :: "auth_env \<Rightarrow> 'a act \<Rightarrow> 'a act" where
  "transaction env m w =
     (case m w of
        (Inl er, w') \<Rightarrow> (Inl er, w'\<lparr>awTables := awTables w\<rparr>)
      | (Inr a, w') \<Rightarrow>
          (case aeCommit env of
             CommitOK \<Rightarrow> (Inr a, w')
           | CommitLost \<Rightarrow> (Inl Internal, w'\<lparr>awTables := awTables w\<rparr>)
           | CommitUnacknowledged \<Rightarrow> (Inl Internal, w')))"

section \<open>Reading a successful run\<close>

named_theorems act_simps \<open>what a successful step did\<close>

lemma seq_Inr [act_simps]:
  "seq m f w = (Inr b, w2) \<longleftrightarrow> (\<exists>a w1. m w = (Inr a, w1) \<and> f a w1 = (Inr b, w2))"
  by (auto simp: seq_def split: prod.splits sum.splits)

lemma ok_Inr [act_simps]: "ok a w = (Inr b, w2) \<longleftrightarrow> b = a \<and> w2 = w"
  by (auto simp: ok_def)

lemma fail_Inr [act_simps]: "fail_with er w = (Inr b, w2) \<longleftrightarrow> False"
  by (simp add: fail_with_def)

lemma or_error_Inr [act_simps]: "or_error m er w = (Inr b, w2) \<longleftrightarrow> m w = (Inr b, w2)"
  by (auto simp: or_error_def split: prod.splits sum.splits)

lemma check_Inr [act_simps]: "check b er w = (Inr u, w2) \<longleftrightarrow> b \<and> w2 = w"
  by (auto simp: check_def ok_def fail_with_def)

lemma from_option_Inr [act_simps]: "from_option x er w = (Inr a, w2) \<longleftrightarrow> x = Some a \<and> w2 = w"
  by (auto simp: from_option_def ok_def fail_with_def split: option.split)

lemma clock_now_Inr [act_simps]: "clock_now env w = (Inr n, w2) \<longleftrightarrow> n = aeNow env (awNow w) \<and> w2 = w\<lparr>awNow := awNow w + 1\<rparr>"
  by (auto simp: clock_now_def)

lemma new_guid_Inr [act_simps]: "new_guid env w = (Inr g, w2) \<longleftrightarrow> g = aeGUID env (awGUID w) \<and> w2 = w\<lparr>awGUID := awGUID w + 1\<rparr>"
  by (auto simp: new_guid_def)

lemma read_random_Inr [act_simps]:
  "read_random env n w = (Inr s, w2) \<longleftrightarrow>
     (\<exists>stream. aeRandom env (awRandom w) = Some stream \<and> n \<le> length stream \<and> s = take n stream) \<and> w2 = w\<lparr>awRandom := awRandom w + 1\<rparr>"
  by (auto simp: read_random_def split: option.splits)

lemma redis_command_Inr [act_simps]:
  "redis_command env f w = (Inr a, w2) \<longleftrightarrow>
     aeNet env (awCommands w) = NetOk \<and> a = fst (f (awRedis w)) \<and> w2 = w\<lparr>awCommands := awCommands w + 1, awRedis := snd (f (awRedis w))\<rparr>"
  by (auto simp: redis_command_def Let_def split: prod.splits net.splits)

lemma sql_read_Inr [act_simps]:
  "sql_read env f w = (Inr a, w2) \<longleftrightarrow>
     \<not> aeSQL env (awStatements w) \<and> a = f (awTables w) \<and> w2 = w\<lparr>awStatements := awStatements w + 1\<rparr>"
  by (auto simp: sql_read_def Let_def)

lemma sql_insert_Inr [act_simps]:
  "sql_insert env f w = (Inr a, w2) \<longleftrightarrow>
     (\<exists>t. \<not> aeSQL env (awStatements w) \<and> f (awTables w) = Some (a, t) \<and> w2 = w\<lparr>awStatements := awStatements w + 1, awTables := t\<rparr>)"
  by (auto simp: sql_insert_def Let_def split: option.splits)

lemma sql_write_Inr [act_simps]:
  "sql_write env f w = (Inr u, w2) \<longleftrightarrow>
     (\<exists>t. \<not> aeSQL env (awStatements w) \<and> f (awTables w) = Some t \<and> w2 = w\<lparr>awStatements := awStatements w + 1, awTables := t\<rparr>)"
  by (auto simp: sql_write_def sql_insert_Inr)

lemma transaction_Inr [act_simps]: "transaction env m w = (Inr a, w2) \<longleftrightarrow> m w = (Inr a, w2) \<and> aeCommit env = CommitOK"
  by (auto simp: transaction_def split: prod.splits sum.splits commit_result.splits)

section \<open>What every run keeps\<close>

text \<open>A relation between the states before and after, whatever the result, kept by every step of an operation.\<close>

definition keeps :: "(auth_work \<Rightarrow> auth_work \<Rightarrow> bool) \<Rightarrow> 'a act \<Rightarrow> bool" where
  "keeps R m \<longleftrightarrow> (\<forall>w. R w (snd (m w)))"

text \<open>A property of the relation that lets it follow the steps of a run: a preorder on states that a rollback keeps.\<close>

locale step_order =
  fixes R :: "auth_work \<Rightarrow> auth_work \<Rightarrow> bool"
  assumes same_state: "awTables w' = awTables w \<Longrightarrow> awRedis w' = awRedis w \<Longrightarrow> R w w'"
    and next_step: "R w1 w2 \<Longrightarrow> R w2 w3 \<Longrightarrow> R w1 w3"
    and rollback: "R w w' \<Longrightarrow> R w (w'\<lparr>awTables := awTables w\<rparr>)"
begin

lemma keeps_ok [simp]: "keeps R (ok a)"
  by (simp add: keeps_def ok_def same_state)

lemma keeps_fail [simp]: "keeps R (fail_with er)"
  by (simp add: keeps_def fail_with_def same_state)

lemma keeps_check [simp]: "keeps R (check b er)"
  by (simp add: check_def)

lemma keeps_from_option [simp]: "keeps R (from_option x er)"
  by (simp add: from_option_def split: option.split)

lemma keeps_or_error [simp]: "keeps R m \<Longrightarrow> keeps R (or_error m er)"
  by (simp add: keeps_def or_error_def split: prod.split sum.split) (metis snd_conv)

lemma keeps_seq:
  assumes m: "keeps R m" and f: "\<And>a. keeps R (f a)"
  shows "keeps R (seq m f)"
  unfolding keeps_def
proof
  fix w
  obtain res w1 where mw: "m w = (res, w1)" by (cases "m w")
  have "R w w1" using m mw unfolding keeps_def by (metis snd_conv)
  moreover have "R w1 (snd (f a w1))" for a using f unfolding keeps_def by blast
  ultimately show "R w (snd (seq m f w))" using next_step by (cases res) (auto simp: seq_def mw)
qed

lemma keeps_each: "(\<And>x. x \<in> set xs \<Longrightarrow> keeps R (f x)) \<Longrightarrow> keeps R (each f xs)"
  by (induction xs) (auto intro: keeps_seq)

lemma keeps_clock [simp]: "keeps R (clock_now env)"
  by (simp add: keeps_def clock_now_def same_state)

lemma keeps_guid [simp]: "keeps R (new_guid env)"
  by (simp add: keeps_def new_guid_def same_state)

lemma keeps_random [simp]: "keeps R (read_random env n)"
  by (simp add: keeps_def read_random_def same_state)

lemma keeps_read [simp]: "keeps R (sql_read env f)"
  by (simp add: keeps_def sql_read_def Let_def same_state)

lemma keeps_transaction:
  assumes "keeps R m"
  shows "keeps R (transaction env m)"
  unfolding keeps_def
proof
  fix w
  obtain res w1 where mw: "m w = (res, w1)" by (cases "m w")
  have "R w w1" using assms mw unfolding keeps_def by (metis snd_conv)
  then show "R w (snd (transaction env m w))"
    using rollback by (auto simp: transaction_def mw split: sum.split commit_result.split)
qed

text \<open>What is left to show for an operation: its commands and its writes.\<close>

lemma keeps_command:
  assumes "\<And>w. R w (w\<lparr>awRedis := snd (f (awRedis w))\<rparr>)"
  shows "keeps R (redis_command env f)"
proof -
  have "R w (w\<lparr>awCommands := n, awRedis := snd (f (awRedis w))\<rparr>)" for w n
    using next_step[OF assms[of w] same_state] by simp
  then show ?thesis by (auto simp: keeps_def redis_command_def Let_def same_state case_prod_beta split: net.split)
qed

lemma keeps_insert:
  assumes "\<And>w a t. f (awTables w) = Some (a, t) \<Longrightarrow> R w (w\<lparr>awTables := t\<rparr>)"
  shows "keeps R (sql_insert env f)"
proof -
  have "f (awTables w) = Some (a, t) \<Longrightarrow> R w (w\<lparr>awStatements := n, awTables := t\<rparr>)" for w n a t
    using next_step[OF assms[of w] same_state] by simp
  then show ?thesis by (auto simp: keeps_def sql_insert_def Let_def same_state split: option.split)
qed

lemma keeps_write:
  assumes "\<And>w t. f (awTables w) = Some t \<Longrightarrow> R w (w\<lparr>awTables := t\<rparr>)"
  shows "keeps R (sql_write env f)"
  unfolding sql_write_def by (intro keeps_insert) (auto intro: assms)

end

end
