(* ===== verification/Auth_Redis.thy ===== *)
theory Auth_Redis
  imports Auth_Base
begin

text \<open>
  The Redis side of authentication (\<open>service/auth_redis.go\<close>): login failure counters and locks, the
  issuance counter, the denial barriers of revoked sessions, and the encrypted result of a refresh rotation.
  Durations are milliseconds below 2 ^ 53, so that a \<open>time.Duration\<close> holds them.
\<close>

section \<open>Commands\<close>

definition redis_del :: "bytes list \<Rightarrow> redis \<Rightarrow> redis" where
  "redis_del ks r = r\<lparr>rStore := (\<lambda>k. if k \<in> set ks then None else rStore r k)\<rparr>"

text \<open>\<open>INCR\<close> keeps the deadline of the key, and has none of its own.\<close>

definition redis_incr :: "bytes \<Rightarrow> redis \<Rightarrow> int option \<times> redis" where
  "redis_incr k r =
     (case redis_get r k of
        None \<Rightarrow> (Some 1, r\<lparr>rStore := (rStore r)(k \<mapsto> (format_int 1, None))\<rparr>)
      | Some v \<Rightarrow>
          (case parse_int64 v of
             None \<Rightarrow> (None, r)
           | Some n \<Rightarrow>
               if n = maxInt64 then (None, r)
               else (Some (n + 1), redis_set_keepttl k (format_int (n + 1)) r)))"

definition redis_expire :: "bytes \<Rightarrow> int \<Rightarrow> redis \<Rightarrow> redis" where
  "redis_expire k ttl r =
     (case redis_get r k of None \<Rightarrow> r | Some v \<Rightarrow> r\<lparr>rStore := (rStore r)(k \<mapsto> (v, Some (rClock r + ttl)))\<rparr>)"

section \<open>Keys\<close>

definition authRedisPrefix :: bytes where "authRedisPrefix = ''porsche:auth:v1:''"
definition loginFailureLimit :: int where "loginFailureLimit = 5"
definition loginFailureWindow :: int where "loginFailureWindow = 30000"

definition day_ms :: int where "day_ms = 86400000"

definition hashedRedisKey :: "bytes \<Rightarrow> bytes" where
  "hashedRedisKey v = hex_encode (sha256 (trim_space v))"

definition failureKey :: "bytes \<Rightarrow> bytes \<Rightarrow> bytes" where
  "failureKey kind v = authRedisPrefix @ ''login:failure:'' @ kind @ '':'' @ hashedRedisKey v"

definition loginKey :: "bytes \<Rightarrow> bytes \<Rightarrow> bytes" where
  "loginKey kind v = authRedisPrefix @ ''login:lock:'' @ kind @ '':'' @ hashedRedisKey v"

definition issueKey :: "int \<Rightarrow> bytes" where
  "issueKey uid = authRedisPrefix @ ''session:issue:'' @ format_int uid"

definition rotationKey :: "bytes \<Rightarrow> bytes" where
  "rotationKey sid = authRedisPrefix @ ''rotation:'' @ hashedRedisKey sid"

definition pendingRotationKey :: "bytes \<Rightarrow> bytes" where
  "pendingRotationKey sid = authRedisPrefix @ ''rotation:pending:'' @ hashedRedisKey sid"

definition revokedKey :: "bytes \<Rightarrow> bytes" where
  "revokedKey sid = authRedisPrefix @ ''session:revoked:'' @ hashedRedisKey sid"

section \<open>Login failures\<close>

definition CheckAvailable :: "auth_env \<Rightarrow> unit act" where
  "CheckAvailable env = redis_command env (\<lambda>r. ((), r))"

definition CheckLoginAllowed :: "auth_env \<Rightarrow> bytes \<Rightarrow> bytes \<Rightarrow> unit act" where
  "CheckLoginAllowed env username ip =
     seq (redis_command env (\<lambda>r. (map (redis_get r) [loginKey ''account'' username, loginKey ''ip'' ip], r))) (\<lambda>values.
     check (list_all (\<lambda>v. v = None) values) TooMany)"

definition record_failure :: "auth_env \<Rightarrow> bytes \<Rightarrow> bytes \<Rightarrow> unit act" where
  "record_failure env kind v =
     (let key = failureKey kind v in
      seq (redis_command env (redis_incr key)) (\<lambda>reply.
      seq (from_option reply Internal) (\<lambda>n.
      seq (if n = 1 then redis_command env (\<lambda>r. ((), redis_expire key loginFailureWindow r)) else ok ()) (\<lambda>_.
      if loginFailureLimit \<le> n then redis_command env (\<lambda>r. ((), redis_set_px (loginKey kind v) ''1'' loginFailureWindow r)) else ok ()))))"

definition RecordLoginFailure :: "auth_env \<Rightarrow> bytes \<Rightarrow> bytes \<Rightarrow> unit act" where
  "RecordLoginFailure env username ip = each (\<lambda>(kind, v). record_failure env kind v) [(''account'', username), (''ip'', ip)]"

definition ClearLoginFailures :: "auth_env \<Rightarrow> bytes \<Rightarrow> bytes \<Rightarrow> unit act" where
  "ClearLoginFailures env username ip =
     redis_command env (\<lambda>r. ((), redis_del [failureKey ''account'' username, failureKey ''ip'' ip, loginKey ''account'' username,
       loginKey ''ip'' ip] r))"

section \<open>Issuance\<close>

definition ReserveSessionIssue :: "auth_env \<Rightarrow> int \<Rightarrow> int \<Rightarrow> unit act" where
  "ReserveSessionIssue env uid limit =
     seq (check (0 < limit) Internal) (\<lambda>_.
     seq (redis_command env (redis_incr (issueKey uid))) (\<lambda>reply.
     seq (from_option reply Internal) (\<lambda>n.
     seq (if n = 1 then redis_command env (\<lambda>r. ((), redis_expire (issueKey uid) day_ms r)) else ok ()) (\<lambda>_.
     check (n \<le> limit) TooMany))))"

section \<open>Denial barriers\<close>

definition MarkSessionRevoked :: "auth_env \<Rightarrow> bytes \<Rightarrow> int \<Rightarrow> unit act" where
  "MarkSessionRevoked env sid ttl =
     redis_command env (\<lambda>r. ((), redis_set_px (revokedKey sid) ''1'' (if ttl \<le> 0 then day_ms else ttl) r))"

definition IsSessionRevoked :: "auth_env \<Rightarrow> bytes \<Rightarrow> bool act" where
  "IsSessionRevoked env sid = redis_command env (\<lambda>r. (redis_get r (revokedKey sid) \<noteq> None, r))"

section \<open>Rotation results\<close>

definition rotationAAD :: "bytes \<Rightarrow> bytes" where
  "rotationAAD sid = ''porsche/auth/v1/refresh-rotation/'' @ trim_space sid"

definition nonceSize :: nat where "nonceSize = 12"

definition encrypt_rotation :: "auth_env \<Rightarrow> bytes \<Rightarrow> bytes \<Rightarrow> bytes act" where
  "encrypt_rotation env sid plain =
     seq (read_random env nonceSize) (\<lambda>nonce. ok (b64_encode (nonce @ aeSeal env nonce plain (rotationAAD sid))))"

definition decrypt_rotation :: "auth_env \<Rightarrow> bytes \<Rightarrow> bytes \<Rightarrow> bytes option" where
  "decrypt_rotation env sid v =
     (case b64_decode False v of
        None \<Rightarrow> None
      | Some encoded \<Rightarrow>
          if length encoded < nonceSize then None
          else aeOpen env (take nonceSize encoded) (drop nonceSize encoded) (rotationAAD sid))"

definition rotation_text :: "bytes \<Rightarrow> bytes \<Rightarrow> bytes" where
  "rotation_text target ciphertext = render (JObj [(''target_hmac'', JStr target), (''ciphertext'', JStr ciphertext)])"

text \<open>A string field of a struct: the last member of that name counts, names compare without case, null is ignored.\<close>

fun string_field :: "bytes \<Rightarrow> (bytes \<times> json) list \<Rightarrow> bytes \<Rightarrow> bytes option" where
  "string_field k [] v = Some v"
| "string_field k ((n, j) # ms) v =
     (if map fold_char n \<noteq> map fold_char k then string_field k ms v
      else case j of JStr s \<Rightarrow> string_field k ms s | JNull \<Rightarrow> string_field k ms v | _ \<Rightarrow> None)"

definition decodeRotationRecord :: "bytes \<Rightarrow> (bytes \<times> bytes) option" where
  "decodeRotationRecord text =
     (case json_parse text of
        Some (JObj ms) \<Rightarrow>
          (case (string_field ''target_hmac'' ms [], string_field ''ciphertext'' ms []) of
             (Some target, Some ciphertext) \<Rightarrow> if ciphertext = [] then None else Some (target, ciphertext)
           | _ \<Rightarrow> None)
      | _ \<Rightarrow> None)"

definition StorePendingRotation :: "auth_env \<Rightarrow> bytes \<Rightarrow> bytes \<Rightarrow> bytes \<Rightarrow> int \<Rightarrow> unit act" where
  "StorePendingRotation env sid target token ttl =
     seq (check (0 < ttl) Internal) (\<lambda>_.
     seq (encrypt_rotation env sid token) (\<lambda>ciphertext.
     redis_command env (\<lambda>r. ((), redis_set_px (pendingRotationKey sid) (rotation_text target ciphertext) ttl r))))"

text \<open>The script: \<open>None\<close> is an error reply, an empty text means that nothing was found.\<close>

definition lua_target :: "cjson \<Rightarrow> bytes \<Rightarrow> lua option" where
  "lua_target cjson text =
     (case cjson text of
        Some (LuaTable ms) \<Rightarrow> Some (lua_field (LuaTable ms) ''target_hmac'')
      | Some (LuaArray vs) \<Rightarrow> Some LuaNil
      | Some (LuaString s) \<Rightarrow> Some LuaNil
      | _ \<Rightarrow> None)"

definition promote_pending :: "cjson \<Rightarrow> bytes \<Rightarrow> bytes \<Rightarrow> bytes \<Rightarrow> int \<Rightarrow> redis \<Rightarrow> bytes option \<times> redis" where
  "promote_pending cjson public pending target ttl r =
     (case redis_get r pending of
        None \<Rightarrow> (Some [], r)
      | Some q \<Rightarrow>
          (case lua_target cjson q of
             None \<Rightarrow> (None, r)
           | Some t \<Rightarrow>
               if t \<noteq> LuaString target then (Some [], r)
               else (Some q, redis_del [pending] (redis_set_px public q ttl r))))"

definition recover_script :: "cjson \<Rightarrow> bytes \<Rightarrow> bytes \<Rightarrow> bytes \<Rightarrow> int \<Rightarrow> redis \<Rightarrow> bytes option \<times> redis" where
  "recover_script cjson public pending target ttl r =
     (case redis_get r public of
        None \<Rightarrow> promote_pending cjson public pending target ttl r
      | Some p \<Rightarrow>
          (case lua_target cjson p of
             None \<Rightarrow> (None, r)
           | Some t \<Rightarrow> if t = LuaString target then (Some p, r) else promote_pending cjson public pending target ttl r))"

text \<open>\<open>None\<close> is Go's \<open>found = false\<close>.\<close>

definition RecoverRotationResult :: "auth_env \<Rightarrow> bytes \<Rightarrow> bytes \<Rightarrow> int \<Rightarrow> bytes option act" where
  "RecoverRotationResult env sid target ttl =
     seq (check (0 < ttl) Internal) (\<lambda>_.
     seq (redis_command env (recover_script (aeCjson env) (rotationKey sid) (pendingRotationKey sid) target ttl)) (\<lambda>reply.
     seq (from_option reply Internal) (\<lambda>text.
     if text = [] then ok None
     else seq (from_option (decodeRotationRecord text) Internal) (\<lambda>(stored, ciphertext).
          seq (check (stored = target) Internal) (\<lambda>_.
          seq (from_option (decrypt_rotation env sid ciphertext) Internal) (\<lambda>plain. ok (Some plain)))))))"

section \<open>Keys do not meet\<close>

lemma length_hashed [simp]: "length (hashedRedisKey v) = 64"
  by (simp add: hashedRedisKey_def)

lemma hashed_nonempty [simp]: "hashedRedisKey v \<noteq> []"
  by (metis length_hashed list.size(3) zero_neq_numeral)

lemma hashed_no_p: "hashedRedisKey v \<noteq> CHR ''p'' # s"
proof
  assume "hashedRedisKey v = CHR ''p'' # s"
  then have "is_lower_hex CHR ''p''" using hex_encode_lower[of "CHR ''p''" "sha256 (trim_space v)"] by (simp add: hashedRedisKey_def)
  then show False by (simp add: is_lower_hex_def is_digit_def)
qed

lemma revoked_key_apart [simp]:
  "revokedKey sid \<noteq> failureKey kind v" "revokedKey sid \<noteq> loginKey kind v" "revokedKey sid \<noteq> issueKey uid"
  "revokedKey sid \<noteq> rotationKey sid'" "revokedKey sid \<noteq> pendingRotationKey sid'"
  by (simp_all add: revokedKey_def failureKey_def loginKey_def issueKey_def rotationKey_def pendingRotationKey_def authRedisPrefix_def)

lemma rotation_key_apart [simp]: "rotationKey sid \<noteq> pendingRotationKey sid'" "pendingRotationKey sid' \<noteq> rotationKey sid"
  using hashed_no_p[of sid] by (auto simp: rotationKey_def pendingRotationKey_def dest: sym)

lemma redis_get_del [simp]: "redis_get (redis_del ks r) k = (if k \<in> set ks then None else redis_get r k)"
  by (simp add: redis_get_def redis_del_def live_def cong: option.case_cong)

lemma redis_get_incr: "k' \<noteq> k \<Longrightarrow> redis_get (snd (redis_incr k r)) k' = redis_get r k'"
  by (auto simp: redis_incr_def redis_get_def redis_set_keepttl_def split: option.splits)

lemma redis_get_expire: "k' \<noteq> k \<Longrightarrow> redis_get (redis_expire k ttl r) k' = redis_get r k'"
  by (auto simp: redis_expire_def redis_get_def split: option.splits)

section \<open>A stored rotation is recovered\<close>

definition aead_ok :: "auth_env \<Rightarrow> bool" where
  "aead_ok env \<longleftrightarrow> (\<forall>nonce plain aad. length nonce = nonceSize \<longrightarrow> aeOpen env nonce (aeSeal env nonce plain aad) aad = Some plain)"

lemma b64_char_ascii [simp]: "n < 64 \<Longrightarrow> byte (b64_char n) < 128"
  by (auto simp: b64_char_def Let_def)

lemma ascii_b64_encode: "ascii (b64_encode s)"
  unfolding ascii_def by (induction s rule: b64_encode.induct) (simp_all add: b64_char_ascii b64_bytes)

lemma b64_encode_nonempty: "s \<noteq> [] \<Longrightarrow> b64_encode s \<noteq> []"
  by (cases s rule: b64_encode.cases) auto

lemma ascii_rotation: "ascii ''target_hmac''" "ascii ''ciphertext''"
  by code_simp+

lemma decode_rotation_text:
  assumes "utf8_valid target" "utf8_valid c" "c \<noteq> []"
  shows "decodeRotationRecord (rotation_text target c) = Some (target, c)"
proof -
  have "json_parse (rotation_text target c) = Some (JObj [(''target_hmac'', JStr target), (''ciphertext'', JStr c)])"
    unfolding rotation_text_def using assms ascii_rotation by (intro json_parse_render) (simp add: utf8_valid_ascii)
  moreover have "map fold_char ''ciphertext'' \<noteq> map fold_char ''target_hmac''" by code_simp
  ultimately show ?thesis using assms(3) by (simp add: decodeRotationRecord_def)
qed

lemma lua_rotation_text:
  assumes "cjson_reads cjson" "utf8_valid target" "utf8_valid c"
  shows "lua_target cjson (rotation_text target c) = Some (LuaString target)"
proof -
  let ?v = "JObj [(''target_hmac'', JStr target), (''ciphertext'', JStr c)]"
  have "json_ok ?v" using assms(2,3) ascii_rotation by (simp add: utf8_valid_ascii)
  moreover have "\<not> has_duplicate [] [''target_hmac'', ''ciphertext'']" by code_simp
  then have "members_distinct ?v" by simp
  ultimately have "cjson (rotation_text target c) = Some (lua_of_json ?v)"
    using assms(1) unfolding cjson_reads_def rotation_text_def by blast
  then show ?thesis by (simp add: lua_target_def)
qed

text \<open>Encryption and decryption, at the same session identifier.\<close>

lemma decrypt_encrypt:
  assumes "aead_ok env" "encrypt_rotation env sid plain w = (Inr c, w')"
  shows "decrypt_rotation env sid c = Some plain \<and> ascii c \<and> c \<noteq> []"
proof -
  obtain nonce where n: "length nonce = nonceSize" "c = b64_encode (nonce @ aeSeal env nonce plain (rotationAAD sid))"
    using assms(2) that[of "take nonceSize (the (aeRandom env (awRandom w)))"] by (auto simp: encrypt_rotation_def act_simps)
  then have "nonce \<noteq> []" by (auto simp: nonceSize_def)
  then have "c \<noteq> []" using n(2) by (simp add: b64_encode_nonempty)
  moreover have "decrypt_rotation env sid c = Some plain"
    using assms(1) n by (simp add: decrypt_rotation_def b64_decode_encode aead_ok_def)
  ultimately show ?thesis using n(2) ascii_b64_encode by simp
qed

end
