(* ===== verification/Auth_Session.thy ===== *)
theory Auth_Session
  imports Auth_Redis
begin

text \<open>
  The session service (\<open>service/auth_session.go\<close>, \<open>security/refresh.go\<close>): issue, refresh rotation,
  revocation and validation of server sessions.  A \<open>WHERE\<close> on a text column compares by the column's
  collation, the argument \<open>same\<close>; comparisons made in Go are exact.
\<close>

type_synonym collation = "bytes \<Rightarrow> bytes \<Rightarrow> bool"

record session_input =
  siMethod :: int
  siIP :: bytes
  siAgent :: bytes

record issued_session =
  isSession :: session_row
  isToken :: bytes
  isProof :: bool

abbreviation AuthAuditEventRegistered :: int where "AuthAuditEventRegistered \<equiv> 1"
abbreviation AuthAuditEventLoginSucceeded :: int where "AuthAuditEventLoginSucceeded \<equiv> 2"
abbreviation AuthAuditEventRefreshSucceeded :: int where "AuthAuditEventRefreshSucceeded \<equiv> 3"
abbreviation AuthAuditEventReplayRevoked :: int where "AuthAuditEventReplayRevoked \<equiv> 4"
abbreviation AuthAuditEventUserDisabled :: int where "AuthAuditEventUserDisabled \<equiv> 7"
abbreviation AuthAuditEventUserDeleted :: int where "AuthAuditEventUserDeleted \<equiv> 8"
abbreviation AuthAuditEventPasswordChanged :: int where "AuthAuditEventPasswordChanged \<equiv> 9"

section \<open>Secrets\<close>

definition NewRefreshSecret :: "auth_env \<Rightarrow> bytes act" where
  "NewRefreshSecret env = seq (read_random env 64) (\<lambda>secret. ok (b64_encode secret))"

definition RefreshHMAC :: "bytes \<Rightarrow> bytes \<Rightarrow> bytes" where
  "RefreshHMAC secret key = hex_encode (hmac_sha256 key secret)"

definition mask_byte :: "nat \<Rightarrow> nat \<Rightarrow> char \<Rightarrow> char" where
  "mask_byte low high c = char_of (byte c mod low + high)"

definition sid_text :: "bytes \<Rightarrow> bytes" where
  "sid_text raw =
     (let b = raw[6 := mask_byte 16 64 (raw ! 6), 8 := mask_byte 64 128 (raw ! 8)];
          part = (\<lambda>i j. hex_encode (take (j - i) (drop i b))) in
      part 0 4 @ CHR ''-'' # part 4 6 @ CHR ''-'' # part 6 8 @ CHR ''-'' # part 8 10 @ CHR ''-'' # part 10 16)"

definition NewSessionSID :: "auth_env \<Rightarrow> bytes act" where
  "NewSessionSID env = seq (read_random env 16) (\<lambda>raw. ok (sid_text raw))"

fun split_char :: "char \<Rightarrow> bytes \<Rightarrow> bytes list" where
  "split_char d [] = [[]]"
| "split_char d (c # s) =
     (if c = d then [] # split_char d s else (case split_char d s of [] \<Rightarrow> [[c]] | p # ps \<Rightarrow> (c # p) # ps))"

definition splitRefreshToken :: "bytes \<Rightarrow> (bytes \<times> bytes) option" where
  "splitRefreshToken value =
     (case split_char CHR ''.'' value of
        [sid, secret] \<Rightarrow> if length sid \<noteq> 36 \<or> length secret < 64 then None else Some (sid, secret)
      | _ \<Rightarrow> None)"

section \<open>Shared parts\<close>

definition stringPointer :: "bytes \<Rightarrow> bytes option" where
  "stringPointer v = (let t = trim_space v in if t = [] then None else Some t)"

definition dereferenceString :: "bytes option \<Rightarrow> bytes" where
  "dereferenceString v = (case v of None \<Rightarrow> [] | Some s \<Rightarrow> s)"

definition sessionTTL :: "session_row \<Rightarrow> int \<Rightarrow> int" where
  "sessionTTL s now = (if sExpiresAt s - now \<le> 0 then day_ms else sExpiresAt s - now)"

definition ready :: "auth_env \<Rightarrow> unit act" where
  "ready env =
     (let st = aeSettings env in
      check (\<not> (stSessionDays st \<le> 0 \<or> stSessionMaxActive st \<le> 0 \<or> stSessionIssueLimit st \<le> 0 \<or>
                 stRefreshReplaySeconds st \<le> 0 \<or> trim_space (stAuthHMACKey st) = [])) Internal)"

definition auditFields :: "auth_env \<Rightarrow> int option \<Rightarrow> audit_fields act" where
  "auditFields env actor =
     seq (clock_now env) (\<lambda>now. seq (new_guid env) (\<lambda>guid.
     ok \<lparr>rID = 0, rGUID = guid, rCreatedAt = now, rCreatedBy = actor, rUpdatedAt = now, rUpdatedBy = actor, rDeleted = 0\<rparr>))"

definition touched_by :: "int \<Rightarrow> int option" where
  "touched_by actor = (if actor \<le> 0 then None else Some actor)"

text \<open>An insert that breaks a unique index fails.\<close>

definition insert_auth_event :: "auth_event \<Rightarrow> tables \<Rightarrow> tables option" where
  "insert_auth_event ev t = (case insert_event ev t of (t', n) \<Rightarrow> if n = 0 then None else Some t')"

definition insert_session :: "collation \<Rightarrow> session_row \<Rightarrow> tables \<Rightarrow> (session_row \<times> tables) option" where
  "insert_session same s t =
     (if \<exists>r \<in> set (tSessions t). rGUID r = rGUID s \<or> same (sSID r) (sSID s) then None
      else Some (s\<lparr>rID := tNextID t\<rparr>, t\<lparr>tSessions := tSessions t @ [s\<lparr>rID := tNextID t\<rparr>], tNextID := tNextID t + 1\<rparr>))"

definition audit_event :: "audit_fields \<Rightarrow> int option \<Rightarrow> int option \<Rightarrow> int \<Rightarrow> int option \<Rightarrow> bytes \<Rightarrow> bytes \<Rightarrow> auth_event" where
  "audit_event f user session type login_method ip agent =
     audit_fields.extend f \<lparr>evUser = user, evSession = session, evType = type, evLoginMethod = login_method,
       evIP = stringPointer ip, evUserAgent = stringPointer agent\<rparr>"

definition writeAuthAudit :: "auth_env \<Rightarrow> int \<Rightarrow> int \<Rightarrow> int \<Rightarrow> int \<Rightarrow> session_input \<Rightarrow> unit act" where
  "writeAuthAudit env uid session type login_method input =
     seq (auditFields env (Some uid)) (\<lambda>f.
     sql_write env (insert_auth_event (audit_event f (Some uid) (Some session) type (Some login_method) (siIP input) (siAgent input))))"

definition unrevoked :: "int \<Rightarrow> session_row \<Rightarrow> bool" where
  "unrevoked sid r \<longleftrightarrow> rID r = sid \<and> rDeleted r = 0 \<and> sRevokedAt r = None"

definition revoke_row :: "int \<Rightarrow> int \<Rightarrow> int option \<Rightarrow> session_row \<Rightarrow> session_row" where
  "revoke_row now stamp by r = r\<lparr>sRevokedAt := Some now, rUpdatedAt := stamp, rUpdatedBy := by\<rparr>"

definition revokeLocked :: "auth_env \<Rightarrow> session_row \<Rightarrow> int \<Rightarrow> int \<Rightarrow> session_input \<Rightarrow> unit act" where
  "revokeLocked env session actor type input =
     (if sRevokedAt session \<noteq> None then ok ()
      else seq (clock_now env) (\<lambda>now. seq (clock_now env) (\<lambda>stamp.
        seq (sql_write env (\<lambda>t. Some (t\<lparr>tSessions := sql_update (unrevoked (rID session)) (revoke_row now stamp (touched_by actor)) (tSessions t)\<rparr>))) (\<lambda>_.
        seq (auditFields env (Some actor)) (\<lambda>f.
        sql_write env (insert_auth_event (audit_event f (Some (sUser session)) (Some (rGUID session)) type (Some (sLoginMethod session))
          (siIP input) (siAgent input))))))))"

section \<open>Create\<close>

definition no_input :: session_input where
  "no_input = \<lparr>siMethod = 0, siIP = [], siAgent = []\<rparr>"

definition active_at :: "int \<Rightarrow> int \<Rightarrow> session_row \<Rightarrow> bool" where
  "active_at uid now s \<longleftrightarrow> sUser s = uid \<and> rDeleted s = 0 \<and> sRevokedAt s = None \<and> now < sExpiresAt s"

text \<open>\<open>ORDER BY created_at ASC, id ASC\<close>.\<close>

definition by_age :: "session_row list \<Rightarrow> session_row list" where
  "by_age ss = sort_key (\<lambda>s. rCreatedAt s) (sort_key rID ss)"

definition new_session :: "audit_fields \<Rightarrow> bytes \<Rightarrow> int \<Rightarrow> bytes \<Rightarrow> int \<Rightarrow> int \<Rightarrow> session_input \<Rightarrow> session_row" where
  "new_session f sid uid hmac now expires input =
     audit_fields.extend f \<lparr>sSID = sid, sUser = uid, sLoginMethod = siMethod input, sIP = stringPointer (siIP input),
       sUserAgent = stringPointer (siAgent input), sVersion = 1, sRefreshHMAC = hmac, sPrevRefreshHMAC = None,
       sPrevRefreshExpires = None, sLastActiveAt = now, sExpiresAt = expires, sRevokedAt = None\<rparr>"

definition evict_oldest :: "auth_env \<Rightarrow> int \<Rightarrow> int \<Rightarrow> session_row list \<Rightarrow> session_input \<Rightarrow> unit act" where
  "evict_oldest env uid now active input =
     (case active of
        oldest # _ \<Rightarrow>
          if stSessionMaxActive (aeSettings env) \<le> int (length active) then
            seq (MarkSessionRevoked env (sSID oldest) (sessionTTL oldest now)) (\<lambda>_.
            revokeLocked env oldest uid AuthAuditEventSessionRevoked input)
          else ok ()
      | [] \<Rightarrow> ok ())"

definition live_user :: "int \<Rightarrow> user_row \<Rightarrow> bool" where
  "live_user uid u \<longleftrightarrow> rID u = uid \<and> rDeleted u = 0"

definition create_tx :: "auth_env \<Rightarrow> collation \<Rightarrow> int \<Rightarrow> session_input \<Rightarrow> bytes \<Rightarrow> bytes \<Rightarrow> int \<Rightarrow> int \<Rightarrow> session_row act" where
  "create_tx env same uid input sid secret now expires =
     seq (sql_read env (\<lambda>t. sql_first (live_user uid) (tUsers t))) (\<lambda>found.
     seq (from_option found Internal) (\<lambda>stored.
     seq (check (uStatus stored = UserStatusActive) Unauthorized) (\<lambda>_.
     seq (sql_read env (\<lambda>t. by_age (filter (active_at uid now) (tSessions t)))) (\<lambda>active.
     seq (evict_oldest env uid now active input) (\<lambda>_.
     seq (auditFields env (Some uid)) (\<lambda>f.
     let s = new_session f sid uid (RefreshHMAC secret (stAuthHMACKey (aeSettings env))) now expires input in
     seq (sql_insert env (insert_session same s)) (\<lambda>created.
     seq (sql_write env (\<lambda>t. Some (t\<lparr>tUsers := sql_update (live_user uid)
            (\<lambda>u. u\<lparr>uLastLoginAt := Some now, rUpdatedAt := now, rUpdatedBy := Some uid\<rparr>) (tUsers t)\<rparr>))) (\<lambda>_.
     seq (writeAuthAudit env uid (rGUID s) AuthAuditEventLoginSucceeded (siMethod input) input) (\<lambda>_.
     ok created)))))))))"

definition Create_session :: "auth_env \<Rightarrow> collation \<Rightarrow> user_row \<Rightarrow> session_input \<Rightarrow> issued_session act" where
  "Create_session env same user input =
     seq (ready env) (\<lambda>_.
     seq (check (\<not> (rID user \<le> 0 \<or> rDeleted user \<noteq> 0 \<or> uStatus user \<noteq> UserStatusActive)) Unauthorized) (\<lambda>_.
     seq (ReserveSessionIssue env (rID user) (stSessionIssueLimit (aeSettings env))) (\<lambda>_.
     seq (NewSessionSID env) (\<lambda>sid.
     seq (NewRefreshSecret env) (\<lambda>secret.
     seq (clock_now env) (\<lambda>now.
     seq (transaction env (create_tx env same (rID user) input sid secret now (now + stSessionDays (aeSettings env) * day_ms))) (\<lambda>created.
     ok \<lparr>isSession = created, isToken = sid @ CHR ''.'' # secret, isProof = False\<rparr>)))))))"

section \<open>Refresh\<close>

definition replay_ms :: "auth_env \<Rightarrow> int" where
  "replay_ms env = stRefreshReplaySeconds (aeSettings env) * 1000"

definition rotated_row :: "bytes \<Rightarrow> bytes \<Rightarrow> int \<Rightarrow> int \<Rightarrow> int \<Rightarrow> int option \<Rightarrow> session_row \<Rightarrow> session_row" where
  "rotated_row next previous deadline now stamp by r =
     r\<lparr>sRefreshHMAC := next, sPrevRefreshHMAC := Some previous, sPrevRefreshExpires := Some deadline, sLastActiveAt := now,
       rUpdatedAt := stamp, rUpdatedBy := by\<rparr>"

definition row_input :: "session_row \<Rightarrow> session_input" where
  "row_input s = \<lparr>siMethod = 0, siIP = dereferenceString (sIP s), siAgent = dereferenceString (sUserAgent s)\<rparr>"

definition current_secret :: "session_row \<Rightarrow> session_row \<Rightarrow> bool" where
  "current_secret s r \<longleftrightarrow> rID r = rID s \<and> rDeleted r = 0 \<and> sRefreshHMAC r = sRefreshHMAC s"

definition rotate :: "auth_env \<Rightarrow> session_row \<Rightarrow> bytes \<Rightarrow> int \<Rightarrow> issued_session act" where
  "rotate env session sid now =
     seq (NewRefreshSecret env) (\<lambda>secret.
     let token = sid @ CHR ''.'' # secret; hmac = RefreshHMAC secret (stAuthHMACKey (aeSettings env)) in
     seq (StorePendingRotation env sid hmac token (replay_ms env)) (\<lambda>_.
     seq (clock_now env) (\<lambda>stamp.
     let change = rotated_row hmac (sRefreshHMAC session) (now + replay_ms env) now stamp (touched_by (sUser session)) in
     seq (sql_write env (\<lambda>t. Some (t\<lparr>tSessions := sql_update (current_secret session) change (tSessions t)\<rparr>))) (\<lambda>_.
     seq (writeAuthAudit env (sUser session) (rGUID session) AuthAuditEventRefreshSucceeded (sLoginMethod session) (row_input session)) (\<lambda>_.
     ok \<lparr>isSession = change session, isToken = token, isProof = False\<rparr>)))))"

definition within_window :: "session_row \<Rightarrow> bytes \<Rightarrow> int \<Rightarrow> bool" where
  "within_window s presented now \<longleftrightarrow>
     (case (sPrevRefreshHMAC s, sPrevRefreshExpires s) of
        (Some previous, Some expires) \<Rightarrow> now \<le> expires \<and> previous = presented
      | _ \<Rightarrow> False)"

text \<open>The decision of the transaction; \<open>None\<close> is a replay whose revocation is committed.\<close>

definition refresh_tx :: "auth_env \<Rightarrow> collation \<Rightarrow> bytes \<Rightarrow> bytes \<Rightarrow> int \<Rightarrow> issued_session option act" where
  "refresh_tx env same sid presented now =
     seq (or_error (seq (sql_read env (\<lambda>t. sql_first (\<lambda>s. same (sSID s) sid \<and> rDeleted s = 0) (tSessions t))) (\<lambda>found. from_option found Unauthorized))
        Unauthorized) (\<lambda>session.
     seq (check (\<not> (sRevokedAt session \<noteq> None \<or> sExpiresAt session \<le> now)) Unauthorized) (\<lambda>_.
     if sRefreshHMAC session = presented then seq (rotate env session sid now) (\<lambda>issued. ok (Some issued))
     else if within_window session presented now then
       seq (RecoverRotationResult env sid (sRefreshHMAC session) (replay_ms env)) (\<lambda>shared.
       seq (from_option shared Internal) (\<lambda>token.
       ok (Some \<lparr>isSession = session, isToken = token, isProof = False\<rparr>)))
     else
       seq (MarkSessionRevoked env sid (sessionTTL session now)) (\<lambda>_.
       seq (revokeLocked env session (sUser session) AuthAuditEventReplayRevoked (row_input session)) (\<lambda>_. ok None))))"

definition Refresh_session :: "auth_env \<Rightarrow> collation \<Rightarrow> bytes \<Rightarrow> issued_session act" where
  "Refresh_session env same token =
     seq (ready env) (\<lambda>_.
     seq (from_option (splitRefreshToken token) Unauthorized) (\<lambda>(sid, secret).
     seq (IsSessionRevoked env sid) (\<lambda>revoked.
     seq (check (\<not> revoked) Unauthorized) (\<lambda>_.
     seq (clock_now env) (\<lambda>now.
     seq (transaction env (refresh_tx env same sid (RefreshHMAC secret (stAuthHMACKey (aeSettings env))) now)) (\<lambda>rotated.
     seq (from_option rotated Unauthorized) (\<lambda>issued.
     seq (RecoverRotationResult env sid (sRefreshHMAC (isSession issued)) (replay_ms env)) (\<lambda>published.
     seq (from_option published Internal) (\<lambda>_.
     ok (issued\<lparr>isProof := True\<rparr>))))))))))"

section \<open>Revocation\<close>

definition owned_row :: "int \<Rightarrow> int \<Rightarrow> session_row \<Rightarrow> bool" where
  "owned_row sid uid s \<longleftrightarrow> rID s = sid \<and> sUser s = uid \<and> rDeleted s = 0"

definition Revoke_session :: "auth_env \<Rightarrow> int \<Rightarrow> int \<Rightarrow> unit act" where
  "Revoke_session env uid guid =
     seq (ready env) (\<lambda>_.
     seq (or_error (seq (sql_read env (\<lambda>t. sql_first (\<lambda>s. rGUID s = guid \<and> sUser s = uid \<and> rDeleted s = 0) (tSessions t)))
            (\<lambda>found. from_option found NotFound)) NotFound) (\<lambda>candidate.
     seq (clock_now env) (\<lambda>now.
     seq (MarkSessionRevoked env (sSID candidate) (sessionTTL candidate now)) (\<lambda>_.
     transaction env (
       seq (sql_read env (\<lambda>t. sql_first (owned_row (rID candidate) uid) (tSessions t))) (\<lambda>found.
       seq (from_option found Internal) (\<lambda>session.
       revokeLocked env session uid AuthAuditEventSessionRevoked no_input)))))))"

definition mark_all :: "auth_env \<Rightarrow> session_row list \<Rightarrow> unit act" where
  "mark_all env = each (\<lambda>s. seq (clock_now env) (\<lambda>now. MarkSessionRevoked env (sSID s) (sessionTTL s now)))"

definition RevokeOthers :: "auth_env \<Rightarrow> collation \<Rightarrow> int \<Rightarrow> bytes \<Rightarrow> unit act" where
  "RevokeOthers env same uid keep =
     seq (ready env) (\<lambda>_.
     transaction env (
       seq (sql_read env (\<lambda>t. sql_first (live_user uid) (tUsers t))) (\<lambda>found.
       seq (from_option found Internal) (\<lambda>_.
       seq (sql_read env (\<lambda>t. filter (\<lambda>s. sUser s = uid \<and> \<not> same (sSID s) keep \<and> rDeleted s = 0 \<and> sRevokedAt s = None) (tSessions t))) (\<lambda>sessions.
       seq (mark_all env sessions) (\<lambda>_.
       each (\<lambda>c. seq (sql_read env (\<lambda>t. sql_first (owned_row (rID c) uid) (tSessions t))) (\<lambda>found.
                 seq (from_option found Internal) (\<lambda>s. revokeLocked env s uid AuthAuditEventSessionRevoked no_input))) sessions))))))"

section \<open>Reads\<close>

text \<open>\<open>ORDER BY last_active_at DESC, id DESC LIMIT 100\<close>.\<close>

definition List_sessions :: "auth_env \<Rightarrow> int \<Rightarrow> int \<Rightarrow> session_row list act" where
  "List_sessions env uid authVersion =
     seq (ready env) (\<lambda>_.
     seq (clock_now env) (\<lambda>now.
     seq (sql_read env (\<lambda>t. take 100 (rev (sort_key sLastActiveAt (sort_key rID (filter (active_at uid now) (tSessions t))))))) (\<lambda>sessions.
     seq (check (0 < authVersion) Unauthorized) (\<lambda>_. ok sessions))))"

definition Validate_session :: "auth_env \<Rightarrow> collation \<Rightarrow> bytes \<Rightarrow> int \<Rightarrow> int \<Rightarrow> int \<Rightarrow> session_row act" where
  "Validate_session env same sid uid sessionVersion authVersion =
     seq (ready env) (\<lambda>_.
     seq (IsSessionRevoked env sid) (\<lambda>revoked.
     seq (check (\<not> revoked) Unauthorized) (\<lambda>_.
     seq (clock_now env) (\<lambda>now.
     seq (or_error (seq (sql_read env (\<lambda>t. sql_first (\<lambda>s. same (sSID s) sid \<and> active_at uid now s) (tSessions t)))
            (\<lambda>found. from_option found Unauthorized)) Unauthorized) (\<lambda>session.
     seq (check (sVersion session = sessionVersion) Unauthorized) (\<lambda>_.
     seq (or_error (seq (sql_read env (\<lambda>t. sql_first (live_user uid) (tUsers t))) (\<lambda>found. from_option found Unauthorized)) Unauthorized) (\<lambda>user.
     seq (check (uStatus user = UserStatusActive \<and> uAuthVersion user = authVersion) Unauthorized) (\<lambda>_.
     ok session))))))))"

end
