(* ===== verification/Auth_Account.thy ===== *)
theory Auth_Account
  imports Auth_Session
begin

text \<open>
  Account changes (\<open>service/auth_account.go\<close>, \<open>CanManageUser\<close> and the password rules of \<open>service/auth.go\<close>, the
  password hashes of \<open>security/security.go\<close>): every change that touches credentials or access revokes the sessions of the
  account and advances its auth version in one transaction, after the Redis barriers are written.
\<close>

section \<open>Passwords\<close>

definition weak_passwords :: "bytes list" where
  "weak_passwords = [''password'', ''password123'', ''12345678'', ''qwerty123'', ''porsche'', ''porsche@2026'']"

text \<open>\<open>strings.ToLower\<close> on ASCII.  Of the other runes only U+0130 and U+212A have an ASCII lower case, \<open>i\<close> and \<open>k\<close>, which
  no weak password contains; so a text equals a weak password after \<open>ToLower\<close> exactly if it does after this.\<close>

definition lower_char :: "char \<Rightarrow> char" where
  "lower_char c = (if 65 \<le> byte c \<and> byte c \<le> 90 then char_of (byte c + 32) else c)"

definition password_length_ok :: "bytes \<Rightarrow> bool" where
  "password_length_ok p \<longleftrightarrow> \<not> (\<not> utf8_valid p \<or> rune_count p < 8 \<or> 20 < rune_count p)"

definition ValidatePassword :: "bytes \<Rightarrow> bool" where
  "ValidatePassword p \<longleftrightarrow> password_length_ok p \<and> map lower_char (trim_space p) \<notin> set weak_passwords"

definition asciiEqualFold :: "bytes \<Rightarrow> bytes \<Rightarrow> bool" where
  "asciiEqualFold left right =
     (if length left \<noteq> length right then False
      else foldl (\<lambda>different (a, b). different OR (of_nat (byte (lower_char a)) XOR of_nat (byte b))) (0 :: 8 word) (zip left right) = 0)"

definition ValidatePasswordBytes :: "bytes \<Rightarrow> bool" where
  "ValidatePasswordBytes p \<longleftrightarrow> password_length_ok p \<and> \<not> list_ex (\<lambda>weak. asciiEqualFold (trim_space p) weak) weak_passwords"

section \<open>Password hashes\<close>

definition to_std :: "char \<Rightarrow> char" where
  "to_std c = (if c = CHR ''-'' then CHR ''+'' else if c = CHR ''_'' then CHR ''/'' else c)"

definition of_std :: "char \<Rightarrow> char" where
  "of_std c = (if c = CHR ''+'' then CHR ''-'' else if c = CHR ''/'' then CHR ''_'' else c)"

text \<open>\<open>base64.RawStdEncoding\<close>.\<close>

definition b64std_encode :: "bytes \<Rightarrow> bytes" where
  "b64std_encode s = map to_std (b64_encode s)"

definition b64std_decode :: "bytes \<Rightarrow> bytes option" where
  "b64std_decode s = (if CHR ''-'' \<in> set s \<or> CHR ''_'' \<in> set s then None else b64_decode False (map of_std s))"

definition HashPassword :: "auth_env \<Rightarrow> bytes \<Rightarrow> bytes act" where
  "HashPassword env password =
     seq (read_random env 16) (\<lambda>salt.
     ok (''$argon2id$v=19$m=65536,t=3,p=4$'' @ b64std_encode salt @ CHR ''$'' # b64std_encode (aeArgon env password salt)))"

text \<open>\<open>fmt.Sscanf\<close> with \<open>%d\<close> into an unsigned integer: white space without a newline, then digits.\<close>

definition scan_uint :: "nat \<Rightarrow> bytes \<Rightarrow> (nat \<times> bytes) option" where
  "scan_uint limit s =
     (let t = trim_left s; digits = takeWhile is_digit t; rest = dropWhile is_digit t in
      if CHR 0x0A \<in> set (take (length s - length t) s) \<or> digits = [] then None
      else case dec_value 0 digits of None \<Rightarrow> None | Some n \<Rightarrow> if limit < n then None else Some (n, rest))"

fun scan_literal :: "bytes \<Rightarrow> bytes \<Rightarrow> bytes option" where
  "scan_literal [] s = Some s"
| "scan_literal (c # cs) (d # s) = (if c = d then scan_literal cs s else None)"
| "scan_literal (c # cs) [] = None"

definition scan_params :: "bytes \<Rightarrow> (nat \<times> nat \<times> nat) option" where
  "scan_params s =
     Option.bind (scan_literal ''m='' s) (\<lambda>s. Option.bind (scan_uint 4294967295 s) (\<lambda>(m, s).
     Option.bind (scan_literal '',t='' s) (\<lambda>s. Option.bind (scan_uint 4294967295 s) (\<lambda>(t, s).
     Option.bind (scan_literal '',p='' s) (\<lambda>s. Option.bind (scan_uint 255 s) (\<lambda>(p, s). Some (m, t, p)))))))"

definition VerifyPassword :: "auth_env \<Rightarrow> bytes \<Rightarrow> bytes \<Rightarrow> bool" where
  "VerifyPassword env plain hashed =
     (case split_char CHR ''$'' hashed of
        [p0, p1, p2, p3, p4, p5] \<Rightarrow>
          p0 = [] \<and> p1 = ''argon2id'' \<and> p2 = ''v=19'' \<and> scan_params p3 = Some (65536, 3, 4) \<and>
          (case b64std_decode p4 of
             None \<Rightarrow> False
           | Some salt \<Rightarrow>
               16 \<le> length salt \<and>
               (case b64std_decode p5 of
                  None \<Rightarrow> False
                | Some expected \<Rightarrow> length expected = 32 \<and> aeArgon env plain salt = expected))
      | _ \<Rightarrow> False)"

section \<open>Sessions of an account\<close>

definition user_sessions :: "int \<Rightarrow> session_row \<Rightarrow> bool" where
  "user_sessions uid s \<longleftrightarrow> sUser s = uid \<and> rDeleted s = 0 \<and> sRevokedAt s = None"

definition revokeUserSessionsLocked :: "auth_env \<Rightarrow> user_row \<Rightarrow> int \<Rightarrow> int \<Rightarrow> unit act" where
  "revokeUserSessionsLocked env user actor type =
     seq (clock_now env) (\<lambda>now.
     seq (sql_read env (\<lambda>t. filter (user_sessions (rID user)) (tSessions t))) (\<lambda>sessions.
     seq (each (\<lambda>s. MarkSessionRevoked env (sSID s) (sessionTTL s now)) sessions) (\<lambda>_.
     each (\<lambda>s. revokeLocked env s actor type no_input) sessions)))"

definition update_user :: "auth_env \<Rightarrow> int \<Rightarrow> (user_row \<Rightarrow> user_row) \<Rightarrow> unit act" where
  "update_user env uid f = sql_write env (\<lambda>t. Some (t\<lparr>tUsers := sql_update (live_user uid) f (tUsers t)\<rparr>))"

definition account_event :: "auth_env \<Rightarrow> int \<Rightarrow> int \<Rightarrow> int \<Rightarrow> unit act" where
  "account_event env actor uid type =
     seq (auditFields env (Some actor)) (\<lambda>f.
     sql_write env (insert_auth_event (audit_fields.extend f
       \<lparr>evUser = Some uid, evSession = None, evType = type, evLoginMethod = None, evIP = None, evUserAgent = None\<rparr>)))"

section \<open>The owner's changes\<close>

definition lockActiveCurrentUser :: "auth_env \<Rightarrow> int \<Rightarrow> user_row act" where
  "lockActiveCurrentUser env uid =
     seq (or_error (seq (sql_read env (\<lambda>t. sql_first (live_user uid) (tUsers t))) (\<lambda>found. from_option found Unauthorized)) Unauthorized) (\<lambda>u.
     seq (check (uStatus u = UserStatusActive) Unauthorized) (\<lambda>_. ok u))"

definition ChangePassword :: "auth_env \<Rightarrow> int \<Rightarrow> bytes \<Rightarrow> bytes \<Rightarrow> unit act" where
  "ChangePassword env uid old new =
     seq (CheckAvailable env) (\<lambda>_.
     seq (check (ValidatePassword new) BadRequest) (\<lambda>_.
     seq (HashPassword env new) (\<lambda>hash.
     transaction env (
       seq (lockActiveCurrentUser env uid) (\<lambda>u.
       seq (check (case uPasswordHash u of None \<Rightarrow> False | Some h \<Rightarrow> VerifyPassword env old h) Unauthorized) (\<lambda>_.
       seq (revokeUserSessionsLocked env u uid AuthAuditEventSessionRevoked) (\<lambda>_.
       seq (clock_now env) (\<lambda>stamp.
       seq (update_user env (rID u) (\<lambda>r. r\<lparr>uPasswordHash := Some hash, uAuthVersion := uAuthVersion u + 1, rUpdatedAt := stamp,
              rUpdatedBy := touched_by uid\<rparr>)) (\<lambda>_.
       account_event env uid uid AuthAuditEventPasswordChanged)))))))))"

definition UpdateOwnProfile :: "auth_env \<Rightarrow> int \<Rightarrow> bytes option \<Rightarrow> user_row act" where
  "UpdateOwnProfile env uid nickname =
     transaction env (
       seq (lockActiveCurrentUser env uid) (\<lambda>u.
       if nickname = None then ok u
       else seq (clock_now env) (\<lambda>stamp.
         let change = (\<lambda>r. r\<lparr>uNickname := nickname, rUpdatedAt := stamp, rUpdatedBy := touched_by uid\<rparr>) in
         seq (update_user env (rID u) change) (\<lambda>_. ok (change u)))))"

definition HashIDCard :: "bytes \<Rightarrow> bytes" where
  "HashIDCard v = hex_encode (sha256 v)"

definition VerifyOwnIdentity :: "auth_env \<Rightarrow> int \<Rightarrow> bytes \<Rightarrow> bytes \<Rightarrow> unit act" where
  "VerifyOwnIdentity env uid realName idCard =
     transaction env (
       seq (lockActiveCurrentUser env uid) (\<lambda>u.
       seq (clock_now env) (\<lambda>stamp.
       update_user env (rID u) (\<lambda>r. r\<lparr>uRealName := Some realName, uIDCardHash := Some (HashIDCard idCard), uVerified := True,
         rUpdatedAt := stamp, rUpdatedBy := touched_by uid\<rparr>))))"

section \<open>Changes by administrators\<close>

definition CanManageUser :: "user_row \<Rightarrow> user_row \<Rightarrow> bool" where
  "CanManageUser actor target \<longleftrightarrow>
     \<not> (rDeleted actor \<noteq> 0 \<or> rDeleted target \<noteq> 0 \<or> uStatus actor \<noteq> UserStatusActive) \<and>
     \<not> (uRole target = UserRoleRoot \<or> uRole actor \<le> uRole target)"

definition mutated_user :: "bool \<Rightarrow> int \<Rightarrow> int \<Rightarrow> int option \<Rightarrow> user_row \<Rightarrow> user_row" where
  "mutated_user deleteUser version stamp by r =
     (let r = r\<lparr>uStatus := UserStatusDisabled, uAuthVersion := version, rUpdatedAt := stamp, rUpdatedBy := by\<rparr> in
      if deleteUser then r\<lparr>rDeleted := 1, uPasswordHash := None, uPhone := None, uNickname := None, uRealName := None,
        uIDCardHash := None, uVerified := False\<rparr>
      else r)"

definition mutateManagedUser :: "auth_env \<Rightarrow> int \<Rightarrow> int \<Rightarrow> bool \<Rightarrow> unit act" where
  "mutateManagedUser env actorID targetID deleteUser =
     seq (CheckAvailable env) (\<lambda>_.
     transaction env (
       seq (or_error (seq (sql_read env (\<lambda>t. sql_first (live_user actorID) (tUsers t))) (\<lambda>found. from_option found Forbidden)) Forbidden) (\<lambda>actor.
       seq (or_error (seq (sql_read env (\<lambda>t. sql_first (live_user targetID) (tUsers t))) (\<lambda>found. from_option found NotFound)) NotFound) (\<lambda>target.
       seq (check (CanManageUser actor target) Forbidden) (\<lambda>_.
       let type = (if deleteUser then AuthAuditEventUserDeleted else AuthAuditEventUserDisabled) in
       seq (revokeUserSessionsLocked env target actorID type) (\<lambda>_.
       seq (clock_now env) (\<lambda>stamp.
       seq (update_user env (rID target) (mutated_user deleteUser (uAuthVersion target + 1) stamp (touched_by actorID))) (\<lambda>_.
       account_event env actorID (rID target) type))))))))"

definition DisableUser :: "auth_env \<Rightarrow> int \<Rightarrow> int \<Rightarrow> unit act" where
  "DisableUser env actorID targetID = mutateManagedUser env actorID targetID False"

definition SoftDeleteUser :: "auth_env \<Rightarrow> int \<Rightarrow> int \<Rightarrow> unit act" where
  "SoftDeleteUser env actorID targetID = mutateManagedUser env actorID targetID True"

record managed_update =
  muStatus :: "int option"
  muPlan :: "int option"
  muModels :: "bytes list option option"
  muLimit :: "int option"

definition isManagedActorRole :: "int \<Rightarrow> bool" where
  "isManagedActorRole r \<longleftrightarrow> r = UserRoleAdmin \<or> r = UserRoleRoot"

definition isManagedTargetRole :: "int \<Rightarrow> bool" where
  "isManagedTargetRole r \<longleftrightarrow> r = UserRoleUser \<or> r = UserRoleAdmin \<or> r = UserRoleRoot"

definition slice :: "bytes list option \<Rightarrow> bytes list" where
  "slice v = (case v of None \<Rightarrow> [] | Some xs \<Rightarrow> xs)"

definition validateManagedUserUpdateInput :: "managed_update \<Rightarrow> auth_error option" where
  "validateManagedUserUpdateInput i =
     (if (case muStatus i of None \<Rightarrow> False | Some s \<Rightarrow> s \<noteq> UserStatusActive \<and> s \<noteq> UserStatusDisabled) then Some Unprocessable
      else if (case muPlan i of None \<Rightarrow> False | Some p \<Rightarrow> p \<noteq> 1 \<and> p \<noteq> 2 \<and> p \<noteq> 3) then Some Unprocessable
      else if (case muLimit i of None \<Rightarrow> False | Some n \<Rightarrow> n < 0 \<or> maxInt32 < n) then Some BadRequest
      else if (case muModels i of None \<Rightarrow> False | Some ms \<Rightarrow> list_ex (\<lambda>m. m = []) (slice ms)) then Some BadRequest
      else None)"

text \<open>Two restrictions are the same when they name the same models; the maps of the code are the sets of the slices.\<close>

definition sameManagedUserACL :: "bytes list option \<Rightarrow> bytes list option \<Rightarrow> bool" where
  "sameManagedUserACL left right =
     (if slice left = [] \<and> slice right = [] then True
      else if length (remdups (slice left)) \<noteq> length (remdups (slice right)) then False
      else list_all (\<lambda>v. v \<in> set (slice right)) (slice left))"

definition changes :: "'a option \<Rightarrow> 'a \<Rightarrow> bool" where
  "changes new old \<longleftrightarrow> (case new of None \<Rightarrow> False | Some v \<Rightarrow> old \<noteq> v)"

definition acl_changes :: "managed_update \<Rightarrow> user_row \<Rightarrow> bool" where
  "acl_changes i u \<longleftrightarrow> (case muModels i of None \<Rightarrow> False | Some ms \<Rightarrow> \<not> sameManagedUserACL (uAllowedModels u) ms)"

definition security_changes :: "managed_update \<Rightarrow> user_row \<Rightarrow> bool" where
  "security_changes i u \<longleftrightarrow> changes (muStatus i) (uStatus u) \<or> changes (muPlan i) (uPlan u) \<or> acl_changes i u"

text \<open>The row that \<open>target\<close> becomes, and the columns written to the database.\<close>

definition managed_user :: "managed_update \<Rightarrow> user_row \<Rightarrow> user_row" where
  "managed_user i u =
     u\<lparr>uStatus := (case muStatus i of None \<Rightarrow> uStatus u | Some v \<Rightarrow> v), uPlan := (case muPlan i of None \<Rightarrow> uPlan u | Some v \<Rightarrow> v),
       uAllowedModels := (if acl_changes i u then the (muModels i) else uAllowedModels u),
       uDailyLimit := (case muLimit i of None \<Rightarrow> uDailyLimit u | Some v \<Rightarrow> v),
       uAuthVersion := (if security_changes i u then uAuthVersion u + 1 else uAuthVersion u)\<rparr>"

definition write_managed :: "user_row \<Rightarrow> int \<Rightarrow> int option \<Rightarrow> user_row \<Rightarrow> user_row" where
  "write_managed u stamp by r =
     r\<lparr>uStatus := uStatus u, uPlan := uPlan u, uAllowedModels := uAllowedModels u, uDailyLimit := uDailyLimit u,
       uAuthVersion := uAuthVersion u, rUpdatedAt := stamp, rUpdatedBy := by\<rparr>"

text \<open>The error of the transaction is passed on if it is an HTTP error, else it is unavailability.\<close>

definition http_error :: "auth_error \<Rightarrow> auth_error" where
  "http_error er = (if er = Internal then Unavailable else er)"

definition map_error :: "'a act \<Rightarrow> 'a act" where
  "map_error m w = (case m w of (Inl er, w') \<Rightarrow> (Inl (http_error er), w') | (Inr a, w') \<Rightarrow> (Inr a, w'))"

definition security_part :: "auth_env \<Rightarrow> managed_update \<Rightarrow> user_row \<Rightarrow> user_row \<Rightarrow> unit act" where
  "security_part env i actor target =
     (if security_changes i target then
        seq (check (uAuthVersion target < maxInt32) Unavailable) (\<lambda>_.
        seq (or_error (CheckAvailable env) Unavailable) (\<lambda>_.
        or_error (revokeUserSessionsLocked env target (rID actor)
          (if changes (muStatus i) (uStatus target) \<and> muStatus i = Some UserStatusDisabled
           then AuthAuditEventUserDisabled else AuthAuditEventSessionRevoked)) Unavailable))
      else ok ())"

definition UpdateManagedUser :: "auth_env \<Rightarrow> int \<Rightarrow> int \<Rightarrow> managed_update \<Rightarrow> user_row act" where
  "UpdateManagedUser env actorID targetGUID i =
     (case validateManagedUserUpdateInput i of
        Some er \<Rightarrow> fail_with er
      | None \<Rightarrow>
          map_error (transaction env (
            seq (or_error (sql_read env (\<lambda>t. sql_first (live_user actorID) (tUsers t))) Unavailable) (\<lambda>found.
            seq (from_option found Forbidden) (\<lambda>actor.
            seq (or_error (sql_read env (\<lambda>t. sql_first (\<lambda>u. rGUID u = targetGUID \<and> rDeleted u = 0) (tUsers t))) Unavailable) (\<lambda>found.
            seq (from_option found NotFound) (\<lambda>target.
            seq (check (isManagedActorRole (uRole actor) \<and> isManagedTargetRole (uRole target)) Forbidden) (\<lambda>_.
            seq (check (CanManageUser actor target) Forbidden) (\<lambda>_.
            seq (check (0 < uAuthVersion actor \<and> 0 < uAuthVersion target) Unavailable) (\<lambda>_.
            seq (security_part env i actor target) (\<lambda>_.
            if \<not> security_changes i target \<and> \<not> changes (muLimit i) (uDailyLimit target) then ok target
            else seq (clock_now env) (\<lambda>stamp.
              let u = managed_user i target in
              seq (or_error (update_user env (rID target) (write_managed u stamp (touched_by (rID actor)))) Unavailable) (\<lambda>_.
              seq (or_error (account_event env (rID actor) (rID target) AuthAuditEventManagedUserUpdated) Unavailable) (\<lambda>_.
              ok (u\<lparr>rUpdatedAt := stamp, rUpdatedBy := touched_by (rID actor)\<rparr>)))))))))))))))"

lemma map_error_Inr [act_simps]: "map_error m w = (Inr b, w2) \<longleftrightarrow> m w = (Inr b, w2)"
  by (auto simp: map_error_def split: prod.splits sum.splits)

end
