(* ===== verification/Auth_Login.thy ===== *)
theory Auth_Login
  imports Auth_Account
begin

text \<open>
  Accounts and logins (\<open>service/auth.go\<close>) and the access tokens they end in (\<open>security/security.go\<close>,
  \<open>middleware/jwt.go\<close>, \<open>middleware/middleware.go\<close>).  The JWT library is not under \<open>src/\<close>: it signs the claims of a
  token and reads them back.  A nil service or an unset database is a start-up error and has no model.
\<close>

section \<open>Names\<close>

definition name_char :: "char \<Rightarrow> bool" where
  "name_char c \<longleftrightarrow> (97 \<le> byte c \<and> byte c \<le> 122) \<or> (65 \<le> byte c \<and> byte c \<le> 90) \<or> (48 \<le> byte c \<and> byte c \<le> 57) \<or>
     c = CHR ''_'' \<or> c = CHR ''-''"

text \<open>The loop over runes stops at the first byte that is no ASCII letter, digit, underscore or hyphen.\<close>

definition NormalizeUsername :: "bytes \<Rightarrow> bytes option" where
  "NormalizeUsername raw =
     (let username = trim_space raw in
      if length username < 3 \<or> 20 < length username then None
      else if list_all name_char username then Some username else None)"

definition NormalizeManagedUserNickname :: "bytes \<Rightarrow> bytes option" where
  "NormalizeManagedUserNickname raw =
     (let nickname = trim_space raw in
      if nickname = [] \<or> \<not> utf8_valid nickname \<or> 64 < rune_count nickname then None else Some nickname)"

definition HashManagedCreationPassword :: "auth_env \<Rightarrow> bytes \<Rightarrow> bytes act" where
  "HashManagedCreationPassword env p = seq (check (ValidatePassword p) BadRequest) (\<lambda>_. HashPassword env p)"

definition HashManagedCreationPasswordBytes :: "auth_env \<Rightarrow> bytes \<Rightarrow> bytes act" where
  "HashManagedCreationPasswordBytes env p = seq (check (ValidatePasswordBytes p) BadRequest) (\<lambda>_. HashPassword env p)"

section \<open>Registration\<close>

record business_group = audit_fields +
  bgKey :: bytes
  bgStatus :: int

abbreviation BusinessGroupStatusActive :: int where "BusinessGroupStatusActive \<equiv> 1"
abbreviation PlanFree :: int where "PlanFree \<equiv> 1"
abbreviation LoginMethodPassword :: int where "LoginMethodPassword \<equiv> 1"

text \<open>The groups are read and locked only: an argument of the operations.\<close>

definition lockCanonicalDefaultBusinessGroup :: "auth_env \<Rightarrow> collation \<Rightarrow> business_group list \<Rightarrow> int act" where
  "lockCanonicalDefaultBusinessGroup env same groups =
     seq (sql_read env (\<lambda>_. sql_find (\<lambda>g. same (bgKey g) ''default'' \<and> rDeleted g = 0) groups)) (\<lambda>found.
     case found of
       [g] \<Rightarrow> if rID g \<le> 0 \<or> rGUID g \<le> 0 \<or> bgKey g \<noteq> ''default'' \<or> bgStatus g \<noteq> BusinessGroupStatusActive \<or> rDeleted g \<noteq> 0
              then fail_with Internal else ok (rID g)
     | _ \<Rightarrow> fail_with Internal)"

definition same_username :: "collation \<Rightarrow> bytes \<Rightarrow> user_row \<Rightarrow> bool" where
  "same_username same name u \<longleftrightarrow> (case uUsername u of None \<Rightarrow> False | Some n \<Rightarrow> same n name)"

text \<open>The unique indexes of \<open>users\<close>; the new rows have no phone.\<close>

definition insert_user :: "collation \<Rightarrow> user_row \<Rightarrow> tables \<Rightarrow> (user_row \<times> tables) option" where
  "insert_user same u t =
     (if \<exists>r \<in> set (tUsers t). rGUID r = rGUID u \<or> (case uUsername u of None \<Rightarrow> False | Some n \<Rightarrow> same_username same n r) then None
      else Some (u\<lparr>rID := tNextID t\<rparr>, t\<lparr>tUsers := tUsers t @ [u\<lparr>rID := tNextID t\<rparr>], tNextID := tNextID t + 1\<rparr>))"

text \<open>The daily limit is the default of its column.\<close>

definition new_user :: "audit_fields \<Rightarrow> int \<Rightarrow> bytes \<Rightarrow> bytes \<Rightarrow> bytes \<Rightarrow> int \<Rightarrow> user_row" where
  "new_user f gid username hash nickname role =
     audit_fields.extend f \<lparr>uGroup = gid, uPhone = None, uUsername = Some username, uPasswordHash = Some hash,
       uNickname = Some nickname, uRealName = None, uIDCardHash = None, uVerified = False, uPlan = PlanFree,
       uStatus = UserStatusActive, uRole = role, uAuthVersion = 1, uLastLoginAt = None, uAllowedModels = Some [],
       uDailyLimit = 100, uDailyUsed = 0, uDailyResetAt = None, uTotalTokens = 0\<rparr>"

definition insert_account :: "auth_env \<Rightarrow> collation \<Rightarrow> business_group list \<Rightarrow> (int \<Rightarrow> user_row) \<Rightarrow> user_row act" where
  "insert_account env same groups account =
     seq (lockCanonicalDefaultBusinessGroup env same groups) (\<lambda>gid.
     seq (sql_insert env (insert_user same (account gid))) (\<lambda>user.
     seq (auditFields env (Some (rID user))) (\<lambda>f.
     seq (sql_write env (insert_auth_event (audit_fields.extend f
       \<lparr>evUser = Some (rID user), evSession = None, evType = AuthAuditEventRegistered, evLoginMethod = Some LoginMethodPassword,
        evIP = None, evUserAgent = None\<rparr>))) (\<lambda>_. ok user))))"

definition RegisterUsername ::
    "auth_env \<Rightarrow> collation \<Rightarrow> business_group list \<Rightarrow> bytes \<Rightarrow> bytes \<Rightarrow> bytes option \<Rightarrow> user_row act" where
  "RegisterUsername env same groups rawUsername password nickname =
     seq (check (stRegisterEnabled (aeSettings env) \<and> stPasswordRegister (aeSettings env)) Forbidden) (\<lambda>_.
     seq (CheckAvailable env) (\<lambda>_.
     seq (from_option (NormalizeUsername rawUsername) BadRequest) (\<lambda>username.
     seq (check (ValidatePassword password) BadRequest) (\<lambda>_.
     seq (HashPassword env password) (\<lambda>hash.
     let nick = (case nickname of None \<Rightarrow> username | Some n \<Rightarrow> if trim_space n = [] then username else trim_space n) in
     seq (auditFields env None) (\<lambda>f.
     transaction env (
       seq (sql_read env (\<lambda>t. sql_first (same_username same username) (tUsers t))) (\<lambda>existing.
       seq (check (existing = None) Conflict) (\<lambda>_.
       insert_account env same groups (\<lambda>gid. new_user f gid username hash nick UserRoleUser))))))))))"

text \<open>
  \<open>BootstrapRoot\<close>: \<open>lock\<close> is the answer of \<open>GET_LOCK\<close>, \<open>None\<close> its failure.  The result says which account was
  created; on success the in-memory credentials are cleared, so the second component is the settings that remain.
\<close>

definition BootstrapRoot ::
    "auth_env \<Rightarrow> collation \<Rightarrow> business_group list \<Rightarrow> int option \<Rightarrow> (user_row option \<times> settings) act" where
  "BootstrapRoot env same groups lock =
     (let st = aeSettings env in
      if stRootUsername st = [] \<or> stRootPassword st = [] then ok (None, st)
      else
        seq (from_option (NormalizeUsername (stRootUsername st)) BadRequest) (\<lambda>username.
        seq (check (ValidatePassword (stRootPassword st)) BadRequest) (\<lambda>_.
        seq (HashPassword env (stRootPassword st)) (\<lambda>hash.
        seq (auditFields env None) (\<lambda>f.
        seq (check (lock = Some 1) Internal) (\<lambda>_.
        seq (transaction env (
          seq (sql_read env (\<lambda>t. sql_affected (\<lambda>u. uRole u = UserRoleRoot) (tUsers t))) (\<lambda>roots.
          if 0 < roots then ok None
          else seq (insert_account env same groups (\<lambda>gid. new_user f gid username hash username UserRoleRoot)) (\<lambda>root.
               ok (Some root))))) (\<lambda>created.
        ok (created, st\<lparr>stRootUsername := [], stRootPassword := []\<rparr>))))))))"

section \<open>Access tokens\<close>

text \<open>A claim: a number is a \<open>float64\<close>, here its value if that is an integer; anything else is \<open>ClOther\<close>.\<close>

datatype claim = ClString bytes | ClNumber int | ClOther

type_synonym claims = "(bytes \<times> claim) list"

record jwt_lib =
  jwSign :: "bytes \<Rightarrow> claims \<Rightarrow> bytes option"
  jwVerify :: "bytes \<Rightarrow> int \<Rightarrow> bytes \<Rightarrow> claims option"

definition access_claims :: "user_row \<Rightarrow> session_row \<Rightarrow> int \<Rightarrow> int \<Rightarrow> claims" where
  "access_claims user session minutes now =
     [(''sub'', ClString (format_int (rGUID user))), (''iat'', ClNumber (now div 1000)),
      (''exp'', ClNumber ((now + minutes * 60000) div 1000)), (''sid'', ClString (sSID session)),
      (''sv'', ClNumber (sVersion session)), (''av'', ClNumber (uAuthVersion user)), (''role'', ClNumber (uRole user))]"

definition makeToken :: "auth_env \<Rightarrow> jwt_lib \<Rightarrow> bytes \<Rightarrow> user_row \<Rightarrow> session_row \<Rightarrow> bytes act" where
  "makeToken env jwt secret user session =
     seq (check (\<not> (rGUID user \<le> 0 \<or> sSID session = [] \<or> sVersion session \<le> 0 \<or> uAuthVersion user \<le> 0 \<or> uRole user < UserRoleUser))
       Internal) (\<lambda>_.
     let st = aeSettings env; minutes = (if stAccessMinutes st \<le> 0 then stJWTMinutes st else stAccessMinutes st) in
     seq (clock_now env) (\<lambda>now.
     from_option (jwSign jwt secret (access_claims user session minutes now)) Internal))"

section \<open>Login\<close>

text \<open>The account of a login: the row the collation finds, if its password and its status allow it.\<close>

definition password_matches :: "auth_env \<Rightarrow> bytes \<Rightarrow> user_row \<Rightarrow> bool" where
  "password_matches env password u \<longleftrightarrow>
     (case uPasswordHash u of None \<Rightarrow> False | Some h \<Rightarrow> VerifyPassword env password h) \<and> uStatus u = UserStatusActive"

definition login_account :: "auth_env \<Rightarrow> collation \<Rightarrow> bytes \<Rightarrow> bytes \<Rightarrow> user_row act" where
  "login_account env same username password =
     seq (sql_read env (\<lambda>t. sql_first (\<lambda>u. same_username same username u \<and> rDeleted u = 0) (tUsers t))) (\<lambda>found.
     seq (from_option found Unauthorized) (\<lambda>u. seq (check (password_matches env password u) Unauthorized) (\<lambda>_. ok u)))"

definition LoginUsername ::
    "auth_env \<Rightarrow> collation \<Rightarrow> jwt_lib \<Rightarrow> bytes \<Rightarrow> bytes \<Rightarrow> bytes \<Rightarrow> session_input \<Rightarrow> (user_row \<times> issued_session \<times> bytes) act" where
  "LoginUsername env same jwt secret rawUsername password input =
     seq (check (stPasswordLogin (aeSettings env)) Unauthorized) (\<lambda>_.
     seq (from_option (NormalizeUsername rawUsername) Unauthorized) (\<lambda>username.
     seq (or_error (CheckLoginAllowed env username (siIP input)) Unauthorized) (\<lambda>_.
     seq (\<lambda>w. case login_account env same username password w of
            (Inl _, w') \<Rightarrow> (Inl Unauthorized, snd (RecordLoginFailure env username (siIP input) w'))
          | (Inr u, w') \<Rightarrow> (Inr u, w')) (\<lambda>user.
     seq (or_error (ClearLoginFailures env username (siIP input)) Unauthorized) (\<lambda>_.
     seq (Create_session env same user input) (\<lambda>issued.
     seq (makeToken env jwt secret user (isSession issued)) (\<lambda>token.
     ok (user, issued, token))))))))"

section \<open>Authentication of a request\<close>

record session_claims =
  scUser :: int
  scSID :: bytes
  scVersion :: int
  scAuthVersion :: int
  scRole :: int

text \<open>The conversion of 2 ^ 63 to an \<open>int\<close> is left to the implementation, which no claim of the server reaches.\<close>

definition integerClaim :: "claim option \<Rightarrow> int option" where
  "integerClaim c = (case c of Some (ClNumber n) \<Rightarrow> if n < 1 \<or> maxInt64 < n then None else Some n | _ \<Rightarrow> None)"

definition validRole :: "int \<Rightarrow> bool" where
  "validRole r \<longleftrightarrow> r = UserRoleUser \<or> r = UserRoleAdmin \<or> r = UserRoleRoot"

definition hasMinimumRole :: "int \<Rightarrow> int \<Rightarrow> bool" where
  "hasMinimumRole r minimum \<longleftrightarrow> validRole r \<and> validRole minimum \<and> minimum \<le> r"

fun validSID_from :: "nat \<Rightarrow> bytes \<Rightarrow> bool" where
  "validSID_from i [] = True"
| "validSID_from i (c # s) =
     ((if i \<in> {8, 13, 18, 23} then c = CHR ''-'' else is_lower_hex c) \<and> validSID_from (Suc i) s)"

definition validSID :: "bytes \<Rightarrow> bool" where
  "validSID sid \<longleftrightarrow> length sid = 36 \<and> validSID_from 0 sid"

definition string_claim :: "claim option \<Rightarrow> bytes option" where
  "string_claim c = (case c of Some (ClString s) \<Rightarrow> Some s | _ \<Rightarrow> None)"

definition parseSessionClaims :: "claims \<Rightarrow> session_claims option" where
  "parseSessionClaims cs =
     Option.bind (string_claim (map_of cs ''sub'')) (\<lambda>sub.
     Option.bind (parse_int64 sub) (\<lambda>guid.
     if guid \<le> 0 then None else
     Option.bind (string_claim (map_of cs ''sid'')) (\<lambda>sid.
     if \<not> validSID sid then None else
     Option.bind (integerClaim (map_of cs ''sv'')) (\<lambda>sv.
     Option.bind (integerClaim (map_of cs ''av'')) (\<lambda>av.
     Option.bind (integerClaim (map_of cs ''role'')) (\<lambda>role.
     if \<not> validRole role then None
     else Some \<lparr>scUser = guid, scSID = sid, scVersion = sv, scAuthVersion = av, scRole = role\<rparr>))))))"

definition BearerToken :: "bytes \<Rightarrow> bytes" where
  "BearerToken auth =
     (if auth = [] \<or> map lower_char (take 7 auth) \<noteq> ''bearer '' then [] else trim_space (drop 7 auth))"

definition claims_hold :: "session_claims \<Rightarrow> user_row \<Rightarrow> bool" where
  "claims_hold c u \<longleftrightarrow> uStatus u = UserStatusActive \<and> uAuthVersion u = scAuthVersion c \<and> uRole u = scRole c"

text \<open>What an authenticated request carries in its context.\<close>

record request_user =
  ruUser :: user_row
  ruSID :: bytes
  ruVersion :: int

definition authenticateClaims :: "auth_env \<Rightarrow> collation \<Rightarrow> session_claims \<Rightarrow> request_user act" where
  "authenticateClaims env same c =
     seq (sql_read env (\<lambda>t. sql_first (\<lambda>u. rGUID u = scUser c \<and> rDeleted u = 0) (tUsers t))) (\<lambda>found.
     seq (from_option found Unauthorized) (\<lambda>u.
     seq (check (claims_hold c u) Unauthorized) (\<lambda>_.
     seq (Validate_session env same (scSID c) (rID u) (scVersion c) (scAuthVersion c)) (\<lambda>_.
     ok \<lparr>ruUser = u, ruSID = scSID c, ruVersion = scVersion c\<rparr>))))"

definition authenticateUser :: "auth_env \<Rightarrow> collation \<Rightarrow> jwt_lib \<Rightarrow> bytes \<Rightarrow> bytes \<Rightarrow> request_user act" where
  "authenticateUser env same jwt secret auth =
     or_error (
       let token = BearerToken auth in
       seq (check (token \<noteq> []) Unauthorized) (\<lambda>_.
       seq (clock_now env) (\<lambda>now.
       seq (from_option (jwVerify jwt secret now token) Unauthorized) (\<lambda>cs.
       seq (from_option (parseSessionClaims cs) Unauthorized) (authenticateClaims env same))))) Unauthorized"

definition RequireAdmin :: "auth_env \<Rightarrow> collation \<Rightarrow> jwt_lib \<Rightarrow> bytes \<Rightarrow> bytes \<Rightarrow> request_user act" where
  "RequireAdmin env same jwt secret auth =
     seq (authenticateUser env same jwt secret auth) (\<lambda>r. seq (check (hasMinimumRole (uRole (ruUser r)) UserRoleAdmin) Forbidden) (\<lambda>_. ok r))"

definition RequireRoot :: "auth_env \<Rightarrow> collation \<Rightarrow> jwt_lib \<Rightarrow> bytes \<Rightarrow> bytes \<Rightarrow> request_user act" where
  "RequireRoot env same jwt secret auth =
     seq (authenticateUser env same jwt secret auth) (\<lambda>r. seq (check (hasMinimumRole (uRole (ruUser r)) UserRoleRoot) Forbidden) (\<lambda>_. ok r))"

definition hasAnalyticsAccess :: "user_row option \<Rightarrow> bool" where
  "hasAnalyticsAccess u = (case u of None \<Rightarrow> False | Some u \<Rightarrow> hasMinimumRole (uRole u) UserRoleAdmin)"

end
