(* ===== verification/Auth_Logic.thy ===== *)
theory Auth_Logic
  imports Auth_Login
begin

text \<open>
  Reasoning about every outcome of an authentication operation: the condition that must hold before it for all its
  outcomes, failures included, to be as wanted, and the relations between the tables before and after that all
  operations keep.
\<close>

section \<open>All outcomes of a run\<close>

definition wp :: "'a act \<Rightarrow> (auth_work \<Rightarrow> bool) \<Rightarrow> ('a \<Rightarrow> auth_work \<Rightarrow> bool) \<Rightarrow> auth_work \<Rightarrow> bool" where
  "wp m E N w \<longleftrightarrow> (case m w of (Inl er, w') \<Rightarrow> E w' | (Inr a, w') \<Rightarrow> N a w')"

named_theorems wp_simps \<open>conditions for all outcomes of a step\<close>

lemma wp_ok [wp_simps]: "wp (ok a) E N w \<longleftrightarrow> N a w"
  by (simp add: wp_def ok_def)

lemma wp_fail [wp_simps]: "wp (fail_with er) E N w \<longleftrightarrow> E w"
  by (simp add: wp_def fail_with_def)

lemma wp_seq [wp_simps]: "wp (seq m f) E N w \<longleftrightarrow> wp m E (\<lambda>a. wp (f a) E N) w"
  by (auto simp: wp_def seq_def split: prod.splits sum.splits)

lemma wp_or_error [wp_simps]: "wp (or_error m er) E N w \<longleftrightarrow> wp m E N w"
  by (auto simp: wp_def or_error_def split: prod.splits sum.splits)

lemma wp_map_error [wp_simps]: "wp (map_error m) E N w \<longleftrightarrow> wp m E N w"
  by (auto simp: wp_def map_error_def split: prod.splits sum.splits)

lemma wp_check [wp_simps]: "wp (check b er) E N w \<longleftrightarrow> (if b then N () w else E w)"
  by (simp add: check_def wp_ok wp_fail)

lemma wp_from_option [wp_simps]: "wp (from_option x er) E N w \<longleftrightarrow> (case x of None \<Rightarrow> E w | Some a \<Rightarrow> N a w)"
  by (simp add: from_option_def wp_ok wp_fail split: option.split)

lemma wp_clock [wp_simps]: "wp (clock_now env) E N w \<longleftrightarrow> N (aeNow env (awNow w)) (w\<lparr>awNow := awNow w + 1\<rparr>)"
  by (simp add: wp_def clock_now_def)

lemma wp_read [wp_simps]:
  "wp (sql_read env f) E N w \<longleftrightarrow>
     (let w' = w\<lparr>awStatements := awStatements w + 1\<rparr> in if aeSQL env (awStatements w) then E w' else N (f (awTables w)) w')"
  by (simp add: wp_def sql_read_def Let_def)

lemma wp_insert [wp_simps]:
  "wp (sql_insert env f) E N w \<longleftrightarrow>
     (let w' = w\<lparr>awStatements := awStatements w + 1\<rparr> in
      if aeSQL env (awStatements w) then E w'
      else case f (awTables w) of None \<Rightarrow> E w' | Some (a, t) \<Rightarrow> N a (w'\<lparr>awTables := t\<rparr>))"
  by (auto simp: wp_def sql_insert_def Let_def split: option.split)

lemma wp_write [wp_simps]:
  "wp (sql_write env f) E N w \<longleftrightarrow>
     (let w' = w\<lparr>awStatements := awStatements w + 1\<rparr> in
      if aeSQL env (awStatements w) then E w'
      else case f (awTables w) of None \<Rightarrow> E w' | Some t \<Rightarrow> N () (w'\<lparr>awTables := t\<rparr>))"
  by (auto simp: sql_write_def wp_insert Let_def split: option.split)

lemma wp_transaction [wp_simps]:
  "wp (transaction env m) E N w \<longleftrightarrow>
     wp m (\<lambda>w'. E (w'\<lparr>awTables := awTables w\<rparr>))
       (\<lambda>a w'. case aeCommit env of CommitOK \<Rightarrow> N a w' | CommitLost \<Rightarrow> E (w'\<lparr>awTables := awTables w\<rparr>) | CommitUnacknowledged \<Rightarrow> E w') w"
  by (auto simp: wp_def transaction_def split: prod.split sum.split commit_result.split)

lemma wp_keeps:
  assumes "keeps R m" "\<And>w'. R w w' \<Longrightarrow> E w'" "\<And>a w'. R w w' \<Longrightarrow> N a w'"
  shows "wp m E N w"
proof -
  have "R w (snd (m w))" using assms(1) unfolding keeps_def by blast
  then show ?thesis using assms(2,3) by (auto simp: wp_def split: prod.split sum.split)
qed

lemma keeps_wp: "keeps R m \<longleftrightarrow> (\<forall>w. wp m (R w) (\<lambda>a. R w) w)"
proof -
  have "(case x of Inl _ \<Rightarrow> c | Inr _ \<Rightarrow> c) = c" for x :: "auth_error + 'a" and c :: bool by (cases x) simp_all
  then show ?thesis by (simp add: keeps_def wp_def case_prod_beta)
qed

section \<open>Steps that leave the accounts alone\<close>

definition same_users :: "auth_work \<Rightarrow> auth_work \<Rightarrow> bool" where
  "same_users w w' \<longleftrightarrow> tUsers (awTables w') = tUsers (awTables w)"

lemma insert_auth_event_some:
  "insert_auth_event ev t = Some t' \<longleftrightarrow>
     (\<forall>e \<in> set (tEvents t). rGUID e \<noteq> rGUID ev) \<and> t' = t\<lparr>tEvents := tEvents t @ [ev\<lparr>rID := tNextID t\<rparr>], tNextID := tNextID t + 1\<rparr>"
  by (auto simp: insert_auth_event_def insert_event_def)

lemma insert_session_some:
  "insert_session same s t = Some (s', t') \<longleftrightarrow>
     \<not> (\<exists>r \<in> set (tSessions t). rGUID r = rGUID s \<or> same (sSID r) (sSID s)) \<and> s' = s\<lparr>rID := tNextID t\<rparr> \<and>
     t' = t\<lparr>tSessions := tSessions t @ [s\<lparr>rID := tNextID t\<rparr>], tNextID := tNextID t + 1\<rparr>"
  by (auto simp: insert_session_def)

lemma insert_user_some:
  "insert_user same u t = Some (u', t') \<longleftrightarrow>
     \<not> (\<exists>r \<in> set (tUsers t). rGUID r = rGUID u \<or> (case uUsername u of None \<Rightarrow> False | Some n \<Rightarrow> same_username same n r)) \<and>
     u' = u\<lparr>rID := tNextID t\<rparr> \<and> t' = t\<lparr>tUsers := tUsers t @ [u\<lparr>rID := tNextID t\<rparr>], tNextID := tNextID t + 1\<rparr>"
  by (auto simp: insert_user_def)

section \<open>Relations of the tables that every operation keeps\<close>

text \<open>A change of an account that is not about its identity.\<close>

definition keeps_identity :: "(user_row \<Rightarrow> user_row) \<Rightarrow> bool" where
  "keeps_identity f \<longleftrightarrow> (\<forall>r. rID (f r) = rID r \<and> rGUID (f r) = rGUID r)"

definition set_users :: "(user_row list \<Rightarrow> user_row list) \<Rightarrow> auth_work \<Rightarrow> auth_work" where
  "set_users f w = w\<lparr>awTables := (awTables w)\<lparr>tUsers := f (tUsers (awTables w))\<rparr>\<rparr>"

definition set_sessions :: "(session_row list \<Rightarrow> session_row list) \<Rightarrow> auth_work \<Rightarrow> auth_work" where
  "set_sessions f w = w\<lparr>awTables := (awTables w)\<lparr>tSessions := f (tSessions (awTables w))\<rparr>\<rparr>"

text \<open>What a relation must allow for a revocation: Redis commands, audit events, revoked rows.\<close>

locale revoke_order = step_order R for R :: "auth_work \<Rightarrow> auth_work \<Rightarrow> bool" +
  assumes any_redis: "R w (w\<lparr>awRedis := r\<rparr>)"
    and new_event: "insert_auth_event ev (awTables w) = Some t \<Longrightarrow> R w (w\<lparr>awTables := t\<rparr>)"
    and revocation: "R w (set_sessions (sql_update (unrevoked i) (revoke_row now stamp by)) w)"
begin

lemma keeps_redis [simp]: "keeps R (redis_command env f)"
  by (intro keeps_command any_redis)

lemma keeps_event [simp]: "keeps R (sql_write env (insert_auth_event ev))"
  by (intro keeps_write) (rule new_event)

lemma keeps_if: "keeps R m \<Longrightarrow> keeps R n \<Longrightarrow> keeps R (if b then m else n)"
  by simp

lemma keeps_auditFields [simp]: "keeps R (auditFields env actor)"
  unfolding auditFields_def by (intro keeps_seq) simp_all

lemma keeps_writeAuthAudit [simp]: "keeps R (writeAuthAudit env uid session type meth input)"
  unfolding writeAuthAudit_def by (intro keeps_seq) simp_all

lemma keeps_Mark [simp]: "keeps R (MarkSessionRevoked env sid ttl)"
  by (simp add: MarkSessionRevoked_def)

lemma keeps_IsRevoked [simp]: "keeps R (IsSessionRevoked env sid)"
  by (simp add: IsSessionRevoked_def)

lemma keeps_Available [simp]: "keeps R (CheckAvailable env)"
  by (simp add: CheckAvailable_def)

lemma keeps_ready [simp]: "keeps R (ready env)"
  by (simp add: ready_def Let_def)

lemma keeps_revokeLocked [simp]: "keeps R (revokeLocked env s actor type input)"
  using revocation unfolding revokeLocked_def set_sessions_def
  by (intro keeps_if keeps_seq keeps_ok keeps_clock keeps_auditFields keeps_event keeps_write) auto

lemma keeps_each_simp [simp]: "(\<And>x. keeps R (f x)) \<Longrightarrow> keeps R (each f xs)"
  by (rule keeps_each)

lemma keeps_revokeUser [simp]: "keeps R (revokeUserSessionsLocked env user actor type)"
  unfolding revokeUserSessionsLocked_def by (intro keeps_seq) simp_all

end

text \<open>What a relation must allow for the other operations: the remaining kinds of write.\<close>

locale table_order = revoke_order R for R :: "auth_work \<Rightarrow> auth_work \<Rightarrow> bool" +
  fixes same :: collation
  assumes new_session: "insert_session same s (awTables w) = Some (s', t) \<Longrightarrow> R w (w\<lparr>awTables := t\<rparr>)"
    and new_account: "insert_user same u (awTables w) = Some (u', t) \<Longrightarrow> R w (w\<lparr>awTables := t\<rparr>)"
    and rotation: "R w (set_sessions (sql_update (current_secret s) (rotated_row h p d now stamp by)) w)"
    and plain_change: "keeps_identity f \<Longrightarrow> (\<And>r. uAuthVersion (f r) = uAuthVersion r) \<Longrightarrow> R w (set_users (sql_update (live_user i) f) w)"
    and version_change: "keeps_identity f \<Longrightarrow> u \<in> set (tUsers (awTables w)) \<Longrightarrow> (\<And>r. uAuthVersion u \<le> uAuthVersion (f r)) \<Longrightarrow>
      R w (set_users (sql_update (live_user (rID u)) f) w)"

interpretation same_users: revoke_order same_users
  by unfold_locales (auto simp: same_users_def set_sessions_def insert_auth_event_some)

section \<open>Every operation keeps such a relation\<close>

context table_order begin

lemma keeps_prod: "(\<And>x y. keeps R (f x y)) \<Longrightarrow> keeps R (case p of (x, y) \<Rightarrow> f x y)"
  by (cases p) simp

lemma keeps_option: "keeps R m \<Longrightarrow> (\<And>x. keeps R (f x)) \<Longrightarrow> keeps R (case a of None \<Rightarrow> m | Some x \<Rightarrow> f x)"
  by (cases a) simp_all

lemma keeps_list: "keeps R m \<Longrightarrow> (\<And>x xs. keeps R (f x xs)) \<Longrightarrow> keeps R (case l of [] \<Rightarrow> m | x # xs \<Rightarrow> f x xs)"
  by (cases l) simp_all

lemmas steps = keeps_seq keeps_if keeps_prod keeps_option keeps_list keeps_each keeps_or_error keeps_transaction

lemma keeps_plain_change:
  assumes "keeps_identity f" "\<And>r. uAuthVersion (f r) = uAuthVersion r"
  shows "keeps R (sql_write env (\<lambda>t. Some (t\<lparr>tUsers := sql_update (live_user i) f (tUsers t)\<rparr>)))"
  using plain_change[OF assms] by (intro keeps_write) (auto simp: set_users_def)

lemma keeps_insert_session [simp]: "keeps R (sql_insert env (insert_session same s))"
  by (intro keeps_insert) (rule new_session)

lemma keeps_insert_user [simp]: "keeps R (sql_insert env (insert_user same u))"
  by (intro keeps_insert) (rule new_account)

lemma keeps_rotation [simp]:
  "keeps R (sql_write env (\<lambda>t. Some (t\<lparr>tSessions := sql_update (current_secret s) (rotated_row h p d now stamp by) (tSessions t)\<rparr>)))"
  using rotation by (intro keeps_write) (auto simp: set_sessions_def)

lemma keeps_redis_operations [simp]:
  "keeps R (CheckLoginAllowed env username ip)" "keeps R (record_failure env kind v)" "keeps R (ClearLoginFailures env username ip)"
  "keeps R (ReserveSessionIssue env uid limit)" "keeps R (encrypt_rotation env sid plain)"
  "keeps R (StorePendingRotation env sid target token ttl)" "keeps R (RecoverRotationResult env sid target ttl)"
  unfolding CheckLoginAllowed_def record_failure_def ClearLoginFailures_def ReserveSessionIssue_def Let_def
    encrypt_rotation_def StorePendingRotation_def RecoverRotationResult_def
  by ((intro steps)?; simp)+

lemma keeps_RecordLoginFailure [simp]: "keeps R (RecordLoginFailure env username ip)"
  unfolding RecordLoginFailure_def by (intro steps) simp_all

lemma keeps_secrets [simp]: "keeps R (NewRefreshSecret env)" "keeps R (NewSessionSID env)" "keeps R (HashPassword env p)"
  unfolding NewRefreshSecret_def NewSessionSID_def HashPassword_def by ((intro steps)?; simp)+

lemma keeps_evict_oldest [simp]: "keeps R (evict_oldest env uid now active input)"
  unfolding evict_oldest_def by (intro steps) simp_all

lemma keeps_create_tx [simp]: "keeps R (create_tx env same uid input sid secret now expires)"
  unfolding create_tx_def Let_def
  by (intro steps keeps_plain_change; simp add: keeps_identity_def)

lemma keeps_Create: "keeps R (Create_session env same user input)"
  unfolding Create_session_def by ((intro steps)?; simp)

lemma keeps_rotate [simp]: "keeps R (rotate env session sid now)"
  unfolding rotate_def Let_def by ((intro steps)?; simp)

lemma keeps_refresh_tx [simp]: "keeps R (refresh_tx env same sid presented now)"
  unfolding refresh_tx_def by ((intro steps)?; simp)

lemma keeps_Refresh: "keeps R (Refresh_session env same token)"
  unfolding Refresh_session_def by ((intro steps)?; simp)

lemma keeps_revocations:
  "keeps R (Revoke_session env uid guid)" "keeps R (RevokeOthers env same uid keep)"
  unfolding Revoke_session_def RevokeOthers_def mark_all_def by ((intro steps)?; simp)+

lemma keeps_reads:
  "keeps R (List_sessions env uid v)" "keeps R (Validate_session env same sid uid sv av)"
  unfolding List_sessions_def Validate_session_def by ((intro steps)?; simp)+

end

section \<open>Writes based on a row that was read\<close>

text \<open>The version an account is given is computed from the row read before, which is still there.\<close>

definition yields_user :: "user_row act \<Rightarrow> bool" where
  "yields_user m \<longleftrightarrow> (\<forall>w u w'. m w = (Inr u, w') \<longrightarrow> u \<in> set (tUsers (awTables w')))"

lemma yields_first:
  "yields_user (or_error (seq (sql_read env (\<lambda>t. sql_first P (tUsers t))) (\<lambda>found. from_option found er)) er')"
  "yields_user (seq (sql_read env (\<lambda>t. sql_first P (tUsers t))) (\<lambda>found. from_option found er))"
  "yields_user (seq (or_error (sql_read env (\<lambda>t. sql_first P (tUsers t))) er') (\<lambda>found. from_option found er))"
  by (auto simp: yields_user_def act_simps dest: sql_firstD)

lemma yields_lockActive: "yields_user (lockActiveCurrentUser env uid)"
  unfolding lockActiveCurrentUser_def
  by (auto simp: yields_user_def act_simps dest: sql_firstD)

lemma seq_assoc: "seq (seq m f) g = seq m (\<lambda>a. seq (f a) g)"
  by (rule ext) (auto simp: seq_def split: prod.split sum.split)

context table_order begin

definition keeps_with :: "user_row \<Rightarrow> 'a act \<Rightarrow> bool" where
  "keeps_with u m \<longleftrightarrow> (\<forall>w. u \<in> set (tUsers (awTables w)) \<longrightarrow> R w (snd (m w)))"

lemma keeps_with_keeps: "keeps R m \<Longrightarrow> keeps_with u m"
  by (simp add: keeps_def keeps_with_def)

lemma keeps_with_seq:
  assumes m: "keeps R m" "keeps same_users m" and f: "\<And>a. keeps_with u (f a)"
  shows "keeps_with u (seq m f)"
  unfolding keeps_with_def
proof (intro allI impI)
  fix w :: auth_work
  assume u: "u \<in> set (tUsers (awTables w))"
  obtain res w1 where mw: "m w = (res, w1)" by (cases "m w")
  have "R w w1" "same_users w w1" using m mw unfolding keeps_def by (metis snd_conv)+
  moreover have "R w1 (snd (f a w1))" for a
    using f[of a] u \<open>same_users w w1\<close> unfolding keeps_with_def same_users_def by simp
  ultimately show "R w (snd (seq m f w))" using next_step by (cases res) (auto simp: seq_def mw)
qed

lemma keeps_with_write:
  assumes "keeps_identity f" "\<And>r. uAuthVersion u \<le> uAuthVersion (f r)"
  shows "keeps_with u (update_user env (rID u) f)"
  unfolding keeps_with_def
proof (intro allI impI)
  fix w :: auth_work
  assume u: "u \<in> set (tUsers (awTables w))"
  have "R w (w\<lparr>awStatements := n, awTables := (awTables w)\<lparr>tUsers := sql_update (live_user (rID u)) f (tUsers (awTables w))\<rparr>\<rparr>)" for n
    using next_step[OF version_change[OF assms(1) u assms(2)] same_state] by (simp add: set_users_def)
  then show "R w (snd (update_user env (rID u) f w))"
    by (auto simp: update_user_def sql_write_def sql_insert_def Let_def intro: same_state)
qed

lemma keeps_seq_user:
  assumes m: "keeps R m" "yields_user m" and f: "\<And>u. keeps_with u (f u)"
  shows "keeps R (seq m f)"
  unfolding keeps_def
proof
  fix w :: auth_work
  obtain res w1 where mw: "m w = (res, w1)" by (cases "m w")
  have "R w w1" using m(1) mw unfolding keeps_def by (metis snd_conv)
  moreover have "R w1 (snd (f u w1))" if "res = Inr u" for u
    using f[of u] m(2) mw that unfolding keeps_with_def yields_user_def by blast
  ultimately show "R w (snd (seq m f w))" using next_step by (cases res) (auto simp: seq_def mw)
qed

lemma keeps_lockActive [simp]: "keeps R (lockActiveCurrentUser env uid)"
  unfolding lockActiveCurrentUser_def by ((intro steps)?; simp)

lemma keeps_account_event [simp]: "keeps R (account_event env actor uid type)"
  unfolding account_event_def by ((intro steps)?; simp)

lemma keeps_plain_update [simp]:
  "keeps_identity f \<Longrightarrow> (\<And>r. uAuthVersion (f r) = uAuthVersion r) \<Longrightarrow> keeps R (update_user env i f)"
  unfolding update_user_def by (rule keeps_plain_change)

text \<open>Once the new row is written the last statements keep the relation by themselves.\<close>

lemma keeps_with_last:
  assumes "keeps_with u m" "\<And>a. keeps R (f a)"
  shows "keeps_with u (seq m f)"
  unfolding keeps_with_def
proof (intro allI impI)
  fix w :: auth_work
  assume u: "u \<in> set (tUsers (awTables w))"
  obtain res w1 where mw: "m w = (res, w1)" by (cases "m w")
  have "R w w1" using assms(1) mw u unfolding keeps_with_def by (metis snd_conv)
  moreover have "R w1 (snd (f a w1))" for a using assms(2) unfolding keeps_def by blast
  ultimately show "R w (snd (seq m f w))" using next_step by (cases res) (auto simp: seq_def mw)
qed

lemma keeps_with_or_error: "keeps_with u m \<Longrightarrow> keeps_with u (or_error m er)"
  by (auto simp: keeps_with_def or_error_def split: prod.split sum.split)

lemma keeps_ChangePassword: "keeps R (ChangePassword env uid old new)"
proof -
  have "keeps_with u (update_user env (rID u) (\<lambda>r. r\<lparr>uPasswordHash := h, uAuthVersion := uAuthVersion u + 1, rUpdatedAt := st, rUpdatedBy := b\<rparr>))" for u h st b
    by (rule keeps_with_write) (simp_all add: keeps_identity_def)
  then show ?thesis
    unfolding ChangePassword_def
    by (intro keeps_seq keeps_transaction keeps_seq_user[OF _ yields_lockActive] keeps_with_seq keeps_with_last) simp_all
qed

end

context table_order begin

lemma keeps_own_changes:
  "keeps R (UpdateOwnProfile env uid nickname)" "keeps R (VerifyOwnIdentity env uid realName idCard)"
  unfolding UpdateOwnProfile_def VerifyOwnIdentity_def Let_def
  by ((intro steps)?; simp add: keeps_identity_def)+

lemma keeps_mutate: "keeps R (mutateManagedUser env actorID targetID d)"
proof -
  have "keeps_with u (update_user env (rID u) (mutated_user d (uAuthVersion u + 1) st b))" for u st b
    by (rule keeps_with_write) (simp_all add: keeps_identity_def mutated_user_def Let_def)
  then show ?thesis
    unfolding mutateManagedUser_def Let_def
    by (intro keeps_seq[of "CheckAvailable env"] keeps_transaction
        keeps_seq[of "or_error (seq (sql_read env (\<lambda>t. sql_first (live_user actorID) (tUsers t))) (\<lambda>found. from_option found Forbidden)) Forbidden"]
        keeps_seq_user[OF _ yields_first(1)] keeps_with_seq keeps_with_last keeps_or_error keeps_seq) simp_all
qed

lemma keeps_security_part [simp]: "keeps R (security_part env i actor target)"
  unfolding security_part_def by ((intro steps)?; simp)

end

lemma same_users_security_part: "keeps same_users (security_part env i actor target)"
  unfolding security_part_def
  by (intro same_users.keeps_if same_users.keeps_seq same_users.keeps_or_error) simp_all

context table_order begin

lemma keeps_seq_found:
  assumes "keeps R m" "yields_user (seq m (\<lambda>a. from_option a er))" "\<And>u. keeps_with u (f u)"
  shows "keeps R (seq m (\<lambda>a. seq (from_option a er) f))"
proof -
  have "keeps R (seq (seq m (\<lambda>a. from_option a er)) f)"
    using assms by (intro keeps_seq_user keeps_seq) simp_all
  then show ?thesis by (simp add: seq_assoc)
qed

lemma keeps_map_error: "keeps R m \<Longrightarrow> keeps R (map_error m)"
  by (auto simp: keeps_def map_error_def split: prod.split sum.split) (metis snd_conv)+

lemma keeps_Update: "keeps R (UpdateManagedUser env actorID targetGUID i)"
proof -
  have w: "keeps_with u (or_error (update_user env (rID u) (write_managed (managed_user i u) st b)) er)" for u st b er
    by (intro keeps_with_or_error keeps_with_write) (simp_all add: keeps_identity_def write_managed_def managed_user_def)
  have t: "keeps_with u (if b then ok u
      else seq (clock_now env) (\<lambda>st. let v = managed_user i u in
        seq (or_error (update_user env (rID u) (write_managed v st by)) Unavailable) (\<lambda>_.
        seq (or_error (account_event env a (rID u) AuthAuditEventManagedUserUpdated) Unavailable) (\<lambda>_. ok (f v st)))))" for u b a f "by"
    by (cases b; simp only: if_True if_False Let_def)
      (intro keeps_with_keeps keeps_ok keeps_with_seq keeps_with_last w keeps_seq keeps_or_error; simp)+
  have "keeps R (UpdateManagedUser env actorID targetGUID i)" if "validateManagedUserUpdateInput i = None"
    unfolding UpdateManagedUser_def that option.case
    by (intro keeps_map_error keeps_transaction keeps_seq[of "or_error (sql_read env (\<lambda>t. sql_first (live_user actorID) (tUsers t))) Unavailable"]
        keeps_seq[of "from_option x Forbidden" for x] keeps_seq_found yields_first(3) keeps_with_seq t
        keeps_or_error same_users.keeps_or_error; simp add: same_users_security_part)
  then show ?thesis by (cases "validateManagedUserUpdateInput i") (simp_all add: UpdateManagedUser_def)
qed

end

end
