(* ===== verification/Auth_History.thy ===== *)
theory Auth_History
  imports Auth_Logic
begin

text \<open>
  Any sequence of calls of the authentication services, each with its own clock, identifiers, randomness and failures,
  and what no such sequence undoes: a revoked session stays revoked, an outdated access token stays outdated.
\<close>

section \<open>Calls\<close>

datatype auth_call =
    CallRegister bytes bytes "bytes option"
  | CallBootstrap "int option"
  | CallLogin bytes bytes session_input
  | CallCreate user_row session_input
  | CallRefresh bytes
  | CallRevoke int int
  | CallRevokeOthers int bytes
  | CallList int int
  | CallValidate bytes int int int
  | CallChangePassword int bytes bytes
  | CallProfile int "bytes option"
  | CallIdentity int bytes bytes
  | CallDisable int int
  | CallDelete int int
  | CallUpdate int int managed_update
  | CallAuthenticate bytes
  | CallWait int

record auth_host =
  hoEnv :: auth_env
  hoSame :: collation
  hoJWT :: jwt_lib
  hoSecret :: bytes
  hoGroups :: "business_group list"

text \<open>\<open>CallWait\<close> lets time pass for Redis.\<close>

fun run_call :: "auth_host \<Rightarrow> auth_call \<Rightarrow> auth_work \<Rightarrow> auth_work" where
  "run_call h (CallRegister name p nick) w = snd (RegisterUsername (hoEnv h) (hoSame h) (hoGroups h) name p nick w)"
| "run_call h (CallBootstrap lock) w = snd (BootstrapRoot (hoEnv h) (hoSame h) (hoGroups h) lock w)"
| "run_call h (CallLogin name p input) w = snd (LoginUsername (hoEnv h) (hoSame h) (hoJWT h) (hoSecret h) name p input w)"
| "run_call h (CallCreate u input) w = snd (Create_session (hoEnv h) (hoSame h) u input w)"
| "run_call h (CallRefresh token) w = snd (Refresh_session (hoEnv h) (hoSame h) token w)"
| "run_call h (CallRevoke uid guid) w = snd (Revoke_session (hoEnv h) uid guid w)"
| "run_call h (CallRevokeOthers uid keep) w = snd (RevokeOthers (hoEnv h) (hoSame h) uid keep w)"
| "run_call h (CallList uid v) w = snd (List_sessions (hoEnv h) uid v w)"
| "run_call h (CallValidate sid uid sv av) w = snd (Validate_session (hoEnv h) (hoSame h) sid uid sv av w)"
| "run_call h (CallChangePassword uid old new) w = snd (ChangePassword (hoEnv h) uid old new w)"
| "run_call h (CallProfile uid nick) w = snd (UpdateOwnProfile (hoEnv h) uid nick w)"
| "run_call h (CallIdentity uid name idc) w = snd (VerifyOwnIdentity (hoEnv h) uid name idc w)"
| "run_call h (CallDisable actor target) w = snd (DisableUser (hoEnv h) actor target w)"
| "run_call h (CallDelete actor target) w = snd (SoftDeleteUser (hoEnv h) actor target w)"
| "run_call h (CallUpdate actor guid i) w = snd (UpdateManagedUser (hoEnv h) actor guid i w)"
| "run_call h (CallAuthenticate auth) w = snd (authenticateUser (hoEnv h) (hoSame h) (hoJWT h) (hoSecret h) auth w)"
| "run_call h (CallWait ms) w = w\<lparr>awRedis := (awRedis w)\<lparr>rClock := rClock (awRedis w) + ms\<rparr>\<rparr>"

fun run_calls :: "collation \<Rightarrow> (auth_host \<times> auth_call) list \<Rightarrow> auth_work \<Rightarrow> auth_work" where
  "run_calls same [] w = w"
| "run_calls same ((h, c) # cs) w = run_calls same cs (run_call (h\<lparr>hoSame := same\<rparr>) c w)"

section \<open>The remaining operations keep such a relation\<close>

context table_order begin

lemma keeps_insert_account [simp]: "keeps R (insert_account env same groups account)"
  unfolding insert_account_def lockCanonicalDefaultBusinessGroup_def
  by ((intro steps)?; simp)

lemma keeps_Register: "keeps R (RegisterUsername env same groups name p nick)"
  unfolding RegisterUsername_def Let_def by ((intro steps)?; simp)

lemma keeps_Bootstrap: "keeps R (BootstrapRoot env same groups lock)"
  unfolding BootstrapRoot_def Let_def by ((intro steps)?; simp)

lemma keeps_login_account: "keeps R (login_account env same username p)"
  unfolding login_account_def by ((intro steps)?; simp)

lemma keeps_login_step:
  "keeps R (\<lambda>w. case login_account env same username p w of
     (Inl _, w') \<Rightarrow> (Inl Unauthorized, snd (RecordLoginFailure env username ip w')) | (Inr u, w') \<Rightarrow> (Inr u, w'))"
  unfolding keeps_def
proof
  fix w
  obtain res w1 where l: "login_account env same username p w = (res, w1)" by (cases "login_account env same username p w")
  have "R w w1" using keeps_login_account l unfolding keeps_def by (metis snd_conv)
  moreover have "R w1 (snd (RecordLoginFailure env username ip w1))" using keeps_RecordLoginFailure unfolding keeps_def by blast
  ultimately show "R w (snd (case login_account env same username p w of
     (Inl _, w') \<Rightarrow> (Inl Unauthorized, snd (RecordLoginFailure env username ip w')) | (Inr u, w') \<Rightarrow> (Inr u, w')))"
    using next_step l by (cases res) auto
qed

lemma keeps_makeToken [simp]: "keeps R (makeToken env jwt secret user session)"
  unfolding makeToken_def Let_def by ((intro steps)?; simp)

lemma keeps_Login: "keeps R (LoginUsername env same jwt secret name p input)"
  unfolding LoginUsername_def by (intro steps keeps_login_step keeps_Create; simp)

lemma keeps_authenticate: "keeps R (authenticateUser env same jwt secret auth)"
  unfolding authenticateUser_def authenticateClaims_def Let_def by (intro steps keeps_reads; simp)

theorem call_keeps: "hoSame h = same \<Longrightarrow> R w (run_call h c w)"
proof (cases c)
  case (CallWait ms)
  then show ?thesis using any_redis[of w "(awRedis w)\<lparr>rClock := rClock (awRedis w) + ms\<rparr>"] by simp
qed (use keeps_Register keeps_Bootstrap keeps_Login keeps_Create keeps_Refresh keeps_revocations keeps_reads keeps_ChangePassword
       keeps_own_changes keeps_mutate keeps_Update keeps_authenticate in
     \<open>simp_all add: keeps_def DisableUser_def SoftDeleteUser_def\<close>)

theorem calls_keep: "R w (run_calls same cs w)"
proof (induction cs arbitrary: w)
  case Nil
  then show ?case by (simp add: same_state)
next
  case (Cons hc cs)
  obtain h c where hc: "hc = (h, c)" by (cases hc)
  have "R w (run_call (h\<lparr>hoSame := same\<rparr>) c w)" by (rule call_keeps) simp
  then show ?case using Cons.IH next_step by (simp add: hc)
qed

end

section \<open>Sessions that are over\<close>

text \<open>Some row has the identifier, and every row that has it is revoked or deleted.\<close>

definition spent :: "collation \<Rightarrow> bytes \<Rightarrow> auth_work \<Rightarrow> bool" where
  "spent same sid w \<longleftrightarrow>
     (\<exists>s \<in> set (tSessions (awTables w)). same (sSID s) sid) \<and>
     (\<forall>s \<in> set (tSessions (awTables w)). same (sSID s) sid \<longrightarrow> sRevokedAt s \<noteq> None \<or> rDeleted s \<noteq> 0)"

definition stays_spent :: "collation \<Rightarrow> bytes \<Rightarrow> auth_work \<Rightarrow> auth_work \<Rightarrow> bool" where
  "stays_spent same sid w w' \<longleftrightarrow> (equivp same \<longrightarrow> spent same sid w \<longrightarrow> spent same sid w')"

lemma spent_update:
  assumes "spent same sid w" "\<And>s. sSID (f s) = sSID s \<and> rDeleted (f s) = rDeleted s \<and> (sRevokedAt s \<noteq> None \<longrightarrow> sRevokedAt (f s) \<noteq> None)"
  shows "spent same sid (set_sessions (sql_update P f) w)"
proof -
  let ?g = "\<lambda>s. if P s then f s else s"
  have g: "sSID (?g s) = sSID s" "rDeleted (?g s) = rDeleted s" "sRevokedAt s \<noteq> None \<Longrightarrow> sRevokedAt (?g s) \<noteq> None" for s
    using assms(2)[of s] by simp_all
  have rows: "set (tSessions (awTables (set_sessions (sql_update P f) w))) = ?g ` set (tSessions (awTables w))"
    by (simp add: set_sessions_def sql_update_def)
  obtain q where q: "q \<in> set (tSessions (awTables w))" "same (sSID q) sid" using assms(1) by (auto simp: spent_def)
  have "\<exists>s \<in> ?g ` set (tSessions (awTables w)). same (sSID s) sid"
    using q g(1)[of q] by (intro bexI[of _ "?g q"]) simp_all
  moreover have "sRevokedAt s \<noteq> None \<or> rDeleted s \<noteq> 0" if s: "s \<in> ?g ` set (tSessions (awTables w))" "same (sSID s) sid" for s
  proof -
    obtain r where r: "r \<in> set (tSessions (awTables w))" "s = ?g r" using s(1) by blast
    then have "same (sSID r) sid" using s(2) g(1)[of r] by simp
    then have "sRevokedAt r \<noteq> None \<or> rDeleted r \<noteq> 0" using assms(1) r(1) by (simp add: spent_def)
    then show ?thesis unfolding r(2) g(2)[of r] using g(3)[of r] by blast
  qed
  ultimately show ?thesis unfolding spent_def rows by blast
qed

lemma spent_other_tables: "tSessions (awTables w') = tSessions (awTables w) \<Longrightarrow> spent same sid w' \<longleftrightarrow> spent same sid w"
  by (simp add: spent_def)

interpretation stays_spent: table_order "stays_spent same sid" same for same sid
proof unfold_locales
  fix w w' w1 w2 w3 :: auth_work and s s' t u u' ev f i now stamp "by" h p d r
  show "awTables w' = awTables w \<Longrightarrow> awRedis w' = awRedis w \<Longrightarrow> stays_spent same sid w w'"
    by (simp add: stays_spent_def spent_def)
  show "stays_spent same sid w1 w2 \<Longrightarrow> stays_spent same sid w2 w3 \<Longrightarrow> stays_spent same sid w1 w3"
    by (simp add: stays_spent_def)
  show "stays_spent same sid w w' \<Longrightarrow> stays_spent same sid w (w'\<lparr>awTables := awTables w\<rparr>)"
    by (simp add: stays_spent_def spent_def)
  show "stays_spent same sid w (w\<lparr>awRedis := r\<rparr>)"
    by (simp add: stays_spent_def spent_def)
  show "insert_auth_event ev (awTables w) = Some t \<Longrightarrow> stays_spent same sid w (w\<lparr>awTables := t\<rparr>)"
    by (simp add: stays_spent_def spent_def insert_auth_event_some)
  show "insert_user same u (awTables w) = Some (u', t) \<Longrightarrow> stays_spent same sid w (w\<lparr>awTables := t\<rparr>)"
    by (simp add: stays_spent_def spent_def insert_user_some)
  show "stays_spent same sid w (set_sessions (sql_update (unrevoked i) (revoke_row now stamp by)) w)"
    by (auto simp: stays_spent_def revoke_row_def intro: spent_update)
  show "stays_spent same sid w (set_sessions (sql_update (current_secret s) (rotated_row h p d now stamp by)) w)"
    by (auto simp: stays_spent_def rotated_row_def intro: spent_update)
  show "stays_spent same sid w (set_users (sql_update (live_user i) f) w)"
    by (simp add: stays_spent_def spent_def set_users_def)
  show "stays_spent same sid w (set_users (sql_update (live_user (rID u)) f) w)"
    by (simp add: stays_spent_def spent_def set_users_def)
  show "stays_spent same sid w (w\<lparr>awTables := t\<rparr>)" if ins: "insert_session same s (awTables w) = Some (s', t)"
  proof -
    have "\<not> same (sSID s) sid" if eq: "equivp same" and sp: "spent same sid w"
    proof
      assume "same (sSID s) sid"
      moreover obtain q where q: "q \<in> set (tSessions (awTables w))" "same (sSID q) sid" using sp by (auto simp: spent_def)
      ultimately have "same (sSID q) (sSID s)" using eq by (meson equivp_symp equivp_transp)
      then show False using ins q(1) by (auto simp: insert_session_some)
    qed
    then show ?thesis using ins by (auto simp: stays_spent_def spent_def insert_session_some)
  qed
qed

lemma spent_denies_validate:
  assumes "spent same sid w"
  shows "\<not> (\<exists>s w'. Validate_session env same sid uid sv av w = (Inr s, w'))"
  using assms by (auto simp: Validate_session_def ready_def IsSessionRevoked_def Let_def act_simps active_at_def spent_def dest!: sql_firstD)

lemma spent_denies_refresh:
  assumes "spent same sid w" "splitRefreshToken token = Some (sid, secret)"
  shows "\<not> (\<exists>s w'. Refresh_session env same token w = (Inr s, w'))"
  using assms
  by (auto simp: Refresh_session_def refresh_tx_def ready_def IsSessionRevoked_def Let_def act_simps spent_def dest!: sql_firstD)

end
