(* ===== verification/Auth_Revocation.thy ===== *)
theory Auth_Revocation
  imports Auth_History
begin

text \<open>
  What the changes of an account do to its access: the auth version only grows, so an access token with an older one is
  never accepted again, and the sessions that a change revokes are spent.
\<close>

section \<open>Accounts only move forward\<close>

definition accounts_ok :: "tables \<Rightarrow> bool" where
  "accounts_ok t \<longleftrightarrow> distinct (map rID (tUsers t)) \<and> distinct (map rGUID (tUsers t)) \<and> (\<forall>u \<in> set (tUsers t). rID u < tNextID t)"

definition newer :: "user_row \<Rightarrow> user_row \<Rightarrow> bool" where
  "newer u u' \<longleftrightarrow> rID u' = rID u \<and> rGUID u' = rGUID u \<and> uAuthVersion u \<le> uAuthVersion u'"

definition grows :: "auth_work \<Rightarrow> auth_work \<Rightarrow> bool" where
  "grows w w' \<longleftrightarrow> (accounts_ok (awTables w) \<longrightarrow>
     accounts_ok (awTables w') \<and> (\<forall>u \<in> set (tUsers (awTables w)). \<exists>u' \<in> set (tUsers (awTables w')). newer u u'))"

lemma newer_refl [simp]: "newer u u"
  by (simp add: newer_def)

lemma newer_trans: "newer u v \<Longrightarrow> newer v x \<Longrightarrow> newer u x"
  by (auto simp: newer_def)

lemma grows_same: "tUsers t' = tUsers (awTables w) \<Longrightarrow> tNextID (awTables w) \<le> tNextID t' \<Longrightarrow> grows w (w\<lparr>awTables := t'\<rparr>)"
  by (force simp: grows_def accounts_ok_def)

lemma accounts_ok_map:
  assumes "keeps_identity f" "accounts_ok t"
  shows "accounts_ok (t\<lparr>tUsers := sql_update P f (tUsers t)\<rparr>)"
proof -
  have "map rID (sql_update P f (tUsers t)) = map rID (tUsers t)" "map rGUID (sql_update P f (tUsers t)) = map rGUID (tUsers t)"
    using assms(1) by (simp_all add: sql_update_def keeps_identity_def)
  moreover have "\<forall>u \<in> set (sql_update P f (tUsers t)). rID u < tNextID t"
    using assms by (auto simp: sql_update_def keeps_identity_def accounts_ok_def)
  ultimately show ?thesis using assms(2) by (simp add: accounts_ok_def)
qed

lemma grows_update:
  assumes "keeps_identity f" "\<And>r. accounts_ok (awTables w) \<Longrightarrow> r \<in> set (tUsers (awTables w)) \<Longrightarrow> P r \<Longrightarrow> uAuthVersion r \<le> uAuthVersion (f r)"
  shows "grows w (set_users (sql_update P f) w)"
  unfolding grows_def
proof (intro impI conjI ballI)
  assume ok: "accounts_ok (awTables w)"
  show "accounts_ok (awTables (set_users (sql_update P f) w))"
    using accounts_ok_map[OF assms(1) ok] by (simp add: set_users_def)
  fix u assume u: "u \<in> set (tUsers (awTables w))"
  have "newer u (if P u then f u else u)" using assms(1) assms(2)[OF ok u] by (simp add: newer_def keeps_identity_def)
  moreover have "(if P u then f u else u) \<in> set (tUsers (awTables (set_users (sql_update P f) w)))"
    using u by (simp add: set_users_def sql_update_def)
  ultimately show "\<exists>u' \<in> set (tUsers (awTables (set_users (sql_update P f) w))). newer u u'" by blast
qed

lemma same_id_same_row: "accounts_ok t \<Longrightarrow> u \<in> set (tUsers t) \<Longrightarrow> v \<in> set (tUsers t) \<Longrightarrow> rID u = rID v \<Longrightarrow> u = v"
  unfolding accounts_ok_def distinct_map inj_on_def by blast

lemma same_guid_same_row: "accounts_ok t \<Longrightarrow> u \<in> set (tUsers t) \<Longrightarrow> v \<in> set (tUsers t) \<Longrightarrow> rGUID u = rGUID v \<Longrightarrow> u = v"
  unfolding accounts_ok_def distinct_map inj_on_def by blast

interpretation grows: table_order grows same for same
proof unfold_locales
  fix w w' w1 w2 w3 :: auth_work and s :: session_row and s' t u and u' :: user_row and ev f i now stamp "by" h p d r
  show "awTables w' = awTables w \<Longrightarrow> awRedis w' = awRedis w \<Longrightarrow> grows w w'"
    by (auto simp: grows_def intro: newer_refl)
  show "grows w1 w2 \<Longrightarrow> grows w2 w3 \<Longrightarrow> grows w1 w3"
    unfolding grows_def by (meson newer_trans)
  show "grows w w' \<Longrightarrow> grows w (w'\<lparr>awTables := awTables w\<rparr>)"
    by (auto simp: grows_def intro: newer_refl)
  show "grows w (w\<lparr>awRedis := r\<rparr>)"
    by (auto simp: grows_def intro: newer_refl)
  show "insert_auth_event ev (awTables w) = Some t \<Longrightarrow> grows w (w\<lparr>awTables := t\<rparr>)"
    by (intro grows_same) (simp_all add: insert_auth_event_some)
  show "insert_session same s (awTables w) = Some (s', t) \<Longrightarrow> grows w (w\<lparr>awTables := t\<rparr>)"
    by (intro grows_same) (simp_all add: insert_session_some)
  show "grows w (set_sessions (sql_update (unrevoked i) (revoke_row now stamp by)) w)"
    unfolding set_sessions_def by (intro grows_same) simp_all
  show "grows w (set_sessions (sql_update (current_secret s) (rotated_row h p d now stamp by)) w)"
    unfolding set_sessions_def by (intro grows_same) simp_all
  show "keeps_identity f \<Longrightarrow> (\<And>r. uAuthVersion (f r) = uAuthVersion r) \<Longrightarrow> grows w (set_users (sql_update (live_user i) f) w)"
    by (intro grows_update) simp_all
  show "keeps_identity f \<Longrightarrow> u \<in> set (tUsers (awTables w)) \<Longrightarrow> (\<And>r. uAuthVersion u \<le> uAuthVersion (f r)) \<Longrightarrow>
      grows w (set_users (sql_update (live_user (rID u)) f) w)"
  proof (intro grows_update)
    fix r
    assume f: "\<And>r. uAuthVersion u \<le> uAuthVersion (f r)" and u: "u \<in> set (tUsers (awTables w))"
      and "accounts_ok (awTables w)" "r \<in> set (tUsers (awTables w))" "live_user (rID u) r"
    then have "r = u" by (intro same_id_same_row) (auto simp: live_user_def)
    then show "uAuthVersion r \<le> uAuthVersion (f r)" using f by simp
  qed
  show "grows w (w\<lparr>awTables := t\<rparr>)" if ins: "insert_user same u (awTables w) = Some (u', t)"
  proof -
    let ?us = "tUsers (awTables w)"
    have guid: "rGUID u \<notin> rGUID ` set ?us" and t: "t = (awTables w)\<lparr>tUsers := ?us @ [u\<lparr>rID := tNextID (awTables w)\<rparr>], tNextID := tNextID (awTables w) + 1\<rparr>"
      using ins by (auto simp: insert_user_some)
    have "accounts_ok t" if ok: "accounts_ok (awTables w)"
      using ok guid unfolding t accounts_ok_def by (fastforce simp: image_iff)
    then show ?thesis by (auto simp: grows_def t intro: newer_refl)
  qed
qed

section \<open>Tokens that are outdated\<close>

definition outdated :: "session_claims \<Rightarrow> auth_work \<Rightarrow> bool" where
  "outdated c w \<longleftrightarrow> accounts_ok (awTables w) \<and> (\<exists>u \<in> set (tUsers (awTables w)). rGUID u = scUser c \<and> scAuthVersion c < uAuthVersion u)"

lemma outdated_calls: "outdated c w \<Longrightarrow> outdated c (run_calls same cs w)"
  using grows.calls_keep[of w same cs] unfolding outdated_def grows_def newer_def by fastforce

lemma outdated_denied:
  assumes "outdated c w"
  shows "\<not> (\<exists>r w'. authenticateClaims env same c w = (Inr r, w'))"
proof
  assume "\<exists>r w'. authenticateClaims env same c w = (Inr r, w')"
  then obtain v where v: "v \<in> set (tUsers (awTables w))" "rGUID v = scUser c" "uAuthVersion v = scAuthVersion c"
    by (auto simp: authenticateClaims_def act_simps claims_hold_def dest!: sql_firstD)
  obtain u where "u \<in> set (tUsers (awTables w))" "rGUID u = scUser c" "scAuthVersion c < uAuthVersion u"
    using assms by (auto simp: outdated_def)
  then show False using v same_guid_same_row[of "awTables w" u v] assms by (auto simp: outdated_def)
qed

section \<open>Revoking the sessions of an account\<close>

definition session_change :: "(session_row \<Rightarrow> session_row) \<Rightarrow> bool" where
  "session_change g \<longleftrightarrow> (\<forall>s. rID (g s) = rID s \<and> rGUID (g s) = rGUID s \<and> sSID (g s) = sSID s \<and> sUser (g s) = sUser s \<and>
     rDeleted (g s) = rDeleted s \<and> sExpiresAt (g s) = sExpiresAt s \<and> (sRevokedAt s \<noteq> None \<longrightarrow> sRevokedAt (g s) \<noteq> None))"

lemma session_change_comp: "session_change g \<Longrightarrow> session_change h \<Longrightarrow> session_change (\<lambda>r. h (g r))"
  by (simp add: session_change_def)

lemma revokeLocked_effect:
  assumes "revokeLocked env s actor type input w = (Inr (), w')" "sRevokedAt s = None"
  obtains g where "session_change g" "tSessions (awTables w') = map g (tSessions (awTables w))" "tUsers (awTables w') = tUsers (awTables w)"
    "\<And>r. rID r = rID s \<Longrightarrow> rDeleted r = 0 \<Longrightarrow> sRevokedAt (g r) \<noteq> None"
proof -
  obtain now stamp b where
    "tSessions (awTables w') = sql_update (unrevoked (rID s)) (revoke_row now stamp b) (tSessions (awTables w))" "tUsers (awTables w') = tUsers (awTables w)"
    using assms by (auto simp: revokeLocked_def auditFields_def act_simps insert_auth_event_some)
  then show thesis
    by (intro that[of "\<lambda>r. if unrevoked (rID s) r then revoke_row now stamp b r else r"])
      (auto simp: session_change_def revoke_row_def sql_update_def unrevoked_def)
qed

lemma each_revoke_effect:
  assumes "each (\<lambda>s. revokeLocked env s actor type input) ss w = (Inr (), w')" "\<forall>s \<in> set ss. sRevokedAt s = None"
  shows "\<exists>g. session_change g \<and> tSessions (awTables w') = map g (tSessions (awTables w)) \<and> tUsers (awTables w') = tUsers (awTables w) \<and>
    (\<forall>r. rID r \<in> rID ` set ss \<longrightarrow> rDeleted r = 0 \<longrightarrow> sRevokedAt (g r) \<noteq> None)"
  using assms
proof (induction ss arbitrary: w)
  case Nil
  then show ?case by (intro exI[of _ id]) (auto simp: act_simps session_change_def)
next
  case (Cons s ss)
  from Cons.prems(1) obtain w1 where w1: "revokeLocked env s actor type input w = (Inr (), w1)"
    "each (\<lambda>s. revokeLocked env s actor type input) ss w1 = (Inr (), w')"
    by (auto simp: act_simps)
  obtain g where g: "session_change g" "tSessions (awTables w1) = map g (tSessions (awTables w))" "tUsers (awTables w1) = tUsers (awTables w)"
    "\<And>r. rID r = rID s \<Longrightarrow> rDeleted r = 0 \<Longrightarrow> sRevokedAt (g r) \<noteq> None"
    using revokeLocked_effect[OF w1(1)] Cons.prems(2) by (metis list.set_intros(1))
  obtain h where h: "session_change h" "tSessions (awTables w') = map h (tSessions (awTables w1))" "tUsers (awTables w') = tUsers (awTables w1)"
    "\<forall>r. rID r \<in> rID ` set ss \<longrightarrow> rDeleted r = 0 \<longrightarrow> sRevokedAt (h r) \<noteq> None"
    using Cons.IH[OF w1(2)] Cons.prems(2) by auto
  have "sRevokedAt (h (g r)) \<noteq> None" if "rID r \<in> rID ` set (s # ss)" "rDeleted r = 0" for r
    using that g(1,4) h(1,4) unfolding session_change_def by (cases "rID r = rID s") auto
  then show ?case
    using g(2,3) h(2,3) session_change_comp[OF g(1) h(1)] by (intro exI[of _ "\<lambda>r. h (g r)"]) simp
qed

lemma keeps_tables: "redis_command env f w = (Inr a, w') \<Longrightarrow> awTables w' = awTables w"
  by (simp add: act_simps)

lemma each_mark_tables:
  "each (\<lambda>s. MarkSessionRevoked env (sSID s) (ttl s)) ss w = (Inr (), w') \<Longrightarrow> awTables w' = awTables w"
  by (induction ss arbitrary: w) (auto simp: act_simps MarkSessionRevoked_def)

text \<open>All sessions of the account that were live are revoked; nothing else changes.\<close>

lemma revokeUser_effect:
  assumes "revokeUserSessionsLocked env user actor type w = (Inr (), w')"
  obtains g where "session_change g" "tSessions (awTables w') = map g (tSessions (awTables w))" "tUsers (awTables w') = tUsers (awTables w)"
    "\<And>s. s \<in> set (tSessions (awTables w)) \<Longrightarrow> sUser s = rID user \<Longrightarrow> rDeleted s = 0 \<Longrightarrow> sRevokedAt (g s) \<noteq> None"
proof -
  let ?ss = "filter (user_sessions (rID user)) (tSessions (awTables w))"
  obtain w1 where w1: "awTables w1 = awTables w" "each (\<lambda>s. revokeLocked env s actor type no_input) ?ss w1 = (Inr (), w')"
    using assms by (auto simp: revokeUserSessionsLocked_def act_simps dest!: each_mark_tables)
  have "\<forall>s \<in> set ?ss. sRevokedAt s = None" by (simp add: user_sessions_def)
  from each_revoke_effect[OF w1(2) this] obtain g where g: "session_change g" "tSessions (awTables w') = map g (tSessions (awTables w))"
    "tUsers (awTables w') = tUsers (awTables w)" "\<forall>r. rID r \<in> rID ` set ?ss \<longrightarrow> rDeleted r = 0 \<longrightarrow> sRevokedAt (g r) \<noteq> None"
    unfolding w1(1) by blast
  show thesis
  proof (rule that[OF g(1-3)])
    fix s assume s: "s \<in> set (tSessions (awTables w))" "sUser s = rID user" "rDeleted s = 0"
    show "sRevokedAt (g s) \<noteq> None"
    proof (cases "sRevokedAt s = None")
      case True
      then have "rID s \<in> rID ` set ?ss" using s by (simp add: user_sessions_def)
      then show ?thesis using g(4) s(3) by blast
    next
      case False
      then show ?thesis using g(1) by (simp add: session_change_def)
    qed
  qed
qed

section \<open>Changes that end the access of an account\<close>

text \<open>The account whose access a call is to end.\<close>

fun access_target :: "auth_call \<Rightarrow> tables \<Rightarrow> user_row option" where
  "access_target (CallChangePassword uid old new) t = sql_first (live_user uid) (tUsers t)"
| "access_target (CallDisable actor target) t = sql_first (live_user target) (tUsers t)"
| "access_target (CallDelete actor target) t = sql_first (live_user target) (tUsers t)"
| "access_target (CallUpdate actor guid i) t =
     (case sql_first (\<lambda>u. rGUID u = guid \<and> rDeleted u = 0) (tUsers t) of
        None \<Rightarrow> None | Some u \<Rightarrow> if security_changes i u then Some u else None)"
| "access_target c t = None"

fun call_succeeds :: "auth_env \<Rightarrow> auth_call \<Rightarrow> auth_work \<Rightarrow> bool" where
  "call_succeeds env (CallChangePassword uid old new) w = (fst (ChangePassword env uid old new w) = Inr ())"
| "call_succeeds env (CallDisable actor target) w = (fst (DisableUser env actor target w) = Inr ())"
| "call_succeeds env (CallDelete actor target) w = (fst (SoftDeleteUser env actor target w) = Inr ())"
| "call_succeeds env (CallUpdate actor guid i) w = (case fst (UpdateManagedUser env actor guid i w) of Inl _ \<Rightarrow> False | Inr _ \<Rightarrow> True)"
| "call_succeeds env c w = False"

definition ends_access :: "user_row \<Rightarrow> auth_work \<Rightarrow> auth_work \<Rightarrow> bool" where
  "ends_access u w w' \<longleftrightarrow> u \<in> set (tUsers (awTables w)) \<and>
     (\<exists>g f. session_change g \<and> keeps_identity f \<and> tSessions (awTables w') = map g (tSessions (awTables w)) \<and>
       tUsers (awTables w') = sql_update (live_user (rID u)) f (tUsers (awTables w)) \<and> live_user (rID u) u \<and>
       uAuthVersion (f u) = uAuthVersion u + 1 \<and>
       (\<forall>s \<in> set (tSessions (awTables w)). sUser s = rID u \<longrightarrow> rDeleted s = 0 \<longrightarrow> sRevokedAt (g s) \<noteq> None))"

lemma update_user_Inr:
  "update_user env i f w = (Inr (), w') \<longleftrightarrow>
     \<not> aeSQL env (awStatements w) \<and>
     w' = w\<lparr>awStatements := awStatements w + 1, awTables := (awTables w)\<lparr>tUsers := sql_update (live_user i) f (tUsers (awTables w))\<rparr>\<rparr>"
  by (auto simp: update_user_def act_simps)

lemma account_event_Inr:
  assumes "account_event env actor uid type w = (Inr (), w')"
  shows "tUsers (awTables w') = tUsers (awTables w) \<and> tSessions (awTables w') = tSessions (awTables w)"
  using assms by (auto simp: account_event_def auditFields_def act_simps insert_auth_event_some)

text \<open>The common tail of the changes: revoke, write the row, record the event.\<close>

lemma tail_ends_access:
  assumes "revokeUserSessionsLocked env u actor type w = (Inr (), w1)" "update_user env (rID u) f w2 = (Inr (), w3)"
    "account_event env actor uid ty w3 = (Inr (), w4)" "awTables w2 = awTables w1" "awTables w4 = awTables w'" "awTables w = awTables w0"
    "u \<in> set (tUsers (awTables w0))" "live_user (rID u) u" "keeps_identity f" "uAuthVersion (f u) = uAuthVersion u + 1"
  shows "ends_access u w0 w'"
proof -
  obtain g where g: "session_change g" "tSessions (awTables w1) = map g (tSessions (awTables w))" "tUsers (awTables w1) = tUsers (awTables w)"
    "\<And>s. s \<in> set (tSessions (awTables w)) \<Longrightarrow> sUser s = rID u \<Longrightarrow> rDeleted s = 0 \<Longrightarrow> sRevokedAt (g s) \<noteq> None"
    using revokeUser_effect[OF assms(1)] by blast
  with g account_event_Inr[OF assms(3)] assms(2,4-10) show ?thesis
    unfolding ends_access_def by (intro conjI exI[of _ g] exI[of _ f]) (simp_all add: update_user_Inr)
qed

lemma first_user_Inr:
  "or_error (seq (sql_read env (\<lambda>t. sql_first P (tUsers t))) (\<lambda>found. from_option found er)) er' w = (Inr u, w') \<longleftrightarrow>
     \<not> aeSQL env (awStatements w) \<and> sql_first P (tUsers (awTables w)) = Some u \<and> w' = w\<lparr>awStatements := awStatements w + 1\<rparr>"
  by (auto simp: act_simps)

lemma HashPassword_tables: "HashPassword env p w = (Inr h, w') \<Longrightarrow> awTables w' = awTables w"
  by (auto simp: HashPassword_def act_simps)

lemma CheckAvailable_tables: "CheckAvailable env w = (Inr u, w') \<Longrightarrow> awTables w' = awTables w"
  by (auto simp: CheckAvailable_def act_simps)

lemma lockActive_Inr:
  "lockActiveCurrentUser env uid w = (Inr u, w') \<longleftrightarrow>
     \<not> aeSQL env (awStatements w) \<and> sql_first (live_user uid) (tUsers (awTables w)) = Some u \<and> uStatus u = UserStatusActive \<and>
     w' = w\<lparr>awStatements := awStatements w + 1\<rparr>"
  by (auto simp: lockActiveCurrentUser_def act_simps)

lemma ChangePassword_ends:
  assumes "ChangePassword env uid old new w = (Inr (), w')"
  obtains u where "sql_first (live_user uid) (tUsers (awTables w)) = Some u" "ends_access u w w'"
proof -
  from assms obtain u h w0 w1 w2 w3 w4 where
    t: "CheckAvailable env w = (Inr (), w0)" "HashPassword env new w0 = (Inr h, w1)" "lockActiveCurrentUser env uid w1 = (Inr u, w2)"
    "revokeUserSessionsLocked env u uid AuthAuditEventSessionRevoked w2 = (Inr (), w3)"
    "update_user env (rID u) (\<lambda>r. r\<lparr>uPasswordHash := Some h, uAuthVersion := uAuthVersion u + 1, rUpdatedAt := aeNow env (awNow w3),
       rUpdatedBy := touched_by uid\<rparr>) (w3\<lparr>awNow := awNow w3 + 1\<rparr>) = (Inr (), w4)"
    "account_event env uid uid AuthAuditEventPasswordChanged w4 = (Inr (), w')"
    unfolding ChangePassword_def act_simps by clarsimp
  have tb: "awTables w1 = awTables w" using t(1,2) HashPassword_tables CheckAvailable_tables by metis
  have u: "sql_first (live_user uid) (tUsers (awTables w)) = Some u" and tb2: "awTables w2 = awTables w"
    using t(3) tb by (auto simp: lockActive_Inr)
  have "ends_access u w w'"
    by (rule tail_ends_access[OF t(4,5,6) _ refl tb2]) (use sql_firstD[OF u] in \<open>auto simp: keeps_identity_def live_user_def\<close>)
  with u show thesis by (rule that)
qed

lemma mutate_ends:
  assumes "mutateManagedUser env actorID targetID d w = (Inr (), w')"
  obtains u where "sql_first (live_user targetID) (tUsers (awTables w)) = Some u" "ends_access u w w'"
proof -
  let ?ty = "if d then AuthAuditEventUserDeleted else AuthAuditEventUserDisabled"
  from assms obtain a u w0 w1 w2 w3 w4 where
    t: "CheckAvailable env w = (Inr (), w0)"
    "or_error (seq (sql_read env (\<lambda>t. sql_first (live_user actorID) (tUsers t))) (\<lambda>found. from_option found Forbidden)) Forbidden w0 = (Inr a, w1)"
    "or_error (seq (sql_read env (\<lambda>t. sql_first (live_user targetID) (tUsers t))) (\<lambda>found. from_option found NotFound)) NotFound w1 = (Inr u, w2)"
    "revokeUserSessionsLocked env u actorID ?ty w2 = (Inr (), w3)"
    "update_user env (rID u) (mutated_user d (uAuthVersion u + 1) (aeNow env (awNow w3)) (touched_by actorID)) (w3\<lparr>awNow := awNow w3 + 1\<rparr>) = (Inr (), w4)"
    "account_event env actorID (rID u) ?ty w4 = (Inr (), w')"
    unfolding mutateManagedUser_def Let_def seq_Inr transaction_Inr check_Inr clock_now_Inr by clarsimp
  have u: "sql_first (live_user targetID) (tUsers (awTables w)) = Some u" and tb2: "awTables w2 = awTables w"
    using t(2,3) CheckAvailable_tables[OF t(1)] by (auto simp: first_user_Inr)
  have "ends_access u w w'"
    by (rule tail_ends_access[OF t(4,5,6) _ refl tb2])
      (use sql_firstD[OF u] in \<open>auto simp: keeps_identity_def live_user_def mutated_user_def Let_def\<close>)
  with u show thesis by (rule that)
qed

lemma Update_ends:
  assumes "UpdateManagedUser env actorID guid i w = (Inr r, w')"
  obtains u where "sql_first (\<lambda>u. rGUID u = guid \<and> rDeleted u = 0) (tUsers (awTables w)) = Some u"
    "security_changes i u \<Longrightarrow> ends_access u w w'"
proof -
  have v: "validateManagedUserUpdateInput i = None" using assms by (auto simp: UpdateManagedUser_def act_simps split: option.splits)
  from assms[unfolded UpdateManagedUser_def v option.case map_error_Inr transaction_Inr seq_Inr check_Inr from_option_Inr or_error_Inr sql_read_Inr]
  obtain actor u where
    t: "sql_first (\<lambda>u. rGUID u = guid \<and> rDeleted u = 0) (tUsers (awTables w)) = Some u"
    and s: "\<exists>w2. security_part env i actor u (w\<lparr>awStatements := awStatements w + 1 + 1\<rparr>) = (Inr (), w2) \<and>
      (if \<not> security_changes i u \<and> \<not> changes (muLimit i) (uDailyLimit u) then ok u
      else seq (clock_now env) (\<lambda>st. let v = managed_user i u in
        seq (or_error (update_user env (rID u) (write_managed v st (touched_by (rID actor)))) Unavailable) (\<lambda>_.
        seq (or_error (account_event env (rID actor) (rID u) AuthAuditEventManagedUserUpdated) Unavailable) (\<lambda>_.
        ok (v\<lparr>rUpdatedAt := st, rUpdatedBy := touched_by (rID actor)\<rparr>))))) w2 = (Inr r, w')"
    by auto
  then obtain w2 where
    part: "security_part env i actor u (w\<lparr>awStatements := awStatements w + 1 + 1\<rparr>) = (Inr (), w2)"
    and tail: "(if \<not> security_changes i u \<and> \<not> changes (muLimit i) (uDailyLimit u) then ok u
      else seq (clock_now env) (\<lambda>st. let v = managed_user i u in
        seq (or_error (update_user env (rID u) (write_managed v st (touched_by (rID actor)))) Unavailable) (\<lambda>_.
        seq (or_error (account_event env (rID actor) (rID u) AuthAuditEventManagedUserUpdated) Unavailable) (\<lambda>_.
        ok (v\<lparr>rUpdatedAt := st, rUpdatedBy := touched_by (rID actor)\<rparr>))))) w2 = (Inr r, w')" by blast
  have "ends_access u w w'" if sec: "security_changes i u"
  proof -
    obtain ty w1 where rev: "CheckAvailable env (w\<lparr>awStatements := awStatements w + 1 + 1\<rparr>) = (Inr (), w1)"
      "revokeUserSessionsLocked env u (rID actor) ty w1 = (Inr (), w2)"
      using part sec unfolding security_part_def by (clarsimp simp: act_simps)
    from tail sec obtain w4 where
      w: "update_user env (rID u) (write_managed (managed_user i u) (aeNow env (awNow w2)) (touched_by (rID actor))) (w2\<lparr>awNow := awNow w2 + 1\<rparr>) = (Inr (), w4)"
      "account_event env (rID actor) (rID u) AuthAuditEventManagedUserUpdated w4 = (Inr (), w')"
      unfolding Let_def by (clarsimp simp: act_simps)
    have tb: "awTables w1 = awTables w" using CheckAvailable_tables[OF rev(1)] by simp
    show ?thesis
      by (rule tail_ends_access[OF rev(2) w(1,2) _ refl tb])
        (use sql_firstD[OF t] sec in \<open>auto simp: keeps_identity_def live_user_def write_managed_def managed_user_def\<close>)
  qed
  with t show thesis by (rule that)
qed

lemma call_ends_access:
  assumes "call_succeeds (hoEnv h) c w" "access_target c (awTables w) = Some u"
  shows "ends_access u w (run_call h c w)"
  using assms
proof (cases c)
  case (CallChangePassword uid old new)
  then obtain w' where w': "ChangePassword (hoEnv h) uid old new w = (Inr (), w')"
    using assms(1) by (cases "ChangePassword (hoEnv h) uid old new w") simp
  obtain v where "sql_first (live_user uid) (tUsers (awTables w)) = Some v" "ends_access v w w'" by (rule ChangePassword_ends[OF w'])
  then show ?thesis using assms(2) CallChangePassword w' by simp
next
  case (CallDisable actor target)
  then obtain w' where w': "mutateManagedUser (hoEnv h) actor target False w = (Inr (), w')"
    using assms(1) by (cases "mutateManagedUser (hoEnv h) actor target False w") (simp add: DisableUser_def)
  obtain v where "sql_first (live_user target) (tUsers (awTables w)) = Some v" "ends_access v w w'" by (rule mutate_ends[OF w'])
  then show ?thesis using assms(2) CallDisable w' by (simp add: DisableUser_def)
next
  case (CallDelete actor target)
  then obtain w' where w': "mutateManagedUser (hoEnv h) actor target True w = (Inr (), w')"
    using assms(1) by (cases "mutateManagedUser (hoEnv h) actor target True w") (simp add: SoftDeleteUser_def)
  obtain v where "sql_first (live_user target) (tUsers (awTables w)) = Some v" "ends_access v w w'" by (rule mutate_ends[OF w'])
  then show ?thesis using assms(2) CallDelete w' by (simp add: SoftDeleteUser_def)
next
  case (CallUpdate actor guid i)
  then obtain r w' where r: "UpdateManagedUser (hoEnv h) actor guid i w = (Inr r, w')"
    using assms(1) by (cases "UpdateManagedUser (hoEnv h) actor guid i w") (auto split: sum.splits)
  then obtain v where v: "sql_first (\<lambda>u. rGUID u = guid \<and> rDeleted u = 0) (tUsers (awTables w)) = Some v"
    "security_changes i v \<Longrightarrow> ends_access v w w'"
    by (elim Update_ends) blast
  then show ?thesis using assms(2) CallUpdate r by (auto split: if_splits)
qed auto

end
