(* ===== verification/Auth_Properties.thy ===== *)
theory Auth_Properties
  imports Auth_Revocation
begin

text \<open>
  What authentication promises about revocation, refresh and access, each with an instance at which its
  hypotheses hold.
\<close>

section \<open>Sessions and their identifiers\<close>

definition sids_ok :: "collation \<Rightarrow> tables \<Rightarrow> bool" where
  "sids_ok same t \<longleftrightarrow> distinct (map rID (tSessions t)) \<and> (\<forall>s \<in> set (tSessions t). \<forall>s' \<in> set (tSessions t). same (sSID s) (sSID s') \<longrightarrow> s = s')"

text \<open>What a token carries is a spelling of the identifier: the database compares identifiers by its collation, and
  \<open>auth_session.go\<close> hands it the token's text.  A session is accepted when a token with some spelling of it is.\<close>

definition accepts_spelled :: "auth_env \<Rightarrow> collation \<Rightarrow> bytes \<Rightarrow> auth_work \<Rightarrow> bool" where
  "accepts_spelled env same sid w \<longleftrightarrow>
     (\<exists>uid sv av s w'. Validate_session env same sid uid sv av w = (Inr s, w')) \<or>
     (\<exists>secret i w'. splitRefreshToken (sid @ CHR ''.'' # secret) = Some (sid, secret) \<and>
        Refresh_session env same (sid @ CHR ''.'' # secret) w = (Inr i, w'))"

definition accepts_session :: "auth_env \<Rightarrow> collation \<Rightarrow> bytes \<Rightarrow> auth_work \<Rightarrow> bool" where
  "accepts_session env same sid w \<longleftrightarrow> (\<exists>sid'. same sid' sid \<and> accepts_spelled env same sid' w)"

lemma spent_spelling: "equivp same \<Longrightarrow> spent same sid w \<Longrightarrow> same sid' sid \<Longrightarrow> spent same sid' w"
  unfolding spent_def by (meson equivp_symp equivp_transp)

lemma spent_never_accepted: "equivp same \<Longrightarrow> spent same sid w \<Longrightarrow> \<not> accepts_session env same sid (run_calls same cs w)"
  using stays_spent.calls_keep[of same sid w cs] spent_denies_validate[of same] spent_denies_refresh[of same]
    spent_spelling[of same sid "run_calls same cs w"]
  unfolding accepts_session_def accepts_spelled_def stays_spent_def by blast

lemma spent_from_change:
  assumes "equivp same" "sids_ok same (awTables w)" "session_change g" "tSessions (awTables w') = map g (tSessions (awTables w))"
    "s \<in> set (tSessions (awTables w))" "rDeleted s = 0 \<Longrightarrow> sRevokedAt (g s) \<noteq> None"
  shows "spent same (sSID s) w'"
proof -
  have g: "sSID (g r) = sSID r" "rDeleted (g r) = rDeleted r" for r using assms(3) by (simp_all add: session_change_def)
  have "same (sSID (g s)) (sSID s)" using assms(1) g by (simp add: equivp_reflp)
  moreover have "sRevokedAt (g r) \<noteq> None \<or> rDeleted (g r) \<noteq> 0" if "r \<in> set (tSessions (awTables w))" "same (sSID (g r)) (sSID s)" for r
  proof -
    have "r = s" using that assms(2,5) g(1) by (auto simp: sids_ok_def)
    then show ?thesis using assms(6) g(2) by auto
  qed
  ultimately show ?thesis using assms(4,5) by (auto simp: spent_def)
qed

section \<open>Revocation is final\<close>

lemma Revoke_effect:
  assumes "Revoke_session env uid guid w = (Inr (), w')" "distinct (map rID (tSessions (awTables w)))"
    "sql_first (\<lambda>s. rGUID s = guid \<and> sUser s = uid \<and> rDeleted s = 0) (tSessions (awTables w)) = Some s"
  obtains g where "session_change g" "tSessions (awTables w') = map g (tSessions (awTables w))" "sRevokedAt (g s) \<noteq> None"
proof -
  from assms(1,3) obtain v w1 where v: "revokeLocked env v uid AuthAuditEventSessionRevoked no_input w1 = (Inr (), w')"
    "sql_first (owned_row (rID s) uid) (tSessions (awTables w)) = Some v" "awTables w1 = awTables w"
    unfolding Revoke_session_def by (clarsimp simp: act_simps ready_def Let_def MarkSessionRevoked_def)
  have "v = s"
    using sql_firstD[OF v(2)] sql_firstD[OF assms(3)] assms(2) unfolding distinct_map inj_on_def owned_row_def by blast
  show thesis
  proof (cases "sRevokedAt s = None")
    case True
    then have "sRevokedAt v = None" using \<open>v = s\<close> by simp
    then show thesis
      by (rule revokeLocked_effect[OF v(1)]) (use that \<open>v = s\<close> v(3) sql_firstD[OF assms(3)] in auto)
  next
    case False
    then have "w' = w1" using v(1) \<open>v = s\<close> by (simp add: revokeLocked_def act_simps)
    then show thesis using that[of id] v(3) False by (simp add: session_change_def)
  qed
qed

text \<open>C25: a revoked session is never accepted again.  A session that is revoked (or deleted) in the table, whichever
  operation revoked it, and a session that its owner revokes now by a \<open>Revoke_session\<close> that succeeds, are final: whatever
  calls follow, with whatever failures, no access token of the session is validated and no refresh token of it is
  exchanged, in any spelling of the session's identifier that the database takes for it.\<close>

theorem revoked_session_is_final:
  assumes "equivp same" "sids_ok same (awTables w)" "s \<in> set (tSessions (awTables w))"
    "(sRevokedAt s \<noteq> None \<or> rDeleted s \<noteq> 0) \<and> w' = w \<or>
     Revoke_session env uid guid w = (Inr (), w') \<and>
       sql_first (\<lambda>s. rGUID s = guid \<and> sUser s = uid \<and> rDeleted s = 0) (tSessions (awTables w)) = Some s"
  shows "\<not> accepts_session env' same (sSID s) (run_calls same cs w')"
  using assms(4)
proof (elim disjE conjE)
  assume "sRevokedAt s \<noteq> None" "w' = w"
  then have "spent same (sSID s) w'"
    using spent_from_change[of same w id w' s] assms(1-3) by (simp add: session_change_def)
  then show ?thesis by (rule spent_never_accepted[OF assms(1)])
next
  assume "rDeleted s \<noteq> 0" "w' = w"
  then have "spent same (sSID s) w'"
    using spent_from_change[of same w id w' s] assms(1-3) by (simp add: session_change_def)
  then show ?thesis by (rule spent_never_accepted[OF assms(1)])
next
  assume r: "Revoke_session env uid guid w = (Inr (), w')"
    and f: "sql_first (\<lambda>s. rGUID s = guid \<and> sUser s = uid \<and> rDeleted s = 0) (tSessions (awTables w)) = Some s"
  have d: "distinct (map rID (tSessions (awTables w)))" using assms(2) by (simp add: sids_ok_def)
  obtain g where g: "session_change g" "tSessions (awTables w') = map g (tSessions (awTables w))" "sRevokedAt (g s) \<noteq> None"
    using Revoke_effect[OF r d f] by blast
  have "spent same (sSID s) w'"
    by (rule spent_from_change[OF assms(1,2) g(1,2) assms(3)]) (use g(3) in auto)
  then show ?thesis by (rule spent_never_accepted[OF assms(1)])
qed

text \<open>C26: a successful change of password, disabling, deletion or security-relevant update of an account ends its access
  for good: whatever calls follow, no claims of an access token with the account's former auth version (or an older one) are
  accepted, and none of its sessions in any spelling of their identifiers.\<close>

theorem security_change_is_final:
  assumes "equivp same" "accounts_ok (awTables w)" "sids_ok same (awTables w)"
    "call_succeeds (hoEnv h) c w" "access_target c (awTables w) = Some u"
    "scUser cl = rGUID u" "scAuthVersion cl \<le> uAuthVersion u"
    "s \<in> set (tSessions (awTables w))" "sUser s = rID u"
  shows "\<not> (\<exists>r w'. authenticateClaims env same cl (run_calls same cs (run_call h c w)) = (Inr r, w')) \<and>
    \<not> accepts_session env same (sSID s) (run_calls same cs (run_call h c w))"
proof -
  let ?w = "run_call h c w"
  obtain g f where e: "u \<in> set (tUsers (awTables w))" "session_change g" "keeps_identity f" "tSessions (awTables ?w) = map g (tSessions (awTables w))"
    "tUsers (awTables ?w) = sql_update (live_user (rID u)) f (tUsers (awTables w))" "live_user (rID u) u" "uAuthVersion (f u) = uAuthVersion u + 1"
    "\<forall>s \<in> set (tSessions (awTables w)). sUser s = rID u \<longrightarrow> rDeleted s = 0 \<longrightarrow> sRevokedAt (g s) \<noteq> None"
    using call_ends_access[OF assms(4,5)] unfolding ends_access_def by blast
  have "f u \<in> set (tUsers (awTables ?w))" using e(1,6) unfolding e(5) by (auto simp: set_sql_update)
  moreover have "rGUID (f u) = scUser cl" using e(3) assms(6) by (simp add: keeps_identity_def)
  moreover have "accounts_ok (awTables ?w)"
    using grows.call_keeps[of h "hoSame h" w c] assms(2) by (simp add: grows_def)
  ultimately have "outdated cl ?w" using e(7) assms(7) unfolding outdated_def by force
  then have "outdated cl (run_calls same cs ?w)" by (rule outdated_calls)
  moreover have "spent same (sSID s) ?w"
    by (rule spent_from_change[OF assms(1,3) e(2,4) assms(8)]) (use e(8) assms(8,9) in blast)
  ultimately show ?thesis using outdated_denied spent_never_accepted[OF assms(1)] by blast
qed

section \<open>The barrier of a revocation\<close>

definition same_redis :: "auth_work \<Rightarrow> auth_work \<Rightarrow> bool" where
  "same_redis w w' \<longleftrightarrow> awRedis w' = awRedis w"

interpretation same_redis: step_order same_redis
  by unfold_locales (auto simp: same_redis_def)

lemma same_redis_write [simp]: "keeps same_redis (sql_write env f)"
  by (intro same_redis.keeps_write) (simp add: same_redis_def)

lemma same_redis_revokeLocked: "keeps same_redis (revokeLocked env s actor type input)"
  unfolding revokeLocked_def auditFields_def by (auto intro!: same_redis.keeps_seq)

definition barred :: "bytes \<Rightarrow> auth_work \<Rightarrow> bool" where
  "barred sid w \<longleftrightarrow> redis_get (awRedis w) (revokedKey sid) \<noteq> None"

lemma barred_denied: "barred sid w \<Longrightarrow> \<not> accepts_spelled env same sid w"
  by (auto simp: accepts_spelled_def barred_def Validate_session_def Refresh_session_def IsSessionRevoked_def ready_def Let_def act_simps)

lemma Revoke_marks:
  assumes "Revoke_session env uid guid w = (res, w')" "fst (ready env w) = Inr ()" "\<not> aeSQL env (awStatements w)" "aeNet env (awCommands w) = NetOk"
    "sql_first (\<lambda>s. rGUID s = guid \<and> sUser s = uid \<and> rDeleted s = 0) (tSessions (awTables w)) = Some s"
  shows "awRedis w' = redis_set_px (revokedKey (sSID s)) ''1'' (sessionTTL s (aeNow env (awNow w))) (awRedis w)"
proof -
  let ?tx = "transaction env (
       seq (sql_read env (\<lambda>t. sql_first (owned_row (rID s) uid) (tSessions t))) (\<lambda>found.
       seq (from_option found Internal) (\<lambda>session.
       revokeLocked env session uid AuthAuditEventSessionRevoked no_input)))"
  have keep: "keeps same_redis ?tx"
    by (intro same_redis.keeps_transaction same_redis.keeps_seq same_redis_revokeLocked) simp_all
  have ttl: "0 < sessionTTL s (aeNow env (awNow w))" by (simp add: sessionTTL_def day_ms_def)
  let ?w = "w\<lparr>awStatements := awStatements w + 1, awNow := awNow w + 1, awCommands := awCommands w + 1,
    awRedis := redis_set_px (revokedKey (sSID s)) ''1'' (sessionTTL s (aeNow env (awNow w))) (awRedis w)\<rparr>"
  have "ready env w = (Inr (), w)" using assms(2) by (auto simp: ready_def Let_def check_def ok_def fail_with_def split: if_splits)
  then have run: "Revoke_session env uid guid w = ?tx ?w"
    using assms(3-5) ttl
    by (simp add: Revoke_session_def seq_def or_error_def sql_read_def from_option_def ok_def clock_now_def MarkSessionRevoked_def redis_command_def Let_def)
  have "?tx ?w = (res, w')" using run[symmetric] assms(1) by (rule trans)
  then have "w' = snd (?tx ?w)" by simp
  moreover have "same_redis ?w (snd (?tx ?w))" using keep unfolding keeps_def by (rule spec)
  ultimately show ?thesis unfolding same_redis_def by simp
qed

text \<open>C27: the barrier comes first: once \<open>Revoke_session\<close> has marked the session in Redis, no token that spells the session's
  identifier as it is stored is accepted until the session would have expired, even if the transaction failed and whatever
  the database holds, as long as Redis keeps the mark and its clock does not pass the lifetime that was left.  The mark is
  under the stored spelling only: it says nothing of a token in another spelling.\<close>

theorem barrier_survives_lost_commit:
  assumes "Revoke_session env uid guid w = (res, w')" "fst (ready env w) = Inr ()" "\<not> aeSQL env (awStatements w)" "aeNet env (awCommands w) = NetOk"
    "sql_first (\<lambda>s. rGUID s = guid \<and> sUser s = uid \<and> rDeleted s = 0) (tSessions (awTables w)) = Some s"
    "rStore (awRedis v) (revokedKey (sSID s)) = rStore (awRedis w') (revokedKey (sSID s))"
    "rClock (awRedis v) - rClock (awRedis w) < sExpiresAt s - aeNow env (awNow w)" "aeNow env (awNow w) < sExpiresAt s"
  shows "\<not> accepts_spelled env' same (sSID s) v"
proof (rule barred_denied)
  show "barred (sSID s) v"
    using Revoke_marks[OF assms(1-5)] assms(6-8)
    by (simp add: barred_def redis_get_def redis_set_px_def sessionTTL_def live_def)
qed

end
