(* ===== verification/Auth_Refresh.thy ===== *)
theory Auth_Refresh
  imports Auth_Properties
begin

text \<open>
  The outcomes of issuing and refreshing a session: the cap on live sessions, the retry of a refresh inside its window,
  and the revocation when a refresh token is used again after it.
\<close>

section \<open>Finding the updated row\<close>

lemma sort_key_map: "(\<And>r. rID (f r) = rID r) \<Longrightarrow> sort_key rID (map f rows) = map f (sort_key rID rows)"
proof (induction rows)
  case (Cons r rows)
  have "insort_key rID (f r) (map f xs) = map f (insort_key rID r xs)" for xs using Cons.prems by (induction xs) simp_all
  then show ?case using Cons by simp
qed simp

lemma sql_first_map:
  assumes "\<And>r. rID (f r) = rID r" "\<And>r. P (f r) = P r"
  shows "sql_first P (map f rows) = map_option f (sql_first P rows)"
proof -
  have "filter P (map f rows) = map f (filter P rows)" using assms(2) by (simp add: filter_map comp_def)
  then have "sort_key rID (filter P (map f rows)) = map f (sort_key rID (filter P rows))"
    using sort_key_map[of f, OF assms(1)] by (simp only:)
  then show ?thesis by (simp add: sql_first_def split: list.split)
qed

section \<open>The stored rotation\<close>

lemma recover_redis:
  "snd (recover_script cjson public pending target ttl r) = r \<or>
   (\<exists>q. redis_get r pending = Some q \<and> snd (recover_script cjson public pending target ttl r) = redis_del [pending] (redis_set_px public q ttl r))"
  by (auto simp: recover_script_def promote_pending_def split: option.splits)

lemma Recover_Inr:
  "RecoverRotationResult env sid target ttl w = (Inr (Some plain), w') \<longleftrightarrow>
     0 < ttl \<and> aeNet env (awCommands w) = NetOk \<and>
     (\<exists>q c. fst (recover_script (aeCjson env) (rotationKey sid) (pendingRotationKey sid) target ttl (awRedis w)) = Some q \<and> q \<noteq> [] \<and>
        decodeRotationRecord q = Some (target, c) \<and> decrypt_rotation env sid c = Some plain) \<and>
     w' = w\<lparr>awCommands := awCommands w + 1,
       awRedis := snd (recover_script (aeCjson env) (rotationKey sid) (pendingRotationKey sid) target ttl (awRedis w))\<rparr>"
  unfolding RecoverRotationResult_def
  by (auto simp: act_simps split: if_splits prod.splits)

section \<open>What a rotation does\<close>

lemma encrypt_Inr:
  "encrypt_rotation env sid plain w = (Inr c, w') \<Longrightarrow> awTables w' = awTables w \<and> awRedis w' = awRedis w"
  by (auto simp: encrypt_rotation_def act_simps)

lemma NewRefreshSecret_Inr: "NewRefreshSecret env w = (Inr x, w') \<Longrightarrow> awTables w' = awTables w \<and> awRedis w' = awRedis w"
  by (auto simp: NewRefreshSecret_def act_simps)

lemma StorePending_Inr:
  assumes "aead_ok env" "StorePendingRotation env sid target token ttl w = (Inr (), w')"
  obtains c where "0 < ttl" "decrypt_rotation env sid c = Some token" "ascii c" "c \<noteq> []" "awTables w' = awTables w"
    "awRedis w' = redis_set_px (pendingRotationKey sid) (rotation_text target c) ttl (awRedis w)"
proof -
  from assms(2) obtain c w1 where c: "0 < ttl" "encrypt_rotation env sid token w = (Inr c, w1)"
    "w' = w1\<lparr>awCommands := awCommands w1 + 1, awRedis := redis_set_px (pendingRotationKey sid) (rotation_text target c) ttl (awRedis w1)\<rparr>"
    by (auto simp: StorePendingRotation_def act_simps)
  then show thesis using that[of c] decrypt_encrypt[OF assms(1) c(2)] encrypt_Inr[OF c(2)] by simp
qed

lemma writeAuthAudit_Inr:
  "writeAuthAudit env uid session type meth input w = (Inr (), w') \<Longrightarrow>
     tSessions (awTables w') = tSessions (awTables w) \<and> tUsers (awTables w') = tUsers (awTables w) \<and> awRedis w' = awRedis w"
  by (auto simp: writeAuthAudit_def auditFields_def act_simps insert_auth_event_some)

lemma rotate_effect:
  assumes "aead_ok env" "rotate env session sid now w = (Inr i, w')"
  obtains c secret stamp where "0 < replay_ms env" "decrypt_rotation env sid c = Some (isToken i)" "ascii c" "c \<noteq> []"
    "isToken i = sid @ CHR ''.'' # secret" "sRefreshHMAC (isSession i) = RefreshHMAC secret (stAuthHMACKey (aeSettings env))"
    "awRedis w' = redis_set_px (pendingRotationKey sid) (rotation_text (sRefreshHMAC (isSession i)) c) (replay_ms env) (awRedis w)"
    "tSessions (awTables w') = sql_update (current_secret session) (rotated_row (sRefreshHMAC (isSession i)) (sRefreshHMAC session)
       (now + replay_ms env) now stamp (touched_by (sUser session))) (tSessions (awTables w))"
proof -
  from assms(2) obtain secret w1 w2 w3 where
    s: "NewRefreshSecret env w = (Inr secret, w1)"
    and p: "StorePendingRotation env sid (RefreshHMAC secret (stAuthHMACKey (aeSettings env))) (sid @ CHR ''.'' # secret) (replay_ms env) w1 = (Inr (), w2)"
    and r: "isToken i = sid @ CHR ''.'' # secret" "sRefreshHMAC (isSession i) = RefreshHMAC secret (stAuthHMACKey (aeSettings env))"
    and a: "writeAuthAudit env (sUser session) (rGUID session) AuthAuditEventRefreshSucceeded (sLoginMethod session) (row_input session) w3 = (Inr (), w')"
    and u: "awTables w3 = (awTables w2)\<lparr>tSessions := sql_update (current_secret session)
      (rotated_row (RefreshHMAC secret (stAuthHMACKey (aeSettings env))) (sRefreshHMAC session) (now + replay_ms env) now (aeNow env (awNow w2))
        (touched_by (sUser session))) (tSessions (awTables w2))\<rparr>" "awRedis w3 = awRedis w2"
    unfolding rotate_def Let_def by (clarsimp simp: act_simps rotated_row_def)
  obtain c where c: "0 < replay_ms env" "decrypt_rotation env sid c = Some (sid @ CHR ''.'' # secret)" "ascii c" "c \<noteq> []" "awTables w2 = awTables w1"
    "awRedis w2 = redis_set_px (pendingRotationKey sid) (rotation_text (RefreshHMAC secret (stAuthHMACKey (aeSettings env))) c) (replay_ms env) (awRedis w1)"
    by (rule StorePending_Inr[OF assms(1) p])
  show thesis
    by (rule that[of c secret "aeNow env (awNow w2)"])
      (use c r u NewRefreshSecret_Inr[OF s] writeAuthAudit_Inr[OF a] in auto)
qed

section \<open>The outcomes of a refresh\<close>

definition token_row :: "collation \<Rightarrow> bytes \<Rightarrow> session_row \<Rightarrow> bool" where
  "token_row same sid s \<longleftrightarrow> same (sSID s) sid \<and> rDeleted s = 0"

lemma Refresh_Inr:
  assumes "Refresh_session env same tok w = (Inr i', w')" "splitRefreshToken tok = Some (sid, secret)"
  obtains w1 w2 i p where "refresh_tx env same sid (RefreshHMAC secret (stAuthHMACKey (aeSettings env))) (aeNow env (awNow w)) w1 = (Inr (Some i), w2)"
    "RecoverRotationResult env sid (sRefreshHMAC (isSession i)) (replay_ms env) w2 = (Inr (Some p), w')"
    "awTables w1 = awTables w" "awRedis w1 = awRedis w" "isToken i' = isToken i" "isSession i' = isSession i"
  using assms unfolding Refresh_session_def
  by (clarsimp simp: act_simps ready_def Let_def IsSessionRevoked_def split: prod.splits)

lemma refresh_tx_session:
  assumes "refresh_tx env same sid presented now w = (Inr r, w')"
  obtains session w1 where "sql_first (token_row same sid) (tSessions (awTables w)) = Some session" "sRevokedAt session = None" "now < sExpiresAt session"
    "awTables w1 = awTables w" "awRedis w1 = awRedis w"
    "sRefreshHMAC session = presented \<Longrightarrow> \<exists>i. rotate env session sid now w1 = (Inr i, w') \<and> r = Some i"
    "sRefreshHMAC session \<noteq> presented \<Longrightarrow> within_window session presented now \<Longrightarrow> \<exists>token. r = Some \<lparr>isSession = session, isToken = token, isProof = False\<rparr> \<and>
       RecoverRotationResult env sid (sRefreshHMAC session) (replay_ms env) w1 = (Inr (Some token), w')"
    "sRefreshHMAC session \<noteq> presented \<Longrightarrow> \<not> within_window session presented now \<Longrightarrow> r = None"
proof -
  have row: "(\<lambda>s. same (sSID s) sid \<and> rDeleted s = 0) = token_row same sid" by (simp add: token_row_def fun_eq_iff)
  from assms obtain session where s: "sql_first (token_row same sid) (tSessions (awTables w)) = Some session" "sRevokedAt session = None" "now < sExpiresAt session"
    and rest: "(if sRefreshHMAC session = presented then seq (rotate env session sid now) (\<lambda>issued. ok (Some issued))
     else if within_window session presented now then
       seq (RecoverRotationResult env sid (sRefreshHMAC session) (replay_ms env)) (\<lambda>shared.
       seq (from_option shared Internal) (\<lambda>token.
       ok (Some \<lparr>isSession = session, isToken = token, isProof = False\<rparr>)))
     else
       seq (MarkSessionRevoked env sid (sessionTTL session now)) (\<lambda>_.
       seq (revokeLocked env session (sUser session) AuthAuditEventReplayRevoked (row_input session)) (\<lambda>_. ok None)))
      (w\<lparr>awStatements := awStatements w + 1\<rparr>) = (Inr r, w')"
    unfolding refresh_tx_def row by (auto simp: act_simps not_le simp del: if_split)
  show thesis
    by (rule that[of session "w\<lparr>awStatements := awStatements w + 1\<rparr>"]) (use s rest in \<open>auto simp: act_simps\<close>)
qed

lemma ascii_hex_encode [simp]: "ascii (hex_encode s)"
  unfolding ascii_def by (auto dest!: hex_encode_lower simp: is_lower_hex_def is_digit_def)

lemma refresh_tx_window:
  assumes "refresh_tx env same sid presented now w = (Inr (Some i), w')" "sql_first (token_row same sid) (tSessions (awTables w)) = Some session"
    "sRefreshHMAC session \<noteq> presented"
  obtains w1 where "RecoverRotationResult env sid (sRefreshHMAC session) (replay_ms env) w1 = (Inr (Some (isToken i)), w')"
    "isSession i = session" "awTables w1 = awTables w" "awRedis w1 = awRedis w"
proof -
  obtain v w1 where v: "sql_first (token_row same sid) (tSessions (awTables w)) = Some v" "awTables w1 = awTables w" "awRedis w1 = awRedis w"
    "sRefreshHMAC v \<noteq> presented \<Longrightarrow> within_window v presented now \<Longrightarrow> \<exists>token. Some i = Some \<lparr>isSession = v, isToken = token, isProof = False\<rparr> \<and>
       RecoverRotationResult env sid (sRefreshHMAC v) (replay_ms env) w1 = (Inr (Some token), w')"
    "sRefreshHMAC v \<noteq> presented \<Longrightarrow> \<not> within_window v presented now \<Longrightarrow> Some i = None"
    by (rule refresh_tx_session[OF assms(1)]) blast
  have "v = session" using v(1) assms(2) by simp
  then have "within_window session presented now" using v(5) assms(3) by blast
  then obtain token where "i = \<lparr>isSession = session, isToken = token, isProof = False\<rparr>"
    "RecoverRotationResult env sid (sRefreshHMAC session) (replay_ms env) w1 = (Inr (Some token), w')"
    using v(4) \<open>v = session\<close> assms(3) by auto
  then show thesis using that[of w1] v(2,3) by simp
qed

text \<open>The recovery of what a rotation just stored.\<close>

lemma recover_stored:
  assumes "cjson_reads cj" "utf8_valid target" "ascii c" "0 < ttl" "rotation_text target c \<noteq> []"
    "\<And>p. redis_get r (rotationKey sid) = Some p \<Longrightarrow> lua_target cj p \<noteq> Some (LuaString target)"
    "fst (recover_script cj (rotationKey sid) (pendingRotationKey sid) target ttl (redis_set_px (pendingRotationKey sid) (rotation_text target c) ttl r)) = Some q"
    "q \<noteq> []"
  shows "q = rotation_text target c \<and>
    snd (recover_script cj (rotationKey sid) (pendingRotationKey sid) target ttl (redis_set_px (pendingRotationKey sid) (rotation_text target c) ttl r)) =
      redis_del [pendingRotationKey sid] (redis_set_px (rotationKey sid) (rotation_text target c) ttl
        (redis_set_px (pendingRotationKey sid) (rotation_text target c) ttl r))"
proof -
  have t: "lua_target cj (rotation_text target c) = Some (LuaString target)"
    using lua_rotation_text[OF assms(1,2)] assms(3) by (simp add: utf8_valid_ascii)
  show ?thesis
    using assms(4,6-8) t by (auto simp: recover_script_def promote_pending_def split: option.splits if_splits)
qed

lemma recover_again:
  assumes "cjson_reads cj" "utf8_valid target" "ascii c"
    "r = redis_del [pendingRotationKey sid] (redis_set_px (rotationKey sid) (rotation_text target c) ttl r0)"
    "fst (recover_script cj (rotationKey sid) (pendingRotationKey sid) target ttl' (r\<lparr>rClock := clock\<rparr>)) = Some q" "q \<noteq> []"
  shows "q = rotation_text target c"
proof -
  have t: "lua_target cj (rotation_text target c) = Some (LuaString target)"
    using lua_rotation_text[OF assms(1,2)] assms(3) by (simp add: utf8_valid_ascii)
  have "redis_get (r\<lparr>rClock := clock\<rparr>) (pendingRotationKey sid) = None"
    "redis_get (r\<lparr>rClock := clock\<rparr>) (rotationKey sid) \<in> {None, Some (rotation_text target c)}"
    unfolding assms(4) by (auto simp: redis_get_def redis_del_def redis_set_px_def)
  then show ?thesis
    using assms(5,6) t by (auto simp: recover_script_def promote_pending_def split: option.splits if_splits)
qed

text \<open>What the first refresh leaves behind: the rotated row, and the new token under the public key of Redis.\<close>

definition rotated :: "auth_env \<Rightarrow> session_row \<Rightarrow> bytes \<Rightarrow> int \<Rightarrow> int \<Rightarrow> session_row \<Rightarrow> session_row" where
  "rotated env s h now stamp x =
     (if current_secret s x then rotated_row h (sRefreshHMAC s) (now + replay_ms env) now stamp (touched_by (sUser s)) x else x)"

lemma refresh_leaves:
  assumes lib: "aead_ok env" "cjson_reads (aeCjson env)"
    and first: "Refresh_session env same tok w = (Inr i, w')" "splitRefreshToken tok = Some (sid, secret)"
      "sql_first (token_row same sid) (tSessions (awTables w)) = Some s" "sRefreshHMAC s = RefreshHMAC secret (stAuthHMACKey (aeSettings env))"
    and fresh: "\<And>p. redis_get (awRedis w) (rotationKey sid) = Some p \<Longrightarrow> lua_target (aeCjson env) p \<noteq> Some (LuaString (sRefreshHMAC (isSession i)))"
  obtains c stamp r where "0 < replay_ms env" "decrypt_rotation env sid c = Some (isToken i)" "ascii c" "c \<noteq> []" "utf8_valid (sRefreshHMAC (isSession i))"
    "awRedis w' = redis_del [pendingRotationKey sid] (redis_set_px (rotationKey sid) (rotation_text (sRefreshHMAC (isSession i)) c) (replay_ms env) r)"
    "tSessions (awTables w') = map (rotated env s (sRefreshHMAC (isSession i)) (aeNow env (awNow w)) stamp) (tSessions (awTables w))"
    "sRevokedAt s = None"
proof -
  let ?h = "sRefreshHMAC (isSession i)"
  obtain w1 w2 i0 p where r: "refresh_tx env same sid (RefreshHMAC secret (stAuthHMACKey (aeSettings env))) (aeNow env (awNow w)) w1 = (Inr (Some i0), w2)"
    "RecoverRotationResult env sid (sRefreshHMAC (isSession i0)) (replay_ms env) w2 = (Inr (Some p), w')"
    "awTables w1 = awTables w" "awRedis w1 = awRedis w" "isToken i = isToken i0" "isSession i = isSession i0"
    by (rule Refresh_Inr[OF first(1,2)])
  obtain w3 where w3: "awTables w3 = awTables w" "awRedis w3 = awRedis w" "rotate env s sid (aeNow env (awNow w)) w3 = (Inr i0, w2)" "sRevokedAt s = None"
    using refresh_tx_session[OF r(1)] first(3,4) r(3,4) by auto
  obtain c new stamp where c: "0 < replay_ms env" "decrypt_rotation env sid c = Some (isToken i0)" "ascii c" "c \<noteq> []"
    "isToken i0 = sid @ CHR ''.'' # new" "?h = RefreshHMAC new (stAuthHMACKey (aeSettings env))"
    "awRedis w2 = redis_set_px (pendingRotationKey sid) (rotation_text ?h c) (replay_ms env) (awRedis w)"
    "tSessions (awTables w2) = sql_update (current_secret s) (rotated_row ?h (sRefreshHMAC s)
       (aeNow env (awNow w) + replay_ms env) (aeNow env (awNow w)) stamp (touched_by (sUser s))) (tSessions (awTables w))"
    using rotate_effect[OF lib(1) w3(3)] w3(1,2) r(6) by metis
  have hex: "utf8_valid ?h" unfolding c(6) RefreshHMAC_def by (simp add: utf8_valid_ascii)
  have nonempty: "rotation_text ?h c \<noteq> []" by (simp add: rotation_text_def)
  obtain q where q: "fst (recover_script (aeCjson env) (rotationKey sid) (pendingRotationKey sid) ?h (replay_ms env) (awRedis w2)) = Some q" "q \<noteq> []"
    "w' = w2\<lparr>awCommands := awCommands w2 + 1,
       awRedis := snd (recover_script (aeCjson env) (rotationKey sid) (pendingRotationKey sid) ?h (replay_ms env) (awRedis w2))\<rparr>"
    using r(2,6) by (auto simp: Recover_Inr)
  have red: "awRedis w' = redis_del [pendingRotationKey sid] (redis_set_px (rotationKey sid) (rotation_text ?h c) (replay_ms env) (awRedis w2))"
    using recover_stored[OF lib(2) hex c(3,1) nonempty fresh q(1,2)[unfolded c(7)]] q(3) unfolding c(7) by simp
  show thesis
    by (rule that[OF c(1) _ c(3,4) hex red _ w3(4)]) (use c(2,8) r(5) q(3) in \<open>auto simp: sql_update_def rotated_def\<close>)
qed

text \<open>The row that the second refresh finds.\<close>

lemma rotated_found:
  assumes "tSessions t' = map (rotated env s h now stamp) (tSessions t)" "sql_first (token_row same sid) (tSessions t) = Some s"
  obtains s' where "sql_first (token_row same sid) (tSessions t') = Some s'" "sRefreshHMAC s' = h" "sPrevRefreshHMAC s' = Some (sRefreshHMAC s)"
    "sPrevRefreshExpires s' = Some (now + replay_ms env)" "sRevokedAt s' = sRevokedAt s" "sExpiresAt s' = sExpiresAt s"
proof -
  have "current_secret s s" using sql_firstD[OF assms(2)] by (simp add: current_secret_def token_row_def)
  moreover have "sql_first (token_row same sid) (tSessions t') = Some (rotated env s h now stamp s)"
    using sql_first_map[of "rotated env s h now stamp" "token_row same sid" "tSessions t"] assms
    by (simp add: rotated_def rotated_row_def token_row_def)
  ultimately show thesis using that by (simp add: rotated_def rotated_row_def)
qed

text \<open>A second refresh with the same token, if it succeeds, returns the token of the first.\<close>

lemma refresh_retry_same_token:
  assumes lib: "aead_ok env" "cjson_reads (aeCjson env)"
    and first: "Refresh_session env same tok w = (Inr i, w')" "splitRefreshToken tok = Some (sid, secret)"
      "sql_first (token_row same sid) (tSessions (awTables w)) = Some s" "sRefreshHMAC s = RefreshHMAC secret (stAuthHMACKey (aeSettings env))"
    and fresh: "sRefreshHMAC (isSession i) \<noteq> sRefreshHMAC s"
      "\<And>p. redis_get (awRedis w) (rotationKey sid) = Some p \<Longrightarrow> lua_target (aeCjson env) p \<noteq> Some (LuaString (sRefreshHMAC (isSession i)))"
    and again: "aeSettings env' = aeSettings env" "aeOpen env' = aeOpen env" "aeCjson env' = aeCjson env"
      "awTables v = awTables w'" "awRedis v = (awRedis w')\<lparr>rClock := clock\<rparr>" "Refresh_session env' same tok v = (Inr i', v')"
  shows "isToken i' = isToken i \<and> awTables v' = awTables v"
proof -
  let ?h = "sRefreshHMAC (isSession i)"
  obtain c stamp r where c: "decrypt_rotation env sid c = Some (isToken i)" "ascii c" "c \<noteq> []" "utf8_valid ?h"
    and red: "awRedis w' = redis_del [pendingRotationKey sid] (redis_set_px (rotationKey sid) (rotation_text ?h c) (replay_ms env) r)"
    and rows: "tSessions (awTables w') = map (rotated env s ?h (aeNow env (awNow w)) stamp) (tSessions (awTables w))"
    using refresh_leaves[OF lib first fresh(2)] by metis
  obtain v1 v2 i1 p' where r': "refresh_tx env' same sid (RefreshHMAC secret (stAuthHMACKey (aeSettings env'))) (aeNow env' (awNow v)) v1 = (Inr (Some i1), v2)"
    "RecoverRotationResult env' sid (sRefreshHMAC (isSession i1)) (replay_ms env') v2 = (Inr (Some p'), v')"
    "awTables v1 = awTables v" "awRedis v1 = awRedis v" "isToken i' = isToken i1" "isSession i' = isSession i1"
    by (rule Refresh_Inr[OF again(6) first(2)])
  have "tSessions (awTables v1) = map (rotated env s ?h (aeNow env (awNow w)) stamp) (tSessions (awTables w))"
    using rows again(4) r'(3) by simp
  then obtain s' where row: "sql_first (token_row same sid) (tSessions (awTables v1)) = Some s'" "sRefreshHMAC s' = ?h"
    using rotated_found[OF _ first(3)] by metis
  have ne: "?h \<noteq> RefreshHMAC secret (stAuthHMACKey (aeSettings env'))" using fresh(1) first(4) again(1) by simp
  obtain token v3 where t: "isToken i1 = token" "awTables v3 = awTables v1" "awRedis v3 = awRedis v1"
    "RecoverRotationResult env' sid ?h (replay_ms env') v3 = (Inr (Some token), v2)"
    using refresh_tx_window[OF r'(1) row(1)] ne unfolding row(2) by metis
  obtain q' c' where q': "fst (recover_script (aeCjson env) (rotationKey sid) (pendingRotationKey sid) ?h (replay_ms env') (awRedis v)) = Some q'" "q' \<noteq> []"
    "decodeRotationRecord q' = Some (?h, c')" "decrypt_rotation env' sid c' = Some token"
    using t(4) t(3) r'(4) again(3) by (auto simp: Recover_Inr)
  have "q' = rotation_text ?h c"
    by (rule recover_again[OF lib(2) c(4,2) red q'(1,2)[unfolded again(5)]])
  then have "c' = c" using q'(3) decode_rotation_text[OF c(4) _ c(3)] c(2) by (simp add: utf8_valid_ascii)
  then have "token = isToken i" using q'(4) c(1) again(2) by (simp add: decrypt_rotation_def split: option.splits if_splits)
  moreover have "awTables v' = awTables v" using r'(2,3) t(2,4) by (auto simp: Recover_Inr)
  ultimately show ?thesis using t(1) r'(5) by simp
qed

section \<open>Runs without failures\<close>

definition reliable :: "auth_env \<Rightarrow> bool" where
  "reliable env \<longleftrightarrow> (\<forall>n. aeNet env n = NetOk) \<and> (\<forall>n. \<not> aeSQL env n) \<and> aeCommit env = CommitOK"

lemma ready_run: "fst (ready env w) = Inr () \<Longrightarrow> ready env w' = (Inr (), w')"
  by (auto simp: ready_def Let_def check_def ok_def fail_with_def split: if_splits)

lemma revokeLocked_succeeds:
  assumes "reliable env" "\<forall>e \<in> set (tEvents (awTables w)). rGUID e \<noteq> aeGUID env (awGUID w)"
  shows "\<exists>w'. revokeLocked env s actor type input w = (Inr (), w')"
  using assms by (auto simp: reliable_def revokeLocked_def auditFields_def act_simps insert_auth_event_some audit_event_def audit_fields.extend_def)

text \<open>C28: a refresh token presented again after its window is treated as stolen: the refresh is refused, and the session is over:
  Redis denies it, and in whatever follows neither its access tokens nor any of its refresh tokens are accepted.\<close>

theorem refresh_reuse_revokes:
  assumes "reliable env" "fst (ready env w) = Inr ()" "splitRefreshToken tok = Some (sid, secret)" "\<not> barred sid w"
    "equivp same" "sids_ok same (awTables w)" "sql_first (token_row same sid) (tSessions (awTables w)) = Some s"
    "sRevokedAt s = None" "aeNow env (awNow w) < sExpiresAt s"
    "sRefreshHMAC s \<noteq> RefreshHMAC secret (stAuthHMACKey (aeSettings env))"
    "\<not> within_window s (RefreshHMAC secret (stAuthHMACKey (aeSettings env))) (aeNow env (awNow w))"
    "\<forall>e \<in> set (tEvents (awTables w)). rGUID e \<noteq> aeGUID env (awGUID w)"
  shows "\<exists>w'. Refresh_session env same tok w = (Inl Unauthorized, w') \<and> barred sid w' \<and>
    \<not> accepts_session env' same (sSID s) (run_calls same cs w')"
proof -
  let ?now = "aeNow env (awNow w)"
  let ?w1 = "w\<lparr>awCommands := awCommands w + 1, awNow := awNow w + 1\<rparr>"
  let ?w2 = "?w1\<lparr>awStatements := awStatements w + 1, awCommands := awCommands w + 2,
    awRedis := redis_set_px (revokedKey sid) ''1'' (sessionTTL s ?now) (awRedis w)\<rparr>"
  have row: "(\<lambda>s. same (sSID s) sid \<and> rDeleted s = 0) = token_row same sid" by (simp add: token_row_def fun_eq_iff)
  have ttl: "0 < sessionTTL s ?now" by (simp add: sessionTTL_def day_ms_def)
  obtain w' where w': "revokeLocked env s (sUser s) AuthAuditEventReplayRevoked (row_input s) ?w2 = (Inr (), w')"
    using revokeLocked_succeeds[OF assms(1), of ?w2 s "sUser s" AuthAuditEventReplayRevoked "row_input s"] assms(12) by auto
  have tx: "refresh_tx env same sid (RefreshHMAC secret (stAuthHMACKey (aeSettings env))) ?now ?w1 = (Inr None, w')"
    unfolding refresh_tx_def row
    using assms(1,7-11) ttl w'
    by (simp add: seq_def or_error_def sql_read_def from_option_def ok_def check_def reliable_def MarkSessionRevoked_def redis_command_def Let_def)
  have "Refresh_session env same tok w = (Inl Unauthorized, w')"
    using assms(1,3,4) ready_run[OF assms(2)] tx
    by (simp add: Refresh_session_def seq_def from_option_def IsSessionRevoked_def redis_command_def reliable_def barred_def check_def ok_def
        fail_with_def clock_now_def transaction_def)
  moreover have redis: "awRedis w' = awRedis ?w2"
    using same_redis_revokeLocked[of env s "sUser s" AuthAuditEventReplayRevoked "row_input s"] w' unfolding keeps_def same_redis_def
    by (metis snd_conv)
  then have "barred sid w'" using ttl by (simp add: barred_def)
  moreover obtain g where g: "session_change g" "tSessions (awTables w') = map g (tSessions (awTables ?w2))"
    "\<And>r. rID r = rID s \<Longrightarrow> rDeleted r = 0 \<Longrightarrow> sRevokedAt (g r) \<noteq> None"
    using revokeLocked_effect[OF w' assms(8)] by metis
  have "spent same (sSID s) w'"
    by (rule spent_from_change[OF assms(5,6) g(1)]) (use g(2,3) sql_firstD[OF assms(7)] in auto)
  then have "\<not> accepts_session env' same (sSID s) (run_calls same cs w')" by (rule spent_never_accepted[OF assms(5)])
  ultimately show ?thesis by blast
qed

section \<open>The cap on live sessions\<close>

definition live_sessions :: "int \<Rightarrow> int \<Rightarrow> tables \<Rightarrow> nat" where
  "live_sessions uid now t = length (filter (active_at uid now) (tSessions t))"

lemma filter_map_le: "(\<And>x. P (f x) \<Longrightarrow> P x) \<Longrightarrow> length (filter P (map f xs)) \<le> length (filter P xs)"
  by (induction xs) (auto simp: le_SucI)

lemma filter_map_less:
  assumes "\<And>x. P (f x) \<Longrightarrow> P x" "x \<in> set xs" "P x" "\<not> P (f x)"
  shows "length (filter P (map f xs)) < length (filter P xs)"
  using assms(2)
proof (induction xs)
  case (Cons y xs)
  have le: "length (filter P (map f xs)) \<le> length (filter P xs)" by (rule filter_map_le) (rule assms(1))
  show ?case
  proof (cases "y = x")
    case True
    then show ?thesis using assms(3,4) le by simp
  next
    case False
    then have "length (filter P (map f xs)) < length (filter P xs)" using Cons by simp
    then show ?thesis using assms(1)[of y] by auto
  qed
qed simp

lemma active_change: "session_change g \<Longrightarrow> active_at uid now (g s) \<Longrightarrow> active_at uid now s"
  by (auto simp: session_change_def active_at_def)

lemma set_by_age [simp]: "set (by_age xs) = set xs" "length (by_age xs) = length xs"
  by (simp_all add: by_age_def)

lemma evict_effect:
  assumes "evict_oldest env uid now active input w = (Inr (), w')"
    "active = by_age (filter (active_at uid now) (tSessions (awTables w)))"
  shows "live_sessions uid now (awTables w') + (if stSessionMaxActive (aeSettings env) \<le> int (length active) \<and> active \<noteq> [] then 1 else 0)
    \<le> live_sessions uid now (awTables w)"
proof (cases active)
  case Nil
  then show ?thesis using assms(1) by (simp add: evict_oldest_def act_simps)
next
  case (Cons oldest rest)
  show ?thesis
  proof (cases "stSessionMaxActive (aeSettings env) \<le> int (length active)")
    case False
    then show ?thesis using assms(1) Cons by (simp add: evict_oldest_def act_simps)
  next
    case True
    then obtain w1 where w1: "revokeLocked env oldest uid AuthAuditEventSessionRevoked input w1 = (Inr (), w')" "awTables w1 = awTables w"
      using assms(1) Cons by (auto simp: evict_oldest_def act_simps MarkSessionRevoked_def)
    have "oldest \<in> set active" by (simp add: Cons)
    then have o: "oldest \<in> set (tSessions (awTables w))" "active_at uid now oldest" unfolding assms(2) by auto
    then obtain g where g: "session_change g" "tSessions (awTables w') = map g (tSessions (awTables w1))"
      "\<And>r. rID r = rID oldest \<Longrightarrow> rDeleted r = 0 \<Longrightarrow> sRevokedAt (g r) \<noteq> None"
      using revokeLocked_effect[OF w1(1)] by (metis active_at_def)
    have "\<not> active_at uid now (g oldest)" using g(3)[of oldest] o(2) by (auto simp: active_at_def)
    then show ?thesis
      using filter_map_less[of "active_at uid now" g oldest "tSessions (awTables w)"] active_change[OF g(1)] o g(2) w1(2) True Cons
      by (auto simp: live_sessions_def Suc_le_eq)
  qed
qed

lemma Create_Inr:
  assumes "Create_session env same user input w = (Inr i, w')"
  obtains w1 raw secret where "create_tx env same (rID user) input (sid_text raw) secret (aeNow env (awNow w))
      (aeNow env (awNow w) + stSessionDays (aeSettings env) * day_ms) w1 = (Inr (isSession i), w')" "length raw = 16"
    "awTables w1 = awTables w" "awNow w1 = awNow w + 1" "isToken i = sid_text raw @ CHR ''.'' # secret" "0 < stSessionMaxActive (aeSettings env)"
proof -
  have cap: "0 < stSessionMaxActive (aeSettings env)" using assms by (auto simp: Create_session_def act_simps ready_def Let_def)
  have res: "awTables w1 = awTables w0 \<and> awNow w1 = awNow w0" if "ReserveSessionIssue env uid limit w0 = (Inr (), w1)" for uid limit w0 w1
    using that by (auto simp: ReserveSessionIssue_def act_simps split: if_splits)
  have sid: "awTables w1 = awTables w0 \<and> awNow w1 = awNow w0 \<and> (\<exists>raw. length raw = 16 \<and> x = sid_text raw)" if "NewSessionSID env w0 = (Inr x, w1)" for x w0 w1
  proof -
    from that obtain stream where st: "aeRandom env (awRandom w0) = Some stream" "16 \<le> length stream" "x = sid_text (take 16 stream)"
      "w1 = w0\<lparr>awRandom := awRandom w0 + 1\<rparr>"
      by (auto simp: NewSessionSID_def act_simps)
    then show ?thesis by (auto intro: exI[of _ "take 16 stream"])
  qed
  have rnd: "awTables w1 = awTables w0 \<and> awNow w1 = awNow w0" if "NewRefreshSecret env w0 = (Inr x, w1)" for x w0 w1
    using that by (auto simp: NewRefreshSecret_def act_simps)
  from assms obtain w1 w2 w3 x secret where
    s: "ReserveSessionIssue env (rID user) (stSessionIssueLimit (aeSettings env)) w = (Inr (), w1)" "NewSessionSID env w1 = (Inr x, w2)"
    "NewRefreshSecret env w2 = (Inr secret, w3)"
    "create_tx env same (rID user) input x secret (aeNow env (awNow w3)) (aeNow env (awNow w3) + stSessionDays (aeSettings env) * day_ms)
      (w3\<lparr>awNow := awNow w3 + 1\<rparr>) = (Inr (isSession i), w')" "isToken i = x @ CHR ''.'' # secret"
    unfolding Create_session_def by (clarsimp simp: act_simps ready_def Let_def)
  have w3: "awTables w3 = awTables w" "awNow w3 = awNow w" using res[OF s(1)] sid[OF s(2)] rnd[OF s(3)] by simp_all
  obtain raw where raw: "length raw = 16" "x = sid_text raw" using sid[OF s(2)] by blast
  show thesis by (rule that[of raw secret "w3\<lparr>awNow := awNow w3 + 1\<rparr>"]) (use s(4,5) w3 raw cap in simp_all)
qed

text \<open>C29: issuing a session keeps an account that is within the configured maximum of live sessions within it, revoking the oldest
  first where it is at the maximum.  An account above the maximum (which may have been lowered) does not grow: one session is
  revoked for the one issued, so it stays above.  In either case the number grows by at most one.\<close>

theorem create_within_cap:
  assumes "Create_session env same user input w = (Inr i, w')"
  shows "let before = int (live_sessions (rID user) (aeNow env (awNow w)) (awTables w));
             after = int (live_sessions (rID user) (aeNow env (awNow w)) (awTables w'));
             cap = stSessionMaxActive (aeSettings env)
    in (if before \<le> cap then after \<le> cap else after \<le> before) \<and> after \<le> before + 1"
proof -
  let ?now = "aeNow env (awNow w)" and ?uid = "rID user" and ?cap = "stSessionMaxActive (aeSettings env)"
  obtain w1 raw secret where c: "create_tx env same ?uid input (sid_text raw) secret ?now (?now + stSessionDays (aeSettings env) * day_ms) w1 = (Inr (isSession i), w')"
    "awTables w1 = awTables w" "0 < ?cap"
    using Create_Inr[OF assms] by blast
  let ?active = "by_age (filter (active_at ?uid ?now) (tSessions (awTables w)))"
  obtain w4 w5 f b where
    e: "evict_oldest env ?uid ?now ?active input w4 = (Inr (), w5)" "awTables w4 = awTables w"
    and t: "tSessions (awTables w') = tSessions (awTables w5) @ [b]"
    using c(1,2) unfolding create_tx_def Let_def
    by (clarsimp simp: act_simps insert_session_some auditFields_def dest!: writeAuthAudit_Inr)
  have "live_sessions ?uid ?now (awTables w') \<le> live_sessions ?uid ?now (awTables w5) + 1"
    using t by (simp add: live_sessions_def)
  moreover have "live_sessions ?uid ?now (awTables w) = length ?active" by (simp add: live_sessions_def)
  ultimately show ?thesis
    using evict_effect[OF e(1)] e(2) c(3) by (cases "?active = []") (auto simp: Let_def split: if_splits)
qed

section \<open>Refreshes that succeed\<close>

lemma recover_found:
  assumes "cjson_reads cj" "utf8_valid target" "ascii c" "redis_get r public = Some (rotation_text target c)"
  shows "recover_script cj public pending target ttl r = (Some (rotation_text target c), r)"
  using lua_rotation_text[OF assms(1,2)] assms(3,4) by (simp add: recover_script_def utf8_valid_ascii)

lemma Recover_found:
  assumes "cjson_reads (aeCjson env)" "utf8_valid target" "ascii c" "c \<noteq> []" "0 < ttl" "aeNet env (awCommands w) = NetOk"
    "redis_get (awRedis w) (rotationKey sid) = Some (rotation_text target c)" "decrypt_rotation env sid c = Some plain"
  shows "RecoverRotationResult env sid target ttl w = (Inr (Some plain), w\<lparr>awCommands := awCommands w + 1\<rparr>)"
proof -
  have "decodeRotationRecord (rotation_text target c) = Some (target, c)"
    using decode_rotation_text[OF assms(2) _ assms(4)] assms(3) by (simp add: utf8_valid_ascii)
  moreover have "rotation_text target c \<noteq> []" by (simp add: rotation_text_def)
  ultimately show ?thesis
    unfolding Recover_Inr using assms(5,6,8) recover_found[OF assms(1-3,7)] by simp
qed

text \<open>Inside its window the previous token is answered with the stored result.\<close>

lemma Refresh_window_runs:
  assumes "reliable env" "fst (ready env w) = Inr ()" "cjson_reads (aeCjson env)" "splitRefreshToken tok = Some (sid, secret)" "\<not> barred sid w"
    "sql_first (token_row same sid) (tSessions (awTables w)) = Some s" "sRevokedAt s = None" "aeNow env (awNow w) < sExpiresAt s"
    "sRefreshHMAC s \<noteq> RefreshHMAC secret (stAuthHMACKey (aeSettings env))"
    "within_window s (RefreshHMAC secret (stAuthHMACKey (aeSettings env))) (aeNow env (awNow w))"
    "redis_get (awRedis w) (rotationKey sid) = Some (rotation_text (sRefreshHMAC s) c)" "utf8_valid (sRefreshHMAC s)" "ascii c" "c \<noteq> []"
    "decrypt_rotation env sid c = Some plain" "0 < replay_ms env"
  shows "\<exists>i w'. Refresh_session env same tok w = (Inr i, w')"
proof -
  let ?now = "aeNow env (awNow w)"
  let ?w1 = "w\<lparr>awCommands := awCommands w + 1, awNow := awNow w + 1\<rparr>"
  let ?w2 = "?w1\<lparr>awStatements := awStatements w + 1\<rparr>"
  have row: "(\<lambda>s. same (sSID s) sid \<and> rDeleted s = 0) = token_row same sid" by (simp add: token_row_def fun_eq_iff)
  have rec: "RecoverRotationResult env sid (sRefreshHMAC s) (replay_ms env) v = (Inr (Some plain), v\<lparr>awCommands := awCommands v + 1\<rparr>)"
    if "awRedis v = awRedis w" for v
    by (rule Recover_found) (use assms that in \<open>simp_all add: reliable_def\<close>)
  have "refresh_tx env same sid (RefreshHMAC secret (stAuthHMACKey (aeSettings env))) ?now ?w1 =
      (Inr (Some \<lparr>isSession = s, isToken = plain, isProof = False\<rparr>), ?w2\<lparr>awCommands := awCommands ?w2 + 1\<rparr>)"
    unfolding refresh_tx_def row using assms(1,6-10) rec[of ?w2]
    by (simp add: seq_def or_error_def sql_read_def from_option_def ok_def check_def reliable_def Let_def)
  then show ?thesis
    using assms(1,4,5) ready_run[OF assms(2)] rec
    by (simp add: Refresh_session_def seq_def from_option_def IsSessionRevoked_def redis_command_def reliable_def barred_def check_def ok_def
        clock_now_def transaction_def)
qed

text \<open>The current token is rotated.\<close>

lemma encrypt_runs:
  assumes "aeRandom env (awRandom w) = Some stream" "nonceSize \<le> length stream"
  shows "\<exists>c. encrypt_rotation env sid plain w = (Inr c, w\<lparr>awRandom := awRandom w + 1\<rparr>)"
  using assms by (simp add: encrypt_rotation_def seq_def read_random_def ok_def)

lemma Refresh_current_runs:
  assumes "reliable env" "fst (ready env w) = Inr ()" "aead_ok env" "cjson_reads (aeCjson env)" "splitRefreshToken tok = Some (sid, secret)" "\<not> barred sid w"
    "sql_first (token_row same sid) (tSessions (awTables w)) = Some s" "sRevokedAt s = None" "aeNow env (awNow w) < sExpiresAt s"
    "sRefreshHMAC s = RefreshHMAC secret (stAuthHMACKey (aeSettings env))"
    "\<And>n. \<exists>stream. aeRandom env n = Some stream \<and> 64 \<le> length stream" "\<forall>e \<in> set (tEvents (awTables w)). rGUID e \<noteq> aeGUID env (awGUID w)"
    "redis_get (awRedis w) (rotationKey sid) = None"
  shows "\<exists>i w' x. Refresh_session env same tok w = (Inr i, w') \<and>
    awRedis w' = redis_del [pendingRotationKey sid] (redis_set_px (rotationKey sid) x (replay_ms env) (redis_set_px (pendingRotationKey sid) x (replay_ms env) (awRedis w)))"
proof -
  let ?now = "aeNow env (awNow w)" and ?key = "stAuthHMACKey (aeSettings env)"
  let ?w1 = "w\<lparr>awCommands := awCommands w + 1, awNow := awNow w + 1\<rparr>"
  let ?w2 = "?w1\<lparr>awStatements := awStatements w + 1\<rparr>"
  have row: "(\<lambda>s. same (sSID s) sid \<and> rDeleted s = 0) = token_row same sid" by (simp add: token_row_def fun_eq_iff)
  have ttl: "0 < replay_ms env" using assms(2) by (auto simp: ready_def Let_def replay_ms_def check_def fail_with_def split: if_splits)
  obtain st where st: "aeRandom env (awRandom w) = Some st" "64 \<le> length st" using assms(11) by blast
  define secret' where "secret' = b64_encode (take 64 st)"
  let ?token = "sid @ CHR ''.'' # secret'" and ?h = "RefreshHMAC secret' ?key"
  let ?w3 = "?w2\<lparr>awRandom := awRandom w + 1\<rparr>"
  obtain st' where st': "aeRandom env (awRandom w + 1) = Some st'" "64 \<le> length st'" using assms(11) by blast
  obtain c where c: "encrypt_rotation env sid ?token ?w3 = (Inr c, ?w3\<lparr>awRandom := awRandom w + 2\<rparr>)"
    using encrypt_runs[of env ?w3 st' sid ?token] st' by (auto simp: nonceSize_def)
  have d: "decrypt_rotation env sid c = Some ?token \<and> ascii c \<and> c \<noteq> []" by (rule decrypt_encrypt[OF assms(3) c])
  have hex: "utf8_valid ?h" by (simp add: RefreshHMAC_def utf8_valid_ascii)
  let ?x = "rotation_text ?h c"
  let ?r1 = "redis_set_px (pendingRotationKey sid) ?x (replay_ms env) (awRedis w)"
  let ?change = "rotated_row ?h (sRefreshHMAC s) (?now + replay_ms env) ?now (aeNow env (awNow w + 1)) (touched_by (sUser s))"
  obtain w4 where w4: "rotate env s sid ?now ?w2 = (Inr \<lparr>isSession = ?change s, isToken = ?token, isProof = False\<rparr>, w4)" "awRedis w4 = ?r1" "awCommands w4 = awCommands w + 2"
    using assms(1,12) st c ttl
    by (simp add: rotate_def NewRefreshSecret_def StorePendingRotation_def seq_def read_random_def ok_def check_def redis_command_def reliable_def
        clock_now_def sql_write_def sql_insert_def writeAuthAudit_def auditFields_def new_guid_def insert_auth_event_def insert_event_def audit_event_def
        audit_fields.extend_def Let_def secret'_def)
  have tx: "refresh_tx env same sid (RefreshHMAC secret ?key) ?now ?w1 = (Inr (Some \<lparr>isSession = ?change s, isToken = ?token, isProof = False\<rparr>), w4)"
    unfolding refresh_tx_def row using assms(1,7-10) w4(1)
    by (simp add: seq_def or_error_def sql_read_def from_option_def ok_def check_def reliable_def Let_def)
  have lt: "lua_target (aeCjson env) ?x = Some (LuaString ?h)"
    using lua_rotation_text[OF assms(4) hex] d by (simp add: utf8_valid_ascii)
  have rec: "recover_script (aeCjson env) (rotationKey sid) (pendingRotationKey sid) ?h (replay_ms env) ?r1 =
      (Some ?x, redis_del [pendingRotationKey sid] (redis_set_px (rotationKey sid) ?x (replay_ms env) ?r1))"
    using assms(13) lt ttl by (simp add: recover_script_def promote_pending_def)
  have dt: "decodeRotationRecord ?x = Some (?h, c)" using decode_rotation_text[OF hex] d by (simp add: utf8_valid_ascii)
  have ne: "?x \<noteq> []" by (simp add: rotation_text_def)
  have h: "sRefreshHMAC (?change s) = ?h" by (simp add: rotated_row_def)
  have pub: "RecoverRotationResult env sid ?h (replay_ms env) w4 = (Inr (Some ?token), w4\<lparr>awCommands := awCommands w4 + 1,
      awRedis := redis_del [pendingRotationKey sid] (redis_set_px (rotationKey sid) ?x (replay_ms env) ?r1)\<rparr>)"
    unfolding Recover_Inr w4(2) rec using assms(1) ttl ne dt d by (simp add: reliable_def)
  show ?thesis
    using assms(1,5,6) ready_run[OF assms(2)] tx pub h
    by (intro exI[of _ "\<lparr>isSession = ?change s, isToken = ?token, isProof = True\<rparr>"] exI[of _ "w4\<lparr>awCommands := awCommands w4 + 1,
      awRedis := redis_del [pendingRotationKey sid] (redis_set_px (rotationKey sid) ?x (replay_ms env) ?r1)\<rparr>"] exI[of _ ?x] conjI)
      (simp_all add: Refresh_session_def seq_def from_option_def IsSessionRevoked_def redis_command_def reliable_def barred_def check_def ok_def
        clock_now_def transaction_def)
qed

text \<open>C30: a refresh is safe to retry: if the answer to a refresh is lost and the client presents the same token again before the window
  ends, the refresh succeeds again and returns the very token of the first one, without a change of the tables; the only
  exceptions are collisions of the new digest with the current one or with the target of an older result in Redis.\<close>

theorem refresh_retry_returns_same_token:
  assumes lib: "aead_ok env" "cjson_reads (aeCjson env)"
    and first: "Refresh_session env same tok w = (Inr i, w')" "splitRefreshToken tok = Some (sid, secret)"
      "sql_first (token_row same sid) (tSessions (awTables w)) = Some s" "sRefreshHMAC s = RefreshHMAC secret (stAuthHMACKey (aeSettings env))"
    and again: "reliable env'" "aeSettings env' = aeSettings env" "aeOpen env' = aeOpen env" "aeCjson env' = aeCjson env"
      "awTables v = awTables w'" "awRedis v = (awRedis w')\<lparr>rClock := clock\<rparr>" "\<not> barred sid v"
      "clock < rClock (awRedis w') + replay_ms env" "aeNow env' (awNow v) \<le> aeNow env (awNow w) + replay_ms env" "aeNow env' (awNow v) < sExpiresAt s"
  shows "sRefreshHMAC (isSession i) = sRefreshHMAC s \<or>
    (\<exists>p. redis_get (awRedis w) (rotationKey sid) = Some p \<and> lua_target (aeCjson env) p = Some (LuaString (sRefreshHMAC (isSession i)))) \<or>
    (\<exists>i' v'. Refresh_session env' same tok v = (Inr i', v') \<and> isToken i' = isToken i \<and> awTables v' = awTables v)"
proof (cases "sRefreshHMAC (isSession i) = sRefreshHMAC s \<or>
    (\<exists>p. redis_get (awRedis w) (rotationKey sid) = Some p \<and> lua_target (aeCjson env) p = Some (LuaString (sRefreshHMAC (isSession i))))")
  case False
  let ?h = "sRefreshHMAC (isSession i)"
  have fresh: "?h \<noteq> sRefreshHMAC s" "\<And>p. redis_get (awRedis w) (rotationKey sid) = Some p \<Longrightarrow> lua_target (aeCjson env) p \<noteq> Some (LuaString ?h)"
    using False by blast+
  obtain c stamp r where c: "decrypt_rotation env sid c = Some (isToken i)" "ascii c" "c \<noteq> []" "utf8_valid ?h" "0 < replay_ms env" "sRevokedAt s = None"
    and red: "awRedis w' = redis_del [pendingRotationKey sid] (redis_set_px (rotationKey sid) (rotation_text ?h c) (replay_ms env) r)"
    and rows: "tSessions (awTables w') = map (rotated env s ?h (aeNow env (awNow w)) stamp) (tSessions (awTables w))"
    using refresh_leaves[OF lib first fresh(2)] by metis
  obtain s' where s': "sql_first (token_row same sid) (tSessions (awTables v)) = Some s'" "sRefreshHMAC s' = ?h" "sPrevRefreshHMAC s' = Some (sRefreshHMAC s)"
    "sPrevRefreshExpires s' = Some (aeNow env (awNow w) + replay_ms env)" "sRevokedAt s' = sRevokedAt s" "sExpiresAt s' = sExpiresAt s"
    using rotated_found[OF rows first(3)] again(5) by metis
  have key: "redis_get (awRedis v) (rotationKey sid) = Some (rotation_text ?h c)"
    using again(6,8) unfolding red by (simp add: redis_get_def redis_del_def redis_set_px_def live_def)
  have rdy: "fst (ready env' v) = Inr ()"
    using first(1) again(2) by (auto simp: Refresh_session_def act_simps ready_def Let_def check_def ok_def)
  have dec: "decrypt_rotation env' sid c = Some (isToken i)" using c(1) unfolding decrypt_rotation_def again(3) .
  obtain i' v' where run: "Refresh_session env' same tok v = (Inr i', v')"
    using Refresh_window_runs[OF again(1) rdy _ first(2) again(7) s'(1), of c "isToken i"] lib(2) c(2-6) s'(2-6) dec key fresh(1) first(4) again(2,4,9,10)
    by (auto simp: within_window_def replay_ms_def)
  show ?thesis
    using run refresh_retry_same_token[OF lib first fresh again(2-6) run] by blast
qed blast

end
