(* ===== verification/Auth_Access.thy ===== *)
theory Auth_Access
  imports Auth_Refresh
begin

text \<open>
  Passwords and access: the two password rules agree, a password hash is verified exactly by a password with the same
  derived key, and the access token of a login authenticates the account and the session that the login created.
\<close>

unbundle bit_operations_syntax

section \<open>The password rules\<close>

lemma byte_word_inject: "(of_nat (byte a) :: 8 word) = of_nat (byte b) \<longleftrightarrow> a = b"
proof -
  have "take_bit 8 (byte a) = byte a" "take_bit 8 (byte b) = byte b"
    using byte_less_256[of a] byte_less_256[of b] by (simp_all add: take_bit_nat_eq_self)
  then have "(of_nat (byte a) :: 8 word) = of_nat (byte b) \<longleftrightarrow> byte a = byte b" by (simp add: word_of_nat_eq_iff)
  then show ?thesis by (metis char_of_char)
qed

lemma xor_zero_iff: "(x :: 8 word) XOR y = 0 \<longleftrightarrow> x = y"
  by (metis bit.conj_cancel_right xor.left_neutral xor.right_neutral xor_self_eq xor.assoc)

lemma or_zero_iff: "(x :: 8 word) OR y = 0 \<longleftrightarrow> x = 0 \<and> y = 0"
  by (metis or.right_neutral or_eq_0_iff)

lemma fold_different:
  "foldl (\<lambda>different (a, b). different OR (of_nat (byte (lower_char a)) XOR of_nat (byte b))) d ps = (0 :: 8 word) \<longleftrightarrow>
     d = 0 \<and> list_all (\<lambda>(a, b). lower_char a = b) ps"
proof (induction ps arbitrary: d)
  case (Cons q ps)
  obtain a b where q: "q = (a, b)" by (cases q)
  show ?case unfolding q foldl_Cons prod.case Cons.IH list.pred_inject(2) or_zero_iff xor_zero_iff byte_word_inject by (simp only: conj_assoc)
qed simp

lemma asciiEqualFold_lower: "asciiEqualFold left right \<longleftrightarrow> map lower_char left = right"
proof -
  have "length left = length right \<Longrightarrow> list_all (\<lambda>(a, b). lower_char a = b) (zip left right) \<longleftrightarrow> map lower_char left = right"
    by (induction left right rule: list_induct2) auto
  then show ?thesis unfolding asciiEqualFold_def fold_different by auto
qed

text \<open>The rule for passwords held as bytes, with its constant-time comparison, accepts exactly the passwords that the rule for
  strings accepts.\<close>

theorem password_rules_agree: "ValidatePasswordBytes p \<longleftrightarrow> ValidatePassword p"
  unfolding ValidatePasswordBytes_def ValidatePassword_def asciiEqualFold_lower by (auto simp: list_ex_iff)

section \<open>Password hashes\<close>

lemma b64_encode_chars: "c \<in> set (b64_encode s) \<Longrightarrow> \<exists>n < 64. c = b64_char n"
  by (induction s rule: b64_encode.induct) (auto intro: b64_bytes exI[of _ "byte c mod 64" for c])

lemma b64_char_std: "n < 64 \<Longrightarrow> of_std (to_std (b64_char n)) = b64_char n \<and> to_std (b64_char n) \<notin> {CHR ''-'', CHR ''_'', CHR ''$''}"
proof -
  assume "n < 64"
  then have "n \<in> set [0..<64]" by simp
  moreover have "list_all (\<lambda>n. of_std (to_std (b64_char n)) = b64_char n \<and> to_std (b64_char n) \<notin> {CHR ''-'', CHR ''_'', CHR ''$''}) [0..<64]"
    by code_simp
  ultimately show ?thesis unfolding list_all_iff by blast
qed

lemma b64std_chars: "c \<in> set (b64std_encode s) \<Longrightarrow> c \<notin> {CHR ''-'', CHR ''_'', CHR ''$''}"
  using b64_encode_chars b64_char_std by (fastforce simp: b64std_encode_def)

lemma b64std_decode_encode [simp]: "b64std_decode (b64std_encode s) = Some s"
proof -
  have "map of_std (b64std_encode s) = b64_encode s"
    unfolding b64std_encode_def map_map comp_def
    by (rule map_idI) (use b64_encode_chars b64_char_std in blast)
  then show ?thesis using b64std_chars[of _ s] by (auto simp: b64std_decode_def b64_decode_encode)
qed

lemma split_char_nonempty: "split_char d s \<noteq> []"
  by (induction s) (auto split: list.splits)

lemma split_char_append: "d \<notin> set s \<Longrightarrow> split_char d (s @ d # t) = s # split_char d t"
  by (induction s) (auto split: list.splits)

lemma split_char_single: "d \<notin> set s \<Longrightarrow> split_char d s = [s]"
  by (induction s) auto

definition password_hash :: "auth_env \<Rightarrow> bytes \<Rightarrow> bytes \<Rightarrow> bytes" where
  "password_hash env salt p = ''$argon2id$v=19$m=65536,t=3,p=4$'' @ b64std_encode salt @ CHR ''$'' # b64std_encode (aeArgon env p salt)"

lemma Verify_password_hash:
  assumes "16 \<le> length salt" "length (aeArgon env p salt) = 32"
  shows "VerifyPassword env q (password_hash env salt p) \<longleftrightarrow> aeArgon env q salt = aeArgon env p salt"
proof -
  have dollar: "CHR ''$'' \<notin> set (b64std_encode x)" for x using b64std_chars[of "CHR ''$''" x] by auto
  have "split_char CHR ''$'' (b64std_encode salt @ CHR ''$'' # b64std_encode (aeArgon env p salt)) = [b64std_encode salt, b64std_encode (aeArgon env p salt)]"
    using dollar by (simp add: split_char_append split_char_single)
  then have s: "split_char CHR ''$'' (password_hash env salt p) =
      [[], ''argon2id'', ''v=19'', ''m=65536,t=3,p=4'', b64std_encode salt, b64std_encode (aeArgon env p salt)]"
    unfolding password_hash_def by simp
  have m: "scan_params ''m=65536,t=3,p=4'' = Some (65536, 3, 4)" by code_simp
  show ?thesis using m assms by (simp add: VerifyPassword_def s)
qed

text \<open>C31: a stored hash is verified by exactly the passwords that derive the same key from its salt; the password it was made from
  is one.\<close>

theorem password_hash_roundtrip:
  assumes "HashPassword env p w = (Inr h, w')" "\<And>q salt. length (aeArgon env q salt) = 32"
  shows "VerifyPassword env p h \<and> (\<exists>salt. length salt = 16 \<and> (\<forall>q. VerifyPassword env q h = (aeArgon env q salt = aeArgon env p salt)))"
proof -
  obtain salt where salt: "length salt = 16" "h = password_hash env salt p"
    using assms(1) that[of "take 16 (the (aeRandom env (awRandom w)))"] by (auto simp: HashPassword_def password_hash_def act_simps)
  then have "VerifyPassword env q h \<longleftrightarrow> aeArgon env q salt = aeArgon env p salt" for q
    using Verify_password_hash[of salt env p q] assms(2) by simp
  then show ?thesis using salt(1) by blast
qed

section \<open>What issuing a session does\<close>

lemma evict_change:
  assumes "evict_oldest env uid now active input w = (Inr (), w')" "\<forall>s \<in> set active. sRevokedAt s = None"
  obtains g where "session_change g" "tSessions (awTables w') = map g (tSessions (awTables w))" "tUsers (awTables w') = tUsers (awTables w)"
proof -
  consider "w' = w" | oldest rest w1 where "active = oldest # rest" "awTables w1 = awTables w"
    "revokeLocked env oldest uid AuthAuditEventSessionRevoked input w1 = (Inr (), w')"
  proof (cases active)
    case Nil
    then show thesis using assms(1) that(1) by (simp add: evict_oldest_def act_simps)
  next
    case (Cons oldest rest)
    show thesis
    proof (cases "stSessionMaxActive (aeSettings env) \<le> int (length active)")
      case True
      from assms(1) Cons True obtain w1 where "MarkSessionRevoked env (sSID oldest) (sessionTTL oldest now) w = (Inr (), w1)"
        "revokeLocked env oldest uid AuthAuditEventSessionRevoked input w1 = (Inr (), w')"
        by (auto simp: evict_oldest_def seq_Inr)
      moreover from calculation(1) have "awTables w1 = awTables w" unfolding MarkSessionRevoked_def by (rule keeps_tables)
      ultimately show thesis using that(2)[OF Cons] by blast
    next
      case False
      then show thesis using assms(1) that(1) Cons by (simp add: evict_oldest_def act_simps)
    qed
  qed
  then show thesis
  proof cases
    case 1
    then show thesis using that[of id] by (simp add: session_change_def)
  next
    case 2
    have "sRevokedAt oldest = None" using 2(1) assms(2) by simp
    then show thesis by (rule revokeLocked_effect[OF 2(3)]) (use that 2(2) in auto)
  qed
qed

lemma create_tx_effect:
  assumes "create_tx env same uid input sid secret now expires w = (Inr s, w')"
  obtains g st where "session_change g" "tSessions (awTables w') = map g (tSessions (awTables w)) @ [s]"
    "\<And>r. r \<in> set (tSessions (awTables w)) \<Longrightarrow> \<not> same (sSID r) sid"
    "tUsers (awTables w') = sql_update (live_user uid) (\<lambda>u. u\<lparr>uLastLoginAt := Some now, rUpdatedAt := now, rUpdatedBy := Some uid\<rparr>) (tUsers (awTables w))"
    "sSID s = sid" "sUser s = uid" "sVersion s = 1" "sRevokedAt s = None" "rDeleted s = 0" "sExpiresAt s = expires"
proof -
  from assms obtain active w1 w2 w3 f where
    e: "evict_oldest env uid now active input w1 = (Inr (), w2)" "active = by_age (filter (active_at uid now) (tSessions (awTables w)))" "awTables w1 = awTables w"
    and f: "auditFields env (Some uid) w2 = (Inr f, w3)"
    and ins: "\<exists>t. insert_session same (new_session f sid uid (RefreshHMAC secret (stAuthHMACKey (aeSettings env))) now expires input) (awTables w3) = Some (s, t) \<and>
      tUsers (awTables w') = sql_update (live_user uid) (\<lambda>u. u\<lparr>uLastLoginAt := Some now, rUpdatedAt := now, rUpdatedBy := Some uid\<rparr>) (tUsers t) \<and>
      tSessions (awTables w') = tSessions t"
    unfolding create_tx_def Let_def by (clarsimp simp: act_simps dest!: writeAuthAudit_Inr)
  have "\<forall>s \<in> set active. sRevokedAt s = None" using e(2) by (auto simp: active_at_def)
  then obtain g where g: "session_change g" "tSessions (awTables w2) = map g (tSessions (awTables w))" "tUsers (awTables w2) = tUsers (awTables w)"
    using evict_change[OF e(1)] e(3) by metis
  have w3: "awTables w3 = awTables w2" and del: "rDeleted f = 0" using f by (auto simp: auditFields_def act_simps)
  let ?s = "new_session f sid uid (RefreshHMAC secret (stAuthHMACKey (aeSettings env))) now expires input"
  obtain t where t: "insert_session same ?s (awTables w3) = Some (s, t)"
      "tUsers (awTables w') = sql_update (live_user uid) (\<lambda>u. u\<lparr>uLastLoginAt := Some now, rUpdatedAt := now, rUpdatedBy := Some uid\<rparr>) (tUsers t)"
      "tSessions (awTables w') = tSessions t"
    using ins by blast
  have sid: "sSID (g r) = sSID r" for r using g(1) by (simp add: session_change_def)
  have s: "s = ?s\<lparr>rID := tNextID (awTables w3)\<rparr>" and rows: "tSessions t = tSessions (awTables w3) @ [s]" "tUsers t = tUsers (awTables w3)"
    and fresh: "\<forall>r \<in> set (tSessions (awTables w3)). \<not> same (sSID r) (sSID ?s)"
    using t(1) by (auto simp: insert_session_some)
  have val: "sSID ?s = sid" "sUser ?s = uid" "sVersion ?s = 1" "sRevokedAt ?s = None" "rDeleted ?s = 0" "sExpiresAt ?s = expires"
    using del by (simp_all add: new_session_def audit_fields.extend_def)
  show thesis
    by (rule that[OF g(1)]) (use t(2,3) rows s w3 g(2,3) fresh val sid in auto)
qed

lemma Create_effect:
  assumes "Create_session env same user input w = (Inr i, w')"
  obtains g raw where "session_change g" "tSessions (awTables w') = map g (tSessions (awTables w)) @ [isSession i]" "length raw = 16"
    "\<And>r. r \<in> set (tSessions (awTables w)) \<Longrightarrow> \<not> same (sSID r) (sid_text raw)"
    "tUsers (awTables w') = sql_update (live_user (rID user)) (\<lambda>u. u\<lparr>uLastLoginAt := Some (aeNow env (awNow w)), rUpdatedAt := aeNow env (awNow w),
       rUpdatedBy := Some (rID user)\<rparr>) (tUsers (awTables w))"
    "sSID (isSession i) = sid_text raw" "sUser (isSession i) = rID user" "sVersion (isSession i) = 1" "sRevokedAt (isSession i) = None"
    "rDeleted (isSession i) = 0" "sExpiresAt (isSession i) = aeNow env (awNow w) + stSessionDays (aeSettings env) * day_ms"
proof -
  obtain w1 raw secret where c: "create_tx env same (rID user) input (sid_text raw) secret (aeNow env (awNow w))
      (aeNow env (awNow w) + stSessionDays (aeSettings env) * day_ms) w1 = (Inr (isSession i), w')" "length raw = 16" "awTables w1 = awTables w"
    using Create_Inr[OF assms] by metis
  show thesis by (rule create_tx_effect[OF c(1)]) (use that[OF _ _ c(2)] c(3) in auto)
qed


section \<open>Session identifiers\<close>

lemma hex_char_lower: "is_lower_hex (hex_char (byte c div 16)) \<and> is_lower_hex (hex_char (byte c mod 16))"
  by (simp add: div_less_iff_less_mult)

lemma validSID_append: "validSID_from i (s @ t) \<longleftrightarrow> validSID_from i s \<and> validSID_from (i + length s) t"
  by (induction s arbitrary: i) simp_all

lemma validSID_hex: "(\<And>k. i \<le> k \<Longrightarrow> k < i + 2 * length s \<Longrightarrow> k \<notin> {8, 13, 18, 23}) \<Longrightarrow> validSID_from i (hex_encode s)"
proof (induction s arbitrary: i)
  case (Cons c s)
  have "i \<notin> {8, 13, 18, 23}" "Suc i \<notin> {8, 13, 18, 23}" using Cons.prems[of i] Cons.prems[of "Suc i"] by simp_all
  moreover have "validSID_from (Suc (Suc i)) (hex_encode s)" by (rule Cons.IH) (rule Cons.prems; simp)
  ultimately show ?case using hex_char_lower[of c] by simp
qed simp

lemma length_hex_encode' [simp]: "length (hex_encode s) = 2 * length s"
  by (induction s) simp_all

lemma validSID_sid_text: "length raw = 16 \<Longrightarrow> validSID (sid_text raw)"
  unfolding validSID_def sid_text_def Let_def
  by (auto simp: validSID_append intro!: validSID_hex)

section \<open>From login to an authenticated request\<close>

text \<open>What the JWT library is relied on for: a token it signed is a compact ASCII text that verifies to the same claims until it
  expires; numbers survive the detour through \<open>float64\<close> up to 2 ^ 53.\<close>

definition jwt_ok :: "jwt_lib \<Rightarrow> bool" where
  "jwt_ok jwt \<longleftrightarrow> (\<forall>secret cs tok now e. jwSign jwt secret cs = Some tok \<and> distinct (map fst cs) \<and>
     (\<forall>k n. (k, ClNumber n) \<in> set cs \<longrightarrow> \<bar>n\<bar> \<le> 2 ^ 53) \<and> map_of cs ''exp'' = Some (ClNumber e) \<and> now < e * 1000 \<longrightarrow>
     jwVerify jwt secret now tok = Some cs \<and> tok \<noteq> [] \<and> (\<forall>c \<in> set tok. graphic c))"

lemma bearer_token: "tok \<noteq> [] \<Longrightarrow> \<forall>c \<in> set tok. graphic c \<Longrightarrow> BearerToken (''Bearer '' @ tok) = tok"
proof -
  assume "tok \<noteq> []" "\<forall>c \<in> set tok. graphic c"
  then have "trim_space tok = tok" by (intro trim_space_graphic) simp_all
  moreover have "map lower_char ''Bearer '' = ''bearer ''" by code_simp
  ultimately show ?thesis by (simp add: BearerToken_def)
qed

lemma claims_of_access:
  assumes "0 < rGUID u" "rGUID u < 2 ^ 63" "length raw = 16" "sSID s = sid_text raw" "0 < sVersion s" "sVersion s \<le> maxInt64"
    "0 < uAuthVersion u" "uAuthVersion u \<le> maxInt64" "validRole (uRole u)"
  shows "parseSessionClaims (access_claims u s minutes now) =
    Some \<lparr>scUser = rGUID u, scSID = sSID s, scVersion = sVersion s, scAuthVersion = uAuthVersion u, scRole = uRole u\<rparr>"
  using assms validSID_sid_text[OF assms(3)]
  by (auto simp: parseSessionClaims_def access_claims_def string_claim_def integerClaim_def validRole_def maxInt64_def)

lemma login_step_Inr:
  "(case login_account env same username p w of
     (Inl er, w') \<Rightarrow> (Inl Unauthorized, snd (RecordLoginFailure env username ip w')) | (Inr u, w') \<Rightarrow> (Inr u, w')) = (Inr v, w2) \<longleftrightarrow>
   login_account env same username p w = (Inr v, w2)"
  by (auto split: prod.split sum.split)

lemma makeToken_Inr:
  "makeToken env jwt secret u s w = (Inr tok, w') \<longleftrightarrow>
     0 < rGUID u \<and> sSID s \<noteq> [] \<and> 0 < sVersion s \<and> 0 < uAuthVersion u \<and> UserRoleUser \<le> uRole u \<and>
     jwSign jwt secret (access_claims u s (if stAccessMinutes (aeSettings env) \<le> 0 then stJWTMinutes (aeSettings env) else stAccessMinutes (aeSettings env))
       (aeNow env (awNow w))) = Some tok \<and> w' = w\<lparr>awNow := awNow w + 1\<rparr>"
  by (auto simp: makeToken_def Let_def act_simps)

lemma login_steps:
  assumes "LoginUsername env same jwt secret name p input w = (Inr (u, i, tok), w')"
  obtains w1 w2 where "Create_session env same u input w1 = (Inr i, w2)" "makeToken env jwt secret u (isSession i) w2 = (Inr tok, w')"
    "awTables w1 = awTables w" "u \<in> set (tUsers (awTables w))" "rDeleted u = 0" "uStatus u = UserStatusActive"
proof -
  from assms obtain username w0 w1 w2 w3 where
    s: "CheckLoginAllowed env username (siIP input) w = (Inr (), w0)" "login_account env same username p w0 = (Inr u, w1)"
    "ClearLoginFailures env username (siIP input) w1 = (Inr (), w2)" "Create_session env same u input w2 = (Inr i, w3)"
    "makeToken env jwt secret u (isSession i) w3 = (Inr tok, w')"
    unfolding LoginUsername_def by (auto simp: seq_Inr or_error_Inr check_Inr from_option_Inr ok_Inr login_step_Inr)
  have "awTables w0 = awTables w" using s(1) by (auto simp: CheckLoginAllowed_def act_simps)
  moreover have "awTables w1 = awTables w0 \<and> u \<in> set (tUsers (awTables w0)) \<and> rDeleted u = 0 \<and> uStatus u = UserStatusActive"
    using s(2) by (auto simp: login_account_def act_simps password_matches_def dest!: sql_firstD)
  moreover have "awTables w2 = awTables w1" using s(3) by (simp add: ClearLoginFailures_def act_simps)
  ultimately show thesis using that[OF s(4,5)] by simp
qed

definition access_minutes :: "auth_env \<Rightarrow> int" where
  "access_minutes env = (if stAccessMinutes (aeSettings env) \<le> 0 then stJWTMinutes (aeSettings env) else stAccessMinutes (aeSettings env))"

text \<open>The end of a token made by the last clock reading before a state, rounded down to the second.\<close>

definition token_end :: "auth_env \<Rightarrow> auth_work \<Rightarrow> int" where
  "token_end env w = (aeNow env (awNow w - 1) + access_minutes env * 60000) div 1000 * 1000"

lemma Validate_run:
  assumes "reliable env" "fst (ready env w) = Inr ()" "\<not> barred sid w"
    "sql_first (\<lambda>s. same (sSID s) sid \<and> active_at uid (aeNow env (awNow w)) s) (tSessions (awTables w)) = Some s" "sVersion s = sv"
    "sql_first (live_user uid) (tUsers (awTables w)) = Some u" "uStatus u = UserStatusActive" "uAuthVersion u = av"
  shows "\<exists>w'. Validate_session env same sid uid sv av w = (Inr s, w')"
  using assms ready_run[OF assms(2), of w]
  by (simp add: Validate_session_def seq_def or_error_def IsSessionRevoked_def redis_command_def reliable_def barred_def check_def ok_def
      clock_now_def sql_read_def from_option_def Let_def)

lemma authenticateClaims_run:
  assumes "reliable env" "fst (ready env w) = Inr ()" "\<not> barred (scSID c) w"
    "sql_first (\<lambda>u. rGUID u = scUser c \<and> rDeleted u = 0) (tUsers (awTables w)) = Some u" "claims_hold c u"
    "sql_first (live_user (rID u)) (tUsers (awTables w)) = Some u"
    "sql_first (\<lambda>s. same (sSID s) (scSID c) \<and> active_at (rID u) (aeNow env (awNow w)) s) (tSessions (awTables w)) = Some s"
    "sVersion s = scVersion c"
  shows "\<exists>w'. authenticateClaims env same c w = (Inr \<lparr>ruUser = u, ruSID = scSID c, ruVersion = scVersion c\<rparr>, w')"
proof -
  let ?w = "w\<lparr>awStatements := awStatements w + 1\<rparr>"
  have h: "uStatus u = UserStatusActive" "uAuthVersion u = scAuthVersion c" using assms(5) by (simp_all add: claims_hold_def)
  have "\<exists>w'. Validate_session env same (scSID c) (rID u) (scVersion c) (scAuthVersion c) ?w = (Inr s, w')"
    by (rule Validate_run) (use assms h ready_run[OF assms(2), of ?w] in \<open>simp_all add: barred_def\<close>)
  then show ?thesis using assms(1,4,5)
    by (auto simp: authenticateClaims_def seq_def sql_read_def reliable_def from_option_def ok_def check_def Let_def)
qed

text \<open>C32: the access token of a login is good: presented as a bearer token before it expires, it authenticates the account that logged in,
  with the session that the login created, as long as Redis does not deny that session.  The identifier of the account is any 64-bit
  GUID, since it travels as text; the auth version and the two times travel as JSON numbers and stay within the range that a
  \<open>float64\<close> holds exactly.\<close>

theorem login_token_authenticates:
  assumes login: "LoginUsername env same jwt secret name p input w = (Inr (u, i, tok), w')"
    and lib: "jwt_ok jwt" and coll: "equivp same" and tables: "accounts_ok (awTables w)"
    and ranges: "rGUID u < 2 ^ 63" "uAuthVersion u \<le> 2 ^ 53" "validRole (uRole u)" "\<bar>aeNow env (awNow w' - 1)\<bar> \<le> 2 ^ 52" "\<bar>access_minutes env\<bar> \<le> 2 ^ 31"
    and later: "reliable env'" "fst (ready env' w') = Inr ()" "\<not> barred (sSID (isSession i)) w'" "aeNow env' (awNow w') < token_end env w'"
      "aeNow env' (awNow w' + 1) < sExpiresAt (isSession i)"
  shows "\<exists>r v. authenticateUser env' same jwt secret (''Bearer '' @ tok) w' = (Inr r, v) \<and>
    rGUID (ruUser r) = rGUID u \<and> rID (ruUser r) = rID u \<and> ruSID r = sSID (isSession i)"
proof -
  obtain w1 w2 where st: "Create_session env same u input w1 = (Inr i, w2)" "makeToken env jwt secret u (isSession i) w2 = (Inr tok, w')"
    "awTables w1 = awTables w" "u \<in> set (tUsers (awTables w))" "rDeleted u = 0" "uStatus u = UserStatusActive"
    by (rule login_steps[OF login])
  let ?s = "isSession i" and ?now = "aeNow env (awNow w2)"
  let ?cs = "access_claims u ?s (access_minutes env) ?now"
  have tk: "0 < rGUID u" "0 < uAuthVersion u" "0 < sVersion ?s" "jwSign jwt secret ?cs = Some tok" "w' = w2\<lparr>awNow := awNow w2 + 1\<rparr>"
    using st(2) unfolding makeToken_Inr access_minutes_def by simp_all
  obtain g raw where c: "session_change g" "tSessions (awTables w2) = map g (tSessions (awTables w1)) @ [?s]" "length raw = 16"
    "\<And>r. r \<in> set (tSessions (awTables w1)) \<Longrightarrow> \<not> same (sSID r) (sid_text raw)"
    "tUsers (awTables w2) = sql_update (live_user (rID u)) (\<lambda>x. x\<lparr>uLastLoginAt := Some (aeNow env (awNow w1)), rUpdatedAt := aeNow env (awNow w1),
       rUpdatedBy := Some (rID u)\<rparr>) (tUsers (awTables w1))"
    "sSID ?s = sid_text raw" "sUser ?s = rID u" "sVersion ?s = 1" "sRevokedAt ?s = None" "rDeleted ?s = 0"
    using Create_effect[OF st(1)] by metis
  let ?u = "u\<lparr>uLastLoginAt := Some (aeNow env (awNow w1)), rUpdatedAt := aeNow env (awNow w1), rUpdatedBy := Some (rID u)\<rparr>"
  have users: "accounts_ok (awTables w')"
    using grows.keeps_Create[of env same u input] st(1,3) tables tk(5) unfolding keeps_def grows_def by (metis auth_work.select_convs(1) auth_work.surjective auth_work.update_convs(3) snd_conv)
  have u: "?u \<in> set (tUsers (awTables w'))"
    using st(3,4,5) tk(5) c(5) by (force simp: set_sql_update live_user_def)
  have row: "sql_first (\<lambda>x. rGUID x = rGUID u \<and> rDeleted x = 0) (tUsers (awTables w')) = Some ?u"
    by (rule sql_first_unique[OF u]) (use st(5) same_guid_same_row[OF users _ u] in auto)
  have row': "sql_first (live_user (rID u)) (tUsers (awTables w')) = Some ?u"
    by (rule sql_first_unique[OF u]) (use st(5) same_id_same_row[OF users _ u] in \<open>auto simp: live_user_def\<close>)
  have sid: "same (sSID ?s) (sSID ?s)" using coll by (simp add: equivp_reflp)
  have "sql_first (\<lambda>s. same (sSID s) (sSID ?s) \<and> active_at (rID u) (aeNow env' (awNow w' + 1)) s) (tSessions (awTables w')) = Some ?s"
  proof (rule sql_first_unique)
    show "?s \<in> set (tSessions (awTables w'))" using c(2) tk(5) by simp
    show "same (sSID ?s) (sSID ?s) \<and> active_at (rID u) (aeNow env' (awNow w' + 1)) ?s"
      using sid c(7,9,10) later(5) by (simp add: active_at_def)
    show "q = ?s" if "q \<in> set (tSessions (awTables w'))" "same (sSID q) (sSID ?s) \<and> active_at (rID u) (aeNow env' (awNow w' + 1)) q" for q
      using that c(1,2,4,6) tk(5) by (auto simp: session_change_def)
  qed
  moreover have parse: "parseSessionClaims ?cs = Some \<lparr>scUser = rGUID u, scSID = sSID ?s, scVersion = sVersion ?s, scAuthVersion = uAuthVersion u, scRole = uRole u\<rparr>"
    by (rule claims_of_access) (use tk(1-3) ranges c(3,6,8) in \<open>simp_all add: maxInt64_def\<close>)
  ultimately obtain v where v: "authenticateClaims env' same \<lparr>scUser = rGUID u, scSID = sSID ?s, scVersion = sVersion ?s, scAuthVersion = uAuthVersion u, scRole = uRole u\<rparr>
      (w'\<lparr>awNow := awNow w' + 1\<rparr>) = (Inr \<lparr>ruUser = ?u, ruSID = sSID ?s, ruVersion = sVersion ?s\<rparr>, v)"
    using authenticateClaims_run[of env' "w'\<lparr>awNow := awNow w' + 1\<rparr>" "\<lparr>scUser = rGUID u, scSID = sSID ?s, scVersion = sVersion ?s, scAuthVersion = uAuthVersion u, scRole = uRole u\<rparr>" ?u same ?s]
      later(1,3) ready_run[OF later(2)] row row' st(6) by (auto simp: barred_def claims_hold_def)
  have "jwVerify jwt secret (aeNow env' (awNow w')) tok = Some ?cs \<and> tok \<noteq> [] \<and> (\<forall>c \<in> set tok. graphic c)"
  proof -
    let ?e = "(?now + access_minutes env * 60000) div 1000"
    have b: "\<bar>?now\<bar> \<le> 2 ^ 52" using ranges(4) tk(5) by simp
    then have "\<bar>?now div 1000\<bar> \<le> 2 ^ 53" "\<bar>?e\<bar> \<le> 2 ^ 53" using ranges(5) by auto
    moreover have "\<bar>uRole u\<bar> \<le> 2 ^ 53" using ranges(3) by (auto simp: validRole_def)
    ultimately have "\<forall>k n. (k, ClNumber n) \<in> set ?cs \<longrightarrow> \<bar>n\<bar> \<le> 2 ^ 53"
      using ranges(2) tk(2) c(8) by (auto simp: access_claims_def)
    moreover have "distinct (map fst ?cs)" by (simp add: access_claims_def)
    moreover have "map_of ?cs ''exp'' = Some (ClNumber ?e)" by (simp add: access_claims_def)
    moreover have "aeNow env' (awNow w') < ?e * 1000" using later(4) tk(5) by (simp add: token_end_def)
    ultimately show ?thesis using lib tk(4) unfolding jwt_ok_def by blast
  qed
  then show ?thesis
    using v parse bearer_token[of tok] by (auto simp: authenticateUser_def or_error_def seq_def Let_def check_def ok_def clock_now_def from_option_def)
qed

end
