(* ===== verification/Auth_Witnesses.thy ===== *)
theory Auth_Witnesses
  imports Auth_Access
begin

text \<open>A small database with one administrator, one user and two sessions, and the instances of the authentication properties on it.\<close>

section \<open>A concrete service\<close>

definition sample_settings :: settings where
  "sample_settings = \<lparr>stSessionDays = 7, stSessionMaxActive = 1, stSessionIssueLimit = 10, stRefreshReplaySeconds = 30, stAuthHMACKey = ''k'',
     stRegisterEnabled = True, stPasswordRegister = True, stPasswordLogin = True, stAccessMinutes = 15, stJWTMinutes = 60,
     stRootUsername = [], stRootPassword = []\<rparr>"

definition sample_auth :: auth_env where
  "sample_auth = \<lparr>aeNow = (\<lambda>n. 1000), aeGUID = (\<lambda>n. 900 + int n), aeRandom = (\<lambda>n. Some (replicate 64 CHR ''r'')), aeNet = (\<lambda>n. NetOk),
     aeSQL = (\<lambda>n. False), aeCommit = CommitOK, aeSettings = sample_settings, aeArgon = (\<lambda>p s. take 32 (p @ replicate 32 CHR ''0'')),
     aeSeal = (\<lambda>n p a. p), aeOpen = (\<lambda>n c a. Some c), aeCjson = sample_cjson\<rparr>"

definition account_row :: "int \<Rightarrow> int \<Rightarrow> bytes \<Rightarrow> bytes option \<Rightarrow> int \<Rightarrow> user_row" where
  "account_row i guid name hash r =
     \<lparr>rID = i, rGUID = guid, rCreatedAt = 1, rCreatedBy = None, rUpdatedAt = 1, rUpdatedBy = None, rDeleted = 0, uGroup = 1, uPhone = None,
      uUsername = Some name, uPasswordHash = hash, uNickname = Some name, uRealName = None, uIDCardHash = None, uVerified = False, uPlan = 1,
      uStatus = UserStatusActive, uRole = r, uAuthVersion = 4, uLastLoginAt = None, uAllowedModels = Some [], uDailyLimit = 100,
      uDailyUsed = 0, uDailyResetAt = None, uTotalTokens = 0\<rparr>"

definition device_row :: "int \<Rightarrow> bytes \<Rightarrow> int \<Rightarrow> bytes \<Rightarrow> session_row" where
  "device_row i sid uid hmac =
     \<lparr>rID = i, rGUID = 200 + i, rCreatedAt = 1, rCreatedBy = None, rUpdatedAt = 1, rUpdatedBy = None, rDeleted = 0, sSID = sid, sUser = uid,
      sLoginMethod = 1, sIP = None, sUserAgent = None, sVersion = 1, sRefreshHMAC = hmac, sPrevRefreshHMAC = None,
      sPrevRefreshExpires = None, sLastActiveAt = 1, sExpiresAt = 5000, sRevokedAt = None\<rparr>"

definition sample_sid :: bytes where "sample_sid = ''00000000-0000-4000-8000-000000000001''"

definition sample_secret :: bytes where "sample_secret = replicate 64 CHR ''s''"

definition sample_redis :: redis where "sample_redis = \<lparr>rStore = (\<lambda>k. None), rClock = 0\<rparr>"

definition sample_work :: "bytes option \<Rightarrow> auth_work" where
  "sample_work hash = \<lparr>awTables = \<lparr>tUsers = [account_row 1 101 ''admin'' None UserRoleAdmin, account_row 2 102 ''alice'' hash UserRoleUser],
       tSessions = [device_row 5 sample_sid 2 (RefreshHMAC sample_secret ''k'')], tHeads = [], tRules = [], tEvents = [], tTokens = [], tLogs = [], tOutbox = [], tResponses = [], tNextID = 50\<rparr>,
     awRedis = sample_redis, awNow = 0, awGUID = 0, awRandom = 0, awCommands = 0, awStatements = 0\<rparr>"

definition sample_jwt :: jwt_lib where
  "sample_jwt = \<lparr>jwSign = (\<lambda>secret cs. None), jwVerify = (\<lambda>secret now tok. None)\<rparr>"

definition sample_host :: auth_host where
  "sample_host = \<lparr>hoEnv = sample_auth, hoSame = (=), hoJWT = sample_jwt, hoSecret = ''j'', hoGroups = []\<rparr>"

definition sample_token :: bytes where "sample_token = sample_sid @ CHR ''.'' # sample_secret"

lemmas run_simps = seq_def or_error_def check_def from_option_def ok_def fail_with_def clock_now_def new_guid_def read_random_def redis_command_def
  sql_read_def sql_insert_def sql_write_def transaction_def

lemma trim_key: "trim_space ''k'' = ''k''"
  by code_simp

lemmas sample_simps = sample_auth_def sample_settings_def sample_work_def account_row_def device_row_def trim_key ready_def

lemma sample_ready: "fst (ready sample_auth w) = Inr ()"
  by (simp add: sample_simps run_simps)

lemma sample_reliable: "reliable sample_auth"
  by (simp add: reliable_def sample_auth_def)

lemma sample_sids: "sids_ok (=) (awTables (sample_work h))"
  by (simp add: sids_ok_def sample_work_def)

lemma sample_accounts: "accounts_ok (awTables (sample_work h))"
  by (simp add: accounts_ok_def sample_work_def account_row_def)

section \<open>Revocation\<close>

definition first_session :: session_row where
  "first_session = device_row 5 sample_sid 2 (RefreshHMAC sample_secret ''k'')"

lemma first_session_found:
  "sql_first (\<lambda>s. rGUID s = 205 \<and> sUser s = 2 \<and> rDeleted s = 0) (tSessions (awTables (sample_work h))) = Some first_session"
  by (simp add: sql_first_def sample_work_def first_session_def device_row_def)

lemma sample_revoke: "\<exists>w'. Revoke_session sample_auth 2 205 (sample_work h) = (Inr (), w')"
  by (simp add: Revoke_session_def sample_simps run_simps sql_first_def MarkSessionRevoked_def owned_row_def revokeLocked_def
      auditFields_def insert_auth_event_def insert_event_def Let_def)

theorem revoked_session_is_final_witness:
  "\<exists>w'. Revoke_session sample_auth 2 205 (sample_work None) = (Inr (), w') \<and>
     \<not> accepts_session sample_auth (=) (sSID first_session) (run_calls (=) [(sample_host, CallWait 10), (sample_host, CallRefresh sample_token)] w')"
proof -
  have m: "first_session \<in> set (tSessions (awTables (sample_work None)))" by (simp add: sample_work_def first_session_def)
  obtain w' where w': "Revoke_session sample_auth 2 205 (sample_work None) = (Inr (), w')" using sample_revoke by blast
  show ?thesis
    by (rule exI[of _ w'], rule conjI[OF w'],
        rule revoked_session_is_final[OF identity_equivp sample_sids m disjI2[OF conjI[OF w' first_session_found]]])
qed

lemma sample_disable: "call_succeeds sample_auth (CallDisable 1 2) (sample_work h)"
  by (simp add: DisableUser_def mutateManagedUser_def sample_simps run_simps CheckAvailable_def sql_first_def live_user_def CanManageUser_def
      revokeUserSessionsLocked_def user_sessions_def MarkSessionRevoked_def revokeLocked_def auditFields_def insert_auth_event_def insert_event_def
      update_user_def account_event_def audit_event_def audit_fields.extend_def Let_def)

definition alice :: user_row where
  "alice = account_row 2 102 ''alice'' None UserRoleUser"

definition alice_claims :: session_claims where
  "alice_claims = \<lparr>scUser = 102, scSID = sample_sid, scVersion = 1, scAuthVersion = 4, scRole = UserRoleUser\<rparr>"

theorem security_change_is_final_witness:
  "\<not> (\<exists>r w'. authenticateClaims sample_auth (=) alice_claims (run_calls (=) [(sample_host, CallWait 10)] (run_call sample_host (CallDisable 1 2) (sample_work None))) = (Inr r, w')) \<and>
    \<not> accepts_session sample_auth (=) (sSID first_session) (run_calls (=) [(sample_host, CallWait 10)] (run_call sample_host (CallDisable 1 2) (sample_work None)))"
proof (rule security_change_is_final[OF identity_equivp sample_accounts sample_sids])
  show "call_succeeds (hoEnv sample_host) (CallDisable 1 2) (sample_work None)" using sample_disable by (simp add: sample_host_def)
  show "access_target (CallDisable 1 2) (awTables (sample_work None)) = Some alice"
    by (simp add: alice_def sample_work_def sql_first_def live_user_def account_row_def)
  show "scUser alice_claims = rGUID alice" "scAuthVersion alice_claims \<le> uAuthVersion alice" "sUser first_session = rID alice"
    by (simp_all add: alice_claims_def alice_def account_row_def first_session_def device_row_def)
  show "first_session \<in> set (tSessions (awTables (sample_work None)))" by (simp add: sample_work_def first_session_def)
qed

theorem barrier_survives_lost_commit_witness:
  "\<exists>w'. Revoke_session (sample_auth\<lparr>aeCommit := CommitLost\<rparr>) 2 205 (sample_work None) = (Inl Internal, w') \<and>
     \<not> accepts_spelled sample_auth (=) (sSID first_session) (w'\<lparr>awTables := awTables (sample_work None)\<rparr>)"
proof -
  obtain w' where w': "Revoke_session (sample_auth\<lparr>aeCommit := CommitLost\<rparr>) 2 205 (sample_work None) = (Inl Internal, w')"
    "rClock (awRedis w') = 0"
    by (simp add: Revoke_session_def sample_simps run_simps sql_first_def MarkSessionRevoked_def owned_row_def revokeLocked_def
      auditFields_def insert_auth_event_def insert_event_def redis_set_px_def sample_redis_def Let_def)
  have "\<not> accepts_spelled sample_auth (=) (sSID first_session) (w'\<lparr>awTables := awTables (sample_work None)\<rparr>)"
    by (rule barrier_survives_lost_commit[OF w'(1) _ _ _ first_session_found])
      (use w'(2) in \<open>simp_all add: sample_simps run_simps first_session_def sample_redis_def\<close>)
  with w'(1) show ?thesis by blast
qed

section \<open>Refresh\<close>

lemma sample_split: "splitRefreshToken sample_token = Some (sample_sid, sample_secret)"
  by code_simp

lemma sample_aead: "aead_ok sample_auth"
  by (simp add: aead_ok_def sample_auth_def)

lemma sample_cjson': "cjson_reads (aeCjson sample_auth)"
  by (simp add: sample_auth_def sample_cjson_reads)

lemma sample_current: "sql_first (token_row (=) sample_sid) (tSessions (awTables (sample_work h))) = Some first_session"
  by (simp add: sql_first_def sample_work_def first_session_def device_row_def token_row_def)

lemma sample_not_barred: "\<not> barred sid (sample_work h)" "redis_get (awRedis (sample_work h)) k = None"
  by (simp_all add: barred_def sample_work_def sample_redis_def redis_get_def)

lemma sample_hmac: "sRefreshHMAC first_session = RefreshHMAC sample_secret (stAuthHMACKey (aeSettings sample_auth))"
  by (simp add: first_session_def device_row_def sample_auth_def sample_settings_def)

lemma sample_refresh:
  obtains i w' x where "Refresh_session sample_auth (=) sample_token (sample_work None) = (Inr i, w')"
    "awRedis w' = redis_del [pendingRotationKey sample_sid] (redis_set_px (rotationKey sample_sid) x 30000 (redis_set_px (pendingRotationKey sample_sid) x 30000 sample_redis))"
proof -
  have ms: "replay_ms sample_auth = 30000" by (simp add: replay_ms_def sample_auth_def sample_settings_def)
  have row: "sRevokedAt first_session = None" "aeNow sample_auth (awNow (sample_work None)) < sExpiresAt first_session"
    by (simp_all add: first_session_def device_row_def sample_auth_def)
  have rnd: "\<exists>stream. aeRandom sample_auth n = Some stream \<and> 64 \<le> length stream" for n by (simp add: sample_auth_def)
  have ev: "\<forall>e \<in> set (tEvents (awTables (sample_work None))). rGUID e \<noteq> aeGUID sample_auth (awGUID (sample_work None))" by (simp add: sample_work_def)
  have red: "awRedis (sample_work None) = sample_redis" by (simp add: sample_work_def)
  show thesis
    using Refresh_current_runs[OF sample_reliable sample_ready sample_aead sample_cjson' sample_split sample_not_barred(1) sample_current row sample_hmac
        rnd ev sample_not_barred(2)] that
    unfolding ms red by blast
qed

theorem refresh_retry_returns_same_token_witness:
  "\<exists>i w'. Refresh_session sample_auth (=) sample_token (sample_work None) = (Inr i, w') \<and>
    (sRefreshHMAC (isSession i) = sRefreshHMAC first_session \<or>
     (\<exists>p. redis_get (awRedis (sample_work None)) (rotationKey sample_sid) = Some p \<and> lua_target (aeCjson sample_auth) p = Some (LuaString (sRefreshHMAC (isSession i)))) \<or>
     (\<exists>i' v'. Refresh_session sample_auth (=) sample_token (w'\<lparr>awRedis := (awRedis w')\<lparr>rClock := 100\<rparr>\<rparr>) = (Inr i', v') \<and> isToken i' = isToken i \<and>
        awTables v' = awTables (w'\<lparr>awRedis := (awRedis w')\<lparr>rClock := 100\<rparr>\<rparr>)))"
proof -
  obtain i w' x where r: "Refresh_session sample_auth (=) sample_token (sample_work None) = (Inr i, w')"
    "awRedis w' = redis_del [pendingRotationKey sample_sid] (redis_set_px (rotationKey sample_sid) x 30000 (redis_set_px (pendingRotationKey sample_sid) x 30000 sample_redis))"
    by (rule sample_refresh)
  let ?v = "w'\<lparr>awRedis := (awRedis w')\<lparr>rClock := 100\<rparr>\<rparr>"
  have cl: "rClock (awRedis w') = 0" unfolding r(2) by (simp add: redis_del_def redis_set_px_def sample_redis_def)
  have ms: "replay_ms sample_auth = 30000" by (simp add: replay_ms_def sample_auth_def sample_settings_def)
  have bar: "\<not> barred sample_sid ?v"
    using r(2) by (simp add: barred_def redis_get_def redis_del_def redis_set_px_def sample_redis_def)
  have tm: "(100 :: int) < rClock (awRedis w') + replay_ms sample_auth" unfolding cl ms by simp
  have at: "aeNow sample_auth n \<le> aeNow sample_auth m + replay_ms sample_auth" "aeNow sample_auth n < sExpiresAt first_session" for n m
    unfolding ms by (simp_all add: sample_auth_def first_session_def device_row_def)
  have tb: "awTables ?v = awTables w'" "awRedis ?v = (awRedis w')\<lparr>rClock := 100\<rparr>" by simp_all
  show ?thesis
    by (intro exI conjI, rule r(1), rule refresh_retry_returns_same_token[OF sample_aead sample_cjson' r(1) sample_split sample_current sample_hmac sample_reliable refl refl refl tb bar tm at])
qed

text \<open>A token whose digest is neither the current nor the previous one.\<close>

definition stolen_work :: auth_work where
  "stolen_work = (sample_work None)\<lparr>awTables := (awTables (sample_work None))\<lparr>tSessions := [device_row 5 sample_sid 2 ''x'']\<rparr>\<rparr>"

lemma hmac_not_x: "RefreshHMAC secret key \<noteq> ''x''"
proof
  assume "RefreshHMAC secret key = ''x''"
  then have "length (RefreshHMAC secret key) = 1" by simp
  then show False by (simp add: RefreshHMAC_def)
qed

theorem refresh_reuse_revokes_witness:
  "\<exists>w'. Refresh_session sample_auth (=) sample_token stolen_work = (Inl Unauthorized, w') \<and> barred sample_sid w' \<and>
    \<not> accepts_session sample_auth (=) (sSID (device_row 5 sample_sid 2 ''x'')) (run_calls (=) [(sample_host, CallWait 10)] w')"
proof (rule refresh_reuse_revokes[OF sample_reliable sample_ready sample_split _ identity_equivp])
  show "\<not> barred sample_sid stolen_work" using sample_not_barred(1) by (simp add: barred_def stolen_work_def)
  show "sids_ok (=) (awTables stolen_work)" by (simp add: sids_ok_def stolen_work_def)
  show "sql_first (token_row (=) sample_sid) (tSessions (awTables stolen_work)) = Some (device_row 5 sample_sid 2 ''x'')"
    by (simp add: stolen_work_def sql_first_def token_row_def device_row_def)
  show "sRevokedAt (device_row 5 sample_sid 2 ''x'') = None" "aeNow sample_auth (awNow stolen_work) < sExpiresAt (device_row 5 sample_sid 2 ''x'')"
    by (simp_all add: device_row_def sample_auth_def)
  show "sRefreshHMAC (device_row 5 sample_sid 2 ''x'') \<noteq> RefreshHMAC sample_secret (stAuthHMACKey (aeSettings sample_auth))"
    using hmac_not_x by (simp add: device_row_def) metis
  show "\<not> within_window (device_row 5 sample_sid 2 ''x'') (RefreshHMAC sample_secret (stAuthHMACKey (aeSettings sample_auth))) (aeNow sample_auth (awNow stolen_work))"
    by (simp add: within_window_def device_row_def)
  show "\<forall>e \<in> set (tEvents (awTables stolen_work)). rGUID e \<noteq> aeGUID sample_auth (awGUID stolen_work)"
    by (simp add: stolen_work_def sample_work_def)
qed

section \<open>Issue\<close>

definition sample_input :: session_input where
  "sample_input = \<lparr>siMethod = 1, siIP = ''10.0.0.1'', siAgent = ''cli''\<rparr>"

definition sample_new_sid :: bytes where "sample_new_sid = ''72727272-7272-4272-b272-727272727272''"

lemma sample_sid_text: "sid_text (replicate 16 CHR ''r'') = sample_new_sid"
  by code_simp

lemma sample_sid_new: "sample_sid \<noteq> sample_new_sid"
  by code_simp

lemma redis_incr_new: "redis_get r k = None \<Longrightarrow> redis_incr k r = (Some 1, r\<lparr>rStore := (rStore r)(k \<mapsto> (format_int 1, None))\<rparr>)"
  by (simp add: redis_incr_def)

lemma sample_reserve:
  assumes "redis_get (awRedis w) (issueKey 2) = None"
  shows "\<exists>r. ReserveSessionIssue sample_auth 2 10 w = (Inr (), w\<lparr>awCommands := awCommands w + 2, awRedis := r\<rparr>)"
  using redis_incr_new[OF assms]
  by (intro exI[of _ "redis_expire (issueKey 2) day_ms ((awRedis w)\<lparr>rStore := (rStore (awRedis w))(issueKey 2 \<mapsto> (format_int 1, None))\<rparr>)"])
    (simp add: ReserveSessionIssue_def run_simps sample_auth_def)

lemma sample_create_tx:
  assumes "awTables w = awTables (sample_work h)"
  shows "\<exists>s w'. create_tx sample_auth (=) 2 sample_input sample_new_sid secret 1000 expires w = (Inr s, w') \<and> sSID s = sample_new_sid \<and> sVersion s = 1"
  using assms sample_sid_new
  by (simp add: create_tx_def run_simps sample_auth_def sample_settings_def sample_work_def account_row_def device_row_def sql_first_def live_user_def
      by_age_def active_at_def evict_oldest_def MarkSessionRevoked_def revokeLocked_def auditFields_def insert_auth_event_def insert_event_def
      audit_event_def audit_fields.extend_def insert_session_def new_session_def sql_update_def unrevoked_def revoke_row_def writeAuthAudit_def Let_def)

lemma sample_create:
  assumes "awTables w = awTables (sample_work h)" "redis_get (awRedis w) (issueKey 2) = None" "rID u = 2" "rDeleted u = 0" "uStatus u = UserStatusActive"
  shows "\<exists>i w'. Create_session sample_auth (=) u sample_input w = (Inr i, w') \<and> sSID (isSession i) = sample_new_sid \<and> sVersion (isSession i) = 1"
proof -
  obtain r where r: "ReserveSessionIssue sample_auth 2 10 w = (Inr (), w\<lparr>awCommands := awCommands w + 2, awRedis := r\<rparr>)"
    using sample_reserve[OF assms(2)] by blast
  have lim: "stSessionIssueLimit (aeSettings sample_auth) = 10" by (simp add: sample_auth_def sample_settings_def)
  let ?w = "w\<lparr>awCommands := awCommands w + 2, awRedis := r, awRandom := awRandom w + 2, awNow := awNow w + 1\<rparr>"
  obtain s w' where tx: "create_tx sample_auth (=) 2 sample_input sample_new_sid (b64_encode (replicate 64 CHR ''r'')) 1000 (1000 + 7 * day_ms) ?w = (Inr s, w')"
    "sSID s = sample_new_sid" "sVersion s = 1"
    using sample_create_tx[of ?w h "b64_encode (replicate 64 CHR ''r'')" "1000 + 7 * day_ms"] assms(1) by auto
  have sid: "NewSessionSID sample_auth v = (Inr sample_new_sid, v\<lparr>awRandom := awRandom v + 1\<rparr>)" for v
    using sample_sid_text by (simp add: NewSessionSID_def run_simps sample_auth_def take_replicate)
  have secret: "NewRefreshSecret sample_auth v = (Inr (b64_encode (replicate 64 CHR ''r'')), v\<lparr>awRandom := awRandom v + 1\<rparr>)" for v
    by (simp add: NewRefreshSecret_def run_simps sample_auth_def)
  have env: "aeNow sample_auth n = 1000" "stSessionDays (aeSettings sample_auth) = 7" "aeCommit sample_auth = CommitOK" for n
    by (simp_all add: sample_auth_def sample_settings_def)
  show ?thesis
    unfolding Create_session_def assms(3) lim
    using assms(3-5) r ready_run[OF sample_ready, of w] sid secret tx
    by (simp add: seq_def check_def ok_def clock_now_def transaction_def env)
qed

theorem create_within_cap_witness:
  "\<exists>i w'. Create_session sample_auth (=) alice sample_input (sample_work None) = (Inr i, w') \<and>
     int (live_sessions (rID alice) (aeNow sample_auth (awNow (sample_work None))) (awTables w')) \<le> stSessionMaxActive (aeSettings sample_auth)"
proof -
  have a: "rID alice = 2" "rDeleted alice = 0" "uStatus alice = UserStatusActive" by (simp_all add: alice_def account_row_def)
  obtain i w' where c: "Create_session sample_auth (=) alice sample_input (sample_work None) = (Inr i, w')"
    using sample_create[OF refl sample_not_barred(2) a] by blast
  have "int (live_sessions (rID alice) (aeNow sample_auth (awNow (sample_work None))) (awTables (sample_work None)))
      \<le> stSessionMaxActive (aeSettings sample_auth)"
    by (simp add: live_sessions_def sample_simps run_simps device_row_def active_at_def)
  then show ?thesis using c create_within_cap[OF c] by (auto simp: Let_def)
qed

section \<open>Passwords and login\<close>

lemma sample_argon: "length (aeArgon sample_auth q salt) = 32"
  by (simp add: sample_auth_def)

theorem password_hash_roundtrip_witness:
  "\<exists>h w'. HashPassword sample_auth ''correct-horse'' (sample_work None) = (Inr h, w') \<and> VerifyPassword sample_auth ''correct-horse'' h \<and>
     (\<exists>salt. length salt = 16 \<and> (\<forall>q. VerifyPassword sample_auth q h = (aeArgon sample_auth q salt = aeArgon sample_auth ''correct-horse'' salt)))"
proof -
  obtain h w' where h: "HashPassword sample_auth ''correct-horse'' (sample_work None) = (Inr h, w')"
    by (simp add: HashPassword_def run_simps sample_auth_def)
  show ?thesis using h password_hash_roundtrip[OF h sample_argon] by blast
qed

definition sample_hash :: bytes where
  "sample_hash = password_hash sample_auth (replicate 16 CHR ''r'') ''correct-horse''"

definition login_work :: auth_work where
  "login_work = (sample_work (Some sample_hash))\<lparr>awTables := (awTables (sample_work (Some sample_hash)))\<lparr>tSessions := []\<rparr>\<rparr>"

definition login_row :: user_row where
  "login_row = account_row 2 102 ''alice'' (Some sample_hash) UserRoleUser"

definition login_claims :: claims where
  "login_claims = [(''sub'', ClString (format_int 102)), (''iat'', ClNumber 1), (''exp'', ClNumber 901), (''sid'', ClString sample_new_sid),
     (''sv'', ClNumber 1), (''av'', ClNumber 4), (''role'', ClNumber 1)]"

text \<open>A library that signs one list of claims.\<close>

definition login_jwt :: jwt_lib where
  "login_jwt = \<lparr>jwSign = (\<lambda>secret cs. if cs = login_claims then Some ''t'' else None),
     jwVerify = (\<lambda>secret now tok. if tok = ''t'' then Some login_claims else None)\<rparr>"

lemma login_jwt_ok: "jwt_ok login_jwt"
  by (auto simp: jwt_ok_def login_jwt_def graphic_def split: if_splits)

lemma login_reserve:
  assumes "redis_get (awRedis w) (issueKey 2) = None"
  obtains r where "ReserveSessionIssue sample_auth 2 10 w = (Inr (), w\<lparr>awCommands := awCommands w + 2, awRedis := r\<rparr>)"
    "\<And>k. k \<noteq> issueKey 2 \<Longrightarrow> redis_get r k = redis_get (awRedis w) k"
proof (rule that)
  let ?r = "(awRedis w)\<lparr>rStore := (rStore (awRedis w))(issueKey 2 \<mapsto> (format_int 1, None))\<rparr>"
  show "ReserveSessionIssue sample_auth 2 10 w = (Inr (), w\<lparr>awCommands := awCommands w + 2, awRedis := redis_expire (issueKey 2) day_ms ?r\<rparr>)"
    using redis_incr_new[OF assms] by (simp add: ReserveSessionIssue_def run_simps sample_auth_def)
  show "redis_get (redis_expire (issueKey 2) day_ms ?r) k = redis_get (awRedis w) k" if "k \<noteq> issueKey 2" for k
  proof -
    have lv: "live ?r = live (awRedis w)" by (simp add: live_def fun_eq_iff split: option.split)
    have "redis_get ?r k = redis_get (awRedis w) k" unfolding redis_get_def lv using that by simp
    then show ?thesis using redis_get_expire[OF that, of day_ms ?r] by simp
  qed
qed

lemma login_create_tx:
  assumes "awTables w = awTables login_work"
  shows "\<exists>s w'. create_tx sample_auth (=) 2 sample_input sample_new_sid secret 1000 expires w = (Inr s, w') \<and> sSID s = sample_new_sid \<and>
    sVersion s = 1 \<and> sExpiresAt s = expires \<and> awRedis w' = awRedis w"
  using assms
  by (simp add: create_tx_def run_simps sample_auth_def sample_settings_def login_work_def sample_work_def account_row_def sql_first_def live_user_def
      by_age_def evict_oldest_def auditFields_def insert_auth_event_def insert_event_def
      audit_event_def audit_fields.extend_def insert_session_def new_session_def sql_update_def writeAuthAudit_def Let_def)

lemma login_create:
  assumes "awTables w = awTables login_work" "redis_get (awRedis w) (issueKey 2) = None"
  obtains i w' where "Create_session sample_auth (=) login_row sample_input w = (Inr i, w')" "sSID (isSession i) = sample_new_sid" "sVersion (isSession i) = 1"
    "sExpiresAt (isSession i) = 1000 + 7 * day_ms" "\<And>k. k \<noteq> issueKey 2 \<Longrightarrow> redis_get (awRedis w') k = redis_get (awRedis w) k"
proof -
  obtain r where r: "ReserveSessionIssue sample_auth 2 10 w = (Inr (), w\<lparr>awCommands := awCommands w + 2, awRedis := r\<rparr>)"
    "\<And>k. k \<noteq> issueKey 2 \<Longrightarrow> redis_get r k = redis_get (awRedis w) k"
    by (rule login_reserve[OF assms(2)]) blast
  have u: "rID login_row = 2" "rDeleted login_row = 0" "uStatus login_row = UserStatusActive" by (simp_all add: login_row_def account_row_def)
  have lim: "stSessionIssueLimit (aeSettings sample_auth) = 10" by (simp add: sample_auth_def sample_settings_def)
  let ?w = "w\<lparr>awCommands := awCommands w + 2, awRedis := r, awRandom := awRandom w + 2, awNow := awNow w + 1\<rparr>"
  obtain s w' where tx: "create_tx sample_auth (=) 2 sample_input sample_new_sid (b64_encode (replicate 64 CHR ''r'')) 1000 (1000 + 7 * day_ms) ?w = (Inr s, w')"
    "sSID s = sample_new_sid" "sVersion s = 1" "sExpiresAt s = 1000 + 7 * day_ms" "awRedis w' = r"
    using login_create_tx[of ?w "b64_encode (replicate 64 CHR ''r'')" "1000 + 7 * day_ms"] assms(1) by auto
  have sid: "NewSessionSID sample_auth v = (Inr sample_new_sid, v\<lparr>awRandom := awRandom v + 1\<rparr>)" for v
    using sample_sid_text by (simp add: NewSessionSID_def run_simps sample_auth_def take_replicate)
  have secret: "NewRefreshSecret sample_auth v = (Inr (b64_encode (replicate 64 CHR ''r'')), v\<lparr>awRandom := awRandom v + 1\<rparr>)" for v
    by (simp add: NewRefreshSecret_def run_simps sample_auth_def)
  have env: "aeNow sample_auth n = 1000" "stSessionDays (aeSettings sample_auth) = 7" "aeCommit sample_auth = CommitOK" for n
    by (simp_all add: sample_auth_def sample_settings_def)
  have "\<exists>i. Create_session sample_auth (=) login_row sample_input w = (Inr i, w') \<and> isSession i = s"
    unfolding Create_session_def u(1) lim
    using u(2,3) r(1) ready_run[OF sample_ready, of w] sid secret tx(1)
    by (simp add: seq_def check_def ok_def clock_now_def transaction_def env)
  then obtain i where "Create_session sample_auth (=) login_row sample_input w = (Inr i, w')" "isSession i = s" by blast
  then show thesis using that[of i w'] tx(2-5) r(2) by simp
qed

lemma sample_login:
  obtains i w' where "LoginUsername sample_auth (=) login_jwt ''j'' ''alice'' ''correct-horse'' sample_input login_work = (Inr (login_row, i, ''t''), w')"
    "sExpiresAt (isSession i) = 1000 + 7 * day_ms" "\<not> barred (sSID (isSession i)) w'"
proof -
  have name: "NormalizeUsername ''alice'' = Some ''alice''" by code_simp
  have pw: "VerifyPassword sample_auth ''correct-horse'' sample_hash"
    unfolding sample_hash_def using sample_argon by (simp add: Verify_password_hash)
  let ?w1 = "login_work\<lparr>awCommands := 1\<rparr>" and ?w2 = "login_work\<lparr>awCommands := 1, awStatements := 1\<rparr>"
  let ?r = "redis_del [failureKey ''account'' ''alice'', failureKey ''ip'' (siIP sample_input), loginKey ''account'' ''alice'', loginKey ''ip'' (siIP sample_input)] (awRedis login_work)"
  let ?w3 = "login_work\<lparr>awCommands := 2, awStatements := 1, awRedis := ?r\<rparr>"
  have none: "redis_get (awRedis login_work) k = None" for k using sample_not_barred(2) by (simp add: login_work_def)
  have allowed: "CheckLoginAllowed sample_auth ''alice'' (siIP sample_input) login_work = (Inr (), ?w1)"
    using none by (simp add: CheckLoginAllowed_def run_simps sample_auth_def) (simp add: login_work_def sample_work_def)
  have sq: "aeSQL sample_auth n = False" for n by (simp add: sample_auth_def)
  have acc: "login_account sample_auth (=) ''alice'' ''correct-horse'' ?w1 = (Inr login_row, ?w2)"
    using pw sq by (simp add: login_account_def run_simps password_matches_def same_username_def login_work_def sample_work_def account_row_def login_row_def sql_first_def)
  have clear: "ClearLoginFailures sample_auth ''alice'' (siIP sample_input) ?w2 = (Inr (), ?w3)"
    by (simp add: ClearLoginFailures_def run_simps sample_auth_def)
  obtain i w' where c: "Create_session sample_auth (=) login_row sample_input ?w3 = (Inr i, w')" "sSID (isSession i) = sample_new_sid" "sVersion (isSession i) = 1"
    "sExpiresAt (isSession i) = 1000 + 7 * day_ms" "\<And>k. k \<noteq> issueKey 2 \<Longrightarrow> redis_get (awRedis w') k = redis_get ?r k"
  proof (rule login_create[of ?w3])
    show "awTables ?w3 = awTables login_work" "redis_get (awRedis ?w3) (issueKey 2) = None" using none by simp_all
  qed simp
  have sid: "sample_new_sid \<noteq> []" by (simp add: sample_new_sid_def)
  have mk: "makeToken sample_auth login_jwt ''j'' login_row (isSession i) w' = (Inr ''t'', w'\<lparr>awNow := awNow w' + 1\<rparr>)"
    unfolding makeToken_Inr using c(2,3) sid
    by (simp add: login_row_def account_row_def sample_auth_def sample_settings_def login_jwt_def access_claims_def login_claims_def)
  have st: "stPasswordLogin (aeSettings sample_auth)" by (simp add: sample_auth_def sample_settings_def)
  have "LoginUsername sample_auth (=) login_jwt ''j'' ''alice'' ''correct-horse'' sample_input login_work = (Inr (login_row, i, ''t''), w'\<lparr>awNow := awNow w' + 1\<rparr>)"
    unfolding LoginUsername_def using st name allowed acc clear c(1) mk
    by (simp add: seq_def check_def ok_def from_option_def or_error_def)
  moreover have "\<not> barred sample_new_sid (w'\<lparr>awNow := awNow w' + 1\<rparr>)"
    using c(5)[of "revokedKey sample_new_sid"] none by (simp add: barred_def)
  ultimately show thesis using that c(2,4) by simp
qed

theorem login_token_authenticates_witness:
  "\<exists>i w'. LoginUsername sample_auth (=) login_jwt ''j'' ''alice'' ''correct-horse'' sample_input login_work = (Inr (login_row, i, ''t''), w') \<and>
     (\<exists>r v. authenticateUser sample_auth (=) login_jwt ''j'' (''Bearer '' @ ''t'') w' = (Inr r, v) \<and>
        rGUID (ruUser r) = rGUID login_row \<and> rID (ruUser r) = rID login_row \<and> ruSID r = sSID (isSession i))"
proof -
  obtain i w' where l: "LoginUsername sample_auth (=) login_jwt ''j'' ''alice'' ''correct-horse'' sample_input login_work = (Inr (login_row, i, ''t''), w')"
    "sExpiresAt (isSession i) = 1000 + 7 * day_ms" "\<not> barred (sSID (isSession i)) w'"
    by (rule sample_login)
  have tb: "accounts_ok (awTables login_work)" by (simp add: login_work_def accounts_ok_def sample_work_def account_row_def)
  have row: "rGUID login_row < 2 ^ 63" "uAuthVersion login_row \<le> 2 ^ 53" "validRole (uRole login_row)"
    by (simp_all add: login_row_def account_row_def validRole_def)
  have tm: "\<bar>aeNow sample_auth (awNow w' - 1)\<bar> \<le> 2 ^ 52" "\<bar>access_minutes sample_auth\<bar> \<le> 2 ^ 31" "aeNow sample_auth (awNow w') < token_end sample_auth w'"
    "aeNow sample_auth (awNow w' + 1) < sExpiresAt (isSession i)"
    by (simp_all add: token_end_def access_minutes_def sample_auth_def sample_settings_def l(2) day_ms_def)
  show ?thesis
    using l(1) login_token_authenticates[OF l(1) login_jwt_ok identity_equivp tb row tm(1,2) sample_reliable sample_ready l(3) tm(3,4)] by blast
qed

end
