(* ===== verification/Sms_Codes.thy ===== *)
theory Sms_Codes
  imports Auth_Base "HOL-Library.AList"
begin

text \<open>
  The one-time codes of \<open>SMSService\<close> (\<open>service/auth.go\<close>): codes by phone and the send windows by phone and address.
  The clock (milliseconds) and the random number are arguments.  The zero \<open>time.Time\<close> of an absent window lies before
  every clock value: an absent entry is an expired one.
\<close>

record code_entry =
  ceCode :: bytes
  ceExpires :: int

record window_count =
  wcCount :: int
  wcExpires :: int

record sms_service =
  smCodes :: "(bytes \<times> code_entry) list"
  smPhone :: "(bytes \<times> window_count) list"
  smIP :: "(bytes \<times> window_count) list"

definition incrLocked :: "(bytes \<times> window_count) list \<Rightarrow> bytes \<Rightarrow> int \<Rightarrow> int \<times> (bytes \<times> window_count) list" where
  "incrLocked store key now =
     (let fresh = \<lparr>wcCount = 0, wcExpires = now + 3600000\<rparr>;
          w = (case map_of store key of None \<Rightarrow> fresh | Some w \<Rightarrow> if wcExpires w < now then fresh else w);
          w' = w\<lparr>wcCount := wcCount w + 1\<rparr> in
      (wcCount w', AList.update key w' store))"

text \<open>The result is whether the message may be sent.\<close>

definition CheckSendAllowed :: "int \<Rightarrow> int \<Rightarrow> bytes \<Rightarrow> bytes \<Rightarrow> int \<Rightarrow> sms_service \<Rightarrow> bool \<times> sms_service" where
  "CheckSendAllowed perPhone perIP phone ip now s =
     (let (n, phones) = incrLocked (smPhone s) (''phone:'' @ phone) now; s = s\<lparr>smPhone := phones\<rparr> in
      if perPhone < n then (False, s)
      else let (m, ips) = incrLocked (smIP s) (''ip:'' @ ip) now; s = s\<lparr>smIP := ips\<rparr> in
           (\<not> perIP < m, s))"

text \<open>\<open>rand.Intn(900000) + 100000\<close> has six digits: no padding.\<close>

definition SendCode :: "nat \<Rightarrow> bytes \<Rightarrow> int \<Rightarrow> sms_service \<Rightarrow> bytes \<times> sms_service" where
  "SendCode random phone now s =
     (let code = format_int (int (random mod 900000) + 100000) in
      (code, s\<lparr>smCodes := AList.update phone \<lparr>ceCode = code, ceExpires = now + 300000\<rparr> (smCodes s)\<rparr>))"

definition VerifyCode :: "bytes \<Rightarrow> bytes \<Rightarrow> int \<Rightarrow> sms_service \<Rightarrow> bool \<times> sms_service" where
  "VerifyCode phone code now s =
     (case map_of (smCodes s) (trim_space phone) of
        None \<Rightarrow> (False, s)
      | Some e \<Rightarrow>
          if ceExpires e < now \<or> trim_space code \<noteq> ceCode e then (False, s)
          else (True, s\<lparr>smCodes := AList.delete phone (smCodes s)\<rparr>))"

section \<open>Sending and verifying\<close>

lemma verify_consumes:
  assumes "trim_space phone = phone" "VerifyCode phone code now s = (True, s')"
  shows "fst (VerifyCode phone code' now' s') = False"
  using assms by (auto simp: VerifyCode_def delete_conv' split: option.splits if_splits)

text \<open>
  A code is verified under the trimmed phone and deleted under the phone as given: with a blank around the phone it stays
  valid.
\<close>

lemma verify_keeps_untrimmed:
  assumes "trim_space phone \<noteq> phone" "VerifyCode phone code now s = (True, s')"
  shows "VerifyCode phone code now s' = (True, s')"
proof -
  from assms(2) obtain e where e: "map_of (smCodes s) (trim_space phone) = Some e" "\<not> ceExpires e < now" "trim_space code = ceCode e"
    and s': "s' = s\<lparr>smCodes := AList.delete phone (smCodes s)\<rparr>"
    by (auto simp: VerifyCode_def split: option.splits if_splits)
  have "map_of (smCodes s') (trim_space phone) = Some e"
    using assms(1) e(1) by (simp add: s' delete_conv')
  moreover have "AList.delete phone (smCodes s') = smCodes s'" by (simp add: s' delete_idem)
  ultimately show ?thesis using e(2,3) by (simp add: VerifyCode_def)
qed

end
