(* ===== verification/Snowflake.thy ===== *)
theory Snowflake
  imports Main "HOL-Library.Word"
begin

text \<open>
  The business identifiers (\<open>persistence/snowflake.go\<close>): a millisecond clock, ten bits of node, twelve bits of sequence,
  packed into an \<open>int64\<close> by shifts on a 64-bit word.  The mutex makes each call one step; the clock reading is an argument.
\<close>

unbundle bit_operations_syntax

section \<open>The generator\<close>

record snowflake =
  sfNode :: int
  sfLast :: int
  sfSequence :: int

definition snowflakeEpochMillis :: int where "snowflakeEpochMillis = 1704067200000"

definition maxSequence :: int where "maxSequence = 4095"

definition NewSnowflake :: "int \<Rightarrow> snowflake option" where
  "NewSnowflake node = (if node < 0 \<or> node > 1023 then None else Some \<lparr>sfNode = node, sfLast = 0, sfSequence = 0\<rparr>)"

definition snowflake_id :: "int \<Rightarrow> int \<Rightarrow> int \<Rightarrow> int" where
  "snowflake_id now node sequence =
     sint (push_bit 22 (word_of_int (now - snowflakeEpochMillis) :: 64 word) OR push_bit 12 (word_of_int node) OR word_of_int sequence)"

definition Next_guid :: "int \<Rightarrow> snowflake \<Rightarrow> int \<times> snowflake" where
  "Next_guid clock g =
     (let now = (if clock < sfLast g then sfLast g else clock);
          (now, sequence) =
            (if now = sfLast g then
               if maxSequence < sfSequence g + 1 then (sfLast g + 1, 0) else (now, sfSequence g + 1)
             else (now, 0)) in
      (snowflake_id now (sfNode g) sequence, g\<lparr>sfLast := now, sfSequence := sequence\<rparr>))"

fun guids :: "snowflake \<Rightarrow> int list \<Rightarrow> int list" where
  "guids g [] = []"
| "guids g (c # cs) = (case Next_guid c g of (n, g') \<Rightarrow> n # guids g' cs)"

section \<open>The packed word\<close>

lemma or_is_plus:
  fixes a b :: int
  assumes "0 \<le> b" "b < 2 ^ n"
  shows "push_bit n a OR b = a * 2 ^ n + b"
proof -
  have "take_bit n b = b" using assms by (simp add: take_bit_int_eq_self)
  then have lt: "bit b k \<Longrightarrow> k < n" for k by (metis bit_take_bit_iff)
  have "push_bit n a AND b = 0" by (auto simp: bit_eq_iff bit_and_iff bit_push_bit_iff dest: lt)
  then have "push_bit n a OR b = push_bit n a + b" by (simp add: disjunctive_add_eq_or)
  then show ?thesis by (simp add: push_bit_eq_mult)
qed

lemma snowflake_id_value:
  assumes "0 \<le> now - snowflakeEpochMillis" "now - snowflakeEpochMillis < 2 ^ 41" "0 \<le> node" "node < 2 ^ 10" "0 \<le> sequence" "sequence < 2 ^ 12"
  shows "snowflake_id now node sequence = ((now - snowflakeEpochMillis) * 2 ^ 10 + node) * 2 ^ 12 + sequence"
proof -
  let ?t = "now - snowflakeEpochMillis"
  let ?v = "(?t * 2 ^ 10 + node) * 2 ^ 12 + sequence"
  have "push_bit 22 ?t OR push_bit 12 node OR sequence = push_bit 12 (push_bit 10 ?t OR node) OR sequence"
    by (simp add: push_bit_or or.assoc)
  also have "\<dots> = ?v" using assms by (simp add: or_is_plus)
  finally have v: "push_bit 22 ?t OR push_bit 12 node OR sequence = ?v" .
  have "push_bit 22 (word_of_int ?t :: 64 word) OR push_bit 12 (word_of_int node) OR word_of_int sequence = word_of_int ?v"
    unfolding v[symmetric] by (simp add: of_int_or_eq of_int_push_bit)
  moreover have "signed_take_bit 63 ?v = ?v"
    by (rule signed_take_bit_int_eq_self) (use assms in auto)
  moreover have "sint (word_of_int x :: 64 word) = signed_take_bit 63 x" for x by (simp add: sint_sbintrunc')
  ultimately show ?thesis unfolding snowflake_id_def by (simp only:)
qed

section \<open>The sequence of identifiers\<close>

definition generator_ok :: "snowflake \<Rightarrow> bool" where
  "generator_ok g \<longleftrightarrow> 0 \<le> sfNode g \<and> sfNode g < 1024 \<and> 0 \<le> sfSequence g \<and> sfSequence g < 4096"

text \<open>Where the generator stands: the identifier it gave last, if it gave one after the epoch.\<close>

definition position :: "snowflake \<Rightarrow> int" where
  "position g = ((sfLast g - snowflakeEpochMillis) * 2 ^ 10 + sfNode g) * 2 ^ 12 + sfSequence g"

lemma Next_guid_step:
  assumes "generator_ok g" "snowflakeEpochMillis < c" "c < limit" "sfLast g < limit" "limit \<le> snowflakeEpochMillis + 2 ^ 41 - 1"
    "Next_guid c g = (n, g')"
  shows "generator_ok g' \<and> sfNode g' = sfNode g \<and> snowflakeEpochMillis < sfLast g' \<and> sfLast g' < limit + 1 \<and> n = position g' \<and> position g < n"
proof -
  let ?now = "if c < sfLast g then sfLast g else c"
  obtain now sequence where ns: "(now, sequence) = (if ?now = sfLast g then
       if maxSequence < sfSequence g + 1 then (sfLast g + 1, 0) else (?now, sfSequence g + 1) else (?now, 0))" by (metis surj_pair)
  have g': "g' = g\<lparr>sfLast := now, sfSequence := sequence\<rparr>" and n: "n = snowflake_id now (sfNode g) sequence"
    using assms(6) ns[symmetric] by (simp_all add: Next_guid_def Let_def split: prod.splits)
  have b: "snowflakeEpochMillis < now" "now < limit + 1" "0 \<le> sequence" "sequence < 4096"
    "sfLast g < now \<or> sfLast g = now \<and> sfSequence g < sequence"
    using ns assms(1-4) by (auto simp: generator_ok_def maxSequence_def split: if_splits)
  have "n = position g'"
    unfolding n g' position_def using b assms(1,5) by (simp add: snowflake_id_value generator_ok_def)
  moreover have "position g < position g'"
    using b(3-5) assms(1) unfolding position_def g' generator_ok_def by auto
  ultimately show ?thesis using b assms(1) by (simp add: g' generator_ok_def)
qed

lemma guids_from:
  assumes "generator_ok g" "\<forall>c \<in> set cs. snowflakeEpochMillis < c \<and> c < limit" "sfLast g < limit"
    "limit + int (length cs) \<le> snowflakeEpochMillis + 2 ^ 41 - 1"
  shows "sorted_wrt (<) (position g # guids g cs) \<and> (\<forall>n \<in> set (guids g cs). 0 < n \<and> n < 2 ^ 63 \<and> n div 4096 mod 1024 = sfNode g)"
  using assms
proof (induction cs arbitrary: g limit)
  case (Cons c cs)
  obtain n g' where n: "Next_guid c g = (n, g')" by (cases "Next_guid c g")
  have st: "generator_ok g'" "sfNode g' = sfNode g" "snowflakeEpochMillis < sfLast g'" "sfLast g' < limit + 1" "n = position g'" "position g < n"
    using Next_guid_step[of g c limit n g'] Cons.prems n by auto
  have "sorted_wrt (<) (position g' # guids g' cs) \<and> (\<forall>n \<in> set (guids g' cs). 0 < n \<and> n < 2 ^ 63 \<and> n div 4096 mod 1024 = sfNode g')"
    using Cons.IH[of g' "limit + 1"] st Cons.prems by force
  moreover have "0 < n" "n < 2 ^ 63" "n div 4096 mod 1024 = sfNode g'"
  proof -
    define t where "t = sfLast g' - snowflakeEpochMillis"
    have b: "0 < t" "t < 2 ^ 41 - 1" "0 \<le> sfNode g'" "sfNode g' < 1024" "0 \<le> sfSequence g'" "sfSequence g' < 4096"
      using st(1,3,4) Cons.prems(4) by (simp_all add: generator_ok_def t_def)
    have p: "n = (t * 1024 + sfNode g') * 4096 + sfSequence g'" unfolding st(5) position_def t_def by simp
    show "0 < n" "n < 2 ^ 63" using b unfolding p by simp_all
    have "n div 4096 = t * 1024 + sfNode g'" using b unfolding p by simp
    then show "n div 4096 mod 1024 = sfNode g'" using b by (simp add: mod_mult_self3)
  qed
  ultimately show ?case using n st(2,5,6) by auto
qed simp

text \<open>C33: the identifiers of a generator are positive, fit an \<open>int64\<close>, carry its node and strictly increase, whatever the clock reads
  (also when it steps back or stands still), as long as it stays between the epoch and 2 ^ 41 milliseconds after it.\<close>

theorem guids_increase:
  assumes "NewSnowflake node = Some g" "\<forall>c \<in> set cs. snowflakeEpochMillis < c \<and> c < snowflakeEpochMillis + 2 ^ 41 - 1 - int (length cs)"
  shows "sorted_wrt (<) (guids g cs) \<and> (\<forall>n \<in> set (guids g cs). 0 < n \<and> n < 2 ^ 63 \<and> n div 4096 mod 1024 = node)"
proof (cases cs)
  case (Cons c rest)
  have g: "generator_ok g" "sfNode g = node" "sfLast g = 0" using assms(1) by (auto simp: NewSnowflake_def generator_ok_def split: if_splits)
  have "0 < snowflakeEpochMillis + 2 ^ 41 - 1 - int (length cs)"
    using assms(2) by (auto simp: Cons snowflakeEpochMillis_def)
  then show ?thesis using guids_from[OF g(1) assms(2)] g(2,3) by simp
qed simp

theorem guids_increase_witness:
  "sorted_wrt (<) (guids \<lparr>sfNode = 7, sfLast = 0, sfSequence = 0\<rparr> [1704067200005, 1704067200005, 1704067200003]) \<and>
   list_all (\<lambda>n. 0 < n \<and> n < 2 ^ 63 \<and> n div 4096 mod 1024 = 7)
     (guids \<lparr>sfNode = 7, sfLast = 0, sfSequence = 0\<rparr> [1704067200005, 1704067200005, 1704067200003])"
  unfolding list_all_iff by (rule guids_increase) (simp_all add: NewSnowflake_def snowflakeEpochMillis_def)

end
