(* ===== verification/Net_Ip.thy ===== *)
theory Net_Ip
  imports Json
begin

text \<open>
  What the services use of Go's \<open>net/netip\<close>: \<open>ParseAddr\<close>, \<open>Zone\<close>, \<open>Unmap\<close> and \<open>String\<close>.  An IPv4 address is its four
  octets, an IPv6 address its eight groups of 16 bits with a zone.
\<close>

datatype ip_addr = IPv4 "nat list" | IPv6 "nat list" bytes

section \<open>Parsing\<close>

text \<open>A decimal field without leading zeros, up to 255.\<close>

definition parse_octet :: "bytes \<Rightarrow> nat option" where
  "parse_octet s =
     (if s = [] \<or> (1 < length s \<and> hd s = CHR ''0'') then None
      else case dec_value 0 s of None \<Rightarrow> None | Some n \<Rightarrow> if 255 < n then None else Some n)"

fun split_on :: "char \<Rightarrow> bytes \<Rightarrow> bytes list" where
  "split_on d [] = [[]]"
| "split_on d (c # s) =
     (if c = d then [] # split_on d s else case split_on d s of [] \<Rightarrow> [[c]] | p # ps \<Rightarrow> (c # p) # ps)"

definition parse_ipv4 :: "bytes \<Rightarrow> nat list option" where
  "parse_ipv4 s =
     (case map parse_octet (split_on CHR ''.'' s) of
        [Some a, Some b, Some c, Some d] \<Rightarrow> Some [a, b, c, d]
      | _ \<Rightarrow> None)"

definition is_hex_char :: "char \<Rightarrow> bool" where
  "is_hex_char c \<longleftrightarrow> hex_digit c \<noteq> None"

definition hex_group :: "bytes \<Rightarrow> nat" where
  "hex_group s = foldl (\<lambda>acc c. acc * 16 + the (hex_digit c)) 0 s"

text \<open>At most \<open>n\<close> more groups: the groups read, the place of the ellipsis, and the text left over.\<close>

fun parse_groups :: "nat \<Rightarrow> nat list \<Rightarrow> nat option \<Rightarrow> bytes \<Rightarrow> (nat list \<times> nat option \<times> bytes) option" where
  "parse_groups 0 gs ell s = Some (gs, ell, s)"
| "parse_groups (Suc n) gs ell s =
     (let ds = takeWhile is_hex_char s; rest = dropWhile is_hex_char s; gs' = gs @ [hex_group ds] in
      if ds = [] \<or> 4 < length ds then None
      else case rest of
        [] \<Rightarrow> Some (gs', ell, [])
      | c # rest \<Rightarrow>
          if c = CHR ''.'' then
            (if (ell = None \<and> length gs \<noteq> 6) \<or> 6 < length gs then None
             else case parse_ipv4 s of
               Some [a, b, c, d] \<Rightarrow> Some (gs @ [a * 256 + b, c * 256 + d], ell, [])
             | _ \<Rightarrow> None)
          else if c \<noteq> CHR '':'' \<or> rest = [] then None
          else if hd rest \<noteq> CHR '':'' then parse_groups n gs' ell rest
          else if ell \<noteq> None then None
          else if tl rest = [] then Some (gs', Some (length gs'), [])
          else parse_groups n gs' (Some (length gs')) (tl rest))"

definition expand_groups :: "nat list \<times> nat option \<times> bytes \<Rightarrow> nat list option" where
  "expand_groups p =
     (case p of (gs, ell, s) \<Rightarrow>
        if s \<noteq> [] then None
        else if length gs < 8 then
          (case ell of None \<Rightarrow> None | Some e \<Rightarrow> Some (take e gs @ replicate (8 - length gs) 0 @ drop e gs))
        else if ell \<noteq> None then None else Some gs)"

definition parse_ipv6 :: "bytes \<Rightarrow> ip_addr option" where
  "parse_ipv6 s =
     (let t = takeWhile (\<lambda>c. c \<noteq> CHR ''%'') s; zoned = CHR ''%'' \<in> set s; zone = tl (dropWhile (\<lambda>c. c \<noteq> CHR ''%'') s) in
      if zoned \<and> zone = [] then None
      else if t = ''::'' then Some (IPv6 (replicate 8 0) zone)
      else map_option (\<lambda>gs. IPv6 gs zone)
        (Option.bind (if take 2 t = ''::'' then parse_groups 8 [] (Some 0) (drop 2 t) else parse_groups 8 [] None t) expand_groups))"

definition ParseAddr :: "bytes \<Rightarrow> ip_addr option" where
  "ParseAddr s =
     (case find (\<lambda>c. c \<in> {CHR ''.'', CHR '':'', CHR ''%''}) s of
        Some c \<Rightarrow>
          if c = CHR ''.'' then map_option IPv4 (parse_ipv4 s) else if c = CHR '':'' then parse_ipv6 s else None
      | None \<Rightarrow> None)"

definition Zone :: "ip_addr \<Rightarrow> bytes" where
  "Zone a = (case a of IPv4 _ \<Rightarrow> [] | IPv6 _ z \<Rightarrow> z)"

text \<open>An IPv4 address mapped into IPv6 is the IPv4 address.\<close>

definition Unmap :: "ip_addr \<Rightarrow> ip_addr" where
  "Unmap a =
     (case a of
        IPv4 os \<Rightarrow> a
      | IPv6 gs zone \<Rightarrow>
          if take 6 gs = [0, 0, 0, 0, 0, 65535]
          then IPv4 [gs ! 6 div 256, gs ! 6 mod 256, gs ! 7 div 256, gs ! 7 mod 256] else a)"

section \<open>Printing\<close>

definition text_ipv4 :: "nat list \<Rightarrow> bytes" where
  "text_ipv4 os = concat (map (\<lambda>i. (if i = 0 then [] else ''.'') @ nat_digits (os ! i)) [0..<length os])"

definition zero_run :: "nat list \<Rightarrow> nat \<Rightarrow> nat" where
  "zero_run gs i = length (takeWhile (\<lambda>g. g = 0) (drop i gs))"

text \<open>The first longest run of at least two zero groups.\<close>

definition longest_zeros :: "nat list \<Rightarrow> nat \<times> nat" where
  "longest_zeros gs = foldl (\<lambda>(start, n) i. let l = zero_run gs i in if 2 \<le> l \<and> n < l then (i, l) else (start, n)) (8, 0) [0..<8]"

definition hex_text :: "nat \<Rightarrow> bytes" where
  "hex_text n = (let s = dropWhile (\<lambda>c. c = CHR ''0'') (hex4 n) in if s = [] then ''0'' else s)"

definition text_ipv6 :: "nat list \<Rightarrow> bytes" where
  "text_ipv6 gs =
     (let (start, n) = longest_zeros gs in
      concat (map (\<lambda>i.
        if i = start then ''::''
        else if start < i \<and> i < start + n then []
        else (if i = 0 \<or> (0 < n \<and> i = start + n) then [] else '':'') @ hex_text (gs ! i)) [0..<length gs]))"

definition addr_text :: "ip_addr \<Rightarrow> bytes" where
  "addr_text a =
     (case a of
        IPv4 os \<Rightarrow> text_ipv4 os
      | IPv6 gs zone \<Rightarrow>
          (case Unmap a of IPv4 os \<Rightarrow> ''::ffff:'' @ text_ipv4 os | IPv6 _ _ \<Rightarrow> text_ipv6 gs) @
          (if zone = [] then [] else CHR ''%'' # zone))"

section \<open>Samples\<close>

lemma addr_samples:
  "map_option (\<lambda>a. addr_text (Unmap a)) (ParseAddr ''10.0.0.1'') = Some ''10.0.0.1''"
  "map_option (\<lambda>a. addr_text (Unmap a)) (ParseAddr ''::ffff:10.0.0.1'') = Some ''10.0.0.1''"
  "map_option (\<lambda>a. addr_text (Unmap a)) (ParseAddr ''2001:DB8:0:0:1:0:0:1'') = Some ''2001:db8::1:0:0:1''"
  "map_option (\<lambda>a. addr_text (Unmap a)) (ParseAddr ''1::'') = Some ''1::''"
  "map_option (\<lambda>a. addr_text (Unmap a)) (ParseAddr ''::'') = Some ''::''"
  "map_option (\<lambda>a. addr_text (Unmap a)) (ParseAddr ''::2'') = Some ''::2''"
  "ParseAddr ''010.0.0.1'' = None" "ParseAddr ''1:2:3'' = None" "ParseAddr ''1::2::3'' = None" "ParseAddr ''localhost'' = None"
  by code_simp+

end
