(* ===== verification/Rate_Limit.thy ===== *)
theory Rate_Limit
  imports Net_Ip Auth_Redis
begin

text \<open>
  The rate limits of protected actions (\<open>service/action_security_redis.go\<close>, \<open>reserveVerification\<close> of
  \<open>action_verification.go\<close>): fixed windows counted in Redis under keyed digests, several dimensions in one script.
  The store holds strings only, so \<open>TYPE\<close> answers \<open>none\<close> or \<open>string\<close>; \<open>acl\<close> says which writes Redis permits.
\<close>

section \<open>The script\<close>

record rate_window =
  rwLimit :: int
  rwMillis :: int

datatype rate_acl = AclSet | AclIncr

text \<open>The counter of a key as the script reads it: \<open>None\<close> is an error reply, \<open>Some None\<close> a missing key.\<close>

definition rate_count :: "bytes \<Rightarrow> nat option" where
  "rate_count raw =
     (if raw = [] \<or> \<not> list_all is_digit raw \<or> (1 < length raw \<and> hd raw = CHR ''0'') \<or> 15 < length raw then None
      else dec_value 0 raw)"

record rate_slot =
  slKey :: bytes
  slWindow :: int
  slMissing :: bool
  slNext :: int
  slRemaining :: int

definition rate_slot :: "(rate_acl \<Rightarrow> bytes \<Rightarrow> bool) \<Rightarrow> redis \<Rightarrow> bytes \<Rightarrow> rate_window \<Rightarrow> rate_slot option" where
  "rate_slot acl r key w =
     (if rwLimit w \<le> 0 \<or> rwMillis w \<le> 0 then None
      else case redis_get r key of
        None \<Rightarrow>
          if acl AclSet key
          then Some \<lparr>slKey = key, slWindow = rwMillis w, slMissing = True, slNext = 1, slRemaining = rwMillis w\<rparr> else None
      | Some raw \<Rightarrow>
          (case rate_count raw of
             None \<Rightarrow> None
           | Some n \<Rightarrow>
               let remaining = (case redis_deadline r key of None \<Rightarrow> - 1 | Some d \<Rightarrow> d - rClock r) in
               if remaining \<le> 0 \<or> rwMillis w < remaining then None
               else if acl AclIncr key
               then Some \<lparr>slKey = key, slWindow = rwMillis w, slMissing = False, slNext = int n + 1, slRemaining = remaining\<rparr>
               else None))"

text \<open>Phase 1 reads only; phase 2 writes every dimension, also when the reservation is refused.\<close>

fun rate_preflight ::
  "(rate_acl \<Rightarrow> bytes \<Rightarrow> bool) \<Rightarrow> redis \<Rightarrow> bytes list \<Rightarrow> (bytes \<times> rate_window) list \<Rightarrow> int \<times> int \<Rightarrow> (rate_slot list \<times> int \<times> int) option" where
  "rate_preflight acl r seen [] (allowed, retry) = Some ([], allowed, retry)"
| "rate_preflight acl r seen ((key, w) # rest) (allowed, retry) =
     (if key \<in> set seen then None
      else case rate_slot acl r key w of
        None \<Rightarrow> None
      | Some sl \<Rightarrow>
          map_option (\<lambda>(sls, a). (sl # sls, a))
            (rate_preflight acl r (key # seen) rest
               (if rwLimit w < slNext sl then (0, if retry = 0 \<or> slRemaining sl < retry then slRemaining sl else retry)
                else (allowed, retry))))"

definition rate_write :: "rate_slot \<Rightarrow> redis \<Rightarrow> redis" where
  "rate_write sl r = (if slMissing sl then redis_set_px (slKey sl) ''1'' (slWindow sl) r else snd (redis_incr (slKey sl) r))"

text \<open>\<open>None\<close> is an error reply.\<close>

definition actionSecurityRateScript ::
  "(rate_acl \<Rightarrow> bytes \<Rightarrow> bool) \<Rightarrow> (bytes \<times> rate_window) list \<Rightarrow> redis \<Rightarrow> redis_value option \<times> redis" where
  "actionSecurityRateScript acl dims r =
     (if dims = [] then (None, r)
      else case rate_preflight acl r [] dims (1, 0) of
        None \<Rightarrow> (None, r)
      | Some (sls, allowed, retry) \<Rightarrow> (Some (RArray [RInt allowed, RInt retry]), fold rate_write sls r))"

section \<open>Reservations\<close>

datatype rate_result = RateOk | RateRetry int | RateUnavailable | RateInput

definition rate_eval :: "net \<Rightarrow> (redis \<Rightarrow> redis_value option \<times> redis) \<Rightarrow> redis \<Rightarrow> redis_value option \<times> redis" where
  "rate_eval n script r =
     (case n of NetOk \<Rightarrow> script r | NetLostRequest \<Rightarrow> (None, r) | NetLostReply \<Rightarrow> (None, snd (script r)))"

definition rate_answer :: "int \<Rightarrow> redis_value option \<Rightarrow> rate_result" where
  "rate_answer maxWindow v =
     (case v of
        Some (RArray [RInt allowed, RInt retry]) \<Rightarrow>
          if (allowed \<noteq> 0 \<and> allowed \<noteq> 1) \<or> retry < 0 then RateUnavailable
          else if allowed = 1 then (if retry \<noteq> 0 then RateUnavailable else RateOk)
          else if retry \<le> 0 \<or> maxWindow < retry then RateUnavailable
          else let seconds = (retry + 999) div 1000; seconds = (if seconds < 1 then 1 else seconds) in
            if maxInt64 < seconds then RateUnavailable else RateRetry seconds
      | _ \<Rightarrow> RateUnavailable)"

definition reserve :: "net \<Rightarrow> (rate_acl \<Rightarrow> bytes \<Rightarrow> bool) \<Rightarrow> bytes list \<Rightarrow> rate_window list \<Rightarrow> redis \<Rightarrow> rate_result \<times> redis" where
  "reserve n acl keys limits r =
     (if keys = [] \<or> length keys \<noteq> length limits \<or> list_ex (\<lambda>w. rwLimit w \<le> 0 \<or> rwMillis w \<le> 0) limits then (RateUnavailable, r)
      else let maxWindow = foldl (\<lambda>m w. if m < rwMillis w then rwMillis w else m) 0 limits;
               (v, r') = rate_eval n (actionSecurityRateScript acl (zip keys limits)) r in
        (rate_answer maxWindow v, r'))"

definition actionSecurityRatePrefix :: bytes where "actionSecurityRatePrefix = ''porsche:action:rate:v1:''"

fun rateKeys :: "crypto \<Rightarrow> (bytes \<times> bytes) list \<Rightarrow> bytes list option" where
  "rateKeys c [] = Some []"
| "rateKeys c ((purpose, payload) # ids) =
     (case RateDigest c purpose payload of
        Inl er \<Rightarrow> None
      | Inr d \<Rightarrow> map_option ((#) (actionSecurityRatePrefix @ hex_encode d)) (rateKeys c ids))"

definition encodeActionRateID :: "int \<Rightarrow> bytes" where
  "encodeActionRateID uid = big_endian 8 (nat uid)"

definition verification_limits :: "rate_window list" where
  "verification_limits =
     [\<lparr>rwLimit = 5, rwMillis = 900000\<rparr>, \<lparr>rwLimit = 20, rwMillis = 900000\<rparr>, \<lparr>rwLimit = 10, rwMillis = 3600000\<rparr>]"

definition reserve_verification_keys ::
  "net \<Rightarrow> (rate_acl \<Rightarrow> bytes \<Rightarrow> bool) \<Rightarrow> crypto \<Rightarrow> int \<Rightarrow> bytes \<Rightarrow> ip_addr \<Rightarrow> redis \<Rightarrow> rate_result \<times> redis" where
  "reserve_verification_keys n acl c actor session addr r =
     (case rateKeys c [(RateVerificationActor, encodeActionRateID actor), (RateVerificationIP, addr_text (Unmap addr)),
                       (RateVerificationSession, session)] of
        None \<Rightarrow> (RateUnavailable, r)
      | Some keys \<Rightarrow> reserve n acl keys verification_limits r)"

definition ReserveVerification ::
  "net \<Rightarrow> (rate_acl \<Rightarrow> bytes \<Rightarrow> bool) \<Rightarrow> crypto \<Rightarrow> int \<Rightarrow> int \<Rightarrow> bytes \<Rightarrow> redis \<Rightarrow> rate_result \<times> redis" where
  "ReserveVerification n acl c actor session ip r =
     (case ParseAddr ip of
        None \<Rightarrow> (RateInput, r)
      | Some addr \<Rightarrow>
          if actor \<le> 0 \<or> session \<le> 0 \<or> Zone addr \<noteq> [] then (RateInput, r)
          else reserve_verification_keys n acl c actor (encodeActionRateID session) addr r)"

definition ReserveBegin :: "net \<Rightarrow> (rate_acl \<Rightarrow> bytes \<Rightarrow> bool) \<Rightarrow> crypto \<Rightarrow> int \<Rightarrow> redis \<Rightarrow> rate_result \<times> redis" where
  "ReserveBegin n acl c session r =
     (if session \<le> 0 then (RateInput, r)
      else case rateKeys c [(RateBeginSession, encodeActionRateID session)] of
        None \<Rightarrow> (RateUnavailable, r)
      | Some keys \<Rightarrow> reserve n acl keys [\<lparr>rwLimit = 60, rwMillis = 60000\<rparr>] r)"

text \<open>\<open>reserveVerification\<close> of the ticket service counts the session by its SID.\<close>

definition reserveVerification ::
  "net \<Rightarrow> (rate_acl \<Rightarrow> bytes \<Rightarrow> bool) \<Rightarrow> crypto \<Rightarrow> int \<Rightarrow> bytes \<Rightarrow> bytes \<Rightarrow> redis \<Rightarrow> rate_result \<times> redis" where
  "reserveVerification n acl c actor sid ip r =
     (case ParseAddr ip of
        None \<Rightarrow> (RateInput, r)
      | Some addr \<Rightarrow>
          if actor \<le> 0 \<or> sid = [] \<or> Zone addr \<noteq> [] then (RateInput, r)
          else reserve_verification_keys n acl c actor sid addr r)"

end
