(* ===== verification/Rate_Properties.thy ===== *)
theory Rate_Properties
  imports Rate_Limit
begin

text \<open>
  What the rate limiter guarantees over any history of reservations, with other keys, lost requests and lost
  replies in between and time passing: the number of admitted reservations per window.
\<close>

section \<open>One reservation\<close>

lemma rate_write_clock [simp]: "rClock (rate_write sl r) = rClock r"
  by (auto simp: rate_write_def redis_set_px_def redis_incr_def redis_set_keepttl_def split: option.split)

lemma rate_write_other [simp]: "k \<noteq> slKey sl \<Longrightarrow> rStore (rate_write sl r) k = rStore r k"
  by (auto simp: rate_write_def redis_set_px_def redis_incr_def redis_set_keepttl_def split: option.split)

lemma rate_write_local:
  "rStore r1 (slKey sl) = rStore r2 (slKey sl) \<Longrightarrow> rClock r1 = rClock r2 \<Longrightarrow>
   rStore (rate_write sl r1) (slKey sl) = rStore (rate_write sl r2) (slKey sl)"
  by (auto simp: rate_write_def redis_set_px_def redis_incr_def redis_set_keepttl_def redis_get_def redis_deadline_def live_def
      split: option.splits)

lemma fold_write_clock [simp]: "rClock (fold rate_write sls r) = rClock r"
  by (induction sls arbitrary: r) auto

lemma fold_write_other [simp]: "k \<notin> slKey ` set sls \<Longrightarrow> rStore (fold rate_write sls r) k = rStore r k"
  by (induction sls arbitrary: r) auto

lemma fold_write_at:
  "distinct (map slKey sls) \<Longrightarrow> sl \<in> set sls \<Longrightarrow>
   rStore (fold rate_write sls r) (slKey sl) = rStore (rate_write sl r) (slKey sl)"
proof (induction sls arbitrary: r)
  case (Cons a sls)
  show ?case
  proof (cases "sl = a")
    case True
    then show ?thesis using Cons.prems by simp
  next
    case False
    then have "sl \<in> set sls" using Cons.prems by simp
    moreover from this have "slKey sl \<noteq> slKey a" using Cons.prems(1) by (metis distinct.simps(2) image_eqI list.set_map list.simps(9))
    ultimately show ?thesis using Cons.IH[of "rate_write a r"] Cons.prems rate_write_local[of "rate_write a r" sl r] by simp
  qed
qed simp

lemma same_entry:
  assumes "rStore r' k = rStore r k" "rClock r' = rClock r"
  shows "redis_get r' k = redis_get r k" "redis_deadline r' k = redis_deadline r k"
  using assms by (auto simp: redis_get_def redis_deadline_def live_def split: option.split)

lemma preflight_slots:
  "rate_preflight acl r seen dims (a, b) = Some (sls, allowed, retry) \<Longrightarrow>
   list_all2 (\<lambda>sl d. rate_slot acl r (fst d) (snd d) = Some sl) sls dims \<and> distinct (map fst dims) \<and>
   set (map fst dims) \<inter> set seen = {} \<and> (allowed = 1 \<longrightarrow> a = 1 \<and> list_all2 (\<lambda>sl d. slNext sl \<le> rwLimit (snd d)) sls dims)"
proof (induction dims arbitrary: seen a b sls)
  case (Cons d dims)
  obtain key w where d: "d = (key, w)" by (cases d)
  obtain sl where sl: "key \<notin> set seen" "rate_slot acl r key w = Some sl"
    using Cons.prems by (auto simp: d split: if_splits option.splits)
  obtain sls' a' b' where rest: "rate_preflight acl r (key # seen) dims (a', b') = Some (sls', allowed, retry)" "sls = sl # sls'"
    and a': "a' = (if rwLimit w < slNext sl then 0 else a)"
    using Cons.prems sl by (auto simp: d split: if_splits)
  show ?case using Cons.IH[OF rest(1)] sl rest(2) a' by (auto simp: d split: if_splits)
qed simp

lemma slot_key: "rate_slot acl r key w = Some sl \<Longrightarrow> slKey sl = key"
  by (auto simp: rate_slot_def Let_def split: if_splits option.splits)

lemma slots_keys: "list_all2 (\<lambda>sl d. rate_slot acl r (fst d) (snd d) = Some sl) sls dims \<Longrightarrow> map slKey sls = map fst dims"
  by (induction rule: list_all2_induct) (auto dest: slot_key)

lemma answer_ok: "rate_answer m v = RateOk \<Longrightarrow> \<exists>retry. v = Some (RArray [RInt 1, RInt retry])"
  by (auto simp: rate_answer_def Let_def split: option.splits redis_value.splits list.splits if_splits)

text \<open>What a reservation may do to the counter of one key, and when it may be admitted.\<close>

inductive counter_step :: "rate_window \<Rightarrow> bytes \<Rightarrow> bool \<Rightarrow> redis \<Rightarrow> redis \<Rightarrow> bool" for w k where
  same: "redis_get r' k = redis_get r k \<Longrightarrow> redis_deadline r' k = redis_deadline r k \<Longrightarrow> rClock r' = rClock r \<Longrightarrow>
    counter_step w k False r r'"
| first: "redis_get r k = None \<Longrightarrow> redis_get r' k = Some ''1'' \<Longrightarrow> redis_deadline r' k = Some (rClock r + rwMillis w) \<Longrightarrow>
    rClock r' = rClock r \<Longrightarrow> 0 < rwMillis w \<Longrightarrow> (okd \<longrightarrow> 1 \<le> rwLimit w) \<Longrightarrow> counter_step w k okd r r'"
| more: "redis_get r k = Some raw \<Longrightarrow> rate_count raw = Some n \<Longrightarrow> redis_deadline r k = Some d \<Longrightarrow> d \<le> rClock r + rwMillis w \<Longrightarrow>
    redis_get r' k = Some (format_int (int n + 1)) \<Longrightarrow> redis_deadline r' k = Some d \<Longrightarrow> rClock r' = rClock r \<Longrightarrow>
    (okd \<longrightarrow> int n + 1 \<le> rwLimit w) \<Longrightarrow> counter_step w k okd r r'"

lemma dec_value_bound: "dec_value a s = Some m \<Longrightarrow> m < (a + 1) * 10 ^ length s"
proof (induction a s rule: dec_value.induct)
  case (2 acc c s)
  have d: "is_digit c" "dec_value (acc * 10 + (byte c - 48)) s = Some m" using 2 by (auto split: if_splits)
  have "m < (acc * 10 + (byte c - 48) + 1) * 10 ^ length s" using 2 d by blast
  also have "\<dots> \<le> ((acc + 1) * 10) * 10 ^ length s" using d(1) by (intro mult_right_mono) (auto simp: is_digit_def)
  finally show ?case by (simp add: algebra_simps)
qed simp

lemma write_step:
  assumes sl: "rate_slot acl r k w = Some sl" and st: "rStore r' k = rStore (rate_write sl r) k" "rClock r' = rClock r"
    and adm: "okd \<longrightarrow> slNext sl \<le> rwLimit w"
  shows "counter_step w k okd r r'"
proof -
  have key: "slKey sl = k" using sl by (rule slot_key)
  have same: "redis_get r' k = redis_get (rate_write sl r) k" "redis_deadline r' k = redis_deadline (rate_write sl r) k"
    using same_entry[of r' k "rate_write sl r"] st by simp_all
  show ?thesis
  proof (cases "redis_get r k")
    case None
    then have "0 < rwMillis w" "slWindow sl = rwMillis w" "slMissing sl" "slNext sl = 1"
      using sl by (auto simp: rate_slot_def split: if_splits)
    then show ?thesis using None st adm key by (intro first) (auto simp: same rate_write_def)
  next
    case (Some raw)
    then obtain n d where n: "rate_count raw = Some n" "redis_deadline r k = Some d" "d \<le> rClock r + rwMillis w"
      and s: "\<not> slMissing sl" "slNext sl = int n + 1"
      using sl by (auto simp: rate_slot_def Let_def split: if_splits option.splits)
    have raw: "list_all is_digit raw" "raw \<noteq> []" "length raw \<le> 15" "dec_value 0 raw = Some n"
      using n(1) by (auto simp: rate_count_def split: if_splits)
    have "n < 10 ^ length raw" using dec_value_bound[OF raw(4)] by simp
    also have "\<dots> \<le> 10 ^ 15" using raw(3) by (intro power_increasing) auto
    finally have small: "n < 10 ^ 15" .
    obtain c t where ct: "raw = c # t" "is_digit c" using raw by (cases raw) auto
    have "parse_int64 raw = Some (int n)"
      using raw(4) small digit_not_sign[OF ct(2)] by (simp add: parse_int64_def parse_uint_def ct(1))
    then have "redis_incr k r = (Some (int n + 1), redis_set_keepttl k (format_int (int n + 1)) r)"
      using small by (simp add: redis_incr_def Some maxInt64_def)
    then have "rate_write sl r = redis_set_keepttl k (format_int (int n + 1)) r" using s(1) key by (simp add: rate_write_def)
    then show ?thesis using Some n st(2) adm s(2) by (intro more[of r k raw n d]) (auto simp: same)
  qed
qed

lemma script_error: "actionSecurityRateScript acl dims r = (None, r1) \<Longrightarrow> r1 = r"
  by (cases "rate_preflight acl r [] dims (1, 0)") (auto simp: actionSecurityRateScript_def split: if_splits)

lemma script_reply:
  assumes "actionSecurityRateScript acl dims r = (Some v, r1)"
  obtains sls allowed retry where "rate_preflight acl r [] dims (1, 0) = Some (sls, allowed, retry)" "r1 = fold rate_write sls r"
    "v = RArray [RInt allowed, RInt retry]"
  using assms by (cases "rate_preflight acl r [] dims (1, 0)") (auto simp: actionSecurityRateScript_def split: if_splits)

lemma reserve_step:
  assumes "reserve net acl keys limits r = (res, r')" and w: "\<And>v. (k, v) \<in> set (zip keys limits) \<Longrightarrow> v = w"
  shows "counter_step w k (res = RateOk \<and> k \<in> set keys) r r'"
proof -
  let ?dims = "zip keys limits"
  have idle: "counter_step w k False r r" by (rule same) simp_all
  show ?thesis
  proof (cases "keys = [] \<or> length keys \<noteq> length limits \<or> list_ex (\<lambda>w. rwLimit w \<le> 0 \<or> rwMillis w \<le> 0) limits")
    case True
    then show ?thesis using assms(1) idle by (auto simp: reserve_def)
  next
    case False
    then obtain v m where ev: "rate_eval net (actionSecurityRateScript acl ?dims) r = (v, r')" "res = rate_answer m v"
      and len: "length keys = length limits"
      using assms(1) by (auto simp: reserve_def Let_def split: prod.splits)
    obtain v1 r1 where run: "actionSecurityRateScript acl ?dims r = (v1, r1)" by fastforce
    have cases: "(r' = r \<and> v = None) \<or> (r' = r1 \<and> (v = None \<or> v = v1))"
      using ev(1) run by (cases net) (simp_all add: rate_eval_def)
    show ?thesis
    proof (cases "r' = r1 \<and> v1 \<noteq> None")
      case False
      have "r1 = r" if "v1 = None" using script_error run that by blast
      then have "r' = r" "v = None" using cases False by metis+
      then show ?thesis using ev(2) idle by (simp add: rate_answer_def)
    next
      case True
      then obtain sls allowed retry where pre: "rate_preflight acl r [] ?dims (1, 0) = Some (sls, allowed, retry)"
        and r1: "r' = fold rate_write sls r" "v1 = Some (RArray [RInt allowed, RInt retry])"
        using run script_reply True by (metis not_None_eq)
      note slots = preflight_slots[OF pre]
      have a1: "allowed = 1" if "res = RateOk"
      proof -
        obtain retry' where v: "v = Some (RArray [RInt 1, RInt retry'])" using answer_ok[of m v] ev(2) \<open>res = RateOk\<close> by auto
        then have "v = v1" using cases by (metis option.distinct(1))
        then show ?thesis using v r1(2) by simp
      qed
      have dist: "distinct (map slKey sls)" using slots slots_keys by (metis (no_types, lifting))
      show ?thesis
      proof (cases "k \<in> set keys")
        case False
        then have "k \<notin> slKey ` set sls" using slots_keys[OF slots[THEN conjunct1]] len
          by (metis image_set map_fst_zip)
        then show ?thesis using False same_entry[of r' k r] r1(1) by (auto intro: same)
      next
        case True
        then obtain i where i: "i < length keys" "keys ! i = k" by (auto simp: in_set_conv_nth)
        then have d: "i < length ?dims" "?dims ! i = (k, limits ! i)" using len by simp_all
        then have "(k, limits ! i) \<in> set ?dims" by (metis nth_mem)
        then have wi: "limits ! i = w" by (rule w)
        have li: "i < length sls" using slots d(1) by (auto dest: list_all2_lengthD)
        have sl: "rate_slot acl r k w = Some (sls ! i)" using list_all2_nthD[OF slots[THEN conjunct1] li] d(2) wi by simp
        have adm: "res = RateOk \<and> k \<in> set keys \<longrightarrow> slNext (sls ! i) \<le> rwLimit w"
          using slots a1 list_all2_nthD[of "\<lambda>sl d. slNext sl \<le> rwLimit (snd d)" sls ?dims i] li d(2) wi by auto
        have "rStore r' k = rStore (rate_write (sls ! i) r) k"
          using fold_write_at[OF dist nth_mem[OF li]] slot_key[OF sl] r1(1) by simp
        then show ?thesis using write_step[OF sl] r1(1) adm by simp
      qed
    qed
  qed
qed

section \<open>Histories\<close>

text \<open>Time passes, or somebody asks for a reservation; the result of each reservation is kept with its keys.\<close>

datatype rate_event = Pass nat | Ask net "rate_acl \<Rightarrow> bytes \<Rightarrow> bool" "bytes list" "rate_window list"

fun rate_run :: "rate_event list \<Rightarrow> redis \<Rightarrow> (bytes list \<times> rate_result) list" where
  "rate_run [] r = []"
| "rate_run (Pass d # es) r = rate_run es (tick (int d) r)"
| "rate_run (Ask net acl keys limits # es) r =
     (let (res, r') = reserve net acl keys limits r in (keys, res) # rate_run es r')"

fun passed :: "rate_event list \<Rightarrow> nat" where
  "passed [] = 0"
| "passed (Pass d # es) = d + passed es"
| "passed (Ask net acl keys limits # es) = passed es"

definition admitted :: "bytes \<Rightarrow> (bytes list \<times> rate_result) list \<Rightarrow> nat" where
  "admitted k log = length (filter (\<lambda>(keys, res). k \<in> set keys \<and> res = RateOk) log)"

text \<open>Every reservation that counts \<open>k\<close> does it with the same window.\<close>

fun uses_window :: "bytes \<Rightarrow> rate_window \<Rightarrow> rate_event \<Rightarrow> bool" where
  "uses_window k w (Pass d) = True"
| "uses_window k w (Ask net acl keys limits) = list_all (\<lambda>(k', v). k' = k \<longrightarrow> v = w) (zip keys limits)"

definition left :: "rate_window \<Rightarrow> redis \<Rightarrow> bytes \<Rightarrow> nat" where
  "left w r k =
     (case redis_get r k of
        None \<Rightarrow> nat (rwLimit w)
      | Some raw \<Rightarrow> (case rate_count raw of None \<Rightarrow> 0 | Some n \<Rightarrow> nat (rwLimit w - int n)))"

lemma admitted_Cons: "admitted k ((keys, res) # log) = (if k \<in> set keys \<and> res = RateOk then 1 else 0) + admitted k log"
  by (simp add: admitted_def)

text \<open>While a counter lives it only goes up, and each admission takes one of what is left.\<close>

lemma left_step:
  assumes "counter_step w k okd r r'" "redis_get r k \<noteq> None"
  shows "(if okd then 1 else 0) + left w r' k \<le> left w r k"
  using assms
proof cases
  case (more raw n d)
  have "dec_value 0 (format_int (int n + 1)) = Some (n + 1)"
    using parse_uint_nat_digits[of "n + 1"] by (simp add: format_int_def parse_uint_def nat_add_distrib)
  then have "rate_count (format_int (int n + 1)) \<in> {None, Some (n + 1)}" by (simp add: rate_count_def)
  then show ?thesis using more by (auto simp: left_def)
qed (auto simp: left_def)

lemma living_counter:
  assumes "list_all (uses_window k w) es" "redis_get r k \<noteq> None" "\<forall>d. redis_deadline r k = Some d \<longrightarrow> rClock r + int (passed es) < d"
  shows "admitted k (rate_run es r) \<le> left w r k"
  using assms
proof (induction es arbitrary: r)
  case (Cons e es)
  show ?case
  proof (cases e)
    case (Pass t)
    have "redis_get (tick (int t) r) k = redis_get r k" "redis_deadline (tick (int t) r) k = redis_deadline r k"
      using Cons.prems(2,3) by (auto simp: Pass redis_get_def redis_deadline_def tick_def live_def split: option.splits if_splits)
    then show ?thesis using Cons.IH[of "tick (int t) r"] Cons.prems by (simp add: Pass left_def tick_def add.assoc)
  next
    case (Ask net acl keys limits)
    obtain res r' where run: "reserve net acl keys limits r = (res, r')" by fastforce
    have w: "v = w" if "(k, v) \<in> set (zip keys limits)" for v using Cons.prems(1) that by (auto simp: Ask list_all_iff)
    have st: "counter_step w k (res = RateOk \<and> k \<in> set keys) r r'" by (rule reserve_step[OF run w])
    have "redis_get r' k \<noteq> None" "redis_deadline r' k = redis_deadline r k" "rClock r' = rClock r"
      using st Cons.prems(2) by (auto elim!: counter_step.cases)
    then have "admitted k (rate_run es r') \<le> left w r' k" using Cons.IH[of r'] Cons.prems(1,3) by (simp add: Ask)
    then show ?thesis using left_step[OF st Cons.prems(2)] by (auto simp: Ask run admitted_Cons split: if_splits)
  qed
qed (simp add: admitted_def)

text \<open>A missing counter starts a window of its own.\<close>

lemma missing_counter:
  assumes "list_all (uses_window k w) es" "redis_get r k = None" "int (passed es) < rwMillis w"
  shows "admitted k (rate_run es r) \<le> nat (rwLimit w)"
  using assms
proof (induction es arbitrary: r)
  case (Cons e es)
  show ?case
  proof (cases e)
    case (Pass t)
    have "redis_get (tick (int t) r) k = None"
      using Cons.prems(2) by (auto simp: redis_get_def tick_def live_def split: option.splits if_splits)
    then show ?thesis using Cons.IH[of "tick (int t) r"] Cons.prems by (simp add: Pass)
  next
    case (Ask net acl keys limits)
    obtain res r' where run: "reserve net acl keys limits r = (res, r')" by fastforce
    have w: "v = w" if "(k, v) \<in> set (zip keys limits)" for v using Cons.prems(1) that by (auto simp: Ask list_all_iff)
    have "counter_step w k (res = RateOk \<and> k \<in> set keys) r r'" by (rule reserve_step[OF run w])
    then show ?thesis
    proof cases
      case same
      then show ?thesis using Cons.IH[of r'] Cons.prems by (auto simp: Ask run admitted_Cons)
    next
      case first
      have one: "rate_count ''1'' = Some 1" by code_simp
      have "admitted k (rate_run es r') \<le> left w r' k"
        using first Cons.prems(1,3) by (intro living_counter) (auto simp: Ask)
      then show ?thesis using first one by (auto simp: Ask run admitted_Cons left_def)
    next
      case (more raw n d)
      then show ?thesis using Cons.prems(2) by simp
    qed
  qed
qed (simp add: admitted_def)

lemma left_le: "left w r k \<le> nat (rwLimit w)"
  by (auto simp: left_def split: option.split)

lemma any_counter:
  assumes "list_all (uses_window k w) es" "int (passed es) < rwMillis w"
  shows "admitted k (rate_run es r) \<le> left w r k + nat (rwLimit w)"
  using assms
proof (induction es arbitrary: r)
  case (Cons e es)
  show ?case
  proof (cases "redis_get r k")
    case None
    then show ?thesis using missing_counter[OF Cons.prems(1) None Cons.prems(2)] by simp
  next
    case (Some raw)
    show ?thesis
    proof (cases e)
      case (Pass t)
      show ?thesis
      proof (cases "redis_get (tick (int t) r) k")
        case None
        then show ?thesis using missing_counter[of k w es "tick (int t) r"] Cons.prems by (simp add: Pass)
      next
        case (Some raw')
        then have "left w (tick (int t) r) k = left w r k"
          by (auto simp: left_def redis_get_def tick_def live_def split: option.splits if_splits)
        then show ?thesis using Cons.IH[of "tick (int t) r"] Cons.prems by (simp add: Pass)
      qed
    next
      case (Ask net acl keys limits)
      obtain res r' where run: "reserve net acl keys limits r = (res, r')" by fastforce
      have w: "v = w" if "(k, v) \<in> set (zip keys limits)" for v using Cons.prems(1) that by (auto simp: Ask list_all_iff)
      have "(if res = RateOk \<and> k \<in> set keys then 1 else 0) + left w r' k \<le> left w r k"
        using left_step[OF reserve_step[OF run w]] Some by (simp split del: if_split)
      moreover have "admitted k (rate_run es r') \<le> left w r' k + nat (rwLimit w)" using Cons.IH[of r'] Cons.prems by (simp add: Ask)
      ultimately show ?thesis by (auto simp: Ask run admitted_Cons split: if_splits)
    qed
  qed
qed (simp add: admitted_def)

text \<open>C38: the rate limiter bounds what it admits.  Over any history of reservations in which a key is always counted with the same
  window, with lost requests and replies, refusals of Redis and other keys in between: less than one window after a state
  without a counter for the key at most the limit is admitted, and less than one window after any state at most twice the limit.\<close>

theorem rate_limit_holds:
  assumes "list_all (uses_window k w) es" "int (passed es) < rwMillis w"
  shows "admitted k (rate_run es r) \<le> (if redis_get r k = None then nat (rwLimit w) else 2 * nat (rwLimit w))"
  using missing_counter[OF assms(1) _ assms(2), of r] any_counter[OF assms, of r] left_le[of w r k] by auto

text \<open>A window of 1000 milliseconds with room for one: the second of two requests is refused.\<close>

definition sample_asks :: "rate_event list" where
  "sample_asks = (let ask = Ask NetOk (\<lambda>_ _. True) [''k''] [\<lparr>rwLimit = 1, rwMillis = 1000\<rparr>] in [ask, Pass 600, ask, Pass 300])"

lemma sample_answers: "map snd (rate_run (sample_asks @ [Pass 100] @ sample_asks) \<lparr>rStore = (\<lambda>_. None), rClock = 7\<rparr>) = [RateOk, RateRetry 1, RateOk, RateRetry 1]"
  by code_simp

theorem rate_limit_holds_witness: "admitted ''k'' (rate_run sample_asks \<lparr>rStore = (\<lambda>_. None), rClock = 7\<rparr>) \<le> 1"
proof -
  have "list_all (uses_window ''k'' \<lparr>rwLimit = 1, rwMillis = 1000\<rparr>) sample_asks"
    "int (passed sample_asks) < rwMillis \<lparr>rwLimit = 1, rwMillis = 1000\<rparr>"
    by (simp_all add: sample_asks_def Let_def)
  from rate_limit_holds[OF this, of "\<lparr>rStore = (\<lambda>_. None), rClock = 7\<rparr>"] show ?thesis by (simp add: redis_get_def)
qed

end
