(* ===== verification/Action_Identity.thy ===== *)
theory Action_Identity
  imports Action_Operation Auth_Login Rate_Limit
begin

text \<open>
  The locked identity of a protected action (\<open>service/action_identity.go\<close>): actor, session, target and the
  policy decision, and the locks on public content.  The public tables hold the columns that the code selects.
  The state keys and the kind of a document are stored in the spelling that the code writes, so that their
  comparison needs no collation.
\<close>

section \<open>Rows\<close>

record public_model_row = audit_fields +
  pmRevision :: int

record price_draft_row = audit_fields +
  pdKey :: bytes
  pdRevision :: int

record price_snapshot_row = audit_fields +
  pnRestoredFrom :: "int option"
  pnSourceRevision :: int

record content_draft_row = audit_fields +
  cdKind :: int
  cdRevision :: int

record content_release_row = audit_fields +
  crKind :: int
  crRestoredFrom :: "int option"
  crSourceRevision :: int

record publication_row = audit_fields +
  pbKey :: bytes
  pbSnapshot :: "int option"

record named_group = business_group +
  bgDisplayName :: bytes

record public_tables =
  ptModels :: "public_model_row list"
  ptPriceDrafts :: "price_draft_row list"
  ptSnapshots :: "price_snapshot_row list"
  ptContentDrafts :: "content_draft_row list"
  ptReleases :: "content_release_row list"
  ptStates :: "publication_row list"
  ptGroups :: "named_group list"

abbreviation PublicContentDocumentSite :: int where "PublicContentDocumentSite \<equiv> 1"

datatype verification_error = VerInactive | VerForbidden | VerHidden | VerConflict | VerUnavailable | VerRetry int

section \<open>Public targets\<close>

definition sameOptionalGUID :: "int option \<Rightarrow> int option \<Rightarrow> bool" where
  "sameOptionalGUID left right =
     (case (left, right) of (Some a, Some b) \<Rightarrow> 0 < a \<and> a = b | (None, None) \<Rightarrow> True | _ \<Rightarrow> False)"

text \<open>The GUID that a public intent names; the outer \<open>None\<close> is an intent of another type.\<close>

definition public_target :: "int \<Rightarrow> any_intent \<Rightarrow> (int option) option" where
  "public_target action v =
     (case v of
        PublicModelDelete i \<Rightarrow> if action = ActionPublicModelDelete then Some (Some (mdModel i)) else None
      | PublicPricingPublish r \<Rightarrow> if action = ActionPublicPricingPublish then Some None else None
      | PublicPricingRestore g r \<Rightarrow> if action = ActionPublicPricingRestore then Some (Some g) else None
      | PublicContentPublish g r \<Rightarrow> if action = ActionPublicContentPublish then Some (Some g) else None
      | PublicContentRestore g r \<Rightarrow> if action = ActionPublicContentRestore then Some (Some g) else None
      | _ \<Rightarrow> None)"

definition validatePublicVerificationBinding :: "int \<Rightarrow> any_intent \<Rightarrow> int option \<Rightarrow> bool" where
  "validatePublicVerificationBinding action v target =
     (case public_target action v of None \<Rightarrow> False | Some expected \<Rightarrow> sameOptionalGUID expected target)"

definition lock_row :: "bool \<Rightarrow> (('a audit_fields_scheme) \<Rightarrow> bool) \<Rightarrow> ('a audit_fields_scheme) list \<Rightarrow> verification_error \<Rightarrow> verification_error + 'a audit_fields_scheme" where
  "lock_row fault P rows missing =
     (if fault then Inl VerUnavailable else case sql_first P rows of None \<Rightarrow> Inl missing | Some r \<Rightarrow> Inr r)"

definition lockPublicPriceDraftRevision :: "bool \<Rightarrow> public_tables \<Rightarrow> verification_error + price_draft_row" where
  "lockPublicPriceDraftRevision fault pub = lock_row fault (\<lambda>d. pdKey d = ''pricing'' \<and> rDeleted d = 0) (ptPriceDrafts pub) VerUnavailable"

definition lockPublicContentDraftRevision :: "bool \<Rightarrow> public_tables \<Rightarrow> verification_error + content_draft_row" where
  "lockPublicContentDraftRevision fault pub =
     lock_row fault (\<lambda>d. cdKind d = PublicContentDocumentSite \<and> rDeleted d = 0) (ptContentDrafts pub) VerUnavailable"

definition lockPublicActionPublicationState :: "bool \<Rightarrow> public_tables \<Rightarrow> verification_error + publication_row" where
  "lockPublicActionPublicationState fault pub = lock_row fault (\<lambda>s. pbKey s = ''site'' \<and> rDeleted s = 0) (ptStates pub) VerUnavailable"

text \<open>A restore that has already been committed by this actor keeps its ticket usable.\<close>

definition publicPricingRestoreAlreadyCommitted :: "bool \<Rightarrow> public_tables \<Rightarrow> int \<Rightarrow> int \<Rightarrow> int \<Rightarrow> verification_error + bool" where
  "publicPricingRestoreAlreadyCommitted fault pub actor source expected =
     (if expected \<le> 0 \<or> expected = maxInt64 then Inr False
      else if fault then Inl VerUnavailable
      else Inr (sql_first (\<lambda>s. pnRestoredFrom s = Some source \<and> pnSourceRevision s = expected + 1 \<and> rCreatedBy s = Some actor \<and> rDeleted s = 0)
                  (ptSnapshots pub) \<noteq> None))"

definition publicContentRestoreAlreadyCommitted :: "bool \<Rightarrow> public_tables \<Rightarrow> int \<Rightarrow> int \<Rightarrow> int \<Rightarrow> verification_error + bool" where
  "publicContentRestoreAlreadyCommitted fault pub actor source expected =
     (if expected \<le> 0 \<or> expected = maxInt64 then Inr False
      else if fault then Inl VerUnavailable
      else Inr (sql_first (\<lambda>s. crRestoredFrom s = Some source \<and> crSourceRevision s = expected + 1 \<and> rCreatedBy s = Some actor \<and>
                  crKind s = PublicContentDocumentSite \<and> rDeleted s = 0) (ptReleases pub) \<noteq> None))"

definition lock_model_delete :: "(nat \<Rightarrow> bool) \<Rightarrow> public_tables \<Rightarrow> model_delete_intent \<Rightarrow> verification_error + unit" where
  "lock_model_delete fault pub i =
     and_then (lockPublicPriceDraftRevision (fault 0) pub) (\<lambda>_.
     and_then (lock_row (fault 1) (\<lambda>m. rGUID m = mdModel i \<and> rDeleted m = 0) (ptModels pub) VerHidden) (\<lambda>m.
     if pmRevision m \<noteq> mdRevision i then Inl VerConflict else Inr ()))"

definition lock_pricing_restore :: "(nat \<Rightarrow> bool) \<Rightarrow> public_tables \<Rightarrow> int \<Rightarrow> int \<Rightarrow> int \<Rightarrow> verification_error + unit" where
  "lock_pricing_restore fault pub actor release expected =
     and_then (lockPublicPriceDraftRevision (fault 0) pub) (\<lambda>draft.
     and_then (lockPublicActionPublicationState (fault 1) pub) (\<lambda>_.
     and_then (lock_row (fault 2) (\<lambda>s. rGUID s = release \<and> rDeleted s = 0) (ptSnapshots pub) VerHidden) (\<lambda>snapshot.
     if pdRevision draft = expected then Inr ()
     else and_then (publicPricingRestoreAlreadyCommitted (fault 3) pub actor (rID snapshot) expected) (\<lambda>committed.
       if committed then Inr () else Inl VerConflict))))"

definition lock_content_publish :: "(nat \<Rightarrow> bool) \<Rightarrow> public_tables \<Rightarrow> int \<Rightarrow> int \<Rightarrow> verification_error + unit" where
  "lock_content_publish fault pub release expected =
     and_then (lockPublicContentDraftRevision (fault 0) pub) (\<lambda>draft.
     if cdRevision draft \<noteq> expected then Inl VerConflict
     else and_then (lockPublicActionPublicationState (fault 1) pub) (\<lambda>state.
     case pbSnapshot state of
       None \<Rightarrow> Inl VerUnavailable
     | Some sid \<Rightarrow>
         and_then (lock_row (fault 2) (\<lambda>s. rID s = sid \<and> rDeleted s = 0) (ptSnapshots pub) VerUnavailable) (\<lambda>current.
         if rGUID current = release then Inr ()
         else and_then (lock_row (fault 3) (\<lambda>s. rGUID s = release \<and> rDeleted s = 0) (ptSnapshots pub) VerHidden)
           (\<lambda>_. Inl VerConflict))))"

definition lock_content_restore :: "(nat \<Rightarrow> bool) \<Rightarrow> public_tables \<Rightarrow> int \<Rightarrow> int \<Rightarrow> int \<Rightarrow> verification_error + unit" where
  "lock_content_restore fault pub actor release expected =
     and_then (lockPublicContentDraftRevision (fault 0) pub) (\<lambda>draft.
     and_then (lock_row (fault 1) (\<lambda>s. rGUID s = release \<and> crKind s = PublicContentDocumentSite \<and> rDeleted s = 0) (ptReleases pub) VerHidden)
       (\<lambda>found.
     if cdRevision draft = expected then Inr ()
     else and_then (publicContentRestoreAlreadyCommitted (fault 2) pub actor (rID found) expected) (\<lambda>committed.
       if committed then Inr () else Inl VerConflict)))"

definition lockPublicActionTarget ::
  "(nat \<Rightarrow> bool) \<Rightarrow> public_tables \<Rightarrow> int \<Rightarrow> int \<Rightarrow> int option \<Rightarrow> any_intent \<Rightarrow> verification_error + unit" where
  "lockPublicActionTarget fault pub actor action target v =
     (if actor \<le> 0 then Inl VerUnavailable
      else if \<not> validatePublicVerificationBinding action v target then Inl VerConflict
      else case v of
        PublicModelDelete i \<Rightarrow> lock_model_delete fault pub i
      | PublicPricingRestore g r \<Rightarrow> lock_pricing_restore fault pub actor g r
      | PublicContentPublish g r \<Rightarrow> lock_content_publish fault pub g r
      | PublicContentRestore g r \<Rightarrow> lock_content_restore fault pub actor g r
      | _ \<Rightarrow> Inl VerUnavailable)"

section \<open>The identity\<close>

definition constantTimeSIDEqual :: "bytes \<Rightarrow> bytes \<Rightarrow> bool" where
  "constantTimeSIDEqual stored claimed \<longleftrightarrow>
     (let pad = (\<lambda>s. take 36 (s @ replicate 36 CHR 0x00)) in pad stored = pad claimed \<and> length stored = length claimed)"

lemma constantTimeSIDEqual_eq [simp]:
  assumes "length claimed = 36"
  shows "constantTimeSIDEqual stored claimed \<longleftrightarrow> stored = claimed"
  using assms by (auto simp: constantTimeSIDEqual_def Let_def)

record locked_identity =
  liActor :: user_row
  liSession :: session_row
  liTarget :: "user_row option"

definition lock_actor :: "bool \<Rightarrow> tables \<Rightarrow> action_claims \<Rightarrow> verification_error + user_row" where
  "lock_actor fault t a =
     and_then (lock_row fault (\<lambda>u. rID u = clUser a) (tUsers t) VerForbidden) (\<lambda>u.
     if \<not> validActionActor u \<or> rGUID u \<noteq> clGUID a \<or> uAuthVersion u \<noteq> clAuthVersion a then Inl VerForbidden else Inr u)"

definition lock_own_session :: "bool \<Rightarrow> tables \<Rightarrow> user_row \<Rightarrow> action_claims \<Rightarrow> int \<Rightarrow> verification_error + session_row" where
  "lock_own_session fault t u a now =
     (if fault then Inl VerUnavailable
      else case filter (\<lambda>s. constantTimeSIDEqual (sSID s) (clSID a)) (sql_find (live_at (rID u) now) (tSessions t)) of
        [s] \<Rightarrow>
          if rID s \<le> 0 \<or> rGUID s \<le> 0 \<or> sUser s \<noteq> rID u \<or> sVersion s \<noteq> clSessionVersion a \<or> rDeleted s \<noteq> 0 \<or>
             sRevokedAt s \<noteq> None \<or> sExpiresAt s \<le> now
          then Inl VerForbidden else Inr s
      | _ \<Rightarrow> Inl VerForbidden)"

text \<open>Statements 2 to 5: the target.\<close>

definition lock_target ::
  "(nat \<Rightarrow> bool) \<Rightarrow> tables \<Rightarrow> public_tables \<Rightarrow> user_row \<Rightarrow> descriptor \<Rightarrow> int option \<Rightarrow> any_intent \<Rightarrow> bool \<Rightarrow>
   verification_error + user_row option" where
  "lock_target fault t pub actor d targetGUID v lockPublicTarget =
     (if acTargetKind d = TargetNone then (if targetGUID \<noteq> None then Inl VerHidden else Inr None)
      else if acTargetKind d = TargetUser then
        (case targetGUID of
           None \<Rightarrow> Inl VerHidden
         | Some g \<Rightarrow>
             if g \<le> 0 then Inl VerHidden
             else and_then (lock_row (fault 0) (\<lambda>u. rGUID u = g \<and> rDeleted u = 0) (tUsers t) VerHidden) (\<lambda>u. Inr (Some u)))
      else if acTargetKind d = TargetPublicContent then
        (if lockPublicTarget then and_then (lockPublicActionTarget fault pub (rID actor) (acAction d) targetGUID v) (\<lambda>_. Inr None)
         else Inr None)
      else case targetGUID of None \<Rightarrow> Inl VerHidden | Some g \<Rightarrow> if g \<le> 0 then Inl VerHidden else Inr None)"

definition action_decision :: "evaluator \<Rightarrow> descriptor \<Rightarrow> user_row option \<Rightarrow> decision option" where
  "action_decision ev d target =
     (if acTargetKind d = TargetNone then
        Some (if acCapability d = ''users.create'' then Evaluator_Create (Some ev) UserRoleAdmin else Evaluator_Resource (Some ev) (acCapability d))
      else if acTargetKind d = TargetUser then
        map_option (\<lambda>u. if isA08RolePermissionAction (acAction d) then rolePermissionPreauthorizationDecision (Some ev) d (actionAccount u)
          else Evaluator_User (Some ev) (acCapability d) (actionAccount u)) target
      else if acTargetKind d = TargetPublicContent then Some (Evaluator_Resource (Some ev) (acCapability d))
      else None)"

definition lockActionIdentity ::
  "(nat \<Rightarrow> bool) \<Rightarrow> tables \<Rightarrow> public_tables \<Rightarrow> action_claims \<Rightarrow> descriptor \<Rightarrow> int option \<Rightarrow> any_intent \<Rightarrow> bool \<Rightarrow> int \<Rightarrow>
   verification_error + locked_identity" where
  "lockActionIdentity fault t pub a d targetGUID v lockPublicTarget now =
     (if \<not> validOperationActorClaims a \<or> now \<le> 0 then Inl VerUnavailable
      else
        and_then (lock_actor (fault 0) t a) (\<lambda>actor.
        and_then (lock_own_session (fault 1) t actor a now) (\<lambda>session.
        and_then (lock_target (\<lambda>i. fault (i + 2)) t pub actor d targetGUID v lockPublicTarget) (\<lambda>target.
        case readPermissionPolicyRows (\<lambda>i. fault (i + 6)) t (rID actor) of
          Inl er \<Rightarrow> Inl VerUnavailable
        | Inr (version, rules) \<Rightarrow>
        case NewEvaluator (actionAccount actor) rules of
          Inl er \<Rightarrow> Inl VerUnavailable
        | Inr ev \<Rightarrow>
        if acRootOnly d \<and> uRole actor \<noteq> UserRoleRoot then Inl VerForbidden
        else case action_decision ev d target of
          None \<Rightarrow> Inl VerUnavailable
        | Some decision \<Rightarrow>
        if decision = Hidden then Inl VerHidden
        else if decision \<noteq> Allowed then Inl VerForbidden
        else Inr \<lparr>liActor = actor, liSession = session, liTarget = target\<rparr>))))"

end
