(* ===== verification/Action_Verification.thy ===== *)
theory Action_Verification
  imports Action_Identity Operation_Execute
begin

text \<open>
  The tickets of protected actions (\<open>service/action_verification.go\<close>, \<open>action_verification_consume.go\<close>): \<open>Issue\<close> checks the
  rate limits, the Redis barrier, the locked identity, the intent and the password and stores a ticket bound to
  them; \<open>Consume\<close> accepts it once.  The environment of the authentication services answers clock, random source,
  identifiers, Redis commands (0 is the rate script, 1 the barrier), statements and the commit.
  One counter gives the keys of operations and tickets.
\<close>

section \<open>State\<close>

record ticket_env =
  teAuth :: auth_env
  teResolve :: "int \<Rightarrow> descriptor option"
  teCrypto :: crypto
  teAcl :: "rate_acl \<Rightarrow> bytes \<Rightarrow> bool"

record verification_issue =
  isAction :: int
  isActor :: action_claims
  isTarget :: "int option"
  isIntent :: any_intent
  isPassword :: bytes
  isTrustedIP :: bytes

record issued_verification =
  ivTicket :: bytes
  ivExpiresAt :: int

record verification_consume =
  vcActor :: action_claims
  vcAction :: int
  vcTarget :: "int option"
  vcIntent :: any_intent
  vcTickets :: "bytes list"

definition actionVerificationTTLMillis :: int where "actionVerificationTTLMillis = 300000"

section \<open>Reviewed intents\<close>

text \<open>The descriptor is the one of the active registry.\<close>

definition reviewed_descriptor :: "int \<Rightarrow> descriptor \<Rightarrow> bool" where
  "reviewed_descriptor action d \<longleftrightarrow> (case ResolveActiveAction action of None \<Rightarrow> False | Some e \<Rightarrow> d = e \<and> acEncode e \<noteq> None)"

definition validateLockedDeleteIntent :: "descriptor \<Rightarrow> any_intent \<Rightarrow> user_row option \<Rightarrow> bool" where
  "validateLockedDeleteIntent d v target \<longleftrightarrow>
     reviewed_descriptor ActionUsersDelete d \<and>
     (case (v, target) of
        (DeleteUser i, Some u) \<Rightarrow>
          \<not> (rID u \<le> 0 \<or> rGUID u \<le> 0 \<or> rDeleted u \<noteq> 0 \<or> uStatus u \<noteq> UserStatusActive \<or> uAuthVersion u \<le> 0 \<or> maxInt32 \<le> uAuthVersion u \<or>
             duTarget i \<noteq> rGUID u \<or> duAuthVersion i \<le> 0 \<or> duAuthVersion i \<noteq> uAuthVersion u)
      | _ \<Rightarrow> False)"

definition validateLockedResetPasswordIntent :: "descriptor \<Rightarrow> any_intent \<Rightarrow> user_row option \<Rightarrow> bool" where
  "validateLockedResetPasswordIntent d v target \<longleftrightarrow>
     reviewed_descriptor ActionUsersResetPassword d \<and>
     (case (v, target) of
        (ResetPassword i, Some u) \<Rightarrow>
          \<not> (rID u \<le> 0 \<or> rGUID u \<le> 0 \<or> rDeleted u \<noteq> 0 \<or> (uStatus u \<noteq> UserStatusActive \<and> uStatus u \<noteq> UserStatusDisabled) \<or>
             uAuthVersion u \<le> 0 \<or> maxInt32 \<le> uAuthVersion u \<or> riTarget i \<noteq> rGUID u \<or> riAuthVersion i \<noteq> uAuthVersion u \<or>
             \<not> ValidatePasswordBytes (riPassword i))
      | _ \<Rightarrow> False)"

text \<open>\<open>bytes.EqualFold\<close> against an ASCII letter or digit: besides its two cases, the letters \<open>s\<close> and \<open>k\<close> fold with
  U+017F and U+212A.\<close>

fun fold_ascii :: "bytes \<Rightarrow> bytes" where
  "fold_ascii (a # b # c # s) =
     (if a = CHR 0xC5 \<and> b = CHR 0xBF then CHR ''s'' # fold_ascii (c # s)
      else if a = CHR 0xE2 \<and> b = CHR 0x84 \<and> c = CHR 0xAA then CHR ''k'' # fold_ascii s
      else lower_char a # fold_ascii (b # c # s))"
| "fold_ascii [a, b] = (if a = CHR 0xC5 \<and> b = CHR 0xBF then ''s'' else [lower_char a, lower_char b])"
| "fold_ascii [a] = [lower_char a]"
| "fold_ascii [] = []"

definition validCreateVerificationPassword :: "bytes \<Rightarrow> bool" where
  "validCreateVerificationPassword p \<longleftrightarrow> password_length_ok p \<and> fold_ascii (trim_space p) \<notin> set weak_passwords"

definition validCreateOverride :: "override_intent \<Rightarrow> bool" where
  "validCreateOverride ov \<longleftrightarrow>
     poCapability ov \<noteq> [] \<and> utf8_valid (poCapability ov) \<and> (poEffect ov = 2 \<or> poEffect ov = 3) \<and>
     (case find (\<lambda>d. dName d = poCapability ov) Catalog of
        None \<Rightarrow> False | Some d \<Rightarrow> dGrantable d \<and> \<not> dRootOnly d \<and> \<not> dUnavailable d)"

fun overrides_sorted :: "override_intent list \<Rightarrow> bool" where
  "overrides_sorted (a # b # os) = (poCapability a < poCapability b \<and> overrides_sorted (b # os))"
| "overrides_sorted _ = True"

text \<open>\<open>Inl True\<close> is the rejection, \<open>Inl False\<close> a failed statement.\<close>

definition lockCreateAccountGroup :: "bool \<Rightarrow> collation \<Rightarrow> public_tables \<Rightarrow> int option \<Rightarrow> bool + named_group" where
  "lockCreateAccountGroup fault same pub guid =
     (if fault then Inl False
      else case take 2 (sql_find (case guid of None \<Rightarrow> (\<lambda>g. same (bgKey g) ''default'' \<and> rDeleted g = 0) | Some x \<Rightarrow> (\<lambda>g. rGUID g = x))
                  (ptGroups pub)) of
        [g] \<Rightarrow>
          if rID g \<le> 0 \<or> rGUID g \<le> 0 \<or> bgKey g = [] \<or> \<not> utf8_valid (bgKey g) \<or> 64 < length (bgKey g) \<or> bgDisplayName g = [] \<or>
             \<not> utf8_valid (bgDisplayName g) \<or> bgStatus g \<noteq> BusinessGroupStatusActive \<or> rDeleted g \<noteq> 0 \<or>
             (guid = None \<and> bgKey g \<noteq> ''default'') \<or> (case guid of None \<Rightarrow> False | Some x \<Rightarrow> rGUID g \<noteq> x)
          then Inl True else Inr g
      | _ \<Rightarrow> Inl True)"

definition createAccountCapabilityAllowed :: "evaluator \<Rightarrow> user_row \<Rightarrow> int \<Rightarrow> bytes \<Rightarrow> bool" where
  "createAccountCapabilityAllowed ev actor role capability =
     (Evaluator_User (Some ev) capability
        \<lparr>aID = (if rID actor = 1 then 2 else 1), aGUID = (if rGUID actor = 1 then 2 else 1), aRole = role, aStatus = UserStatusActive, aDeleted = 0\<rparr>
      = Allowed)"

definition create_intent_ok :: "create_intent \<Rightarrow> user_row \<Rightarrow> bool" where
  "create_intent_ok i actor \<longleftrightarrow>
     \<not> (rID actor \<le> 0 \<or> rGUID actor \<le> 0 \<or> uRole actor \<noteq> UserRoleRoot \<or> uStatus actor \<noteq> UserStatusActive \<or> rDeleted actor \<noteq> 0 \<or>
        ciRole i \<noteq> ''admin'' \<or> \<not> validCreateVerificationPassword (ciPassword i) \<or> ciModels i \<noteq> [] \<or> ciDailyLimit i \<noteq> 100 \<or>
        (ciPlanType i \<noteq> 1 \<and> ciPlanType i \<noteq> 2 \<and> ciPlanType i \<noteq> 3)) \<and>
     NormalizeUsername (ciUsername i) = Some (ciUsername i) \<and>
     (case ciNickname i of None \<Rightarrow> True | Some n \<Rightarrow> NormalizeManagedUserNickname n = Some n) \<and>
     (case ciGroupGUID i of None \<Rightarrow> True | Some g \<Rightarrow> 0 < g) \<and>
     list_all validCreateOverride (ciOverrides i) \<and> overrides_sorted (ciOverrides i)"

definition validateLockedCreateAdminIntent ::
  "bool \<Rightarrow> collation \<Rightarrow> public_tables \<Rightarrow> descriptor \<Rightarrow> any_intent \<Rightarrow> user_row \<Rightarrow> verification_error + unit" where
  "validateLockedCreateAdminIntent fault same pub d v actor =
     (if \<not> reviewed_descriptor ActionUsersCreateAdmin d then Inl VerConflict
      else case v of
        CreateAccount i \<Rightarrow>
          if \<not> create_intent_ok i actor then Inl VerConflict
          else (case lockCreateAccountGroup fault same pub (ciGroupGUID i) of
            Inl rejected \<Rightarrow> Inl (if rejected \<and> ciGroupGUID i \<noteq> None then VerHidden else VerUnavailable)
          | Inr grp \<Rightarrow>
              (case NewEvaluator (actionAccount actor) [] of
                 Inl er \<Rightarrow> Inl VerForbidden
               | Inr ev \<Rightarrow>
                   if Evaluator_Create (Some ev) UserRoleAdmin \<noteq> Allowed then Inl VerForbidden
                   else if bgKey grp \<noteq> ''default'' \<and> \<not> createAccountCapabilityAllowed ev actor UserRoleAdmin ''users.group.change''
                   then Inl VerForbidden
                   else if ciPlanType i \<noteq> PlanFree \<and> \<not> createAccountCapabilityAllowed ev actor UserRoleAdmin ''users.plan.change''
                   then Inl VerForbidden
                   else Inr ()))
      | _ \<Rightarrow> Inl VerConflict)"

text \<open>The intent against the locked rows, by action; statement 8 reads the group of a new account.\<close>

definition review_intent ::
  "bool \<Rightarrow> collation \<Rightarrow> public_tables \<Rightarrow> descriptor \<Rightarrow> any_intent \<Rightarrow> int option \<Rightarrow> locked_identity \<Rightarrow> verification_error + unit" where
  "review_intent fault same pub d v targetGUID identity =
     (let conflict = (\<lambda>b. if b then Inr () else Inl VerConflict) in
      if acAction d = ActionUsersDelete then conflict (validateLockedDeleteIntent d v (liTarget identity))
      else if acAction d = ActionUsersCreateAdmin then validateLockedCreateAdminIntent fault same pub d v (liActor identity)
      else if acAction d = ActionUsersResetPassword then conflict (validateLockedResetPasswordIntent d v (liTarget identity))
      else if acAction d = ActionUsersPromote \<or> acAction d = ActionUsersDemote \<or> acAction d = ActionUsersPermissionsWrite then
        conflict (case liTarget identity of None \<Rightarrow> False
          | Some u \<Rightarrow> validateLockedRolePermissionIntent d v (actionAccount u) (uAuthVersion u))
      else if acAction d = ActionPublicModelDelete \<or> acAction d = ActionPublicPricingPublish \<or> acAction d = ActionPublicPricingRestore \<or>
              acAction d = ActionPublicContentPublish \<or> acAction d = ActionPublicContentRestore then
        conflict (validatePublicVerificationBinding (acAction d) v targetGUID)
      else Inl VerUnavailable)"

section \<open>Issue\<close>

definition verification_now :: "int \<Rightarrow> bool" where
  "verification_now now \<longleftrightarrow> \<not> (now \<le> 0 \<or> maxInt64 - actionVerificationTTLMillis < now)"

text \<open>Live tickets of the same session, action and target are superseded.\<close>

definition supersedable :: "int \<Rightarrow> descriptor \<Rightarrow> int option \<Rightarrow> int \<Rightarrow> verification_row \<Rightarrow> bool" where
  "supersedable session d target now r \<longleftrightarrow>
     vSession r = session \<and> vAction r = acAction d \<and> vTargetKind r = acTargetKind d \<and> vConsumedAt r = None \<and> rDeleted r = 0 \<and>
     now < vExpiresAt r \<and> vTarget r = target"

definition superseded_row :: "int \<Rightarrow> int \<Rightarrow> verification_row \<Rightarrow> verification_row" where
  "superseded_row actor now r = r\<lparr>rDeleted := 1, rUpdatedAt := now, rUpdatedBy := Some actor\<rparr>"

text \<open>The unique indexes on GUID and ticket.\<close>

definition insert_verification :: "bool \<Rightarrow> verification_row \<Rightarrow> op_store \<Rightarrow> op_store option" where
  "insert_verification fault v st =
     (if fault \<or> (\<exists>r \<in> set (osVers st). rGUID r = rGUID v \<or> vTicketHMAC r = vTicketHMAC v) then None
      else Some (st\<lparr>osVers := osVers st @ [v\<lparr>rID := osNextID st\<rparr>], osNextID := osNextID st + 1\<rparr>))"

definition verification_for ::
  "verification_issue \<Rightarrow> descriptor \<Rightarrow> locked_identity \<Rightarrow> int \<Rightarrow> bytes \<Rightarrow> bytes \<Rightarrow> int \<Rightarrow> verification_row" where
  "verification_for a d identity guid intentHex ticketHex now =
     \<lparr>rID = 0, rGUID = guid, rCreatedAt = now, rCreatedBy = Some (rID (liActor identity)), rUpdatedAt = now,
      rUpdatedBy = Some (rID (liActor identity)), rDeleted = 0, vActor = rID (liActor identity),
      vAuthVersion = uAuthVersion (liActor identity), vSession = rID (liSession identity), vAction = acAction d,
      vTargetKind = acTargetKind d, vTarget = isTarget a, vIntentHMAC = intentHex, vTicketHMAC = ticketHex,
      vExpiresAt = now + actionVerificationTTLMillis, vConsumedAt = None\<rparr>"

text \<open>Statement 9 supersedes, statement 10 inserts.\<close>

definition issue_tx ::
  "ticket_env \<Rightarrow> collation \<Rightarrow> public_tables \<Rightarrow> verification_issue \<Rightarrow> descriptor \<Rightarrow> int \<Rightarrow> op_store \<Rightarrow>
   verification_error + (issued_verification \<times> op_store)" where
  "issue_tx env same pub a d now st =
     (let au = teAuth env in
      and_then (lockActionIdentity (aeSQL au) (osTables st) pub (isActor a) d (isTarget a) (isIntent a) True now) (\<lambda>identity.
      let lockedNow = aeNow au 1 in
      if lockedNow < now \<or> \<not> verification_now lockedNow then Inl VerUnavailable
      else if sExpiresAt (liSession identity) \<le> lockedNow then Inl VerForbidden
      else and_then (review_intent (aeSQL au 8) same pub d (isIntent a) (isTarget a) identity) (\<lambda>_.
      case run_encoder (the (acEncode d)) (isIntent a) of
        Inl er \<Rightarrow> Inl VerConflict
      | Inr encoded \<Rightarrow>
      if (case uPasswordHash (liActor identity) of None \<Rightarrow> True | Some h \<Rightarrow> \<not> VerifyPassword au (isPassword a) h) then Inl VerForbidden
      else case readRandom (aeRandom au 0) 32 of
        Inl er \<Rightarrow> Inl VerUnavailable
      | Inr raw \<Rightarrow>
      if aeGUID au 0 \<le> 0 \<or> aeSQL au 9 then Inl VerUnavailable
      else let actor = rID (liActor identity);
               vs = sql_update (supersedable (rID (liSession identity)) d (isTarget a) lockedNow) (superseded_row actor lockedNow) (osVers st);
               v = verification_for a d identity (aeGUID au 0) (hex_encode (IntentDigest (teCrypto env) encoded))
                     (hex_encode (TicketDigest (teCrypto env) raw)) lockedNow in
      case insert_verification (aeSQL au 10) v (st\<lparr>osVers := vs\<rparr>) of
        None \<Rightarrow> Inl VerUnavailable
      | Some st \<Rightarrow> Inr (\<lparr>ivTicket = ''av_'' @ b64_encode raw, ivExpiresAt = lockedNow + actionVerificationTTLMillis\<rparr>, st))))"

definition issuable :: "descriptor option \<Rightarrow> int \<Rightarrow> bool" where
  "issuable d action \<longleftrightarrow>
     (case d of None \<Rightarrow> False
      | Some d \<Rightarrow> acActive d \<and> acRequiresTicket d \<and> acAction d = action \<and> acName d \<noteq> [] \<and> acCapability d \<noteq> [] \<and> acEncode d \<noteq> None)"

text \<open>The barrier: \<open>None\<close> when Redis does not answer.\<close>

definition session_barrier :: "net \<Rightarrow> bytes \<Rightarrow> redis \<Rightarrow> bool option" where
  "session_barrier n sid r = (if n = NetOk then Some (redis_get r (revokedKey sid) \<noteq> None) else None)"

definition issue_error :: "verification_error \<Rightarrow> verification_error" where
  "issue_error er = (if er \<in> {VerForbidden, VerHidden, VerConflict} then er else VerUnavailable)"

definition commit_as :: "commit_result \<Rightarrow> (verification_error \<Rightarrow> verification_error) \<Rightarrow> op_store \<Rightarrow> verification_error + ('a \<times> op_store) \<Rightarrow> (verification_error + 'a) \<times> op_store" where
  "commit_as commit f st res =
     (case res of
        Inl er \<Rightarrow> (Inl (f er), st)
      | Inr (x, st') \<Rightarrow>
          (case commit of CommitOK \<Rightarrow> (Inr x, st') | CommitLost \<Rightarrow> (Inl VerUnavailable, st) | CommitUnacknowledged \<Rightarrow> (Inl VerUnavailable, st')))"

text \<open>The part of \<open>Issue\<close> behind the rate limits.\<close>

definition issue_admitted ::
  "ticket_env \<Rightarrow> collation \<Rightarrow> public_tables \<Rightarrow> verification_issue \<Rightarrow> descriptor \<Rightarrow> redis \<Rightarrow> op_store \<Rightarrow>
   (verification_error + issued_verification) \<times> op_store" where
  "issue_admitted env same pub a d r st =
     (let au = teAuth env in
      case session_barrier (aeNet au 1) (clSID (isActor a)) r of
        None \<Rightarrow> (Inl VerUnavailable, st)
      | Some revoked \<Rightarrow>
      if revoked then (Inl VerForbidden, st)
      else if \<not> verification_now (aeNow au 0) then (Inl VerUnavailable, st)
      else commit_as (aeCommit au) issue_error st (issue_tx env same pub a d (aeNow au 0) st))"

definition Issue ::
  "ticket_env \<Rightarrow> collation \<Rightarrow> public_tables \<Rightarrow> verification_issue \<Rightarrow> op_store \<Rightarrow> redis \<Rightarrow>
   (verification_error + issued_verification) \<times> op_store \<times> redis" where
  "Issue env same pub a st r =
     (if \<not> issuable (teResolve env (isAction a)) (isAction a) then (Inl VerInactive, st, r)
      else if \<not> validOperationActorClaims (isActor a) \<or> isPassword a = [] then (Inl VerForbidden, st, r)
      else case reserveVerification (aeNet (teAuth env) 0) (teAcl env) (teCrypto env) (clUser (isActor a)) (clSID (isActor a)) (isTrustedIP a) r of
        (RateRetry n, r) \<Rightarrow> (Inl (VerRetry n), st, r)
      | (RateUnavailable, r) \<Rightarrow> (Inl VerUnavailable, st, r)
      | (RateInput, r) \<Rightarrow> (Inl VerUnavailable, st, r)
      | (RateOk, r) \<Rightarrow>
          let (res, st) = issue_admitted env same pub a (the (teResolve env (isAction a))) r st in (res, st, r))"

section \<open>Consume\<close>

definition validVerificationConsumeBinding ::
  "verification_row \<Rightarrow> locked_identity \<Rightarrow> descriptor \<Rightarrow> int option \<Rightarrow> bytes \<Rightarrow> bytes \<Rightarrow> int \<Rightarrow> bool" where
  "validVerificationConsumeBinding v identity d target intentHex ticketHex now \<longleftrightarrow>
     vActor v = rID (liActor identity) \<and> vAuthVersion v = uAuthVersion (liActor identity) \<and> vSession v = rID (liSession identity) \<and>
     vAction v = acAction d \<and> vTargetKind v = acTargetKind d \<and> sameOptionalGUID (vTarget v) target \<and> vConsumedAt v = None \<and>
     rDeleted v = 0 \<and> now < vExpiresAt v \<and> vIntentHMAC v = intentHex \<and> vTicketHMAC v = ticketHex"

definition consumable_at :: "verification_row \<Rightarrow> int \<Rightarrow> verification_row \<Rightarrow> bool" where
  "consumable_at v now r \<longleftrightarrow> rID r = rID v \<and> vConsumedAt r = None \<and> rDeleted r = 0 \<and> now < vExpiresAt r"

text \<open>Statement 8 reads the ticket, 9 to 12 lock the public target, 13 tombstones the ticket.\<close>

definition consume_locked ::
  "ticket_env \<Rightarrow> public_tables \<Rightarrow> verification_consume \<Rightarrow> descriptor \<Rightarrow> bytes \<Rightarrow> bytes \<Rightarrow> int \<Rightarrow> op_store \<Rightarrow>
   verification_error + (unit \<times> op_store)" where
  "consume_locked env pub c d intentHex ticketHex now st =
     (let fault = aeSQL (teAuth env) in
      and_then (lockActionIdentity fault (osTables st) pub (vcActor c) d (vcTarget c) (vcIntent c) False now) (\<lambda>identity.
      and_then (lock_row (fault 8) (\<lambda>v. vTicketHMAC v = ticketHex) (osVers st) VerForbidden) (\<lambda>v.
      if \<not> validVerificationConsumeBinding v identity d (vcTarget c) intentHex ticketHex now then Inl VerForbidden
      else and_then (if acTargetKind d = TargetPublicContent
                     then lockPublicActionTarget (\<lambda>i. fault (i + 9)) pub (rID (liActor identity)) (acAction d) (vcTarget c) (vcIntent c)
                     else Inr ()) (\<lambda>_.
        let change = consumed_row (rID (liActor identity)) now in
        if fault 13 then Inl VerUnavailable
        else if sql_changed (consumable_at v now) change (osVers st) \<noteq> 1 then Inl VerForbidden
        else Inr ((), st\<lparr>osVers := sql_update (consumable_at v now) change (osVers st)\<rparr>)))))"

definition VerifyAndConsumeInTx ::
  "ticket_env \<Rightarrow> public_tables \<Rightarrow> verification_consume \<Rightarrow> redis \<Rightarrow> op_store \<Rightarrow> verification_error + (unit \<times> op_store)" where
  "VerifyAndConsumeInTx env pub c r st =
     (case teResolve env (vcAction c) of
        None \<Rightarrow> Inl VerInactive
      | Some d \<Rightarrow>
      if \<not> (acActive d \<and> acRequiresTicket d \<and> acAction d = vcAction c \<and> acEncode d \<noteq> None) then Inl VerInactive
      else if \<not> validatePublicVerificationBinding (vcAction c) (vcIntent c) (vcTarget c) then Inl VerConflict
      else case ParseTicket (vcTickets c) of
        Inl er \<Rightarrow> Inl VerForbidden
      | Inr raw \<Rightarrow>
      case run_encoder (the (acEncode d)) (vcIntent c) of
        Inl er \<Rightarrow> Inl VerConflict
      | Inr encoded \<Rightarrow>
      case session_barrier (aeNet (teAuth env) 0) (clSID (vcActor c)) r of
        None \<Rightarrow> Inl VerUnavailable
      | Some revoked \<Rightarrow>
      if revoked then Inl VerForbidden
      else if aeNow (teAuth env) 0 \<le> 0 then Inl VerUnavailable
      else consume_locked env pub c d (hex_encode (IntentDigest (teCrypto env) encoded)) (hex_encode (TicketDigest (teCrypto env) raw))
             (aeNow (teAuth env) 0) st)"

definition normalizeVerificationConsumeError :: "verification_error \<Rightarrow> verification_error" where
  "normalizeVerificationConsumeError er =
     (if er \<in> {VerInactive, VerForbidden, VerHidden, VerConflict} then er else VerUnavailable)"

definition Consume ::
  "ticket_env \<Rightarrow> public_tables \<Rightarrow> verification_consume \<Rightarrow> redis \<Rightarrow> op_store \<Rightarrow> (verification_error + unit) \<times> op_store" where
  "Consume env pub c r st =
     commit_as (aeCommit (teAuth env)) normalizeVerificationConsumeError st (VerifyAndConsumeInTx env pub c r st)"

end
