(* ===== verification/Ticket_History.thy ===== *)
theory Ticket_History
  imports Action_Verification Operation_Properties
begin

text \<open>
  The ticket table under the calls of the ticket service and of the operation service: a ticket keeps what it is
  bound to, it dies once, by being consumed or superseded, and a dead ticket never changes again.
\<close>

section \<open>One ticket\<close>

definition ver_identity ::
  "verification_row \<Rightarrow> int \<times> int \<times> int \<times> int \<times> int \<times> int \<times> int \<times> int \<times> int option \<times> bytes \<times> bytes \<times> int" where
  "ver_identity v = (rID v, rGUID v, rCreatedAt v, vActor v, vAuthVersion v, vSession v, vAction v, vTargetKind v, vTarget v, vIntentHMAC v,
     vTicketHMAC v, vExpiresAt v)"

definition ticket_open :: "verification_row \<Rightarrow> bool" where
  "ticket_open v \<longleftrightarrow> vConsumedAt v = None \<and> rDeleted v = 0"

definition ver_step :: "verification_row \<Rightarrow> verification_row \<Rightarrow> bool" where
  "ver_step v v' \<longleftrightarrow> v' = v \<or> (ver_identity v' = ver_identity v \<and> ticket_open v \<and> rDeleted v' = 1)"

lemma ver_step_refl [simp]: "ver_step v v"
  by (simp add: ver_step_def)

lemma ver_step_trans: "ver_step v1 v2 \<Longrightarrow> ver_step v2 v3 \<Longrightarrow> ver_step v1 v3"
  by (auto simp: ver_step_def ticket_open_def)

lemma ver_step_identity: "ver_step v v' \<Longrightarrow> ver_identity v' = ver_identity v"
  by (auto simp: ver_step_def)

section \<open>The table\<close>

definition vers_grow :: "verification_row list \<Rightarrow> verification_row list \<Rightarrow> bool" where
  "vers_grow vs vs' \<longleftrightarrow> (\<exists>kept news. vs' = kept @ news \<and> list_all2 ver_step vs kept)"

lemma vers_grow_update:
  "(\<And>v. v \<in> set vs \<Longrightarrow> P v \<Longrightarrow> ver_step v (f v)) \<Longrightarrow> vers_grow vs (sql_update P f vs @ news)"
  unfolding vers_grow_def sql_update_def
  by (intro exI[of _ "map (\<lambda>r. if P r then f r else r) vs"] exI[of _ news]) (auto simp: list_all2_map2 list_all2_same)

lemma vers_grow_refl [simp]: "vers_grow vs vs"
  using vers_grow_update[of vs "\<lambda>_. False" id "[]"] by (simp add: sql_update_none)

lemma vers_grow_trans: "vers_grow a b \<Longrightarrow> vers_grow b c \<Longrightarrow> vers_grow a c"
proof -
  assume "vers_grow a b" "vers_grow b c"
  then obtain k1 n1 k2 n2 where b: "b = k1 @ n1" "list_all2 ver_step a k1" and c: "c = k2 @ n2" "list_all2 ver_step b k2"
    by (auto simp: vers_grow_def)
  obtain k3 n3 where k2: "k2 = k3 @ n3" "list_all2 ver_step k1 k3"
    using c(2) by (auto simp: b(1) list_all2_append1)
  then have "list_all2 ver_step a k3" using list_all2_trans[of ver_step ver_step ver_step a k1 k3] ver_step_trans b(2) k2(2) by blast
  then show ?thesis using c(1) k2(1) unfolding vers_grow_def by auto
qed

lemma vers_growD: "vers_grow vs vs' \<Longrightarrow> v \<in> set vs \<Longrightarrow> \<exists>v' \<in> set vs'. ver_step v v'"
  using all2_member by (fastforce simp: vers_grow_def)

definition vers_ok :: "op_store \<Rightarrow> bool" where
  "vers_ok st \<longleftrightarrow>
     distinct (map rID (osVers st)) \<and> distinct (map vTicketHMAC (osVers st)) \<and> list_all (\<lambda>v. rID v < osNextID st) (osVers st)"

lemma vers_ok_update:
  assumes "vers_ok st" "\<And>v. v \<in> set (osVers st) \<Longrightarrow> P v \<Longrightarrow> ver_step v (f v)" "osVers st' = sql_update P f (osVers st)" "osNextID st \<le> osNextID st'"
  shows "vers_ok st'"
proof -
  have "ver_identity (if P v then f v else v) = ver_identity v" if "v \<in> set (osVers st)" for v
    using assms(2)[OF that] ver_step_identity by auto
  then have "map rID (osVers st') = map rID (osVers st)" "map vTicketHMAC (osVers st') = map vTicketHMAC (osVers st)"
    by (auto simp: assms(3) sql_update_def ver_identity_def)
  moreover have "rID v < osNextID st'" if "v \<in> set (osVers st')" for v
  proof -
    have "rID v \<in> set (map rID (osVers st))" using calculation(1) that by (metis image_eqI list.set_map)
    then show ?thesis using assms(1,4) by (auto simp: vers_ok_def list_all_iff)
  qed
  ultimately show ?thesis using assms(1) by (simp add: vers_ok_def list_all_iff)
qed

text \<open>The two ways to end a ticket.\<close>

lemma consumed_step: "consumable v now r \<Longrightarrow> ver_step r (consumed_row actor now r)" "consumable_at v now r \<Longrightarrow> ver_step r (consumed_row actor now r)"
  by (auto simp: ver_step_def ticket_open_def consumable_def consumable_at_def consumed_row_def ver_identity_def)

lemma superseded_step: "supersedable s d t now r \<Longrightarrow> ver_step r (superseded_row actor now r)"
  by (auto simp: ver_step_def ticket_open_def supersedable_def superseded_row_def ver_identity_def)

section \<open>The calls\<close>

lemma begin_insert_vers:
  "begin_insert env rq st actor session now = Some (op, lease, st') \<Longrightarrow> osVers st' = osVers st \<and> osNextID st \<le> osNextID st'"
  by (auto simp: begin_insert_def insert_operation_def Let_def split: sum.splits option.splits if_splits)

lemma begin_stamp_vers:
  "begin_stamp env d actor op v now st = Inr (op', st') \<Longrightarrow> osVers st' = osVers st \<and> osNextID st' = osNextID st"
  by (auto simp: begin_stamp_def Let_def split: if_splits)

lemma begin_new_vers:
  "begin_new env a rq st actor session now = Inr (res, st') \<Longrightarrow> osVers st' = osVers st \<and> osNextID st \<le> osNextID st'"
  unfolding begin_new_def Let_def
  by (auto split: option.splits sum.splits prod.splits if_splits dest!: begin_insert_vers begin_stamp_vers)

lemma begin_existing_vers:
  "begin_existing env a rq st actor session now op = Inr (res, st') \<Longrightarrow> osVers st' = osVers st \<and> osNextID st' = osNextID st"
  unfolding begin_existing_def Let_def by (simp split: option.splits sum.splits if_splits) auto

lemma begin_tx_vers: "begin_tx env a rq st = Inr (res, st') \<Longrightarrow> osVers st' = osVers st \<and> osNextID st \<le> osNextID st'"
  unfolding begin_tx_def Let_def
  by (auto split: option.splits sum.splits prod.splits if_splits dest!: begin_new_vers begin_existing_vers)

lemma query_tx_vers: "query_tx env d a key st = Inr (res, st') \<Longrightarrow> osVers st' = osVers st \<and> osNextID st' = osNextID st"
  unfolding query_tx_def query_found_def Let_def by (simp split: option.splits sum.splits prod.splits if_splits) auto

lemma pending_tx_vers: "pending_tx env oid st = Inr (res, st') \<Longrightarrow> osVers st' = osVers st \<and> osNextID st' = osNextID st"
  unfolding pending_tx_def Let_def by (simp split: option.splits sum.splits prod.splits if_splits) auto

lemma consume_ticket_vers:
  assumes "consume_ticket fault ticket actor now vs = Some vs'"
  shows "\<exists>P f. vs' = sql_update P f vs \<and> (\<forall>v. P v \<longrightarrow> ver_step v (f v))"
proof (cases ticket)
  case None
  then have "vs' = sql_update (\<lambda>_. False) id vs" using assms by (simp add: consume_ticket_def sql_update_none)
  then show ?thesis by blast
next
  case (Some v)
  then have "vs' = sql_update (consumable v now) (consumed_row actor now) vs" using assms by (auto simp: consume_ticket_def split: if_splits)
  then show ?thesis using consumed_step(1) by blast
qed

definition vers_change :: "op_store \<Rightarrow> op_store \<Rightarrow> bool" where
  "vers_change st st' \<longleftrightarrow>
     (\<exists>P f. osVers st' = sql_update P f (osVers st) \<and> (\<forall>v. P v \<longrightarrow> ver_step v (f v))) \<and> osNextID st \<le> osNextID st'"

lemma vers_change_same: "osVers st' = osVers st \<and> osNextID st \<le> osNextID st' \<Longrightarrow> vers_change st st'"
  unfolding vers_change_def by (intro conjI exI[of _ "\<lambda>_. False"] exI[of _ id]) (simp_all add: sql_update_none)

lemma vers_change_refl [simp]: "vers_change st st"
  by (rule vers_change_same) simp

lemma execute_tx_vers:
  assumes "execute_tx env oid lease co audit outbox c st = (Inr (view, st'), c')"
  shows "vers_change st st'"
proof -
  obtain lo c1 now vs where consume: "consume_ticket (oeFault env 12) (loTicket lo) (rID (loActor lo)) now (osVers st) = Some vs"
    and settle: "settle_operation env co audit outbox c1 lo now (st\<lparr>osVers := vs\<rparr>) = (Inr (view, st'), c')"
    using assms by (auto simp: execute_tx_def split: sum.splits prod.splits option.splits if_splits)
  have "osVers st' = vs" "osNextID st' = osNextID st" by (rule settle_operationD[OF settle]; simp)+
  then show ?thesis using consume_ticket_vers[OF consume] by (simp add: vers_change_def)
qed

lemma run_tx_vers: "(\<And>x st'. res = Inr (x, st') \<Longrightarrow> vers_change st st') \<Longrightarrow> vers_change st (snd (run_tx env st res))"
  by (auto simp: run_tx_def split: sum.splits commit_result.splits)

lemma Begin_vers: "vers_change st (snd (Begin_operation env a st))"
proof -
  have "vers_change st (snd (run_tx env st (begin_tx env a rq st)))" for rq
    by (rule run_tx_vers) (blast intro: vers_change_same dest: begin_tx_vers)
  then have "vers_change st s" if "run_tx env st (begin_tx env a rq st) = (x, s)" for rq x s using that by (metis snd_conv)
  then show ?thesis by (auto simp: Begin_operation_def split: sum.splits prod.splits option.splits operation_error.splits begin_result.splits)
qed

lemma Query_vers: "vers_change st (snd (Query_operation env action a keys st))"
proof -
  have "vers_change st (snd (run_tx env st (query_tx env d a key st)))" for d key
    by (rule run_tx_vers) (metis query_tx_vers vers_change_same order_refl)
  then have "vers_change st s" if "run_tx env st (query_tx env d a key st) = (x, s)" for d key x s using that by (metis snd_conv)
  then show ?thesis by (auto simp: Query_operation_def split: sum.splits prod.splits option.splits)
qed

lemma Recovery_vers: "vers_change st (snd (MarkPendingRecovery env oid st))"
proof -
  have "vers_change st (snd (run_tx env st (pending_tx env oid st)))"
    by (rule run_tx_vers) (metis pending_tx_vers vers_change_same order_refl)
  then have "vers_change st s" if "run_tx env st (pending_tx env oid st) = (x, s)" for x s using that by (metis snd_conv)
  then show ?thesis by (auto simp: MarkPendingRecovery_def split: sum.splits prod.splits if_splits)
qed

lemma Execute_vers: "vers_change st (snd (snd (snd (Execute_operation env oid co audit outbox c st))))"
  by (auto simp: Execute_operation_def Let_def split: prod.splits option.splits sum.splits if_splits commit_result.splits
      dest: execute_tx_vers)

text \<open>Consuming through the ticket service.\<close>

lemma consume_lockedD:
  assumes "consume_locked env pub c d intentHex ticketHex now st = Inr (u, st')"
  obtains identity v where
    "lockActionIdentity (aeSQL (teAuth env)) (osTables st) pub (vcActor c) d (vcTarget c) (vcIntent c) False now = Inr identity"
    "v \<in> set (osVers st)" "vTicketHMAC v = ticketHex"
    "validVerificationConsumeBinding v identity d (vcTarget c) intentHex ticketHex now"
    "st' = st\<lparr>osVers := sql_update (consumable_at v now) (consumed_row (rID (liActor identity)) now) (osVers st)\<rparr>"
  using assms
  by (auto simp: consume_locked_def Let_def and_then_def lock_row_def split: sum.splits option.splits if_splits dest!: sql_firstD)

lemma consume_locked_vers: "consume_locked env pub c d i t now st = Inr (u, st') \<Longrightarrow> vers_change st st'"
  by (erule consume_lockedD) (auto simp: vers_change_def intro!: exI consumed_step(2))

lemma commit_as_cases:
  assumes "commit_as commit f st res = (x, st'')"
  obtains (unchanged) er where "st'' = st" "x = Inl er"
    | (committed) y st' where "res = Inr (y, st')" "st'' = st'" "x = Inr y \<and> commit = CommitOK \<or> x = Inl VerUnavailable \<and> commit = CommitUnacknowledged"
  using assms by (auto simp: commit_as_def split: sum.splits prod.splits commit_result.splits)

lemma consume_in_txD:
  assumes "VerifyAndConsumeInTx env pub c r st = Inr (u, st')"
  obtains d raw encoded where "teResolve env (vcAction c) = Some d" "acAction d = vcAction c" "ParseTicket (vcTickets c) = Inr raw"
    "run_encoder (the (acEncode d)) (vcIntent c) = Inr encoded" "session_barrier (aeNet (teAuth env) 0) (clSID (vcActor c)) r = Some False"
    "consume_locked env pub c d (hex_encode (IntentDigest (teCrypto env) encoded)) (hex_encode (TicketDigest (teCrypto env) raw))
       (aeNow (teAuth env) 0) st = Inr (u, st')"
  using assms by (auto simp: VerifyAndConsumeInTx_def Let_def split: option.splits if_splits sum.splits)

lemma Consume_vers: "vers_change st (snd (Consume env pub c r st))"
proof (cases "Consume env pub c r st")
  case (Pair x st'')
  then show ?thesis
    using commit_as_cases[of "aeCommit (teAuth env)" normalizeVerificationConsumeError st "VerifyAndConsumeInTx env pub c r st" x st'']
    by (metis Consume_def Pair consume_in_txD consume_locked_vers snd_conv vers_change_refl)
qed

section \<open>Issuing\<close>

text \<open>The ticket of a successful call of \<open>issue_tx\<close>, and what it was issued on.\<close>

definition issued_row :: "ticket_env \<Rightarrow> verification_issue \<Rightarrow> descriptor \<Rightarrow> locked_identity \<Rightarrow> bytes \<Rightarrow> bytes \<Rightarrow> op_store \<Rightarrow> verification_row" where
  "issued_row env a d identity encoded raw st =
     (verification_for a d identity (aeGUID (teAuth env) 0) (hex_encode (IntentDigest (teCrypto env) encoded))
        (hex_encode (TicketDigest (teCrypto env) raw)) (aeNow (teAuth env) 1))\<lparr>rID := osNextID st\<rparr>"

lemma issue_txD:
  assumes "issue_tx env same pub a d now st = Inr (iv, st')"
  obtains identity encoded raw h where
    "lockActionIdentity (aeSQL (teAuth env)) (osTables st) pub (isActor a) d (isTarget a) (isIntent a) True now = Inr identity"
    "now \<le> aeNow (teAuth env) 1" "verification_now (aeNow (teAuth env) 1)" "aeNow (teAuth env) 1 < sExpiresAt (liSession identity)"
    "review_intent (aeSQL (teAuth env) 8) same pub d (isIntent a) (isTarget a) identity = Inr ()"
    "run_encoder (the (acEncode d)) (isIntent a) = Inr encoded"
    "uPasswordHash (liActor identity) = Some h" "VerifyPassword (teAuth env) (isPassword a) h"
    "readRandom (aeRandom (teAuth env) 0) 32 = Inr raw"
    "iv = \<lparr>ivTicket = ''av_'' @ b64_encode raw, ivExpiresAt = aeNow (teAuth env) 1 + actionVerificationTTLMillis\<rparr>"
    "\<not> (\<exists>r \<in> set (osVers st). vTicketHMAC r = hex_encode (TicketDigest (teCrypto env) raw))"
    "st' = st\<lparr>osVers := sql_update (supersedable (rID (liSession identity)) d (isTarget a) (aeNow (teAuth env) 1))
        (superseded_row (rID (liActor identity)) (aeNow (teAuth env) 1)) (osVers st) @ [issued_row env a d identity encoded raw st],
        osNextID := osNextID st + 1\<rparr>"
proof -
  let ?vs = "\<lambda>identity. sql_update (supersedable (rID (liSession identity)) d (isTarget a) (aeNow (teAuth env) 1))
        (superseded_row (rID (liActor identity)) (aeNow (teAuth env) 1)) (osVers st)"
  have keep: "(\<exists>r \<in> set (?vs identity). vTicketHMAC r = x) \<longleftrightarrow> (\<exists>r \<in> set (osVers st). vTicketHMAC r = x)" for identity :: locked_identity and x
  proof -
    have "map vTicketHMAC (?vs identity) = map vTicketHMAC (osVers st)" by (simp add: sql_update_def superseded_row_def)
    then have "vTicketHMAC ` set (?vs identity) = vTicketHMAC ` set (osVers st)" by (metis list.set_map)
    moreover have "(\<exists>r \<in> A. vTicketHMAC r = x) \<longleftrightarrow> x \<in> vTicketHMAC ` A" for A :: "verification_row set" by blast
    ultimately show ?thesis by simp
  qed
  from assms keep show thesis
    by (auto simp: issue_tx_def Let_def and_then_def insert_verification_def issued_row_def verification_for_def
        split: sum.splits option.splits if_splits intro!: that)
qed

section \<open>The invariant of the ticket table\<close>

text \<open>An older ticket of the same session, action and target is dead, or expired when the newer one was issued.\<close>

definition ver_scope :: "verification_row \<Rightarrow> int \<times> int \<times> int \<times> int option" where
  "ver_scope v = (vSession v, vAction v, vTargetKind v, vTarget v)"

definition yields :: "verification_row \<Rightarrow> verification_row \<Rightarrow> bool" where
  "yields v v' \<longleftrightarrow> (ver_scope v = ver_scope v' \<longrightarrow> \<not> ticket_open v \<or> vExpiresAt v \<le> rCreatedAt v')"

definition vers_inv :: "op_store \<Rightarrow> bool" where
  "vers_inv st \<longleftrightarrow> vers_ok st \<and> sorted_wrt yields (osVers st)"

definition ticket_trans :: "op_store \<Rightarrow> op_store \<Rightarrow> bool" where
  "ticket_trans st st' \<longleftrightarrow> vers_grow (osVers st) (osVers st') \<and> (vers_inv st \<longrightarrow> vers_inv st')"

lemma ticket_trans_refl [simp]: "ticket_trans st st"
  by (simp add: ticket_trans_def)

lemma ticket_trans_trans: "ticket_trans st st' \<Longrightarrow> ticket_trans st' st'' \<Longrightarrow> ticket_trans st st''"
  using vers_grow_trans by (auto simp: ticket_trans_def)

lemma yields_steps: "yields v w \<Longrightarrow> ver_step v v' \<Longrightarrow> ver_step w w' \<Longrightarrow> yields v' w'"
  by (auto simp: yields_def ver_step_def ver_scope_def ver_identity_def ticket_open_def)

lemma update_yields:
  assumes "sorted_wrt yields vs" "\<And>v. v \<in> set vs \<Longrightarrow> P v \<Longrightarrow> ver_step v (f v)"
  shows "sorted_wrt yields (sql_update P f vs)"
proof -
  have step: "ver_step v (if P v then f v else v)" if "v \<in> set vs" for v using assms(2) that by simp
  have "sorted_wrt (\<lambda>v w. yields (if P v then f v else v) (if P w then f w else w)) vs"
    by (rule sorted_wrt_mono_rel[OF _ assms(1)]) (blast intro: yields_steps step)
  then show ?thesis by (simp add: sql_update_def sorted_wrt_map)
qed

lemma vers_change_trans:
  assumes "vers_change st st'"
  shows "ticket_trans st st'"
proof -
  obtain P f where u: "osVers st' = sql_update P f (osVers st)" "\<And>v. P v \<Longrightarrow> ver_step v (f v)" and n: "osNextID st \<le> osNextID st'"
    using assms by (auto simp: vers_change_def)
  have "vers_grow (osVers st) (osVers st')" using vers_grow_update[of "osVers st" P f "[]"] u by simp
  moreover have "vers_inv st \<Longrightarrow> vers_inv st'"
    using vers_ok_update[OF _ _ u(1) n] update_yields[of "osVers st" P f] u by (simp add: vers_inv_def)
  ultimately show ?thesis by (simp add: ticket_trans_def)
qed

lemma vers_ok_append:
  assumes "vers_ok st" "vTicketHMAC v \<notin> vTicketHMAC ` set (osVers st)" "rID v = osNextID st"
  shows "vers_ok (st\<lparr>osVers := osVers st @ [v], osNextID := osNextID st + 1\<rparr>)"
  using assms by (fastforce simp: vers_ok_def list_all_iff)

lemma issue_tx_trans:
  assumes "issue_tx env same pub a d now st = Inr (iv, st')"
  shows "ticket_trans st st' \<and> osOps st' = osOps st \<and> osTables st' = osTables st"
proof -
  obtain identity encoded raw h where
    fresh: "\<not> (\<exists>r \<in> set (osVers st). vTicketHMAC r = hex_encode (TicketDigest (teCrypto env) raw))"
    and st': "st' = st\<lparr>osVers := sql_update (supersedable (rID (liSession identity)) d (isTarget a) (aeNow (teAuth env) 1))
        (superseded_row (rID (liActor identity)) (aeNow (teAuth env) 1)) (osVers st) @ [issued_row env a d identity encoded raw st],
        osNextID := osNextID st + 1\<rparr>"
    by (rule issue_txD[OF assms])
  let ?P = "supersedable (rID (liSession identity)) d (isTarget a) (aeNow (teAuth env) 1)"
  let ?f = "superseded_row (rID (liActor identity)) (aeNow (teAuth env) 1)"
  let ?v = "issued_row env a d identity encoded raw st"
  let ?s = "st\<lparr>osVers := sql_update ?P ?f (osVers st)\<rparr>"
  have grow: "vers_grow (osVers st) (osVers st')"
    using vers_grow_update[of "osVers st" ?P ?f "[?v]"] superseded_step by (simp add: st')
  have "vers_inv st'" if "vers_inv st"
  proof -
    have s: "vers_inv ?s"
      using that vers_change_trans[of st ?s] superseded_step by (fastforce simp: vers_change_def ticket_trans_def)
    have "map vTicketHMAC (osVers ?s) = map vTicketHMAC (osVers st)" by (simp add: sql_update_def superseded_row_def)
    then have "vTicketHMAC ` set (osVers ?s) = vTicketHMAC ` set (osVers st)" by (metis list.set_map)
    moreover have "vTicketHMAC ?v = hex_encode (TicketDigest (teCrypto env) raw)" "rID ?v = osNextID ?s"
      by (simp_all add: issued_row_def verification_for_def)
    moreover have "hex_encode (TicketDigest (teCrypto env) raw) \<notin> vTicketHMAC ` set (osVers st)" using fresh by (metis imageE)
    ultimately have "vTicketHMAC ?v \<notin> vTicketHMAC ` set (osVers ?s)" "rID ?v = osNextID ?s" by metis+
    moreover have "vers_ok ?s" using s by (simp add: vers_inv_def)
    ultimately have "vers_ok (?s\<lparr>osVers := osVers ?s @ [?v], osNextID := osNextID ?s + 1\<rparr>)" by (intro vers_ok_append)
    then have "vers_ok st'" by (simp add: st')
    moreover have "yields w ?v" if "w \<in> set (osVers ?s)" for w
      using that by (auto simp: sql_update_def yields_def ver_scope_def issued_row_def verification_for_def ticket_open_def
          supersedable_def superseded_row_def)
    ultimately show ?thesis using s by (simp add: vers_inv_def st' sorted_wrt_append)
  qed
  then show ?thesis using grow by (simp add: ticket_trans_def st')
qed

lemma issue_admitted_store:
  assumes "issue_admitted env same pub a d r st = (res, st'')"
  obtains (unchanged) er where "st'' = st" "res = Inl er"
    | (issued) iv where "issue_tx env same pub a d (aeNow (teAuth env) 0) st = Inr (iv, st'')" "verification_now (aeNow (teAuth env) 0)"
        "session_barrier (aeNet (teAuth env) 1) (clSID (isActor a)) r = Some False"
        "res = Inr iv \<and> aeCommit (teAuth env) = CommitOK \<or> res = Inl VerUnavailable \<and> aeCommit (teAuth env) = CommitUnacknowledged"
proof (cases "session_barrier (aeNet (teAuth env) 1) (clSID (isActor a)) r = Some False \<and> verification_now (aeNow (teAuth env) 0)")
  case False
  then show thesis using assms unchanged by (auto simp: issue_admitted_def Let_def split: if_splits option.splits)
next
  case True
  then have "commit_as (aeCommit (teAuth env)) issue_error st (issue_tx env same pub a d (aeNow (teAuth env) 0) st) = (res, st'')"
    using assms by (simp add: issue_admitted_def Let_def)
  then show thesis using True unchanged issued by (elim commit_as_cases) auto
qed

lemma issue_admitted_trans:
  assumes "issue_admitted env same pub a d r st = (res, st'')"
  shows "ticket_trans st st'' \<and> osOps st'' = osOps st \<and> osTables st'' = osTables st"
  using assms by (elim issue_admitted_store) (auto dest: issue_tx_trans)

lemma Issue_cases:
  assumes "Issue env same pub a st r = (res, st'', r'')"
  obtains (refused) er where "st'' = st" "res = Inl er"
    | (admitted) d r' where "teResolve env (isAction a) = Some d" "issuable (Some d) (isAction a)" "issue_admitted env same pub a d r' st = (res, st'')"
  using assms by (auto simp: Issue_def issuable_def split: if_splits prod.splits rate_result.splits option.splits)

lemma Issue_trans:
  assumes "Issue env same pub a st r = (res, st'', r'')"
  shows "ticket_trans st st'' \<and> osOps st'' = osOps st \<and> osTables st'' = osTables st"
  using assms by (elim Issue_cases) (auto dest: issue_admitted_trans)

section \<open>Histories\<close>

text \<open>The calls on tickets and operations, and the writes of the rest of the program, which reach neither.\<close>

datatype 'c ticket_call =
    CallIssue ticket_env collation public_tables verification_issue redis
  | CallConsume ticket_env public_tables verification_consume redis
  | CallOperation "'c op_call"

fun ticket_store :: "'c ticket_call \<Rightarrow> op_store \<Rightarrow> op_store" where
  "ticket_store (CallIssue env same pub a r) st = fst (snd (Issue env same pub a st r))"
| "ticket_store (CallConsume env pub c r) st = snd (Consume env pub c r st)"
| "ticket_store (CallOperation (Elsewhere t vs)) st = st\<lparr>osTables := t\<rparr>"
| "ticket_store (CallOperation k) st = call_store k st"

fun run_tickets :: "'c ticket_call list \<Rightarrow> op_store \<Rightarrow> op_store" where
  "run_tickets [] st = st"
| "run_tickets (k # ks) st = run_tickets ks (ticket_store k st)"

lemma ticket_call_trans: "ticket_trans st (ticket_store k st)"
proof (cases k)
  case (CallIssue env same pub a r)
  then show ?thesis using Issue_trans[of env same pub a st r] by (cases "Issue env same pub a st r") auto
next
  case (CallConsume env pub c r)
  then show ?thesis by (simp add: Consume_vers vers_change_trans)
next
  case (CallOperation o')
  then show ?thesis
    by (cases o') (simp_all add: vers_change_trans Begin_vers Query_vers Recovery_vers Execute_vers vers_change_same)
qed

lemma run_tickets_trans: "ticket_trans st (run_tickets ks st)"
  by (induction ks arbitrary: st) (auto intro: ticket_trans_trans ticket_call_trans)

lemma run_tickets_row:
  assumes "v \<in> set (osVers st)"
  shows "\<exists>v' \<in> set (osVers (run_tickets ks st)). ver_step v v'"
  using run_tickets_trans[of st ks] vers_growD assms by (auto simp: ticket_trans_def)

lemma run_tickets_inv: "vers_inv st \<Longrightarrow> vers_inv (run_tickets ks st)"
  using run_tickets_trans[of st ks] by (simp add: ticket_trans_def)

end
