(* ===== verification/Ticket_Properties.thy ===== *)
theory Ticket_Properties
  imports Ticket_History
begin

text \<open>
  What a ticket guarantees: it is issued on the locked identity and its password, it works for the request it
  was issued for until it expires, for no other request, and once.
\<close>

section \<open>Tickets in a store\<close>

lemma ver_identity_fields:
  assumes "ver_identity v' = ver_identity v"
  shows "rID v' = rID v" "vTicketHMAC v' = vTicketHMAC v" "vIntentHMAC v' = vIntentHMAC v" "vActor v' = vActor v"
    "vAuthVersion v' = vAuthVersion v" "vAction v' = vAction v" "vTarget v' = vTarget v" "vExpiresAt v' = vExpiresAt v"
    "vSession v' = vSession v" "vTargetKind v' = vTargetKind v" "rCreatedAt v' = rCreatedAt v"
  using assms by (simp_all add: ver_identity_def)

lemma issued_row_fields:
  "vTicketHMAC (issued_row env a d i e raw st) = hex_encode (TicketDigest (teCrypto env) raw)"
  "vIntentHMAC (issued_row env a d i e raw st) = hex_encode (IntentDigest (teCrypto env) e)"
  "vActor (issued_row env a d i e raw st) = rID (liActor i)" "vAuthVersion (issued_row env a d i e raw st) = uAuthVersion (liActor i)"
  "vSession (issued_row env a d i e raw st) = rID (liSession i)" "vAction (issued_row env a d i e raw st) = acAction d"
  "vTargetKind (issued_row env a d i e raw st) = acTargetKind d" "vTarget (issued_row env a d i e raw st) = isTarget a"
  "vExpiresAt (issued_row env a d i e raw st) = aeNow (teAuth env) 1 + actionVerificationTTLMillis"
  "vConsumedAt (issued_row env a d i e raw st) = None" "rDeleted (issued_row env a d i e raw st) = 0"
  "rID (issued_row env a d i e raw st) = osNextID st"
  by (simp_all add: issued_row_def verification_for_def)

lemma same_ticket:
  assumes "vers_ok st" "v \<in> set (osVers st)" "v' \<in> set (osVers st)" "vTicketHMAC v = vTicketHMAC v'"
  shows "v = v'"
  using assms distinct_keyD[of vTicketHMAC "osVers st" v v'] by (simp add: vers_ok_def)

lemma locked_identity_claims:
  assumes "lockActionIdentity fault t pub a d tg v p now = Inr i"
  shows "rID (liActor i) = clUser a" "uAuthVersion (liActor i) = clAuthVersion a" "sUser (liSession i) = clUser a"
    "liActor i \<in> set (tUsers t)" "validActionActor (liActor i)"
  using assms
  by (auto simp: lockActionIdentity_def lock_actor_def lock_own_session_def lock_row_def and_then_def
      split: if_splits sum.splits option.splits list.splits dest!: sql_firstD)

lemma distinct_keys_sorted: "sorted_wrt R xs \<Longrightarrow> x \<in> set xs \<Longrightarrow> y \<in> set xs \<Longrightarrow> x = y \<or> R x y \<or> R y x"
  by (induction xs) auto

section \<open>One ticket at a time\<close>

definition ticket_live :: "int \<Rightarrow> verification_row \<Rightarrow> bool" where
  "ticket_live now v \<longleftrightarrow> ticket_open v \<and> rCreatedAt v \<le> now \<and> now < vExpiresAt v"

text \<open>C37: A session has at most one live ticket for an action on a target.  After any calls of the ticket and operation services, in
  any order and with any faults and commits, starting from a consistent ticket table such as the empty one, two tickets of the
  same session, action and target that are both usable at the same time are the same ticket.\<close>

theorem one_live_ticket:
  assumes "vers_inv st" "v \<in> set (osVers (run_tickets ks st))" "v' \<in> set (osVers (run_tickets ks st))"
    "ver_scope v = ver_scope v'" "ticket_live now v" "ticket_live now v'"
  shows "v = v'"
proof -
  have "sorted_wrt yields (osVers (run_tickets ks st))" using run_tickets_inv[OF assms(1), of ks] by (simp add: vers_inv_def)
  from distinct_keys_sorted[OF this assms(2,3)] show ?thesis using assms(4-6) by (auto simp: yields_def ticket_live_def)
qed

section \<open>One use\<close>

lemma Consume_success:
  assumes "Consume env pub c r st = (Inr u, st')"
  obtains d raw encoded identity v where "teResolve env (vcAction c) = Some d" "acAction d = vcAction c" "ParseTicket (vcTickets c) = Inr raw"
    "run_encoder (the (acEncode d)) (vcIntent c) = Inr encoded"
    "lockActionIdentity (aeSQL (teAuth env)) (osTables st) pub (vcActor c) d (vcTarget c) (vcIntent c) False (aeNow (teAuth env) 0) = Inr identity"
    "v \<in> set (osVers st)" "vTicketHMAC v = hex_encode (TicketDigest (teCrypto env) raw)"
    "validVerificationConsumeBinding v identity d (vcTarget c) (hex_encode (IntentDigest (teCrypto env) encoded))
       (hex_encode (TicketDigest (teCrypto env) raw)) (aeNow (teAuth env) 0)"
    "st' = st\<lparr>osVers := sql_update (consumable_at v (aeNow (teAuth env) 0)) (consumed_row (rID (liActor identity)) (aeNow (teAuth env) 0)) (osVers st)\<rparr>"
proof -
  have "VerifyAndConsumeInTx env pub c r st = Inr (u, st')"
    using assms unfolding Consume_def by (elim commit_as_cases) auto
  then show thesis by (elim consume_in_txD consume_lockedD) (rule that)
qed

lemma dead_ticket_refused:
  assumes "vers_ok st" "v \<in> set (osVers st)" "\<not> ticket_open v" "ParseTicket (vcTickets c) = Inr raw"
    "vTicketHMAC v = hex_encode (TicketDigest (teCrypto env) raw)"
  shows "\<exists>er. Consume env pub c r st = (Inl er, st)"
proof -
  have "VerifyAndConsumeInTx env pub c r st \<noteq> Inr (u, st'')" for u st''
  proof
    assume "VerifyAndConsumeInTx env pub c r st = Inr (u, st'')"
    then obtain d identity v' i where "v' \<in> set (osVers st)" "vTicketHMAC v' = hex_encode (TicketDigest (teCrypto env) raw)"
      "validVerificationConsumeBinding v' identity d (vcTarget c) i (hex_encode (TicketDigest (teCrypto env) raw)) (aeNow (teAuth env) 0)"
      using assms(4) by (elim consume_in_txD consume_lockedD) auto
    moreover from this have "v' = v" using same_ticket[OF assms(1) _ assms(2)] assms(5) by simp
    ultimately show False using assms(3) by (simp add: validVerificationConsumeBinding_def ticket_open_def)
  qed
  then show ?thesis by (cases "VerifyAndConsumeInTx env pub c r st") (auto simp: Consume_def commit_as_def)
qed

text \<open>C34: A ticket works once.  After it has been consumed, and after any further calls of the ticket and operation services, no
  request with the same ticket is accepted, whoever sends it and for whatever action, and the refusal changes nothing.\<close>

theorem ticket_used_once:
  assumes "Consume env pub c r st = (Inr (), st')" "vers_inv st" "vcTickets c' = vcTickets c" "teCrypto env' = teCrypto env"
  shows "\<exists>er. Consume env' pub' c' r' (run_tickets ks st') = (Inl er, run_tickets ks st')"
proof -
  obtain d raw encoded identity v where p: "ParseTicket (vcTickets c) = Inr raw" and v: "v \<in> set (osVers st)"
    "vTicketHMAC v = hex_encode (TicketDigest (teCrypto env) raw)"
    "validVerificationConsumeBinding v identity d (vcTarget c) (hex_encode (IntentDigest (teCrypto env) encoded))
       (hex_encode (TicketDigest (teCrypto env) raw)) (aeNow (teAuth env) 0)"
    and st': "st' = st\<lparr>osVers := sql_update (consumable_at v (aeNow (teAuth env) 0)) (consumed_row (rID (liActor identity)) (aeNow (teAuth env) 0)) (osVers st)\<rparr>"
    by (rule Consume_success[OF assms(1)])
  let ?w = "consumed_row (rID (liActor identity)) (aeNow (teAuth env) 0) v"
  have "consumable_at v (aeNow (teAuth env) 0) v" using v(3) by (simp add: consumable_at_def validVerificationConsumeBinding_def)
  then have w: "?w \<in> set (osVers st')" using v(1) by (auto simp: st' sql_update_def)
  obtain w' where w': "w' \<in> set (osVers (run_tickets ks st'))" "ver_step ?w w'" using run_tickets_row[OF w] by blast
  have "w' = ?w" "\<not> ticket_open ?w" using w'(2) by (auto simp: ver_step_def ticket_open_def consumed_row_def)
  moreover have "vTicketHMAC ?w = vTicketHMAC v" by (simp add: consumed_row_def)
  moreover have "vers_inv st'" using assms(1,2) Consume_vers[of st env pub c r] vers_change_trans by (auto simp: ticket_trans_def)
  ultimately show ?thesis
    using dead_ticket_refused[of "run_tickets ks st'" w' c' raw env' pub' r'] w'(1) p v(2) assms(3,4) run_tickets_inv
    by (auto simp: vers_inv_def)
qed

section \<open>What a ticket is for\<close>

lemma issued_member:
  assumes "issue_tx env same pub a d now st = Inr (iv, st')" "vers_inv st"
  obtains identity encoded raw where
    "lockActionIdentity (aeSQL (teAuth env)) (osTables st) pub (isActor a) d (isTarget a) (isIntent a) True now = Inr identity"
    "run_encoder (the (acEncode d)) (isIntent a) = Inr encoded" "ParseTicket [ivTicket iv] = Inr raw"
    "ivExpiresAt iv = aeNow (teAuth env) 1 + actionVerificationTTLMillis" "issued_row env a d identity encoded raw st \<in> set (osVers st')"
    "vers_inv st'"
proof -
  obtain identity encoded raw h where
    "lockActionIdentity (aeSQL (teAuth env)) (osTables st) pub (isActor a) d (isTarget a) (isIntent a) True now = Inr identity"
    "run_encoder (the (acEncode d)) (isIntent a) = Inr encoded" "readRandom (aeRandom (teAuth env) 0) 32 = Inr raw"
    "iv = \<lparr>ivTicket = ''av_'' @ b64_encode raw, ivExpiresAt = aeNow (teAuth env) 1 + actionVerificationTTLMillis\<rparr>"
    "issued_row env a d identity encoded raw st \<in> set (osVers st')"
    by (rule issue_txD[OF assms(1)]) simp
  moreover from this(3) have "length raw = 32" by (auto simp: readRandom_def split: option.splits if_splits)
  moreover have "vers_inv st'" using issue_tx_trans[OF assms(1)] assms(2) by (simp add: ticket_trans_def)
  ultimately show thesis by (intro that) (auto simp: ParseTicket_def parseHeaderValue_iff)
qed

text \<open>C35: A ticket is good for the request it was issued for alone.  If it is accepted after any calls, then by a request of the same
  user at the same authorization version, for the same action and target, with an intent whose encoding has the same digest
  under the intent key, and before the ticket has expired.\<close>

theorem ticket_binds_request:
  assumes "issue_admitted env same pub a d r st = (Inr iv, st1)" "vers_inv st"
    "Consume env' pub' c r' (run_tickets ks st1) = (Inr (), st2)" "vcTickets c = [ivTicket iv]" "teCrypto env' = teCrypto env"
  shows "vcAction c = acAction d \<and> vcTarget c = isTarget a \<and> clUser (vcActor c) = clUser (isActor a) \<and>
    clAuthVersion (vcActor c) = clAuthVersion (isActor a) \<and> aeNow (teAuth env') 0 < ivExpiresAt iv \<and>
    (\<exists>d' e e'. teResolve env' (vcAction c) = Some d' \<and> run_encoder (the (acEncode d)) (isIntent a) = Inr e \<and>
       run_encoder (the (acEncode d')) (vcIntent c) = Inr e' \<and> IntentDigest (teCrypto env) e = IntentDigest (teCrypto env) e')"
proof -
  have tx: "issue_tx env same pub a d (aeNow (teAuth env) 0) st = Inr (iv, st1)" using assms(1) by (elim issue_admitted_store) auto
  obtain i e raw where issued:
    "lockActionIdentity (aeSQL (teAuth env)) (osTables st) pub (isActor a) d (isTarget a) (isIntent a) True (aeNow (teAuth env) 0) = Inr i"
    "run_encoder (the (acEncode d)) (isIntent a) = Inr e" "ParseTicket [ivTicket iv] = Inr raw"
    "ivExpiresAt iv = aeNow (teAuth env) 1 + actionVerificationTTLMillis" "issued_row env a d i e raw st \<in> set (osVers st1)" "vers_inv st1"
    by (rule issued_member[OF tx assms(2)])
  obtain d' raw' e' i' v' where used: "teResolve env' (vcAction c) = Some d'" "acAction d' = vcAction c" "ParseTicket (vcTickets c) = Inr raw'"
    "run_encoder (the (acEncode d')) (vcIntent c) = Inr e'"
    "lockActionIdentity (aeSQL (teAuth env')) (osTables (run_tickets ks st1)) pub' (vcActor c) d' (vcTarget c) (vcIntent c) False (aeNow (teAuth env') 0) = Inr i'"
    "v' \<in> set (osVers (run_tickets ks st1))" "vTicketHMAC v' = hex_encode (TicketDigest (teCrypto env') raw')"
    "validVerificationConsumeBinding v' i' d' (vcTarget c) (hex_encode (IntentDigest (teCrypto env') e'))
       (hex_encode (TicketDigest (teCrypto env') raw')) (aeNow (teAuth env') 0)"
    by (rule Consume_success[OF assms(3)])
  obtain w where w: "w \<in> set (osVers (run_tickets ks st1))" "ver_step (issued_row env a d i e raw st) w"
    using run_tickets_row[OF issued(5)] by blast
  note w_fields = ver_identity_fields[OF ver_step_identity[OF w(2)], unfolded issued_row_fields]
  have "raw' = raw" using used(3) issued(3) assms(4) by simp
  then have "vTicketHMAC w = vTicketHMAC v'" using used(7) assms(5) w_fields(2) by simp
  moreover have "vers_ok (run_tickets ks st1)" using run_tickets_inv[OF issued(6), of ks] by (simp add: vers_inv_def)
  ultimately have "v' = w" using same_ticket[OF _ used(6) w(1)] by simp
  then show ?thesis
    using used(1,2,4,8) issued(2,4) w_fields locked_identity_claims[OF issued(1)] locked_identity_claims[OF used(5)] assms(5)
    by (auto simp: validVerificationConsumeBinding_def hex_encode_inj sameOptionalGUID_def split: option.splits)
qed

section \<open>A ticket works\<close>

text \<open>A lock that was granted is granted again without faults.\<close>

lemma lock_row_calm: "lock_row fault P rows m = Inr x \<Longrightarrow> lock_row False P rows m = Inr x"
  by (simp add: lock_row_def split: if_splits)

lemma draft_locks_calm:
  "lockPublicPriceDraftRevision fault pub = Inr pd \<Longrightarrow> lockPublicPriceDraftRevision False pub = Inr pd"
  "lockPublicContentDraftRevision fault pub = Inr cd \<Longrightarrow> lockPublicContentDraftRevision False pub = Inr cd"
  "lockPublicActionPublicationState fault pub = Inr ps \<Longrightarrow> lockPublicActionPublicationState False pub = Inr ps"
  by (simp_all add: lockPublicPriceDraftRevision_def lockPublicContentDraftRevision_def lockPublicActionPublicationState_def lock_row_calm)

lemma committed_calm:
  "publicPricingRestoreAlreadyCommitted fault pub actor s e = Inr b \<Longrightarrow> publicPricingRestoreAlreadyCommitted False pub actor s e = Inr b"
  "publicContentRestoreAlreadyCommitted fault pub actor s e = Inr b \<Longrightarrow> publicContentRestoreAlreadyCommitted False pub actor s e = Inr b"
  by (auto simp: publicPricingRestoreAlreadyCommitted_def publicContentRestoreAlreadyCommitted_def split: if_splits)

lemmas calm = lock_row_calm draft_locks_calm committed_calm

lemma if_Inr: "((if b then x else y) = Inr z) \<longleftrightarrow> (b \<and> x = Inr z) \<or> (\<not> b \<and> y = Inr z)"
  by simp

lemma option_Inr: "((case x of None \<Rightarrow> Inl er | Some a \<Rightarrow> f a) = Inr z) \<longleftrightarrow> (\<exists>a. x = Some a \<and> f a = Inr z)"
  by (simp split: option.split)

lemma lock_target_calm:
  assumes "lockPublicActionTarget fault pub actor action target v = Inr ()"
  shows "lockPublicActionTarget (\<lambda>_. False) pub actor action target v = Inr ()"
proof -
  have "lock_model_delete fault pub i = Inr () \<Longrightarrow> lock_model_delete (\<lambda>_. False) pub i = Inr ()" for i
    unfolding lock_model_delete_def and_then_Inr by (blast intro: calm)
  moreover have "lock_pricing_restore fault pub actor g r = Inr () \<Longrightarrow> lock_pricing_restore (\<lambda>_. False) pub actor g r = Inr ()" for g r
    unfolding lock_pricing_restore_def and_then_Inr if_Inr by (blast intro: calm)
  moreover have "lock_content_publish fault pub g r = Inr () \<Longrightarrow> lock_content_publish (\<lambda>_. False) pub g r = Inr ()" for g r
    unfolding lock_content_publish_def and_then_Inr if_Inr option_Inr by (blast intro: calm)
  moreover have "lock_content_restore fault pub actor g r = Inr () \<Longrightarrow> lock_content_restore (\<lambda>_. False) pub actor g r = Inr ()" for g r
    unfolding lock_content_restore_def and_then_Inr if_Inr by (blast intro: calm)
  ultimately show ?thesis using assms by (auto simp: lockPublicActionTarget_def split: if_splits any_intent.splits)
qed

lemma policy_rows_calm: "readPermissionPolicyRows fault t uid = Inr p \<Longrightarrow> readPermissionPolicyRows (\<lambda>_. False) t uid = Inr p"
proof -
  assume ok': "readPermissionPolicyRows fault t uid = Inr p"
  have f0: "fault 0 = False" using ok' by (auto simp: readPermissionPolicyRows_def)
  have f1: "fault 1 = False"
  proof (rule ccontr)
    assume "fault 1 \<noteq> False"
    then show False using ok' unfolding readPermissionPolicyRows_def by (simp split: option.splits if_splits)
  qed
  show ?thesis using ok' unfolding readPermissionPolicyRows_def f0 f1 by assumption
qed

lemma sort_singleton: "sort_key f xs = [x] \<Longrightarrow> xs = [x]"
  by (metis length_0_conv length_Cons length_Suc_conv length_sort list.set_intros(1) set_sort set_ConsD empty_iff list.set(1))

text \<open>So is an identity, as long as its session lasts.\<close>

lemma own_session_later:
  assumes "lock_own_session fault t u a now = Inr s" "now \<le> now'" "now' < sExpiresAt s"
  shows "lock_own_session False t u a now' = Inr s"
proof -
  let ?P = "\<lambda>now s. constantTimeSIDEqual (sSID s) (clSID a) \<and> live_at (rID u) now s"
  have found: "filter (\<lambda>s. constantTimeSIDEqual (sSID s) (clSID a)) (sql_find (live_at (rID u) now) (tSessions t)) =
      sort_key rID (filter (?P now) (tSessions t))" for now
    by (simp add: sql_find_def filter_sort conj_commute)
  have one: "filter (?P now) (tSessions t) = [s]"
  proof (rule sort_singleton)
    show "sort_key rID (filter (?P now) (tSessions t)) = [s]"
      using assms(1) unfolding lock_own_session_def found by (simp split: if_splits list.splits)
  qed
  then have s: "?P now s" using filter_set[of "?P now" "tSessions t"] by (auto simp: set_eq_iff)
  have "filter (?P now') (tSessions t) = filter (?P now') (filter (?P now) (tSessions t))"
    using assms(2) by (auto simp: live_at_def intro!: filter_cong)
  also have "\<dots> = filter (?P now') [s]" by (simp only: one)
  also have "\<dots> = [s]" using s assms(3) by (simp add: live_at_def)
  finally have "filter (?P now') (tSessions t) = [s]" .
  then have "sort_key rID (filter (?P now') (tSessions t)) = [s]" "sort_key rID (filter (?P now) (tSessions t)) = [s]" using one by simp_all
  then show ?thesis using assms(1,3) unfolding lock_own_session_def found by (simp split: if_splits)
qed

lemma identity_later:
  assumes "lockActionIdentity fault t pub a d tg v True now = Inr i" "now \<le> now'" "now' < sExpiresAt (liSession i)"
  shows "lockActionIdentity (\<lambda>_. False) t pub a d tg v False now' = Inr i"
    "acTargetKind d = TargetPublicContent \<Longrightarrow> lockPublicActionTarget (\<lambda>_. False) pub (rID (liActor i)) (acAction d) tg v = Inr ()"
proof -
  obtain actor session target where parts: "lock_actor (fault 0) t a = Inr actor" "lock_own_session (fault 1) t actor a now = Inr session"
    "lock_target (\<lambda>i. fault (i + 2)) t pub actor d tg v True = Inr target"
    and i: "i = \<lparr>liActor = actor, liSession = session, liTarget = target\<rparr>"
    using assms(1) by (auto simp: lockActionIdentity_def and_then_def split: if_splits sum.splits prod.splits option.splits)
  have "lock_actor False t a = Inr actor"
    using parts(1) unfolding lock_actor_def and_then_Inr by (blast intro: calm)
  moreover have "lock_own_session False t actor a now' = Inr session"
    using own_session_later[OF parts(2) assms(2)] assms(3) i by simp
  moreover have "lock_target (\<lambda>_. False) t pub actor d tg v False = Inr target"
    using parts(3) unfolding lock_target_def and_then_Inr if_Inr option_Inr by (blast intro: calm)
  moreover obtain p where p: "readPermissionPolicyRows (\<lambda>i. fault (i + 6)) t (rID actor) = Inr p"
  proof (cases "readPermissionPolicyRows (\<lambda>i. fault (i + 6)) t (rID actor)")
    case (Inl er)
    then show thesis using assms(1) parts by (simp add: lockActionIdentity_def and_then_def split: if_splits)
  qed (rule that)
  moreover note policy_rows_calm[OF p]
  ultimately show "lockActionIdentity (\<lambda>_. False) t pub a d tg v False now' = Inr i"
    using assms(1,2) parts by (simp add: lockActionIdentity_def and_then_def split: if_splits)
  show "lockPublicActionTarget (\<lambda>_. False) pub (rID (liActor i)) (acAction d) tg v = Inr ()" if "acTargetKind d = TargetPublicContent"
    using parts(3) that i by (auto simp: lock_target_def and_then_def split: if_splits sum.splits intro: lock_target_calm)
qed

lemma locked_session_live:
  assumes "lockActionIdentity fault t pub a d tg v p now = Inr i"
  shows "liSession i \<in> set (tSessions t)" "sSID (liSession i) = clSID a"
proof -
  obtain actor where s: "lock_own_session (fault 1) t actor a now = Inr (liSession i)" and a: "validOperationActorClaims a"
    using assms by (auto simp: lockActionIdentity_def and_then_def split: if_splits sum.splits prod.splits option.splits)
  have "filter (\<lambda>s. constantTimeSIDEqual (sSID s) (clSID a)) (sql_find (live_at (rID actor) now) (tSessions t)) = [liSession i]"
    using s unfolding lock_own_session_def by (simp split: if_splits list.splits)
  then have "liSession i \<in> {s \<in> set (sql_find (live_at (rID actor) now) (tSessions t)). constantTimeSIDEqual (sSID s) (clSID a)}"
    by (metis list.set_intros(1) set_filter)
  moreover have "length (clSID a) = 36" using a by (simp add: validOperationActorClaims_def)
  ultimately show "liSession i \<in> set (tSessions t)" "sSID (liSession i) = clSID a" by (auto simp: sql_find_def)
qed

text \<open>The request that a ticket was issued for.\<close>

definition consume_for :: "verification_issue \<Rightarrow> descriptor \<Rightarrow> issued_verification \<Rightarrow> verification_consume" where
  "consume_for a d iv =
     \<lparr>vcActor = isActor a, vcAction = acAction d, vcTarget = isTarget a, vcIntent = isIntent a, vcTickets = [ivTicket iv]\<rparr>"

definition public_action :: "int \<Rightarrow> bool" where
  "public_action action \<longleftrightarrow>
     action \<in> {ActionPublicModelDelete, ActionPublicPricingPublish, ActionPublicPricingRestore, ActionPublicContentPublish, ActionPublicContentRestore}"

text \<open>An environment in which nothing fails, at \<open>now\<close>.\<close>

definition calm_env :: "ticket_env \<Rightarrow> int \<Rightarrow> bool" where
  "calm_env env now \<longleftrightarrow>
     aeSQL (teAuth env) = (\<lambda>_. False) \<and> aeNet (teAuth env) 0 = NetOk \<and> aeCommit (teAuth env) = CommitOK \<and> aeNow (teAuth env) 0 = now"

lemma consume_fresh:
  assumes "vers_inv st" "v \<in> set (osVers st)" "consumable_at v now v"
  shows "sql_changed (consumable_at v now) (consumed_row actor now) (osVers st) = 1"
proof -
  have "r = v" if "r \<in> set (osVers st)" "consumable_at v now r" for r
    using assms(1) that assms(2) distinct_keyD[of rID "osVers st" r v] by (simp add: vers_inv_def vers_ok_def consumable_at_def)
  then have "filter (\<lambda>r. consumable_at v now r \<and> consumed_row actor now r \<noteq> r) (osVers st) = filter (\<lambda>r. r = v) (osVers st)"
    using assms(3) by (auto simp: consumable_at_def consumed_row_def intro!: filter_cong dest: arg_cong[of _ _ rDeleted])
  moreover have "distinct (osVers st)" using assms(1) by (auto simp: vers_inv_def vers_ok_def distinct_map)
  ultimately show ?thesis using assms(2) by (simp add: sql_changed_def distinct_length_filter)
qed

lemma fresh_ticket_found: "vers_ok st \<Longrightarrow> v \<in> set (osVers st) \<Longrightarrow> sql_first (\<lambda>r. vTicketHMAC r = vTicketHMAC v) (osVers st) = Some v"
  by (rule sql_first_unique) (auto dest: same_ticket)

lemma consume_issued:
  assumes "issue_tx env same pub a d t0 st = Inr (iv, st1)" "vers_inv st" "public_action (acAction d)" "issuable (Some d) (acAction d)"
    "teResolve env' (acAction d) = Some d" "teCrypto env' = teCrypto env" "calm_env env' now" "t0 \<le> now" "0 < now"
    "now < ivExpiresAt iv" "list_all (\<lambda>s. clSID (isActor a) \<noteq> sSID s \<or> now < sExpiresAt s) (tSessions (osTables st))"
    "redis_get r' (revokedKey (clSID (isActor a))) = None"
  shows "fst (Consume env' pub (consume_for a d iv) r' st1) = Inr ()"
proof -
  note tx = assms(1)
  obtain i e raw where issued:
    "lockActionIdentity (aeSQL (teAuth env)) (osTables st) pub (isActor a) d (isTarget a) (isIntent a) True t0 = Inr i"
    "run_encoder (the (acEncode d)) (isIntent a) = Inr e" "ParseTicket [ivTicket iv] = Inr raw"
    "ivExpiresAt iv = aeNow (teAuth env) 1 + actionVerificationTTLMillis" "issued_row env a d i e raw st \<in> set (osVers st1)" "vers_inv st1"
    by (rule issued_member[OF tx assms(2)])
  let ?v = "issued_row env a d i e raw st"
  have bound: "validatePublicVerificationBinding (acAction d) (isIntent a) (isTarget a)"
    using tx assms(3) by (rule_tac issue_txD[OF tx]) (auto simp: review_intent_def public_action_def Let_def split: if_splits)
  have session: "now < sExpiresAt (liSession i)" using locked_session_live[OF issued(1)] assms(11) by (auto simp: list_all_iff)
  note later = identity_later[OF issued(1) assms(8) session]
  have tables: "osTables st1 = osTables st" using issue_tx_trans[OF tx] by simp
  have found: "lock_row False (\<lambda>v. vTicketHMAC v = hex_encode (TicketDigest (teCrypto env) raw)) (osVers st1) VerForbidden = Inr ?v"
    using fresh_ticket_found[OF _ issued(5)] issued(6) by (simp add: lock_row_def vers_inv_def issued_row_fields)
  have fits: "validVerificationConsumeBinding ?v i d (isTarget a) (hex_encode (IntentDigest (teCrypto env) e)) (hex_encode (TicketDigest (teCrypto env) raw)) now"
    using bound assms(10) issued(4)
    by (auto simp: validVerificationConsumeBinding_def issued_row_fields validatePublicVerificationBinding_def sameOptionalGUID_def split: option.splits)
  have changed: "sql_changed (consumable_at ?v now) (consumed_row actor now) (osVers st1) = 1" for actor
    using assms(10) issued(4) by (intro consume_fresh[OF issued(6,5)]) (simp add: consumable_at_def issued_row_fields)
  have "\<exists>st2. consume_locked env' pub (consume_for a d iv) d (hex_encode (IntentDigest (teCrypto env) e)) (hex_encode (TicketDigest (teCrypto env) raw)) now st1 = Inr ((), st2)"
    using later found fits changed assms(7) by (simp add: consume_locked_def consume_for_def calm_env_def tables Let_def)
  then show ?thesis
    using assms(4-7,9,12) issued(2,3) bound
    by (auto simp: Consume_def VerifyAndConsumeInTx_def consume_for_def issuable_def session_barrier_def calm_env_def commit_as_def)
qed

text \<open>C36: A ticket works.  Issued for a public action, it is accepted for the request it was issued for: at any time until it
  expires, as long as the session lasts and is not revoked, the tables are the same, and nothing fails.\<close>

theorem issued_ticket_works:
  assumes "issue_admitted env same pub a d r st = (Inr iv, st1)" "vers_inv st" "public_action (acAction d)" "issuable (Some d) (acAction d)"
    "teResolve env' (acAction d) = Some d" "teCrypto env' = teCrypto env" "calm_env env' now" "aeNow (teAuth env) 0 \<le> now" "0 < now"
    "now < ivExpiresAt iv" "list_all (\<lambda>s. clSID (isActor a) \<noteq> sSID s \<or> now < sExpiresAt s) (tSessions (osTables st))"
    "redis_get r' (revokedKey (clSID (isActor a))) = None"
  shows "fst (Consume env' pub (consume_for a d iv) r' st1) = Inr ()"
  using assms(1) by (elim issue_admitted_store) (auto intro!: consume_issued assms(2-))

end
