(* ===== verification/Ticket_Witnesses.thy ===== *)
theory Ticket_Witnesses
  imports Ticket_Properties Auth_Witnesses
begin

text \<open>
  The properties of tickets at a concrete store: a root account with a password and a session issues a ticket for
  publishing the prices, and uses it.
\<close>

definition stored_hash :: bytes where
  "stored_hash = ''$argon2id$v=19$m=65536,t=3,p=4$AAAAAAAAAAAAAAAAAAAAAA$cHcwMDAwMDAwMDAwMDAwMDAwMDAwMDAwMDAwMDAwMDA''"

lemma sample_password: "VerifyPassword sample_auth ''pw'' stored_hash"
  by code_simp

definition root_user :: user_row where
  "root_user = account_row 1 11 ''root'' (Some stored_hash) UserRoleRoot"

definition root_session :: session_row where
  "root_session = device_row 5 sample_sid 1 ''h''"

definition root_claims :: action_claims where
  "root_claims = \<lparr>clUser = 1, clGUID = 11, clAuthVersion = 4, clSID = sample_sid, clSessionVersion = 1\<rparr>"

definition root_store :: op_store where
  "root_store = empty_store\<lparr>osTables := (osTables empty_store)\<lparr>tUsers := [root_user], tSessions := [root_session]\<rparr>, osNextID := 40\<rparr>"

definition no_public :: public_tables where
  "no_public = \<lparr>ptModels = [], ptPriceDrafts = [], ptSnapshots = [], ptContentDrafts = [], ptReleases = [], ptStates = [], ptGroups = []\<rparr>"

definition sample_ticket_env :: "int \<Rightarrow> bytes \<Rightarrow> ticket_env" where
  "sample_ticket_env now random =
     \<lparr>teAuth = sample_auth\<lparr>aeNow := (\<lambda>_. now), aeRandom := (\<lambda>_. Some random)\<rparr>, teResolve = ResolveActiveAction,
      teCrypto = \<lparr>kTicket = ''t'', kIntent = ''i'', kIdempotency = [], kLease = [], kResponse = []\<rparr>, teAcl = (\<lambda>_ _. True)\<rparr>"

definition publish_prices :: descriptor where
  "publish_prices = desc ActionPublicPricingPublish ''public_pricing.publish'' ''public_content.publish'' True True True TargetNone EncPublicPricingPublish"

definition publish_issue :: verification_issue where
  "publish_issue = \<lparr>isAction = ActionPublicPricingPublish, isActor = root_claims, isTarget = None, isIntent = PublicPricingPublish 3,
     isPassword = ''pw'', isTrustedIP = ''10.0.0.1''\<rparr>"

lemma publish_resolves: "ResolveActiveAction ActionPublicPricingPublish = Some publish_prices"
  by code_simp

lemma publish_encodes: "\<exists>e. encodePublicPricingPublishIntent 3 = Inr e"
proof -
  have "\<not> isl (encodePublicPricingPublishIntent 3)" by code_simp
  then show ?thesis by (cases "encodePublicPricingPublishIntent 3") auto
qed

lemma root_evaluator: "\<exists>ev. NewEvaluator (actionAccount root_user) [] = Inr ev \<and> Evaluator_Resource (Some ev) ''public_content.publish'' = Allowed"
proof -
  have "(case NewEvaluator (actionAccount root_user) [] of Inl er \<Rightarrow> False | Inr ev \<Rightarrow> Evaluator_Resource (Some ev) ''public_content.publish'' = Allowed)"
    by code_simp
  then show ?thesis by (auto split: sum.splits)
qed

lemmas root_simps = root_store_def empty_store_def root_user_def account_row_def root_session_def device_row_def root_claims_def sql_first_def
  sql_find_def live_at_def

lemma root_locked:
  assumes "0 < now" "now < 5000"
  shows "lockActionIdentity (\<lambda>_. False) (osTables root_store) pub root_claims publish_prices None v p now =
    Inr \<lparr>liActor = root_user, liSession = root_session, liTarget = None\<rparr>"
proof -
  have actor: "lock_actor False (osTables root_store) root_claims = Inr root_user"
    by (simp add: lock_actor_def lock_row_def and_then_def validActionActor_def root_simps stored_hash_def)
  have sid: "length sample_sid = 36" by (simp add: sample_sid_def)
  have session: "lock_own_session False (osTables root_store) root_user root_claims now = Inr root_session"
    using assms sid by (simp add: lock_own_session_def root_simps)
  have "readPermissionPolicyRows (\<lambda>_. False) (osTables root_store) (rID root_user) = Inr (0, [])"
    by (simp add: readPermissionPolicyRows_def root_simps)
  moreover have "validOperationActorClaims root_claims" using sid by (simp add: validOperationActorClaims_def root_claims_def)
  moreover have "acTargetKind publish_prices = TargetNone" "acCapability publish_prices = ''public_content.publish''" "uRole root_user = UserRoleRoot"
    by (simp_all add: publish_prices_def desc_def root_user_def account_row_def)
  ultimately show ?thesis using actor session root_evaluator assms
    by (auto simp: lockActionIdentity_def and_then_def lock_target_def action_decision_def)
qed

lemma VerifyPassword_argon:
  assumes "aeArgon env = aeArgon env'"
  shows "VerifyPassword env p h = VerifyPassword env' p h"
  unfolding VerifyPassword_def assms ..

lemma root_issue:
  assumes "length raw = 32"
  shows "\<exists>st1. issue_admitted (sample_ticket_env 1000 raw) (=) no_public publish_issue publish_prices sample_redis root_store =
    (Inr \<lparr>ivTicket = ''av_'' @ b64_encode raw, ivExpiresAt = 301000\<rparr>, st1)"
proof -
  have kind: "acAction publish_prices = ActionPublicPricingPublish" "the (acEncode publish_prices) = EncPublicPricingPublish"
    by (simp_all add: publish_prices_def desc_def)
  have hash: "uPasswordHash root_user = Some stored_hash" by (simp add: root_user_def account_row_def)
  have pw: "VerifyPassword (sample_auth\<lparr>aeNow := f, aeRandom := g\<rparr>) ''pw'' stored_hash" for f g
    using sample_password VerifyPassword_argon[of "sample_auth\<lparr>aeNow := f, aeRandom := g\<rparr>" sample_auth] by simp
  have expires: "sExpiresAt root_session = 5000" by (simp add: root_session_def device_row_def)
  have vers: "osVers root_store = []" by (simp add: root_store_def empty_store_def)
  note env = sample_ticket_env_def sample_auth_def publish_issue_def
  have review: "review_intent f same pub publish_prices (PublicPricingPublish 3) None i = Inr ()" for f same pub i
    by (simp add: review_intent_def kind Let_def validatePublicVerificationBinding_def public_target_def sameOptionalGUID_def)
  obtain e where e: "encodePublicPricingPublishIntent 3 = Inr e" using publish_encodes by blast
  have "\<exists>st1. issue_tx (sample_ticket_env 1000 raw) (=) no_public publish_issue publish_prices 1000 root_store =
    Inr (\<lparr>ivTicket = ''av_'' @ b64_encode raw, ivExpiresAt = 301000\<rparr>, st1)"
    using assms root_locked[of 1000] pw[unfolded sample_auth_def] review e
    by (simp add: issue_tx_def env Let_def and_then_def verification_now_def actionVerificationTTLMillis_def maxInt64_def expires run_encoder_def kind
        hash readRandom_def insert_verification_def vers sql_update_def)
  then show ?thesis
    by (auto simp: issue_admitted_def env Let_def session_barrier_def sample_redis_def redis_get_def verification_now_def
        actionVerificationTTLMillis_def maxInt64_def commit_as_def)
qed


definition sample_raw :: bytes where "sample_raw = replicate 32 CHR ''k''"

definition sample_iv :: issued_verification where
  "sample_iv = \<lparr>ivTicket = ''av_'' @ b64_encode sample_raw, ivExpiresAt = 301000\<rparr>"

definition sample_consume :: verification_consume where "sample_consume = consume_for publish_issue publish_prices sample_iv"

lemma sample_issue:
  obtains st1 where "issue_admitted (sample_ticket_env 1000 sample_raw) (=) no_public publish_issue publish_prices sample_redis root_store = (Inr sample_iv, st1)"
  using root_issue[of sample_raw] by (auto simp: sample_iv_def sample_raw_def)

lemma root_inv: "vers_inv root_store"
  by (simp add: vers_inv_def vers_ok_def root_store_def empty_store_def)

lemma sample_conditions:
  "public_action (acAction publish_prices)" "issuable (Some publish_prices) (acAction publish_prices)"
  "teResolve (sample_ticket_env now raw) (acAction publish_prices) = Some publish_prices"
  "teCrypto (sample_ticket_env now raw) = teCrypto (sample_ticket_env now' raw')"
  "calm_env (sample_ticket_env now raw) now" "aeNow (teAuth (sample_ticket_env 1000 raw)) 0 \<le> 2000" "2000 < ivExpiresAt sample_iv"
  "list_all (\<lambda>s. clSID (isActor publish_issue) \<noteq> sSID s \<or> 2000 < sExpiresAt s) (tSessions (osTables root_store))"
  "redis_get sample_redis (revokedKey (clSID (isActor publish_issue))) = None"
  using publish_resolves
  by (simp_all add: public_action_def publish_prices_def desc_def issuable_def sample_ticket_env_def calm_env_def sample_auth_def sample_iv_def
      root_store_def empty_store_def root_session_def device_row_def redis_get_def sample_redis_def)

theorem issued_ticket_works_witness:
  "\<exists>st1. issue_admitted (sample_ticket_env 1000 sample_raw) (=) no_public publish_issue publish_prices sample_redis root_store = (Inr sample_iv, st1) \<and>
     fst (Consume (sample_ticket_env 2000 []) no_public sample_consume sample_redis st1) = Inr ()"
proof -
  obtain st1 where i: "issue_admitted (sample_ticket_env 1000 sample_raw) (=) no_public publish_issue publish_prices sample_redis root_store = (Inr sample_iv, st1)"
    by (rule sample_issue)
  have "fst (Consume (sample_ticket_env 2000 []) no_public sample_consume sample_redis st1) = Inr ()"
    unfolding sample_consume_def by (rule issued_ticket_works[OF i root_inv sample_conditions(1-6) _ sample_conditions(7-9)]) simp
  then show ?thesis using i by blast
qed

lemma sample_used:
  obtains st1 st2 where
    "issue_admitted (sample_ticket_env 1000 sample_raw) (=) no_public publish_issue publish_prices sample_redis root_store = (Inr sample_iv, st1)"
    "Consume (sample_ticket_env 2000 []) no_public sample_consume sample_redis st1 = (Inr (), st2)" "vers_inv st1"
proof -
  obtain st1 where i: "issue_admitted (sample_ticket_env 1000 sample_raw) (=) no_public publish_issue publish_prices sample_redis root_store = (Inr sample_iv, st1)"
    by (rule sample_issue)
  then obtain t0 where tx: "issue_tx (sample_ticket_env 1000 sample_raw) (=) no_public publish_issue publish_prices t0 root_store = Inr (sample_iv, st1)" "t0 \<le> 2000"
    using sample_conditions(6) by (elim issue_admitted_store) auto
  have "fst (Consume (sample_ticket_env 2000 []) no_public sample_consume sample_redis st1) = Inr ()"
    unfolding sample_consume_def by (rule consume_issued[OF tx(1) root_inv sample_conditions(1-5) tx(2) _ sample_conditions(7-9)]) simp
  then show thesis using that[OF i] issue_tx_trans[OF tx(1)] root_inv
    by (cases "Consume (sample_ticket_env 2000 []) no_public sample_consume sample_redis st1") (auto simp: ticket_trans_def)
qed

theorem ticket_used_once_witness:
  "\<exists>st1 st2 er. Consume (sample_ticket_env 2000 []) no_public sample_consume sample_redis st1 = (Inr (), st2) \<and>
     Consume (sample_ticket_env 2001 []) no_public sample_consume sample_redis st2 = (Inl er, st2)"
proof -
  obtain st1 st2 where used: "Consume (sample_ticket_env 2000 []) no_public sample_consume sample_redis st1 = (Inr (), st2)" "vers_inv st1"
    by (rule sample_used)
  have "\<exists>er. Consume (sample_ticket_env 2001 []) no_public sample_consume sample_redis (run_tickets ([] :: unit ticket_call list) st2) =
      (Inl er, run_tickets ([] :: unit ticket_call list) st2)"
    by (rule ticket_used_once[OF used refl sample_conditions(4)])
  then show ?thesis using used(1) by auto
qed

theorem ticket_binds_request_witness:
  "\<exists>st1 st2. issue_admitted (sample_ticket_env 1000 sample_raw) (=) no_public publish_issue publish_prices sample_redis root_store = (Inr sample_iv, st1) \<and>
     Consume (sample_ticket_env 2000 []) no_public sample_consume sample_redis st1 = (Inr (), st2) \<and>
     vcAction sample_consume = ActionPublicPricingPublish \<and> clUser (vcActor sample_consume) = 1"
proof -
  obtain st1 st2 where used:
    "issue_admitted (sample_ticket_env 1000 sample_raw) (=) no_public publish_issue publish_prices sample_redis root_store = (Inr sample_iv, st1)"
    "Consume (sample_ticket_env 2000 []) no_public sample_consume sample_redis st1 = (Inr (), st2)"
    by (rule sample_used)
  have "Consume (sample_ticket_env 2000 []) no_public sample_consume sample_redis (run_tickets ([] :: unit ticket_call list) st1) = (Inr (), st2)"
    using used(2) by simp
  from ticket_binds_request[OF used(1) root_inv this] have "vcAction sample_consume = acAction publish_prices" "clUser (vcActor sample_consume) = clUser (isActor publish_issue)"
    using sample_conditions(4) by (auto simp: sample_consume_def consume_for_def)
  then show ?thesis using used by (auto simp: publish_prices_def desc_def publish_issue_def root_claims_def)
qed

theorem one_live_ticket_witness:
  "\<exists>st1 v. vers_inv st1 \<and> v \<in> set (osVers st1) \<and> ticket_live 2000 v \<and> list_all (\<lambda>w. if ticket_live 2000 w \<and> ver_scope w = ver_scope v then w = v else True) (osVers st1)"
proof -
  obtain st1 where i: "issue_admitted (sample_ticket_env 1000 sample_raw) (=) no_public publish_issue publish_prices sample_redis root_store = (Inr sample_iv, st1)"
    by (rule sample_issue)
  then obtain t0 where tx: "issue_tx (sample_ticket_env 1000 sample_raw) (=) no_public publish_issue publish_prices t0 root_store = Inr (sample_iv, st1)"
    by (elim issue_admitted_store) auto
  obtain d e raw where v: "issued_row (sample_ticket_env 1000 sample_raw) publish_issue publish_prices d e raw root_store \<in> set (osVers st1)" and inv: "vers_inv st1"
    by (rule issued_member[OF tx root_inv])
  let ?v = "issued_row (sample_ticket_env 1000 sample_raw) publish_issue publish_prices d e raw root_store"
  have live: "ticket_live 2000 ?v"
    by (simp add: ticket_live_def ticket_open_def issued_row_def verification_for_def sample_ticket_env_def actionVerificationTTLMillis_def)
  have "w = ?v" if "w \<in> set (osVers st1)" "ticket_live 2000 w" "ver_scope w = ver_scope ?v" for w
    using one_live_ticket[OF inv, of w "[] :: unit ticket_call list" ?v 2000] that live v by simp
  then show ?thesis using inv v live by (intro exI[of _ st1] exI[of _ ?v]) (auto simp: list_all_iff)
qed

end
