(* ===== verification/Action_Writers.thy ===== *)
theory Action_Writers
  imports Operation_Execute Stored_Enums Json
begin

text \<open>
  The audit and outbox writers of the executions (\<open>service/action_roles_permissions_writers.go\<close>,
  \<open>action_reset_password.go\<close>, \<open>action_delete_user_writers.go\<close>, \<open>action_create_user_writers.go\<close>).  A writer checks the event,
  reads its operation, actor, ticket and session again and adds one row to the transaction.  It runs on the store,
  answers with the new tables and threads the state of the execution.
\<close>

section \<open>Environment\<close>

record writer_env =
  weNow :: int
  weGUID :: int
  weFault :: "nat \<Rightarrow> bool"

definition detail :: "(bytes \<times> json) list \<Rightarrow> (bytes \<times> json) list" where
  "detail kvs = fold (\<lambda>(k, v). sm_put k v) kvs []"

abbreviation jint :: "int \<Rightarrow> json" where "jint n \<equiv> JNum (format_int n)"

section \<open>Events\<close>

definition validDeleteFailure :: "int option \<Rightarrow> bool" where
  "validDeleteFailure f \<longleftrightarrow>
     f \<in> {Some FailureActionRejected, Some FailureTargetVersionConflict, Some FailurePolicyVersionConflict, Some FailureTargetStateConflict,
          Some FailureConsumerValidation}"

definition validCreateFailure :: "int option \<Rightarrow> bool" where
  "validCreateFailure f \<longleftrightarrow> f \<in> {Some FailureActionRejected, Some FailureConsumerValidation}"

text \<open>The result columns of an event by its state.\<close>

definition result_reported :: "(int option \<Rightarrow> bool) \<Rightarrow> (int \<Rightarrow> bool) \<Rightarrow> action_event \<Rightarrow> bool" where
  "result_reported known P ev \<longleftrightarrow>
     (if aeState ev = OperationSucceeded then
        aeFailure ev = None \<and> aeResultKind ev = Some 2 \<and> (case aeResultGUID ev of None \<Rightarrow> False | Some g \<Rightarrow> P g)
      else if aeState ev = OperationFailed then known (aeFailure ev) \<and> aeResultKind ev = None \<and> aeResultGUID ev = None
      else False)"

definition reported_at :: "int \<Rightarrow> action_event \<Rightarrow> bool" where
  "reported_at now ev \<longleftrightarrow> 0 < now \<and> aeOccurredAt ev \<le> now"

definition event_ids :: "action_event \<Rightarrow> bool" where
  "event_ids ev \<longleftrightarrow> \<not> isl (ParsePublicRef (aePublicRef ev)) \<and> 0 < aeActor ev \<and> 0 < aeSession ev \<and> 0 < aeOccurredAt ev"

text \<open>\<open>validDeleteTerminalEnvelope\<close> and \<open>validResetPasswordTerminalEnvelope\<close> differ in the action.\<close>

definition user_envelope :: "int \<Rightarrow> action_event \<Rightarrow> int \<Rightarrow> int \<Rightarrow> bool" where
  "user_envelope action ev expected now \<longleftrightarrow>
     event_ids ev \<and> aeAction ev = action \<and> aeTargetKind ev = TargetUser \<and> aeTarget ev = Some expected \<and> 0 < expected \<and>
     result_reported validDeleteFailure (\<lambda>g. g = expected) ev \<and> reported_at now ev"

definition validDeleteTerminalEnvelope :: "action_event \<Rightarrow> int \<Rightarrow> int \<Rightarrow> bool" where
  "validDeleteTerminalEnvelope = user_envelope ActionUsersDelete"

definition validResetPasswordTerminalEnvelope :: "action_event \<Rightarrow> int \<Rightarrow> int \<Rightarrow> bool" where
  "validResetPasswordTerminalEnvelope = user_envelope ActionUsersResetPassword"

definition validRolePermissionTerminalEnvelope :: "action_event \<Rightarrow> int \<Rightarrow> bool" where
  "validRolePermissionTerminalEnvelope ev now \<longleftrightarrow>
     event_ids ev \<and> isA08RolePermissionAction (aeAction ev) \<and> aeTargetKind ev = TargetUser \<and>
     (case aeTarget ev of None \<Rightarrow> False | Some t \<Rightarrow> 0 < t \<and> result_reported validDeleteFailure (\<lambda>g. g = t) ev) \<and> reported_at now ev"

definition validAuditEvent :: "descriptor \<Rightarrow> action_event \<Rightarrow> int \<Rightarrow> bool" where
  "validAuditEvent d ev now \<longleftrightarrow>
     event_ids ev \<and> aeAction ev = acAction d \<and> aeTargetKind ev = TargetNone \<and> aeTarget ev = None \<and> reported_at now ev \<and>
     result_reported validCreateFailure (\<lambda>g. 0 < g) ev"

definition validCreateOutboxEvent :: "action_event \<Rightarrow> int \<Rightarrow> bool" where
  "validCreateOutboxEvent ev now \<longleftrightarrow>
     event_ids ev \<and> aeTargetKind ev = TargetNone \<and> aeTarget ev = None \<and> (aeAction ev = ActionUsersCreate \<or> aeAction ev = ActionUsersCreateAdmin) \<and>
     reported_at now ev \<and> result_reported validCreateFailure (\<lambda>g. 0 < g) ev"

section \<open>Bindings\<close>

text \<open>The operation, with the key of its actor, that an event is about.\<close>

record writer_binding =
  wbOperation :: int
  wbActor :: int

definition find_row :: "bool \<Rightarrow> (('a audit_fields_scheme) \<Rightarrow> bool) \<Rightarrow> ('a audit_fields_scheme) list \<Rightarrow> ('a audit_fields_scheme) option" where
  "find_row fault P rows = (if fault then None else sql_first P rows)"

definition processing_operation :: "bool \<Rightarrow> op_store \<Rightarrow> bytes \<Rightarrow> int \<Rightarrow> operation_row option" where
  "processing_operation fault st ref action =
     Option.bind (find_row fault (\<lambda>o'. opPublicRef o' = ref \<and> rDeleted o' = 0) (osOps st)) (\<lambda>op.
     if rID op \<le> 0 \<or> opActor op \<le> 0 \<or> opAuthVersion op \<le> 0 \<or> opSession op \<le> 0 \<or> opAction op \<noteq> action \<or> opState op \<noteq> OperationProcessing
     then None else Some op)"

definition bound_actor :: "bool \<Rightarrow> op_store \<Rightarrow> operation_row \<Rightarrow> int \<Rightarrow> user_row option" where
  "bound_actor fault st op guid =
     Option.bind (find_row fault (\<lambda>u. rID u = opActor op \<and> rDeleted u = 0) (tUsers (osTables st))) (\<lambda>u.
     if rGUID u \<noteq> guid then None else Some u)"

definition bound_session :: "bool \<Rightarrow> op_store \<Rightarrow> operation_row \<Rightarrow> int \<Rightarrow> session_row option" where
  "bound_session fault st op guid =
     Option.bind (find_row fault (\<lambda>s. rID s = opSession op) (tSessions (osTables st))) (\<lambda>s.
     if rGUID s \<noteq> guid \<or> sUser s \<noteq> opActor op then None else Some s)"

definition bound_ticket :: "bool \<Rightarrow> op_store \<Rightarrow> operation_row \<Rightarrow> int \<Rightarrow> int \<Rightarrow> int option \<Rightarrow> verification_row option" where
  "bound_ticket fault st op action kind target =
     Option.bind (opVerification op) (\<lambda>vid.
     if vid \<le> 0 then None
     else Option.bind (find_row fault (\<lambda>v. rID v = vid) (osVers st)) (\<lambda>v.
       if vActor v \<noteq> opActor op \<or> vAuthVersion v \<noteq> opAuthVersion op \<or> vSession v \<noteq> opSession op \<or> vAction v \<noteq> action \<or>
          vTargetKind v \<noteq> kind \<or> vTarget v \<noteq> target \<or> (case vConsumedAt v of None \<Rightarrow> True | Some c \<Rightarrow> c \<le> 0) \<or> rDeleted v \<noteq> 1
       then None else Some v))"

definition load_user_binding :: "int \<Rightarrow> (nat \<Rightarrow> bool) \<Rightarrow> op_store \<Rightarrow> action_event \<Rightarrow> int \<Rightarrow> writer_binding option" where
  "load_user_binding action fault st ev target =
     Option.bind (processing_operation (fault 0) st (aePublicRef ev) action) (\<lambda>op.
     if (case opVerification op of None \<Rightarrow> True | Some v \<Rightarrow> v \<le> 0) then None
     else Option.bind (bound_actor (fault 1) st op (aeActor ev)) (\<lambda>actor.
     if rGUID actor \<le> 0 then None
     else Option.bind (bound_ticket (fault 2) st op action TargetUser (Some target)) (\<lambda>_.
     Option.bind (bound_session (fault 3) st op (aeSession ev)) (\<lambda>s.
     if rGUID s \<le> 0 then None else Some \<lparr>wbOperation = rID op, wbActor = rID actor\<rparr>))))"

definition loadDeleteWriterBinding :: "(nat \<Rightarrow> bool) \<Rightarrow> op_store \<Rightarrow> action_event \<Rightarrow> int \<Rightarrow> writer_binding option" where
  "loadDeleteWriterBinding = load_user_binding ActionUsersDelete"

definition loadResetPasswordBinding :: "(nat \<Rightarrow> bool) \<Rightarrow> op_store \<Rightarrow> action_event \<Rightarrow> int \<Rightarrow> writer_binding option" where
  "loadResetPasswordBinding = load_user_binding ActionUsersResetPassword"

definition loadRolePermissionWriterBinding :: "(nat \<Rightarrow> bool) \<Rightarrow> op_store \<Rightarrow> action_event \<Rightarrow> int \<Rightarrow> bytes \<Rightarrow> writer_binding option" where
  "loadRolePermissionWriterBinding fault st ev target hmac =
     (if \<not> isA08RolePermissionAction (aeAction ev) then None
      else Option.bind (processing_operation (fault 0) st (aePublicRef ev) (aeAction ev)) (\<lambda>op.
     if (case opVerification op of None \<Rightarrow> True | Some v \<Rightarrow> v \<le> 0) \<or> length (opRequestHMAC op) \<noteq> 64 \<or>
        (hmac \<noteq> [] \<and> (length hmac \<noteq> 64 \<or> opRequestHMAC op \<noteq> hmac))
     then None
     else Option.bind (bound_actor (fault 1) st op (aeActor ev)) (\<lambda>actor.
     Option.bind (bound_ticket (fault 2) st op (aeAction ev) TargetUser (Some target)) (\<lambda>v.
     if length (vIntentHMAC v) \<noteq> 64 \<or> vIntentHMAC v \<noteq> opRequestHMAC op then None
     else Option.bind (bound_session (fault 3) st op (aeSession ev)) (\<lambda>s.
     Some \<lparr>wbOperation = rID op, wbActor = opActor op\<rparr>)))))"

definition loadCreateWriterBinding :: "(nat \<Rightarrow> bool) \<Rightarrow> op_store \<Rightarrow> action_event \<Rightarrow> writer_binding option" where
  "loadCreateWriterBinding fault st ev =
     Option.bind (processing_operation (fault 0) st (aePublicRef ev) (aeAction ev)) (\<lambda>op.
     if (if aeAction ev = ActionUsersCreate then opVerification op \<noteq> None
         else if aeAction ev = ActionUsersCreateAdmin then bound_ticket (fault 1) st op ActionUsersCreateAdmin TargetNone None = None
         else True)
     then None
     else Option.bind (bound_actor (fault 2) st op (aeActor ev)) (\<lambda>actor.
     Option.bind (bound_session (fault 3) st op (aeSession ev)) (\<lambda>s.
     Some \<lparr>wbOperation = rID op, wbActor = opActor op\<rparr>)))"

section \<open>Rows\<close>

definition stamped :: "int \<Rightarrow> int \<Rightarrow> int \<Rightarrow> audit_fields" where
  "stamped guid at actor =
     \<lparr>rID = 0, rGUID = guid, rCreatedAt = at, rCreatedBy = Some actor, rUpdatedAt = at, rUpdatedBy = Some actor, rDeleted = 0\<rparr>"

definition insert_log :: "bool \<Rightarrow> audit_log \<Rightarrow> tables \<Rightarrow> tables option" where
  "insert_log fault row t =
     (if fault \<or> (\<exists>r \<in> set (tLogs t). rGUID r = rGUID row) then None
      else Some (t\<lparr>tLogs := tLogs t @ [row\<lparr>rID := tNextID t\<rparr>], tNextID := tNextID t + 1\<rparr>))"

text \<open>The unique indexes on GUID, operation and reference.\<close>

definition insert_outbox :: "bool \<Rightarrow> outbox_row \<Rightarrow> tables \<Rightarrow> tables option" where
  "insert_outbox fault row t =
     (if fault \<or> (\<exists>r \<in> set (tOutbox t). rGUID r = rGUID row \<or> obOperation r = obOperation row \<or> obPublicRef r = obPublicRef row) then None
      else Some (t\<lparr>tOutbox := tOutbox t @ [row\<lparr>rID := tNextID t\<rparr>], tNextID := tNextID t + 1\<rparr>))"

definition log_row :: "writer_env \<Rightarrow> action_event \<Rightarrow> int \<Rightarrow> int option \<Rightarrow> bytes \<Rightarrow> bytes \<Rightarrow> (bytes \<times> json) list \<Rightarrow> bytes option \<Rightarrow> audit_log" where
  "log_row env ev actor uid action resource kvs ip =
     audit_fields.extend (stamped (weGUID env) (aeOccurredAt ev) actor)
       \<lparr>alUser = uid, alAction = action, alResource = Some resource, alDetail = detail kvs, alIP = ip\<rparr>"

abbreviation DeliveryPending :: int where "DeliveryPending \<equiv> 1"

definition outbox_event :: "writer_env \<Rightarrow> action_event \<Rightarrow> writer_binding \<Rightarrow> outbox_row" where
  "outbox_event env ev b =
     audit_fields.extend (stamped (weGUID env) (aeOccurredAt ev) (wbActor b))
       \<lparr>obOperation = wbOperation b, obPublicRef = aePublicRef ev, obAction = aeAction ev, obTargetKind = aeTargetKind ev,
        obTarget = aeTarget ev, obState = aeState ev, obFailure = aeFailure ev, obResultKind = aeResultKind ev,
        obResultGUID = aeResultGUID ev, obDelivery = DeliveryPending, obAvailableAt = aeOccurredAt ev, obDeliveredAt = None, obAttempts = 0\<rparr>"

text \<open>The tail that every outbox writer has.\<close>

definition put_outbox :: "writer_env \<Rightarrow> action_event \<Rightarrow> writer_binding option \<Rightarrow> op_store \<Rightarrow> tables option" where
  "put_outbox env ev b st =
     Option.bind b (\<lambda>b. if weGUID env \<le> 0 then None else insert_outbox (weFault env 4) (outbox_event env ev b) (osTables st))"

definition put_log :: "writer_env \<Rightarrow> action_event \<Rightarrow> writer_binding option \<Rightarrow> (int \<Rightarrow> audit_log) \<Rightarrow> op_store \<Rightarrow> tables option" where
  "put_log env ev b row st =
     Option.bind b (\<lambda>b. if weGUID env \<le> 0 then None else insert_log (weFault env 4) (row (wbActor b)) (osTables st))"

definition user_resource :: "int \<Rightarrow> bytes" where "user_resource guid = ''user:'' @ format_int guid"

section \<open>Roles and permissions\<close>

definition role_reason :: "role_execution \<Rightarrow> bytes" where
  "role_reason x =
     (case xiPromote (exIntent x) of Some i \<Rightarrow> prReason i | None \<Rightarrow>
      (case xiDemote (exIntent x) of Some i \<Rightarrow> deReason i | None \<Rightarrow>
      (case xiWrite (exIntent x) of Some i \<Rightarrow> pwReason i | None \<Rightarrow> [])))"

definition facts_detail :: "audit_facts \<Rightarrow> (bytes \<times> json) list" where
  "facts_detail f =
     [(''before_role'', JStr (UserRole_String (afBeforeRole f))), (''after_role'', JStr (UserRole_String (afAfterRole f))),
      (''before_auth_version'', jint (afBeforeAuth f)), (''after_auth_version'', jint (afAfterAuth f)),
      (''before_permissions_version'', jint (afBeforePolicy f)), (''after_permissions_version'', jint (afAfterPolicy f)),
      (''catalog_version'', jint (afCatalog f)), (''before_rule_count'', jint (afBeforeCount f)), (''after_rule_count'', jint (afAfterCount f))]"

definition role_audit :: "writer_env \<Rightarrow> role_execution \<Rightarrow> role_state \<Rightarrow> action_event \<Rightarrow> op_store \<Rightarrow> tables option \<times> role_state" where
  "role_audit env x s ev st =
     (let target = intent_target (exIntent x) in
      if Some (aeAction ev) \<noteq> map_option ivAction (exInvariant x) \<or> aeTarget ev \<noteq> Some target \<or> \<not> validRolePermissionTerminalEnvelope ev (weNow env)
      then (None, s)
      else if xsAuditStarted s \<or> (aeState ev = OperationSucceeded \<and> xsFacts s = None) then (None, s)
      else let s = s\<lparr>xsAuditStarted := True\<rparr> in
      if (case xsFacts s of None \<Rightarrow> False | Some f \<Rightarrow> afTargetGUID f \<noteq> target) then (None, s)
      else
        (put_log env ev (loadRolePermissionWriterBinding (weFault env) st ev target (exHMAC x))
           (\<lambda>actor. log_row env ev actor (map_option afTarget (xsFacts s)) (acName (exDescriptor x)) (user_resource target)
              ([(''operation_ref'', JStr (aePublicRef ev)), (''actor_guid'', jint (aeActor ev)), (''target_guid'', jint target),
                (''reason'', JStr (role_reason x))] @ (case xsFacts s of None \<Rightarrow> [] | Some f \<Rightarrow> facts_detail f)) None) st, s))"

definition role_outbox :: "writer_env \<Rightarrow> action_event \<Rightarrow> op_store \<Rightarrow> tables option" where
  "role_outbox env ev st =
     (if \<not> validRolePermissionTerminalEnvelope ev (weNow env) then None
      else put_outbox env ev (loadRolePermissionWriterBinding (weFault env) st ev (the (aeTarget ev)) []) st)"

end
