(* ===== verification/Reset_Password.thy ===== *)
theory Reset_Password
  imports Action_Writers Auth_Account
begin

text \<open>
  The consumer that resets a password (\<open>service/action_reset_password.go\<close>): it locks the target and its live sessions before
  the authorization, marks the sessions in Redis, revokes them, stores the reviewed hash and raises the auth
  version, and writes its audit and outbox rows.  Its state is the once-only state of the execution and the
  authentication state that it works on, whose tables are those of the transaction.
\<close>

section \<open>Frame of the account consumers\<close>

text \<open>A consumer runs on the tables of the transaction.\<close>

definition run_on :: "'a act \<Rightarrow> tables \<Rightarrow> auth_work \<Rightarrow> (auth_error + ('a \<times> tables)) \<times> auth_work" where
  "run_on m t w =
     (case m (w\<lparr>awTables := t\<rparr>) of (Inl er, w') \<Rightarrow> (Inl er, w') | (Inr a, w') \<Rightarrow> (Inr (a, awTables w'), w'))"

definition consumer_error :: "auth_error \<Rightarrow> operation_error" where
  "consumer_error er = (if er = Forbidden then ErrOperationForbidden else ErrOperationUnavailable)"

text \<open>A statement that must change exactly so many rows.\<close>

definition update_users :: "auth_env \<Rightarrow> (user_row \<Rightarrow> bool) \<Rightarrow> (user_row \<Rightarrow> user_row) \<Rightarrow> nat \<Rightarrow> unit act" where
  "update_users env P f n =
     sql_write env (\<lambda>t. if sql_changed P f (tUsers t) \<noteq> n then None else Some (t\<lparr>tUsers := sql_update P f (tUsers t)\<rparr>))"

definition locked_user :: "auth_env \<Rightarrow> int \<Rightarrow> user_row act" where
  "locked_user env guid =
     or_error (seq (sql_read env (\<lambda>t. sql_first (\<lambda>u. rGUID u = guid \<and> rDeleted u = 0) (tUsers t))) (\<lambda>found. from_option found Unavailable))
       Unavailable"

definition consumer_event :: "auth_env \<Rightarrow> int \<Rightarrow> int \<Rightarrow> int \<Rightarrow> int \<Rightarrow> int \<Rightarrow> unit act" where
  "consumer_event env guid now actor uid type =
     sql_write env (insert_auth_event (audit_event (stamped guid now actor) (Some uid) None type None [] []))"

section \<open>The execution\<close>

definition b64std_strict :: "bytes \<Rightarrow> bytes option" where
  "b64std_strict s = (if CHR ''-'' \<in> set s \<or> CHR ''_'' \<in> set s then None else b64_decode True (map of_std s))"

definition validManagedCreatePasswordHash :: "bytes \<Rightarrow> bool" where
  "validManagedCreatePasswordHash v \<longleftrightarrow>
     v \<noteq> [] \<and> length v \<le> 255 \<and> utf8_valid v \<and>
     (case split_char CHR ''$'' v of
        [p0, p1, p2, p3, p4, p5] \<Rightarrow>
          p0 = [] \<and> p1 = ''argon2id'' \<and> p2 = ''v=19'' \<and> p3 = ''m=65536,t=3,p=4'' \<and>
          map_option length (b64std_strict p4) = Some 16 \<and> map_option length (b64std_strict p5) = Some 32
      | _ \<Rightarrow> False)"

definition create_id_char :: "char \<Rightarrow> bool" where
  "create_id_char c \<longleftrightarrow>
     (97 \<le> byte c \<and> byte c \<le> 122) \<or> (65 \<le> byte c \<and> byte c \<le> 90) \<or> is_digit c \<or> c = CHR ''-'' \<or> c = CHR ''_'' \<or> c = CHR ''.''"

definition validCreateRequestID :: "bytes \<Rightarrow> bool" where
  "validCreateRequestID v \<longleftrightarrow> v \<noteq> [] \<and> length v \<le> 128 \<and> list_all create_id_char v"

record reset_execution =
  rxDescriptor :: descriptor
  rxTarget :: int
  rxAuthVersion :: int
  rxReason :: bytes
  rxRequestID :: bytes
  rxHMAC :: bytes

text \<open>\<open>rsTarget\<close> is set with \<open>rsPrelocked\<close>; an empty hash is Go's nil.\<close>

record reset_state =
  rsHash :: bytes
  rsStarted :: bool
  rsAuditStarted :: bool
  rsTargetID :: int
  rsPrelocked :: bool
  rsTarget :: "user_row option"
  rsSessions :: "session_row list"

definition newResetPasswordExecution ::
  "descriptor \<Rightarrow> reset_intent \<Rightarrow> bytes \<Rightarrow> crypto \<Rightarrow> bytes \<Rightarrow> (reset_execution \<times> reset_state) option" where
  "newResetPasswordExecution d i hash crypto requestID =
     (case ResolveActiveAction ActionUsersResetPassword of
        None \<Rightarrow> None
      | Some e \<Rightarrow>
          if acAction d \<noteq> acAction e \<or> acName d \<noteq> acName e \<or> acCapability d \<noteq> acCapability e \<or> acRootOnly d \<noteq> acRootOnly e \<or>
             acRequiresTicket d \<noteq> acRequiresTicket e \<or> acActive d \<noteq> acActive e \<or> acTargetKind d \<noteq> acTargetKind e \<or> acEncode d = None \<or>
             riTarget i \<le> 0 \<or> riAuthVersion i \<le> 0 \<or> riReason i = [] \<or> \<not> validManagedCreatePasswordHash hash \<or>
             (requestID \<noteq> [] \<and> \<not> validCreateRequestID requestID)
          then None
          else (case run_encoder (the (acEncode d)) (ResetPassword i) of
              Inl er \<Rightarrow> None
            | Inr encoded \<Rightarrow>
                if encoded = [] then None
                else Some
                  (\<lparr>rxDescriptor = d, rxTarget = riTarget i, rxAuthVersion = riAuthVersion i, rxReason = riReason i, rxRequestID = requestID,
                    rxHMAC = hex_encode (IntentDigest crypto encoded)\<rparr>,
                   \<lparr>rsHash = hash, rsStarted = False, rsAuditStarted = False, rsTargetID = 0, rsPrelocked = False, rsTarget = None,
                    rsSessions = []\<rparr>)))"

definition ClearSecrets :: "reset_state \<Rightarrow> reset_state" where
  "ClearSecrets s = s\<lparr>rsHash := [], rsSessions := []\<rparr>"

definition ResetPasswordExecution_String :: "reset_execution \<Rightarrow> bytes" where
  "ResetPasswordExecution_String x =
     ''ResetPasswordExecution{Action:users.reset_password,TargetGUID:'' @ format_int (rxTarget x) @ '',PasswordHash:<redacted>}''"

section \<open>Locking before the authorization\<close>

definition validExecutionBinding :: "reset_execution \<Rightarrow> operation_row \<Rightarrow> verification_row \<Rightarrow> bool" where
  "validExecutionBinding x op v \<longleftrightarrow>
     \<not> isl (ParsePublicRef (opPublicRef op)) \<and> 0 < rID op \<and> 0 < rGUID op \<and> 0 < opActor op \<and> 0 < opAuthVersion op \<and> 0 < opSession op \<and>
     opAction op = ActionUsersResetPassword \<and>
     (case opVerification op of None \<Rightarrow> False | Some vid \<Rightarrow> 0 < vid \<and> rID v = vid) \<and>
     opState op = OperationProcessing \<and> rDeleted op = 0 \<and>
     (case opLeaseOwner op of None \<Rightarrow> False | Some own \<Rightarrow> length own = 64) \<and>
     (case opLeaseExpires op of None \<Rightarrow> False | Some e \<Rightarrow> 0 < e) \<and> 0 < opQueryExpires op \<and>
     opRequestHMAC op = rxHMAC x \<and> vActor v = opActor op \<and> vAuthVersion v = opAuthVersion op \<and> vSession v = opSession op \<and>
     vAction v = opAction op \<and> vTargetKind v = TargetUser \<and> vTarget v = Some (rxTarget x) \<and> vConsumedAt v = None \<and>
     rDeleted v = 0 \<and> 0 < vExpiresAt v \<and> vIntentHMAC v = rxHMAC x"

text \<open>The two locking reads; the sessions are checked as those of a role change are.\<close>

definition reset_locks :: "auth_env \<Rightarrow> reset_execution \<Rightarrow> (user_row \<times> session_row list) act" where
  "reset_locks env x =
     seq (locked_user env (rxTarget x)) (\<lambda>target.
     seq (check (0 < rID target \<and> rGUID target = rxTarget x \<and> rDeleted target = 0) Forbidden) (\<lambda>_.
     seq (or_error (sql_read env (\<lambda>t. sql_find (live_session (rID target)) (tSessions t))) Unavailable) (\<lambda>sessions.
     seq (check (validRolePermissionSessions sessions (rID target)) Unavailable) (\<lambda>_. ok (target, sessions)))))"

definition prelock_reset ::
  "auth_env \<Rightarrow> reset_execution \<Rightarrow> operation_row \<Rightarrow> verification_row \<Rightarrow> tables \<Rightarrow> reset_state \<times> auth_work \<Rightarrow>
   (operation_error + user_row) \<times> (reset_state \<times> auth_work)" where
  "prelock_reset env x op v t c =
     (if \<not> validExecutionBinding x op v then (Inl ErrOperationForbidden, c)
      else case run_on (reset_locks env x) t (snd c) of
        (Inl er, w) \<Rightarrow> (Inl (consumer_error er), (fst c, w))
      | (Inr ((target, sessions), _), w) \<Rightarrow>
          let s = fst c in
          if rsPrelocked s \<or> rsStarted s \<or> rsAuditStarted s then (Inl ErrOperationUnavailable, (s, w))
          else (Inr target, (s\<lparr>rsPrelocked := True, rsTarget := Some target, rsSessions := sessions\<rparr>, w)))"

section \<open>Execute\<close>

definition resetPasswordFailure :: "int \<Rightarrow> outcome" where
  "resetPasswordFailure f =
     \<lparr>toFailure = Some f, toResultKind = 0, toResultGUID = None, toAuthVersion = None, toPolicyVersion = None, toRole = None,
      toHTTP = 409\<rparr>"

definition reset_current :: "user_row \<Rightarrow> user_row \<Rightarrow> bool" where
  "reset_current target u \<longleftrightarrow>
     rID u = rID target \<and> rGUID u = rGUID target \<and> rDeleted u = 0 \<and> uAuthVersion u = uAuthVersion target"

definition reset_user :: "bytes \<Rightarrow> int \<Rightarrow> int \<Rightarrow> int \<Rightarrow> user_row \<Rightarrow> user_row" where
  "reset_user hash version now actor u =
     u\<lparr>uPasswordHash := Some hash, uAuthVersion := version, rUpdatedAt := now, rUpdatedBy := Some actor\<rparr>"

definition reset_change ::
  "auth_env \<Rightarrow> reset_execution \<Rightarrow> operation_row \<Rightarrow> user_row \<Rightarrow> session_row list \<Rightarrow> bytes \<Rightarrow> outcome act" where
  "reset_change env x op target sessions hash =
     seq (clock_now env) (\<lambda>now.
     seq (check (validOperationNow now \<and> opAction op = ActionUsersResetPassword \<and> 0 < opActor op) Unavailable) (\<lambda>_.
     seq (check (0 < rID target \<and> rID target \<noteq> opActor op \<and> 0 < uAuthVersion target \<and>
         (uStatus target = UserStatusActive \<or> uStatus target = UserStatusDisabled)) Unavailable) (\<lambda>_.
     if uAuthVersion target \<noteq> rxAuthVersion x then ok (resetPasswordFailure FailureTargetVersionConflict)
     else if maxInt32 \<le> uAuthVersion target then ok (resetPasswordFailure FailureConsumerValidation)
     else
       seq (each (\<lambda>s. MarkSessionRevoked env (sSID s) (sessionTTL s now)) sessions) (\<lambda>_.
       seq (each (\<lambda>s. revokeLocked env s (opActor op) AuthAuditEventSessionRevoked no_input) sessions) (\<lambda>_.
       seq (update_users env (reset_current target) (reset_user hash (uAuthVersion target + 1) now (opActor op)) 1) (\<lambda>_.
       seq (new_guid env) (\<lambda>guid.
       seq (check (0 < guid) Unavailable) (\<lambda>_.
       seq (consumer_event env guid now (opActor op) (rID target) AuthAuditEventPasswordChanged) (\<lambda>_.
       ok \<lparr>toFailure = None, toResultKind = ResultUser, toResultGUID = Some (rGUID target),
           toAuthVersion = Some (uAuthVersion target + 1), toPolicyVersion = None, toRole = None, toHTTP = 200\<rparr>)))))))))"

definition Execute_reset ::
  "auth_env \<Rightarrow> reset_execution \<Rightarrow> reset_state \<times> auth_work \<Rightarrow> operation_row \<Rightarrow> op_store \<Rightarrow>
   (outcome \<times> tables) option \<times> (reset_state \<times> auth_work)" where
  "Execute_reset env x c op st =
     (let s = fst c in
      case (if rsStarted s \<or> \<not> rsPrelocked s \<or> rsHash s = [] then None else rsTarget s) of
        None \<Rightarrow> (None, (s\<lparr>rsStarted := True\<rparr>, snd c))
      | Some target \<Rightarrow>
          let s' = s\<lparr>rsStarted := True, rsHash := [], rsSessions := []\<rparr> in
          (case run_on (reset_change env x op target (rsSessions s) (rsHash s)) (osTables st) (snd c) of
             (Inl er, w) \<Rightarrow> (None, (s', w))
           | (Inr (o', t), w) \<Rightarrow>
               (Some (o', t), (if toFailure o' = None then s'\<lparr>rsTargetID := rID target\<rparr> else s', w))))"

section \<open>Writers\<close>

definition reset_detail :: "reset_execution \<Rightarrow> action_event \<Rightarrow> (bytes \<times> json) list" where
  "reset_detail x ev =
     [(''operation_ref'', JStr (aePublicRef ev)), (''actor_guid'', jint (aeActor ev)), (''target_guid'', jint (rxTarget x)),
      (''reason'', JStr (rxReason x)), (''request_id'', JStr (rxRequestID x)),
      (''terminal_state'', JStr (AdminOperationState_String (aeState ev))),
      (''failure_code'', (case aeFailure ev of None \<Rightarrow> JNull | Some f \<Rightarrow> JStr (AdminOperationFailure_String f)))]"

definition reset_audit :: "writer_env \<Rightarrow> reset_execution \<Rightarrow> (reset_state \<times> auth_work) event_writer" where
  "reset_audit env x c ev st =
     (let s = fst c in
      if \<not> validResetPasswordTerminalEnvelope ev (rxTarget x) (weNow env) \<or> rsAuditStarted s then (None, c)
      else
        (put_log env ev (loadResetPasswordBinding (weFault env) st ev (rxTarget x))
           (\<lambda>actor. log_row env ev actor (if 0 < rsTargetID s then Some (rsTargetID s) else None) ''users.reset_password''
              (user_resource (rxTarget x)) (reset_detail x ev) None) st,
         (s\<lparr>rsAuditStarted := True\<rparr>, snd c)))"

definition reset_outbox :: "writer_env \<Rightarrow> action_event \<Rightarrow> op_store \<Rightarrow> tables option" where
  "reset_outbox env ev st =
     (case aeTarget ev of
        None \<Rightarrow> None
      | Some guid \<Rightarrow>
          if \<not> validResetPasswordTerminalEnvelope ev guid (weNow env) then None
          else put_outbox env ev (loadResetPasswordBinding (weFault env) st ev guid) st)"

section \<open>The consumer\<close>

definition reset_consumer :: "auth_env \<Rightarrow> reset_execution \<Rightarrow> (reset_state \<times> auth_work) consumer" where
  "reset_consumer env x =
     \<lparr>coPrelock = Some (\<lambda>c op v t. prelock_reset env x op v t c), coPreflight = None, coExecute = Execute_reset env x,
      coClear = (\<lambda>c. (ClearSecrets (fst c), snd c)), coConfirmed = id\<rparr>"

text \<open>The stored result of a successful reset.\<close>

definition reset_result :: "operation_row \<Rightarrow> (int \<times> int) option" where
  "reset_result op =
     (case (opResultGUID op, opResultAuthVersion op) of
        (Some guid, Some version) \<Rightarrow>
          if opResultKind op \<noteq> Some ResultUser \<or> opResultStatus op \<noteq> Some 200 \<or>
             (case opFinishedAt op of None \<Rightarrow> True | Some f \<Rightarrow> f \<le> 0) \<or> opErrorCode op \<noteq> None \<or> opLeaseOwner op \<noteq> None \<or>
             opLeaseExpires op \<noteq> None \<or> guid \<le> 0 \<or> version \<le> 0 \<or> maxInt32 < version
          then None else Some (guid, version)
      | _ \<Rightarrow> None)"

definition ResetPasswordResponse :: "bool \<Rightarrow> op_store \<Rightarrow> action_claims \<Rightarrow> bytes \<Rightarrow> (int \<times> int) option" where
  "ResetPasswordResponse fault st actor ref =
     Option.bind (find_row fault (\<lambda>op. opPublicRef op = ref \<and> opActor op = clUser actor \<and> opAuthVersion op = clAuthVersion actor \<and>
         opAction op = ActionUsersResetPassword \<and> opState op = OperationSucceeded \<and> rDeleted op = 0) (osOps st)) reset_result"

end
