(* ===== verification/Admin_Projection.thy ===== *)
theory Admin_Projection
  imports Go_Text Action_Identity Stored_Enums
begin

text \<open>
  The public projections of accounts and groups (\<open>service/admin_users_projection.go\<close>).
\<close>

section \<open>Times as text\<close>

text \<open>
  \<open>time.UnixMilli(ms).UTC().Format(time.RFC3339Nano)\<close> and what \<open>time.Parse(time.RFC3339Nano, s)\<close> accepts of texts that end
  in \<open>Z\<close>: the standard library's calendar, as far as the services use it.
\<close>

section \<open>The proleptic Gregorian calendar\<close>

text \<open>Year, month and day of a day number, counted from 1970-01-01; years are counted from March.\<close>

definition civil_date :: "int \<Rightarrow> int \<times> int \<times> int" where
  "civil_date days =
     (let z = days + 719468;
          era = z div 146097;
          doe = z mod 146097;
          yoe = (doe - doe div 1460 + doe div 36524 - doe div 146096) div 365;
          doy = doe - (365 * yoe + yoe div 4 - yoe div 100);
          mp = (5 * doy + 2) div 153;
          d = doy - (153 * mp + 2) div 5 + 1;
          m = (if mp < 10 then mp + 3 else mp - 9)
      in (yoe + era * 400 + (if m \<le> 2 then 1 else 0), m, d))"

definition leap_year :: "int \<Rightarrow> bool" where
  "leap_year y \<longleftrightarrow> y mod 4 = 0 \<and> (y mod 100 \<noteq> 0 \<or> y mod 400 = 0)"

definition days_in :: "int \<Rightarrow> int \<Rightarrow> int" where
  "days_in m y =
     (if m = 2 then (if leap_year y then 29 else 28) else if m = 4 \<or> m = 6 \<or> m = 9 \<or> m = 11 then 30 else 31)"

section \<open>Formatting\<close>

definition padded :: "nat \<Rightarrow> int \<Rightarrow> bytes" where
  "padded w n = (let s = nat_digits (nat n) in replicate (w - length s) CHR ''0'' @ s)"

definition signed_year :: "int \<Rightarrow> bytes" where
  "signed_year y = (if y < 0 then CHR ''-'' # padded 4 (- y) else padded 4 y)"

text \<open>The milliseconds as a fraction, without trailing zeros.\<close>

definition fraction_ms :: "int \<Rightarrow> bytes" where
  "fraction_ms ms = (if ms = 0 then [] else CHR ''.'' # rev (dropWhile (\<lambda>c. c = CHR ''0'') (rev (padded 3 ms))))"

definition format_rfc3339nano :: "int \<Rightarrow> bytes" where
  "format_rfc3339nano ms =
     (let secs = ms div 1000; rest = secs mod 86400; (y, m, d) = civil_date (secs div 86400) in
      signed_year y @ CHR ''-'' # padded 2 m @ CHR ''-'' # padded 2 d @ CHR ''T'' #
      padded 2 (rest div 3600) @ CHR '':'' # padded 2 (rest div 60 mod 60) @ CHR '':'' # padded 2 (rest mod 60) @
      fraction_ms (ms mod 1000) @ ''Z'')"

section \<open>Parsing\<close>

text \<open>\<open>n\<close> digits at the front.\<close>

definition take_digits :: "nat \<Rightarrow> bytes \<Rightarrow> (int \<times> bytes) option" where
  "take_digits n s =
     (if n \<le> length s \<and> list_all is_digit (take n s)
      then map_option (\<lambda>v. (int v, drop n s)) (dec_value 0 (take n s)) else None)"

text \<open>The hour may have one digit.\<close>

definition take_hour :: "bytes \<Rightarrow> (int \<times> bytes) option" where
  "take_hour s = (case take_digits 2 s of None \<Rightarrow> take_digits 1 s | Some r \<Rightarrow> Some r)"

definition take_char :: "char \<Rightarrow> bytes \<Rightarrow> bytes option" where
  "take_char c s = (case s of [] \<Rightarrow> None | d # r \<Rightarrow> if d = c then Some r else None)"

definition drop_fraction :: "bytes \<Rightarrow> bytes" where
  "drop_fraction s =
     (case s of
        p # d # r \<Rightarrow> if (p = CHR ''.'' \<or> p = CHR '','') \<and> is_digit d then dropWhile is_digit r else s
      | _ \<Rightarrow> s)"

definition rfc3339_utc :: "bytes \<Rightarrow> bool" where
  "rfc3339_utc s \<longleftrightarrow>
     (case Option.bind (take_digits 4 s) (\<lambda>(y, s). Option.bind (take_char CHR ''-'' s) (\<lambda>s.
           Option.bind (take_digits 2 s) (\<lambda>(m, s). Option.bind (take_char CHR ''-'' s) (\<lambda>s.
           Option.bind (take_digits 2 s) (\<lambda>(d, s). Option.bind (take_char CHR ''T'' s) (\<lambda>s.
           Option.bind (take_hour s) (\<lambda>(h, s). Option.bind (take_char CHR '':'' s) (\<lambda>s.
           Option.bind (take_digits 2 s) (\<lambda>(mi, s). Option.bind (take_char CHR '':'' s) (\<lambda>s.
           Option.bind (take_digits 2 s) (\<lambda>(sec, s). Some (y, m, d, h, mi, sec, drop_fraction s)))))))))))) of
        None \<Rightarrow> False
      | Some (y, m, d, h, mi, sec, rest) \<Rightarrow>
          1 \<le> m \<and> m \<le> 12 \<and> 1 \<le> d \<and> d \<le> days_in m y \<and> h < 24 \<and> mi < 60 \<and> sec < 60 \<and> rest = ''Z'')"

lemma format_examples:
  "format_rfc3339nano 0 = ''1970-01-01T00:00:00Z''" "format_rfc3339nano 1709210096120 = ''2024-02-29T12:34:56.12Z''"
  "rfc3339_utc ''2024-02-29T12:34:56.12Z''" "\<not> rfc3339_utc ''2023-02-29T12:34:56Z''"
  by code_simp+

section \<open>The projections\<close>

record user_dto =
  udGUID :: bytes
  udUsername :: "bytes option"
  udNickname :: "bytes option"
  udEmail :: "bytes option"
  udGroup :: "bytes option"
  udPlanType :: bytes
  udRole :: bytes
  udStatus :: bytes
  udAuthVersion :: int
  udCreatedAt :: bytes
  udLastLoginAt :: "bytes option"

definition validPermissionReadUser :: "user_row \<Rightarrow> bool" where
  "validPermissionReadUser u \<longleftrightarrow>
     0 < rID u \<and> 0 < rGUID u \<and> 0 < uAuthVersion u \<and>
     (uRole u = UserRoleUser \<or> uRole u = UserRoleAdmin \<or> uRole u = UserRoleRoot) \<and>
     (uStatus u = UserStatusActive \<or> uStatus u = UserStatusDisabled) \<and> (rDeleted u = 0 \<or> rDeleted u = 1)"

definition ProjectUserRead :: "user_row \<Rightarrow> user_dto option" where
  "ProjectUserRead u =
     (if \<not> validPermissionReadUser u \<or> uRole u = UserRoleRoot \<or> (uPlan u \<noteq> 1 \<and> uPlan u \<noteq> 2 \<and> uPlan u \<noteq> 3) then None
      else Some \<lparr>udGUID = format_int (rGUID u), udUsername = uUsername u, udNickname = uNickname u, udEmail = None, udGroup = None,
        udPlanType = PlanType_String (uPlan u), udRole = UserRole_String (uRole u),
        udStatus = (if rDeleted u = 1 then ''deleted'' else UserStatus_String (uStatus u)), udAuthVersion = uAuthVersion u,
        udCreatedAt = format_rfc3339nano (rCreatedAt u), udLastLoginAt = map_option format_rfc3339nano (uLastLoginAt u)\<rparr>)"

text \<open>\<open>^[a-z][a-z0-9_-]{0,63}$\<close>\<close>

definition lower_letter :: "char \<Rightarrow> bool" where
  "lower_letter c \<longleftrightarrow> 97 \<le> byte c \<and> byte c \<le> 122"

definition businessGroupKeyPattern :: "bytes \<Rightarrow> bool" where
  "businessGroupKeyPattern s \<longleftrightarrow>
     (case s of [] \<Rightarrow> False
      | c # r \<Rightarrow> lower_letter c \<and> length r \<le> 63 \<and> list_all (\<lambda>d. lower_letter d \<or> is_digit d \<or> d = CHR ''_'' \<or> d = CHR ''-'') r)"

definition projectUserReadWithGroup :: "user_row \<Rightarrow> bytes \<Rightarrow> user_dto option" where
  "projectUserReadWithGroup u key =
     (if \<not> businessGroupKeyPattern key then None else map_option (\<lambda>dto. dto\<lparr>udGroup := Some key\<rparr>) (ProjectUserRead u))"

definition ProjectCreatedUserRead :: "user_row \<Rightarrow> named_group \<Rightarrow> user_dto option" where
  "ProjectCreatedUserRead u g =
     (if rID g \<le> 0 \<or> rGUID g \<le> 0 \<or> rID g \<noteq> uGroup u \<or> bgKey g = [] \<or> bgStatus g \<noteq> BusinessGroupStatusActive \<or> rDeleted g \<noteq> 0 then None
      else projectUserReadWithGroup u (bgKey g))"

record group_dto =
  gdGUID :: bytes
  gdKey :: bytes
  gdDisplayName :: bytes

fun project_groups :: "int list \<Rightarrow> bytes \<Rightarrow> nat \<Rightarrow> named_group list \<Rightarrow> group_dto list option" where
  "project_groups seen prev defaults [] = (if defaults \<noteq> 1 then None else Some [])"
| "project_groups seen prev defaults (g # gs) =
     (if rID g \<le> 0 \<or> rGUID g \<le> 0 \<or> rGUID g \<in> set seen \<or> bgStatus g \<noteq> BusinessGroupStatusActive \<or> rDeleted g \<noteq> 0 \<or>
         \<not> businessGroupKeyPattern (bgKey g) \<or> bgDisplayName g = [] \<or> \<not> utf8_valid (bgDisplayName g) \<or> 64 < rune_count (bgDisplayName g) \<or>
         (prev \<noteq> [] \<and> bgKey g \<le> prev)
      then None
      else map_option ((#) \<lparr>gdGUID = format_int (rGUID g), gdKey = bgKey g, gdDisplayName = bgDisplayName g\<rparr>)
             (project_groups (rGUID g # seen) (bgKey g) (if bgKey g = ''default'' then defaults + 1 else defaults) gs))"

definition projectAdminGroupsRead :: "named_group list \<Rightarrow> group_dto list option" where
  "projectAdminGroupsRead = project_groups [] [] 0"

text \<open>The accepted groups are the rows in order of their keys, one of them \<open>default\<close>.\<close>

lemma project_groups_keys:
  assumes "project_groups seen prev n gs = Some ds"
  shows "map gdKey ds = map bgKey gs \<and> sorted_wrt (<) (map bgKey gs) \<and> (prev \<noteq> [] \<longrightarrow> (\<forall>g \<in> set gs. prev < bgKey g)) \<and>
    n + length (filter (\<lambda>g. bgKey g = ''default'') gs) = 1"
  using assms
proof (induction gs arbitrary: seen prev n ds)
  case (Cons g gs)
  let ?n = "if bgKey g = ''default'' then n + 1 else n"
  from Cons.prems obtain es where es: "project_groups (rGUID g # seen) (bgKey g) ?n gs = Some es"
    "ds = \<lparr>gdGUID = format_int (rGUID g), gdKey = bgKey g, gdDisplayName = bgDisplayName g\<rparr> # es"
    "prev \<noteq> [] \<longrightarrow> prev < bgKey g" "businessGroupKeyPattern (bgKey g)"
    by (auto simp: not_le split: if_splits)
  have "bgKey g \<noteq> []" using es(4) by (auto simp: businessGroupKeyPattern_def)
  with Cons.IH[OF es(1)] es(2,3) show ?case by auto
qed (auto split: if_splits)

end
