(* ===== verification/Created_Response.thy ===== *)
theory Created_Response
  imports Reset_Password Admin_Projection
begin

text \<open>
  The stored answer of an account creation (\<open>service/action_create_user_response.go\<close>): it is written with the account, read
  back by its operation only, and redacted when the account is deleted.  Digest and seal are those of the operation.
\<close>

abbreviation OperationResponseActive :: int where "OperationResponseActive \<equiv> 1"
abbreviation OperationResponseRedacted :: int where "OperationResponseRedacted \<equiv> 2"
abbreviation OperationResponseIntegrityHMACV1 :: int where "OperationResponseIntegrityHMACV1 \<equiv> 1"

definition createAccountResponseMediaType :: bytes where "createAccountResponseMediaType = ''application/json''"
definition createAccountResponseBodyLimit :: nat where "createAccountResponseBodyLimit = 4096"
definition redactedCreateResponseSHA256 :: bytes where
  "redactedCreateResponseSHA256 = ''44136fa355b3678a1146ad16f7e8649e94fb4fc21fe77e8310c060f61caaff8a''"

abbreviation redacted_body :: bytes where "redacted_body \<equiv> ''{}''"

section \<open>The body\<close>

record created_body =
  cbOperationRef :: bytes
  cbUser :: user_dto
  cbPermissionsVersion :: "bytes option"

definition jopt :: "bytes option \<Rightarrow> json" where
  "jopt v = (case v of None \<Rightarrow> JNull | Some s \<Rightarrow> JStr s)"

definition user_dto_json :: "user_dto \<Rightarrow> json" where
  "user_dto_json u =
     JObj [(''guid'', JStr (udGUID u)), (''username'', jopt (udUsername u)), (''nickname'', jopt (udNickname u)), (''email'', jopt (udEmail u)),
       (''group'', jopt (udGroup u)), (''plan_type'', JStr (udPlanType u)), (''role'', JStr (udRole u)), (''status'', JStr (udStatus u)),
       (''auth_version'', jint (udAuthVersion u)), (''created_at'', JStr (udCreatedAt u)), (''last_login_at'', jopt (udLastLoginAt u))]"

definition created_body_json :: "created_body \<Rightarrow> json" where
  "created_body_json b =
     JObj [(''operation_ref'', JStr (cbOperationRef b)), (''user'', user_dto_json (cbUser b)), (''permissions_version'', jopt (cbPermissionsVersion b))]"

fun text_of :: "json \<Rightarrow> bytes option" where
  "text_of (JStr s) = Some s" | "text_of v = None"

fun opt_text_of :: "json \<Rightarrow> bytes option option" where
  "opt_text_of (JStr s) = Some (Some s)" | "opt_text_of JNull = Some None" | "opt_text_of v = None"

fun int_of :: "json \<Rightarrow> int option" where
  "int_of (JNum n) = parse_int64 n" | "int_of v = None"

definition member :: "bytes \<Rightarrow> (bytes \<times> json) list \<Rightarrow> json" where
  "member k ms = (case map_of ms k of None \<Rightarrow> JBool False | Some v \<Rightarrow> v)"

definition user_dto_of :: "json \<Rightarrow> user_dto option" where
  "user_dto_of v =
     (case v of JObj ms \<Rightarrow>
        Option.bind (text_of (member ''guid'' ms)) (\<lambda>g. Option.bind (opt_text_of (member ''username'' ms)) (\<lambda>un.
        Option.bind (opt_text_of (member ''nickname'' ms)) (\<lambda>nn. Option.bind (opt_text_of (member ''email'' ms)) (\<lambda>em.
        Option.bind (opt_text_of (member ''group'' ms)) (\<lambda>gr. Option.bind (text_of (member ''plan_type'' ms)) (\<lambda>pt.
        Option.bind (text_of (member ''role'' ms)) (\<lambda>ro. Option.bind (text_of (member ''status'' ms)) (\<lambda>sta.
        Option.bind (int_of (member ''auth_version'' ms)) (\<lambda>av. Option.bind (text_of (member ''created_at'' ms)) (\<lambda>ca.
        Option.bind (opt_text_of (member ''last_login_at'' ms)) (\<lambda>ll.
        Some \<lparr>udGUID = g, udUsername = un, udNickname = nn, udEmail = em, udGroup = gr, udPlanType = pt, udRole = ro, udStatus = sta,
          udAuthVersion = av, udCreatedAt = ca, udLastLoginAt = ll\<rparr>)))))))))))
      | _ \<Rightarrow> None)"

text \<open>A body counts only if the decoded value is written as the same bytes, so all other ways to spell it are refused.\<close>

definition decode_created_body :: "bytes \<Rightarrow> created_body option" where
  "decode_created_body body =
     (case json_parse body of
        Some (JObj ms) \<Rightarrow>
          Option.bind (text_of (member ''operation_ref'' ms)) (\<lambda>ref. Option.bind (user_dto_of (member ''user'' ms)) (\<lambda>u.
          Option.bind (opt_text_of (member ''permissions_version'' ms)) (\<lambda>pv.
          let b = \<lparr>cbOperationRef = ref, cbUser = u, cbPermissionsVersion = pv\<rparr> in
          if render (created_body_json b) = body then Some b else None)))
      | _ \<Rightarrow> None)"

definition is_utc_text :: "bytes \<Rightarrow> bool" where
  "is_utc_text s \<longleftrightarrow> rfc3339_utc s \<and> s \<noteq> [] \<and> last s = CHR ''Z''"

definition validCreateAccountResponseBody :: "bytes \<Rightarrow> bytes \<Rightarrow> int \<Rightarrow> int \<Rightarrow> bool" where
  "validCreateAccountResponseBody body ref action guid =
     (case decode_created_body body of
        None \<Rightarrow> False
      | Some b \<Rightarrow>
          let u = cbUser b in
          \<not> (cbOperationRef b \<noteq> ref \<or> udUsername u = None \<or> udUsername u = Some [] \<or> udNickname u = Some [] \<or> udEmail u \<noteq> None \<or>
             udGroup u = None \<or> udGroup u = Some [] \<or> udStatus u \<noteq> UserStatus_String UserStatusActive \<or> udAuthVersion u \<noteq> 1 \<or>
             udLastLoginAt u \<noteq> None) \<and>
          (case parse_int64 (udGUID u) of None \<Rightarrow> False | Some n \<Rightarrow> n = guid \<and> format_int n = udGUID u) \<and>
          is_utc_text (udCreatedAt u) \<and>
          (case ParsePlanType (udPlanType u) of None \<Rightarrow> False | Some p \<Rightarrow> p = 1 \<or> p = 2 \<or> p = 3) \<and>
          (if action = ActionUsersCreate then udRole u = UserRole_String UserRoleUser \<and> cbPermissionsVersion b = None
           else if action = ActionUsersCreateAdmin then udRole u = UserRole_String UserRoleAdmin \<and> cbPermissionsVersion b = Some ''1''
           else False))"

section \<open>Digest and seal\<close>

fun hex_decode :: "bytes \<Rightarrow> bytes option" where
  "hex_decode [] = Some []"
| "hex_decode [a] = None"
| "hex_decode (a # b # s) =
     (case (hex_digit a, hex_digit b) of
        (Some x, Some y) \<Rightarrow> map_option ((#) (char_of (16 * x + y))) (hex_decode s)
      | _ \<Rightarrow> None)"

definition matchingCreateAccountResponseDigest :: "bytes \<Rightarrow> bytes \<Rightarrow> bool" where
  "matchingCreateAccountResponseDigest body encoded \<longleftrightarrow> length encoded = 64 \<and> hex_decode encoded = Some (sha256 body)"

text \<open>A byte slice is written as padded standard Base64.\<close>

definition b64std_padded :: "bytes \<Rightarrow> bytes" where
  "b64std_padded s = b64std_encode s @ replicate ((3 - length s mod 3) mod 3) CHR ''=''"

definition integrity_text :: "operation_row \<Rightarrow> int \<Rightarrow> int \<Rightarrow> int \<Rightarrow> bytes \<Rightarrow> bytes \<Rightarrow> bytes" where
  "integrity_text op lifecycle guid status media body =
     render (JObj [(''version'', jint OperationResponseIntegrityHMACV1), (''lifecycle'', jint lifecycle), (''operation_id'', jint (rID op)),
       (''operation_ref'', JStr (opPublicRef op)), (''action'', jint (opAction op)), (''state'', jint OperationSucceeded),
       (''result_kind'', jint ResultUser), (''result_guid'', jint guid), (''http_status'', jint status), (''media_type'', JStr media),
       (''response_body'', JStr (b64std_padded body))])"

definition createAccountResponseHMAC :: "crypto \<Rightarrow> operation_row \<Rightarrow> int \<Rightarrow> int \<Rightarrow> int \<Rightarrow> bytes \<Rightarrow> bytes \<Rightarrow> bytes option" where
  "createAccountResponseHMAC crypto op lifecycle guid status media body =
     (if rID op \<le> 0 \<or> opPublicRef op = [] \<or> (lifecycle \<noteq> OperationResponseActive \<and> lifecycle \<noteq> OperationResponseRedacted) \<or> guid \<le> 0 \<or>
         status \<noteq> 201 \<or> media \<noteq> createAccountResponseMediaType \<or> body = []
      then None else Some (hex_encode (ResponseDigest crypto (integrity_text op lifecycle guid status media body))))"

definition matchingCreateAccountResponseHMAC :: "crypto \<Rightarrow> operation_row \<Rightarrow> response_row \<Rightarrow> bool" where
  "matchingCreateAccountResponseHMAC crypto op r =
     (case rpHMAC r of
        None \<Rightarrow> False
      | Some have_hmac \<Rightarrow>
          length have_hmac = 64 \<and> 0 < rpTarget r \<and>
          createAccountResponseHMAC crypto op (rpLifecycle r) (rpTarget r) (rpStatus r) (rpMediaType r) (rpBody r) = Some have_hmac)"

definition canonicalCreateResponseMigrationSentinel :: "response_row \<Rightarrow> bool" where
  "canonicalCreateResponseMigrationSentinel r \<longleftrightarrow>
     0 < rpTarget r \<and> rpLifecycle r = OperationResponseRedacted \<and> rDeleted r = 1 \<and> rpIntegrity r = OperationResponseIntegrityHMACV1 \<and>
     rpHMAC r = Some (replicate 64 CHR ''0'') \<and> rpStatus r = 201 \<and> rpMediaType r = createAccountResponseMediaType \<and>
     rpSHA256 r = redactedCreateResponseSHA256 \<and> 0 < rCreatedAt r \<and> rCreatedAt r \<le> rUpdatedAt r \<and> rUpdatedBy r \<noteq> None"

definition validCreateResponseOperation :: "operation_row \<Rightarrow> int \<Rightarrow> bool" where
  "validCreateResponseOperation op guid \<longleftrightarrow>
     \<not> (rID op \<le> 0 \<or> opPublicRef op = [] \<or> opFinishedAt op = None \<or> opErrorCode op \<noteq> None \<or> guid \<le> 0) \<and>
     (if opState op = OperationSucceeded then
        rDeleted op = 0 \<and> opResultKind op = Some ResultUser \<and> opResultGUID op = Some guid \<and> opResultStatus op = Some 201
      else if opState op = OperationExpired then
        rDeleted op = 1 \<and> opResultKind op = None \<and> opResultGUID op = None \<and> opResultStatus op = None
      else False)"

section \<open>Writing the answer\<close>

definition insert_response :: "response_row \<Rightarrow> tables \<Rightarrow> tables option" where
  "insert_response row t =
     (if (\<exists>r \<in> set (tResponses t). rGUID r = rGUID row \<or> rpOperation r = rpOperation row) \<or> tNextID t \<le> 0 then None
      else Some (t\<lparr>tResponses := tResponses t @ [row\<lparr>rID := tNextID t\<rparr>], tNextID := tNextID t + 1\<rparr>))"

definition created_row :: "crypto \<Rightarrow> operation_row \<Rightarrow> int \<Rightarrow> int \<Rightarrow> int \<Rightarrow> int \<Rightarrow> bytes \<Rightarrow> bytes \<Rightarrow> response_row" where
  "created_row crypto op actor guid now target body hmac =
     audit_fields.extend (stamped guid now actor)
       \<lparr>rpOperation = rID op, rpTarget = target, rpLifecycle = OperationResponseActive, rpIntegrity = OperationResponseIntegrityHMACV1,
        rpHMAC = Some hmac, rpStatus = 201, rpMediaType = createAccountResponseMediaType, rpBody = body, rpSHA256 = hex_encode (sha256 body)\<rparr>"

definition persistCreateAccountResponse ::
  "auth_env \<Rightarrow> crypto \<Rightarrow> operation_row \<Rightarrow> int \<Rightarrow> int \<Rightarrow> int \<Rightarrow> user_row \<Rightarrow> named_group \<Rightarrow> unit act" where
  "persistCreateAccountResponse env crypto op actor guid now user grp =
     seq (check (\<not> (rID op \<le> 0 \<or> actor \<le> 0 \<or> guid \<le> 0 \<or> now \<le> 0 \<or> opPublicRef op = [])) Unavailable) (\<lambda>_.
     seq (from_option (ProjectCreatedUserRead user grp) Unavailable) (\<lambda>dto.
     let body = render (created_body_json \<lparr>cbOperationRef = opPublicRef op, cbUser = dto,
           cbPermissionsVersion = (if udRole dto = UserRole_String UserRoleAdmin then Some ''1'' else None)\<rparr>) in
     seq (check (2 \<le> length body \<and> length body \<le> createAccountResponseBodyLimit \<and>
         validCreateAccountResponseBody body (opPublicRef op) (opAction op) (rGUID user)) Unavailable) (\<lambda>_.
     seq (from_option (createAccountResponseHMAC crypto op OperationResponseActive (rGUID user) 201 createAccountResponseMediaType body)
         Unavailable) (\<lambda>hmac.
     sql_write env (insert_response (created_row crypto op actor guid now (rGUID user) body hmac))))))"

section \<open>Reading the answer\<close>

datatype created_answer =
    AnswerBody bytes | AnswerDeleted | AnswerUnavailable

definition loadCreateAccountResponseBody :: "bool \<Rightarrow> response_row list \<Rightarrow> int \<Rightarrow> bytes option" where
  "loadCreateAccountResponseBody fault rows i =
     (if i \<le> 0 \<or> fault then None
      else case take 2 (filter (\<lambda>r. rID r = i) rows) of
        [r] \<Rightarrow> if rpBody r = [] then None else Some (rpBody r)
      | _ \<Rightarrow> None)"

text \<open>The answer for a deleted account, whose body was redacted.\<close>

definition deleted_answer :: "bool \<Rightarrow> crypto \<Rightarrow> response_row list \<Rightarrow> operation_row \<Rightarrow> response_row \<Rightarrow> created_answer" where
  "deleted_answer fault crypto rows op r =
     (if rDeleted r \<noteq> 1 \<or> rpIntegrity r \<noteq> OperationResponseIntegrityHMACV1 \<or> rpHMAC r = None \<or> rpLifecycle r \<noteq> OperationResponseRedacted \<or>
         rUpdatedAt r < rCreatedAt r \<or> rUpdatedBy r = None \<or> rpStatus r \<noteq> 201 \<or> rpMediaType r \<noteq> createAccountResponseMediaType \<or>
         rpSHA256 r \<noteq> redactedCreateResponseSHA256
      then AnswerUnavailable
      else if canonicalCreateResponseMigrationSentinel r then AnswerDeleted
      else case loadCreateAccountResponseBody fault rows (rID r) of
        None \<Rightarrow> AnswerUnavailable
      | Some body \<Rightarrow>
          if body \<noteq> redacted_body \<or> \<not> matchingCreateAccountResponseHMAC crypto op (r\<lparr>rpBody := body\<rparr>) then AnswerUnavailable
          else AnswerDeleted)"

definition active_answer ::
  "bool \<Rightarrow> crypto \<Rightarrow> response_row list \<Rightarrow> operation_row \<Rightarrow> int \<Rightarrow> bytes \<Rightarrow> response_row \<Rightarrow> created_answer" where
  "active_answer fault crypto rows op action ref r =
     (if rpLifecycle r \<noteq> OperationResponseActive \<or> rID r \<le> 0 \<or> rpStatus r \<noteq> 201 \<or> rpMediaType r \<noteq> createAccountResponseMediaType \<or>
         rCreatedAt r \<le> 0 \<or> rUpdatedAt r \<noteq> rCreatedAt r \<or> rDeleted r \<noteq> 0
      then AnswerUnavailable
      else case loadCreateAccountResponseBody fault rows (rID r) of
        None \<Rightarrow> AnswerUnavailable
      | Some body \<Rightarrow>
          if length body < 2 \<or> createAccountResponseBodyLimit < length body \<or> \<not> matchingCreateAccountResponseDigest body (rpSHA256 r) \<or>
             \<not> validCreateAccountResponseBody body ref action (rpTarget r) \<or> rpIntegrity r \<noteq> OperationResponseIntegrityHMACV1 \<or>
             rpHMAC r = None \<or> \<not> matchingCreateAccountResponseHMAC crypto op (r\<lparr>rpBody := body\<rparr>)
          then AnswerUnavailable else AnswerBody body)"

definition CreateAccountResponse ::
  "(nat \<Rightarrow> bool) \<Rightarrow> crypto \<Rightarrow> op_store \<Rightarrow> int \<Rightarrow> action_claims \<Rightarrow> bytes \<Rightarrow> created_answer" where
  "CreateAccountResponse fault crypto st action a ref =
     (if \<not> validOperationActorClaims a \<or> (action \<noteq> ActionUsersCreate \<and> action \<noteq> ActionUsersCreateAdmin) \<or> length ref \<noteq> 46 \<or> fault 0
      then AnswerUnavailable
      else case take 2 (filter (\<lambda>op. opPublicRef op = ref \<and> opActor op = clUser a \<and> opAuthVersion op = clAuthVersion a \<and> opAction op = action)
                  (osOps st)) of
        [op] \<Rightarrow>
          if rID op \<le> 0 \<or> fault 1 then AnswerUnavailable
          else (case take 2 (filter (\<lambda>r. rpOperation r = rID op) (tResponses (osTables st))) of
              [r] \<Rightarrow>
                if rID r \<le> 0 \<or> rGUID r \<le> 0 \<or> rpTarget r \<le> 0 \<or> \<not> validCreateResponseOperation op (rpTarget r) then AnswerUnavailable
                else (case find_row (fault 2) (\<lambda>u. rGUID u = rpTarget r) (tUsers (osTables st)) of
                    None \<Rightarrow> AnswerUnavailable
                  | Some target \<Rightarrow>
                      if rID target \<le> 0 \<or> (rDeleted target \<noteq> 0 \<and> rDeleted target \<noteq> 1) then AnswerUnavailable
                      else if rDeleted target = 1 then deleted_answer (fault 3) crypto (tResponses (osTables st)) op r
                      else active_answer (fault 3) crypto (tResponses (osTables st)) op action ref r)
            | _ \<Rightarrow> AnswerUnavailable)
      | _ \<Rightarrow> AnswerUnavailable)"

section \<open>Redacting the answer\<close>

type_synonym 'v keyed = "(int \<times> 'v) list"

definition drop_key :: "int \<Rightarrow> 'v keyed \<Rightarrow> 'v keyed" where
  "drop_key k m = filter (\<lambda>(k', _). k' \<noteq> k) m"

definition creation_marker :: "int \<Rightarrow> outbox_row \<Rightarrow> bool" where
  "creation_marker target m \<longleftrightarrow>
     \<not> (rID m \<le> 0 \<or> rDeleted m \<noteq> 0 \<or> obOperation m \<le> 0 \<or> obPublicRef m = [] \<or> obTargetKind m \<noteq> TargetNone \<or> obTarget m \<noteq> None \<or>
        obState m \<noteq> OperationSucceeded \<or> obFailure m \<noteq> None \<or> obResultKind m \<noteq> Some ResultUser \<or> obResultGUID m \<noteq> Some target \<or>
        (obAction m \<noteq> ActionUsersCreate \<and> obAction m \<noteq> ActionUsersCreateAdmin))"

text \<open>The markers by operation: a second one for an operation drops both.\<close>

fun index_markers :: "int \<Rightarrow> outbox_row list \<Rightarrow> outbox_row keyed \<Rightarrow> int list \<Rightarrow> outbox_row keyed \<times> int list" where
  "index_markers target [] m ids = (m, ids)"
| "index_markers target (r # rs) m ids =
     (if \<not> creation_marker target r then index_markers target rs m ids
      else if map_of m (obOperation r) \<noteq> None then index_markers target rs (drop_key (obOperation r) m) ids
      else index_markers target rs ((obOperation r, r) # m) (ids @ [obOperation r]))"

fun index_operations :: "int \<Rightarrow> operation_row list \<Rightarrow> outbox_row keyed \<Rightarrow> operation_row keyed \<Rightarrow> outbox_row keyed \<times> operation_row keyed" where
  "index_operations target [] m ops = (m, ops)"
| "index_operations target (op # rest) m ops =
     (case map_of m (rID op) of
        None \<Rightarrow> index_operations target rest (drop_key (rID op) m) ops
      | Some r \<Rightarrow>
          if obPublicRef r \<noteq> opPublicRef op \<or> obAction r \<noteq> opAction op \<or> \<not> validCreateResponseOperation op target
          then index_operations target rest (drop_key (rID op) m) ops
          else index_operations target rest m ((rID op, op) # ops))"

definition update_responses :: "auth_env \<Rightarrow> (response_row \<Rightarrow> bool) \<Rightarrow> (response_row \<Rightarrow> response_row) \<Rightarrow> unit act" where
  "update_responses env P f =
     sql_write env (\<lambda>t. if sql_changed P f (tResponses t) \<noteq> 1 then None else Some (t\<lparr>tResponses := sql_update P f (tResponses t)\<rparr>))"

definition active_current :: "response_row \<Rightarrow> int \<Rightarrow> operation_row \<Rightarrow> response_row \<Rightarrow> bool" where
  "active_current r target op q \<longleftrightarrow>
     rID q = rID r \<and> rpOperation q = rID op \<and> rpTarget q = target \<and> rpLifecycle q = OperationResponseActive \<and> rDeleted q = 0 \<and>
     rpIntegrity q = OperationResponseIntegrityHMACV1"

definition redacted_row :: "bytes \<Rightarrow> int \<Rightarrow> int \<Rightarrow> response_row \<Rightarrow> response_row" where
  "redacted_row hmac now actor q =
     q\<lparr>rpLifecycle := OperationResponseRedacted, rpIntegrity := OperationResponseIntegrityHMACV1, rpHMAC := Some hmac, rpBody := redacted_body,
       rpSHA256 := redactedCreateResponseSHA256, rDeleted := 1, rUpdatedAt := now, rUpdatedBy := Some actor\<rparr>"

definition sentinel_current :: "response_row \<Rightarrow> int \<Rightarrow> operation_row \<Rightarrow> response_row \<Rightarrow> bool" where
  "sentinel_current r target op q \<longleftrightarrow>
     rID q = rID r \<and> rpOperation q = rID op \<and> rpTarget q = target \<and> rpLifecycle q = OperationResponseRedacted \<and> rDeleted q = 1 \<and>
     rpIntegrity q = OperationResponseIntegrityHMACV1 \<and> rpHMAC q = rpHMAC r \<and> rpStatus q = rpStatus r \<and> rpMediaType q = rpMediaType r \<and>
     rpBody q = rpBody r \<and> rpSHA256 q = rpSHA256 r"

definition resealed_row :: "bytes \<Rightarrow> int \<Rightarrow> int \<Rightarrow> response_row \<Rightarrow> response_row" where
  "resealed_row hmac now actor q = q\<lparr>rpHMAC := Some hmac, rUpdatedAt := now, rUpdatedBy := Some actor\<rparr>"

definition redact_active :: "auth_env \<Rightarrow> crypto \<Rightarrow> int \<Rightarrow> int \<Rightarrow> int \<Rightarrow> operation_row \<Rightarrow> response_row \<Rightarrow> unit act" where
  "redact_active env crypto target actor now op r =
     seq (check (rDeleted r = 0 \<and> 0 < rCreatedAt r \<and> rUpdatedAt r = rCreatedAt r \<and> matchingCreateAccountResponseHMAC crypto op r) Unavailable) (\<lambda>_.
     seq (from_option (createAccountResponseHMAC crypto op OperationResponseRedacted target 201 createAccountResponseMediaType redacted_body)
         Unavailable) (\<lambda>hmac.
     update_responses env (active_current r target op) (redacted_row hmac now actor)))"

definition reseal_redacted ::
  "auth_env \<Rightarrow> crypto \<Rightarrow> int \<Rightarrow> int \<Rightarrow> int \<Rightarrow> operation_row option \<Rightarrow> response_row \<Rightarrow> unit act" where
  "reseal_redacted env crypto target actor now op r =
     (let sentinel = canonicalCreateResponseMigrationSentinel r in
      seq (check (\<not> (rDeleted r \<noteq> 1 \<or> rUpdatedAt r < rCreatedAt r \<or> rUpdatedBy r = None \<or> rpBody r \<noteq> redacted_body \<or>
          (\<not> sentinel \<and> (case op of None \<Rightarrow> True | Some op \<Rightarrow> \<not> matchingCreateAccountResponseHMAC crypto op r)))) Unavailable) (\<lambda>_.
      case op of
        None \<Rightarrow> ok ()
      | Some op \<Rightarrow>
          if \<not> sentinel then ok ()
          else seq (from_option (createAccountResponseHMAC crypto op OperationResponseRedacted target (rpStatus r) (rpMediaType r) (rpBody r))
                 Unavailable) (\<lambda>hmac.
               update_responses env (sentinel_current r target op) (resealed_row hmac now actor))))"

definition redact_one :: "auth_env \<Rightarrow> crypto \<Rightarrow> int \<Rightarrow> int \<Rightarrow> int \<Rightarrow> operation_row keyed \<Rightarrow> response_row \<Rightarrow> unit act" where
  "redact_one env crypto target actor now ops r =
     seq (check (\<not> (rID r \<le> 0 \<or> rpTarget r \<noteq> target \<or> rpStatus r \<noteq> 201 \<or> rpMediaType r \<noteq> createAccountResponseMediaType \<or>
         rpIntegrity r \<noteq> OperationResponseIntegrityHMACV1 \<or> rpHMAC r = None)) Unavailable) (\<lambda>_.
     seq (or_error (sql_read env (\<lambda>t. loadCreateAccountResponseBody False (tResponses t) (rID r))) Unavailable) (\<lambda>found.
     seq (from_option found Unavailable) (\<lambda>body.
     let r = r\<lparr>rpBody := body\<rparr> in
     seq (check (matchingCreateAccountResponseDigest body (rpSHA256 r)) Unavailable) (\<lambda>_.
     if rpLifecycle r = OperationResponseActive then
       seq (from_option (map_of ops (rpOperation r)) Unavailable) (\<lambda>op. redact_active env crypto target actor now op r)
     else if rpLifecycle r = OperationResponseRedacted then reseal_redacted env crypto target actor now (map_of ops (rpOperation r)) r
     else fail_with Unavailable))))"

definition created_marker_row :: "int \<Rightarrow> outbox_row \<Rightarrow> bool" where
  "created_marker_row target m \<longleftrightarrow>
     obResultGUID m = Some target \<and> obState m = OperationSucceeded \<and> (obAction m = ActionUsersCreateAdmin \<or> obAction m = ActionUsersCreate)"

definition redactCreatedAccountResponse :: "auth_env \<Rightarrow> crypto \<Rightarrow> operation_row list \<Rightarrow> int \<Rightarrow> int \<Rightarrow> int \<Rightarrow> unit act" where
  "redactCreatedAccountResponse env crypto all_ops target actor now =
     seq (check (0 < target \<and> 0 < actor \<and> 0 < now) Unavailable) (\<lambda>_.
     seq (sql_read env (\<lambda>t. sort_key obOperation (filter (created_marker_row target) (tOutbox t)))) (\<lambda>rows.
     seq (sql_read env (\<lambda>t. sort_key rpOperation (filter (\<lambda>r. rpTarget r = target) (tResponses t)))) (\<lambda>responses.
     let (m, ids) = index_markers target rows [] [] in
     seq (if ids = [] then ok [] else sql_read env (\<lambda>t. sql_find (\<lambda>op. rID op \<in> set ids) all_ops)) (\<lambda>ops.
     let (m, found) = index_operations target ops m [] in
     if m = [] \<and> responses = [] then ok ()
     else
       seq (each (redact_one env crypto target actor now found) responses) (\<lambda>_.
       check (list_all (\<lambda>(k, _). k \<in> rpOperation ` set responses) m) Unavailable)))))"

end
