(* ===== verification/Delete_User.thy ===== *)
theory Delete_User
  imports Created_Response
begin

text \<open>
  The consumer that deletes an account (\<open>service/action_delete_user.go\<close>, \<open>action_delete_user_writers.go\<close>): sessions and
  gateway tokens are revoked, the stored policy is buried, the personal columns are cleared, the row is marked deleted
  with the next auth version, and the stored answer of the creation is redacted.
\<close>

section \<open>The execution\<close>

record delete_execution =
  dxTarget :: int
  dxAuthVersion :: int
  dxReason :: bytes

record delete_facts =
  dfTarget :: int
  dfTargetGUID :: int
  dfBeforeStatus :: int

record delete_state =
  dsFacts :: "delete_facts option"
  dsConsumerStarted :: bool
  dsAuditStarted :: bool

definition newDeleteUserExecution :: "descriptor \<Rightarrow> delete_intent \<Rightarrow> (delete_execution \<times> delete_state) option" where
  "newDeleteUserExecution d i =
     (case acEncode d of
        None \<Rightarrow> None
      | Some enc \<Rightarrow>
          if acAction d \<noteq> ActionUsersDelete \<or> acName d \<noteq> ''users.delete'' \<or> acCapability d \<noteq> ''users.delete'' \<or> acRootOnly d \<or>
             \<not> acRequiresTicket d \<or> \<not> acActive d \<or> acTargetKind d \<noteq> TargetUser \<or> isl (run_encoder enc (DeleteUser i))
          then None
          else Some (\<lparr>dxTarget = duTarget i, dxAuthVersion = duAuthVersion i, dxReason = trim_space (duReason i)\<rparr>,
                     \<lparr>dsFacts = None, dsConsumerStarted = False, dsAuditStarted = False\<rparr>))"

definition recordDeleteFacts :: "delete_execution \<Rightarrow> user_row \<Rightarrow> delete_state \<Rightarrow> delete_state option" where
  "recordDeleteFacts x u s =
     (if rID u \<le> 0 \<or> rGUID u \<le> 0 \<or> (uStatus u \<noteq> UserStatusActive \<and> uStatus u \<noteq> UserStatusDisabled) \<or> dsFacts s \<noteq> None \<or>
         dsAuditStarted s \<or> rGUID u \<noteq> dxTarget x
      then None
      else Some (s\<lparr>dsFacts := Some \<lparr>dfTarget = rID u, dfTargetGUID = rGUID u, dfBeforeStatus = uStatus u\<rparr>\<rparr>))"

definition beginConsumer :: "delete_state \<Rightarrow> bool \<times> delete_state" where
  "beginConsumer s = (\<not> (dsConsumerStarted s \<or> dsAuditStarted s \<or> dsFacts s \<noteq> None), s\<lparr>dsConsumerStarted := True\<rparr>)"

definition DeleteUserExecution_String :: "delete_execution \<Rightarrow> bytes" where
  "DeleteUserExecution_String x = ''DeleteUserExecution{Action:users.delete,TargetGUID:'' @ format_int (dxTarget x) @ ''}''"

section \<open>Execute\<close>

definition deleteConsumerOperationValid :: "operation_row \<Rightarrow> bool" where
  "deleteConsumerOperationValid op \<longleftrightarrow>
     \<not> (rID op \<le> 0 \<or> rGUID op \<le> 0 \<or> rCreatedAt op \<le> 0 \<or> rUpdatedAt op < rCreatedAt op \<or> rCreatedBy op \<noteq> Some (opActor op) \<or>
        rUpdatedBy op \<noteq> Some (opActor op) \<or> rDeleted op \<noteq> 0 \<or> opActor op \<le> 0 \<or> opAuthVersion op \<le> 0 \<or> maxInt32 < opAuthVersion op \<or>
        opSession op \<le> 0 \<or> opAction op \<noteq> ActionUsersDelete \<or> (case opVerification op of None \<Rightarrow> True | Some v \<Rightarrow> v \<le> 0) \<or>
        opState op \<noteq> OperationProcessing \<or> opQueryExpires op \<le> 0) \<and>
     \<not> isl (ParsePublicRef (opPublicRef op))"

definition deleteConsumerTargetStateAllowed :: "user_row \<Rightarrow> bool" where
  "deleteConsumerTargetStateAllowed u \<longleftrightarrow> (uRole u = UserRoleUser \<or> uRole u = UserRoleAdmin) \<and> uStatus u = UserStatusActive"

definition deleteConsumerFailure :: "int \<Rightarrow> outcome" where
  "deleteConsumerFailure f =
     \<lparr>toFailure = Some f, toResultKind = 0, toResultGUID = None, toAuthVersion = None, toPolicyVersion = None, toRole = None,
      toHTTP = 409\<rparr>"

text \<open>\<open>Inl\<close> is the error, \<open>Inr (Some f)\<close> a failure.\<close>

fun delete_sessions_checked :: "int \<Rightarrow> session_row list \<Rightarrow> unit + int option" where
  "delete_sessions_checked prev [] = Inr None"
| "delete_sessions_checked prev (s # ss) =
     (if rID s \<le> prev \<or> sVersion s \<le> 0 then Inl ()
      else if maxInt32 \<le> sVersion s then Inr (Some FailureConsumerValidation)
      else delete_sessions_checked (rID s) ss)"

definition validateDeleteConsumerSessions :: "session_row list \<Rightarrow> unit + int option" where
  "validateDeleteConsumerSessions = delete_sessions_checked 0"

fun increasing_ids :: "int \<Rightarrow> int list \<Rightarrow> bool" where
  "increasing_ids prev [] = True"
| "increasing_ids prev (i # is) = (prev < i \<and> increasing_ids i is)"

definition lockDeleteConsumerIDs ::
  "auth_env \<Rightarrow> (tables \<Rightarrow> ('a audit_fields_scheme) list) \<Rightarrow> (('a audit_fields_scheme) \<Rightarrow> bool) \<Rightarrow> int list act" where
  "lockDeleteConsumerIDs env rows P =
     seq (or_error (sql_read env (\<lambda>t. map rID (sql_find P (rows t)))) Unavailable) (\<lambda>ids.
     seq (check (increasing_ids 0 ids) Unavailable) (\<lambda>_. ok ids))"

definition live_token :: "int \<Rightarrow> int \<Rightarrow> gateway_token \<Rightarrow> bool" where
  "live_token uid now g \<longleftrightarrow>
     gtUser g = uid \<and> rDeleted g = 0 \<and> gtStatus g = 1 \<and> (case gtExpiresAt g of None \<Rightarrow> True | Some e \<Rightarrow> now < e)"

definition revoked_token :: "int \<Rightarrow> int \<Rightarrow> gateway_token \<Rightarrow> gateway_token" where
  "revoked_token now actor g = g\<lparr>gtStatus := 3, rUpdatedAt := now, rUpdatedBy := Some actor\<rparr>"

definition buried_row :: "int \<Rightarrow> int \<Rightarrow> ('a audit_fields_scheme) \<Rightarrow> ('a audit_fields_scheme)" where
  "buried_row now actor r = r\<lparr>rDeleted := 1, rUpdatedAt := now, rUpdatedBy := Some actor\<rparr>"

definition ended_session :: "int \<Rightarrow> int \<Rightarrow> session_row \<Rightarrow> session_row" where
  "ended_session now actor s = s\<lparr>sRevokedAt := Some now, sVersion := sVersion s + 1, rUpdatedAt := now, rUpdatedBy := Some actor\<rparr>"

definition update_sessions :: "auth_env \<Rightarrow> (session_row \<Rightarrow> bool) \<Rightarrow> (session_row \<Rightarrow> session_row) \<Rightarrow> nat \<Rightarrow> unit act" where
  "update_sessions env P f n =
     sql_write env (\<lambda>t. if sql_changed P f (tSessions t) \<noteq> n then None else Some (t\<lparr>tSessions := sql_update P f (tSessions t)\<rparr>))"

definition update_tokens :: "auth_env \<Rightarrow> (gateway_token \<Rightarrow> bool) \<Rightarrow> (gateway_token \<Rightarrow> gateway_token) \<Rightarrow> nat \<Rightarrow> unit act" where
  "update_tokens env P f n =
     sql_write env (\<lambda>t. if sql_changed P f (tTokens t) \<noteq> n then None else Some (t\<lparr>tTokens := sql_update P f (tTokens t)\<rparr>))"

text \<open>\<open>tombstoneDeleteConsumerRows\<close> on the policy heads and on the overrides.\<close>

definition tombstone_heads :: "auth_env \<Rightarrow> int \<Rightarrow> int \<Rightarrow> int \<Rightarrow> nat \<Rightarrow> unit act" where
  "tombstone_heads env uid actor now n =
     sql_write env (\<lambda>t. if sql_changed (live_head uid) (buried_row now actor) (tHeads t) \<noteq> n then None
       else Some (t\<lparr>tHeads := sql_update (live_head uid) (buried_row now actor) (tHeads t)\<rparr>))"

definition tombstone_overrides :: "auth_env \<Rightarrow> int \<Rightarrow> int \<Rightarrow> int \<Rightarrow> nat \<Rightarrow> unit act" where
  "tombstone_overrides env uid actor now n =
     sql_write env (\<lambda>t. if sql_changed (live_rule uid) (buried_row now actor) (tRules t) \<noteq> n then None
       else Some (t\<lparr>tRules := sql_update (live_rule uid) (buried_row now actor) (tRules t)\<rparr>))"

definition deletable :: "user_row \<Rightarrow> user_row \<Rightarrow> bool" where
  "deletable target u \<longleftrightarrow>
     rID u = rID target \<and> rGUID u = rGUID target \<and> rDeleted u = 0 \<and> uAuthVersion u = uAuthVersion target \<and> uRole u = uRole target \<and>
     uStatus u = uStatus target"

definition deleted_user :: "int \<Rightarrow> int \<Rightarrow> user_row \<Rightarrow> user_row" where
  "deleted_user now actor u =
     u\<lparr>uAuthVersion := uAuthVersion u + 1, uIDCardHash := None, rDeleted := 1, uVerified := False, uNickname := None, uPasswordHash := None,
       uPhone := None, uRealName := None, uStatus := UserStatusDisabled, rUpdatedAt := now, rUpdatedBy := Some actor\<rparr>"

definition delete_first :: "auth_env \<Rightarrow> delete_execution \<Rightarrow> operation_row \<Rightarrow> (int \<times> user_row) act" where
  "delete_first env x op =
     seq (clock_now env) (\<lambda>now.
     seq (check (\<not> (\<not> validOperationNow now \<or> now < rCreatedAt op \<or> now < rUpdatedAt op)) Unavailable) (\<lambda>_.
     seq (locked_user env (dxTarget x)) (\<lambda>target.
     seq (check (\<not> (rID target \<le> 0 \<or> rID target = opActor op \<or> rGUID target \<noteq> dxTarget x \<or> rDeleted target \<noteq> 0 \<or> uAuthVersion target \<le> 0))
         Unavailable) (\<lambda>_. ok (now, target)))))"

definition delete_won :: "user_row \<Rightarrow> outcome" where
  "delete_won target =
     \<lparr>toFailure = None, toResultKind = ResultUser, toResultGUID = Some (rGUID target), toAuthVersion = None, toPolicyVersion = None,
      toRole = None, toHTTP = 200\<rparr>"

definition delete_writes ::
  "auth_env \<Rightarrow> crypto \<Rightarrow> operation_row \<Rightarrow> int \<Rightarrow> user_row \<Rightarrow> operation_row list \<Rightarrow> session_row list \<Rightarrow> outcome act" where
  "delete_writes env crypto op now target all_ops sessions =
     (let uid = rID target; actor = opActor op in
      seq (lockDeleteConsumerIDs env tTokens (live_token uid now)) (\<lambda>tokenIDs.
      seq (lockDeleteConsumerIDs env tHeads (live_head uid)) (\<lambda>headIDs.
      seq (lockDeleteConsumerIDs env tRules (live_rule uid)) (\<lambda>overrideIDs.
      seq (new_guid env) (\<lambda>guid.
      seq (check (0 < guid) Unavailable) (\<lambda>_.
      seq (update_sessions env (\<lambda>s. live_session uid s \<and> sVersion s < maxInt32) (ended_session now actor) (length sessions)) (\<lambda>_.
      seq (update_tokens env (live_token uid now) (revoked_token now actor) (length tokenIDs)) (\<lambda>_.
      seq (tombstone_heads env uid actor now (length headIDs)) (\<lambda>_.
      seq (tombstone_overrides env uid actor now (length overrideIDs)) (\<lambda>_.
      seq (update_users env (deletable target) (deleted_user now actor) 1) (\<lambda>_.
      seq (redactCreatedAccountResponse env crypto all_ops (rGUID target) actor now) (\<lambda>_.
      seq (consumer_event env guid now actor uid AuthAuditEventUserDeleted) (\<lambda>_.
      ok (delete_won target))))))))))))))"

definition delete_rest ::
  "auth_env \<Rightarrow> crypto \<Rightarrow> delete_execution \<Rightarrow> operation_row \<Rightarrow> int \<Rightarrow> user_row \<Rightarrow> operation_row list \<Rightarrow> outcome act" where
  "delete_rest env crypto x op now target all_ops =
     (if uAuthVersion target \<noteq> dxAuthVersion x then ok (deleteConsumerFailure FailureTargetVersionConflict)
      else if maxInt32 \<le> uAuthVersion target then ok (deleteConsumerFailure FailureConsumerValidation)
      else
        seq (or_error (sql_read env (\<lambda>t. sql_find (live_session (rID target)) (tSessions t))) Unavailable) (\<lambda>sessions.
        case validateDeleteConsumerSessions sessions of
          Inl _ \<Rightarrow> fail_with Unavailable
        | Inr (Some f) \<Rightarrow> ok (deleteConsumerFailure f)
        | Inr None \<Rightarrow> delete_writes env crypto op now target all_ops sessions))"

definition Execute_delete ::
  "auth_env \<Rightarrow> crypto \<Rightarrow> delete_execution \<Rightarrow> delete_state \<times> auth_work \<Rightarrow> operation_row \<Rightarrow> op_store \<Rightarrow>
   (outcome \<times> tables) option \<times> (delete_state \<times> auth_work)" where
  "Execute_delete env crypto x c op st =
     (let (begun, s) = beginConsumer (fst c) in
      if \<not> begun \<or> \<not> deleteConsumerOperationValid op then (None, (s, snd c))
      else case run_on (delete_first env x op) (osTables st) (snd c) of
        (Inl er, w) \<Rightarrow> (None, (s, w))
      | (Inr ((now, target), _), w) \<Rightarrow>
      if \<not> deleteConsumerTargetStateAllowed target
      then (Some (deleteConsumerFailure FailureTargetStateConflict, osTables st), (s, w))
      else case recordDeleteFacts x target s of
        None \<Rightarrow> (None, (s, w))
      | Some s \<Rightarrow>
          (case run_on (delete_rest env crypto x op now target (osOps st)) (osTables st) w of
             (Inl er, w) \<Rightarrow> (None, (s, w))
           | (Inr (o', t), w) \<Rightarrow> (Some (o', t), (s, w))))"

section \<open>Writers\<close>

definition delete_detail :: "delete_execution \<Rightarrow> delete_facts option \<Rightarrow> action_event \<Rightarrow> (bytes \<times> json) list" where
  "delete_detail x facts ev =
     [(''operation_ref'', JStr (aePublicRef ev)), (''actor_guid'', jint (aeActor ev)), (''target_guid'', jint (dxTarget x)),
      (''reason'', JStr (dxReason x))] @
     (case facts of
        None \<Rightarrow> []
      | Some f \<Rightarrow> (''before_status'', JStr (UserStatus_String (dfBeforeStatus f))) #
                  (if aeState ev = OperationSucceeded then [(''after_status'', JStr ''deleted'')] else []))"

definition delete_audit :: "writer_env \<Rightarrow> delete_execution \<Rightarrow> (delete_state \<times> auth_work) event_writer" where
  "delete_audit env x c ev st =
     (let s = fst c in
      if dsAuditStarted s \<or> \<not> validDeleteTerminalEnvelope ev (dxTarget x) (weNow env) \<or> (aeState ev = OperationSucceeded \<and> dsFacts s = None)
      then (None, c)
      else
        (put_log env ev (loadDeleteWriterBinding (weFault env) st ev (dxTarget x))
           (\<lambda>actor. log_row env ev actor (map_option dfTarget (dsFacts s)) ''users.delete'' (user_resource (dxTarget x))
              (delete_detail x (dsFacts s) ev) None) st,
         (s\<lparr>dsAuditStarted := True\<rparr>, snd c)))"

definition delete_outbox :: "writer_env \<Rightarrow> action_event \<Rightarrow> op_store \<Rightarrow> tables option" where
  "delete_outbox env ev st =
     (case aeTarget ev of
        None \<Rightarrow> None
      | Some guid \<Rightarrow>
          if \<not> validDeleteTerminalEnvelope ev guid (weNow env) then None
          else put_outbox env ev (loadDeleteWriterBinding (weFault env) st ev guid) st)"

definition delete_consumer :: "auth_env \<Rightarrow> crypto \<Rightarrow> delete_execution \<Rightarrow> (delete_state \<times> auth_work) consumer" where
  "delete_consumer env crypto x =
     \<lparr>coPrelock = None, coPreflight = None, coExecute = Execute_delete env crypto x, coClear = id, coConfirmed = id\<rparr>"

end
