(* ===== verification/Consumer_Logic.thy ===== *)
theory Consumer_Logic
  imports Reset_Password Operation_Properties Auth_Properties
begin

text \<open>
  What the account consumers share: the parts of an acknowledged execution with the consumer's outcome, the rows that
  the writers add, and the tables that an account change leaves alone.
\<close>

section \<open>Acknowledged executions\<close>

lemma state_strings:
  "AdminOperationState_String OperationFailed \<noteq> AdminOperationState_String OperationSucceeded"
  by code_simp

lemma acknowledgedD:
  assumes run: "Execute_operation env oid co audit outbox c st = (Inr view, oid', c', st')"
    and won: "ovStatus view = AdminOperationState_String OperationSucceeded" and ok: "ops_ok st"
  obtains lo :: locked_operation and now c0 o' t1 c1 t2 c2 c3 where
    "loOp lo \<in> set (osOps st)" "rID (loOp lo) = oiID oid" "acAction (loDescriptor lo) = opAction (loOp lo)"
    "admit_operation env co c lo st = (Inr now, c0)"
    "coExecute co c0 (loOp lo) (st\<lparr>osVers := osVers st'\<rparr>) = (Some (o', t1), c1)" "toFailure o' = None"
    "audit c1 (terminal_event lo now OperationSucceeded o') (st\<lparr>osVers := osVers st', osTables := t1\<rparr>) = (Some t2, c2)"
    "outbox c2 (terminal_event lo now OperationSucceeded o') (st\<lparr>osVers := osVers st', osTables := t2\<rparr>) = (Some (osTables st'), c3)"
    "osOps st' = map (\<lambda>r. if r = loOp lo then settled_row (rID (loActor lo)) now OperationSucceeded o' r else r) (osOps st)"
    "ticket_consumed (osVers st') (loOp lo)" "c' = coClear co (coConfirmed co c3)"
proof -
  obtain lease lo c0 now vs c1 cap' where oid': "oid' = oid\<lparr>oiCapability := cap'\<rparr>" and l: "lock_operation env oid' lease st = Inr lo"
    and a: "admit_operation env co c lo st = (Inr now, c0)"
    and k: "consume_ticket (oeFault env 12) (loTicket lo) (rID (loActor lo)) now (osVers st) = Some vs"
    and s: "settle_operation env co audit outbox c0 lo now (st\<lparr>osVers := vs\<rparr>) = (Inr (view, st'), c1)"
    and c': "c' = coClear co (coConfirmed co c1)"
    using Execute_operationD[OF run] by metis
  note lo = lock_operationD[OF l]
  obtain o' t1 c2 t2 c3 t3 where x: "coExecute co c0 (loOp lo) (st\<lparr>osVers := vs\<rparr>) = (Some (o', t1), c2)"
    "audit c2 (terminal_event lo now (if toFailure o' = None then OperationSucceeded else OperationFailed) o')
       (st\<lparr>osVers := vs\<rparr>\<lparr>osTables := if toFailure o' = None then t1 else osTables (st\<lparr>osVers := vs\<rparr>)\<rparr>) = (Some t2, c3)"
    "outbox c3 (terminal_event lo now (if toFailure o' = None then OperationSucceeded else OperationFailed) o') (st\<lparr>osVers := vs\<rparr>\<lparr>osTables := t2\<rparr>) = (Some t3, c1)"
    and st': "st' = st\<lparr>osVers := vs\<rparr>\<lparr>osTables := t3, osOps := sql_update (settleable (loOp lo) (loLease lo) (map_option rID (loTicket lo)))
        (settled_row (rID (loActor lo)) now (if toFailure o' = None then OperationSucceeded else OperationFailed) o') (osOps (st\<lparr>osVers := vs\<rparr>))\<rparr>"
    and view: "view = operationView (loDescriptor lo)
      (settled_row (rID (loActor lo)) now (if toFailure o' = None then OperationSucceeded else OperationFailed) o' (loOp lo)) now"
    by (rule settle_operationD[OF s])
  have n: "toFailure o' = None"
    using won view state_strings by (auto simp: operationView_def settled_row_def Let_def split: if_splits)
  have ops: "osOps st' = map (\<lambda>r. if r = loOp lo then settled_row (rID (loActor lo)) now OperationSucceeded o' r else r) (osOps st)"
    using settled_ops[OF ok l] by (simp add: st' n)
  have ticket: "ticket_consumed vs (loOp lo)"
    using consume_ticket_tickets[OF k] lo(6) by (auto simp: ticket_consumed_def split: option.split)
  have tail: "osTables st' = t3" "osVers st' = vs" by (simp_all add: st')
  have key: "rID (loOp lo) = oiID oid" using lo(2) oid' by simp
  show thesis
    by (rule that[OF lo(1) key lo(7) a, of o' t1 c2 t2 c3 c1]) (use x n ops tail ticket c' in simp_all)
qed

lemma settled_alone:
  assumes "ops_ok st" "op \<in> set (osOps st)"
    "ops = map (\<lambda>r. if r = op then settled_row actor now terminal o' r else r) (osOps st)"
  shows "\<forall>r \<in> set ops. if rID r = rID op then opState r = terminal else r \<in> set (osOps st)"
proof
  fix r assume "r \<in> set ops"
  then obtain q where q: "q \<in> set (osOps st)" "r = (if q = op then settled_row actor now terminal o' q else q)"
    unfolding assms(3) by auto
  have "rID q = rID op \<Longrightarrow> q = op"
    using assms(1,2) q(1) unfolding ops_ok_def distinct_map inj_on_def by blast
  then show "if rID r = rID op then opState r = terminal else r \<in> set (osOps st)"
    using q by (auto simp: settled_row_def Let_def)
qed

lemma admit_prelockD:
  assumes "admit_operation env co c lo st = (Inr now, c0)" "coPrelock co = Some pre"
  obtains v u where "loTicket lo = Some v" "pre c (loOp lo) v (osTables st) = (Inr u, c0)"
  using assms
  by (auto simp: admit_operation_def prelock_target_def Let_def split: prod.splits sum.splits if_splits option.splits)

section \<open>Rows of the writers\<close>

lemma insert_log_Some:
  "insert_log fault row t = Some t' \<longleftrightarrow>
     \<not> fault \<and> (\<forall>r \<in> set (tLogs t). rGUID r \<noteq> rGUID row) \<and> t' = t\<lparr>tLogs := tLogs t @ [row\<lparr>rID := tNextID t\<rparr>], tNextID := tNextID t + 1\<rparr>"
  by (auto simp: insert_log_def)

lemma put_logD:
  assumes "put_log env ev b row st = Some t"
  obtains actor where "t = (osTables st)\<lparr>tLogs := tLogs (osTables st) @ [(row actor)\<lparr>rID := tNextID (osTables st)\<rparr>],
      tNextID := tNextID (osTables st) + 1\<rparr>" "0 < weGUID env"
proof -
  obtain b' where "b = Some b'" "\<not> weGUID env \<le> 0" "insert_log (weFault env 4) (row (wbActor b')) (osTables st) = Some t"
    using assms by (cases b) (auto simp: put_log_def split: if_splits)
  then show thesis using that[of "wbActor b'"] by (simp add: insert_log_Some)
qed

lemma put_outboxD:
  assumes "put_outbox env ev b st = Some t"
  obtains b' where "b = Some b'" "t = (osTables st)\<lparr>tOutbox := tOutbox (osTables st) @ [(outbox_event env ev b')\<lparr>rID := tNextID (osTables st)\<rparr>],
      tNextID := tNextID (osTables st) + 1\<rparr>"
proof -
  obtain b' where "b = Some b'" "insert_outbox (weFault env 4) (outbox_event env ev b') (osTables st) = Some t"
    using assms by (cases b) (auto simp: put_outbox_def split: if_splits)
  then show thesis using that[of b'] by (auto simp: insert_outbox_def split: if_splits)
qed

lemma outbox_event_fields [simp]:
  "obPublicRef ((outbox_event env ev b)\<lparr>rID := i\<rparr>) = aePublicRef ev" "obState ((outbox_event env ev b)\<lparr>rID := i\<rparr>) = aeState ev"
  "obAction ((outbox_event env ev b)\<lparr>rID := i\<rparr>) = aeAction ev" "obTarget ((outbox_event env ev b)\<lparr>rID := i\<rparr>) = aeTarget ev"
  "obResultGUID ((outbox_event env ev b)\<lparr>rID := i\<rparr>) = aeResultGUID ev" "obFailure ((outbox_event env ev b)\<lparr>rID := i\<rparr>) = aeFailure ev"
  "obDelivery ((outbox_event env ev b)\<lparr>rID := i\<rparr>) = DeliveryPending" "obOperation ((outbox_event env ev b)\<lparr>rID := i\<rparr>) = wbOperation b"
  by (simp_all add: outbox_event_def audit_fields.defs outbox_row.defs)

lemma log_row_fields [simp]:
  "alUser ((log_row env ev actor uid action resource kvs ip)\<lparr>rID := i\<rparr>) = uid"
  "alAction ((log_row env ev actor uid action resource kvs ip)\<lparr>rID := i\<rparr>) = action"
  "alResource ((log_row env ev actor uid action resource kvs ip)\<lparr>rID := i\<rparr>) = Some resource"
  "alDetail ((log_row env ev actor uid action resource kvs ip)\<lparr>rID := i\<rparr>) = detail kvs"
  by (simp_all add: log_row_def audit_fields.defs audit_log.defs)

section \<open>Tables an account change leaves alone\<close>

definition spares :: "auth_work \<Rightarrow> auth_work \<Rightarrow> bool" where
  "spares w w' \<longleftrightarrow>
     (let t = awTables w; t' = awTables w' in
      tLogs t' = tLogs t \<and> tOutbox t' = tOutbox t \<and> tResponses t' = tResponses t \<and> tTokens t' = tTokens t \<and> tHeads t' = tHeads t \<and>
      tRules t' = tRules t)"

interpretation spares: step_order spares
  by unfold_locales (simp_all add: spares_def Let_def)

lemma spares_event [simp]: "keeps spares (sql_write env (insert_auth_event ev))"
  by (intro spares.keeps_write) (auto simp: spares_def insert_auth_event_some)

lemma spares_sessions [simp]: "keeps spares (sql_write env (\<lambda>t. Some (t\<lparr>tSessions := f (tSessions t)\<rparr>)))"
  by (intro spares.keeps_write) (auto simp: spares_def)

lemma spares_revokeLocked [simp]: "keeps spares (revokeLocked env s actor type input)"
  unfolding revokeLocked_def auditFields_def by (auto intro!: spares.keeps_seq)

lemma spares_mark [simp]: "keeps spares (MarkSessionRevoked env sid ttl)"
  unfolding MarkSessionRevoked_def by (intro spares.keeps_command) (simp add: spares_def)

lemma keeps_cond: "keeps R m \<Longrightarrow> keeps R m' \<Longrightarrow> keeps R (if b then m else m')"
  by simp

lemma spares_users [simp]: "keeps spares (update_users env P f n)"
  unfolding update_users_def
proof (intro spares.keeps_write)
  fix w :: auth_work and t
  assume "(if sql_changed P f (tUsers (awTables w)) \<noteq> n then None
    else Some ((awTables w)\<lparr>tUsers := sql_update P f (tUsers (awTables w))\<rparr>)) = Some t"
  then have "t = (awTables w)\<lparr>tUsers := sql_update P f (tUsers (awTables w))\<rparr>" by (metis option.distinct(1) option.inject)
  then show "spares w (w\<lparr>awTables := t\<rparr>)" by (simp add: spares_def)
qed

lemma keepsD: "keeps R m \<Longrightarrow> m w = (r, w') \<Longrightarrow> R w w'"
  by (metis keeps_def snd_conv)

lemma update_users_Inr:
  "update_users env P f n w = (Inr u, w') \<longleftrightarrow>
     \<not> aeSQL env (awStatements w) \<and> sql_changed P f (tUsers (awTables w)) = n \<and>
     w' = w\<lparr>awStatements := awStatements w + 1, awTables := (awTables w)\<lparr>tUsers := sql_update P f (tUsers (awTables w))\<rparr>\<rparr>"
  by (auto simp: update_users_def act_simps split: if_splits)

lemma run_on_Inr:
  "run_on m t w = (Inr (a, t'), w') \<longleftrightarrow> m (w\<lparr>awTables := t\<rparr>) = (Inr a, w') \<and> t' = awTables w'"
  by (auto simp: run_on_def split: prod.splits sum.splits)

end
