(* ===== verification/Reset_Properties.thy ===== *)
theory Reset_Properties
  imports Consumer_Logic
begin

text \<open>
  An acknowledged reset of a password: the new hash is stored, everything that the account could do before is refused
  from then on, and the reset is audited and announced once.
\<close>

section \<open>The steps\<close>

lemma prelock_resetD:
  assumes "prelock_reset env x op v t (s, w) = (Inr u, c)"
  obtains w' where "c = (s\<lparr>rsPrelocked := True, rsTarget := Some u, rsSessions := sql_find (live_session (rID u)) (tSessions t)\<rparr>, w')"
    "sql_first (\<lambda>r. rGUID r = rxTarget x \<and> rDeleted r = 0) (tUsers t) = Some u" "validExecutionBinding x op v" "\<not> rsStarted s"
proof -
  obtain ss w' t' where r: "run_on (reset_locks env x) t w = (Inr ((u, ss), t'), w')"
    "c = (s\<lparr>rsPrelocked := True, rsTarget := Some u, rsSessions := ss\<rparr>, w')" "validExecutionBinding x op v" "\<not> rsStarted s"
    using assms by (auto simp: prelock_reset_def Let_def split: if_splits prod.splits sum.splits)
  then have "sql_first (\<lambda>r. rGUID r = rxTarget x \<and> rDeleted r = 0) (tUsers t) = Some u" "ss = sql_find (live_session (rID u)) (tSessions t)"
    by (auto simp: run_on_Inr reset_locks_def locked_user_def act_simps)
  with r that show thesis by simp
qed

lemma Execute_resetD:
  assumes "Execute_reset env x (s, w) op st = (Some (o', t), c)" "toFailure o' = None"
  obtains u w' where "rsTarget s = Some u" "reset_change env x op u (rsSessions s) (rsHash s) (w\<lparr>awTables := osTables st\<rparr>) = (Inr o', w')"
    "t = awTables w'" "rsTargetID (fst c) = rID u"
  using assms
  by (auto simp: Execute_reset_def Let_def run_on_Inr split: option.splits if_splits prod.splits sum.splits)

lemma marks_change_no_table: "each (\<lambda>s. MarkSessionRevoked env (sSID s) (ttl s)) ss w = (Inr (), w') \<Longrightarrow> awTables w' = awTables w"
  by (rule each_mark_tables)

lemma spares_reset: "keeps spares (reset_change env x op u ss hash)"
  unfolding reset_change_def consumer_event_def
  by (intro spares.keeps_seq spares.keeps_each keeps_cond) simp_all

lemma grows_reset: "keeps grows (reset_change env x op u ss hash)"
proof -
  have user: "keeps grows (update_users env (reset_current u) (reset_user hash (uAuthVersion u + 1) now a) n)" for now a n
    unfolding update_users_def
  proof (intro grows.keeps_write)
    fix w :: auth_work and t
    let ?f = "reset_user hash (uAuthVersion u + 1) now a"
    assume "(if sql_changed (reset_current u) ?f (tUsers (awTables w)) \<noteq> n then None
      else Some ((awTables w)\<lparr>tUsers := sql_update (reset_current u) ?f (tUsers (awTables w))\<rparr>)) = Some t"
    then have t: "t = (awTables w)\<lparr>tUsers := sql_update (reset_current u) ?f (tUsers (awTables w))\<rparr>"
      by (metis option.distinct(1) option.inject)
    have "grows w (set_users (sql_update (reset_current u) ?f) w)"
      by (rule grows_update) (simp_all add: keeps_identity_def reset_user_def reset_current_def)
    then show "grows w (w\<lparr>awTables := t\<rparr>)" by (simp add: t set_users_def)
  qed
  show ?thesis
    unfolding reset_change_def consumer_event_def MarkSessionRevoked_def
    by (intro grows.keeps_seq grows.keeps_each keeps_cond user) simp_all
qed

text \<open>A row update that hits one account.\<close>

lemma one_user_updated:
  assumes "accounts_ok t" "u \<in> set (tUsers t)" "P u" "\<And>r. P r \<Longrightarrow> rID r = rID u"
  shows "sql_update P f (tUsers t) = map (\<lambda>r. if r = u then f r else r) (tUsers t)"
proof (rule sql_update_row[of rID])
  show "distinct (map rID (tUsers t))" using assms(1) by (simp add: accounts_ok_def)
qed (fact assms)+

lemma reset_change_effect:
  assumes run: "reset_change env x op u (sql_find (live_session (rID u)) (tSessions (awTables w))) hash w = (Inr o', w')"
    and won: "toFailure o' = None" and ok: "accounts_ok (awTables w)" and u: "u \<in> set (tUsers (awTables w))" "rDeleted u = 0"
  obtains now where "tUsers (awTables w') = map (\<lambda>r. if r = u then reset_user hash (uAuthVersion u + 1) now (opActor op) r else r) (tUsers (awTables w))"
    "ends_access u w w'" "uAuthVersion u = rxAuthVersion x" "toResultGUID o' = Some (rGUID u)" "0 < rID u" "toResultKind o' = ResultUser"
proof -
  let ?ss = "sql_find (live_session (rID u)) (tSessions (awTables w))"
  let ?act = "opActor op"
  obtain now w0 w1 w2 w3 guid where c: "uAuthVersion u = rxAuthVersion x" "w0 = w\<lparr>awNow := awNow w + 1\<rparr>"
    and m: "each (\<lambda>s. MarkSessionRevoked env (sSID s) (sessionTTL s now)) ?ss w0 = (Inr (), w1)"
    and r: "each (\<lambda>s. revokeLocked env s ?act AuthAuditEventSessionRevoked no_input) ?ss w1 = (Inr (), w2)"
    and upd: "update_users env (reset_current u) (reset_user hash (uAuthVersion u + 1) now ?act) 1 w2 = (Inr (), w3)"
    and ev: "consumer_event env guid now ?act (rID u) AuthAuditEventPasswordChanged (w3\<lparr>awGUID := awGUID w3 + 1\<rparr>) = (Inr (), w')"
    and o': "toResultGUID o' = Some (rGUID u)" "0 < rID u" "toResultKind o' = ResultUser"
    using run won unfolding reset_change_def
    by (clarsimp simp: act_simps resetPasswordFailure_def split: if_splits)
  have t1: "awTables w1 = awTables w" using marks_change_no_table[OF m] c(2) by simp
  have "\<forall>s \<in> set ?ss. sRevokedAt s = None" by (simp add: live_session_def)
  from each_revoke_effect[OF r this] obtain g where g: "session_change g" "tSessions (awTables w2) = map g (tSessions (awTables w))"
    "tUsers (awTables w2) = tUsers (awTables w)" "\<forall>r. rID r \<in> rID ` set ?ss \<longrightarrow> rDeleted r = 0 \<longrightarrow> sRevokedAt (g r) \<noteq> None"
    unfolding t1 by blast
  have t3: "tUsers (awTables w3) = sql_update (reset_current u) (reset_user hash (uAuthVersion u + 1) now ?act) (tUsers (awTables w))"
    "tSessions (awTables w3) = map g (tSessions (awTables w))"
    using upd g by (auto simp: update_users_Inr)
  have t4: "tUsers (awTables w') = tUsers (awTables w3)" "tSessions (awTables w') = tSessions (awTables w3)"
    using ev by (auto simp: consumer_event_def act_simps insert_auth_event_some)
  let ?f = "reset_user hash (uAuthVersion u + 1) now ?act"
  have one: "sql_update (reset_current u) ?f (tUsers (awTables w)) = map (\<lambda>r. if r = u then ?f r else r) (tUsers (awTables w))"
    by (rule one_user_updated[OF ok u(1)]) (use u(2) in \<open>auto simp: reset_current_def\<close>)
  have live: "sql_update (live_user (rID u)) ?f (tUsers (awTables w)) = map (\<lambda>r. if r = u then ?f r else r) (tUsers (awTables w))"
    by (rule one_user_updated[OF ok u(1)]) (use u(2) in \<open>auto simp: live_user_def\<close>)
  have rev: "sRevokedAt (g s) \<noteq> None" if "s \<in> set (tSessions (awTables w))" "sUser s = rID u" "rDeleted s = 0" for s
  proof (cases "sRevokedAt s = None")
    case True
    then have "rID s \<in> rID ` set ?ss" using that by (simp add: live_session_def)
    then show ?thesis using g(4) that(3) by blast
  next
    case False
    then show ?thesis using g(1) by (simp add: session_change_def)
  qed
  have "ends_access u w w'"
    unfolding ends_access_def t4 t3 one
    using u g(1) rev
    by (intro conjI exI[of _ g] exI[of _ ?f]) (simp_all add: live, simp_all add: keeps_identity_def reset_user_def live_user_def)
  then show thesis by (rule that[OF t4(1)[unfolded t3(1) one] _ c(1) o'])
qed

section \<open>The whole reset\<close>

text \<open>What happens to the access of an account in the tables of a store.\<close>

definition access_ended :: "collation \<Rightarrow> user_row \<Rightarrow> op_store \<Rightarrow> op_store \<Rightarrow> bool" where
  "access_ended same u st st' \<longleftrightarrow>
     (\<forall>(cl :: session_claims) s env cs v. awTables v = osTables st' \<longrightarrow> scUser cl = rGUID u \<longrightarrow> scAuthVersion cl \<le> uAuthVersion u \<longrightarrow>
        s \<in> set (tSessions (osTables st)) \<longrightarrow> sUser s = rID u \<longrightarrow>
        \<not> (\<exists>r w'. authenticateClaims env same cl (Auth_History.run_calls same cs v) = (Inr r, w')) \<and>
        \<not> accepts_session env same (sSID s) (Auth_History.run_calls same cs v))"

lemma access_endedD:
  assumes "access_ended same u st st'" "awTables v = osTables st'" "scUser cl = rGUID u" "scAuthVersion cl \<le> uAuthVersion u"
    "s \<in> set (tSessions (osTables st))" "sUser s = rID u"
  shows "\<not> (\<exists>r w'. authenticateClaims env same cl v = (Inr r, w'))" "\<not> accepts_session env same (sSID s) v"
proof -
  have "\<not> (\<exists>r w'. authenticateClaims env same cl (Auth_History.run_calls same [] v) = (Inr r, w')) \<and>
      \<not> accepts_session env same (sSID s) (Auth_History.run_calls same [] v)"
    using assms unfolding access_ended_def by blast
  then show "\<not> (\<exists>r w'. authenticateClaims env same cl v = (Inr r, w'))" "\<not> accepts_session env same (sSID s) v" by simp_all
qed

lemma access_endedI:
  assumes "ends_access u w w'" "equivp same" "accounts_ok (awTables w)" "sids_ok same (awTables w)"
    "accounts_ok (osTables st')" "tUsers (osTables st') = tUsers (awTables w')" "tSessions (osTables st') = tSessions (awTables w')"
    "osTables st = awTables w"
  shows "access_ended same u st st'"
  unfolding access_ended_def
proof (intro allI impI)
  fix cl :: session_claims and s env cs and v :: auth_work
  assume v: "awTables v = osTables st'" and cl: "scUser cl = rGUID u" "scAuthVersion cl \<le> uAuthVersion u"
    and s: "s \<in> set (tSessions (osTables st))" "sUser s = rID u"
  obtain g f where e: "session_change g" "keeps_identity f" "tSessions (awTables v) = map g (tSessions (awTables w))"
    "tUsers (awTables v) = sql_update (live_user (rID u)) f (tUsers (awTables w))" "u \<in> set (tUsers (awTables w))" "live_user (rID u) u"
    "uAuthVersion (f u) = uAuthVersion u + 1"
    "\<forall>s \<in> set (tSessions (awTables w)). sUser s = rID u \<longrightarrow> rDeleted s = 0 \<longrightarrow> sRevokedAt (g s) \<noteq> None"
    using assms(1) unfolding ends_access_def v assms(6,7) by blast
  have "f u \<in> set (tUsers (awTables v))" using e(5,6) unfolding e(4) by (auto simp: set_sql_update)
  moreover have "rGUID (f u) = scUser cl" using e(2) cl by (simp add: keeps_identity_def)
  ultimately have "outdated cl v" using e(7) cl(2) assms(5) unfolding outdated_def v by force
  then have "outdated cl (Auth_History.run_calls same cs v)" by (rule outdated_calls)
  moreover have "spent same (sSID s) v"
    by (rule spent_from_change[OF assms(2,4) e(1,3)]) (use e(8) s assms(8) in auto)
  ultimately show "\<not> (\<exists>r w'. authenticateClaims env same cl (Auth_History.run_calls same cs v) = (Inr r, w')) \<and>
      \<not> accepts_session env same (sSID s) (Auth_History.run_calls same cs v)"
    using outdated_denied spent_never_accepted[OF assms(2)] by blast
qed

lemma reset_auditD:
  assumes "reset_audit env x c ev st = (Some t, c')"
  obtains lg where "t = (osTables st)\<lparr>tLogs := tLogs (osTables st) @ [lg], tNextID := tNextID (osTables st) + 1\<rparr>"
    "alAction lg = ''users.reset_password''" "alResource lg = Some (user_resource (rxTarget x))" "alDetail lg = detail (reset_detail x ev)"
    "alUser lg = (if 0 < rsTargetID (fst c) then Some (rsTargetID (fst c)) else None)"
proof -
  have p: "put_log env ev (loadResetPasswordBinding (weFault env) st ev (rxTarget x))
           (\<lambda>actor. log_row env ev actor (if 0 < rsTargetID (fst c) then Some (rsTargetID (fst c)) else None) ''users.reset_password''
              (user_resource (rxTarget x)) (reset_detail x ev) None) st = Some t"
    using assms by (auto simp: reset_audit_def Let_def split: if_splits)
  show thesis by (rule put_logD[OF p]) (rule that, assumption, simp_all)
qed

lemma reset_outboxD:
  assumes "reset_outbox env ev st = Some t"
  obtains ob where "t = (osTables st)\<lparr>tOutbox := tOutbox (osTables st) @ [ob], tNextID := tNextID (osTables st) + 1\<rparr>"
    "obPublicRef ob = aePublicRef ev" "obState ob = aeState ev" "obTarget ob = aeTarget ev" "obResultGUID ob = aeResultGUID ev"
    "obDelivery ob = DeliveryPending"
proof -
  obtain b where "put_outbox env ev b st = Some t"
    using assms by (auto simp: reset_outbox_def split: option.splits if_splits)
  then show thesis by (rule put_outboxD) (rule that, assumption, simp_all)
qed

abbreviation reset_run where
  "reset_run env au x wa wb oid s w st \<equiv>
     Execute_operation env oid (reset_consumer au x) (reset_audit wa x) (\<lambda>c ev st. (reset_outbox wb ev st, c)) (s, w) st"

text \<open>C39: A reset of a password that is acknowledged as succeeded has stored the reviewed hash for its target alone, with the
  next auth version; from then on no access token with the old version (or an older one) and no session of the target is
  accepted, whatever calls follow; exactly one audit row and one outbox row were added, about this operation; the
  operation is settled and its ticket consumed; and the execution no longer holds the hash.\<close>

theorem reset_password_end_to_end:
  assumes "reset_run env au x wa wb oid s w st = (Inr view, oid', c', st')"
    and "ovStatus view = AdminOperationState_String OperationSucceeded" "equivp same"
    and "ops_ok st" "accounts_ok (osTables st)" "sids_ok same (osTables st)"
  shows "\<exists>op u now lg ob.
    op \<in> set (osOps st) \<and> rID op = oiID oid \<and> u \<in> set (tUsers (osTables st)) \<and> rGUID u = rxTarget x \<and> uAuthVersion u = rxAuthVersion x \<and>
    tUsers (osTables st') =
      map (\<lambda>r. if r = u then reset_user (rsHash s) (uAuthVersion u + 1) now (opActor op) r else r) (tUsers (osTables st)) \<and>
    access_ended same u st st' \<and>
    tLogs (osTables st') = tLogs (osTables st) @ [lg] \<and> alAction lg = ''users.reset_password'' \<and> alUser lg = Some (rID u) \<and>
    tOutbox (osTables st') = tOutbox (osTables st) @ [ob] \<and> obPublicRef ob = opPublicRef op \<and> obState ob = OperationSucceeded \<and>
    obResultGUID ob = Some (rGUID u) \<and> obDelivery ob = DeliveryPending \<and>
    (\<forall>r \<in> set (osOps st'). if rID r = oiID oid then opState r = OperationSucceeded else r \<in> set (osOps st)) \<and> ticket_consumed (osVers st') op \<and>
    rsHash (fst c') = []"
proof -
  let ?co = "reset_consumer au x"
  obtain lo :: locked_operation and at c0 o' t1 c1 t2 c2 c3 where op: "loOp lo \<in> set (osOps st)" "rID (loOp lo) = oiID oid"
    and adm: "admit_operation env ?co (s, w) lo st = (Inr at, c0)"
    and ex: "coExecute ?co c0 (loOp lo) (st\<lparr>osVers := osVers st'\<rparr>) = (Some (o', t1), c1)" "toFailure o' = None"
    and au: "reset_audit wa x c1 (terminal_event lo at OperationSucceeded o') (st\<lparr>osVers := osVers st', osTables := t1\<rparr>) = (Some t2, c2)"
    and ob: "(reset_outbox wb (terminal_event lo at OperationSucceeded o') (st\<lparr>osVers := osVers st', osTables := t2\<rparr>), c2) = (Some (osTables st'), c3)"
    and ops: "osOps st' = map (\<lambda>r. if r = loOp lo then settled_row (rID (loActor lo)) at OperationSucceeded o' r else r) (osOps st)"
    and ticket: "ticket_consumed (osVers st') (loOp lo)" and c': "c' = coClear ?co (coConfirmed ?co c3)"
    by (rule acknowledgedD[OF assms(1,2,4)])
  obtain v u where pre: "prelock_reset au x (loOp lo) v (osTables st) (s, w) = (Inr u, c0)"
    by (rule admit_prelockD[OF adm]) (simp add: reset_consumer_def, blast)
  obtain w1 where p: "c0 = (s\<lparr>rsPrelocked := True, rsTarget := Some u, rsSessions := sql_find (live_session (rID u)) (tSessions (osTables st))\<rparr>, w1)"
    "sql_first (\<lambda>r. rGUID r = rxTarget x \<and> rDeleted r = 0) (tUsers (osTables st)) = Some u"
    by (rule prelock_resetD[OF pre])
  let ?w = "w1\<lparr>awTables := osTables st\<rparr>" and ?ss = "sql_find (live_session (rID u)) (tSessions (osTables st))"
  have "Execute_reset au x c0 (loOp lo) (st\<lparr>osVers := osVers st'\<rparr>) = (Some (o', t1), c1)"
    using ex(1) by (simp add: reset_consumer_def)
  then obtain u' w2 where r0: "rsTarget (s\<lparr>rsPrelocked := True, rsTarget := Some u, rsSessions := ?ss\<rparr>) = Some u'"
    "reset_change au x (loOp lo) u' (rsSessions (s\<lparr>rsPrelocked := True, rsTarget := Some u, rsSessions := ?ss\<rparr>))
      (rsHash (s\<lparr>rsPrelocked := True, rsTarget := Some u, rsSessions := ?ss\<rparr>))
      (w1\<lparr>awTables := osTables (st\<lparr>osVers := osVers st'\<rparr>)\<rparr>) = (Inr o', w2)" "t1 = awTables w2" "rsTargetID (fst c1) = rID u'"
    unfolding p(1) by (rule Execute_resetD[OF _ ex(2)])
  have "u' = u" using r0(1) by simp
  then have r: "reset_change au x (loOp lo) u ?ss (rsHash s) ?w = (Inr o', w2)" "t1 = awTables w2" "rsTargetID (fst c1) = rID u"
    using r0(2-4) by simp_all
  have u: "u \<in> set (tUsers (osTables st))" "rGUID u = rxTarget x" "rDeleted u = 0" using sql_firstD[OF p(2)] by auto
  obtain now where e: "tUsers (awTables w2) = map (\<lambda>r. if r = u then reset_user (rsHash s) (uAuthVersion u + 1) now (opActor (loOp lo)) r else r) (tUsers (osTables st))"
    "ends_access u ?w w2" "uAuthVersion u = rxAuthVersion x" "toResultGUID o' = Some (rGUID u)" "0 < rID u"
    by (rule reset_change_effect[of au x "loOp lo" u ?w "rsHash s" o' w2]) (use r(1) ex(2) assms(5) u in simp_all)
  have sp: "tLogs t1 = tLogs (osTables st)" "tOutbox t1 = tOutbox (osTables st)"
    using keepsD[OF spares_reset r(1)] by (simp_all add: spares_def Let_def r(2))
  have grow: "accounts_ok t1" using keepsD[OF grows_reset r(1)] assms(5) by (simp add: grows_def r(2))
  obtain lg where lg: "t2 = t1\<lparr>tLogs := tLogs t1 @ [lg], tNextID := tNextID t1 + 1\<rparr>" "alAction lg = ''users.reset_password''"
    "alUser lg = (if 0 < rsTargetID (fst c1) then Some (rsTargetID (fst c1)) else None)"
    by (rule reset_auditD[OF au]) simp
  have "reset_outbox wb (terminal_event lo at OperationSucceeded o') (st\<lparr>osVers := osVers st', osTables := t2\<rparr>) = Some (osTables st')"
    using ob by simp
  then obtain b where b0: "osTables st' = (osTables (st\<lparr>osVers := osVers st', osTables := t2\<rparr>))
      \<lparr>tOutbox := tOutbox (osTables (st\<lparr>osVers := osVers st', osTables := t2\<rparr>)) @ [b], tNextID := tNextID (osTables (st\<lparr>osVers := osVers st', osTables := t2\<rparr>)) + 1\<rparr>"
    "obPublicRef b = aePublicRef (terminal_event lo at OperationSucceeded o')" "obState b = aeState (terminal_event lo at OperationSucceeded o')"
    "obResultGUID b = aeResultGUID (terminal_event lo at OperationSucceeded o')" "obDelivery b = DeliveryPending"
    by (rule reset_outboxD)
  have b: "osTables st' = t2\<lparr>tOutbox := tOutbox t2 @ [b], tNextID := tNextID t2 + 1\<rparr>" using b0(1) by simp
  have bf: "obPublicRef b = opPublicRef (loOp lo)" "obState b = OperationSucceeded" "obResultGUID b = Some (rGUID u)" "obDelivery b = DeliveryPending"
    by (simp_all add: b0(2-5) terminal_event_def Let_def e(4))
  have fin: "tUsers (osTables st') = tUsers (awTables w2)" "tSessions (osTables st') = tSessions (awTables w2)"
    "tLogs (osTables st') = tLogs (osTables st) @ [lg]" "tOutbox (osTables st') = tOutbox (osTables st) @ [b]"
    by (simp_all add: b lg(1) sp r(2)[symmetric])
  have "accounts_ok (osTables st')" using grow by (force simp: b lg(1) accounts_ok_def)
  then have acc: "access_ended same u st st'"
    by (intro access_endedI[OF e(2) assms(3)]) (use assms(5,6) fin in simp_all)
  have hash: "rsHash (fst c') = []" by (simp add: c' reset_consumer_def ClearSecrets_def)
  have who: "alUser lg = Some (rID u)" using lg(3) r(3) e(5) by simp
  note alone = settled_alone[OF assms(4) op(1) ops, unfolded op(2)]
  show ?thesis
    by (intro exI[of _ "loOp lo"] exI[of _ u] exI[of _ now] exI[of _ lg] exI[of _ b] conjI op u acc ticket hash who alone bf lg(2) e(3)
        fin(3,4) trans[OF fin(1) e(1)])
qed

end
