(* ===== verification/Delete_Logic.thy ===== *)
theory Delete_Logic
  imports Delete_User Reset_Properties
begin

text \<open>
  What the steps of a deletion leave alone, and the redaction of the stored answers: no answer about the account keeps its
  body.
\<close>

section \<open>Logs are left to the writers\<close>

definition same_logs :: "auth_work \<Rightarrow> auth_work \<Rightarrow> bool" where
  "same_logs w w' \<longleftrightarrow>
     (let t = awTables w; t' = awTables w' in tLogs t' = tLogs t \<and> tOutbox t' = tOutbox t \<and> tNextID t \<le> tNextID t')"

interpretation same_logs: step_order same_logs
  by unfold_locales (auto simp: same_logs_def Let_def)

lemma logs_write:
  assumes "\<And>t t'. f t = Some t' \<Longrightarrow> tLogs t' = tLogs t \<and> tOutbox t' = tOutbox t \<and> tNextID t \<le> tNextID t'"
  shows "keeps same_logs (sql_write env f)"
  by (intro same_logs.keeps_write) (use assms in \<open>simp add: same_logs_def Let_def\<close>)

text \<open>The writes that test how many rows they change.\<close>

lemma counted_write: "(if b then None else Some t) = Some t' \<longleftrightarrow> \<not> b \<and> t' = t"
  by auto

lemma logs_updates [simp]:
  "keeps same_logs (update_users env P f n)" "keeps same_logs (update_sessions env Q g n)" "keeps same_logs (update_tokens env R h n)"
  "keeps same_logs (tombstone_heads env uid actor now n)" "keeps same_logs (tombstone_overrides env uid actor now n)"
  "keeps same_logs (update_responses env S k)"
  unfolding update_users_def update_sessions_def update_tokens_def tombstone_heads_def tombstone_overrides_def update_responses_def
  by (intro logs_write, clarsimp simp: counted_write)+

lemma logs_event [simp]: "keeps same_logs (consumer_event env guid now actor uid type)"
  unfolding consumer_event_def by (intro logs_write) (auto simp: insert_auth_event_some)

lemma logs_redact [simp]: "keeps same_logs (redactCreatedAccountResponse env crypto ops target actor now)"
proof -
  have one: "keeps same_logs (redact_one env crypto target actor now m r)" for m r
    unfolding redact_one_def redact_active_def reseal_redacted_def Let_def
    by (intro same_logs.keeps_seq same_logs.keeps_or_error keeps_cond) (auto intro!: same_logs.keeps_seq split: option.split)
  show ?thesis
    unfolding redactCreatedAccountResponse_def Let_def
    by (intro same_logs.keeps_seq) (auto intro!: same_logs.keeps_seq same_logs.keeps_each one split: prod.split)
qed

section \<open>Redaction\<close>

text \<open>How the stored answers may change: a body stays or becomes the empty one.\<close>

definition redacting :: "(response_row \<Rightarrow> response_row) \<Rightarrow> bool" where
  "redacting g \<longleftrightarrow> (\<forall>q. rID (g q) = rID q \<and> rpTarget (g q) = rpTarget q \<and> (rpBody (g q) = rpBody q \<or> rpBody (g q) = redacted_body))"

lemma redacting_comp: "redacting g \<Longrightarrow> redacting h \<Longrightarrow> redacting (\<lambda>q. h (g q))"
  unfolding redacting_def by metis

lemma redacting_update:
  assumes "\<And>q. rID (f q) = rID q \<and> rpTarget (f q) = rpTarget q \<and> (rpBody (f q) = rpBody q \<or> rpBody (f q) = redacted_body)"
  shows "redacting (\<lambda>q. if P q then f q else q)"
  using assms by (simp add: redacting_def)

lemma update_responses_Inr:
  "update_responses env P f w = (Inr u, w') \<longleftrightarrow>
     \<not> aeSQL env (awStatements w) \<and> sql_changed P f (tResponses (awTables w)) = 1 \<and>
     w' = w\<lparr>awStatements := awStatements w + 1, awTables := (awTables w)\<lparr>tResponses := sql_update P f (tResponses (awTables w))\<rparr>\<rparr>"
  by (auto simp: update_responses_def act_simps split: if_splits)

lemma changed_row: "sql_changed P f rows = 1 \<Longrightarrow> \<exists>q \<in> set rows. P q"
  unfolding sql_changed_def by (metis (mono_tags, lifting) One_nat_def filter_False length_0_conv nat.simps(3))

text \<open>One answer is redacted; the others at most as well.\<close>

definition redacts :: "response_row \<Rightarrow> response_row list \<Rightarrow> response_row list \<Rightarrow> bool" where
  "redacts r rows rows' \<longleftrightarrow> (\<exists>g. redacting g \<and> rows' = map g rows \<and> (\<forall>q \<in> set rows. rID q = rID r \<longrightarrow> rpBody (g q) = redacted_body))"

lemma redact_active_effect:
  assumes run: "redact_active env crypto target actor now op r w = (Inr (), w')"
    and d: "distinct (map rID (tResponses (awTables w)))"
  shows "redacts r (tResponses (awTables w)) (tResponses (awTables w')) \<and>
    awTables w' = (awTables w)\<lparr>tResponses := tResponses (awTables w')\<rparr>"
proof -
  let ?P = "active_current r target op" and ?rows = "tResponses (awTables w)"
  obtain hmac where c: "sql_changed ?P (redacted_row hmac now actor) ?rows = 1"
    and w': "awTables w' = (awTables w)\<lparr>tResponses := sql_update ?P (redacted_row hmac now actor) ?rows\<rparr>"
    using run unfolding redact_active_def act_simps update_responses_Inr
    by (elim exE conjE) (rule that, simp_all)
  obtain q0 where q0: "q0 \<in> set ?rows" "?P q0" using changed_row[OF c] by blast
  have body: "rpBody (if ?P q then redacted_row hmac now actor q else q) = redacted_body" if "q \<in> set ?rows" "rID q = rID r" for q
  proof -
    have "rID q0 = rID q" using q0(2) that(2) by (simp add: active_current_def)
    then have "q = q0" using inj_onD[of rID "set ?rows" q q0] d that(1) q0(1) by (simp add: distinct_map)
    then show ?thesis using q0 by (simp add: redacted_row_def)
  qed
  have "redacts r ?rows (sql_update ?P (redacted_row hmac now actor) ?rows)"
    unfolding redacts_def sql_update_def
  proof (intro exI[of _ "\<lambda>q. if ?P q then redacted_row hmac now actor q else q"] conjI ballI impI refl)
    show "redacting (\<lambda>q. if ?P q then redacted_row hmac now actor q else q)"
      by (rule redacting_update) (simp add: redacted_row_def)
  qed (rule body)
  then show ?thesis by (simp add: w')
qed

lemma reseal_effect:
  assumes run: "reseal_redacted env crypto target actor now op r w = (Inr (), w')"
    and load: "\<And>q. q \<in> set (tResponses (awTables w)) \<Longrightarrow> rID q = rID r \<Longrightarrow> rpBody q = rpBody r"
  shows "redacts r (tResponses (awTables w)) (tResponses (awTables w')) \<and>
    awTables w' = (awTables w)\<lparr>tResponses := tResponses (awTables w')\<rparr>"
proof -
  let ?rows = "tResponses (awTables w)"
  have body: "rpBody r = redacted_body" using run by (auto simp: reseal_redacted_def act_simps Let_def)
  consider "awTables w' = awTables w" | hmac op' where
    "awTables w' = (awTables w)\<lparr>tResponses := sql_update (sentinel_current r target op') (resealed_row hmac now actor) ?rows\<rparr>"
    using run by (auto simp: reseal_redacted_def act_simps Let_def update_responses_Inr split: option.splits if_splits)
  then show ?thesis
  proof cases
    case 1
    have "redacts r ?rows ?rows"
      unfolding redacts_def by (intro exI[of _ "\<lambda>q. q"]) (use load body in \<open>auto simp: redacting_def\<close>)
    then show ?thesis by (simp add: 1)
  next
    case 2
    have "redacts r ?rows (sql_update (sentinel_current r target op') (resealed_row hmac now actor) ?rows)"
      unfolding redacts_def sql_update_def
    proof (intro exI[of _ "\<lambda>q. if sentinel_current r target op' q then resealed_row hmac now actor q else q"] conjI ballI impI refl)
      show "redacting (\<lambda>q. if sentinel_current r target op' q then resealed_row hmac now actor q else q)"
        by (rule redacting_update) (simp add: resealed_row_def)
      show "rpBody (if sentinel_current r target op' q then resealed_row hmac now actor q else q) = redacted_body"
        if "q \<in> set ?rows" "rID q = rID r" for q
        using load[OF that] body by (simp add: resealed_row_def)
    qed
    then show ?thesis by (simp add: 2)
  qed
qed

lemma loaded_body:
  assumes "loadCreateAccountResponseBody False rows i = Some b" "q \<in> set rows" "rID q = i"
  shows "rpBody q = b"
proof -
  obtain r where r: "take 2 (filter (\<lambda>r. rID r = i) rows) = [r]" "b = rpBody r"
    using assms(1) by (auto simp: loadCreateAccountResponseBody_def split: if_splits list.splits)
  then have "filter (\<lambda>r. rID r = i) rows = [r]" by (cases "filter (\<lambda>r. rID r = i) rows" rule: remdups_adj.cases) auto
  moreover have "q \<in> set (filter (\<lambda>r. rID r = i) rows)" using assms(2,3) by simp
  ultimately show ?thesis using r(2) by simp
qed

lemma redact_one_effect:
  assumes run: "redact_one env crypto target actor now m r w = (Inr (), w')"
    and d: "distinct (map rID (tResponses (awTables w)))"
  shows "redacts r (tResponses (awTables w)) (tResponses (awTables w')) \<and>
    awTables w' = (awTables w)\<lparr>tResponses := tResponses (awTables w')\<rparr>"
proof -
  let ?w1 = "w\<lparr>awStatements := awStatements w + 1\<rparr>"
  have "\<exists>b. loadCreateAccountResponseBody False (tResponses (awTables w)) (rID r) = Some b \<and>
      ((\<exists>op. redact_active env crypto target actor now op (r\<lparr>rpBody := b\<rparr>) ?w1 = (Inr (), w')) \<or>
       reseal_redacted env crypto target actor now (map_of m (rpOperation r)) (r\<lparr>rpBody := b\<rparr>) ?w1 = (Inr (), w'))"
    using run unfolding redact_one_def Let_def
    by (auto simp: act_simps split: if_splits)
  then obtain b w1 where b: "loadCreateAccountResponseBody False (tResponses (awTables w)) (rID r) = Some b" "awTables w1 = awTables w"
    and c: "(\<exists>op. redact_active env crypto target actor now op (r\<lparr>rpBody := b\<rparr>) w1 = (Inr (), w')) \<or>
      reseal_redacted env crypto target actor now (map_of m (rpOperation r)) (r\<lparr>rpBody := b\<rparr>) w1 = (Inr (), w')"
    by (elim exE conjE) (rule that[of _ ?w1], simp_all)
  have "redacts (r\<lparr>rpBody := b\<rparr>) (tResponses (awTables w1)) (tResponses (awTables w')) \<and>
      awTables w' = (awTables w1)\<lparr>tResponses := tResponses (awTables w')\<rparr>"
    using c
  proof
    assume "\<exists>op. redact_active env crypto target actor now op (r\<lparr>rpBody := b\<rparr>) w1 = (Inr (), w')"
    then show ?thesis using redact_active_effect d b(2) by metis
  next
    assume "reseal_redacted env crypto target actor now (map_of m (rpOperation r)) (r\<lparr>rpBody := b\<rparr>) w1 = (Inr (), w')"
    then show ?thesis by (rule reseal_effect) (use loaded_body[OF b(1)] b(2) in simp)
  qed
  then show ?thesis by (simp add: b(2) redacts_def)
qed

lemma redact_each_effect:
  assumes "each (redact_one env crypto target actor now m) rs w = (Inr (), w')" "distinct (map rID (tResponses (awTables w)))"
  shows "(\<exists>g. redacting g \<and> tResponses (awTables w') = map g (tResponses (awTables w)) \<and>
      (\<forall>q \<in> set (tResponses (awTables w)). rID q \<in> rID ` set rs \<longrightarrow> rpBody (g q) = redacted_body)) \<and>
    awTables w' = (awTables w)\<lparr>tResponses := tResponses (awTables w')\<rparr>"
  using assms
proof (induction rs arbitrary: w)
  case Nil
  then show ?case by (auto simp: act_simps redacting_def intro!: exI[of _ "\<lambda>q. q"])
next
  case (Cons r rs)
  obtain w1 where w1: "redact_one env crypto target actor now m r w = (Inr (), w1)" "each (redact_one env crypto target actor now m) rs w1 = (Inr (), w')"
    using Cons.prems(1) by (auto simp: act_simps)
  obtain g where g: "redacting g" "tResponses (awTables w1) = map g (tResponses (awTables w))"
    "\<forall>q \<in> set (tResponses (awTables w)). rID q = rID r \<longrightarrow> rpBody (g q) = redacted_body"
    and t1: "awTables w1 = (awTables w)\<lparr>tResponses := tResponses (awTables w1)\<rparr>"
    using redact_one_effect[OF w1(1) Cons.prems(2)] unfolding redacts_def by blast
  have ids: "map rID (map g rows) = map rID rows" for rows using g(1) by (simp add: redacting_def)
  have "distinct (map rID (tResponses (awTables w1)))" using Cons.prems(2) unfolding g(2) ids .
  from Cons.IH[OF w1(2) this] obtain h where h: "redacting h" "tResponses (awTables w') = map h (tResponses (awTables w1))"
    "\<forall>q \<in> set (tResponses (awTables w1)). rID q \<in> rID ` set rs \<longrightarrow> rpBody (h q) = redacted_body"
    and t2: "awTables w' = (awTables w1)\<lparr>tResponses := tResponses (awTables w')\<rparr>"
    by blast
  have body: "rpBody (h (g q)) = redacted_body" if "q \<in> set (tResponses (awTables w))" "rID q \<in> rID ` set (r # rs)" for q
  proof (cases "rID q = rID r")
    case True
    then have "rpBody (g q) = redacted_body" using g(3) that(1) by blast
    then show ?thesis using h(1) unfolding redacting_def by metis
  next
    case False
    then have "rID (g q) \<in> rID ` set rs" using that(2) g(1) by (simp add: redacting_def)
    then show ?thesis using h(3) that(1) g(2) by auto
  qed
  have rows: "tResponses (awTables w') = map (\<lambda>q. h (g q)) (tResponses (awTables w))" using g(2) h(2) by simp
  have tabs: "awTables w' = (awTables w)\<lparr>tResponses := tResponses (awTables w')\<rparr>"
    using t1 t2 by (metis (no_types, lifting) tables.surjective tables.update_convs(9))
  show ?case
    by (intro conjI exI[of _ "\<lambda>q. h (g q)"] redacting_comp[OF g(1) h(1)] rows tabs) (use body in blast)
qed

text \<open>No stored answer about the account keeps its body.\<close>

lemma redact_effect:
  assumes "redactCreatedAccountResponse env crypto ops target actor now w = (Inr (), w')" "distinct (map rID (tResponses (awTables w)))"
  shows "(\<forall>q \<in> set (tResponses (awTables w')). rpTarget q = target \<longrightarrow> rpBody q = redacted_body) \<and>
    awTables w' = (awTables w)\<lparr>tResponses := tResponses (awTables w')\<rparr>"
proof -
  let ?rs = "sort_key rpOperation (filter (\<lambda>r. rpTarget r = target) (tResponses (awTables w)))"
  have "\<exists>w1 m. awTables w1 = awTables w \<and> (each (redact_one env crypto target actor now m) ?rs w1 = (Inr (), w') \<or> (?rs = [] \<and> w' = w1))"
  proof -
    let ?k = "\<lambda>rows rs. let (m, ids) = index_markers target rows [] [] in
      seq (if ids = [] then ok [] else sql_read env (\<lambda>t. sql_find (\<lambda>op. rID op \<in> set ids) ops)) (\<lambda>found_ops.
      let (m, found) = index_operations target found_ops m [] in
      if m = [] \<and> rs = [] then ok ()
      else
        seq (each (redact_one env crypto target actor now found) rs) (\<lambda>_.
        check (list_all (\<lambda>(k, _). k \<in> rpOperation ` set rs) m) Unavailable))"
    obtain u w0 rows w1' rs w1 where raw: "check (0 < target \<and> 0 < actor \<and> 0 < now) Unavailable w = (Inr u, w0)"
      "sql_read env (\<lambda>t. sort_key obOperation (filter (created_marker_row target) (tOutbox t))) w0 = (Inr rows, w1')"
      "sql_read env (\<lambda>t. sort_key rpOperation (filter (\<lambda>r. rpTarget r = target) (tResponses t))) w1' = (Inr rs, w1)"
      "?k rows rs w1 = (Inr (), w')"
      using assms(1) unfolding redactCreatedAccountResponse_def seq_Inr by (elim exE conjE) (rule that)
    have tabs: "w0 = w" "awTables w1' = awTables w0" "awTables w1 = awTables w1'"
        "rs = sort_key rpOperation (filter (\<lambda>r. rpTarget r = target) (tResponses (awTables w1')))"
      using raw(1,2,3) by (simp_all add: act_simps)
    then have rs: "rs = ?rs" by simp
    have w1: "awTables w1 = awTables w" "?k rows ?rs w1 = (Inr (), w')"
      using tabs(1,2,3) raw(4)[unfolded rs] by simp fact
    obtain m ids where im: "index_markers target rows [] [] = (m, ids)" by fastforce
    obtain found_ops w2 where raw2: "(if ids = [] then ok [] else sql_read env (\<lambda>t. sql_find (\<lambda>op. rID op \<in> set ids) ops)) w1 = (Inr found_ops, w2)"
      "(let (m, found) = index_operations target found_ops m [] in
      if m = [] \<and> ?rs = [] then ok ()
      else
        seq (each (redact_one env crypto target actor now found) ?rs) (\<lambda>_.
        check (list_all (\<lambda>(k, _). k \<in> rpOperation ` set ?rs) m) Unavailable)) w2 = (Inr (), w')"
      using w1(2) unfolding im Let_def prod.case seq_Inr by (elim exE conjE) (rule that, assumption, simp only: Let_def)
    have w2: "awTables w2 = awTables w" using raw2(1) w1(1) by (simp add: act_simps split: if_splits)
    obtain m' found where io: "index_operations target found_ops m [] = (m', found)" by fastforce
    show ?thesis
      using raw2(2) unfolding io Let_def prod.case
      by (cases "m' = [] \<and> ?rs = []") (use w2 in \<open>auto simp: act_simps\<close>)
  qed
  then show ?thesis
  proof (elim disjE exE conjE)
    fix w1 m assume w1: "awTables w1 = awTables w" "each (redact_one env crypto target actor now m) ?rs w1 = (Inr (), w')"
    from redact_each_effect[OF w1(2)] assms(2) w1(1) obtain g where g: "redacting g" "tResponses (awTables w') = map g (tResponses (awTables w))"
      "\<forall>q \<in> set (tResponses (awTables w)). rID q \<in> rID ` set ?rs \<longrightarrow> rpBody (g q) = redacted_body"
      "awTables w' = (awTables w)\<lparr>tResponses := tResponses (awTables w')\<rparr>"
      by auto
    have "rpBody (g q) = redacted_body" if "q \<in> set (tResponses (awTables w))" "rpTarget (g q) = target" for q
    proof -
      have "q \<in> set ?rs" using that g(1) by (simp add: redacting_def)
      then show ?thesis using g(3) that(1) by blast
    qed
    then show ?thesis using g(2,4) by auto
  next
    fix w1 assume "?rs = []" "w' = w1" "awTables w1 = awTables w"
    then have none: "?rs = []" "awTables w' = awTables w" by simp_all
    then have "set ?rs = {}" by simp
    then have "\<forall>q \<in> set (tResponses (awTables w)). rpTarget q \<noteq> target" by auto
    then show ?thesis using none(2) by simp
  qed
qed

end
