(* ===== verification/Delete_Properties.thy ===== *)
theory Delete_Properties
  imports Delete_Logic
begin

text \<open>
  An acknowledged deletion of an account: nothing that the account could do is possible any more, its personal columns and
  the stored answer of its creation are gone, and the deletion is audited and announced once.
\<close>

section \<open>The rows of the account\<close>

lemma update_sessions_Inr:
  "update_sessions env P f n w = (Inr u, w') \<longleftrightarrow>
     \<not> aeSQL env (awStatements w) \<and> sql_changed P f (tSessions (awTables w)) = n \<and>
     w' = w\<lparr>awStatements := awStatements w + 1, awTables := (awTables w)\<lparr>tSessions := sql_update P f (tSessions (awTables w))\<rparr>\<rparr>"
  by (auto simp: update_sessions_def act_simps split: if_splits)

lemma update_tokens_Inr:
  "update_tokens env P f n w = (Inr u, w') \<longleftrightarrow>
     \<not> aeSQL env (awStatements w) \<and> sql_changed P f (tTokens (awTables w)) = n \<and>
     w' = w\<lparr>awStatements := awStatements w + 1, awTables := (awTables w)\<lparr>tTokens := sql_update P f (tTokens (awTables w))\<rparr>\<rparr>"
  by (auto simp: update_tokens_def act_simps split: if_splits)

lemma tombstone_Inr:
  "tombstone_heads env uid actor now n w = (Inr u, w') \<longleftrightarrow>
     \<not> aeSQL env (awStatements w) \<and> sql_changed (live_head uid) (buried_row now actor) (tHeads (awTables w)) = n \<and>
     w' = w\<lparr>awStatements := awStatements w + 1,
       awTables := (awTables w)\<lparr>tHeads := sql_update (live_head uid) (buried_row now actor) (tHeads (awTables w))\<rparr>\<rparr>"
  "tombstone_overrides env uid actor now n w = (Inr u, w') \<longleftrightarrow>
     \<not> aeSQL env (awStatements w) \<and> sql_changed (live_rule uid) (buried_row now actor) (tRules (awTables w)) = n \<and>
     w' = w\<lparr>awStatements := awStatements w + 1,
       awTables := (awTables w)\<lparr>tRules := sql_update (live_rule uid) (buried_row now actor) (tRules (awTables w))\<rparr>\<rparr>"
  by (auto simp: tombstone_heads_def tombstone_overrides_def act_simps split: if_splits)

lemma locked_ids_Inr: "lockDeleteConsumerIDs env rows P w = (Inr is, w') \<Longrightarrow> awTables w' = awTables w"
  by (auto simp: lockDeleteConsumerIDs_def act_simps)

lemma checked_sessions_bounded: "delete_sessions_checked prev ss = Inr None \<Longrightarrow> s \<in> set ss \<Longrightarrow> sVersion s < maxInt32"
  by (induction prev ss rule: delete_sessions_checked.induct) (auto split: if_splits)

text \<open>What the deletion does to the rows that hang on the account: keys, policy head and overrides.\<close>

definition holdings_buried :: "int \<Rightarrow> int \<Rightarrow> int \<Rightarrow> tables \<Rightarrow> tables \<Rightarrow> bool" where
  "holdings_buried uid now actor t t' \<longleftrightarrow>
     tTokens t' = sql_update (live_token uid now) (revoked_token now actor) (tTokens t) \<and>
     tHeads t' = sql_update (live_head uid) (buried_row now actor) (tHeads t) \<and>
     tRules t' = sql_update (live_rule uid) (buried_row now actor) (tRules t)"

lemma no_row_left: "(\<And>r. P r \<Longrightarrow> \<not> P (f r)) \<Longrightarrow> \<not> (\<exists>r \<in> set (sql_update P f rows). P r)"
  by (auto simp: sql_update_def)

lemma holdings_gone:
  assumes "holdings_buried uid now actor t t'"
  shows "\<not> (\<exists>g \<in> set (tTokens t'). live_token uid now g)" "\<not> (\<exists>h \<in> set (tHeads t'). live_head uid h)"
    "\<not> (\<exists>p \<in> set (tRules t'). live_rule uid p)"
proof -
  have t: "tTokens t' = sql_update (live_token uid now) (revoked_token now actor) (tTokens t)"
    "tHeads t' = sql_update (live_head uid) (buried_row now actor) (tHeads t)"
    "tRules t' = sql_update (live_rule uid) (buried_row now actor) (tRules t)"
    using assms unfolding holdings_buried_def by blast+
  show "\<not> (\<exists>g \<in> set (tTokens t'). live_token uid now g)"
    unfolding t by (rule no_row_left) (simp add: live_token_def revoked_token_def)
  show "\<not> (\<exists>h \<in> set (tHeads t'). live_head uid h)"
    unfolding t by (rule no_row_left) (simp add: live_head_def buried_row_def)
  show "\<not> (\<exists>p \<in> set (tRules t'). live_rule uid p)"
    unfolding t by (rule no_row_left) (simp add: live_rule_def buried_row_def)
qed

lemma delete_writes_effect:
  assumes run: "delete_writes env crypto op now u all_ops ss w = (Inr o', w')"
    and ss: "ss = sql_find (live_session (rID u)) (tSessions (awTables w))" "validateDeleteConsumerSessions ss = Inr None"
    and ok: "accounts_ok (awTables w)" and u: "u \<in> set (tUsers (awTables w))" "rDeleted u = 0"
    and d: "distinct (map rID (tResponses (awTables w)))"
  shows "tUsers (awTables w') = map (\<lambda>r. if r = u then deleted_user now (opActor op) r else r) (tUsers (awTables w))"
    "ends_access u w w'" "holdings_buried (rID u) now (opActor op) (awTables w) (awTables w')"
    "\<forall>q \<in> set (tResponses (awTables w')). rpTarget q = rGUID u \<longrightarrow> rpBody q = redacted_body" "o' = delete_won u"
proof -
  let ?act = "opActor op" and ?t = "awTables w"
  let ?P = "\<lambda>s. live_session (rID u) s \<and> sVersion s < maxInt32" and ?g = "ended_session now (opActor op)"
  let ?f = "deleted_user now (opActor op)"
  obtain a1 w1 a2 w2 a3 w3 guid w4 a5 w5 a6 w6 a7 w7 a8 w8 a9 w9 a10 w10 a11 w11 a12 w12 where
    r1: "lockDeleteConsumerIDs env tTokens (live_token (rID u) now) w = (Inr a1, w1)"
    and r2: "lockDeleteConsumerIDs env tHeads (live_head (rID u)) w1 = (Inr a2, w2)"
    and r3: "lockDeleteConsumerIDs env tRules (live_rule (rID u)) w2 = (Inr a3, w3)"
    and r4: "new_guid env w3 = (Inr guid, w4)" and r5: "check (0 < guid) Unavailable w4 = (Inr a5, w5)"
    and r6: "update_sessions env ?P ?g (length ss) w5 = (Inr a6, w6)"
    and r7: "update_tokens env (live_token (rID u) now) (revoked_token now ?act) (length a1) w6 = (Inr a7, w7)"
    and r8: "tombstone_heads env (rID u) ?act now (length a2) w7 = (Inr a8, w8)"
    and r9: "tombstone_overrides env (rID u) ?act now (length a3) w8 = (Inr a9, w9)"
    and r10: "update_users env (deletable u) ?f 1 w9 = (Inr a10, w10)"
    and r11: "redactCreatedAccountResponse env crypto all_ops (rGUID u) ?act now w10 = (Inr a11, w11)"
    and r12: "consumer_event env guid now ?act (rID u) AuthAuditEventUserDeleted w11 = (Inr a12, w12)"
    and r13: "ok (delete_won u) w12 = (Inr o', w')"
    using run unfolding delete_writes_def Let_def seq_Inr by (elim exE conjE) (rule that)
  have t5: "awTables w5 = ?t"
    using locked_ids_Inr[OF r1] locked_ids_Inr[OF r2] locked_ids_Inr[OF r3] r4 r5 by (simp add: act_simps)
  have t10: "awTables w10 = ?t\<lparr>tSessions := sql_update ?P ?g (tSessions ?t),
      tTokens := sql_update (live_token (rID u) now) (revoked_token now ?act) (tTokens ?t),
      tHeads := sql_update (live_head (rID u)) (buried_row now ?act) (tHeads ?t),
      tRules := sql_update (live_rule (rID u)) (buried_row now ?act) (tRules ?t), tUsers := sql_update (deletable u) ?f (tUsers ?t)\<rparr>"
    using r6 r7 r8 r9 r10 by (simp add: update_sessions_Inr update_tokens_Inr tombstone_Inr update_users_Inr t5)
  have "distinct (map rID (tResponses (awTables w10)))" using d by (simp add: t10)
  note red = redact_effect[OF r11[unfolded unit_eq[of a11]] this]
  show "o' = delete_won u" using r13 by (simp add: act_simps)
  have w': "w' = w12" using r13 by (simp add: act_simps)
  have t': "tUsers (awTables w') = tUsers (awTables w10)" "tSessions (awTables w') = tSessions (awTables w10)"
    "tTokens (awTables w') = tTokens (awTables w10)" "tHeads (awTables w') = tHeads (awTables w10)"
    "tRules (awTables w') = tRules (awTables w10)" "tResponses (awTables w') = tResponses (awTables w11)"
    using r12 red by (auto simp: w' consumer_event_def act_simps insert_auth_event_some) (metis tables.select_convs tables.surjective tables.update_convs)+
  show "holdings_buried (rID u) now ?act ?t (awTables w')" by (simp add: holdings_buried_def t' t10)
  show "\<forall>q \<in> set (tResponses (awTables w')). rpTarget q = rGUID u \<longrightarrow> rpBody q = redacted_body" using red by (simp add: t')
  have one: "sql_update (deletable u) ?f (tUsers ?t) = map (\<lambda>r. if r = u then ?f r else r) (tUsers ?t)"
    by (rule one_user_updated[OF ok u(1)]) (use u(2) in \<open>auto simp: deletable_def\<close>)
  have live: "sql_update (live_user (rID u)) ?f (tUsers ?t) = map (\<lambda>r. if r = u then ?f r else r) (tUsers ?t)"
    by (rule one_user_updated[OF ok u(1)]) (use u(2) in \<open>auto simp: live_user_def\<close>)
  show "tUsers (awTables w') = map (\<lambda>r. if r = u then ?f r else r) (tUsers ?t)" by (simp add: t' t10 one)
  have rev: "sRevokedAt (if ?P s then ?g s else s) \<noteq> None" if "s \<in> set (tSessions ?t)" "sUser s = rID u" "rDeleted s = 0" for s
  proof (cases "sRevokedAt s = None")
    case True
    then have "live_session (rID u) s" "s \<in> set ss" using that by (simp_all add: live_session_def ss)
    moreover have "sVersion s < maxInt32"
      using ss(2) \<open>s \<in> set ss\<close> by (simp add: validateDeleteConsumerSessions_def checked_sessions_bounded)
    ultimately show ?thesis by (simp add: ended_session_def)
  qed (simp add: ended_session_def)
  have "session_change (\<lambda>s. if ?P s then ?g s else s)" by (simp add: session_change_def ended_session_def)
  moreover have "keeps_identity ?f" by (simp add: keeps_identity_def deleted_user_def)
  moreover have "tSessions (awTables w') = map (\<lambda>s. if ?P s then ?g s else s) (tSessions ?t)"
    by (simp add: t' t10 sql_update_def)
  moreover have "tUsers (awTables w') = sql_update (live_user (rID u)) ?f (tUsers ?t)" by (simp add: t' t10 one live)
  moreover have "live_user (rID u) u" "uAuthVersion (?f u) = uAuthVersion u + 1" using u(2) by (simp_all add: live_user_def deleted_user_def)
  ultimately show "ends_access u w w'"
    unfolding ends_access_def using u(1) rev by blast
qed

section \<open>The whole deletion\<close>

lemma logs_locked_ids: "keeps same_logs (lockDeleteConsumerIDs env rows P)"
  unfolding lockDeleteConsumerIDs_def
  by (intro same_logs.keeps_seq same_logs.keeps_or_error) simp_all

lemma logs_delete: "keeps same_logs (delete_writes env crypto op now u all_ops ss)"
  unfolding delete_writes_def Let_def
  by (intro same_logs.keeps_seq logs_locked_ids) simp_all

lemma delete_restD:
  assumes "delete_rest env crypto x op now u all_ops w = (Inr o', w')" "toFailure o' = None"
  obtains w1 where "awTables w1 = awTables w" "uAuthVersion u = dxAuthVersion x"
    "validateDeleteConsumerSessions (sql_find (live_session (rID u)) (tSessions (awTables w))) = Inr None"
    "delete_writes env crypto op now u all_ops (sql_find (live_session (rID u)) (tSessions (awTables w))) w1 = (Inr o', w')"
proof -
  have v: "uAuthVersion u = dxAuthVersion x" and r: "seq (or_error (sql_read env (\<lambda>t. sql_find (live_session (rID u)) (tSessions t))) Unavailable) (\<lambda>sessions.
      case validateDeleteConsumerSessions sessions of
        Inl _ \<Rightarrow> fail_with Unavailable
      | Inr (Some f) \<Rightarrow> ok (deleteConsumerFailure f)
      | Inr None \<Rightarrow> delete_writes env crypto op now u all_ops sessions) w = (Inr o', w')"
    using assms by (auto simp: delete_rest_def ok_Inr deleteConsumerFailure_def split: if_splits)
  obtain ss w1 where ss: "or_error (sql_read env (\<lambda>t. sql_find (live_session (rID u)) (tSessions t))) Unavailable w = (Inr ss, w1)"
    and c: "(case validateDeleteConsumerSessions ss of Inl _ \<Rightarrow> fail_with Unavailable | Inr (Some f) \<Rightarrow> ok (deleteConsumerFailure f)
      | Inr None \<Rightarrow> delete_writes env crypto op now u all_ops ss) w1 = (Inr o', w')"
    using r unfolding seq_Inr by (elim exE conjE) (rule that)
  have s: "ss = sql_find (live_session (rID u)) (tSessions (awTables w))" "awTables w1 = awTables w" using ss by (simp_all add: act_simps)
  have "validateDeleteConsumerSessions ss = Inr None"
    using c assms(2) by (auto simp: act_simps deleteConsumerFailure_def split: sum.splits option.splits)
  with c that[OF s(2) v] show thesis unfolding s(1) by simp
qed

lemma delete_firstD:
  assumes "delete_first env x op w = (Inr (now, u), w')"
  shows "awTables w' = awTables w" "u \<in> set (tUsers (awTables w))" "rGUID u = dxTarget x" "rDeleted u = 0" "rID u \<noteq> opActor op" "0 < rID u"
proof -
  have l: "locked_user env (dxTarget x) (w\<lparr>awNow := awNow w + 1\<rparr>) = (Inr u, w')" and c: "rDeleted u = 0" "rID u \<noteq> opActor op" "0 < rID u"
    using assms by (auto simp: delete_first_def act_simps)
  have f: "sql_first (\<lambda>r. rGUID r = dxTarget x \<and> rDeleted r = 0) (tUsers (awTables w)) = Some u" "awTables w' = awTables w"
    using l by (auto simp: locked_user_def act_simps)
  show "awTables w' = awTables w" "u \<in> set (tUsers (awTables w))" "rGUID u = dxTarget x" "rDeleted u = 0" "rID u \<noteq> opActor op" "0 < rID u"
    using sql_firstD[OF f(1)] f(2) c by auto
qed

lemma Execute_deleteD:
  assumes run: "Execute_delete env crypto x (s, w) op st = (Some (o', t), c)" and won: "toFailure o' = None"
  obtains now u w1 w2 where "u \<in> set (tUsers (osTables st))" "rGUID u = dxTarget x" "rDeleted u = 0" "rID u \<noteq> opActor op"
    "deleteConsumerTargetStateAllowed u" "awTables w1 = osTables st"
    "delete_rest env crypto x op now u (osOps st) w1 = (Inr o', w2)" "t = awTables w2"
    "dsFacts (fst c) = Some \<lparr>dfTarget = rID u, dfTargetGUID = rGUID u, dfBeforeStatus = uStatus u\<rparr>"
proof -
  obtain s1 now u t1 w1 s2 w2 where first: "run_on (delete_first env x op) (osTables st) w = (Inr ((now, u), t1), w1)"
    and allowed: "deleteConsumerTargetStateAllowed u" and facts: "recordDeleteFacts x u s1 = Some s2"
    and rest: "run_on (delete_rest env crypto x op now u (osOps st)) (osTables st) w1 = (Inr (o', t), w2)" and c: "c = (s2, w2)"
    using run won
    by (auto simp: Execute_delete_def Let_def deleteConsumerFailure_def split: if_splits prod.splits sum.splits option.splits)
  have f: "delete_first env x op (w\<lparr>awTables := osTables st\<rparr>) = (Inr (now, u), w1)" using first by (simp add: run_on_Inr)
  have r: "delete_rest env crypto x op now u (osOps st) (w1\<lparr>awTables := osTables st\<rparr>) = (Inr o', w2)" "t = awTables w2"
    using rest by (simp_all add: run_on_Inr)
  have df: "dsFacts (fst c) = Some \<lparr>dfTarget = rID u, dfTargetGUID = rGUID u, dfBeforeStatus = uStatus u\<rparr>"
    using facts by (auto simp: c recordDeleteFacts_def split: if_splits)
  note d = delete_firstD[OF f]
  show thesis by (rule that[OF _ d(3-5) allowed _ r df]) (use d(2) in simp_all)
qed

lemma delete_auditD:
  assumes "delete_audit env x c ev st = (Some t, c')"
  obtains lg where "t = (osTables st)\<lparr>tLogs := tLogs (osTables st) @ [lg], tNextID := tNextID (osTables st) + 1\<rparr>"
    "alAction lg = ''users.delete''" "alResource lg = Some (user_resource (dxTarget x))"
    "alDetail lg = detail (delete_detail x (dsFacts (fst c)) ev)" "alUser lg = map_option dfTarget (dsFacts (fst c))"
proof -
  have p: "put_log env ev (loadDeleteWriterBinding (weFault env) st ev (dxTarget x))
           (\<lambda>actor. log_row env ev actor (map_option dfTarget (dsFacts (fst c))) ''users.delete'' (user_resource (dxTarget x))
              (delete_detail x (dsFacts (fst c)) ev) None) st = Some t"
    using assms by (auto simp: delete_audit_def Let_def split: if_splits)
  show thesis by (rule put_logD[OF p]) (rule that, assumption, simp_all)
qed

lemma delete_outboxD:
  assumes "delete_outbox env ev st = Some t"
  obtains ob where "t = (osTables st)\<lparr>tOutbox := tOutbox (osTables st) @ [ob], tNextID := tNextID (osTables st) + 1\<rparr>"
    "obPublicRef ob = aePublicRef ev" "obState ob = aeState ev" "obTarget ob = aeTarget ev" "obResultGUID ob = aeResultGUID ev"
    "obDelivery ob = DeliveryPending"
proof -
  obtain b where "put_outbox env ev b st = Some t"
    using assms by (auto simp: delete_outbox_def split: option.splits if_splits)
  then show thesis by (rule put_outboxD) (rule that, assumption, simp_all)
qed

lemma accounts_ok_mapped:
  assumes "accounts_ok t" "tUsers t' = map (\<lambda>r. if r = u then f r else r) (tUsers t)" "keeps_identity f" "tNextID t \<le> tNextID t'"
  shows "accounts_ok t'"
proof -
  have ids: "map rID (tUsers t') = map rID (tUsers t)" "map rGUID (tUsers t') = map rGUID (tUsers t)"
    using assms(3) by (simp_all add: assms(2) keeps_identity_def)
  moreover have "\<forall>r \<in> set (tUsers t'). rID r < tNextID t'"
    using assms(1,3,4) unfolding assms(2) accounts_ok_def keeps_identity_def by fastforce
  ultimately show ?thesis using assms(1) by (simp add: accounts_ok_def)
qed

abbreviation delete_run where
  "delete_run env au crypto x wa wb oid s w st \<equiv>
     Execute_operation env oid (delete_consumer au crypto x) (delete_audit wa x) (\<lambda>c ev st. (delete_outbox wb ev st, c)) (s, w) st"

text \<open>C40: A deletion of an account that is acknowledged as succeeded has reached its target at the reviewed version: the row is
  marked deleted and loses its personal columns and its password hash, with the next auth version, and no other row of
  the users changes; the target was neither the actor nor a root account; from then on no access token and no session of
  it is accepted, whatever calls follow; it has no live gateway token, policy head or override, and no stored answer about
  it keeps its body; exactly one audit row and one outbox row were added, about this operation; and the operation is settled
  and its ticket consumed.\<close>

theorem delete_user_end_to_end:
  assumes "delete_run env au crypto x wa wb oid s w st = (Inr view, oid', c', st')"
    and "ovStatus view = AdminOperationState_String OperationSucceeded" "equivp same"
    and "ops_ok st" "accounts_ok (osTables st)" "sids_ok same (osTables st)" "distinct (map rID (tResponses (osTables st)))"
  shows "\<exists>op u now lg ob.
    op \<in> set (osOps st) \<and> rID op = oiID oid \<and> u \<in> set (tUsers (osTables st)) \<and> rGUID u = dxTarget x \<and> uAuthVersion u = dxAuthVersion x \<and>
    rID u \<noteq> opActor op \<and> uRole u \<noteq> UserRoleRoot \<and>
    tUsers (osTables st') = map (\<lambda>r. if r = u then deleted_user now (opActor op) r else r) (tUsers (osTables st)) \<and>
    access_ended same u st st' \<and> holdings_buried (rID u) now (opActor op) (osTables st) (osTables st') \<and>
    \<not> (\<exists>g \<in> set (tTokens (osTables st')). live_token (rID u) now g) \<and> \<not> (\<exists>h \<in> set (tHeads (osTables st')). live_head (rID u) h) \<and>
    \<not> (\<exists>p \<in> set (tRules (osTables st')). live_rule (rID u) p) \<and>
    (\<forall>q \<in> set (tResponses (osTables st')). rpTarget q = rGUID u \<longrightarrow> rpBody q = redacted_body) \<and>
    tLogs (osTables st') = tLogs (osTables st) @ [lg] \<and> alAction lg = ''users.delete'' \<and> alUser lg = Some (rID u) \<and>
    tOutbox (osTables st') = tOutbox (osTables st) @ [ob] \<and> obPublicRef ob = opPublicRef op \<and> obState ob = OperationSucceeded \<and>
    obResultGUID ob = Some (rGUID u) \<and> obDelivery ob = DeliveryPending \<and>
    (\<forall>r \<in> set (osOps st'). if rID r = oiID oid then opState r = OperationSucceeded else r \<in> set (osOps st)) \<and> ticket_consumed (osVers st') op"
proof -
  let ?co = "delete_consumer au crypto x"
  obtain lo :: locked_operation and at c0 o' t1 c1 t2 c2 c3 where op: "loOp lo \<in> set (osOps st)" "rID (loOp lo) = oiID oid"
    and ex: "coExecute ?co c0 (loOp lo) (st\<lparr>osVers := osVers st'\<rparr>) = (Some (o', t1), c1)" "toFailure o' = None"
    and au: "delete_audit wa x c1 (terminal_event lo at OperationSucceeded o') (st\<lparr>osVers := osVers st', osTables := t1\<rparr>) = (Some t2, c2)"
    and ob: "(delete_outbox wb (terminal_event lo at OperationSucceeded o') (st\<lparr>osVers := osVers st', osTables := t2\<rparr>), c2) = (Some (osTables st'), c3)"
    and ops: "osOps st' = map (\<lambda>r. if r = loOp lo then settled_row (rID (loActor lo)) at OperationSucceeded o' r else r) (osOps st)"
    and ticket: "ticket_consumed (osVers st') (loOp lo)"
    by (rule acknowledgedD[OF assms(1,2,4)])
  obtain s0 w0 where c0: "c0 = (s0, w0)" by (cases c0)
  have "Execute_delete au crypto x (s0, w0) (loOp lo) (st\<lparr>osVers := osVers st'\<rparr>) = (Some (o', t1), c1)"
    using ex(1) by (simp add: delete_consumer_def c0)
  then obtain now u w1 w2 where r0: "u \<in> set (tUsers (osTables (st\<lparr>osVers := osVers st'\<rparr>)))" "rGUID u = dxTarget x" "rDeleted u = 0" "rID u \<noteq> opActor (loOp lo)"
    "deleteConsumerTargetStateAllowed u" "awTables w1 = osTables (st\<lparr>osVers := osVers st'\<rparr>)"
    "delete_rest au crypto x (loOp lo) now u (osOps (st\<lparr>osVers := osVers st'\<rparr>)) w1 = (Inr o', w2)" "t1 = awTables w2"
    "dsFacts (fst c1) = Some \<lparr>dfTarget = rID u, dfTargetGUID = rGUID u, dfBeforeStatus = uStatus u\<rparr>"
    by (rule Execute_deleteD[OF _ ex(2)])
  have u: "u \<in> set (tUsers (osTables st))" and w1: "awTables w1 = osTables st" using r0(1,6) by simp_all
  obtain w1' where d: "awTables w1' = awTables w1" "uAuthVersion u = dxAuthVersion x"
    "validateDeleteConsumerSessions (sql_find (live_session (rID u)) (tSessions (awTables w1))) = Inr None"
    "delete_writes au crypto (loOp lo) now u (osOps (st\<lparr>osVers := osVers st'\<rparr>)) (sql_find (live_session (rID u)) (tSessions (awTables w1))) w1' = (Inr o', w2)"
    by (rule delete_restD[OF r0(7) ex(2)])
  have t1': "awTables w1' = osTables st" using d(1) w1 by simp
  have e: "tUsers (awTables w2) = map (\<lambda>r. if r = u then deleted_user now (opActor (loOp lo)) r else r) (tUsers (awTables w1'))"
    "ends_access u w1' w2" "holdings_buried (rID u) now (opActor (loOp lo)) (awTables w1') (awTables w2)"
    "\<forall>q \<in> set (tResponses (awTables w2)). rpTarget q = rGUID u \<longrightarrow> rpBody q = redacted_body" "o' = delete_won u"
    by (rule delete_writes_effect[OF d(4)]; use t1' w1 d(3) assms(5,7) u r0(3) in simp)+
  have sl: "tLogs t1 = tLogs (osTables st)" "tOutbox t1 = tOutbox (osTables st)" "tNextID (osTables st) \<le> tNextID t1"
    using keepsD[OF logs_delete d(4)] by (simp_all add: same_logs_def Let_def r0(8) t1')
  obtain lg where lg: "t2 = (osTables (st\<lparr>osVers := osVers st', osTables := t1\<rparr>))\<lparr>tLogs := tLogs (osTables (st\<lparr>osVers := osVers st', osTables := t1\<rparr>)) @ [lg],
      tNextID := tNextID (osTables (st\<lparr>osVers := osVers st', osTables := t1\<rparr>)) + 1\<rparr>" "alAction lg = ''users.delete''"
    "alUser lg = map_option dfTarget (dsFacts (fst c1))"
    by (rule delete_auditD[OF au])
  have "delete_outbox wb (terminal_event lo at OperationSucceeded o') (st\<lparr>osVers := osVers st', osTables := t2\<rparr>) = Some (osTables st')"
    using ob by simp
  then obtain b where b0: "osTables st' = (osTables (st\<lparr>osVers := osVers st', osTables := t2\<rparr>))
      \<lparr>tOutbox := tOutbox (osTables (st\<lparr>osVers := osVers st', osTables := t2\<rparr>)) @ [b], tNextID := tNextID (osTables (st\<lparr>osVers := osVers st', osTables := t2\<rparr>)) + 1\<rparr>"
    "obPublicRef b = aePublicRef (terminal_event lo at OperationSucceeded o')" "obState b = aeState (terminal_event lo at OperationSucceeded o')"
    "obResultGUID b = aeResultGUID (terminal_event lo at OperationSucceeded o')" "obDelivery b = DeliveryPending"
    by (rule delete_outboxD)
  have b: "osTables st' = t1\<lparr>tLogs := tLogs t1 @ [lg], tOutbox := tOutbox t1 @ [b], tNextID := tNextID t1 + 2\<rparr>" using b0(1) lg(1) by simp
  have bf: "obPublicRef b = opPublicRef (loOp lo)" "obState b = OperationSucceeded" "obResultGUID b = Some (rGUID u)" "obDelivery b = DeliveryPending"
    by (simp_all add: b0(2-5) terminal_event_def Let_def e(5) delete_won_def)
  have fin: "tUsers (osTables st') = tUsers (awTables w2)" "tSessions (osTables st') = tSessions (awTables w2)"
    "tLogs (osTables st') = tLogs (osTables st) @ [lg]" "tOutbox (osTables st') = tOutbox (osTables st) @ [b]"
    "tResponses (osTables st') = tResponses (awTables w2)" "tTokens (osTables st') = tTokens (awTables w2)"
    "tHeads (osTables st') = tHeads (awTables w2)" "tRules (osTables st') = tRules (awTables w2)" "tNextID (osTables st) \<le> tNextID (osTables st')"
    using sl by (simp_all add: b r0(8)[symmetric])
  have users: "tUsers (osTables st') = map (\<lambda>r. if r = u then deleted_user now (opActor (loOp lo)) r else r) (tUsers (osTables st))"
    using e(1) by (simp add: fin t1')
  have acc: "access_ended same u st st'"
  proof (rule access_endedI[OF e(2) assms(3)])
    show "accounts_ok (osTables st')" by (rule accounts_ok_mapped[OF assms(5) users _ fin(9)]) (simp add: keeps_identity_def deleted_user_def)
  qed (use assms(5,6) fin t1' in simp_all)
  have hold: "holdings_buried (rID u) now (opActor (loOp lo)) (osTables st) (osTables st')"
    using e(3) by (simp add: holdings_buried_def fin t1')
  have who: "alUser lg = Some (rID u)" using lg(3) r0(9) by simp
  have root: "uRole u \<noteq> UserRoleRoot" using r0(5) by (auto simp: deleteConsumerTargetStateAllowed_def)
  note alone = settled_alone[OF assms(4) op(1) ops, unfolded op(2)]
  show ?thesis
    by (intro exI[of _ "loOp lo"] exI[of _ u] exI[of _ now] exI[of _ lg] exI[of _ b] conjI op u r0(2,4) d(2) root users acc hold
        holdings_gone[OF hold] e(4)[folded fin(5)] fin(3,4) lg(2) who bf alone ticket)
qed

end
