(* ===== verification/Consumer_Witnesses.thy ===== *)
theory Consumer_Witnesses
  imports Role_Operation Auth_Witnesses Delete_Properties
begin

text \<open>
  A concrete store with one processing operation on the account 77, and the run of the operation service on it for any
  consumer that accepts it.  The request digest is left open, as SHA-256 is not evaluated.
\<close>

definition account_operation :: "bytes \<Rightarrow> int \<Rightarrow> operation_row" where
  "account_operation h action = (sample_operation h)\<lparr>opAction := action\<rparr>"

definition account_verification :: "bytes \<Rightarrow> int \<Rightarrow> verification_row" where
  "account_verification h action = (sample_verification h)\<lparr>vAction := action\<rparr>"

definition account_store :: "bytes \<Rightarrow> int \<Rightarrow> op_store" where
  "account_store h action =
     \<lparr>osTables = sample_tables, osOps = [account_operation h action], osVers = [account_verification h action], osNextID = 31\<rparr>"

definition account_lock :: "bytes \<Rightarrow> int \<Rightarrow> descriptor \<Rightarrow> locked_operation" where
  "account_lock h action d = \<lparr>loActor = sample_user_row 1 11 UserRoleRoot 4, loSession = sample_session_row 1 1 (replicate 36 CHR ''s''),
     loOp = account_operation h action, loDescriptor = d, loTicket = Some (account_verification h action), loTarget = Some 77,
     loLease = hex_encode (LeaseOwnerDigest sample_crypto (replicate 32 CHR ''x''))\<rparr>"

definition consumed_store :: "bytes \<Rightarrow> int \<Rightarrow> op_store" where
  "consumed_store h action = (account_store h action)\<lparr>osVers := [consumed_row 1 45000 (account_verification h action)]\<rparr>"

definition user_action :: "int \<Rightarrow> descriptor \<Rightarrow> bool" where
  "user_action action d \<longleftrightarrow>
     ResolveActiveAction action = Some d \<and> validOperationDescriptor (Some d) action \<and> acRequiresTicket d \<and> acAction d = action \<and>
     acTargetKind d = TargetUser \<and> \<not> isA08RolePermissionAction action"

lemma account_store_ok: "ops_ok (account_store h action)"
  by (simp add: ops_ok_def account_store_def account_operation_def sample_operation_def tickets_of_def map_filter_def row_check_defs)

lemma account_simps [simp]:
  "osTables (account_store h action) = sample_tables" "osOps (account_store h action) = [account_operation h action]"
  "osVers (account_store h action) = [account_verification h action]"
  "loActor (account_lock h action d) = sample_user_row 1 11 UserRoleRoot 4" "loOp (account_lock h action d) = account_operation h action"
  "loDescriptor (account_lock h action d) = d" "loTicket (account_lock h action d) = Some (account_verification h action)"
  "loTarget (account_lock h action d) = Some 77" "rID (account_verification h action) = 40" "rID (account_operation h action) = 30"
  "osTables (consumed_store h action) = sample_tables" "osOps (consumed_store h action) = [account_operation h action]"
  by (simp_all add: account_store_def account_lock_def account_verification_def sample_verification_def consumed_store_def
      account_operation_def sample_operation_def)

lemma account_locks:
  assumes "user_action action d"
  shows "lock_operation execute_env fresh_identity (replicate 32 CHR ''x'') (account_store h action) = Inr (account_lock h action d)"
proof -
  have actor: "lockOperationActorSession (oeFault execute_env) (osTables (account_store h action)) (oiActor fresh_identity) (oeClock execute_env 0) =
      Inr (sample_user_row 1 11 UserRoleRoot 4, sample_session_row 1 1 (replicate 36 CHR ''s''))"
    using sample_actor by (simp add: fresh_identity_def)
  have op: "opAction (account_operation h action) = action" by (simp add: account_operation_def)
  have d: "ResolveActiveAction action = Some d" "validOperationDescriptor (Some d) action" "acRequiresTicket d" "acAction d = action"
    "acTargetKind d = TargetUser"
    using assms by (simp_all add: user_action_def)
  show ?thesis
    unfolding lock_operation_def actor
    by (simp add: fresh_identity_def sql_first_def sql_find_def op d)
       (simp add: account_operation_def sample_operation_def sample_user_row_def sample_session_row_def lockOperationVerificationByID_def
          account_verification_def sample_verification_def sql_first_def sql_find_def validOperationVerificationBinding_def account_lock_def
          Let_def d)
qed

lemma account_admits:
  assumes "user_action action d" "coPreflight co = None"
    "prelock_target co c (account_lock h action d) sample_tables = (Inr target, c0)"
    "authorizeExecuteDescriptorWithTarget (\<lambda>i. False) sample_tables (sample_user_row 1 11 UserRoleRoot 4) d (Some 77) target = Inr ()"
  shows "admit_operation execute_env co c (account_lock h action d) (account_store h action) = (Inr 45000, c0)"
proof -
  have times: "sExpiresAt (loSession (account_lock h action d)) = 9000000" "opLeaseExpires (account_operation h action) = Some 60000"
    "verificationRelationAt (account_verification h action) 45000 = TicketActive"
    by (simp_all add: account_lock_def sample_session_row_def account_operation_def sample_operation_def account_verification_def
        sample_verification_def verificationRelationAt_def)
  then show ?thesis
    by (simp add: admit_operation_def assms validOperationNow_def maxInt64_def actionOperationQueryRetentionMS_def)
qed

lemma account_acknowledged:
  assumes act: "user_action action d" and flight: "coPreflight co = None"
    and pre: "prelock_target co c (account_lock h action d) sample_tables = (Inr target, c0)"
    and auth: "authorizeExecuteDescriptorWithTarget (\<lambda>i. False) sample_tables (sample_user_row 1 11 UserRoleRoot 4) d (Some 77) target = Inr ()"
    and ex: "coExecute co c0 (account_operation h action) (consumed_store h action) = (Some (o', t1), c1)" "toFailure o' = None"
    and valid: "validateTerminalOutcomeForAction action o'" "result_fits action OperationSucceeded o'"
    and audit: "audit c1 (terminal_event (account_lock h action d) 45000 OperationSucceeded o') ((consumed_store h action)\<lparr>osTables := t1\<rparr>) = (Some t2, c2)"
    and outbox: "outbox c2 (terminal_event (account_lock h action d) 45000 OperationSucceeded o') ((consumed_store h action)\<lparr>osTables := t2\<rparr>) = (Some t3, c3)"
  shows "\<exists>view oid' c' st'. Execute_operation execute_env fresh_identity co audit outbox c (account_store h action) = (Inr view, oid', c', st') \<and>
    ovStatus view = AdminOperationState_String OperationSucceeded"
proof -
  let ?oid = "fresh_identity\<lparr>oiCapability := Some \<lparr>lcRaw = zero_lease, lcConsumed = True\<rparr>\<rparr>" and ?lo = "account_lock h action d"
  have take: "take_lease (oiCapability fresh_identity) = (Some (replicate 32 CHR ''x''), Some \<lparr>lcRaw = zero_lease, lcConsumed = True\<rparr>)"
    by code_simp
  have id: "validOperationActorClaims (oiActor ?oid)" "length (oiPublicRef ?oid) = 46" "0 < oiID ?oid"
    by (simp_all add: fresh_identity_def validOperationActorClaims_def sample_claims_def)
  have lock: "lock_operation execute_env ?oid (replicate 32 CHR ''x'') (account_store h action) = Inr ?lo"
    using account_locks[OF act] by (simp only: lock_operation_capability)
  have ticket: "consume_ticket False (Some (account_verification h action)) 1 45000 [account_verification h action] =
      Some (osVers (consumed_store h action))"
    by (simp add: consume_ticket_def sql_changed_def sql_update_def consumable_def consumed_row_def consumed_store_def)
       (simp add: account_verification_def sample_verification_def)
  have actor: "rID (sample_user_row 1 11 UserRoleRoot 4) = 1" by (simp add: sample_user_row_def)
  have store: "(account_store h action)\<lparr>osVers := osVers (consumed_store h action)\<rparr> = consumed_store h action"
    by (simp add: consumed_store_def)
  have one: "sql_changed (settleable (account_operation h action) (loLease ?lo) (Some 40)) (settled_row a 45000 OperationSucceeded o')
      [account_operation h action] = 1" for a
    by (simp add: sql_changed_def settleable_def)
       (simp add: account_lock_def account_operation_def sample_operation_def settled_row_def)
  have a: "acAction d = action" using act by (simp add: user_action_def)
  have run: "settle_operation execute_env co audit outbox c0 ?lo 45000 (consumed_store h action) =
      (Inr (operationView d (settled_row 1 45000 OperationSucceeded o' (account_operation h action)) 45000,
        (consumed_store h action)\<lparr>osTables := t3, osOps := sql_update (settleable (account_operation h action) (loLease ?lo) (Some 40))
          (settled_row 1 45000 OperationSucceeded o') [account_operation h action]\<rparr>), c3)"
    by (simp add: settle_operation_def ex valid audit outbox one a actor Let_def maxInt64_def actionOperationQueryRetentionMS_def)
  have "execute_tx execute_env ?oid (replicate 32 CHR ''x'') co audit outbox c (account_store h action) =
      settle_operation execute_env co audit outbox c0 ?lo 45000 (consumed_store h action)"
    by (simp add: execute_tx_def lock account_admits[OF act flight pre auth] ticket actor store)
  then show ?thesis
    using id unfolding run
    by (simp add: Execute_operation_def take validOperationNow_def maxInt64_def actionOperationQueryRetentionMS_def operationView_def
        settled_row_def Let_def)
qed

section \<open>The writers on the sample\<close>

lemma account_binding:
  assumes "sql_first (\<lambda>u. rID u = 1 \<and> rDeleted u = 0) (tUsers t) = Some a" "rGUID a = 11"
    and "sql_first (\<lambda>s. rID s = 1) (tSessions t) = Some ses" "rGUID ses = 501" "sUser ses = 1" "rID a = 1"
    and "aePublicRef ev = ''op_'' @ replicate 43 CHR ''A''" "aeActor ev = 11" "aeSession ev = 501"
  shows "load_user_binding action (\<lambda>_. False) ((consumed_store h action)\<lparr>osTables := t\<rparr>) ev 77 = Some \<lparr>wbOperation = 30, wbActor = 1\<rparr>"
proof -
  have op: "opActor (account_operation h action) = 1" "opAuthVersion (account_operation h action) = 4" "opSession (account_operation h action) = 1"
    "opAction (account_operation h action) = action" "opState (account_operation h action) = OperationProcessing"
    "opVerification (account_operation h action) = Some 40" "opPublicRef (account_operation h action) = ''op_'' @ replicate 43 CHR ''A''"
    "rDeleted (account_operation h action) = 0"
    by (simp_all add: account_operation_def sample_operation_def)
  have v: "osVers (consumed_store h action) = [consumed_row 1 45000 (account_verification h action)]" by (simp add: consumed_store_def)
  have processing: "processing_operation False ((consumed_store h action)\<lparr>osTables := t\<rparr>) (aePublicRef ev) action = Some (account_operation h action)"
    by (simp add: processing_operation_def find_row_def sql_first_def op assms(7))
  have ticket: "bound_ticket False ((consumed_store h action)\<lparr>osTables := t\<rparr>) (account_operation h action) action TargetUser (Some 77) =
      Some (consumed_row 1 45000 (account_verification h action))"
    by (simp add: bound_ticket_def find_row_def sql_first_def op v consumed_row_def)
       (simp add: account_verification_def sample_verification_def)
  show ?thesis
    by (simp add: load_user_binding_def processing ticket bound_actor_def bound_session_def find_row_def op assms(1-6,8,9))
qed

lemma account_event:
  assumes "acAction d = action" "acTargetKind d = TargetUser"
  shows "aePublicRef (terminal_event (account_lock h action d) 45000 terminal o') = ''op_'' @ replicate 43 CHR ''A''"
    "aeActor (terminal_event (account_lock h action d) 45000 terminal o') = 11" "aeSession (terminal_event (account_lock h action d) 45000 terminal o') = 501"
    "aeAction (terminal_event (account_lock h action d) 45000 terminal o') = action"
    "aeTargetKind (terminal_event (account_lock h action d) 45000 terminal o') = TargetUser"
    "aeTarget (terminal_event (account_lock h action d) 45000 terminal o') = Some 77"
    "aeState (terminal_event (account_lock h action d) 45000 terminal o') = terminal"
    "aeOccurredAt (terminal_event (account_lock h action d) 45000 terminal o') = 45000"
    "aeFailure (terminal_event (account_lock h action d) 45000 terminal o') = toFailure o'"
    "aeResultKind (terminal_event (account_lock h action d) 45000 OperationSucceeded o') = Some (toResultKind o')"
    "aeResultGUID (terminal_event (account_lock h action d) 45000 OperationSucceeded o') = toResultGUID o'"
  using assms
  by (simp_all add: terminal_event_def account_operation_def sample_operation_def Let_def)
     (simp_all add: account_lock_def sample_user_row_def sample_session_row_def)

lemma account_envelope:
  assumes "acAction d = action" "acTargetKind d = TargetUser" "toFailure o' = None" "toResultKind o' = 2" "toResultGUID o' = Some 77" "45000 \<le> now"
  shows "user_envelope action (terminal_event (account_lock h action d) 45000 OperationSucceeded o') 77 now"
  using assms sample_ref by (simp add: user_envelope_def event_ids_def account_event result_reported_def reported_at_def)

lemma sample_tables_consistent: "accounts_ok sample_tables" "sids_ok (=) sample_tables"
proof -
  have "replicate 36 CHR ''s'' \<noteq> ''mine''" by code_simp
  then show "accounts_ok sample_tables" "sids_ok (=) sample_tables"
    by (simp_all add: accounts_ok_def sids_ok_def sample_tables_def) (auto simp: sample_user_row_def sample_session_row_def)
qed

section \<open>A reset of a password from the request to the tables\<close>

definition reset_descriptor :: descriptor where
  "reset_descriptor = the (ResolveActiveAction ActionUsersResetPassword)"

definition sample_reset :: "bytes \<Rightarrow> reset_execution" where
  "sample_reset h = \<lparr>rxDescriptor = reset_descriptor, rxTarget = 77, rxAuthVersion = 2, rxReason = ''lost phone'', rxRequestID = ''r-1'', rxHMAC = h\<rparr>"

definition fresh_reset :: reset_state where
  "fresh_reset = \<lparr>rsHash = ''new'', rsStarted = False, rsAuditStarted = False, rsTargetID = 0, rsPrelocked = False, rsTarget = None, rsSessions = []\<rparr>"

definition writer_at :: "int \<Rightarrow> writer_env" where
  "writer_at guid = \<lparr>weNow = 46000, weGUID = guid, weFault = (\<lambda>_. False)\<rparr>"

abbreviation reset_target :: user_row where "reset_target \<equiv> sample_user_row 2 77 UserRoleUser 2"

lemma reset_action: "user_action ActionUsersResetPassword reset_descriptor"
  by (simp add: user_action_def reset_descriptor_def) code_simp

lemma reset_authorized:
  "authorizeExecuteDescriptorWithTarget (\<lambda>i. False) sample_tables (sample_user_row 1 11 UserRoleRoot 4) reset_descriptor (Some 77)
     (Some reset_target) = Inr ()"
  by code_simp

lemma reset_sessions: "sql_find (live_session 2) (tSessions sample_tables) = [sample_session_row 2 2 ''mine'']"
  by (simp add: sql_find_def sample_tables_def live_session_def) (simp add: sample_session_row_def)

lemma reset_found: "sql_first (\<lambda>u. rGUID u = 77 \<and> rDeleted u = 0) (tUsers sample_tables) = Some reset_target"
  by (simp add: sql_first_def sample_tables_def) (simp add: sample_user_row_def)

lemma reset_prelocks:
  "\<exists>w'. prelock_target (reset_consumer sample_auth (sample_reset h)) (fresh_reset, w) (account_lock h ActionUsersResetPassword d) sample_tables =
    (Inr (Some reset_target), (fresh_reset\<lparr>rsPrelocked := True, rsTarget := Some reset_target, rsSessions := [sample_session_row 2 2 ''mine'']\<rparr>, w'))"
proof -
  have bind: "validExecutionBinding (sample_reset h) (account_operation h ActionUsersResetPassword) (account_verification h ActionUsersResetPassword)"
    using sample_ref
    by (simp add: validExecutionBinding_def account_operation_def sample_operation_def account_verification_def sample_verification_def sample_reset_def)
  have row: "rID reset_target = 2" "rGUID reset_target = 77" "rDeleted reset_target = 0" by (simp_all add: sample_user_row_def)
  have sess: "validRolePermissionSessions [sample_session_row 2 2 ''mine''] 2"
    by (simp add: validRolePermissionSessions_def sample_session_row_def maxInt32_def)
  have t: "rxTarget (sample_reset h) = 77" "aeSQL sample_auth n = False" for n by (simp_all add: sample_reset_def sample_auth_def)
  show ?thesis
    by (simp add: prelock_target_def reset_consumer_def prelock_reset_def bind run_on_def reset_locks_def locked_user_def run_simps t reset_found row
        reset_sessions sess Let_def)
       (simp add: fresh_reset_def)
qed

definition reset_won :: outcome where
  "reset_won = \<lparr>toFailure = None, toResultKind = ResultUser, toResultGUID = Some 77, toAuthVersion = Some 3, toPolicyVersion = None,
     toRole = None, toHTTP = 200\<rparr>"

lemma reset_changes:
  "\<exists>w'. reset_change sample_auth (sample_reset h) (account_operation h ActionUsersResetPassword) reset_target [sample_session_row 2 2 ''mine''] ''new''
      (w\<lparr>awTables := sample_tables\<rparr>) = (Inr reset_won, w') \<and> tLogs (awTables w') = [] \<and> tOutbox (awTables w') = [] \<and>
    tUsers (awTables w') = [sample_user_row 1 11 UserRoleRoot 4, reset_user ''new'' 3 1000 1 reset_target] \<and>
    tSessions (awTables w') = [sample_session_row 1 1 (replicate 36 CHR ''s''), revoke_row 1000 1000 (Some 1) (sample_session_row 2 2 ''mine'')]"
proof -
  have op: "opActor (account_operation h ActionUsersResetPassword) = 1" "opAction (account_operation h ActionUsersResetPassword) = ActionUsersResetPassword"
    by (simp_all add: account_operation_def sample_operation_def)
  have row: "rID reset_target = 2" "rGUID reset_target = 77" "rDeleted reset_target = 0" "uAuthVersion reset_target = 2"
    "uStatus reset_target = UserStatusActive" "rxAuthVersion (sample_reset h) = 2"
    by (simp_all add: sample_user_row_def sample_reset_def)
  have env: "aeSQL sample_auth n = False" "aeNet sample_auth n = NetOk" "aeNow sample_auth n = 1000" "aeGUID sample_auth n = 900 + int n" for n
    by (simp_all add: sample_auth_def)
  have users: "sql_changed (reset_current reset_target) (reset_user ''new'' 3 1000 1) (tUsers sample_tables) = 1"
    "sql_update (reset_current reset_target) (reset_user ''new'' 3 1000 1) (tUsers sample_tables) =
      [sample_user_row 1 11 UserRoleRoot 4, reset_user ''new'' 3 1000 1 reset_target]"
    by (simp_all add: sql_changed_def sql_update_def sample_tables_def reset_current_def reset_user_def)
       (simp_all add: sample_user_row_def)
  have sessions: "sql_update (unrevoked 2) (revoke_row 1000 1000 (Some 1)) (tSessions sample_tables) =
      [sample_session_row 1 1 (replicate 36 CHR ''s''), revoke_row 1000 1000 (Some 1) (sample_session_row 2 2 ''mine'')]"
    by (simp add: sql_update_def sample_tables_def unrevoked_def) (simp add: sample_session_row_def)
  have srow: "rID (sample_session_row 2 2 ''mine'') = 2" "sRevokedAt (sample_session_row 2 2 ''mine'') = None"
    by (simp_all add: sample_session_row_def)
  have start: "tEvents sample_tables = []" "tLogs sample_tables = []" "tOutbox sample_tables = []" by (simp_all add: sample_tables_def)
  show ?thesis
    by (simp add: reset_change_def run_simps op row env validOperationNow_def maxInt64_def actionOperationQueryRetentionMS_def maxInt32_def
        MarkSessionRevoked_def revokeLocked_def srow auditFields_def insert_auth_event_def insert_event_def Let_def update_users_def
        consumer_event_def users sessions touched_by_def start audit_event_def stamped_def audit_fields.defs auth_event.defs)
       (simp add: reset_won_def)
qed

lemma reset_first_rows:
  assumes "tUsers t = [sample_user_row 1 11 UserRoleRoot 4, u]" "rID u \<noteq> 1"
    and "tSessions t = [sample_session_row 1 1 (replicate 36 CHR ''s''), s]" "rID s \<noteq> 1"
  shows "sql_first (\<lambda>u. rID u = 1 \<and> rDeleted u = 0) (tUsers t) = Some (sample_user_row 1 11 UserRoleRoot 4)"
    "sql_first (\<lambda>s. rID s = 1) (tSessions t) = Some (sample_session_row 1 1 (replicate 36 CHR ''s''))"
  using assms by (simp_all add: sql_first_def) (simp_all add: sample_user_row_def sample_session_row_def)

lemma reset_runs:
  "\<exists>view oid' c' st'. reset_run execute_env sample_auth (sample_reset h) (writer_at 3000) (writer_at 4000) fresh_identity fresh_reset w
      (account_store h ActionUsersResetPassword) = (Inr view, oid', c', st') \<and> ovStatus view = AdminOperationState_String OperationSucceeded"
proof -
  let ?a = ActionUsersResetPassword and ?d = reset_descriptor and ?x = "sample_reset h" and ?co = "reset_consumer sample_auth (sample_reset h)"
  let ?s = "fresh_reset\<lparr>rsPrelocked := True, rsTarget := Some reset_target, rsSessions := [sample_session_row 2 2 ''mine'']\<rparr>"
  have d: "acAction ?d = ?a" "acTargetKind ?d = TargetUser" using reset_action by (simp_all add: user_action_def)
  obtain w1 where pre: "prelock_target ?co (fresh_reset, w) (account_lock h ?a ?d) sample_tables = (Inr (Some reset_target), (?s, w1))"
    using reset_prelocks by blast
  obtain w2 where x: "reset_change sample_auth ?x (account_operation h ?a) reset_target [sample_session_row 2 2 ''mine''] ''new''
      (w1\<lparr>awTables := sample_tables\<rparr>) = (Inr reset_won, w2)" "tLogs (awTables w2) = []" "tOutbox (awTables w2) = []"
    "tUsers (awTables w2) = [sample_user_row 1 11 UserRoleRoot 4, reset_user ''new'' 3 1000 1 reset_target]"
    "tSessions (awTables w2) = [sample_session_row 1 1 (replicate 36 CHR ''s''), revoke_row 1000 1000 (Some 1) (sample_session_row 2 2 ''mine'')]"
    using reset_changes by blast
  obtain s2 where ex: "coExecute ?co (?s, w1) (account_operation h ?a) (consumed_store h ?a) = (Some (reset_won, awTables w2), (s2, w2))" "\<not> rsAuditStarted s2"
    using x(1) by (auto simp: reset_consumer_def Execute_reset_def fresh_reset_def run_on_def reset_won_def Let_def)
  have won: "toFailure reset_won = None" "toResultKind reset_won = 2" "toResultGUID reset_won = Some 77"
    by (simp_all add: reset_won_def ResultUser_def)
  let ?ev = "terminal_event (account_lock h ?a ?d) 45000 OperationSucceeded reset_won"
  have env: "validResetPasswordTerminalEnvelope ?ev 77 46000"
    unfolding validResetPasswordTerminalEnvelope_def by (rule account_envelope[OF d won]) simp
  have rows: "rID (reset_user ''new'' 3 1000 1 reset_target) \<noteq> 1" "rID (revoke_row 1000 1000 (Some 1) (sample_session_row 2 2 ''mine'')) \<noteq> 1"
    "rGUID (sample_user_row 1 11 UserRoleRoot 4) = 11" "rID (sample_user_row 1 11 UserRoleRoot 4) = 1"
    "rGUID (sample_session_row 1 1 (replicate 36 CHR ''s'')) = 501" "sUser (sample_session_row 1 1 (replicate 36 CHR ''s'')) = 1"
    by (simp_all add: reset_user_def revoke_row_def sample_user_row_def sample_session_row_def)
  have bind: "loadResetPasswordBinding (\<lambda>_. False) ((consumed_store h ?a)\<lparr>osTables := t\<rparr>) ?ev 77 = Some \<lparr>wbOperation = 30, wbActor = 1\<rparr>"
    if "tUsers t = tUsers (awTables w2)" "tSessions t = tSessions (awTables w2)" for t
    unfolding loadResetPasswordBinding_def
    by (rule account_binding[OF reset_first_rows(1)[OF _ rows(1) _ rows(2)] rows(3) reset_first_rows(2)[OF _ rows(1) _ rows(2)] rows(5,6,4) account_event(1-3)[OF d]])
      (simp_all add: that x(4,5))
  have t: "rxTarget ?x = 77" by (simp add: sample_reset_def)
  obtain t2 where au: "reset_audit (writer_at 3000) ?x (s2, w2) ?ev ((consumed_store h ?a)\<lparr>osTables := awTables w2\<rparr>) =
      (Some t2, (s2\<lparr>rsAuditStarted := True\<rparr>, w2))" "tUsers t2 = tUsers (awTables w2)" "tSessions t2 = tSessions (awTables w2)" "tOutbox t2 = []"
    using ex(2) by (simp add: reset_audit_def t env put_log_def bind writer_at_def insert_log_def x Let_def)
  obtain t3 where ob: "reset_outbox (writer_at 4000) ?ev ((consumed_store h ?a)\<lparr>osTables := t2\<rparr>) = Some t3"
    by (simp add: reset_outbox_def account_event[OF d] env put_outbox_def bind[OF au(2,3)] writer_at_def insert_outbox_def au(4))
  show ?thesis
    by (rule account_acknowledged[where audit = "reset_audit (writer_at 3000) ?x" and outbox = "\<lambda>c ev st. (reset_outbox (writer_at 4000) ev st, c)",
        OF reset_action _ pre reset_authorized ex(1) won(1) _ _ au(1)])
       (simp_all add: ob, simp_all add: reset_consumer_def reset_won_def ResultUser_def validateTerminalOutcomeForAction_def result_fits_def
          isA08RolePermissionAction_def maxInt32_def)
qed

theorem reset_password_end_to_end_witness:
  "\<exists>st' :: op_store. map uPasswordHash (tUsers (osTables st')) = [Some ''h'', Some ''new''] \<and> map uAuthVersion (tUsers (osTables st')) = [4, 3] \<and>
     map alAction (tLogs (osTables st')) = [''users.reset_password''] \<and> map obState (tOutbox (osTables st')) = [OperationSucceeded] \<and>
     \<not> (\<exists>r w'. authenticateClaims sample_auth (=) \<lparr>scUser = 77, scSID = ''mine'', scVersion = 3, scAuthVersion = 2, scRole = UserRoleUser\<rparr>
          ((sample_work None)\<lparr>awTables := osTables st'\<rparr>) = (Inr r, w'))"
proof -
  let ?st = "account_store ''h'' ActionUsersResetPassword" and ?s = "fresh_reset"
  obtain view oid' c' st' where run: "reset_run execute_env sample_auth (sample_reset ''h'') (writer_at 3000) (writer_at 4000) fresh_identity fresh_reset
      (sample_work None) ?st = (Inr view, oid', c', st')" and won: "ovStatus view = AdminOperationState_String OperationSucceeded"
    using reset_runs by blast
  have acc: "accounts_ok (osTables ?st)" "sids_ok (=) (osTables ?st)" by (simp_all add: sample_tables_consistent)
  have c: "rxTarget (sample_reset ''h'') = 77" "rsHash fresh_reset = ''new''" by (simp_all add: sample_reset_def fresh_reset_def)
  from reset_password_end_to_end[OF run won identity_equivp account_store_ok acc, unfolded c account_simps] obtain op :: operation_row
    and u :: user_row and now and lg :: audit_log and ob :: outbox_row where
    e: "u \<in> set (tUsers sample_tables)" "rGUID u = 77" "tUsers (osTables st') = map (\<lambda>r. if r = u then reset_user ''new'' (uAuthVersion u + 1) now (opActor op) r else r) (tUsers sample_tables)"
    "access_ended (=) u ?st st'" "tLogs (osTables st') = tLogs sample_tables @ [lg]" "alAction lg = ''users.reset_password''"
    "tOutbox (osTables st') = tOutbox sample_tables @ [ob]" "obState ob = OperationSucceeded"
    by (elim exE conjE) (rule that)
  have u: "u = reset_target" using e(1,2) by (auto simp: sample_tables_def) (auto simp: sample_user_row_def)
  have "\<not> (\<exists>r w'. authenticateClaims sample_auth (=) \<lparr>scUser = 77, scSID = ''mine'', scVersion = 3, scAuthVersion = 2, scRole = UserRoleUser\<rparr>
      ((sample_work None)\<lparr>awTables := osTables st'\<rparr>) = (Inr r, w'))"
    by (rule access_endedD(1)[OF e(4), where s = "sample_session_row 2 2 ''mine''"])
      (simp_all add: u sample_tables_def, simp_all add: sample_user_row_def sample_session_row_def)
  moreover have "map uPasswordHash (tUsers (osTables st')) = [Some ''h'', Some ''new'']" "map uAuthVersion (tUsers (osTables st')) = [4, 3]"
    by (simp_all add: e(3) u sample_tables_def reset_user_def) (simp_all add: sample_user_row_def)
  moreover have "map alAction (tLogs (osTables st')) = [''users.reset_password'']" "map obState (tOutbox (osTables st')) = [OperationSucceeded]"
    using e(5-8) by (simp_all add: sample_tables_def)
  ultimately show ?thesis by (intro exI[of _ st'] conjI) simp_all
qed

section \<open>A deletion of an account from the request to the tables\<close>

definition delete_descriptor :: descriptor where
  "delete_descriptor = the (ResolveActiveAction ActionUsersDelete)"

definition sample_delete :: delete_execution where
  "sample_delete = \<lparr>dxTarget = 77, dxAuthVersion = 2, dxReason = ''left us''\<rparr>"

definition fresh_delete :: delete_state where
  "fresh_delete = \<lparr>dsFacts = None, dsConsumerStarted = False, dsAuditStarted = False\<rparr>"

lemma delete_action: "user_action ActionUsersDelete delete_descriptor"
  by (simp add: user_action_def delete_descriptor_def) code_simp

lemma delete_authorized:
  "authorizeExecuteDescriptorWithTarget (\<lambda>i. False) sample_tables (sample_user_row 1 11 UserRoleRoot 4) delete_descriptor (Some 77) None = Inr ()"
  by code_simp

abbreviation deleted_session :: session_row where
  "deleted_session \<equiv> ended_session 1000 1 (sample_session_row 2 2 ''mine'')"

lemma sample_account:
  "rID reset_target = 2" "rGUID reset_target = 77" "rDeleted reset_target = 0" "uAuthVersion reset_target = 2"
  "uRole reset_target = UserRoleUser" "uStatus reset_target = UserStatusActive"
  by (simp_all add: sample_user_row_def)

lemma sample_empty:
  "tHeads sample_tables = []" "tRules sample_tables = []" "tTokens sample_tables = []" "tEvents sample_tables = []" "tLogs sample_tables = []"
  "tOutbox sample_tables = []" "tResponses sample_tables = []"
  by (simp_all add: sample_tables_def)

lemma no_rows_changed: "sql_changed P f [] = 0" "sql_update P f [] = []"
  by (simp_all add: sql_changed_def sql_update_def)

lemma nothing_redacted:
  assumes "tOutbox (awTables w) = []" "tResponses (awTables w) = []" "0 < target" "0 < actor" "0 < now" "\<And>n. \<not> aeSQL env n"
  shows "redactCreatedAccountResponse env crypto ops target actor now w = (Inr (), w\<lparr>awStatements := awStatements w + 2\<rparr>)"
  using assms by (simp add: redactCreatedAccountResponse_def run_simps)

lemma delete_locks: "\<And>w. delete_first sample_auth sample_delete (account_operation h ActionUsersDelete) (w\<lparr>awTables := sample_tables\<rparr>) =
    (Inr (1000, reset_target), w\<lparr>awTables := sample_tables, awNow := awNow w + 1, awStatements := awStatements w + 1\<rparr>)"
proof -
  have op: "opActor (account_operation h ActionUsersDelete) = 1" "rCreatedAt (account_operation h ActionUsersDelete) = 100"
    "rUpdatedAt (account_operation h ActionUsersDelete) = 100"
    by (simp_all add: account_operation_def sample_operation_def)
  have env: "aeSQL sample_auth n = False" "aeNow sample_auth n = 1000" "dxTarget sample_delete = 77" for n
    by (simp_all add: sample_auth_def sample_delete_def)
  show "\<And>w. delete_first sample_auth sample_delete (account_operation h ActionUsersDelete) (w\<lparr>awTables := sample_tables\<rparr>) =
    (Inr (1000, reset_target), w\<lparr>awTables := sample_tables, awNow := awNow w + 1, awStatements := awStatements w + 1\<rparr>)"
    by (simp add: delete_first_def locked_user_def run_simps env op reset_found sample_account validOperationNow_def maxInt64_def
        actionOperationQueryRetentionMS_def)
qed

lemma delete_changes:
  "\<exists>w'. delete_rest sample_auth sample_crypto sample_delete (account_operation h ActionUsersDelete) 1000 reset_target ops
      (w\<lparr>awTables := sample_tables\<rparr>) = (Inr (delete_won reset_target), w') \<and> tLogs (awTables w') = [] \<and> tOutbox (awTables w') = [] \<and>
    tUsers (awTables w') = [sample_user_row 1 11 UserRoleRoot 4, deleted_user 1000 1 reset_target] \<and>
    tSessions (awTables w') = [sample_session_row 1 1 (replicate 36 CHR ''s''), deleted_session]"
proof -
  have op: "opActor (account_operation h ActionUsersDelete) = 1" by (simp add: account_operation_def sample_operation_def)
  have env: "aeSQL sample_auth n = False" "aeGUID sample_auth n = 900 + int n" for n by (simp_all add: sample_auth_def)
  have x: "dxAuthVersion sample_delete = 2" by (simp add: sample_delete_def)
  have users: "sql_changed (deletable reset_target) (deleted_user 1000 1) (tUsers sample_tables) = 1"
    "sql_update (deletable reset_target) (deleted_user 1000 1) (tUsers sample_tables) =
      [sample_user_row 1 11 UserRoleRoot 4, deleted_user 1000 1 reset_target]"
    by (simp_all add: sql_changed_def sql_update_def sample_tables_def deletable_def deleted_user_def)
       (simp_all add: sample_user_row_def)
  let ?P = "\<lambda>s. live_session 2 s \<and> sVersion s < maxInt32"
  have sessions: "sql_changed ?P (ended_session 1000 1) (tSessions sample_tables) = 1"
    "sql_update ?P (ended_session 1000 1) (tSessions sample_tables) = [sample_session_row 1 1 (replicate 36 CHR ''s''), deleted_session]"
    by (simp_all add: sql_changed_def sql_update_def sample_tables_def live_session_def ended_session_def maxInt32_def)
       (simp_all add: sample_session_row_def)
  have checked: "validateDeleteConsumerSessions [sample_session_row 2 2 ''mine''] = Inr None"
    by (simp add: validateDeleteConsumerSessions_def sample_session_row_def maxInt32_def)
  show ?thesis
    by (simp add: delete_rest_def delete_writes_def lockDeleteConsumerIDs_def sql_find_def run_simps op env x sample_account sample_empty
        reset_sessions[unfolded sql_find_def] checked maxInt32_def update_sessions_def update_tokens_def tombstone_heads_def tombstone_overrides_def
        update_users_def users sessions[unfolded maxInt32_def] nothing_redacted no_rows_changed consumer_event_def insert_auth_event_def insert_event_def
        audit_event_def stamped_def audit_fields.defs auth_event.defs Let_def)
qed

lemma delete_runs:
  "\<exists>view oid' c' st'. delete_run execute_env sample_auth sample_crypto sample_delete (writer_at 3000) (writer_at 4000) fresh_identity fresh_delete w
      (account_store h ActionUsersDelete) = (Inr view, oid', c', st') \<and> ovStatus view = AdminOperationState_String OperationSucceeded"
proof -
  let ?a = ActionUsersDelete and ?d = delete_descriptor and ?x = sample_delete and ?co = "delete_consumer sample_auth sample_crypto sample_delete"
  let ?facts = "\<lparr>dfTarget = 2, dfTargetGUID = 77, dfBeforeStatus = UserStatusActive\<rparr>"
  have d: "acAction ?d = ?a" "acTargetKind ?d = TargetUser" using delete_action by (simp_all add: user_action_def)
  have pre: "prelock_target ?co (fresh_delete, w) (account_lock h ?a ?d) sample_tables = (Inr None, (fresh_delete, w))"
    by (simp add: prelock_target_def delete_consumer_def)
  let ?w1 = "w\<lparr>awTables := sample_tables, awNow := awNow w + 1, awStatements := awStatements w + 1\<rparr>"
  obtain w2 where x: "delete_rest sample_auth sample_crypto ?x (account_operation h ?a) 1000 reset_target [account_operation h ?a]
      (?w1\<lparr>awTables := sample_tables\<rparr>) = (Inr (delete_won reset_target), w2)" "tLogs (awTables w2) = []" "tOutbox (awTables w2) = []"
    "tUsers (awTables w2) = [sample_user_row 1 11 UserRoleRoot 4, deleted_user 1000 1 reset_target]"
    "tSessions (awTables w2) = [sample_session_row 1 1 (replicate 36 CHR ''s''), deleted_session]"
    using delete_changes by blast
  have valid: "deleteConsumerOperationValid (account_operation h ?a)"
    using sample_ref by (simp add: deleteConsumerOperationValid_def account_operation_def sample_operation_def maxInt32_def)
  have facts: "recordDeleteFacts ?x reset_target (fresh_delete\<lparr>dsConsumerStarted := True\<rparr>) =
      Some (fresh_delete\<lparr>dsConsumerStarted := True, dsFacts := Some ?facts\<rparr>)"
    by (simp add: recordDeleteFacts_def sample_account sample_delete_def fresh_delete_def)
  have begun: "beginConsumer fresh_delete = (True, fresh_delete\<lparr>dsConsumerStarted := True\<rparr>)" by (simp add: beginConsumer_def fresh_delete_def)
  have allowed: "deleteConsumerTargetStateAllowed reset_target" by (simp add: deleteConsumerTargetStateAllowed_def sample_account)
  let ?s2 = "fresh_delete\<lparr>dsConsumerStarted := True, dsFacts := Some ?facts\<rparr>"
  have "Execute_delete sample_auth sample_crypto ?x (fresh_delete, w) (account_operation h ?a) (consumed_store h ?a) =
      (Some (delete_won reset_target, awTables w2), (?s2, w2))"
    unfolding Execute_delete_def fst_conv snd_conv begun Let_def account_simps run_on_def delete_locks
    using x(1) by (simp add: valid allowed facts)
  then have ex: "coExecute ?co (fresh_delete, w) (account_operation h ?a) (consumed_store h ?a) =
      (Some (delete_won reset_target, awTables w2), (?s2, w2))"
    by (simp add: delete_consumer_def)
  have won: "toFailure (delete_won reset_target) = None" "toResultKind (delete_won reset_target) = 2" "toResultGUID (delete_won reset_target) = Some 77"
    by (simp_all add: delete_won_def ResultUser_def sample_account)
  let ?ev = "terminal_event (account_lock h ?a ?d) 45000 OperationSucceeded (delete_won reset_target)"
  have env: "validDeleteTerminalEnvelope ?ev 77 46000"
    unfolding validDeleteTerminalEnvelope_def by (rule account_envelope[OF d won]) simp
  have rows: "rID (deleted_user 1000 1 reset_target) \<noteq> 1" "rID deleted_session \<noteq> 1"
    "rGUID (sample_user_row 1 11 UserRoleRoot 4) = 11" "rID (sample_user_row 1 11 UserRoleRoot 4) = 1"
    "rGUID (sample_session_row 1 1 (replicate 36 CHR ''s'')) = 501" "sUser (sample_session_row 1 1 (replicate 36 CHR ''s'')) = 1"
    by (simp_all add: deleted_user_def ended_session_def sample_user_row_def sample_session_row_def)
  have bind: "loadDeleteWriterBinding (\<lambda>_. False) ((consumed_store h ?a)\<lparr>osTables := t\<rparr>) ?ev 77 = Some \<lparr>wbOperation = 30, wbActor = 1\<rparr>"
    if "tUsers t = tUsers (awTables w2)" "tSessions t = tSessions (awTables w2)" for t
    unfolding loadDeleteWriterBinding_def
    by (rule account_binding[OF reset_first_rows(1)[OF _ rows(1) _ rows(2)] rows(3) reset_first_rows(2)[OF _ rows(1) _ rows(2)] rows(5,6,4) account_event(1-3)[OF d]])
      (simp_all add: that x(4,5))
  have t: "dxTarget ?x = 77" by (simp add: sample_delete_def)
  have s2: "\<not> dsAuditStarted ?s2" "dsFacts ?s2 \<noteq> None" by (simp_all add: fresh_delete_def)
  obtain t2 where au: "delete_audit (writer_at 3000) ?x (?s2, w2) ?ev ((consumed_store h ?a)\<lparr>osTables := awTables w2\<rparr>) =
      (Some t2, (?s2\<lparr>dsAuditStarted := True\<rparr>, w2))" "tUsers t2 = tUsers (awTables w2)" "tSessions t2 = tSessions (awTables w2)" "tOutbox t2 = []"
    using s2 by (simp add: delete_audit_def t env put_log_def bind writer_at_def insert_log_def x Let_def)
  obtain t3 where ob: "delete_outbox (writer_at 4000) ?ev ((consumed_store h ?a)\<lparr>osTables := t2\<rparr>) = Some t3"
    by (simp add: delete_outbox_def account_event[OF d] env put_outbox_def bind[OF au(2,3)] writer_at_def insert_outbox_def au(4))
  show ?thesis
    by (rule account_acknowledged[where audit = "delete_audit (writer_at 3000) ?x" and outbox = "\<lambda>c ev st. (delete_outbox (writer_at 4000) ev st, c)",
        OF delete_action _ pre delete_authorized ex won(1) _ _ au(1)])
       (simp_all add: ob, simp_all add: delete_consumer_def delete_won_def ResultUser_def validateTerminalOutcomeForAction_def result_fits_def
          isA08RolePermissionAction_def maxInt32_def sample_account)
qed

theorem delete_user_end_to_end_witness:
  "\<exists>st' :: op_store. map rDeleted (tUsers (osTables st')) = [0, 1] \<and> map uPasswordHash (tUsers (osTables st')) = [Some ''h'', None] \<and>
     map uAuthVersion (tUsers (osTables st')) = [4, 3] \<and>
     map alAction (tLogs (osTables st')) = [''users.delete''] \<and> map obState (tOutbox (osTables st')) = [OperationSucceeded] \<and>
     \<not> (\<exists>r w'. authenticateClaims sample_auth (=) \<lparr>scUser = 77, scSID = ''mine'', scVersion = 3, scAuthVersion = 2, scRole = UserRoleUser\<rparr>
          ((sample_work None)\<lparr>awTables := osTables st'\<rparr>) = (Inr r, w'))"
proof -
  let ?st = "account_store ''h'' ActionUsersDelete"
  obtain view oid' c' st' where run: "delete_run execute_env sample_auth sample_crypto sample_delete (writer_at 3000) (writer_at 4000) fresh_identity
      fresh_delete (sample_work None) ?st = (Inr view, oid', c', st')" and won: "ovStatus view = AdminOperationState_String OperationSucceeded"
    using delete_runs by blast
  have acc: "accounts_ok (osTables ?st)" "sids_ok (=) (osTables ?st)" by (simp_all add: sample_tables_consistent)
  have resp: "distinct (map rID (tResponses (osTables ?st)))" by (simp add: sample_empty)
  have c: "dxTarget sample_delete = 77" by (simp add: sample_delete_def)
  from delete_user_end_to_end[OF run won identity_equivp account_store_ok acc resp, unfolded c account_simps] obtain op :: operation_row
    and u :: user_row and now and lg :: audit_log and ob :: outbox_row where
    e: "u \<in> set (tUsers sample_tables)" "rGUID u = 77" "tUsers (osTables st') = map (\<lambda>r. if r = u then deleted_user now (opActor op) r else r) (tUsers sample_tables)"
    "access_ended (=) u ?st st'" "tLogs (osTables st') = tLogs sample_tables @ [lg]" "alAction lg = ''users.delete''"
    "tOutbox (osTables st') = tOutbox sample_tables @ [ob]" "obState ob = OperationSucceeded"
    by (elim exE conjE) (rule that)
  have u: "u = reset_target" using e(1,2) by (auto simp: sample_tables_def) (auto simp: sample_user_row_def)
  have "\<not> (\<exists>r w'. authenticateClaims sample_auth (=) \<lparr>scUser = 77, scSID = ''mine'', scVersion = 3, scAuthVersion = 2, scRole = UserRoleUser\<rparr>
      ((sample_work None)\<lparr>awTables := osTables st'\<rparr>) = (Inr r, w'))"
    by (rule access_endedD(1)[OF e(4), where s = "sample_session_row 2 2 ''mine''"])
      (simp_all add: u sample_tables_def, simp_all add: sample_user_row_def sample_session_row_def)
  moreover have "map rDeleted (tUsers (osTables st')) = [0, 1]" "map uPasswordHash (tUsers (osTables st')) = [Some ''h'', None]"
    "map uAuthVersion (tUsers (osTables st')) = [4, 3]"
    by (simp_all add: e(3) u sample_tables_def deleted_user_def) (simp_all add: sample_user_row_def)
  moreover have "map alAction (tLogs (osTables st')) = [''users.delete'']" "map obState (tOutbox (osTables st')) = [OperationSucceeded]"
    using e(5-8) by (simp_all add: sample_tables_def)
  ultimately show ?thesis by (intro exI[of _ st'] conjI) simp_all
qed

end
