(* ===== verification/Spec2Isabelle.thy ===== *)
theory Spec2Isabelle
  imports Sse_Protocol Generation_Witnesses Authz_Policy Action_Value Action_Crypto Begin_Properties
    Auth_Witnesses Sms_Codes Snowflake Rate_Properties Ticket_Witnesses Consumer_Witnesses
begin

text \<open>
  A verification library for the Porsche chat platform, a Go service whose packages are under \<open>src/internal\<close>.
  HTTP handlers decode a request into DTOs, middleware authenticates it against server sessions, and services
  act on MySQL (through gorm) and Redis.  The library models the parts that carry the program's own rules; each
  theory translates the functions it names, and \<open>PROJECT.json\<close> gives the lines of every definition.

  \<^bold>\<open>Conventions.\<close>  A Go \<open>(value, error)\<close> result is a sum or an option; strings and byte slices are HOL strings, one
  character per byte; \<open>int64\<close> is \<open>int\<close> with the bounds that the code checks written out; a nil pointer is \<open>None\<close>; a Go
  map is a key-sorted association list.  Redis and MySQL are not under \<open>src/\<close>: Redis is a store of texts with
  deadlines and a clock, a table is the list of its rows, and every statement or command may fail as the
  environment argument says.  A transaction is atomic, and one that returns an error leaves the tables as they
  were; a commit may be lost or stay unacknowledged.  Clock, random source and identifiers are answers of the
  environment.  All loops of the modelled code are bounded by the data they run over, so no fuel is used
  anywhere; the functions are total.

  \<^bold>\<open>Base.\<close>  \<open>Prelude\<close> (results, Go maps), \<open>Go_Text\<close> (UTF-8, trimming, decimal and hexadecimal text), \<open>Json\<close>,
  \<open>Json_Roundtrip\<close> (\<open>encoding/json\<close>: what is written is read back), \<open>Base64\<close>, \<open>Sha256\<close>.

  \<^bold>\<open>Chat streams\<close> (\<open>service/platform_sse_v2.go\<close>).  \<open>Platform_Text\<close>, \<open>Sse_Encoder\<close>: the encoder of server-sent events and
  its per-model states.  \<open>Sse_Protocol\<close>: every history of calls is accepted by the reader automaton, which is
  the abstract specification of the stream, and every frame is bounded and parsed back, whatever bytes it carries.

  \<^bold>\<open>Generation store\<close> (\<open>service/platform_generation_store.go\<close>, \<open>platform_generation_store_control.go\<close>).  \<open>Generation_Record\<close>
  and \<open>Generation_Codec\<close>: the record of a generation and its text, with \<open>Generation_Codec_Bounds\<close> for the 32 KiB limit.
  \<open>Redis_Scripts\<close>: the keyed store and the Lua scripts; \<open>cjson.decode\<close> is a parameter with its documented behaviour as
  hypothesis.  \<open>Generation_Store\<close>, \<open>Generation_Store_Control\<close>: the operations.  \<open>Generation_Changes\<close> states the contract of
  a change as a locale and interprets it for every operation; \<open>Generation_Effects\<close>, \<open>Generation_Enrich\<close>,
  \<open>Generation_Claims\<close> say what an operation may do to Redis; \<open>Generation_Lifecycle\<close> has the histories, with lost requests
  and replies; \<open>Generation_Properties\<close>, \<open>Generation_Convergence\<close> and \<open>Generation_Witnesses\<close> hold the properties.

  \<^bold>\<open>Authorization\<close> (\<open>internal/authz\<close>).  \<open>Authz\<close>: catalog and evaluator.  \<open>Authz_Policy\<close>: the declarative policy it implements,
  and its agreement with the displayed policy.

  \<^bold>\<open>Administrator actions\<close> (\<open>internal/actionsecurity\<close>).  \<open>Action_Value\<close>, \<open>Action_Encode\<close>, \<open>Action_Intents\<close>, \<open>Action_Registry\<close>,
  \<open>Action_Crypto\<close>: external values, the canonical text of an intent, the registry of actions, the keyed digests.

  \<^bold>\<open>Operations\<close> (\<open>service/action_operation.go\<close>, \<open>action_execute.go\<close>).  \<open>Action_Operation\<close>, \<open>Operation_Begin\<close>,
  \<open>Operation_Execute\<close>: an idempotent request becomes a stored operation with a one-shot lease, is executed by a
  consumer behind a savepoint, audited and settled, or expires.  \<open>Operation_Invariants\<close>: the \<open>CHECK\<close>
  constraints of the operation table (migrations 0005 and 0013) and what any call may do to it; \<open>Operation_Properties\<close>, \<open>Begin_Properties\<close>: the state machine over arbitrary call sequences.

  \<^bold>\<open>Role and permission changes\<close> (\<open>service/action_roles_permissions.go\<close>, \<open>action_roles_permissions_tx.go\<close>,
  \<open>permission_snapshot.go\<close>).  \<open>Stored_Enums\<close>, \<open>Admin_Tables\<close>: enumerations and rows.  \<open>Role_Permissions\<close> plans a change,
  \<open>Role_Transaction\<close> locks and checks, \<open>Role_Execute\<close> writes; \<open>Role_Writes\<close> gives each write as an equation on rows,
  \<open>Role_Properties\<close> the effect of a change and of the next permission load.  \<open>Role_Operation\<close> composes it with the
  operation service, from the identity to the tables.

  \<^bold>\<open>User authentication\<close> (\<open>service/auth.go\<close>, \<open>auth_session.go\<close>, \<open>auth_redis.go\<close>, \<open>auth_account.go\<close>, \<open>security\<close>,
  \<open>middleware\<close>).  \<open>Auth_Base\<close>: an operation is a function from tables and Redis to a result and a new state, and a
  locale of the relations that every step keeps.  \<open>Auth_Redis\<close>: failure counters, issue limit, denial barriers and the
  encrypted rotation results.  \<open>Auth_Session\<close>: creation, rotation, revocation and validation of sessions.
  \<open>Auth_Account\<close>: passwords and account changes.  \<open>Auth_Login\<close>: registration, bootstrap, login, access tokens and the
  middleware that reads them.  \<open>Auth_Logic\<close> has the rules that follow a run, \<open>Auth_History\<close> sequences of calls,
  \<open>Auth_Revocation\<close> the accounts under them; \<open>Auth_Properties\<close> shows that revocation and security changes are final,
  \<open>Auth_Refresh\<close> the rotation protocol and the session cap, \<open>Auth_Access\<close> passwords and tokens, and \<open>Auth_Witnesses\<close> a
  concrete history for each.  Argon2, AES-GCM, \<open>cjson\<close> and the JWT library are parameters: what is opened is what was
  sealed (\<open>aead_ok\<close>), what is parsed is what was signed until it expires (\<open>jwt_ok\<close>).  The collation of the identifier
  columns is a parameter too, as it decides which spellings the database takes for equal: a session is accepted when a
  token in some spelling of its identifier is, while the denial barrier in Redis covers the spelling it was written for.

  \<^bold>\<open>Tickets and rate limits\<close> (\<open>service/action_verification.go\<close>, \<open>action_verification_consume.go\<close>, \<open>action_identity.go\<close>,
  \<open>action_security_redis.go\<close>).  \<open>Net_Ip\<close> (the standard library's addresses) and \<open>Rate_Limit\<close>: the script that counts
  several dimensions at once; \<open>Rate_Properties\<close> bounds what it admits.  \<open>Action_Identity\<close>: the locks on actor, session, target
  and public rows; \<open>Action_Verification\<close>: issuing a ticket on a password and consuming it.  \<open>Ticket_History\<close>: the ticket
  table under the calls of the ticket and the operation service; \<open>Ticket_Properties\<close>: a ticket works, once, for its request
  alone, and there is one at a time; \<open>Ticket_Witnesses\<close> a concrete ticket.

  \<^bold>\<open>Account consumers\<close> (\<open>service/action_reset_password.go\<close>, \<open>action_delete_user.go\<close> and the writers).  \<open>Action_Writers\<close>: the checks, bindings and rows of
  the audit and outbox writers.  \<open>Reset_Password\<close>: the reset as a consumer of the operation service, on the state of the
  authentication services.  \<open>Consumer_Logic\<close>: the parts of an acknowledged execution, the rows of the writers and the
  tables that a consumer leaves alone; \<open>Reset_Properties\<close>: a reset from the request to the tables and to every later access;
  \<open>Admin_Projection\<close>, \<open>Created_Response\<close> (\<open>service/admin_users_projection.go\<close>,
  \<open>action_create_user_response.go\<close>): what is shown of an account, and the stored answer of its creation with its seal, its
  reading and its redaction.  \<open>Delete_User\<close> (\<open>service/action_delete_user.go\<close>, \<open>action_delete_user_writers.go\<close>): the deletion as
  a consumer; \<open>Delete_Logic\<close>: the redaction reaches every stored answer of the account; \<open>Delete_Properties\<close>: a deletion from
  the request to the tables.  \<open>Consumer_Witnesses\<close>: concrete runs.

  \<open>Sms_Codes\<close>: the in-memory codes.  \<open>Snowflake\<close> (\<open>persistence/snowflake.go\<close>): business identifiers.

  \<^bold>\<open>Not modelled.\<close>  HTTP routing, handlers and DTO decoding (input shape only, the services check again); gorm
  mapping and migrations; configuration; the upstream OpenAI-compatible clients and the white-label gateway; the
  orchestration of chat generations around the store (goroutines, receipts, convergence worker); public content,
  pricing and rendering; account creation as a consumer of operations.  \<open>PROJECT.json\<close> lists them with reasons.
\<close>

end
